(* ===== verification/Prelude.thy ===== *)
theory Prelude
  imports Complex_Main "HOL-Library.Sublist" "HOL-Library.Char_ord"
    "HOL-Library.List_Lexorder" "HOL-Library.Product_Lexorder"
begin

text \<open>
  Shared vocabulary of the development: the theorem collections the component proofs draw
  on, Python's string operations that the sources use, and the small combinators for
  fallible steps and for database transactions.

  Python text is modelled as its UTF-8 encoding, one \<open>char\<close> per byte. Substring search,
  prefixes, equality and stripping agree with Python's on valid UTF-8, because UTF-8 is
  self-synchronising. Case mapping is the ASCII one.
\<close>

named_theorems row_simps "equations of the table operations"
named_theorems err_simps "equations and splits of fallible steps"
named_theorems inv_intros "preservation rules of invariants"

section \<open>Strings\<close>

definition utf8 :: "nat list \<Rightarrow> string" where
  "utf8 bs = map char_of bs"

text \<open>Python's \<open>str.isspace\<close> characters, each as its UTF-8 encoding.\<close>

definition py_whitespace :: "string list" where
  "py_whitespace = map utf8
     [[9], [10], [11], [12], [13], [28], [29], [30], [31], [32],
      [194, 133], [194, 160], [225, 154, 128],
      [226, 128, 128], [226, 128, 129], [226, 128, 130], [226, 128, 131], [226, 128, 132],
      [226, 128, 133], [226, 128, 134], [226, 128, 135], [226, 128, 136], [226, 128, 137],
      [226, 128, 138], [226, 128, 168], [226, 128, 169], [226, 128, 175], [226, 129, 159],
      [227, 128, 128]]"

lemma py_whitespace_nonempty: "w \<in> set py_whitespace \<Longrightarrow> 0 < length w"
  by (auto simp: py_whitespace_def utf8_def)

lemma py_whitespace_nth: "i < length py_whitespace \<Longrightarrow> py_whitespace ! i \<noteq> []"
  using py_whitespace_nonempty [OF nth_mem] by fastforce

function py_lstrip :: "string \<Rightarrow> string" where
  "py_lstrip s = (case find (\<lambda>w. prefix w s) py_whitespace of
     None \<Rightarrow> s
   | Some w \<Rightarrow> py_lstrip (drop (length w) s))"
  by pat_completeness auto
termination
  by (relation "measure length")
    (auto simp: find_Some_iff prefix_def dest: py_whitespace_nth)

function py_rstrip :: "string \<Rightarrow> string" where
  "py_rstrip s = (case find (\<lambda>w. suffix w s) py_whitespace of
     None \<Rightarrow> s
   | Some w \<Rightarrow> py_rstrip (take (length s - length w) s))"
  by pat_completeness auto
termination
  by (relation "measure length")
    (auto simp: find_Some_iff suffix_def dest: py_whitespace_nth)

declare py_lstrip.simps [simp del] py_rstrip.simps [simp del]

definition py_strip :: "string \<Rightarrow> string" where
  "py_strip s = py_rstrip (py_lstrip s)"

text \<open>Text that starts and ends with a printable ASCII character is left alone.\<close>

definition printable :: "char \<Rightarrow> bool" where
  "printable c = (33 \<le> (of_char c :: nat) \<and> (of_char c :: nat) < 127)"

lemma py_whitespace_unprintable:
  "list_all (\<lambda>w. w \<noteq> [] \<and> \<not> printable (hd w) \<and> \<not> printable (last w)) py_whitespace"
  by code_simp

lemma find_none: "(\<And>x. x \<in> set xs \<Longrightarrow> \<not> p x) \<Longrightarrow> find p xs = None"
  by (simp add: find_None_iff)

lemma py_lstrip_printable [simp]: "printable c \<Longrightarrow> py_lstrip (c # s) = c # s"
proof -
  assume "printable c"
  then have "find (\<lambda>w. prefix w (c # s)) py_whitespace = None"
    using py_whitespace_unprintable
    by (intro find_none) (auto simp: list_all_iff prefix_Cons)
  then show ?thesis by (subst py_lstrip.simps) simp
qed

lemma py_rstrip_printable: "s \<noteq> [] \<Longrightarrow> printable (last s) \<Longrightarrow> py_rstrip s = s"
proof -
  assume "s \<noteq> []" and "printable (last s)"
  then have "find (\<lambda>w. suffix w s) py_whitespace = None"
    using py_whitespace_unprintable
    by (intro find_none) (fastforce simp: list_all_iff suffix_def)
  then show ?thesis by (subst py_rstrip.simps) simp
qed

lemma py_strip_printable [simp]: "printable c \<Longrightarrow> printable (last (c # s)) \<Longrightarrow> py_strip (c # s) = c # s"
  unfolding py_strip_def by (simp add: py_rstrip_printable del: last.simps)

lemma py_strip_Nil [simp]: "py_strip [] = []"
proof -
  have "find (\<lambda>w. prefix w []) py_whitespace = None" "find (\<lambda>w. suffix w []) py_whitespace = None"
    using py_whitespace_unprintable by (auto intro!: find_none simp: list_all_iff)
  then show ?thesis by (simp add: py_strip_def py_lstrip.simps py_rstrip.simps)
qed

text \<open>Stripping twice strips once.\<close>

lemma py_lstrip_fix: "find (\<lambda>w. prefix w s) py_whitespace = None \<Longrightarrow> py_lstrip s = s"
  by (subst py_lstrip.simps) simp

lemma py_rstrip_fix: "find (\<lambda>w. suffix w s) py_whitespace = None \<Longrightarrow> py_rstrip s = s"
  by (subst py_rstrip.simps) simp

lemma py_lstrip_stops: "find (\<lambda>w. prefix w (py_lstrip s)) py_whitespace = None"
proof (induction s rule: py_lstrip.induct)
  case (1 s)
  then show ?case by (subst py_lstrip.simps) (cases "find (\<lambda>w. prefix w s) py_whitespace"; simp)
qed

lemma py_rstrip_stops: "find (\<lambda>w. suffix w (py_rstrip s)) py_whitespace = None"
proof (induction s rule: py_rstrip.induct)
  case (1 s)
  then show ?case by (subst py_rstrip.simps) (cases "find (\<lambda>w. suffix w s) py_whitespace"; simp)
qed

lemma py_rstrip_prefix: "prefix (py_rstrip s) s"
proof (induction s rule: py_rstrip.induct)
  case (1 s)
  then show ?case
    by (subst py_rstrip.simps) (auto split: option.splits intro: prefix_order.trans take_is_prefix)
qed

lemma py_lstrip_shorter: "length (py_lstrip s) \<le> length s"
proof (induction s rule: py_lstrip.induct)
  case (1 s)
  show ?case
  proof (cases "find (\<lambda>w. prefix w s) py_whitespace")
    case (Some w)
    then have "py_lstrip s = py_lstrip (drop (length w) s)"
      by (subst py_lstrip.simps) simp
    then show ?thesis using 1 [OF Some] by simp
  qed (simp add: py_lstrip_fix)
qed

lemma py_strip_strip [simp]: "py_strip (py_strip s) = py_strip s"
proof -
  let ?t = "py_rstrip (py_lstrip s)"
  have "find (\<lambda>w. prefix w ?t) py_whitespace = None"
    using py_lstrip_stops [of s] py_rstrip_prefix [of "py_lstrip s"]
    by (auto simp: find_None_iff intro: prefix_order.trans)
  then show ?thesis
    by (simp add: py_strip_def py_lstrip_fix py_rstrip_fix [OF py_rstrip_stops])
qed

subsection \<open>Code points\<close>

text \<open>A byte that continues a code point.\<close>

definition continues :: "char \<Rightarrow> bool" where
  "continues c = (128 \<le> (of_char c :: nat) \<and> (of_char c :: nat) < 192)"

function code_points :: "string \<Rightarrow> string list" where
  "code_points [] = []"
| "code_points (c # s) = (c # takeWhile continues s) # code_points (dropWhile continues s)"
  by pat_completeness auto
termination
  by (relation "measure length") (auto simp: le_imp_less_Suc length_dropWhile_le)

text \<open>Python's \<open>len\<close> counts code points, that is the bytes that do not continue one; the slice \<open>s[:n]\<close>.\<close>

definition py_len :: "string \<Rightarrow> nat" where
  "py_len s = length (filter (\<lambda>c. \<not> (128 \<le> (of_char c :: nat) \<and> (of_char c :: nat) < 192)) s)"

fun clip :: "nat \<Rightarrow> string \<Rightarrow> string" where
  "clip n [] = []"
| "clip n (c # s) = (if continues c then c # clip n s
     else if n = 0 then [] else c # clip (n - 1) s)"

lemma py_len_simps: "py_len [] = 0" "py_len (c # s) = (if continues c then py_len s else Suc (py_len s))"
  by (auto simp: py_len_def continues_def)

lemma clip_short [simp]: "py_len s \<le> n \<Longrightarrow> clip n s = s"
  by (induction n s rule: clip.induct) (auto simp: py_len_simps split: if_splits)

lemma py_len_clip: "py_len (clip n s) \<le> n"
  by (induction n s rule: clip.induct) (auto simp: py_len_simps)

lemma clip_clip [simp]: "clip n (clip n s) = clip n s"
  by (rule clip_short [OF py_len_clip])

lemma py_len_le_length: "py_len s \<le> length s"
  by (simp add: py_len_def)

lemma clip_fits: "length s \<le> n \<Longrightarrow> clip n s = s"
  using py_len_le_length [of s] by simp

lemma clip_shorter: "n < py_len s \<Longrightarrow> length (clip n s) < length s"
  by (induction n s rule: clip.induct) (auto simp: py_len_simps split: if_splits)

lemma clip_prefix: "prefix (clip n s) s"
  by (induction n s rule: clip.induct) auto

lemma clip_subset: "set (clip n s) \<subseteq> set s"
  by (induction n s rule: clip.induct) auto

declare clip.simps(2) [simp del]

definition upper_char :: "char \<Rightarrow> char" where
  "upper_char c = (let n = (of_char c :: nat) in
     if 97 \<le> n \<and> n \<le> 122 then char_of (n - 32) else c)"

definition lower_char :: "char \<Rightarrow> char" where
  "lower_char c = (let n = (of_char c :: nat) in
     if 65 \<le> n \<and> n \<le> 90 then char_of (n + 32) else c)"

definition py_upper :: "string \<Rightarrow> string" where
  "py_upper s = map upper_char s"

definition py_lower :: "string \<Rightarrow> string" where
  "py_lower s = map lower_char s"

text \<open>\<open>needle in haystack\<close>.\<close>

definition py_in :: "string \<Rightarrow> string \<Rightarrow> bool" where
  "py_in needle haystack = sublist needle haystack"

lemma py_in_shorter [simp]: "length s < length w \<Longrightarrow> \<not> py_in w s"
  unfolding py_in_def using sublist_length_le by fastforce

text \<open>\<open>value or default\<close> on text, and the truth value of an optional text.\<close>

definition str_or :: "string \<Rightarrow> string \<Rightarrow> string" where
  "str_or s d = (if s = [] then d else s)"

definition opt_str :: "string option \<Rightarrow> string" where
  "opt_str v = (case v of None \<Rightarrow> [] | Some s \<Rightarrow> s)"

definition none_if_empty :: "string \<Rightarrow> string option" where
  "none_if_empty s = (if s = [] then None else Some s)"

definition truthy_str :: "string option \<Rightarrow> bool" where
  "truthy_str v = (opt_str v \<noteq> [])"

lemma str_or_simps [simp]: "str_or [] d = d" "s \<noteq> [] \<Longrightarrow> str_or s d = s"
  by (auto simp: str_or_def)

lemma opt_str_simps [simp]: "opt_str None = []" "opt_str (Some s) = s"
  by (auto simp: opt_str_def)

lemma truthy_str_simps [simp]: "truthy_str None = False" "truthy_str (Some s) = (s \<noteq> [])"
  by (auto simp: truthy_str_def)

lemma none_if_empty_simps [simp]: "none_if_empty [] = None" "s \<noteq> [] \<Longrightarrow> none_if_empty s = Some s"
  by (auto simp: none_if_empty_def)

lemma opt_str_none_if_empty [simp]: "opt_str (none_if_empty s) = s"
  by (cases "s = []") auto

text \<open>\<open>sorted(..., reverse=True)\<close>: descending, equal elements in their order.\<close>

definition sorted_desc :: "('a \<Rightarrow> 'k::linorder) \<Rightarrow> 'a list \<Rightarrow> 'a list" where
  "sorted_desc f xs = rev (sort_key f (rev xs))"

text \<open>\<open>int(row.get("version") or 1)\<close>.\<close>

definition int_or_one :: "int \<Rightarrow> int" where
  "int_or_one v = (if v = 0 then 1 else v)"

lemma int_or_one_pos [simp]: "0 < v \<Longrightarrow> int_or_one v = v"
  by (simp add: int_or_one_def)

section \<open>Fallible steps and transactions\<close>

text \<open>
  A handler body maps a database to an error or to the changed database with its answer.
  \<open>transaction\<close> is \<open>with db.transaction()\<close>: an exception rolls every change back.
\<close>

definition transaction ::
  "('db \<Rightarrow> 'e + ('db \<times> 'r)) \<Rightarrow> 'db \<Rightarrow> ('e + 'r) \<times> 'db" where
  "transaction body db = (case body db of
     Inl e \<Rightarrow> (Inl e, db)
   | Inr (db', r) \<Rightarrow> (Inr r, db'))"

text \<open>A guard that raises: the rest runs exactly when the guard fails.\<close>

lemma guard_Inr_iff [err_simps]: "(if b then Inl x else r) = Inr y \<longleftrightarrow> \<not> b \<and> r = Inr y"
  by simp

lemma transaction_error [err_simps]: "body db = Inl e \<Longrightarrow> transaction body db = (Inl e, db)"
  by (simp add: transaction_def)

lemma transaction_ok [err_simps]:
  "body db = Inr (db', r) \<Longrightarrow> transaction body db = (Inr r, db')"
  by (simp add: transaction_def)

lemma transaction_cases:
  obtains (failed) e where "body db = Inl e" "transaction body db = (Inl e, db)"
  | (succeeded) db' r where "body db = Inr (db', r)" "transaction body db = (Inr r, db')"
proof (cases "body db")
  case (Inl e)
  then show ?thesis by (intro failed) (auto simp: transaction_def)
next
  case (Inr p)
  then show ?thesis by (cases p) (auto intro!: succeeded simp: transaction_def)
qed

lemma transaction_Inr_iff:
  "transaction body db = (Inr r, db') \<longleftrightarrow> body db = Inr (db', r)"
  by (auto simp: transaction_def split: sum.splits)

lemma transaction_Inl_iff:
  "transaction body db = (Inl e, db') \<longleftrightarrow> body db = Inl e \<and> db' = db"
  by (auto simp: transaction_def split: sum.splits)

end
