(* ===== verification/Py_Values.thy ===== *)
theory Py_Values
  imports Prelude
begin

text \<open>
  JSON-like Python values, for the parts of the program that work on untyped payloads:
  truth value, \<open>dict.get\<close>, \<open>str\<close> and \<open>int\<close>. A dict is the list of its items
  in insertion order. Floats do not occur in these payloads.
\<close>

datatype pyval =
    PNone
  | PBool bool
  | PInt int
  | PStr string
  | PList "pyval list"
  | PDict "(string \<times> pyval) list"

type_synonym pydict = "(string \<times> pyval) list"

fun truthy :: "pyval \<Rightarrow> bool" where
  "truthy PNone = False"
| "truthy (PBool b) = b"
| "truthy (PInt n) = (n \<noteq> 0)"
| "truthy (PStr s) = (s \<noteq> [])"
| "truthy (PList xs) = (xs \<noteq> [])"
| "truthy (PDict d) = (d \<noteq> [])"

definition dget :: "pydict \<Rightarrow> string \<Rightarrow> pyval" where
  "dget d k = (case map_of d k of None \<Rightarrow> PNone | Some v \<Rightarrow> v)"

definition py_or :: "pyval \<Rightarrow> pyval \<Rightarrow> pyval" where
  "py_or a b = (if truthy a then a else b)"

text \<open>Assignment \<open>d[k] = v\<close> keeps the position of an existing key.\<close>

fun dset :: "string \<Rightarrow> pyval \<Rightarrow> pydict \<Rightarrow> pydict" where
  "dset k v [] = [(k, v)]"
| "dset k v ((k', v') # d) = (if k = k' then (k, v) # d else (k', v') # dset k v d)"

fun ddel :: "string \<Rightarrow> pydict \<Rightarrow> pydict" where
  "ddel k [] = []"
| "ddel k ((k', v') # d) = (if k = k' then ddel k d else (k', v') # ddel k d)"

lemma dget_Nil [simp]: "dget [] k = PNone"
  by (simp add: dget_def)

lemma dget_Cons [simp]: "dget ((k', v) # d) k = (if k' = k then v else dget d k)"
  by (simp add: dget_def)

lemma dget_dset [simp]: "dget (dset k v d) k' = (if k' = k then v else dget d k')"
  by (induction k v d rule: dset.induct) auto

lemma dget_ddel [simp]: "dget (ddel k d) k' = (if k' = k then PNone else dget d k')"
  by (induction k d rule: ddel.induct) auto

section \<open>\<open>==\<close>\<close>

text \<open>A bool equals the integer it stands for; dicts are compared without regard to order.\<close>

definition num_of :: "pyval \<Rightarrow> int option" where
  "num_of v = (case v of PBool b \<Rightarrow> Some (if b then 1 else 0) | PInt i \<Rightarrow> Some i | _ \<Rightarrow> None)"

lemma zip_left_size [termination_simp]:
  "(a, b) \<in> set (zip xs ys) \<Longrightarrow> size a < Suc (size_list size xs)"
  using set_zip_leftD [of a b xs ys] size_list_estimation' [of a xs "size a" size] by fastforce

fun py_eq :: "pyval \<Rightarrow> pyval \<Rightarrow> bool" where
  "py_eq (PList xs) w = (case w of PList ys \<Rightarrow> length xs = length ys \<and> list_all (\<lambda>(x, y). py_eq x y) (zip xs ys)
     | _ \<Rightarrow> False)"
| "py_eq (PDict d) w = (case w of
       PDict d' \<Rightarrow> length d = length d'
         \<and> list_all (\<lambda>(k, v). case map_of d' k of None \<Rightarrow> False | Some v' \<Rightarrow> py_eq v v') d
     | _ \<Rightarrow> False)"
| "py_eq v w = (if num_of v \<noteq> None then num_of w = num_of v else w = v)"

section \<open>\<open>str\<close>\<close>

fun digits_of :: "nat \<Rightarrow> string" where
  "digits_of n = (if n < 10 then [char_of (48 + n)]
     else digits_of (n div 10) @ [char_of (48 + n mod 10)])"

declare digits_of.simps [simp del]

definition str_of_int :: "int \<Rightarrow> string" where
  "str_of_int i = (if i < 0 then CHR ''-'' # digits_of (nat (- i)) else digits_of (nat i))"

definition hex_digit :: "nat \<Rightarrow> char" where
  "hex_digit n = (if n < 10 then char_of (48 + n) else char_of (87 + n))"

definition repr_char :: "char \<Rightarrow> char \<Rightarrow> string" where
  "repr_char q c = (let n = (of_char c :: nat) in
     if c = CHR 0x5C then [CHR 0x5C, CHR 0x5C]
     else if c = q then [CHR 0x5C, q]
     else if n = 10 then [CHR 0x5C, CHR ''n'']
     else if n = 13 then [CHR 0x5C, CHR ''r'']
     else if n = 9 then [CHR 0x5C, CHR ''t'']
     else if n < 32 \<or> n = 127 then [CHR 0x5C, CHR ''x'', hex_digit (n div 16), hex_digit (n mod 16)]
     else [c])"

definition repr_str :: "string \<Rightarrow> string" where
  "repr_str s = (let q = (if CHR 0x27 \<in> set s \<and> CHR 0x22 \<notin> set s then CHR 0x22 else CHR 0x27)
     in q # concat (map (repr_char q) s) @ [q])"

fun join_with :: "string \<Rightarrow> string list \<Rightarrow> string" where
  "join_with sep [] = []"
| "join_with sep [x] = x"
| "join_with sep (x # y # xs) = x @ sep @ join_with sep (y # xs)"

fun py_repr :: "pyval \<Rightarrow> string" where
  "py_repr PNone = ''None''"
| "py_repr (PBool b) = (if b then ''True'' else ''False'')"
| "py_repr (PInt i) = str_of_int i"
| "py_repr (PStr s) = repr_str s"
| "py_repr (PList xs) = ''['' @ join_with '', '' (map py_repr xs) @ '']''"
| "py_repr (PDict d) = ''{'' @ join_with '', '' (map (\<lambda>(k, v). repr_str k @ '': '' @ py_repr v) d) @ ''}''"

definition py_str :: "pyval \<Rightarrow> string" where
  "py_str v = (case v of PStr s \<Rightarrow> s | _ \<Rightarrow> py_repr v)"

lemma py_str_PStr [simp]: "py_str (PStr s) = s"
  by (simp add: py_str_def)

text \<open>The idiom \<open>str(d.get(k) or "")\<close>, and with a trailing \<open>.strip()\<close>.\<close>

definition text_of :: "pyval \<Rightarrow> string" where
  "text_of v = (if truthy v then py_str v else [])"

definition stripped :: "pyval \<Rightarrow> string" where
  "stripped v = py_strip (text_of v)"

lemma text_of_simps [simp]: "text_of PNone = []" "text_of (PStr s) = s"
  by (auto simp: text_of_def)

definition opt_val :: "string option \<Rightarrow> pyval" where
  "opt_val v = (case v of None \<Rightarrow> PNone | Some s \<Rightarrow> PStr s)"

lemma text_of_opt_val [simp]: "text_of (opt_val v) = opt_str v"
  by (cases v) (auto simp: opt_val_def)

section \<open>\<open>int\<close>\<close>

definition is_digit :: "char \<Rightarrow> bool" where
  "is_digit c = (48 \<le> (of_char c :: nat) \<and> (of_char c :: nat) \<le> 57)"

text \<open>Decimal digits; a single underscore may stand between two digits.\<close>

fun read_digits :: "nat \<Rightarrow> string \<Rightarrow> nat option" where
  "read_digits acc [] = Some acc"
| "read_digits acc (c # cs) =
     (if is_digit c then read_digits (acc * 10 + (of_char c - 48)) cs
      else if c = CHR ''_'' then
        (case cs of
           [] \<Rightarrow> None
         | d # ds \<Rightarrow> if is_digit d then read_digits (acc * 10 + (of_char d - 48)) ds else None)
      else None)"

definition read_nat :: "string \<Rightarrow> nat option" where
  "read_nat s = (case s of [] \<Rightarrow> None
     | c # cs \<Rightarrow> if is_digit c then read_digits (of_char c - 48) cs else None)"

definition read_int :: "string \<Rightarrow> int option" where
  "read_int s = (case py_strip s of
     [] \<Rightarrow> None
   | c # cs \<Rightarrow>
       if c = CHR ''-'' then map_option (\<lambda>n. - int n) (read_nat cs)
       else if c = CHR ''+'' then map_option int (read_nat cs)
       else map_option int (read_nat (c # cs)))"

text \<open>\<open>int(v)\<close>: \<open>None\<close> stands for the \<open>TypeError\<close> or \<open>ValueError\<close> it raises.\<close>

definition py_int :: "pyval \<Rightarrow> int option" where
  "py_int v = (case v of
     PBool b \<Rightarrow> Some (if b then 1 else 0)
   | PInt i \<Rightarrow> Some i
   | PStr s \<Rightarrow> read_int s
   | _ \<Rightarrow> None)"

lemma py_int_PInt [simp]: "py_int (PInt i) = Some i"
  by (simp add: py_int_def)

text \<open>\<open>isinstance(v, dict)\<close>.\<close>

definition as_pydict :: "pyval \<Rightarrow> pydict option" where
  "as_pydict v = (case v of PDict d \<Rightarrow> Some d | _ \<Rightarrow> None)"

lemma as_pydict_simps [simp]:
  "as_pydict (PDict d) = Some d" "as_pydict PNone = None" "as_pydict (PStr s) = None"
  "as_pydict (PInt i) = None" "as_pydict (PBool b) = None" "as_pydict (PList xs) = None"
  by (auto simp: as_pydict_def)

text \<open>\<open>dict(v or {})\<close> on a value that is a dict or falsy; \<open>None\<close> where \<open>dict\<close> raises.\<close>

definition dict_or_empty :: "pyval \<Rightarrow> pydict option" where
  "dict_or_empty v = (if truthy v then as_pydict v else Some [])"

lemma dict_or_empty_PDict [simp]: "dict_or_empty (PDict d) = Some d"
  by (simp add: dict_or_empty_def)

end
