(* ===== verification/Tables.thy ===== *)
theory Tables
  imports Prelude
begin

text \<open>
  SQL tables. A table is the list of its rows in insertion order; the statements the
  sources use are a keyed fetch, an insert that fails on a duplicate primary key, and an
  update whose row count the caller inspects. The locale \<open>keyed_table\<close> states the
  contract a primary-keyed table gives its clients.
\<close>

section \<open>The statements\<close>

text \<open>\<open>SELECT ... WHERE p\<close> with \<open>fetchone\<close>, and \<open>UPDATE ... SET f WHERE p\<close> with its row count.\<close>

definition sql_first :: "('r \<Rightarrow> bool) \<Rightarrow> 'r list \<Rightarrow> 'r option" where
  "sql_first p rows = find p rows"

definition sql_exists :: "('r \<Rightarrow> bool) \<Rightarrow> 'r list \<Rightarrow> bool" where
  "sql_exists p rows = list_ex p rows"

definition sql_update :: "('r \<Rightarrow> bool) \<Rightarrow> ('r \<Rightarrow> 'r) \<Rightarrow> 'r list \<Rightarrow> 'r list" where
  "sql_update p f rows = map (\<lambda>r. if p r then f r else r) rows"

definition sql_rowcount :: "('r \<Rightarrow> bool) \<Rightarrow> 'r list \<Rightarrow> nat" where
  "sql_rowcount p rows = length (filter p rows)"

definition sql_delete :: "('r \<Rightarrow> bool) \<Rightarrow> 'r list \<Rightarrow> 'r list" where
  "sql_delete p rows = filter (\<lambda>r. \<not> p r) rows"

text \<open>\<open>INSERT\<close>: a duplicate key is an integrity error, here \<open>None\<close>.\<close>

definition sql_insert :: "('r \<Rightarrow> 'k) \<Rightarrow> 'r \<Rightarrow> 'r list \<Rightarrow> 'r list option" where
  "sql_insert key r rows = (if key r \<in> key ` set rows then None else Some (rows @ [r]))"

text \<open>\<open>ORDER BY k DESC LIMIT 1\<close>.\<close>

definition sql_latest :: "('r \<Rightarrow> 'o::linorder) \<Rightarrow> ('r \<Rightarrow> bool) \<Rightarrow> 'r list \<Rightarrow> 'r option" where
  "sql_latest ord p rows = (case rev (sort_key ord (filter p rows)) of
     [] \<Rightarrow> None | r # _ \<Rightarrow> Some r)"

definition sql_desc :: "('r \<Rightarrow> 'o::linorder) \<Rightarrow> ('r \<Rightarrow> bool) \<Rightarrow> 'r list \<Rightarrow> 'r list" where
  "sql_desc ord p rows = rev (sort_key ord (filter p rows))"

lemma sql_first_Some_iff:
  "sql_first p rows = Some r \<Longrightarrow> r \<in> set rows \<and> p r"
  unfolding sql_first_def find_Some_iff by auto

lemma sql_first_None_iff: "sql_first p rows = None \<longleftrightarrow> (\<forall>r\<in>set rows. \<not> p r)"
  unfolding sql_first_def find_None_iff by auto

lemma sql_exists_iff [simp]: "sql_exists p rows \<longleftrightarrow> (\<exists>r\<in>set rows. p r)"
  by (auto simp: sql_exists_def list_ex_iff)

lemma set_sql_update:
  "set (sql_update p f rows) = {if p r then f r else r | r. r \<in> set rows}"
  by (auto simp: sql_update_def)

lemma sql_update_id [row_simps]: "(\<And>r. r \<in> set rows \<Longrightarrow> \<not> p r) \<Longrightarrow> sql_update p f rows = rows"
  by (auto simp: sql_update_def intro: map_idI)

lemma sql_update_keys [row_simps]:
  "(\<And>r. p r \<Longrightarrow> key (f r) = key r) \<Longrightarrow> map key (sql_update p f rows) = map key rows"
  by (auto simp: sql_update_def)

lemma sql_rowcount_pos_iff: "0 < sql_rowcount p rows \<longleftrightarrow> (\<exists>r\<in>set rows. p r)"
  by (auto simp: sql_rowcount_def filter_empty_conv)

lemma sql_insert_Some_iff:
  "sql_insert key r rows = Some rows' \<longleftrightarrow> key r \<notin> key ` set rows \<and> rows' = rows @ [r]"
  by (auto simp: sql_insert_def)

lemma sql_latest_None_iff: "sql_latest ord p rows = None \<longleftrightarrow> (\<forall>r\<in>set rows. \<not> p r)"
proof -
  have "sql_latest ord p rows = None \<longleftrightarrow> rev (sort_key ord (filter p rows)) = []"
    by (simp add: sql_latest_def split: list.split)
  also have "\<dots> \<longleftrightarrow> (\<forall>r\<in>set rows. \<not> p r)"
    by (metis filter_empty_conv rev_is_Nil_conv set_empty set_sort)
  finally show ?thesis .
qed

lemma sql_latest_Some_in: "sql_latest ord p rows = Some r \<Longrightarrow> r \<in> set rows \<and> p r"
proof -
  assume "sql_latest ord p rows = Some r"
  then obtain xs where "rev (sort_key ord (filter p rows)) = r # xs"
    by (auto simp: sql_latest_def simp del: rev_eq_Cons_iff split: list.splits)
  then have "r \<in> set (rev (sort_key ord (filter p rows)))" by simp
  then show ?thesis by simp
qed

lemma set_sql_desc [simp]: "set (sql_desc ord p rows) = {r \<in> set rows. p r}"
  by (simp add: sql_desc_def)

section \<open>Unique keys\<close>

definition unique_key :: "('r \<Rightarrow> 'k) \<Rightarrow> 'r list \<Rightarrow> bool" where
  "unique_key key rows = distinct (map key rows)"

lemma unique_keyD: "unique_key key rows \<Longrightarrow> r \<in> set rows \<Longrightarrow> r' \<in> set rows \<Longrightarrow>
   key r = key r' \<Longrightarrow> r = r'"
  by (auto simp: unique_key_def distinct_map inj_on_def)

lemma unique_key_insert [inv_intros]:
  "unique_key key rows \<Longrightarrow> key r \<notin> key ` set rows \<Longrightarrow> unique_key key (rows @ [r])"
  by (auto simp: unique_key_def)

lemma unique_key_update [inv_intros]:
  "unique_key key rows \<Longrightarrow> (\<And>r. p r \<Longrightarrow> key (f r) = key r) \<Longrightarrow>
   unique_key key (sql_update p f rows)"
  by (simp add: unique_key_def sql_update_keys)

lemma sql_rowcount_unique:
  assumes "unique_key key rows" and "\<And>r. p r \<Longrightarrow> key r = k"
  shows "sql_rowcount p rows \<le> 1"
proof -
  have "distinct (map key (filter p rows))"
    using assms(1) by (simp add: unique_key_def distinct_map_filter)
  moreover have "set (map key (filter p rows)) \<subseteq> {k}"
    using assms(2) by auto
  ultimately have "length (map key (filter p rows)) \<le> card {k}"
    by (metis card_mono distinct_card finite.emptyI finite.insertI)
  then show ?thesis by (simp add: sql_rowcount_def)
qed

lemma sql_rowcount_one:
  assumes "unique_key key rows" and "\<And>r. p r \<Longrightarrow> key r = k" and "r \<in> set rows" and "p r"
  shows "sql_rowcount p rows = 1"
proof -
  have "0 < sql_rowcount p rows" using assms(3,4) by (auto simp: sql_rowcount_pos_iff)
  moreover have "sql_rowcount p rows \<le> 1" using assms(1,2) by (rule sql_rowcount_unique)
  ultimately show ?thesis by linarith
qed

section \<open>The contract of a keyed table\<close>

text \<open>
  What the repositories rely on, stated over any table type: a lookup after an insert or
  an update, and that both keep the keys unique.
\<close>

locale keyed_table =
  fixes look :: "'t \<Rightarrow> 'k \<Rightarrow> 'r option"
    and ins :: "'r \<Rightarrow> 't \<Rightarrow> 't option"
    and upd :: "'k \<Rightarrow> ('r \<Rightarrow> 'r) \<Rightarrow> 't \<Rightarrow> 't"
    and key :: "'r \<Rightarrow> 'k"
    and inv :: "'t \<Rightarrow> bool"
  assumes look_key: "look t k = Some r \<Longrightarrow> key r = k"
    and ins_fails: "inv t \<Longrightarrow> ins r t = None \<longleftrightarrow> look t (key r) \<noteq> None"
    and look_ins: "inv t \<Longrightarrow> ins r t = Some t' \<Longrightarrow>
      look t' k = (if k = key r then Some r else look t k)"
    and inv_ins: "inv t \<Longrightarrow> ins r t = Some t' \<Longrightarrow> inv t'"
    and look_upd: "inv t \<Longrightarrow> (\<And>r. look t k = Some r \<Longrightarrow> key (f r) = k) \<Longrightarrow>
      look (upd k f t) k' = (if k' = k then map_option f (look t k) else look t k')"
    and inv_upd: "inv t \<Longrightarrow> (\<And>r. look t k = Some r \<Longrightarrow> key (f r) = k) \<Longrightarrow> inv (upd k f t)"
begin

lemma look_ins_same: "inv t \<Longrightarrow> ins r t = Some t' \<Longrightarrow> look t' (key r) = Some r"
  by (simp add: look_ins)

lemma ins_keeps:
  assumes "inv t" and "ins r t = Some t'" and "look t k = Some x"
  shows "look t' k = Some x"
proof -
  have "look t (key r) = None" using ins_fails [OF assms(1), of r] assms(2) by simp
  with assms(3) have "k \<noteq> key r" by auto
  then show ?thesis using look_ins [OF assms(1,2)] assms(3) by simp
qed

text \<open>A second insert under the same key always fails.\<close>

lemma ins_once:
  assumes "inv t" and "ins r t = Some t'" and "key r' = key r"
  shows "ins r' t' = None"
  using assms ins_fails [OF inv_ins [OF assms(1,2)], of r'] look_ins_same [OF assms(1,2)]
  by simp

lemma upd_frame:
  assumes "inv t" and "\<And>r. look t k = Some r \<Longrightarrow> key (f r) = k" and "k' \<noteq> k"
  shows "look (upd k f t) k' = look t k'"
  using look_upd [OF assms(1,2)] assms(3) by simp

text \<open>
  A property of rows that an insert establishes and every update keeps holds of every row
  that is ever found.
\<close>

lemma upd_invariant:
  assumes "inv t" and "\<And>r. look t k = Some r \<Longrightarrow> key (f r) = k"
    and "\<And>k r. look t k = Some r \<Longrightarrow> P r" and "\<And>r. look t k = Some r \<Longrightarrow> P r \<Longrightarrow> P (f r)"
    and "look (upd k f t) k' = Some r"
  shows "P r"
proof (cases "k' = k")
  case True
  have "look (upd k f t) k = map_option f (look t k)"
    using look_upd [OF assms(1), of k f k] assms(2) by simp
  with True assms(5) obtain x where "look t k = Some x" and "r = f x" by auto
  with assms(3,4) show ?thesis by blast
next
  case False
  have "look (upd k f t) k' = look t k'"
    using assms(1,2) False by (rule upd_frame)
  with assms(5,3) show ?thesis by simp
qed

end

text \<open>The list tables meet the contract, for any key function.\<close>

definition tbl_look :: "('r \<Rightarrow> 'k) \<Rightarrow> 'r list \<Rightarrow> 'k \<Rightarrow> 'r option" where
  "tbl_look key rows k = sql_first (\<lambda>r. key r = k) rows"

definition tbl_upd :: "('r \<Rightarrow> 'k) \<Rightarrow> 'k \<Rightarrow> ('r \<Rightarrow> 'r) \<Rightarrow> 'r list \<Rightarrow> 'r list" where
  "tbl_upd key k f rows = sql_update (\<lambda>r. key r = k) f rows"

lemma tbl_look_key: "tbl_look key rows k = Some r \<Longrightarrow> key r = k"
  unfolding tbl_look_def using sql_first_Some_iff by fastforce

lemma tbl_look_in: "tbl_look key rows k = Some r \<Longrightarrow> r \<in> set rows"
  unfolding tbl_look_def using sql_first_Some_iff by fastforce

lemma tbl_look_None_iff: "tbl_look key rows k = None \<longleftrightarrow> k \<notin> key ` set rows"
  unfolding tbl_look_def sql_first_None_iff by auto

lemma tbl_look_Some_iff:
  "unique_key key rows \<Longrightarrow> tbl_look key rows k = Some r \<longleftrightarrow> r \<in> set rows \<and> key r = k"
proof
  assume u: "unique_key key rows" and r: "r \<in> set rows \<and> key r = k"
  from r have "k \<in> key ` set rows" by (intro image_eqI [of k key r]) simp_all
  then have "tbl_look key rows k \<noteq> None" by (simp add: tbl_look_None_iff)
  then obtain r' where r': "tbl_look key rows k = Some r'" by blast
  with r have "key r' = key r" using tbl_look_key [OF r'] by simp
  with u r r' have "r' = r" by (intro unique_keyD [OF u]) (auto dest: tbl_look_in)
  with r' show "tbl_look key rows k = Some r" by simp
qed (auto dest: tbl_look_in tbl_look_key)

lemma tbl_look_append [row_simps]:
  "tbl_look key (rows @ [r]) k =
     (case tbl_look key rows k of Some x \<Rightarrow> Some x | None \<Rightarrow> if key r = k then Some r else None)"
  by (induction rows) (auto simp: tbl_look_def sql_first_def)

lemma tbl_look_app: "tbl_look key rows k = Some r \<Longrightarrow> tbl_look key (rows @ more) k = Some r"
  by (induction rows) (auto simp: tbl_look_def sql_first_def split: if_splits)

lemma tbl_look_Cons [row_simps]:
  "tbl_look key (r # rows) k = (if key r = k then Some r else tbl_look key rows k)"
  by (simp add: tbl_look_def sql_first_def)

lemma tbl_upd_Cons [row_simps]:
  "tbl_upd key k f (r # rows) = (if key r = k then f r else r) # tbl_upd key k f rows"
  by (simp add: tbl_upd_def sql_update_def)

lemma tbl_upd_absent [row_simps]: "k \<notin> key ` set rows \<Longrightarrow> tbl_upd key k f rows = rows"
  unfolding tbl_upd_def by (rule sql_update_id) auto

lemma tbl_look_upd [row_simps]:
  assumes "unique_key key rows" and "\<And>r. tbl_look key rows k = Some r \<Longrightarrow> key (f r) = k"
  shows "tbl_look key (tbl_upd key k f rows) k' =
    (if k' = k then map_option f (tbl_look key rows k) else tbl_look key rows k')"
  using assms
proof (induction rows)
  case Nil
  then show ?case by (simp add: tbl_look_def tbl_upd_def sql_first_def sql_update_def)
next
  case (Cons r rows)
  show ?case
  proof (cases "key r = k")
    case True
    with Cons.prems(1) have "tbl_upd key k f rows = rows"
      by (intro tbl_upd_absent) (simp add: unique_key_def)
    moreover have "key (f r) = k" using Cons.prems(2) [of r] True by (simp add: tbl_look_Cons)
    ultimately show ?thesis using True by (simp add: tbl_look_Cons tbl_upd_Cons)
  next
    case False
    with Cons show ?thesis
      by (cases "k' = k") (simp_all add: tbl_look_Cons tbl_upd_Cons unique_key_def)
  qed
qed

lemma tbl_upd_unique:
  assumes "unique_key key rows" and "\<And>r. tbl_look key rows k = Some r \<Longrightarrow> key (f r) = k"
  shows "unique_key key (tbl_upd key k f rows)"
proof -
  have "r \<in> set rows \<Longrightarrow> key r = k \<Longrightarrow> key (f r) = k" for r
    using assms by (simp add: tbl_look_Some_iff)
  then have "map key (tbl_upd key k f rows) = map key rows"
    by (auto simp: tbl_upd_def sql_update_def)
  with assms(1) show ?thesis by (simp add: unique_key_def)
qed

lemma keyed_list_table:
  "keyed_table (tbl_look key) (sql_insert key) (tbl_upd key) key (unique_key key)"
proof
  show "tbl_look key t k = Some r \<Longrightarrow> key r = k" for t k r
    by (rule tbl_look_key)
  show "(sql_insert key r t = None) = (tbl_look key t (key r) \<noteq> None)" for r t
    by (auto simp: sql_insert_def tbl_look_None_iff)
  show "sql_insert key r t = Some t' \<Longrightarrow>
      tbl_look key t' k = (if k = key r then Some r else tbl_look key t k)" for r t t' k
    using tbl_look_None_iff [of key t k] tbl_look_key [of key t k]
    by (cases "tbl_look key t k") (auto simp: sql_insert_Some_iff tbl_look_append)
  show "unique_key key t \<Longrightarrow> sql_insert key r t = Some t' \<Longrightarrow> unique_key key t'" for r t t'
    by (auto simp: sql_insert_Some_iff intro: unique_key_insert)
  show "unique_key key t \<Longrightarrow> (\<And>r. tbl_look key t k = Some r \<Longrightarrow> key (f r) = k) \<Longrightarrow>
      tbl_look key (tbl_upd key k f t) k' =
      (if k' = k then map_option f (tbl_look key t k) else tbl_look key t k')" for t k f k'
    by (rule tbl_look_upd)
  show "unique_key key t \<Longrightarrow> (\<And>r. tbl_look key t k = Some r \<Longrightarrow> key (f r) = k) \<Longrightarrow>
      unique_key key (tbl_upd key k f t)" for t k f
    by (rule tbl_upd_unique)
qed

section \<open>Guarded updates of one row\<close>

text \<open>An \<open>UPDATE\<close> whose condition fixes the primary key touches at most the row with that key.\<close>

lemma sql_rowcount_look:
  assumes "unique_key key rows" and "\<And>r. p r \<Longrightarrow> key r = k"
  shows "sql_rowcount p rows = 1 \<longleftrightarrow> (\<exists>r. tbl_look key rows k = Some r \<and> p r)"
proof
  assume "sql_rowcount p rows = 1"
  then obtain r where "r \<in> set rows" "p r" using sql_rowcount_pos_iff [of p rows] by auto
  then show "\<exists>r. tbl_look key rows k = Some r \<and> p r"
    using assms tbl_look_Some_iff [OF assms(1)] by metis
next
  assume "\<exists>r. tbl_look key rows k = Some r \<and> p r"
  then obtain r where r: "tbl_look key rows k = Some r" "p r" by blast
  then have "r \<in> set rows" by (intro tbl_look_in)
  then show "sql_rowcount p rows = 1" using assms r by (intro sql_rowcount_one)
qed

lemma sql_update_one:
  assumes "unique_key key rows" and "\<And>r. p r \<Longrightarrow> key r = k"
    and "tbl_look key rows k = Some r0" and "p r0"
  shows "sql_update p f rows = tbl_upd key k f rows"
proof -
  have "p r \<longleftrightarrow> key r = k" if "r \<in> set rows" for r
    using assms that unique_keyD [OF assms(1) that tbl_look_in [OF assms(3)]] tbl_look_key [OF assms(3)]
    by metis
  then show ?thesis by (simp add: tbl_upd_def sql_update_def)
qed

lemma tbl_upd_const:
  assumes "unique_key key rows" and "tbl_look key rows k = Some r0"
  shows "tbl_upd key k f rows = tbl_upd key k (\<lambda>_. f r0) rows"
proof -
  have "r = r0" if "r \<in> set rows" "key r = k" for r
    using unique_keyD [OF assms(1) that(1) tbl_look_in [OF assms(2)]] that tbl_look_key [OF assms(2)]
    by simp
  then show ?thesis by (simp add: tbl_upd_def sql_update_def)
qed

end
