(* ===== verification/Biz_Model.thy ===== *)
theory Biz_Model
  imports Prelude Py_Values Tables
begin

text \<open>
  The data of the Business Service (\<open>business_service/database.py\<close>, \<open>security.py\<close>):
  the table rows as the schema declares them, the statuses, the authenticated actor, the
  errors a request can end in and the database state.

  Status columns hold text; the literals the code compares against are constructors, any
  other text is kept in a catch-all constructor. The clock, the generated identifiers and
  SHA-256 are inputs of a request (record \<open>env\<close>). Timestamps are compared only, so they
  are integers. Error messages are left out, status code and error code are kept.
\<close>

section \<open>Statuses\<close>

datatype order_status =
    ToShip | PaidUp | Shipped | InTransit | Delivering | Signed | Cancelled | Refunded
  | OtherOrderStatus string

datatype res_status =
    PendingReview | Approved | Rejected | Closed | Processing | Completed | Failed
  | PendingIssue | Issued | Pending | Accepted | Queued
  | OtherStatus string

datatype log_status =
    LogToShip | LogInTransit | LogDispatching | LogSigned | LogCancelled | OtherLog string

text \<open>A status column as text is empty only in the catch-all constructor.\<close>

definition status_opt :: "res_status \<Rightarrow> res_status option" where
  "status_opt s = (if s = OtherStatus [] then None else Some s)"

section \<open>Rows\<close>

record account =
  acc_user :: string
  acc_tenant :: string
  acc_role :: string
  acc_name :: string
  acc_permissions :: "string list option"

record product =
  prod_id :: string
  prod_name :: string
  prod_category :: "string option"
  prod_support_after_sales :: int
  prod_description :: "string option"

text \<open>
  \<open>signed_at\<close> is an ISO text; what the code derives from it is its UTC day number, or
  that it does not parse.
\<close>

datatype stamp = NoStamp | DayStamp int | BadStamp

record order =
  ord_id :: string
  ord_user :: string
  ord_tenant :: string
  ord_product :: string
  ord_product_name :: string
  ord_status :: order_status
  ord_amount :: rat
  ord_paid :: int
  ord_signed_at :: stamp
  ord_address :: string
  ord_version :: int
  ord_created :: int
  ord_updated :: int

record logistics =
  log_order :: string
  log_state :: log_status
  log_latest :: string
  log_eta :: "string option"
  log_updated :: int

record coupon =
  cou_id :: string
  cou_user :: string
  cou_title :: string

text \<open>
  The five resource tables and \<open>delivery_urges\<close> share their columns up to a few; one row
  type holds them all, and a column a table lacks is empty in its rows.
\<close>

datatype tbl = Refunds | AfterSales | Invoices | Complaints | Handoffs | Urges

record resource =
  res_id :: string
  res_order :: "string option"
  res_user :: string
  res_subject :: "string option"
  res_created_by :: "string option"
  res_tenant :: string
  res_reason :: string
  res_reason_code :: "string option"
  res_title :: "string option"
  res_amount :: "rat option"
  res_status :: res_status
  res_note :: "string option"
  res_reviewed_by :: "string option"
  res_reviewed_actor :: "string option"
  res_reviewed_at :: "int option"
  res_issued_at :: "int option"
  res_version :: int
  res_created :: int
  res_updated :: int

datatype any_status = OrderSt order_status | ResSt res_status

record audit =
  aud_tenant :: string
  aud_actor :: string
  aud_role :: string
  aud_subject :: "string option"
  aud_action :: string
  aud_command :: "string option"
  aud_rtype :: "string option"
  aud_rid :: "string option"
  aud_from :: "any_status option"
  aud_to :: "any_status option"
  aud_details :: pyval
  aud_request :: "string option"
  aud_key :: "string option"
  aud_created :: int

section \<open>Policy decisions and answers\<close>

datatype verdict = ALLOW_SUBMIT | REQUIRE_REVIEW | NEEDS_INPUT | DENY

text \<open>
  The dict a policy returns: \<open>reason_code\<close> is present on refusals, \<open>reason_codes\<close> on
  acceptances, \<open>required_inputs\<close> (here the names of the asked fields) on \<open>NEEDS_INPUT\<close>.
\<close>

record decision =
  dec_verdict :: verdict
  dec_can_submit :: bool
  dec_reason_code :: "string option"
  dec_reason_codes :: "string list"
  dec_inputs :: "string list"

record decorated = order +
  signed_days_ago :: "int option"
  paid_flag :: bool

datatype payload =
    OrderData decorated
  | ResourceData resource
  | CommandData resource "string list"

record response =
  resp_data :: payload
  resp_decision :: "decision option"
  resp_idempotent :: bool

record idem =
  idm_tenant :: string
  idm_actor :: string
  idm_command :: string
  idm_key :: string
  idm_hash :: string
  idm_response :: response
  idm_created :: int

section \<open>The database\<close>

record bizdb =
  accounts :: "account list"
  products :: "product list"
  orders :: "order list"
  logistics_rows :: "logistics list"
  coupons :: "coupon list"
  tables :: "tbl \<Rightarrow> resource list"
  idems :: "idem list"
  audits :: "audit list"

definition set_table :: "tbl \<Rightarrow> resource list \<Rightarrow> bizdb \<Rightarrow> bizdb" where
  "set_table t rows db = db\<lparr>tables := (tables db)(t := rows)\<rparr>"

lemma set_table_simps [simp]:
  "tables (set_table t rows db) = (tables db)(t := rows)"
  "accounts (set_table t rows db) = accounts db"
  "products (set_table t rows db) = products db"
  "orders (set_table t rows db) = orders db"
  "logistics_rows (set_table t rows db) = logistics_rows db"
  "coupons (set_table t rows db) = coupons db"
  "idems (set_table t rows db) = idems db"
  "audits (set_table t rows db) = audits db"
  by (auto simp: set_table_def)

section \<open>Errors, actor and request environment\<close>

text \<open>
  \<open>DomainError\<close> with its status and code, FastAPI's \<open>HTTPException\<close>, a violated SQL
  constraint, pydantic's rejection of a request body, a Python \<open>TypeError\<close>,
  \<open>ValueError\<close> or \<open>KeyError\<close> that no handler catches, and the \<open>NameError\<close> of an undefined global.
\<close>

datatype biz_error =
    DomainError nat "string option"
  | HttpError nat string
  | IntegrityError
  | ValidationError
  | ConversionError
  | NameError string

record actor =
  act_user :: string
  act_role :: string
  act_tenant :: string
  act_account :: string
  act_permissions :: "string list"
  act_request :: "string option"

text \<open>\<open>Actor.can\<close>: the role \<open>admin\<close> may do everything.\<close>

definition can :: "actor \<Rightarrow> string \<Rightarrow> bool" where
  "can a p = (if act_role a = ''admin'' then True else p \<in> set (act_permissions a))"

text \<open>What a request reads from the outside: clock, calendar day, a fresh id, the hash.\<close>

record env =
  env_now :: int
  env_today :: int
  env_id :: string
  env_sha :: "pyval \<Rightarrow> string"

definition new_id :: "env \<Rightarrow> string \<Rightarrow> string" where
  "new_id e pre = pre @ ''-'' @ env_id e"

end
