(* ===== verification/Lifecycles.thy ===== *)
theory Lifecycles
  imports Prelude
begin

text \<open>
  The contract every status field of the program is meant to obey: a step relation with
  sealed states that no step leaves, and, for the lifecycles that only move forward, a
  rank that every proper step lowers. The components interpret the locales on their own
  transition tables.
\<close>

locale sealed_lifecycle =
  fixes step :: "'s \<Rightarrow> 's \<Rightarrow> bool"
    and sealed :: "'s \<Rightarrow> bool"
  assumes sealed_step: "sealed s \<Longrightarrow> step s t \<Longrightarrow> t = s"
begin

lemma sealed_run: "step\<^sup>*\<^sup>* s t \<Longrightarrow> sealed s \<Longrightarrow> t = s"
  by (induction rule: rtranclp_induct) (auto dest: sealed_step)

text \<open>A run that ends in a state different from a sealed one never went through it.\<close>

lemma sealed_once: "step\<^sup>*\<^sup>* s t \<Longrightarrow> step\<^sup>*\<^sup>* t u \<Longrightarrow> sealed t \<Longrightarrow> u = t"
  by (blast dest: sealed_run)

end

locale forward_lifecycle = sealed_lifecycle +
  fixes rank :: "'s \<Rightarrow> nat"
  assumes rank_step: "step s t \<Longrightarrow> t \<noteq> s \<Longrightarrow> rank t < rank s"
begin

lemma rank_run: "step\<^sup>*\<^sup>* s t \<Longrightarrow> rank t \<le> rank s"
proof (induction rule: rtranclp_induct)
  case base
  show ?case by simp
next
  case (step t u)
  then show ?case using rank_step [of t u] by (cases "u = t") auto
qed

text \<open>No state is ever visited again once it has been left.\<close>

lemma no_return:
  assumes "step s t" and "t \<noteq> s" and "step\<^sup>*\<^sup>* t u"
  shows "u \<noteq> s"
  using rank_step [OF assms(1,2)] rank_run [OF assms(3)] by auto

text \<open>A path of proper steps is no longer than the rank of its first state.\<close>

fun proper_path :: "'s \<Rightarrow> 's list \<Rightarrow> bool" where
  "proper_path s [] = True"
| "proper_path s (t # ts) = (step s t \<and> t \<noteq> s \<and> proper_path t ts)"

lemma proper_path_length: "proper_path s ts \<Longrightarrow> length ts \<le> rank s"
proof (induction ts arbitrary: s)
  case Nil
  then show ?case by simp
next
  case (Cons t ts)
  then have "length ts \<le> rank t" and "rank t < rank s" by (auto intro: rank_step)
  then show ?case by simp
qed

end

end
