(* ===== verification/Biz_Domain.thy ===== *)
theory Biz_Domain
  imports Biz_Model Lifecycles
begin

text \<open>
  \<open>business_service/domain.py\<close>: resource specifications with their transition tables,
  the tenant and role predicates, the resolution of the subject a request acts for, and
  the generic reviewed transition of a resource.
\<close>

section \<open>Resource specifications\<close>

record resource_spec =
  spec_type :: string
  spec_table :: tbl
  spec_order_field :: bool
  spec_review :: "string option"
  spec_transitions :: "(res_status \<times> (string \<times> res_status) list) list"
  spec_owner_commands :: "string list"

definition refund_transitions :: "(res_status \<times> (string \<times> res_status) list) list" where
  "refund_transitions =
    [(PendingReview, [(''approve'', Approved), (''reject'', Rejected), (''cancel'', Closed)]),
     (Approved, [(''start_processing'', Processing), (''cancel'', Closed)]),
     (Processing, [(''complete'', Completed), (''fail'', Failed)])]"

definition after_sales_transitions :: "(res_status \<times> (string \<times> res_status) list) list" where
  "after_sales_transitions =
    [(PendingReview, [(''approve'', Approved), (''reject'', Rejected), (''cancel'', Closed)]),
     (Approved, [(''start_processing'', Processing), (''complete'', Completed), (''cancel'', Closed)]),
     (Processing, [(''complete'', Completed), (''fail'', Failed)])]"

definition invoice_transitions :: "(res_status \<times> (string \<times> res_status) list) list" where
  "invoice_transitions =
    [(PendingIssue, [(''issue'', Issued), (''reject'', Rejected), (''cancel'', Closed)])]"

definition complaint_transitions :: "(res_status \<times> (string \<times> res_status) list) list" where
  "complaint_transitions =
    [(Pending, [(''accept'', Accepted), (''close'', Closed)]),
     (Accepted, [(''start_processing'', Processing), (''close'', Closed)]),
     (Processing, [(''complete'', Completed), (''close'', Closed)])]"

definition handoff_transitions :: "(res_status \<times> (string \<times> res_status) list) list" where
  "handoff_transitions =
    [(Queued, [(''accept'', Accepted), (''close'', Closed)]),
     (Accepted, [(''start_processing'', Processing), (''resolve'', Completed), (''close'', Closed)]),
     (Processing, [(''resolve'', Completed), (''close'', Closed)])]"

definition resource_specs :: "(string \<times> resource_spec) list" where
  "resource_specs =
    [(''refund'',
      \<lparr>spec_type = ''refund'', spec_table = Refunds, spec_order_field = True,
       spec_review = Some ''refund:review'', spec_transitions = refund_transitions,
       spec_owner_commands = [''cancel'']\<rparr>),
     (''after_sales'',
      \<lparr>spec_type = ''after_sales'', spec_table = AfterSales, spec_order_field = True,
       spec_review = Some ''after_sales:review'', spec_transitions = after_sales_transitions,
       spec_owner_commands = [''cancel'']\<rparr>),
     (''invoice'',
      \<lparr>spec_type = ''invoice'', spec_table = Invoices, spec_order_field = True,
       spec_review = Some ''invoice:review'', spec_transitions = invoice_transitions,
       spec_owner_commands = [''cancel'']\<rparr>),
     (''complaint'',
      \<lparr>spec_type = ''complaint'', spec_table = Complaints, spec_order_field = False,
       spec_review = Some ''complaint:review'', spec_transitions = complaint_transitions,
       spec_owner_commands = []\<rparr>),
     (''handoff'',
      \<lparr>spec_type = ''handoff'', spec_table = Handoffs, spec_order_field = False,
       spec_review = Some ''support:handoff:review'', spec_transitions = handoff_transitions,
       spec_owner_commands = []\<rparr>)]"

definition spec_of :: "string \<Rightarrow> resource_spec option" where
  "spec_of rtype = map_of resource_specs rtype"

section \<open>Roles and tenants\<close>

definition is_platform_admin :: "actor \<Rightarrow> bool" where
  "is_platform_admin a =
     (act_role a = ''admin'' \<and> (act_tenant a = ''*'' \<or> act_tenant a = ''platform''))"

definition is_operator :: "actor \<Rightarrow> bool" where
  "is_operator a = (act_role a = ''operator'' \<or> act_role a = ''admin'')"

definition tenant_matches :: "actor \<Rightarrow> string \<Rightarrow> bool" where
  "tenant_matches a tenant = (is_platform_admin a \<or> str_or tenant ''default'' = act_tenant a)"

definition resolve_subject ::
  "bizdb \<Rightarrow> actor \<Rightarrow> string option \<Rightarrow> string \<Rightarrow> biz_error + string" where
  "resolve_subject db a requested permission =
    (let subject = str_or (py_strip (str_or (opt_str requested) (act_user a))) (act_user a) in
     case sql_first (\<lambda>r. acc_user r = subject) (accounts db) of
       None \<Rightarrow> Inl (DomainError 404 (Some ''SUBJECT_NOT_FOUND''))
     | Some row \<Rightarrow>
         if \<not> tenant_matches a (acc_tenant row)
         then Inl (DomainError 403 (Some ''CROSS_TENANT_SUBJECT''))
         else if subject \<noteq> act_user a \<and> \<not> can a permission
         then Inl (DomainError 403 (Some ''ON_BEHALF_DENIED''))
         else Inr subject)"

section \<open>Resource scope\<close>

record resource_scope =
  sc_type :: string
  sc_id :: string
  sc_tenant :: string
  sc_subject :: "string option"
  sc_status :: "res_status option"
  sc_version :: int
  sc_row :: resource

definition scope_from_row :: "string \<Rightarrow> string \<Rightarrow> resource \<Rightarrow> resource_scope" where
  "scope_from_row rtype rid row =
    \<lparr>sc_type = rtype, sc_id = rid,
     sc_tenant = str_or (res_tenant row) ''default'',
     sc_subject = none_if_empty (str_or (opt_str (res_subject row)) (res_user row)),
     sc_status = status_opt (res_status row),
     sc_version = int_or_one (res_version row),
     sc_row = row\<rparr>"

definition load_resource_scope ::
  "bizdb \<Rightarrow> actor \<Rightarrow> string \<Rightarrow> string \<Rightarrow> biz_error + (resource_spec \<times> resource_scope)" where
  "load_resource_scope db a rtype rid =
    (case spec_of rtype of
       None \<Rightarrow> Inl (DomainError 500 (Some ''UNKNOWN_RESOURCE''))
     | Some spec \<Rightarrow>
        (case tbl_look res_id (tables db (spec_table spec)) rid of
           None \<Rightarrow> Inl (DomainError 404 (Some ''RESOURCE_NOT_FOUND''))
         | Some row \<Rightarrow>
             if \<not> tenant_matches a (res_tenant row)
             then Inl (DomainError 404 (Some ''RESOURCE_NOT_FOUND''))
             else Inr (spec, scope_from_row rtype rid row)))"

text \<open>\<open>require_command_permission\<close>: the permission check, as the condition it does not raise on.\<close>

definition command_permitted :: "actor \<Rightarrow> resource_spec \<Rightarrow> resource_scope \<Rightarrow> string \<Rightarrow> bool" where
  "command_permitted a spec scope command =
    (if command \<in> set (spec_owner_commands spec) \<and> sc_subject scope = Some (act_user a) then True
     else (case spec_review spec of None \<Rightarrow> False | Some p \<Rightarrow> p \<noteq> [] \<and> can a p))"

definition require_command_permission ::
  "actor \<Rightarrow> resource_spec \<Rightarrow> resource_scope \<Rightarrow> string \<Rightarrow> biz_error + unit" where
  "require_command_permission a spec scope command =
    (if command_permitted a spec scope command then Inr ()
     else Inl (DomainError 403 (Some ''COMMAND_FORBIDDEN'')))"

text \<open>The commands the table offers in a status; an unknown or empty status offers none.\<close>

definition allowed_commands :: "resource_spec \<Rightarrow> res_status option \<Rightarrow> (string \<times> res_status) list" where
  "allowed_commands spec st =
    (case st of None \<Rightarrow> []
     | Some s \<Rightarrow> (case map_of (spec_transitions spec) s of None \<Rightarrow> [] | Some cs \<Rightarrow> cs))"

definition available_commands_for_row :: "actor \<Rightarrow> string \<Rightarrow> resource \<Rightarrow> string list" where
  "available_commands_for_row a rtype row =
    (case spec_of rtype of
       None \<Rightarrow> []
     | Some spec \<Rightarrow>
         let scope = scope_from_row rtype (res_id row) row in
         filter (\<lambda>c. command_permitted a spec scope c)
           (map fst (allowed_commands spec (sc_status scope))))"

fun add_new :: "'a list \<Rightarrow> 'a list \<Rightarrow> 'a list" where
  "add_new acc [] = acc"
| "add_new acc (x # xs) = add_new (if x \<in> set acc then acc else acc @ [x]) xs"

fun collect_states :: "res_status list \<Rightarrow> (res_status \<times> (string \<times> res_status) list) list \<Rightarrow> res_status list" where
  "collect_states acc [] = acc"
| "collect_states acc ((s, cs) # ts) = collect_states (add_new (add_new acc [s]) (map snd cs)) ts"

definition resource_status_options :: "string \<Rightarrow> res_status list" where
  "resource_status_options rtype =
    (case spec_of rtype of None \<Rightarrow> [] | Some spec \<Rightarrow> collect_states [] (spec_transitions spec))"

section \<open>The reviewed transition\<close>

text \<open>The columns an update writes; an invoice keeps or sets \<open>issued_at\<close> (\<open>COALESCE\<close>).\<close>

definition reviewed_row ::
  "env \<Rightarrow> actor \<Rightarrow> string \<Rightarrow> string \<Rightarrow> res_status \<Rightarrow> string option \<Rightarrow> int option \<Rightarrow> resource \<Rightarrow> resource" where
  "reviewed_row e a rtype command next note issued r =
    (let r' = r\<lparr>res_status := next, res_note := note, res_reviewed_by := Some (act_user a),
        res_reviewed_actor := Some (act_user a), res_reviewed_at := Some (env_now e),
        res_version := res_version r + 1, res_updated := env_now e\<rparr>
     in if rtype = ''invoice''
        then r'\<lparr>res_issued_at := (case issued of Some t \<Rightarrow> Some t | None \<Rightarrow> res_issued_at r)\<rparr>
        else r')"

definition issued_stamp :: "env \<Rightarrow> string \<Rightarrow> string \<Rightarrow> resource \<Rightarrow> int option" where
  "issued_stamp e rtype command row =
    (if rtype = ''invoice'' \<and> command = ''issue'' then Some (env_now e) else res_issued_at row)"

definition transition_match :: "resource_scope \<Rightarrow> int \<Rightarrow> resource \<Rightarrow> bool" where
  "transition_match scope expected r =
    (res_id r = sc_id scope \<and> res_tenant r = sc_tenant scope
     \<and> Some (res_status r) = sc_status scope \<and> res_version r = expected)"

definition transition_resource ::
  "env \<Rightarrow> actor \<Rightarrow> string \<Rightarrow> string \<Rightarrow> string \<Rightarrow> int \<Rightarrow> string option \<Rightarrow> bizdb
    \<Rightarrow> biz_error + (bizdb \<times> resource_scope \<times> resource)" where
  "transition_resource e a rtype rid command expected note db =
    (case load_resource_scope db a rtype rid of
       Inl err \<Rightarrow> Inl err
     | Inr (spec, scope) \<Rightarrow>
        (case require_command_permission a spec scope command of
           Inl err \<Rightarrow> Inl err
         | Inr _ \<Rightarrow>
             if expected \<noteq> sc_version scope then Inl (DomainError 409 (Some ''VERSION_CONFLICT''))
             else (case map_of (allowed_commands spec (sc_status scope)) command of
               None \<Rightarrow> Inl (DomainError 409 (Some ''INVALID_TRANSITION''))
             | Some next \<Rightarrow>
                 let issued = issued_stamp e rtype command (sc_row scope);
                     rows = tables db (spec_table spec);
                     p = transition_match scope expected;
                     rows' = sql_update p (reviewed_row e a rtype command next note issued) rows
                 in if sql_rowcount p rows \<noteq> 1
                    then Inl (DomainError 409 (Some ''TRANSITION_CONFLICT''))
                    else (case tbl_look res_id rows' rid of
                        None \<Rightarrow> Inl (DomainError 404 (Some ''RESOURCE_NOT_FOUND''))
                      | Some row \<Rightarrow> Inr (set_table (spec_table spec) rows' db, scope, row)))))"

section \<open>What a transition does\<close>

lemma spec_of_cases:
  assumes "spec_of rtype = Some spec"
  obtains "rtype = ''refund''" "spec_table spec = Refunds" "spec_transitions spec = refund_transitions"
  | "rtype = ''after_sales''" "spec_table spec = AfterSales" "spec_transitions spec = after_sales_transitions"
  | "rtype = ''invoice''" "spec_table spec = Invoices" "spec_transitions spec = invoice_transitions"
  | "rtype = ''complaint''" "spec_table spec = Complaints" "spec_transitions spec = complaint_transitions"
  | "rtype = ''handoff''" "spec_table spec = Handoffs" "spec_transitions spec = handoff_transitions"
  using assms by (auto simp: spec_of_def resource_specs_def split: if_splits)

lemma scope_from_row_simps [simp]:
  "sc_type (scope_from_row t i r) = t" "sc_id (scope_from_row t i r) = i"
  "sc_tenant (scope_from_row t i r) = str_or (res_tenant r) ''default''"
  "sc_status (scope_from_row t i r) = status_opt (res_status r)"
  "sc_version (scope_from_row t i r) = int_or_one (res_version r)"
  "sc_row (scope_from_row t i r) = r"
  by (simp_all add: scope_from_row_def)

lemma reviewed_row_simps [simp]:
  "res_id (reviewed_row e a rt c n note is r) = res_id r"
  "res_status (reviewed_row e a rt c n note is r) = n"
  "res_version (reviewed_row e a rt c n note is r) = res_version r + 1"
  "res_tenant (reviewed_row e a rt c n note is r) = res_tenant r"
  "res_order (reviewed_row e a rt c n note is r) = res_order r"
  "res_subject (reviewed_row e a rt c n note is r) = res_subject r"
  "res_user (reviewed_row e a rt c n note is r) = res_user r"
  "res_title (reviewed_row e a rt c n note is r) = res_title r"
  "res_reviewed_by (reviewed_row e a rt c n note is r) = Some (act_user a)"
  by (simp_all add: reviewed_row_def Let_def)

lemma load_resource_scope_Inr_iff:
  "load_resource_scope db a rtype rid = Inr (spec, scope) \<longleftrightarrow>
     spec_of rtype = Some spec \<and>
     (\<exists>row. tbl_look res_id (tables db (spec_table spec)) rid = Some row
        \<and> tenant_matches a (res_tenant row) \<and> scope = scope_from_row rtype rid row)"
  by (auto simp: load_resource_scope_def split: option.splits if_splits)

lemma allowed_commands_status:
  "map_of (allowed_commands spec (status_opt s)) c = Some n \<Longrightarrow> status_opt s = Some s"
  by (auto simp: allowed_commands_def status_opt_def split: if_splits)

lemma transition_match_scope:
  assumes "map_of (allowed_commands spec (status_opt (res_status old))) c = Some n"
    and "int_or_one (res_version old) = expected" and "res_id old = rid"
  shows "transition_match (scope_from_row rtype rid old) expected old \<longleftrightarrow>
     res_tenant old \<noteq> [] \<and> res_version old = expected \<and> expected \<noteq> 0"
  using assms allowed_commands_status [OF assms(1)]
  by (auto simp: transition_match_def str_or_def int_or_one_def split: if_splits)

lemma transition_resource_Inr_iff:
  assumes u: "unique_key res_id (tables db (spec_table spec))" and s: "spec_of rtype = Some spec"
  shows "transition_resource e a rtype rid command expected note db = Inr (db', scope, row) \<longleftrightarrow>
    (\<exists>old next. tbl_look res_id (tables db (spec_table spec)) rid = Some old
       \<and> tenant_matches a (res_tenant old) \<and> res_tenant old \<noteq> []
       \<and> scope = scope_from_row rtype rid old
       \<and> command_permitted a spec scope command
       \<and> res_version old = expected \<and> expected \<noteq> 0
       \<and> map_of (allowed_commands spec (status_opt (res_status old))) command = Some next
       \<and> row = reviewed_row e a rtype command next note
            (issued_stamp e rtype command old) old
       \<and> db' = set_table (spec_table spec)
            (tbl_upd res_id rid (\<lambda>_. row) (tables db (spec_table spec))) db)"
    (is "?L \<longleftrightarrow> ?R")
proof -
  let ?rows = "tables db (spec_table spec)"
  let ?sc = "\<lambda>old. scope_from_row rtype rid old"
  let ?f = "\<lambda>old next. reviewed_row e a rtype command next note (issued_stamp e rtype command old)"
  have m: "transition_match (?sc old) expected r \<Longrightarrow> res_id r = rid" for old r
    by (simp add: transition_match_def)
  have "?L \<longleftrightarrow> (\<exists>old next. tbl_look res_id ?rows rid = Some old
       \<and> tenant_matches a (res_tenant old) \<and> scope = ?sc old
       \<and> command_permitted a spec scope command \<and> expected = int_or_one (res_version old)
       \<and> map_of (allowed_commands spec (status_opt (res_status old))) command = Some next
       \<and> sql_rowcount (transition_match (?sc old) expected) ?rows = 1
       \<and> tbl_look res_id (sql_update (transition_match (?sc old) expected) (?f old next) ?rows) rid = Some row
       \<and> db' = set_table (spec_table spec)
            (sql_update (transition_match (?sc old) expected) (?f old next) ?rows) db)"
  proof (cases "tbl_look res_id ?rows rid")
    case None
    then show ?thesis by (simp add: transition_resource_def load_resource_scope_def s)
  next
    case (Some old)
    show ?thesis
    proof (cases "tenant_matches a (res_tenant old) \<and> command_permitted a spec (?sc old) command
        \<and> expected = int_or_one (res_version old)")
      case False
      with Some show ?thesis
        by (auto simp: transition_resource_def load_resource_scope_def require_command_permission_def s)
    next
      case True
      show ?thesis
      proof (cases "map_of (allowed_commands spec (status_opt (res_status old))) command")
        case None
        with Some True show ?thesis
          by (simp add: transition_resource_def load_resource_scope_def require_command_permission_def s)
      next
        case (Some n)
        let ?t = "sql_update (transition_match (?sc old) expected) (?f old n) ?rows"
        have "transition_resource e a rtype rid command expected note db =
          (if sql_rowcount (transition_match (?sc old) expected) ?rows \<noteq> 1
           then Inl (DomainError 409 (Some ''TRANSITION_CONFLICT''))
           else (case tbl_look res_id ?t rid of
               None \<Rightarrow> Inl (DomainError 404 (Some ''RESOURCE_NOT_FOUND''))
             | Some r \<Rightarrow> Inr (set_table (spec_table spec) ?t db, ?sc old, r)))"
          using Some True \<open>tbl_look res_id ?rows rid = Some old\<close>
          by (simp add: transition_resource_def load_resource_scope_def require_command_permission_def
              s Let_def split: option.split)
        with Some True \<open>tbl_look res_id ?rows rid = Some old\<close> show ?thesis
          by (cases "tbl_look res_id ?t rid") auto
      qed
    qed
  qed
  also have "\<dots> \<longleftrightarrow> ?R"
  proof (rule iff_exI, rule iff_exI, rule conj_cong [OF refl])
    fix old "next"
    assume l: "tbl_look res_id ?rows rid = Some old"
    have k: "res_id old = rid" by (rule tbl_look_key [OF l])
    have upd: "sql_update (transition_match (?sc old) expected) g ?rows = tbl_upd res_id rid (\<lambda>_. g old) ?rows"
      if "transition_match (?sc old) expected old" for g :: "resource \<Rightarrow> resource"
      using sql_update_one [where p = "transition_match (?sc old) expected" and f = g, OF u m l that]
        tbl_upd_const [OF u l, of g] by simp
    have cnt: "sql_rowcount (transition_match (?sc old) expected) ?rows = 1 \<longleftrightarrow>
        transition_match (?sc old) expected old"
      using sql_rowcount_look [where p = "transition_match (?sc old) expected" and k = rid, OF u m] l
      by auto
    have look: "tbl_look res_id (tbl_upd res_id rid (\<lambda>_. ?f old next old) ?rows) rid = Some (?f old next old)"
      using u l k by (subst tbl_look_upd) auto
    show "(tenant_matches a (res_tenant old) \<and> scope = ?sc old
       \<and> command_permitted a spec scope command \<and> expected = int_or_one (res_version old)
       \<and> map_of (allowed_commands spec (status_opt (res_status old))) command = Some next
       \<and> sql_rowcount (transition_match (?sc old) expected) ?rows = 1
       \<and> tbl_look res_id (sql_update (transition_match (?sc old) expected) (?f old next) ?rows) rid = Some row
       \<and> db' = set_table (spec_table spec)
            (sql_update (transition_match (?sc old) expected) (?f old next) ?rows) db) \<longleftrightarrow>
      (tenant_matches a (res_tenant old) \<and> res_tenant old \<noteq> [] \<and> scope = ?sc old
       \<and> command_permitted a spec scope command
       \<and> res_version old = expected \<and> expected \<noteq> 0
       \<and> map_of (allowed_commands spec (status_opt (res_status old))) command = Some next
       \<and> row = ?f old next old
       \<and> db' = set_table (spec_table spec) (tbl_upd res_id rid (\<lambda>_. row) ?rows) db)"
      (is "?A \<longleftrightarrow> ?B")
    proof
      assume A: ?A
      then have t: "transition_match (?sc old) expected old" using cnt by blast
      with A k have "res_tenant old \<noteq> [] \<and> res_version old = expected \<and> expected \<noteq> 0"
        using transition_match_scope [of spec old command "next" expected rid rtype] by metis
      with A upd [OF t, of "?f old next"] look show ?B by auto
    next
      assume B: ?B
      then have t: "transition_match (?sc old) expected old"
        using transition_match_scope [of spec old command "next" expected rid rtype] k
        by (metis int_or_one_def)
      with B upd [OF t, of "?f old next"] look cnt show ?A by (auto simp: int_or_one_def)
    qed
  qed
  finally show ?thesis .
qed

end
