(* ===== verification/Biz_Policy.thy ===== *)
theory Biz_Policy
  imports Biz_Domain
begin

text \<open>
  The refund and after-sales policies of \<open>business_service/domain.py\<close> and the order
  decoration of \<open>application/common.py\<close>. A policy reads five keys of the mapping it is
  given; \<open>policy_order\<close> holds what it finds there, and the two ways the code produces the
  mapping (the plain table row, the decorated row) are \<open>raw_view\<close> and \<open>decorated_view\<close>.
\<close>

section \<open>What a policy reads\<close>

record policy_order =
  pv_paid :: bool
  pv_status :: order_status
  pv_amount :: rat
  pv_name :: string
  pv_signed :: "int option"

text \<open>A row of the table has no \<open>signed_days_ago\<close>: \<open>order.get\<close> yields \<open>None\<close>.\<close>

definition raw_view :: "order \<Rightarrow> policy_order" where
  "raw_view o1 = \<lparr>pv_paid = (ord_paid o1 \<noteq> 0), pv_status = ord_status o1,
     pv_amount = ord_amount o1, pv_name = ord_product_name o1, pv_signed = None\<rparr>"

definition decorate_order :: "env \<Rightarrow> order \<Rightarrow> decorated" where
  "decorate_order e o1 =
     order.extend (o1\<lparr>ord_version := int_or_one (ord_version o1)\<rparr>)
       \<lparr>signed_days_ago =
          (case ord_signed_at o1 of
             DayStamp d \<Rightarrow> Some (max 0 (env_today e - d))
           | NoStamp \<Rightarrow> None
           | BadStamp \<Rightarrow> None),
        paid_flag = (ord_paid o1 \<noteq> 0)\<rparr>"

definition decorated_view :: "decorated \<Rightarrow> policy_order" where
  "decorated_view d = \<lparr>pv_paid = paid_flag d, pv_status = ord_status d,
     pv_amount = ord_amount d, pv_name = ord_product_name d, pv_signed = signed_days_ago d\<rparr>"

section \<open>The policies\<close>

text \<open>The substring that marks a custom-made product, three bytes per character.\<close>

definition custom_mark :: string where
  "custom_mark = utf8 [229, 174, 154, 229, 136, 182]"

definition special_reason_codes :: "string list" where
  "special_reason_codes = [''QUALITY_ISSUE'', ''SPEC_MISMATCH'', ''WRONG_ITEM'']"

definition quality_or_spec :: "string option \<Rightarrow> bool" where
  "quality_or_spec rc = (py_upper (py_strip (opt_str rc)) \<in> set special_reason_codes)"

definition supports_after_sales :: "product option \<Rightarrow> bool" where
  "supports_after_sales p = (case p of None \<Rightarrow> True | Some q \<Rightarrow> prod_support_after_sales q \<noteq> 0)"

definition product_category :: "product option \<Rightarrow> string" where
  "product_category p = (case p of None \<Rightarrow> [] | Some q \<Rightarrow> opt_str (prod_category q))"

definition is_custom :: "policy_order \<Rightarrow> product option \<Rightarrow> bool" where
  "is_custom v p = (py_in custom_mark (product_category p) \<or> py_in custom_mark (pv_name v))"

definition deny :: "string \<Rightarrow> decision" where
  "deny code = \<lparr>dec_verdict = DENY, dec_can_submit = False, dec_reason_code = Some code,
     dec_reason_codes = [], dec_inputs = []\<rparr>"

definition ask_reason_code :: decision where
  "ask_reason_code = \<lparr>dec_verdict = NEEDS_INPUT, dec_can_submit = False,
     dec_reason_code = Some ''REASON_CODE_REQUIRED'', dec_reason_codes = [],
     dec_inputs = [''reason_code'']\<rparr>"

definition accept :: "verdict \<Rightarrow> string list \<Rightarrow> decision" where
  "accept v codes = \<lparr>dec_verdict = v, dec_can_submit = True, dec_reason_code = None,
     dec_reason_codes = codes, dec_inputs = []\<rparr>"

definition refund_decision ::
  "policy_order \<Rightarrow> product option \<Rightarrow> string \<Rightarrow> bool \<Rightarrow> string option \<Rightarrow> decision" where
  "refund_decision v p reason active rc =
    (if \<not> pv_paid v then deny ''UNPAID''
     else if pv_status v \<in> {Cancelled, Refunded} then deny ''TERMINAL_ORDER''
     else if active then deny ''ACTIVE_REFUND_EXISTS''
     else if pv_status v \<in> {ToShip, PaidUp, Shipped, InTransit, Delivering}
     then deny ''ORDER_NOT_SIGNED''
     else let signed_days = (case pv_signed v of None \<Rightarrow> 0 | Some d \<Rightarrow> d);
              custom = is_custom v p
       in if \<not> supports_after_sales p \<and> \<not> quality_or_spec rc
          then (if py_strip (opt_str rc) = [] then ask_reason_code
                else deny ''PRODUCT_NOT_RETURNABLE'')
          else let codes = (if signed_days > 15 then [''SIGNED_OVER_15_DAYS''] else [])
                         @ (if pv_amount v \<ge> 1000 then [''HIGH_AMOUNT''] else [])
            in if custom \<and> \<not> quality_or_spec rc
               then (if py_strip (opt_str rc) = [] then ask_reason_code
                     else deny ''CUSTOM_PRODUCT_REASON'')
               else let codes' = codes @ (if custom then [''CUSTOM_PRODUCT''] else [])
                 in if codes' \<noteq> [] then accept REQUIRE_REVIEW codes'
                    else accept ALLOW_SUBMIT [])"

definition after_sales_decision ::
  "policy_order \<Rightarrow> product option \<Rightarrow> string \<Rightarrow> bool \<Rightarrow> string option \<Rightarrow> decision" where
  "after_sales_decision v p reason active rc =
    (if \<not> pv_paid v \<or> pv_status v \<in> {Cancelled, Refunded} then deny ''ORDER_NOT_ELIGIBLE''
     else if pv_status v \<noteq> Signed then deny ''ORDER_NOT_SIGNED''
     else if active then deny ''ACTIVE_AFTER_SALES_EXISTS''
     else if \<not> supports_after_sales p \<and> \<not> quality_or_spec rc
     then (if py_strip (opt_str rc) = [] then ask_reason_code else deny ''PRODUCT_NOT_SUPPORTED'')
     else accept ALLOW_SUBMIT [])"

section \<open>Their meaning\<close>

lemma decision_simps [simp]:
  "dec_can_submit (deny c) = False" "dec_verdict (deny c) = DENY"
  "dec_reason_code (deny c) = Some c" "dec_inputs (deny c) = []" "dec_reason_codes (deny c) = []"
  "dec_can_submit ask_reason_code = False" "dec_verdict ask_reason_code = NEEDS_INPUT"
  "dec_reason_code ask_reason_code = Some ''REASON_CODE_REQUIRED''"
  "dec_inputs ask_reason_code = [''reason_code'']" "dec_reason_codes ask_reason_code = []"
  "dec_can_submit (accept w cs) = True" "dec_verdict (accept w cs) = w"
  "dec_reason_code (accept w cs) = None" "dec_inputs (accept w cs) = []"
  "dec_reason_codes (accept w cs) = cs"
  by (simp_all add: deny_def ask_reason_code_def accept_def)

text \<open>A status in which a paid order may be refunded: signed, or one the code does not name.\<close>

definition refundable_status :: "order_status \<Rightarrow> bool" where
  "refundable_status s = (case s of Signed \<Rightarrow> True | OtherOrderStatus _ \<Rightarrow> True | _ \<Rightarrow> False)"

lemma refund_decision_can_submit:
  "dec_can_submit (refund_decision v p reason active rc) \<longleftrightarrow>
     pv_paid v \<and> refundable_status (pv_status v) \<and> \<not> active
     \<and> ((supports_after_sales p \<and> \<not> is_custom v p) \<or> quality_or_spec rc)"
  by (cases "pv_status v") (auto simp: refund_decision_def refundable_status_def Let_def)

lemma refund_decision_refusal:
  "\<not> dec_can_submit (refund_decision v p reason active rc) \<Longrightarrow>
   \<exists>c. dec_reason_code (refund_decision v p reason active rc) = Some c \<and> c \<noteq> []"
  by (auto simp: refund_decision_def Let_def split: if_splits)

lemma after_sales_decision_can_submit:
  "dec_can_submit (after_sales_decision v p reason active rc) \<longleftrightarrow>
     pv_paid v \<and> pv_status v = Signed \<and> \<not> active
     \<and> (supports_after_sales p \<or> quality_or_spec rc)"
  by (auto simp: after_sales_decision_def)

lemma after_sales_decision_refusal:
  "\<not> dec_can_submit (after_sales_decision v p reason active rc) \<Longrightarrow>
   \<exists>c. dec_reason_code (after_sales_decision v p reason active rc) = Some c \<and> c \<noteq> []"
  by (auto simp: after_sales_decision_def split: if_splits)

text \<open>An application under an accepted reason code can always be judged: no further input is asked.\<close>

lemma refund_decision_no_question:
  "py_strip (opt_str rc) \<noteq> [] \<Longrightarrow>
   dec_verdict (refund_decision v p reason active rc) \<noteq> NEEDS_INPUT"
  by (auto simp: refund_decision_def Let_def)

lemma after_sales_decision_no_question:
  "py_strip (opt_str rc) \<noteq> [] \<Longrightarrow>
   dec_verdict (after_sales_decision v p reason active rc) \<noteq> NEEDS_INPUT"
  by (auto simp: after_sales_decision_def)

lemma raw_view_simps [simp]:
  "pv_paid (raw_view x) = (ord_paid x \<noteq> 0)" "pv_status (raw_view x) = ord_status x"
  "pv_amount (raw_view x) = ord_amount x" "pv_name (raw_view x) = ord_product_name x"
  "pv_signed (raw_view x) = None"
  by (simp_all add: raw_view_def)

lemma decorate_order_simps [simp]:
  "ord_id (decorate_order e x) = ord_id x"
  "ord_user (decorate_order e x) = ord_user x"
  "ord_tenant (decorate_order e x) = ord_tenant x"
  "ord_status (decorate_order e x) = ord_status x"
  "ord_version (decorate_order e x) = int_or_one (ord_version x)"
  "paid_flag (decorate_order e x) = (ord_paid x \<noteq> 0)"
  "ord_amount (decorate_order e x) = ord_amount x"
  "ord_product_name (decorate_order e x) = ord_product_name x"
  "ord_address (decorate_order e x) = ord_address x"
  by (simp_all add: decorate_order_def order.extend_def)

end
