(* ===== verification/Biz_Core.thy ===== *)
theory Biz_Core
  imports Biz_Policy
begin

text \<open>
  \<open>application/core_service.py\<close> and \<open>application/common.py\<close>: the audit trail, the
  idempotent execution of a command, the order a request may see, and the visibility of
  other users' records. A handler is a function from the database to an error or to the
  changed database with its answer; \<open>transaction\<close> rolls an error back.
\<close>

type_synonym handler = "bizdb \<Rightarrow> biz_error + (bizdb \<times> response)"

definition ok_response :: "payload \<Rightarrow> response" where
  "ok_response d = \<lparr>resp_data = d, resp_decision = None, resp_idempotent = False\<rparr>"

section \<open>The audit trail\<close>

definition add_audit ::
  "env \<Rightarrow> actor \<Rightarrow> string \<Rightarrow> string \<Rightarrow> string \<Rightarrow> string option \<Rightarrow> string option
    \<Rightarrow> any_status option \<Rightarrow> any_status option \<Rightarrow> string option \<Rightarrow> pyval \<Rightarrow> bizdb \<Rightarrow> bizdb" where
  "add_audit e a action rtype rid subject command from_st to_st key details db =
     db\<lparr>audits := audits db @
       [\<lparr>aud_tenant = act_tenant a, aud_actor = act_user a, aud_role = act_role a,
         aud_subject = subject, aud_action = action, aud_command = command,
         aud_rtype = Some rtype, aud_rid = Some rid, aud_from = from_st, aud_to = to_st,
         aud_details = details, aud_request = act_request a, aud_key = key,
         aud_created = env_now e\<rparr>]\<rparr>"

lemma add_audit_simps [simp]:
  "accounts (add_audit e a ac rt ri su co fs ts k d db) = accounts db"
  "products (add_audit e a ac rt ri su co fs ts k d db) = products db"
  "orders (add_audit e a ac rt ri su co fs ts k d db) = orders db"
  "logistics_rows (add_audit e a ac rt ri su co fs ts k d db) = logistics_rows db"
  "coupons (add_audit e a ac rt ri su co fs ts k d db) = coupons db"
  "tables (add_audit e a ac rt ri su co fs ts k d db) = tables db"
  "idems (add_audit e a ac rt ri su co fs ts k d db) = idems db"
  by (simp_all add: add_audit_def)

lemma add_audit_appends:
  "\<exists>x. audits (add_audit e a ac rt ri su co fs ts k d db) = audits db @ [x] \<and>
     aud_tenant x = act_tenant a \<and> aud_actor x = act_user a \<and> aud_rid x = Some ri"
  by (simp add: add_audit_def)

section \<open>Idempotent execution\<close>

definition request_hash :: "env \<Rightarrow> actor \<Rightarrow> string \<Rightarrow> pyval \<Rightarrow> string" where
  "request_hash e a command body = env_sha e
     (PDict [(''tenant_id'', PStr (act_tenant a)), (''actor_id'', PStr (act_user a)),
       (''command'', PStr command), (''body'', body)])"

definition idem_key :: "idem \<Rightarrow> string \<times> string \<times> string \<times> string" where
  "idem_key r = (idm_tenant r, idm_actor r, idm_command r, idm_key r)"

definition replayed :: "response \<Rightarrow> response" where
  "replayed r = r\<lparr>resp_idempotent := True\<rparr>"

definition idem_row ::
  "env \<Rightarrow> actor \<Rightarrow> string \<Rightarrow> string \<Rightarrow> pyval \<Rightarrow> response \<Rightarrow> idem" where
  "idem_row e a command k body res =
     \<lparr>idm_tenant = act_tenant a, idm_actor = act_user a, idm_command = command, idm_key = k,
      idm_hash = request_hash e a command body, idm_response = res, idm_created = env_now e\<rparr>"

definition idempotent ::
  "env \<Rightarrow> actor \<Rightarrow> string \<Rightarrow> string option \<Rightarrow> pyval \<Rightarrow> handler \<Rightarrow> handler" where
  "idempotent e a command key body operation db =
    (if truthy_str key then
       (case tbl_look idem_key (idems db) (act_tenant a, act_user a, command, opt_str key) of
          Some row \<Rightarrow>
            if idm_hash row \<noteq> request_hash e a command body
            then Inl (DomainError 409 (Some ''IDEMPOTENCY_KEY_REUSED''))
            else Inr (db, replayed (idm_response row))
        | None \<Rightarrow>
            (case operation db of
               Inl err \<Rightarrow> Inl err
             | Inr (db', res) \<Rightarrow>
                 (case sql_insert idem_key (idem_row e a command (opt_str key) body res) (idems db') of
                    None \<Rightarrow> Inl IntegrityError
                  | Some rows \<Rightarrow> Inr (db'\<lparr>idems := rows\<rparr>, res))))
     else operation db)"

lemma idem_key_row [simp]:
  "idem_key (idem_row e a command k body res) = (act_tenant a, act_user a, command, k)"
  "idm_hash (idem_row e a command k body res) = request_hash e a command body"
  "idm_response (idem_row e a command k body res) = res"
  by (simp_all add: idem_row_def idem_key_def)

interpretation idem_table: keyed_table "tbl_look idem_key" "sql_insert idem_key"
  "tbl_upd idem_key" idem_key "unique_key idem_key"
  by (rule keyed_list_table)

text \<open>
  What an idempotent execution can be: the bare operation (no key), a replay that changes
  nothing, or the operation followed by its record.
\<close>

lemma idempotent_Inr_cases:
  assumes "idempotent e a command key body operation db = Inr (db', r)"
  obtains (bare) "\<not> truthy_str key" "operation db = Inr (db', r)"
  | (replay) row where "truthy_str key" "db' = db"
      "tbl_look idem_key (idems db) (act_tenant a, act_user a, command, opt_str key) = Some row"
      "idm_hash row = request_hash e a command body" "r = replayed (idm_response row)"
  | (fresh) db1 rows where "truthy_str key" "operation db = Inr (db1, r)"
      "tbl_look idem_key (idems db) (act_tenant a, act_user a, command, opt_str key) = None"
      "sql_insert idem_key (idem_row e a command (opt_str key) body r) (idems db1) = Some rows"
      "db' = db1\<lparr>idems := rows\<rparr>"
  using assms
  by (auto simp: idempotent_def split: if_splits option.splits sum.splits)

section \<open>Orders a request may see\<close>

definition row_order :: "bizdb \<Rightarrow> string \<Rightarrow> order option" where
  "row_order db oid = tbl_look ord_id (orders db) oid"

definition actor_can_read_any :: "actor \<Rightarrow> bool" where
  "actor_can_read_any a = (is_operator a \<and> can a ''business:read_any'')"

text \<open>\<open>_visible_subject\<close>: the subject filter of a query, \<open>None\<close> for no filter.\<close>

definition visible_subject :: "actor \<Rightarrow> string option \<Rightarrow> biz_error + string option" where
  "visible_subject a requested =
    (if truthy_str requested \<and> opt_str requested \<noteq> act_user a \<and> \<not> actor_can_read_any a
     then Inl (DomainError 403 (Some ''SUBJECT_READ_DENIED''))
     else Inr (if truthy_str requested then requested
               else if actor_can_read_any a then None else Some (act_user a)))"

definition owned_order :: "bizdb \<Rightarrow> actor \<Rightarrow> string \<Rightarrow> string option \<Rightarrow> biz_error + order" where
  "owned_order db a oid subject =
    (case row_order db oid of
       None \<Rightarrow> Inl (DomainError 404 (Some ''ORDER_NOT_FOUND''))
     | Some ro \<Rightarrow>
         if \<not> tenant_matches a (ord_tenant ro) then Inl (DomainError 404 (Some ''ORDER_NOT_FOUND''))
         else if truthy_str subject then
           (if ord_user ro \<noteq> opt_str subject
            then Inl (DomainError 403 (Some ''ORDER_SUBJECT_MISMATCH'')) else Inr ro)
         else if \<not> actor_can_read_any a \<and> ord_user ro \<noteq> act_user a
         then Inl (DomainError 403 (Some ''ORDER_FORBIDDEN''))
         else Inr ro)"

definition product_for_order :: "bizdb \<Rightarrow> order \<Rightarrow> product option" where
  "product_for_order db ro = sql_first (\<lambda>p. prod_id p = ord_product ro) (products db)"

definition is_active :: "res_status \<Rightarrow> bool" where
  "is_active s = (s \<notin> {Rejected, Closed, Completed, Failed})"

definition active_exists :: "bizdb \<Rightarrow> tbl \<Rightarrow> string \<Rightarrow> bool" where
  "active_exists db t oid =
     sql_exists (\<lambda>r. res_order r = Some oid \<and> is_active (res_status r)) (tables db t)"

lemma owned_order_Inr_iff:
  "owned_order db a oid subject = Inr ro \<longleftrightarrow>
     row_order db oid = Some ro \<and> tenant_matches a (ord_tenant ro)
     \<and> (if truthy_str subject then ord_user ro = opt_str subject
        else actor_can_read_any a \<or> ord_user ro = act_user a)"
  by (auto simp: owned_order_def split: option.splits if_splits)

lemma row_order_id: "row_order db oid = Some ro \<Longrightarrow> ord_id ro = oid \<and> ro \<in> set (orders db)"
  unfolding row_order_def using tbl_look_key tbl_look_in by fast

lemma visible_subject_Inr_iff:
  "visible_subject a requested = Inr s \<longleftrightarrow>
     (if truthy_str requested
      then (opt_str requested = act_user a \<or> actor_can_read_any a) \<and> s = requested
      else s = (if actor_can_read_any a then None else Some (act_user a)))"
  by (auto simp: visible_subject_def)

lemma resolve_subject_Inr_iff:
  "resolve_subject db a requested permission = Inr s \<longleftrightarrow>
     (\<exists>row. sql_first (\<lambda>r. acc_user r = s) (accounts db) = Some row
        \<and> tenant_matches a (acc_tenant row)
        \<and> s = str_or (py_strip (str_or (opt_str requested) (act_user a))) (act_user a)
        \<and> (s = act_user a \<or> can a permission))"
  by (auto simp: resolve_subject_def Let_def split: option.splits if_splits)

section \<open>Account reads\<close>

datatype me =
    MeActor string string string "string list"
  | MeAccount account

text \<open>\<open>auth_me\<close>: the stored account, or the transport identity. \<open>sorted(permissions)\<close>.\<close>

definition auth_me :: "actor \<Rightarrow> bizdb \<Rightarrow> biz_error + me" where
  "auth_me a db =
    (case sql_first (\<lambda>r. acc_user r = act_user a) (accounts db) of
       None \<Rightarrow> Inr (MeActor (act_user a) (act_tenant a) (act_role a)
                 (sorted_list_of_set (set (act_permissions a))))
     | Some row \<Rightarrow> (case acc_permissions row of
         None \<Rightarrow> Inl ConversionError
       | Some ps \<Rightarrow> Inr (MeAccount row)))"

definition require_any :: "actor \<Rightarrow> string list \<Rightarrow> biz_error + unit" where
  "require_any a ps = (if list_ex (can a) ps then Inr () else Inl (HttpError 403 ''business actor lacks required permission''))"

text \<open>
  \<open>accounts\<close> uses \<open>is_platform_admin\<close>, which \<open>core_service.py\<close> does not import: past the
  permission check every call raises \<open>NameError\<close>.
\<close>

definition accounts_handler :: "actor \<Rightarrow> bizdb \<Rightarrow> biz_error + account list" where
  "accounts_handler a db =
    (case require_any a [''business:read_any''] of
       Inl err \<Rightarrow> Inl err
     | Inr _ \<Rightarrow> Inl (NameError ''is_platform_admin''))"

end
