(* ===== verification/Biz_Orders.thy ===== *)
theory Biz_Orders
  imports Biz_Core
begin

text \<open>
  The order commands of \<open>application/order_operations.py\<close>: cancelling an order, changing
  its address and urging its delivery. Each handler is the operation the source defines,
  run under the idempotency record of its command name.
\<close>

definition cancellable :: "order_status \<Rightarrow> bool" where
  "cancellable s = (s \<in> {ToShip, PaidUp})"

section \<open>Cancelling\<close>

definition cancel_match :: "string \<Rightarrow> actor \<Rightarrow> int \<Rightarrow> order \<Rightarrow> bool" where
  "cancel_match oid a expected r =
     (ord_id r = oid \<and> ord_tenant r = act_tenant a \<and> cancellable (ord_status r)
      \<and> ord_version r = expected)"

definition cancelled_row :: "env \<Rightarrow> order \<Rightarrow> order" where
  "cancelled_row e r =
     r\<lparr>ord_status := Cancelled, ord_version := ord_version r + 1, ord_updated := env_now e\<rparr>"

text \<open>The two Chinese texts the update writes.\<close>

definition cancelled_text :: string where
  "cancelled_text = utf8 [231, 148, 168, 230, 136, 183, 229, 183, 178, 229, 143, 150, 230, 182, 136, 232, 174, 162, 229, 141, 149]"

definition no_delivery_text :: string where
  "no_delivery_text = utf8 [230, 151, 160, 233, 156, 128, 233, 133, 141, 233, 128, 129]"

definition cancelled_logistics :: "env \<Rightarrow> logistics \<Rightarrow> logistics" where
  "cancelled_logistics e l =
     l\<lparr>log_state := LogCancelled, log_latest := cancelled_text,
       log_eta := Some no_delivery_text, log_updated := env_now e\<rparr>"

definition cancel_operation ::
  "env \<Rightarrow> actor \<Rightarrow> string \<Rightarrow> string option \<Rightarrow> int \<Rightarrow> string option \<Rightarrow> handler" where
  "cancel_operation e a oid reason expected key db =
    (case owned_order db a oid None of
       Inl err \<Rightarrow> Inl err
     | Inr ro \<Rightarrow>
         if \<not> cancellable (ord_status ro)
         then Inl (DomainError 409 (Some ''ORDER_CANCEL_NOT_ALLOWED''))
         else if int_or_one (ord_version ro) \<noteq> expected
         then Inl (DomainError 409 (Some ''VERSION_CONFLICT''))
         else if sql_rowcount (cancel_match oid a expected) (orders db) \<noteq> 1
         then Inl (DomainError 409 (Some ''ORDER_CONFLICT''))
         else
           let db1 = db\<lparr>orders := sql_update (cancel_match oid a expected) (cancelled_row e) (orders db),
                 logistics_rows := sql_update (\<lambda>l. log_order l = oid) (cancelled_logistics e)
                   (logistics_rows db)\<rparr>
           in (case row_order db1 oid of
                 None \<Rightarrow> Inl (DomainError 404 (Some ''ORDER_NOT_FOUND''))
               | Some row \<Rightarrow>
                   Inr (add_audit e a ''order.cancel'' ''order'' oid (Some (ord_user ro)) None
                          (Some (OrderSt (ord_status ro))) (Some (OrderSt Cancelled)) key
                          (PDict [(''reason'', opt_val reason)]) db1,
                        ok_response (OrderData (decorate_order e row)))))"

definition cancel_order ::
  "env \<Rightarrow> actor \<Rightarrow> string \<Rightarrow> string option \<Rightarrow> int \<Rightarrow> string option \<Rightarrow> handler" where
  "cancel_order e a oid reason expected key =
     idempotent e a ''order.cancel'' key
       (PDict [(''order_id'', PStr oid), (''reason'', opt_val reason),
          (''expected_version'', PInt expected)])
       (cancel_operation e a oid reason expected key)"

section \<open>Changing the address\<close>

definition address_match :: "string \<Rightarrow> actor \<Rightarrow> int \<Rightarrow> order \<Rightarrow> bool" where
  "address_match oid a expected r =
     (ord_id r = oid \<and> ord_tenant r = act_tenant a \<and> ord_version r = expected)"

definition readdressed_row :: "env \<Rightarrow> string \<Rightarrow> order \<Rightarrow> order" where
  "readdressed_row e address r =
     r\<lparr>ord_address := py_strip address, ord_version := ord_version r + 1, ord_updated := env_now e\<rparr>"

definition address_operation ::
  "env \<Rightarrow> actor \<Rightarrow> string \<Rightarrow> string \<Rightarrow> int \<Rightarrow> string option \<Rightarrow> handler" where
  "address_operation e a oid address expected key db =
    (case owned_order db a oid None of
       Inl err \<Rightarrow> Inl err
     | Inr ro \<Rightarrow>
         if \<not> cancellable (ord_status ro)
         then Inl (DomainError 409 (Some ''ADDRESS_CHANGE_NOT_ALLOWED''))
         else if int_or_one (ord_version ro) \<noteq> expected
         then Inl (DomainError 409 (Some ''VERSION_CONFLICT''))
         else
           let p = address_match oid a (int_or_one (ord_version ro)) in
           if sql_rowcount p (orders db) \<noteq> 1
           then Inl (DomainError 409 (Some ''VERSION_CONFLICT''))
           else
             let db1 = db\<lparr>orders := sql_update p (readdressed_row e address) (orders db)\<rparr>
             in (case row_order db1 oid of
                   None \<Rightarrow> Inl (DomainError 404 (Some ''ORDER_NOT_FOUND''))
                 | Some row \<Rightarrow>
                     Inr (add_audit e a ''order.change_address'' ''order'' oid (Some (ord_user ro))
                            None None None key (PDict [(''address_changed'', PBool True)]) db1,
                          ok_response (OrderData (decorate_order e row)))))"

definition change_address ::
  "env \<Rightarrow> actor \<Rightarrow> string \<Rightarrow> string \<Rightarrow> int \<Rightarrow> string option \<Rightarrow> handler" where
  "change_address e a oid address expected key =
     idempotent e a ''order.change_address'' key
       (PDict [(''order_id'', PStr oid), (''address'', PStr address),
          (''expected_version'', PInt expected)])
       (address_operation e a oid address expected key)"

section \<open>Urging the delivery\<close>

text \<open>A row of a resource table with the columns a fresh record has.\<close>

definition fresh_row ::
  "env \<Rightarrow> actor \<Rightarrow> string \<Rightarrow> string option \<Rightarrow> string \<Rightarrow> string \<Rightarrow> string \<Rightarrow> res_status \<Rightarrow> resource" where
  "fresh_row e a rid oid subject tenant reason st =
     \<lparr>res_id = rid, res_order = oid, res_user = subject, res_subject = Some subject,
      res_created_by = Some (act_user a), res_tenant = tenant, res_reason = reason,
      res_reason_code = None, res_title = None, res_amount = None, res_status = st,
      res_note = None, res_reviewed_by = None, res_reviewed_actor = None, res_reviewed_at = None,
      res_issued_at = None, res_version = 1, res_created = env_now e, res_updated = env_now e\<rparr>"

lemma fresh_row_simps [simp]:
  "res_id (fresh_row e a rid oid subject tenant reason st) = rid"
  "res_order (fresh_row e a rid oid subject tenant reason st) = oid"
  "res_user (fresh_row e a rid oid subject tenant reason st) = subject"
  "res_subject (fresh_row e a rid oid subject tenant reason st) = Some subject"
  "res_tenant (fresh_row e a rid oid subject tenant reason st) = tenant"
  "res_status (fresh_row e a rid oid subject tenant reason st) = st"
  "res_version (fresh_row e a rid oid subject tenant reason st) = 1"
  "res_title (fresh_row e a rid oid subject tenant reason st) = None"
  "res_created_by (fresh_row e a rid oid subject tenant reason st) = Some (act_user a)"
  "res_reason_code (fresh_row e a rid oid subject tenant reason st) = None"
  by (simp_all add: fresh_row_def)

text \<open>
  The inserting handlers share their tail: insert, read the row back, audit, answer.
  \<open>store_fresh\<close> is that tail; a primary-key clash is an integrity error.
\<close>

definition store_fresh ::
  "env \<Rightarrow> actor \<Rightarrow> tbl \<Rightarrow> resource \<Rightarrow> string \<Rightarrow> string \<Rightarrow> res_status option \<Rightarrow> string option \<Rightarrow> pyval
    \<Rightarrow> decision option \<Rightarrow> handler" where
  "store_fresh e a t r action rtype to_st key details dec db =
    (case sql_insert res_id r (tables db t) of
       None \<Rightarrow> Inl IntegrityError
     | Some rows \<Rightarrow>
         Inr (add_audit e a action rtype (res_id r) (Some (res_user r)) None None
                (map_option ResSt to_st) key details (set_table t rows db),
              \<lparr>resp_data = ResourceData r, resp_decision = dec, resp_idempotent = False\<rparr>))"

definition urge_operation ::
  "env \<Rightarrow> actor \<Rightarrow> string \<Rightarrow> int \<Rightarrow> string option \<Rightarrow> handler" where
  "urge_operation e a oid expected key db =
    (case owned_order db a oid None of
       Inl err \<Rightarrow> Inl err
     | Inr ro \<Rightarrow>
         if \<not> cancellable (ord_status ro) then Inl (DomainError 409 (Some ''URGE_NOT_ALLOWED''))
         else if int_or_one (ord_version ro) \<noteq> expected
         then Inl (DomainError 409 (Some ''VERSION_CONFLICT''))
         else (case sql_latest res_created
                 (\<lambda>r. res_order r = Some oid \<and> res_tenant r = act_tenant a \<and> res_status r = Pending)
                 (tables db Urges) of
             Some active \<Rightarrow> Inr (db, ok_response (ResourceData active))
           | None \<Rightarrow>
               store_fresh e a Urges
                 (fresh_row e a (new_id e ''URGE'') (Some oid) (ord_user ro) (ord_tenant ro) [] Pending)
                 ''order.urge_delivery'' ''delivery_urge'' None key
                 (PDict [(''order_id'', PStr oid)]) None db))"

definition urge_delivery ::
  "env \<Rightarrow> actor \<Rightarrow> string \<Rightarrow> int \<Rightarrow> string option \<Rightarrow> handler" where
  "urge_delivery e a oid expected key =
     idempotent e a ''order.urge_delivery'' key
       (PDict [(''order_id'', PStr oid), (''expected_version'', PInt expected)])
       (urge_operation e a oid expected key)"

section \<open>What the order commands do\<close>

lemma cancelled_row_simps [simp]:
  "ord_id (cancelled_row e r) = ord_id r" "ord_status (cancelled_row e r) = Cancelled"
  "ord_version (cancelled_row e r) = ord_version r + 1"
  by (simp_all add: cancelled_row_def)

lemma store_fresh_Inr_iff:
  "store_fresh e a t r action rtype to_st key details dec db = Inr (db', res) \<longleftrightarrow>
     res_id r \<notin> res_id ` set (tables db t)
     \<and> db' = add_audit e a action rtype (res_id r) (Some (res_user r)) None None
          (map_option ResSt to_st) key details (set_table t (tables db t @ [r]) db)
     \<and> res = \<lparr>resp_data = ResourceData r, resp_decision = dec, resp_idempotent = False\<rparr>"
  by (auto simp: store_fresh_def sql_insert_def split: option.splits)

lemma cancel_operation_Inr_iff:
  "cancel_operation e a oid reason expected key db = Inr (db', res) \<longleftrightarrow>
    (\<exists>ro row. owned_order db a oid None = Inr ro \<and> cancellable (ord_status ro)
       \<and> int_or_one (ord_version ro) = expected
       \<and> sql_rowcount (cancel_match oid a expected) (orders db) = 1
       \<and> tbl_look ord_id (sql_update (cancel_match oid a expected) (cancelled_row e) (orders db)) oid
           = Some row
       \<and> db' = add_audit e a ''order.cancel'' ''order'' oid (Some (ord_user ro)) None
                 (Some (OrderSt (ord_status ro))) (Some (OrderSt Cancelled)) key
                 (PDict [(''reason'', opt_val reason)])
                 (db\<lparr>orders := sql_update (cancel_match oid a expected) (cancelled_row e) (orders db),
                   logistics_rows := sql_update (\<lambda>l. log_order l = oid) (cancelled_logistics e)
                     (logistics_rows db)\<rparr>)
       \<and> res = ok_response (OrderData (decorate_order e row)))"
  unfolding cancel_operation_def Let_def row_order_def
  by (auto split: sum.splits option.splits)

lemma address_operation_Inr_iff:
  "address_operation e a oid address expected key db = Inr (db', res) \<longleftrightarrow>
    (\<exists>ro row. owned_order db a oid None = Inr ro \<and> cancellable (ord_status ro)
       \<and> int_or_one (ord_version ro) = expected
       \<and> sql_rowcount (address_match oid a expected) (orders db) = 1
       \<and> tbl_look ord_id (sql_update (address_match oid a expected) (readdressed_row e address)
           (orders db)) oid = Some row
       \<and> db' = add_audit e a ''order.change_address'' ''order'' oid (Some (ord_user ro))
                 None None None key (PDict [(''address_changed'', PBool True)])
                 (db\<lparr>orders := sql_update (address_match oid a expected)
                   (readdressed_row e address) (orders db)\<rparr>)
       \<and> res = ok_response (OrderData (decorate_order e row)))"
  unfolding address_operation_def Let_def row_order_def
  by (auto split: sum.splits option.splits)

lemma urge_operation_Inr_cases:
  assumes "urge_operation e a oid expected key db = Inr (db', res)"
  obtains (existing) active where "db' = db" "res = ok_response (ResourceData active)"
      "active \<in> set (tables db Urges)" "res_order active = Some oid" "res_status active = Pending"
  | (created) ro where "owned_order db a oid None = Inr ro" "cancellable (ord_status ro)"
      "\<forall>r\<in>set (tables db Urges). \<not> (res_order r = Some oid \<and> res_tenant r = act_tenant a
         \<and> res_status r = Pending)"
      "store_fresh e a Urges
         (fresh_row e a (new_id e ''URGE'') (Some oid) (ord_user ro) (ord_tenant ro) [] Pending)
         ''order.urge_delivery'' ''delivery_urge'' None key
         (PDict [(''order_id'', PStr oid)]) None db = Inr (db', res)"
  using assms
  by (auto simp: urge_operation_def sql_latest_None_iff
      dest: sql_latest_Some_in split: sum.splits if_splits option.splits)

end
