(* ===== verification/Biz_Applications.thy ===== *)
theory Biz_Applications
  imports Biz_Orders
begin

text \<open>
  \<open>application/applications.py\<close> with the request bodies of \<open>api_models.py\<close>: refund and
  after-sales applications, invoices, complaints and human handoffs.
\<close>

section \<open>Request bodies\<close>

record application =
  app_order :: string
  app_version :: int
  app_subject :: "string option"
  app_user :: "string option"
  app_reason :: string
  app_code :: "string option"

definition reason_code_literals :: "string list" where
  "reason_code_literals = [''QUALITY_ISSUE'', ''SPEC_MISMATCH'', ''WRONG_ITEM'', ''OTHER'']"

text \<open>The field constraints of \<open>RefundCreateRequest\<close> and \<open>AfterSalesCreateRequest\<close>.\<close>

definition valid_application :: "application \<Rightarrow> bool" where
  "valid_application q =
     (1 \<le> app_version q \<and> 2 \<le> py_len (app_reason q) \<and> py_len (app_reason q) \<le> 1000
      \<and> (case app_code q of None \<Rightarrow> True | Some c \<Rightarrow> c \<in> set reason_code_literals))"

text \<open>An invoice request carries its title, a complaint or handoff only its reason.\<close>

definition valid_invoice :: "application \<Rightarrow> bool" where
  "valid_invoice q =
     (1 \<le> app_version q \<and> 2 \<le> py_len (app_reason q) \<and> py_len (app_reason q) \<le> 200)"

definition valid_complaint :: "application \<Rightarrow> bool" where
  "valid_complaint q = (2 \<le> py_len (app_reason q) \<and> py_len (app_reason q) \<le> 2000)"

definition valid_handoff :: "application \<Rightarrow> bool" where
  "valid_handoff q = (1 \<le> py_len (app_reason q) \<and> py_len (app_reason q) \<le> 2000)"

definition requested_subject :: "application \<Rightarrow> string option" where
  "requested_subject q = (if truthy_str (app_subject q) then app_subject q else app_user q)"

section \<open>Refund and after-sales applications\<close>

type_synonym policy = "policy_order \<Rightarrow> product option \<Rightarrow> string \<Rightarrow> bool \<Rightarrow> string option \<Rightarrow> decision"

definition verdict_text :: "verdict \<Rightarrow> string" where
  "verdict_text v = (case v of ALLOW_SUBMIT \<Rightarrow> ''ALLOW_SUBMIT'' | REQUIRE_REVIEW \<Rightarrow> ''REQUIRE_REVIEW''
     | NEEDS_INPUT \<Rightarrow> ''NEEDS_INPUT'' | DENY \<Rightarrow> ''DENY'')"

definition clean_code :: "string option \<Rightarrow> string option" where
  "clean_code c = none_if_empty (py_strip (opt_str c))"

definition application_operation ::
  "env \<Rightarrow> actor \<Rightarrow> application \<Rightarrow> tbl \<Rightarrow> string \<Rightarrow> string \<Rightarrow> policy \<Rightarrow> string option \<Rightarrow> handler" where
  "application_operation e a q t pre command policy key db =
    (case resolve_subject db a (requested_subject q)
            (takeWhile (\<lambda>c. c \<noteq> CHR ''.'') command @ '':create_on_behalf'') of
       Inl err \<Rightarrow> Inl err
     | Inr subject \<Rightarrow>
        (case owned_order db a (app_order q) (Some subject) of
           Inl err \<Rightarrow> Inl err
         | Inr ro \<Rightarrow>
             if int_or_one (ord_version ro) \<noteq> app_version q
             then Inl (DomainError 409 (Some ''VERSION_CONFLICT''))
             else
               let code = clean_code (app_code q);
                   d = policy (raw_view ro) (product_for_order db ro) (app_reason q)
                         (active_exists db t (app_order q)) code
               in if \<not> dec_can_submit d
                  then Inl (DomainError 409 (Some (str_or (opt_str (dec_reason_code d)) ''POLICY_DENIED'')))
                  else store_fresh e a t
                    ((fresh_row e a (new_id e pre) (Some (app_order q)) subject (ord_tenant ro)
                        (py_strip (app_reason q)) PendingReview)\<lparr>res_reason_code := code\<rparr>)
                    command (if t = Refunds then ''refund'' else ''after_sales'')
                    (Some PendingReview) key
                    (PDict [(''order_id'', PStr (app_order q)),
                       (''policy_decision'', PStr (verdict_text (dec_verdict d))),
                       (''reason_codes'', PList (map PStr (dec_reason_codes d)))])
                    (Some d) db))"

definition application_body :: "application \<Rightarrow> pyval" where
  "application_body q =
     PDict [(''order_id'', PStr (app_order q)), (''expected_version'', PInt (app_version q)),
       (''subject_user_id'', opt_val (requested_subject q)), (''reason'', PStr (app_reason q)),
       (''reason_code'', opt_val (clean_code (app_code q)))]"

definition create_order_application ::
  "env \<Rightarrow> actor \<Rightarrow> application \<Rightarrow> tbl \<Rightarrow> string \<Rightarrow> string \<Rightarrow> policy \<Rightarrow> string option \<Rightarrow> handler" where
  "create_order_application e a q t pre command policy key =
     idempotent e a command key (application_body q)
       (application_operation e a q t pre command policy key)"

definition create_refund :: "env \<Rightarrow> actor \<Rightarrow> application \<Rightarrow> string option \<Rightarrow> handler" where
  "create_refund e a q key =
     create_order_application e a q Refunds ''RF'' ''refund.apply'' refund_decision key"

definition create_after_sales :: "env \<Rightarrow> actor \<Rightarrow> application \<Rightarrow> string option \<Rightarrow> handler" where
  "create_after_sales e a q key =
     create_order_application e a q AfterSales ''AS'' ''after_sales.apply'' after_sales_decision key"

text \<open>\<open>refund_eligibility\<close>: the policy's answer on the row, with the decorated order.\<close>

definition refund_eligibility ::
  "env \<Rightarrow> actor \<Rightarrow> string \<Rightarrow> string \<Rightarrow> string option \<Rightarrow> bizdb \<Rightarrow> biz_error + (decorated \<times> decision)" where
  "refund_eligibility e a oid reason code db =
    (case owned_order db a oid None of
       Inl err \<Rightarrow> Inl err
     | Inr ro \<Rightarrow> Inr (decorate_order e ro,
         refund_decision (raw_view ro) (product_for_order db ro) reason
           (active_exists db Refunds oid) code))"

section \<open>Invoices\<close>

definition invoice_operation ::
  "env \<Rightarrow> actor \<Rightarrow> application \<Rightarrow> string option \<Rightarrow> handler" where
  "invoice_operation e a q key db =
    (case resolve_subject db a (requested_subject q) ''invoice:create_on_behalf'' of
       Inl err \<Rightarrow> Inl err
     | Inr subject \<Rightarrow>
        (case owned_order db a (app_order q) (Some subject) of
           Inl err \<Rightarrow> Inl err
         | Inr ro \<Rightarrow>
             if int_or_one (ord_version ro) \<noteq> app_version q
             then Inl (DomainError 409 (Some ''VERSION_CONFLICT''))
             else if ord_paid ro = 0 \<or> ord_status ro = Cancelled
             then Inl (DomainError 409 (Some ''INVOICE_NOT_ELIGIBLE''))
             else
               let title = py_strip (app_reason q) in
               (case sql_first (\<lambda>r. res_order r = Some (app_order q) \<and> res_tenant r = act_tenant a
                       \<and> res_title r = Some title) (tables db Invoices) of
                  Some existing \<Rightarrow> Inr (db, ok_response (ResourceData existing))
                | None \<Rightarrow>
                    if sql_exists (\<lambda>r. res_order r = Some (app_order q) \<and> res_title r = Some title)
                         (tables db Invoices)
                    then Inl IntegrityError
                    else store_fresh e a Invoices
                      ((fresh_row e a (new_id e ''INV'') (Some (app_order q)) subject (ord_tenant ro)
                          [] PendingIssue)\<lparr>res_title := Some title, res_amount := Some (ord_amount ro)\<rparr>)
                      ''invoice.apply'' ''invoice'' (Some PendingIssue) key
                      (PDict [(''order_id'', PStr (app_order q))]) None db)))"

definition create_invoice :: "env \<Rightarrow> actor \<Rightarrow> application \<Rightarrow> string option \<Rightarrow> handler" where
  "create_invoice e a q key =
     idempotent e a ''invoice.apply'' key
       (PDict [(''order_id'', PStr (app_order q)), (''expected_version'', PInt (app_version q)),
          (''subject_user_id'', opt_val (requested_subject q)), (''invoice_title'', PStr (app_reason q))])
       (invoice_operation e a q key)"

section \<open>Complaints and handoffs\<close>

definition subject_record_operation ::
  "env \<Rightarrow> actor \<Rightarrow> application \<Rightarrow> tbl \<Rightarrow> string \<Rightarrow> string \<Rightarrow> res_status \<Rightarrow> string \<Rightarrow> string option \<Rightarrow> handler" where
  "subject_record_operation e a q t pre command st permission key db =
    (case resolve_subject db a (requested_subject q) permission of
       Inl err \<Rightarrow> Inl err
     | Inr subject \<Rightarrow>
         store_fresh e a t
           (fresh_row e a (new_id e pre) None subject (act_tenant a) (py_strip (app_reason q)) st)
           command (if t = Complaints then ''complaint'' else ''handoff'') (Some st) key (PDict [])
           None db)"

definition create_subject_record ::
  "env \<Rightarrow> actor \<Rightarrow> application \<Rightarrow> tbl \<Rightarrow> string \<Rightarrow> string \<Rightarrow> res_status \<Rightarrow> string \<Rightarrow> string option \<Rightarrow> handler" where
  "create_subject_record e a q t pre command st permission key =
     idempotent e a command key
       (PDict [(''subject_user_id'', opt_val (requested_subject q)), (''reason'', PStr (app_reason q)),
          (''reason_code'', opt_val (clean_code (app_code q)))])
       (subject_record_operation e a q t pre command st permission key)"

text \<open>\<open>ComplaintCreateRequest\<close> has no \<open>reason_code\<close> attribute; \<open>getattr\<close> yields the empty text.\<close>

definition create_complaint :: "env \<Rightarrow> actor \<Rightarrow> application \<Rightarrow> string option \<Rightarrow> handler" where
  "create_complaint e a q key =
     create_subject_record e a (q\<lparr>app_code := None\<rparr>) Complaints ''CP'' ''complaint.create'' Pending
       ''complaint:create_on_behalf'' key"

definition live_handoff :: "resource \<Rightarrow> bool" where
  "live_handoff r = (res_status r \<in> {Queued, Accepted, Processing})"

definition handoff_operation ::
  "env \<Rightarrow> actor \<Rightarrow> application \<Rightarrow> string option \<Rightarrow> handler" where
  "handoff_operation e a q key db =
    (case resolve_subject db a (requested_subject q) ''support:handoff:create_on_behalf'' of
       Inl err \<Rightarrow> Inl err
     | Inr subject \<Rightarrow>
        (case sql_latest res_created
           (\<lambda>r. res_subject r = Some subject \<and> res_tenant r = act_tenant a \<and> live_handoff r)
           (tables db Handoffs) of
           Some active \<Rightarrow> Inr (db, ok_response (ResourceData active))
         | None \<Rightarrow>
             store_fresh e a Handoffs
               (fresh_row e a (new_id e ''HUM'') None subject (act_tenant a)
                  (py_strip (app_reason q)) Queued)
               ''handoff.create'' ''handoff'' (Some Queued) key (PDict []) None db))"

definition create_handoff :: "env \<Rightarrow> actor \<Rightarrow> application \<Rightarrow> string option \<Rightarrow> handler" where
  "create_handoff e a q key =
     idempotent e a ''handoff.create'' key
       (PDict [(''subject_user_id'', opt_val (requested_subject q)), (''reason'', PStr (app_reason q))])
       (handoff_operation e a q key)"

section \<open>Their successful runs\<close>

lemma application_operation_Inr_iff:
  "application_operation e a q t pre command policy key db = Inr (db', res) \<longleftrightarrow>
    (\<exists>subject ro d.
       resolve_subject db a (requested_subject q)
         (takeWhile (\<lambda>c. c \<noteq> CHR ''.'') command @ '':create_on_behalf'') = Inr subject
     \<and> owned_order db a (app_order q) (Some subject) = Inr ro
     \<and> int_or_one (ord_version ro) = app_version q
     \<and> d = policy (raw_view ro) (product_for_order db ro) (app_reason q)
             (active_exists db t (app_order q)) (clean_code (app_code q))
     \<and> dec_can_submit d
     \<and> store_fresh e a t
         ((fresh_row e a (new_id e pre) (Some (app_order q)) subject (ord_tenant ro)
             (py_strip (app_reason q)) PendingReview)\<lparr>res_reason_code := clean_code (app_code q)\<rparr>)
         command (if t = Refunds then ''refund'' else ''after_sales'') (Some PendingReview) key
         (PDict [(''order_id'', PStr (app_order q)),
            (''policy_decision'', PStr (verdict_text (dec_verdict d))),
            (''reason_codes'', PList (map PStr (dec_reason_codes d)))])
         (Some d) db = Inr (db', res))"
  unfolding application_operation_def Let_def by (auto split: sum.splits)

lemma invoice_operation_Inr_cases:
  assumes "invoice_operation e a q key db = Inr (db', res)"
  obtains (existing) r where "db' = db" "r \<in> set (tables db Invoices)"
      "res = ok_response (ResourceData r)"
      "res_order r = Some (app_order q)" "res_title r = Some (py_strip (app_reason q))"
  | (created) subject ro where
      "owned_order db a (app_order q) (Some subject) = Inr ro"
      "ord_paid ro \<noteq> 0" "ord_status ro \<noteq> Cancelled"
      "\<forall>r\<in>set (tables db Invoices).
         \<not> (res_order r = Some (app_order q) \<and> res_title r = Some (py_strip (app_reason q)))"
      "store_fresh e a Invoices
         ((fresh_row e a (new_id e ''INV'') (Some (app_order q)) subject (ord_tenant ro)
             [] PendingIssue)\<lparr>res_title := Some (py_strip (app_reason q)),
             res_amount := Some (ord_amount ro)\<rparr>)
         ''invoice.apply'' ''invoice'' (Some PendingIssue) key
         (PDict [(''order_id'', PStr (app_order q))]) None db = Inr (db', res)"
  using assms
  by (auto simp: invoice_operation_def Let_def dest: sql_first_Some_iff
      split: sum.splits if_splits option.splits)

lemma subject_record_operation_Inr_iff:
  "subject_record_operation e a q t pre command st permission key db = Inr (db', res) \<longleftrightarrow>
    (\<exists>subject. resolve_subject db a (requested_subject q) permission = Inr subject
     \<and> store_fresh e a t
         (fresh_row e a (new_id e pre) None subject (act_tenant a) (py_strip (app_reason q)) st)
         command (if t = Complaints then ''complaint'' else ''handoff'') (Some st) key (PDict [])
         None db = Inr (db', res))"
  unfolding subject_record_operation_def by (auto split: sum.splits)

lemma handoff_operation_Inr_cases:
  assumes "handoff_operation e a q key db = Inr (db', res)"
  obtains (existing) active where "db' = db" "active \<in> set (tables db Handoffs)"
      "res = ok_response (ResourceData active)" "live_handoff active"
  | (created) subject where
      "resolve_subject db a (requested_subject q) ''support:handoff:create_on_behalf'' = Inr subject"
      "\<forall>r\<in>set (tables db Handoffs).
         \<not> (res_subject r = Some subject \<and> res_tenant r = act_tenant a \<and> live_handoff r)"
      "store_fresh e a Handoffs
         (fresh_row e a (new_id e ''HUM'') None subject (act_tenant a) (py_strip (app_reason q)) Queued)
         ''handoff.create'' ''handoff'' (Some Queued) key (PDict []) None db = Inr (db', res)"
  using assms
  by (auto simp: handoff_operation_def sql_latest_None_iff
      dest: sql_latest_Some_in split: sum.splits option.splits)

end
