(* ===== verification/Biz_Resources.thy ===== *)
theory Biz_Resources
  imports Biz_Applications
begin

text \<open>
  \<open>application/resource_commands.py\<close>: listing a resource collection with the commands the
  actor may issue, and executing a reviewed command.
\<close>

section \<open>Listing\<close>

record resource_query =
  rq_order :: "string option"
  rq_id :: "string option"
  rq_user :: "string option"
  rq_status :: "res_status option"

definition resource_filter ::
  "actor \<Rightarrow> resource_spec \<Rightarrow> string option \<Rightarrow> resource_query \<Rightarrow> resource \<Rightarrow> bool" where
  "resource_filter a spec subject q r =
    ((truthy_str subject \<longrightarrow> res_subject r = subject)
     \<and> (\<not> is_platform_admin a \<longrightarrow> res_tenant r = act_tenant a)
     \<and> (truthy_str (rq_order q) \<and> spec_order_field spec \<longrightarrow> res_order r = rq_order q)
     \<and> (truthy_str (rq_id q) \<longrightarrow> Some (res_id r) = rq_id q)
     \<and> (case rq_status q of None \<Rightarrow> True | Some s \<Rightarrow> s = OtherStatus [] \<or> res_status r = s))"

definition list_resources ::
  "actor \<Rightarrow> string \<Rightarrow> resource_query \<Rightarrow> bizdb \<Rightarrow> biz_error + ((resource \<times> string list) list \<times> res_status list)" where
  "list_resources a rtype q db =
    (case spec_of rtype of
       None \<Rightarrow> Inl ConversionError
     | Some spec \<Rightarrow>
        (case visible_subject a (rq_user q) of
           Inl err \<Rightarrow> Inl err
         | Inr subject \<Rightarrow>
             Inr (map (\<lambda>r. let r' = r\<lparr>res_version := int_or_one (res_version r)\<rparr>
                         in (r', available_commands_for_row a rtype r'))
                    (sql_desc res_created (resource_filter a spec subject q)
                      (tables db (spec_table spec))),
                  resource_status_options rtype)))"

section \<open>Commands\<close>

record command_request =
  cmd_name :: string
  cmd_version :: int
  cmd_note :: "string option"

definition valid_command :: "command_request \<Rightarrow> bool" where
  "valid_command q = (2 \<le> py_len (cmd_name q) \<and> py_len (cmd_name q) \<le> 64 \<and> 1 \<le> cmd_version q
     \<and> py_len (opt_str (cmd_note q)) \<le> 1000)"

definition command_operation ::
  "env \<Rightarrow> actor \<Rightarrow> string \<Rightarrow> string \<Rightarrow> string \<Rightarrow> int \<Rightarrow> string option \<Rightarrow> string option \<Rightarrow> handler" where
  "command_operation e a rtype rid command expected note key db =
    (case transition_resource e a rtype rid command expected note db of
       Inl err \<Rightarrow> Inl err
     | Inr (db1, scope0, row) \<Rightarrow>
         let row' = row\<lparr>res_version := int_or_one (res_version row)\<rparr> in
         Inr (add_audit e a (rtype @ ''.'' @ command) rtype rid (sc_subject scope0) (Some command)
                (map_option ResSt (sc_status scope0)) (Some (ResSt (res_status row))) key
                (PDict [(''note'', opt_val note)]) db1,
              ok_response (CommandData row' (available_commands_for_row a rtype row'))))"

definition command_resource ::
  "env \<Rightarrow> actor \<Rightarrow> string \<Rightarrow> string \<Rightarrow> command_request \<Rightarrow> string option \<Rightarrow> handler" where
  "command_resource e a rtype rid q key db =
    (let command = py_lower (py_strip (cmd_name q)) in
     if spec_of rtype = None then Inl (DomainError 404 None)
     else idempotent e a (rtype @ ''.'' @ command) key
       (PDict [(''resource_id'', PStr rid), (''command'', PStr command),
          (''expected_version'', PInt (cmd_version q)), (''note'', opt_val (cmd_note q))])
       (command_operation e a rtype rid command (cmd_version q) (cmd_note q) key) db)"

definition legacy_update_rejected :: "bizdb \<Rightarrow> biz_error + (bizdb \<times> response)" where
  "legacy_update_rejected db = Inl (DomainError 410 (Some ''LEGACY_STATUS_PATCH_REMOVED''))"

lemma command_operation_Inr_iff:
  "command_operation e a rtype rid command expected note key db = Inr (db', res) \<longleftrightarrow>
    (\<exists>db1 scope0 row. transition_resource e a rtype rid command expected note db = Inr (db1, scope0, row)
      \<and> db' = add_audit e a (rtype @ ''.'' @ command) rtype rid (sc_subject scope0) (Some command)
                (map_option ResSt (sc_status scope0)) (Some (ResSt (res_status row))) key
                (PDict [(''note'', opt_val note)]) db1
      \<and> res = ok_response (CommandData (row\<lparr>res_version := int_or_one (res_version row)\<rparr>)
                (available_commands_for_row a rtype (row\<lparr>res_version := int_or_one (res_version row)\<rparr>))))"
  unfolding command_operation_def by (auto simp: Let_def split: sum.splits)

end
