(* ===== verification/Biz_Steps.thy ===== *)
theory Biz_Steps
  imports Biz_Resources
begin

text \<open>
  The abstract behaviour of the Business Service's tables. \<open>table_step\<close> is what any
  request may do to a resource table (nothing, one admissible insert, one transition of one
  row), \<open>order_step\<close> what it may do to the orders, \<open>biz_step\<close> the whole database. The
  operations are shown to refine it, so that invariants and lifecycles are proved once, on
  the abstract steps.
\<close>

section \<open>Lifecycles of the resource tables\<close>

definition tbl_transitions :: "tbl \<Rightarrow> (res_status \<times> (string \<times> res_status) list) list" where
  "tbl_transitions t = (case t of
     Refunds \<Rightarrow> refund_transitions | AfterSales \<Rightarrow> after_sales_transitions
   | Invoices \<Rightarrow> invoice_transitions | Complaints \<Rightarrow> complaint_transitions
   | Handoffs \<Rightarrow> handoff_transitions | Urges \<Rightarrow> [])"

definition res_step :: "tbl \<Rightarrow> res_status \<Rightarrow> res_status \<Rightarrow> bool" where
  "res_step t s s' =
     list_ex (\<lambda>(s0, cs). s0 = s \<and> list_ex (\<lambda>(c, n). n = s') cs) (tbl_transitions t)"

definition res_sealed :: "res_status \<Rightarrow> bool" where
  "res_sealed s = (s \<in> {Rejected, Closed, Completed, Failed, Issued})"

fun res_rank :: "res_status \<Rightarrow> nat" where
  "res_rank PendingReview = 3"
| "res_rank Pending = 3"
| "res_rank Queued = 3"
| "res_rank Approved = 2"
| "res_rank Accepted = 2"
| "res_rank Processing = 1"
| "res_rank PendingIssue = 1"
| "res_rank _ = 0"

lemmas transition_tables =
  refund_transitions_def after_sales_transitions_def invoice_transitions_def
  complaint_transitions_def handoff_transitions_def

lemma res_step_cases:
  "res_step t s s' \<Longrightarrow> \<not> res_sealed s \<and> res_rank s' < res_rank s \<and> (is_active s' \<longrightarrow> is_active s)
     \<and> (s' \<in> {Queued, Accepted, Processing} \<and> t = Handoffs \<longrightarrow> s \<in> {Queued, Accepted, Processing})"
  by (cases t) (auto simp: res_step_def tbl_transitions_def transition_tables res_sealed_def is_active_def)

interpretation resource_life: forward_lifecycle "res_step t" res_sealed res_rank for t
  by unfold_locales (auto dest: res_step_cases)

lemma allowed_command_step:
  assumes "spec_of rtype = Some spec"
    and "map_of (allowed_commands spec (status_opt s)) c = Some n"
  shows "res_step (spec_table spec) s n"
proof -
  have st: "status_opt s = Some s" using assms(2) by (rule allowed_commands_status)
  obtain cs where cs: "map_of (spec_transitions spec) s = Some cs" "map_of cs c = Some n"
    using assms(2) by (auto simp: allowed_commands_def st split: option.splits)
  have "spec_transitions spec = tbl_transitions (spec_table spec)"
    using assms(1) by (elim spec_of_cases) (simp_all add: tbl_transitions_def)
  then show ?thesis
    using map_of_SomeD [OF cs(1)] map_of_SomeD [OF cs(2)]
    by (fastforce simp: res_step_def list_ex_iff)
qed

section \<open>One resource table\<close>

definition initial_status :: "tbl \<Rightarrow> res_status" where
  "initial_status t = (case t of Refunds \<Rightarrow> PendingReview | AfterSales \<Rightarrow> PendingReview
     | Invoices \<Rightarrow> PendingIssue | Complaints \<Rightarrow> Pending | Handoffs \<Rightarrow> Queued | Urges \<Rightarrow> Pending)"

text \<open>
  Two rows that may not both be in a table: two open applications for one order, two
  invoices of one title for one order, two live handoffs of one subject in one tenant.
\<close>

definition conflict :: "tbl \<Rightarrow> resource \<Rightarrow> resource \<Rightarrow> bool" where
  "conflict t x y = (case t of
     Refunds \<Rightarrow> res_order x = res_order y \<and> is_active (res_status x) \<and> is_active (res_status y)
   | AfterSales \<Rightarrow> res_order x = res_order y \<and> is_active (res_status x) \<and> is_active (res_status y)
   | Invoices \<Rightarrow> res_order x = res_order y \<and> res_title x = res_title y
   | Handoffs \<Rightarrow> res_subject x = res_subject y \<and> res_tenant x = res_tenant y
       \<and> live_handoff x \<and> live_handoff y
   | _ \<Rightarrow> False)"

definition exclusive :: "tbl \<Rightarrow> resource list \<Rightarrow> bool" where
  "exclusive t rows \<longleftrightarrow> unique_key res_id rows \<and>
     (\<forall>x\<in>set rows. \<forall>y\<in>set rows. conflict t x y \<longrightarrow> x = y)"

definition same_tenant :: "actor \<Rightarrow> string \<Rightarrow> bool" where
  "same_tenant a tn \<longleftrightarrow>
     is_platform_admin a \<or> str_or tn ''default'' = str_or (act_tenant a) ''default''"

definition same_identity :: "resource \<Rightarrow> resource \<Rightarrow> bool" where
  "same_identity x y \<longleftrightarrow> res_id x = res_id y \<and> res_order x = res_order y \<and> res_user x = res_user y
     \<and> res_subject x = res_subject y \<and> res_tenant x = res_tenant y \<and> res_title x = res_title y"

inductive table_step :: "actor \<Rightarrow> tbl \<Rightarrow> resource list \<Rightarrow> resource list \<Rightarrow> bool" for a t where
  stay: "table_step a t rows rows"
| create: "res_id r \<notin> res_id ` set rows \<Longrightarrow> res_status r = initial_status t \<Longrightarrow> res_version r = 1
    \<Longrightarrow> same_tenant a (res_tenant r) \<Longrightarrow> (\<And>x. x \<in> set rows \<Longrightarrow> \<not> conflict t x r)
    \<Longrightarrow> table_step a t rows (rows @ [r])"
| move: "tbl_look res_id rows rid = Some old \<Longrightarrow> res_step t (res_status old) (res_status new)
    \<Longrightarrow> res_version new = res_version old + 1 \<Longrightarrow> same_identity old new
    \<Longrightarrow> same_tenant a (res_tenant old)
    \<Longrightarrow> table_step a t rows (tbl_upd res_id rid (\<lambda>_. new) rows)"

interpretation resource_table: keyed_table "tbl_look res_id" "sql_insert res_id"
  "tbl_upd res_id" res_id "unique_key res_id"
  by (rule keyed_list_table)

lemma tenant_matches_same: "tenant_matches a tn \<Longrightarrow> same_tenant a tn"
  by (auto simp: tenant_matches_def same_tenant_def str_or_def split: if_splits)

lemma same_tenant_self [simp]: "same_tenant a (act_tenant a)"
  by (simp add: same_tenant_def)

lemma same_identity_reviewed [simp]: "same_identity r (reviewed_row e a rt c n note is r)"
  by (simp add: same_identity_def)

lemma conflict_sym: "conflict t x y \<Longrightarrow> conflict t y x"
  by (auto simp: conflict_def split: tbl.splits)

lemma conflict_moved:
  assumes "res_step t (res_status old) (res_status new)" and "same_identity old new"
    and "conflict t new y"
  shows "conflict t old y"
  using assms res_step_cases [OF assms(1)]
  by (auto simp: conflict_def same_identity_def live_handoff_def split: tbl.splits)

lemma exclusive_step:
  assumes "table_step a t rows rows'" and "exclusive t rows"
  shows "exclusive t rows'"
  using assms
proof cases
  case stay
  with assms show ?thesis by simp
next
  case (create r)
  then show ?thesis using assms(2)
    by (auto simp: exclusive_def intro: unique_key_insert dest: conflict_sym)
next
  case (move rid old new)
  have u: "unique_key res_id rows" using assms(2) by (simp add: exclusive_def)
  have k: "res_id old = rid" "res_id new = rid"
    using tbl_look_key [OF move(2)] move(5) by (simp_all add: same_identity_def)
  have old: "old \<in> set rows" using move(2) by (rule tbl_look_in)
  have x: "x = new \<or> (x \<in> set rows \<and> res_id x \<noteq> rid)" if "x \<in> set rows'" for x
    using that move(1) k by (auto simp: tbl_upd_def set_sql_update split: if_splits)
  have "x = y" if "x \<in> set rows'" "y \<in> set rows'" "conflict t x y" for x y
  proof -
    have no: False if "z \<in> set rows" "res_id z \<noteq> rid" "conflict t new z" for z
      using conflict_moved [OF move(3,5) that(3)] assms(2) old that(1,2) k
      by (auto simp: exclusive_def)
    show ?thesis using x [OF that(1)] x [OF that(2)] that(3) no conflict_sym assms(2)
      by (auto simp: exclusive_def)
  qed
  moreover have "unique_key res_id rows'" using u k move(1) by (simp add: tbl_upd_unique)
  ultimately show ?thesis by (auto simp: exclusive_def)
qed

text \<open>What becomes of a row: its identity stays, its status advances, its version counts the moves.\<close>

definition row_evolves :: "tbl \<Rightarrow> resource \<Rightarrow> resource \<Rightarrow> bool" where
  "row_evolves t x y \<longleftrightarrow> same_identity x y \<and> (res_step t)\<^sup>*\<^sup>* (res_status x) (res_status y)
     \<and> res_version x \<le> res_version y \<and> (res_version x = res_version y \<longrightarrow> x = y)
     \<and> res_version y + int (res_rank (res_status y)) \<le> res_version x + int (res_rank (res_status x))"

lemma row_evolves_refl [simp]: "row_evolves t x x"
  by (simp add: row_evolves_def same_identity_def)

lemma row_evolves_trans: "row_evolves t x y \<Longrightarrow> row_evolves t y z \<Longrightarrow> row_evolves t x z"
  by (auto simp: row_evolves_def same_identity_def)

lemma table_step_row:
  assumes "table_step a t rows rows'" and "unique_key res_id rows"
    and "tbl_look res_id rows k = Some x"
  shows "\<exists>y. tbl_look res_id rows' k = Some y \<and> row_evolves t x y"
  using assms(1)
proof cases
  case stay
  with assms(3) show ?thesis by simp
next
  case (create r)
  with assms(3) show ?thesis by (simp add: tbl_look_append)
next
  case (move rid old new)
  have key: "res_id new = rid" using tbl_look_key [OF move(2)] move(5) by (simp add: same_identity_def)
  have look: "tbl_look res_id rows' k = (if k = rid then Some new else Some x)"
    using tbl_look_upd [OF assms(2), of rid "\<lambda>_. new" k] move(1,2) key assms(3) by simp
  have "row_evolves t old new"
    using move(3,4,5) res_step_cases [OF move(3)] by (auto simp: row_evolves_def)
  with look move(2) assms(3) show ?thesis by (cases "k = rid") auto
qed

lemma foreign_rows_step:
  assumes "table_step a t rows rows'" and "unique_key res_id rows"
  shows "filter (\<lambda>r. \<not> same_tenant a (res_tenant r)) rows' = filter (\<lambda>r. \<not> same_tenant a (res_tenant r)) rows"
  using assms(1)
proof cases
  case stay
  then show ?thesis by simp
next
  case (create r)
  then show ?thesis by simp
next
  case (move rid old new)
  have t: "same_tenant a (res_tenant new)" using move(5,6) by (simp add: same_identity_def)
  have "same_tenant a (res_tenant r)" if "r \<in> set rows" "res_id r = rid" for r
    using that unique_keyD [OF assms(2) that(1) tbl_look_in [OF move(2)]] tbl_look_key [OF move(2)] move(6)
    by simp
  then show ?thesis
    unfolding move(1) tbl_upd_def sql_update_def using t
    by (induction rows) auto
qed

section \<open>Orders\<close>

definition same_order :: "order \<Rightarrow> order \<Rightarrow> bool" where
  "same_order x y \<longleftrightarrow> ord_id x = ord_id y \<and> ord_user x = ord_user y \<and> ord_tenant x = ord_tenant y
     \<and> ord_product x = ord_product y \<and> ord_product_name x = ord_product_name y
     \<and> ord_amount x = ord_amount y \<and> ord_paid x = ord_paid y \<and> ord_signed_at x = ord_signed_at y
     \<and> ord_created x = ord_created y"

inductive order_step ::
  "actor \<Rightarrow> order list \<times> logistics list \<Rightarrow> order list \<times> logistics list \<Rightarrow> bool" for a where
  keep: "order_step a s s"
| cancel: "tbl_look ord_id os oid = Some old \<Longrightarrow> cancellable (ord_status old)
    \<Longrightarrow> ord_tenant old = act_tenant a \<Longrightarrow> same_order old new \<Longrightarrow> ord_status new = Cancelled
    \<Longrightarrow> ord_address new = ord_address old \<Longrightarrow> ord_version new = ord_version old + 1
    \<Longrightarrow> order_step a (os, ls)
      (tbl_upd ord_id oid (\<lambda>_. new) os, sql_update (\<lambda>l. log_order l = oid) (cancelled_logistics e) ls)"
| readdress: "tbl_look ord_id os oid = Some old \<Longrightarrow> cancellable (ord_status old)
    \<Longrightarrow> ord_tenant old = act_tenant a \<Longrightarrow> same_order old new \<Longrightarrow> ord_status new = ord_status old
    \<Longrightarrow> ord_version new = ord_version old + 1
    \<Longrightarrow> order_step a (os, ls) (tbl_upd ord_id oid (\<lambda>_. new) os, ls)"

interpretation order_table: keyed_table "tbl_look ord_id" "sql_insert ord_id"
  "tbl_upd ord_id" ord_id "unique_key ord_id"
  by (rule keyed_list_table)

definition order_evolves :: "order \<Rightarrow> order \<Rightarrow> bool" where
  "order_evolves x y \<longleftrightarrow> same_order x y \<and> ord_version x \<le> ord_version y
     \<and> (ord_version x = ord_version y \<longrightarrow> x = y)
     \<and> (\<not> cancellable (ord_status x) \<longrightarrow> x = y)
     \<and> (ord_status y = ord_status x \<or> ord_status y = Cancelled)"

lemma same_order_trans: "same_order x y \<Longrightarrow> same_order y z \<Longrightarrow> same_order x z"
  unfolding same_order_def by metis

lemma same_order_id: "same_order x y \<Longrightarrow> ord_id y = ord_id x \<and> ord_tenant y = ord_tenant x"
  by (simp add: same_order_def)

lemma order_evolves_refl [simp]: "order_evolves x x"
  by (simp add: order_evolves_def same_order_def)

lemma order_evolves_trans: "order_evolves x y \<Longrightarrow> order_evolves y z \<Longrightarrow> order_evolves x z"
  by (auto simp: order_evolves_def cancellable_def intro: same_order_trans)

lemma order_step_unique:
  assumes "order_step a s s'" and "unique_key ord_id (fst s)"
  shows "unique_key ord_id (fst s')"
  using assms
  by cases (auto intro!: tbl_upd_unique dest: tbl_look_key same_order_id)

lemma order_step_row:
  assumes "order_step a s s'" and u: "unique_key ord_id (fst s)"
    and x: "tbl_look ord_id (fst s) k = Some x"
  shows "\<exists>y. tbl_look ord_id (fst s') k = Some y \<and> order_evolves x y"
proof -
  have upd: "\<exists>y. tbl_look ord_id (tbl_upd ord_id oid (\<lambda>_. new) os) k = Some y \<and> order_evolves x y"
    if "tbl_look ord_id os oid = Some old" "same_order old new" "order_evolves old new" "os = fst s"
    for os oid old new
  proof -
    have key: "ord_id new = oid" using tbl_look_key [OF that(1)] same_order_id [OF that(2)] by simp
    have "tbl_look ord_id (tbl_upd ord_id oid (\<lambda>_. new) os) k = (if k = oid then Some new else Some x)"
      using tbl_look_upd [of ord_id os oid "\<lambda>_. new" k] u x key that(1,4) by simp
    moreover have "k = oid \<Longrightarrow> x = old" using that(1,4) x by (metis option.inject)
    ultimately show ?thesis using that(3) order_evolves_refl [of x] by metis
  qed
  from assms(1) show ?thesis
  proof cases
    case keep
    with x show ?thesis by simp
  next
    case (cancel os oid old new ls e)
    have "order_evolves old new" using cancel(4,6,7,9) by (simp add: order_evolves_def)
    then show ?thesis using upd [OF cancel(3,6)] cancel(1,2) by simp
  next
    case (readdress os oid old new ls)
    have "order_evolves old new" using readdress(4,6,7,8) by (simp add: order_evolves_def)
    then show ?thesis using upd [OF readdress(3,6)] readdress(1,2) by simp
  qed
qed

lemma foreign_orders_step:
  assumes "order_step a s s'" and u: "unique_key ord_id (fst s)"
  shows "filter (\<lambda>r. \<not> same_tenant a (ord_tenant r)) (fst s') = filter (\<lambda>r. \<not> same_tenant a (ord_tenant r)) (fst s)"
proof -
  have upd: "filter (\<lambda>r. \<not> same_tenant a (ord_tenant r)) (tbl_upd ord_id oid (\<lambda>_. new) os)
      = filter (\<lambda>r. \<not> same_tenant a (ord_tenant r)) os"
    if "tbl_look ord_id os oid = Some old" "same_order old new" "ord_tenant old = act_tenant a" "os = fst s"
    for os oid old new
  proof -
    have t: "same_tenant a (ord_tenant new)" using same_order_id [OF that(2)] that(3) by simp
    have "same_tenant a (ord_tenant r)" if "r \<in> set os" "ord_id r = oid" for r
      using that \<open>os = fst s\<close> \<open>ord_tenant old = act_tenant a\<close>
        unique_keyD [OF u _ tbl_look_in, of r ord_id oid old] tbl_look_key [OF \<open>tbl_look ord_id os oid = Some old\<close>]
        \<open>tbl_look ord_id os oid = Some old\<close>
      by simp
    then show ?thesis unfolding tbl_upd_def sql_update_def using t by (induction os) auto
  qed
  from assms(1) show ?thesis
    by cases (auto dest: upd)
qed

end
