(* ===== verification/Biz_Commands.thy ===== *)
theory Biz_Commands
  imports Biz_Resources
begin

text \<open>
  \<open>application/operation_commands.py\<close> and \<open>ServiceCore.execute_operation_command\<close>: the
  stable command envelope of the Agent, its normalisation, the integrity assertions it
  carries about actor, subject and resource, and the dispatch to the ordinary handlers.
\<close>

text \<open>
  \<open>OperationCommandError\<close> carries a message; a short tag stands for each of them.
  \<open>CommandCrash\<close> is any other exception (a \<open>target\<close> that is not a mapping).
\<close>

datatype command_fault = CommandError string | CommandCrash

record op_command =
  oc_command_id :: "string option"
  oc_action :: string
  oc_operation :: string
  oc_rtype :: string
  oc_rid :: string
  oc_input :: pydict
  oc_actor :: pydict
  oc_subject :: pydict
  oc_resource :: pydict

definition command_contract :: string where
  "command_contract = ''business.operation.command@1''"

text \<open>A scope that is present must be a mapping.\<close>

definition scope_ok :: "pyval \<Rightarrow> bool" where
  "scope_ok v = (v = PNone \<or> as_pydict v \<noteq> None)"

definition scope_dict :: "pyval \<Rightarrow> pydict" where
  "scope_dict v = (case as_pydict v of None \<Rightarrow> [] | Some d \<Rightarrow> d)"

definition normalize_operation_command :: "pydict \<Rightarrow> command_fault + op_command" where
  "normalize_operation_command row =
    (if text_of (dget row ''contract'') \<noteq> command_contract then Inl (CommandError ''contract'')
     else (case dict_or_empty (dget row ''target'') of
       None \<Rightarrow> Inl CommandCrash
     | Some target \<Rightarrow>
        let action = stripped (dget row ''action_id'');
            operation = py_upper (stripped (dget row ''operation''));
            rtype = stripped (dget target ''resource_type'');
            rid = stripped (dget target ''resource_id'') in
        if action = [] \<or> operation = [] then Inl (CommandError ''identity'')
        else if rtype = [] \<or> rid = [] then Inl (CommandError ''target'')
        else (case as_pydict (dget row ''input'') of
          None \<Rightarrow> Inl (CommandError ''input'')
        | Some input \<Rightarrow>
            if \<not> (scope_ok (dget row ''actor_scope'') \<and> scope_ok (dget row ''subject_scope'')
                  \<and> scope_ok (dget row ''resource_scope''))
            then Inl (CommandError ''scope'')
            else
              let n_actor = scope_dict (dget row ''actor_scope'');
                  n_subject = scope_dict (dget row ''subject_scope'');
                  n_resource = scope_dict (dget row ''resource_scope'');
                  legacy = stripped (dget n_actor ''subject'');
                  payload = stripped (dget input ''subject_user_id'');
                  n_subject' =
                    (if n_subject = [] \<and> (legacy \<noteq> [] \<or> payload \<noteq> [])
                     then [(''subject_user_id'', PStr (str_or legacy payload)),
                           (''tenant_id'', dget n_actor ''tenant_id'')]
                     else n_subject);
                  n_resource' =
                    (if n_resource = []
                     then [(''resource_type'', PStr rtype), (''resource_id'', PStr rid)]
                       @ (if dget input ''expected_version'' \<noteq> PNone
                          then [(''expected_version'', dget input ''expected_version'')] else [])
                     else n_resource)
              in Inr \<lparr>oc_command_id = none_if_empty (stripped (dget row ''command_id'')),
                   oc_action = action, oc_operation = operation, oc_rtype = rtype, oc_rid = rid,
                   oc_input = input, oc_actor = n_actor, oc_subject = n_subject',
                   oc_resource = n_resource'\<rparr>)))"

definition stripped_or :: "pyval \<Rightarrow> pyval \<Rightarrow> string" where
  "stripped_or v w = stripped (py_or v w)"

text \<open>
  A mismatch of the versions is raised inside the \<open>try\<close> whose \<open>except (TypeError, ValueError)\<close>
  also catches it (\<open>OperationCommandError\<close> is a \<open>ValueError\<close>), so it surfaces under the
  message for a version that is no number.
\<close>

definition version_assertion :: "pyval \<Rightarrow> pyval \<Rightarrow> command_fault + unit" where
  "version_assertion asserted payload =
    (if asserted \<noteq> PNone \<and> payload \<noteq> PNone then
       (case (py_int asserted, py_int payload) of
          (Some x, Some y) \<Rightarrow> if x \<noteq> y then Inl (CommandError ''version_invalid'') else Inr ()
        | _ \<Rightarrow> Inl (CommandError ''version_invalid''))
     else Inr ())"

definition verify_actor_scope :: "op_command \<Rightarrow> string \<Rightarrow> string \<Rightarrow> string option \<Rightarrow> command_fault + unit" where
  "verify_actor_scope c user tenant role =
    (let a_user = stripped_or (dget (oc_actor c) ''actor_user_id'') (dget (oc_actor c) ''user_id'');
         a_tenant = stripped (dget (oc_actor c) ''tenant_id'');
         a_role = stripped_or (dget (oc_actor c) ''actor_role'') (dget (oc_actor c) ''role'');
         a_subject = stripped (dget (oc_subject c) ''subject_user_id'');
         p_subject = stripped (dget (oc_input c) ''subject_user_id'');
         s_tenant = stripped (dget (oc_subject c) ''tenant_id'');
         r_type = stripped (dget (oc_resource c) ''resource_type'');
         r_id = stripped (dget (oc_resource c) ''resource_id'');
         r_subject = stripped (dget (oc_resource c) ''subject_user_id'');
         effective = str_or a_subject p_subject in
     if a_user \<noteq> [] \<and> a_user \<noteq> user then Inl (CommandError ''actor_user'')
     else if a_tenant \<noteq> [] \<and> a_tenant \<noteq> tenant then Inl (CommandError ''actor_tenant'')
     else if a_role \<noteq> [] \<and> role \<noteq> None \<and> Some a_role \<noteq> role then Inl (CommandError ''actor_role'')
     else if a_subject \<noteq> [] \<and> p_subject \<noteq> [] \<and> a_subject \<noteq> p_subject then Inl (CommandError ''subject'')
     else if s_tenant \<noteq> [] \<and> s_tenant \<noteq> tenant then Inl (CommandError ''subject_tenant'')
     else if r_type \<noteq> [] \<and> r_type \<noteq> oc_rtype c then Inl (CommandError ''resource_type'')
     else if r_id \<noteq> [] \<and> r_id \<noteq> oc_rid c then Inl (CommandError ''resource_id'')
     else if r_subject \<noteq> [] \<and> effective \<noteq> [] \<and> r_subject \<noteq> effective
     then Inl (CommandError ''resource_subject'')
     else version_assertion (dget (oc_resource c) ''expected_version'')
            (dget (oc_input c) ''expected_version''))"

section \<open>Dispatch\<close>

definition required_expected_version :: "pydict \<Rightarrow> biz_error + int" where
  "required_expected_version values =
    (case (let v = dget values ''expected_version'' in if truthy v then py_int v else Some 0) of
       None \<Rightarrow> Inl ConversionError
     | Some n \<Rightarrow> if n \<le> 0 then Inl (DomainError 400 (Some ''EXPECTED_VERSION_REQUIRED'')) else Inr n)"

definition command_subject :: "pydict \<Rightarrow> string option" where
  "command_subject values = none_if_empty (stripped (dget values ''subject_user_id''))"

text \<open>The request body a handler builds from the command; pydantic validates it again.\<close>

definition command_application :: "op_command \<Rightarrow> int \<Rightarrow> string \<Rightarrow> application" where
  "command_application c version text_key =
     \<lparr>app_order = oc_rid c, app_version = version, app_subject = command_subject (oc_input c),
      app_user = None, app_reason = text_of (dget (oc_input c) text_key),
      app_code = none_if_empty (text_of (dget (oc_input c) ''reason_code''))\<rparr>"

datatype operation_handler = ApplyRefund | ApplyAfterSales | ApplyInvoice | CancelOrderCommand

definition operation_handlers :: "((string \<times> string) \<times> operation_handler) list" where
  "operation_handlers =
    [((''order'', ''APPLY_REFUND''), ApplyRefund),
     ((''order'', ''APPLY_AFTER_SALES''), ApplyAfterSales),
     ((''order'', ''APPLY_INVOICE''), ApplyInvoice),
     ((''order'', ''CANCEL_ORDER''), CancelOrderCommand)]"

definition run_operation_handler ::
  "env \<Rightarrow> actor \<Rightarrow> op_command \<Rightarrow> string option \<Rightarrow> operation_handler \<Rightarrow> handler" where
  "run_operation_handler e a c key h db =
    (case required_expected_version (oc_input c) of
       Inl err \<Rightarrow> Inl err
     | Inr version \<Rightarrow>
        (case h of
           ApplyRefund \<Rightarrow>
             (let q = command_application c version ''reason'' in
              if valid_application q then create_refund e a q key db else Inl ValidationError)
         | ApplyAfterSales \<Rightarrow>
             (let q = command_application c version ''reason'' in
              if valid_application q then create_after_sales e a q key db else Inl ValidationError)
         | ApplyInvoice \<Rightarrow>
             (let q = (command_application c version ''invoice_title'')\<lparr>app_code := None\<rparr> in
              if valid_invoice q then create_invoice e a q key db else Inl ValidationError)
         | CancelOrderCommand \<Rightarrow>
             cancel_order e a (oc_rid c) (none_if_empty (text_of (dget (oc_input c) ''reason'')))
               version key db))"

definition dispatch_operation_command ::
  "((string \<times> string) \<times> 'h) list \<Rightarrow> op_command \<Rightarrow> command_fault + 'h" where
  "dispatch_operation_command handlers c =
    (case map_of handlers (oc_rtype c, oc_operation c) of
       None \<Rightarrow> Inl (CommandError ''unsupported'')
     | Some h \<Rightarrow> Inr h)"

definition fault_response :: "string \<Rightarrow> command_fault \<Rightarrow> biz_error" where
  "fault_response code f = (case f of
     CommandError _ \<Rightarrow> DomainError 400 (Some code) | CommandCrash \<Rightarrow> ConversionError)"

definition execute_operation_command ::
  "env \<Rightarrow> actor \<Rightarrow> pydict \<Rightarrow> string option \<Rightarrow> handler" where
  "execute_operation_command e a payload key db =
    (case normalize_operation_command payload of
       Inl f \<Rightarrow> Inl (fault_response ''INVALID_OPERATION_COMMAND'' f)
     | Inr c \<Rightarrow>
        (case verify_actor_scope c (act_user a) (act_tenant a) (Some (act_role a)) of
           Inl f \<Rightarrow> Inl (fault_response ''INVALID_OPERATION_COMMAND'' f)
         | Inr _ \<Rightarrow>
            (case dispatch_operation_command operation_handlers c of
               Inl f \<Rightarrow> Inl (fault_response ''UNSUPPORTED_OPERATION_COMMAND'' f)
             | Inr h \<Rightarrow> run_operation_handler e a c key h db)))"

text \<open>What pydantic accepts as an \<open>OperationCommandRequest\<close>.\<close>

definition str_between :: "nat \<Rightarrow> nat \<Rightarrow> pyval \<Rightarrow> bool" where
  "str_between lo hi v = (case v of PStr s \<Rightarrow> lo \<le> py_len s \<and> py_len s \<le> hi | _ \<Rightarrow> False)"

definition valid_command_envelope :: "pydict \<Rightarrow> bool" where
  "valid_command_envelope row =
    (dget row ''contract'' = PStr command_contract
     \<and> (dget row ''command_id'' = PNone \<or> str_between 8 160 (dget row ''command_id''))
     \<and> str_between 2 128 (dget row ''action_id'') \<and> str_between 2 128 (dget row ''operation'')
     \<and> list_all (\<lambda>k. as_pydict (dget row k) \<noteq> None)
         [''target'', ''input'', ''actor_scope'', ''subject_scope'', ''resource_scope''])"

section \<open>Facts\<close>

text \<open>The assertions a verified command makes agree with the authenticated actor.\<close>

definition assertions_agree :: "op_command \<Rightarrow> string \<Rightarrow> string \<Rightarrow> string option \<Rightarrow> bool" where
  "assertions_agree c user tenant role \<longleftrightarrow>
     stripped_or (dget (oc_actor c) ''actor_user_id'') (dget (oc_actor c) ''user_id'') \<in> {[], user}
   \<and> stripped (dget (oc_actor c) ''tenant_id'') \<in> {[], tenant}
   \<and> (role = None \<or> stripped_or (dget (oc_actor c) ''actor_role'') (dget (oc_actor c) ''role'')
        \<in> {[], the role})
   \<and> stripped (dget (oc_subject c) ''tenant_id'') \<in> {[], tenant}
   \<and> stripped (dget (oc_resource c) ''resource_type'') \<in> {[], oc_rtype c}
   \<and> stripped (dget (oc_resource c) ''resource_id'') \<in> {[], oc_rid c}
   \<and> (stripped (dget (oc_subject c) ''subject_user_id'') = []
      \<or> stripped (dget (oc_input c) ''subject_user_id'') \<in> {[], stripped (dget (oc_subject c) ''subject_user_id'')})
   \<and> (stripped (dget (oc_resource c) ''subject_user_id'') = []
      \<or> str_or (stripped (dget (oc_subject c) ''subject_user_id''))
           (stripped (dget (oc_input c) ''subject_user_id''))
         \<in> {[], stripped (dget (oc_resource c) ''subject_user_id'')})
   \<and> (dget (oc_resource c) ''expected_version'' = PNone \<or> dget (oc_input c) ''expected_version'' = PNone
      \<or> (\<exists>n. py_int (dget (oc_resource c) ''expected_version'') = Some n
            \<and> py_int (dget (oc_input c) ''expected_version'') = Some n))"

lemma version_assertion_Inr_iff:
  "version_assertion v w = Inr () \<longleftrightarrow>
     v = PNone \<or> w = PNone \<or> (\<exists>n. py_int v = Some n \<and> py_int w = Some n)"
  by (auto simp: version_assertion_def split: option.splits)

lemma verify_actor_scope_Inr_iff:
  "verify_actor_scope c user tenant role = Inr () \<longleftrightarrow> assertions_agree c user tenant role"
proof -
  have eq: "x = [] \<or> x = y \<longleftrightarrow> \<not> (x \<noteq> [] \<and> x \<noteq> y)" for x y :: string by blast
  show ?thesis
    unfolding verify_actor_scope_def assertions_agree_def Let_def version_assertion_Inr_iff [symmetric]
      guard_Inr_iff insert_iff empty_iff simp_thms eq
    by (cases role) (simp_all only: option.sel option.inject option.distinct simp_thms de_Morgan_conj
        de_Morgan_disj not_not conj_assoc, metis+)
qed

lemma execute_Inr_iff:
  "execute_operation_command e a payload key db = Inr r \<longleftrightarrow>
    (\<exists>c h. normalize_operation_command payload = Inr c
       \<and> assertions_agree c (act_user a) (act_tenant a) (Some (act_role a))
       \<and> map_of operation_handlers (oc_rtype c, oc_operation c) = Some h
       \<and> run_operation_handler e a c key h db = Inr r)"
  by (auto simp: execute_operation_command_def dispatch_operation_command_def
      verify_actor_scope_Inr_iff [symmetric] split: sum.splits option.splits)

end
