(* ===== verification/Biz_System.thy ===== *)
theory Biz_System
  imports Biz_Steps Biz_Commands
begin

text \<open>
  The Business Service as a whole: the mutating routes of \<open>api.py\<close> as one request type,
  \<open>serve\<close> as their execution in a transaction, and the proof that every request refines
  the abstract \<open>biz_step\<close>. Invariants of all reachable databases follow.
\<close>

section \<open>Requests\<close>

datatype biz_request =
    CancelOrder string "string option" int
  | ChangeAddress string string int
  | UrgeDelivery string int
  | CreateRefund application
  | CreateAfterSales application
  | CreateInvoice application
  | CreateComplaint application
  | CreateHandoff application
  | ResourceCommand string string command_request
  | OperationCommand pydict
  | LegacyUpdate

definition valid_cancel :: "string option \<Rightarrow> int \<Rightarrow> bool" where
  "valid_cancel reason v = (py_len (opt_str reason) \<le> 1000 \<and> 1 \<le> v)"

definition valid_address :: "string \<Rightarrow> int \<Rightarrow> bool" where
  "valid_address address v = (5 \<le> py_len address \<and> py_len address \<le> 300 \<and> 1 \<le> v)"

text \<open>FastAPI validates the body before the route runs.\<close>

definition validated :: "bool \<Rightarrow> handler \<Rightarrow> handler" where
  "validated ok h db = (if ok then h db else Inl ValidationError)"

fun handle :: "env \<Rightarrow> actor \<Rightarrow> string option \<Rightarrow> biz_request \<Rightarrow> handler" where
  "handle e a key (CancelOrder oid reason v) =
     validated (valid_cancel reason v) (cancel_order e a oid reason v key)"
| "handle e a key (ChangeAddress oid address v) =
     validated (valid_address address v) (change_address e a oid address v key)"
| "handle e a key (UrgeDelivery oid v) = validated (1 \<le> v) (urge_delivery e a oid v key)"
| "handle e a key (CreateRefund q) = validated (valid_application q) (create_refund e a q key)"
| "handle e a key (CreateAfterSales q) =
     validated (valid_application q) (create_after_sales e a q key)"
| "handle e a key (CreateInvoice q) = validated (valid_invoice q) (create_invoice e a q key)"
| "handle e a key (CreateComplaint q) = validated (valid_complaint q) (create_complaint e a q key)"
| "handle e a key (CreateHandoff q) = validated (valid_handoff q) (create_handoff e a q key)"
| "handle e a key (ResourceCommand rtype rid q) =
     validated (valid_command q) (command_resource e a rtype rid q key)"
| "handle e a key (OperationCommand payload) =
     validated (valid_command_envelope payload) (execute_operation_command e a payload key)"
| "handle e a key LegacyUpdate = legacy_update_rejected"

definition serve ::
  "env \<Rightarrow> actor \<Rightarrow> string option \<Rightarrow> biz_request \<Rightarrow> bizdb \<Rightarrow> (biz_error + response) \<times> bizdb" where
  "serve e a key req db = transaction (handle e a key req) db"

section \<open>The abstract step\<close>

definition audit_step :: "actor \<Rightarrow> bizdb \<Rightarrow> bizdb \<Rightarrow> bool" where
  "audit_step a db db' \<longleftrightarrow> (\<exists>xs. audits db' = audits db @ xs
     \<and> (\<forall>x\<in>set xs. aud_tenant x = act_tenant a \<and> aud_actor x = act_user a \<and> aud_role x = act_role a)
     \<and> (xs = [] \<longrightarrow> tables db' = tables db \<and> orders db' = orders db
          \<and> logistics_rows db' = logistics_rows db))"

definition idem_step :: "actor \<Rightarrow> bizdb \<Rightarrow> bizdb \<Rightarrow> bool" where
  "idem_step a db db' \<longleftrightarrow> (unique_key idem_key (idems db) \<longrightarrow> unique_key idem_key (idems db'))
     \<and> (\<exists>xs. idems db' = idems db @ xs
          \<and> (\<forall>x\<in>set xs. idm_tenant x = act_tenant a \<and> idm_actor x = act_user a))"

definition biz_step :: "actor \<Rightarrow> bizdb \<Rightarrow> bizdb \<Rightarrow> bool" where
  "biz_step a db db' \<longleftrightarrow>
     accounts db' = accounts db \<and> products db' = products db \<and> coupons db' = coupons db
     \<and> (\<forall>t. table_step a t (tables db t) (tables db' t))
     \<and> order_step a (orders db, logistics_rows db) (orders db', logistics_rows db')
     \<and> audit_step a db db' \<and> idem_step a db db'"

definition biz_inv :: "bizdb \<Rightarrow> bool" where
  "biz_inv db \<longleftrightarrow> unique_key ord_id (orders db) \<and> unique_key idem_key (idems db)
     \<and> (\<forall>t. exclusive t (tables db t))"

lemma biz_invD [simp]:
  "biz_inv db \<Longrightarrow> unique_key ord_id (orders db)" "biz_inv db \<Longrightarrow> unique_key idem_key (idems db)"
  "biz_inv db \<Longrightarrow> exclusive t (tables db t)" "biz_inv db \<Longrightarrow> unique_key res_id (tables db t)"
  by (auto simp: biz_inv_def exclusive_def)

lemma biz_step_refl [simp]: "biz_step a db db"
  by (simp add: biz_step_def audit_step_def idem_step_def table_step.stay order_step.keep)

lemma biz_step_inv [inv_intros]:
  assumes "biz_step a db db'" and "biz_inv db"
  shows "biz_inv db'"
proof -
  have "unique_key ord_id (orders db')"
    using order_step_unique [of a "(orders db, logistics_rows db)" "(orders db', logistics_rows db')"]
      assms by (simp add: biz_step_def)
  moreover have "unique_key idem_key (idems db')"
    using assms by (simp add: biz_step_def idem_step_def)
  moreover have "exclusive t (tables db' t)" for t
    using assms exclusive_step [of a t "tables db t" "tables db' t"] by (simp add: biz_step_def)
  ultimately show ?thesis unfolding biz_inv_def by blast
qed

lemma add_audit_step [simp]:
  "audits db1 = audits db \<Longrightarrow> audit_step a db (add_audit e a ac rt ri su co fs ts k d db1)"
  by (auto simp: audit_step_def add_audit_def)

lemma idem_step_same [simp]: "idems db' = idems db \<Longrightarrow> idem_step a db db'"
  by (simp add: idem_step_def)

section \<open>Every operation refines it\<close>

lemma idempotent_step:
  assumes "idempotent e a command key body operation db = Inr (db', r)"
    and "\<And>db1 r. operation db = Inr (db1, r) \<Longrightarrow> biz_step a db db1"
  shows "biz_step a db db'"
  using assms(1)
proof (cases rule: idempotent_Inr_cases)
  case bare
  then show ?thesis by (intro assms(2))
next
  case (replay row)
  then show ?thesis by simp
next
  case (fresh db1 rows)
  have s: "biz_step a db db1" by (rule assms(2)) (rule fresh(2))
  have rows: "rows = idems db1 @ [idem_row e a command (opt_str key) body r]"
    and u: "unique_key idem_key (idems db1) \<Longrightarrow> unique_key idem_key rows"
    using fresh(4) by (auto simp: sql_insert_Some_iff intro: unique_key_insert)
  have "idem_step a db db'"
    using s rows u fresh(5) by (auto simp: biz_step_def idem_step_def idem_row_def)
  moreover have "audit_step a db db'"
    using s fresh(5) by (simp add: biz_step_def audit_step_def)
  ultimately show ?thesis using s fresh(5) by (simp add: biz_step_def)
qed

lemma store_fresh_step:
  assumes "store_fresh e a t r action rtype to_st key details dec db = Inr (db', res)"
    and "res_status r = initial_status t" and "res_version r = 1" and "same_tenant a (res_tenant r)"
    and "\<And>x. x \<in> set (tables db t) \<Longrightarrow> \<not> conflict t x r"
  shows "biz_step a db db'"
proof -
  have i: "res_id r \<notin> res_id ` set (tables db t)"
    and d: "db' = add_audit e a action rtype (res_id r) (Some (res_user r)) None None
          (map_option ResSt to_st) key details (set_table t (tables db t @ [r]) db)"
    using assms(1) by (auto simp: store_fresh_Inr_iff)
  have "table_step a t' (tables db t') (tables db' t')" for t'
    using table_step.create [OF i assms(2-5)] table_step.stay by (simp add: d)
  then show ?thesis by (simp add: biz_step_def d order_step.keep)
qed

lemma cancel_operation_step:
  assumes "cancel_operation e a oid reason expected key db = Inr (db', res)" and "biz_inv db"
  shows "biz_step a db db'"
proof -
  let ?p = "cancel_match oid a expected"
  have u: "unique_key ord_id (orders db)" using assms(2) by simp
  have pk: "\<And>r. ?p r \<Longrightarrow> ord_id r = oid" by (simp add: cancel_match_def)
  from assms(1) obtain ro :: order where c: "sql_rowcount ?p (orders db) = 1"
    and d: "db' = add_audit e a ''order.cancel'' ''order'' oid (Some (ord_user ro)) None
                 (Some (OrderSt (ord_status ro))) (Some (OrderSt Cancelled)) key
                 (PDict [(''reason'', opt_val reason)])
                 (db\<lparr>orders := sql_update ?p (cancelled_row e) (orders db),
                   logistics_rows := sql_update (\<lambda>l. log_order l = oid) (cancelled_logistics e)
                     (logistics_rows db)\<rparr>)"
    unfolding cancel_operation_Inr_iff by (elim exE conjE) (rule that, assumption+)
  obtain r where r: "tbl_look ord_id (orders db) oid = Some r" "?p r"
    using c sql_rowcount_look [where p = ?p, OF u pk] by auto
  have upd: "sql_update ?p (cancelled_row e) (orders db) =
      tbl_upd ord_id oid (\<lambda>_. cancelled_row e r) (orders db)"
    using sql_update_one [where p = ?p, OF u pk r(1) r(2)] tbl_upd_const [OF u r(1)] by simp
  have "order_step a (orders db, logistics_rows db) (orders db', logistics_rows db')"
    using order_step.cancel [OF r(1), of a "cancelled_row e r" "logistics_rows db" e] r(2)
    by (simp add: d upd cancel_match_def cancelled_row_def same_order_def)
  then show ?thesis by (simp add: biz_step_def d table_step.stay)
qed

lemma address_operation_step:
  assumes "address_operation e a oid address expected key db = Inr (db', res)" and "biz_inv db"
  shows "biz_step a db db'"
proof -
  let ?p = "address_match oid a expected"
  have u: "unique_key ord_id (orders db)" using assms(2) by simp
  have pk: "\<And>r. ?p r \<Longrightarrow> ord_id r = oid" by (simp add: address_match_def)
  from assms(1) obtain ro where c: "sql_rowcount ?p (orders db) = 1"
    and o: "owned_order db a oid None = Inr ro" "cancellable (ord_status ro)"
    and d: "db' = add_audit e a ''order.change_address'' ''order'' oid (Some (ord_user ro))
                 None None None key (PDict [(''address_changed'', PBool True)])
                 (db\<lparr>orders := sql_update ?p (readdressed_row e address) (orders db)\<rparr>)"
    unfolding address_operation_Inr_iff by (elim exE conjE) (rule that, assumption+)
  obtain r where r: "tbl_look ord_id (orders db) oid = Some r" "?p r"
    using c sql_rowcount_look [where p = ?p, OF u pk] by auto
  have rc: "cancellable (ord_status r)"
    using o r(1) by (simp add: owned_order_Inr_iff row_order_def)
  have upd: "sql_update ?p (readdressed_row e address) (orders db) =
      tbl_upd ord_id oid (\<lambda>_. readdressed_row e address r) (orders db)"
    using sql_update_one [where p = ?p, OF u pk r(1) r(2)] tbl_upd_const [OF u r(1)] by simp
  have "order_step a (orders db, logistics_rows db) (orders db', logistics_rows db')"
    using order_step.readdress [OF r(1) rc, of a "readdressed_row e address r" "logistics_rows db"] r(2)
    by (simp add: d upd address_match_def readdressed_row_def same_order_def)
  then show ?thesis by (simp add: biz_step_def d table_step.stay)
qed

lemma urge_operation_step:
  assumes "urge_operation e a oid expected key db = Inr (db', res)"
  shows "biz_step a db db'"
  using assms
proof (cases rule: urge_operation_Inr_cases)
  case (existing active)
  then show ?thesis by simp
next
  case (created ro)
  show ?thesis using created(4)
    by (rule store_fresh_step)
      (use created(1) in \<open>auto simp: initial_status_def conflict_def owned_order_Inr_iff
        intro: tenant_matches_same\<close>)
qed

lemma application_operation_step:
  assumes "application_operation e a q t pre command policy key db = Inr (db', res)"
    and "t = Refunds \<or> t = AfterSales"
    and "\<And>v p reason active rc. dec_can_submit (policy v p reason active rc) \<Longrightarrow> \<not> active"
  shows "biz_step a db db'"
proof -
  from assms(1) obtain subject ro d where
    ow: "owned_order db a (app_order q) (Some subject) = Inr ro"
    and ok: "dec_can_submit (policy (raw_view ro) (product_for_order db ro) (app_reason q)
             (active_exists db t (app_order q)) (clean_code (app_code q)))"
    and st: "store_fresh e a t
         ((fresh_row e a (new_id e pre) (Some (app_order q)) subject (ord_tenant ro)
             (py_strip (app_reason q)) PendingReview)\<lparr>res_reason_code := clean_code (app_code q)\<rparr>)
         command (if t = Refunds then ''refund'' else ''after_sales'') (Some PendingReview) key
         (PDict [(''order_id'', PStr (app_order q)),
            (''policy_decision'', PStr (verdict_text (dec_verdict d))),
            (''reason_codes'', PList (map PStr (dec_reason_codes d)))])
         (Some d) db = Inr (db', res)"
    unfolding application_operation_Inr_iff by blast
  have na: "\<not> active_exists db t (app_order q)" using ok by (rule assms(3))
  have tm: "tenant_matches a (ord_tenant ro)" using ow by (simp add: owned_order_Inr_iff)
  show ?thesis using st
    by (rule store_fresh_step)
      (use na assms(2) tm in \<open>auto simp: initial_status_def conflict_def active_exists_def
        intro: tenant_matches_same\<close>)
qed

lemma invoice_operation_step:
  assumes "invoice_operation e a q key db = Inr (db', res)"
  shows "biz_step a db db'"
  using assms
proof (cases rule: invoice_operation_Inr_cases)
  case (existing r)
  then show ?thesis by simp
next
  case (created subject ro)
  have tm: "tenant_matches a (ord_tenant ro)" using created(1) by (simp add: owned_order_Inr_iff)
  show ?thesis using created(5)
    by (rule store_fresh_step)
      (use created(4) tm in \<open>auto simp: initial_status_def conflict_def intro: tenant_matches_same\<close>)
qed

lemma subject_record_operation_step:
  assumes "subject_record_operation e a q Complaints pre command Pending permission key db = Inr (db', res)"
  shows "biz_step a db db'"
proof -
  from assms obtain subject where st: "store_fresh e a Complaints
         (fresh_row e a (new_id e pre) None subject (act_tenant a) (py_strip (app_reason q)) Pending)
         command ''complaint'' (Some Pending) key (PDict []) None db = Inr (db', res)"
    unfolding subject_record_operation_Inr_iff by auto
  show ?thesis using st
    by (rule store_fresh_step) (auto simp: initial_status_def conflict_def)
qed

lemma handoff_operation_step:
  assumes "handoff_operation e a q key db = Inr (db', res)"
  shows "biz_step a db db'"
  using assms
proof (cases rule: handoff_operation_Inr_cases)
  case (existing active)
  then show ?thesis by simp
next
  case (created subject)
  show ?thesis using created(3)
    by (rule store_fresh_step)
      (use created(2) in \<open>auto simp: initial_status_def conflict_def\<close>)
qed

lemma transition_resource_step:
  assumes "transition_resource e a rtype rid command expected note db = Inr (db', scope, row)"
    and "biz_inv db"
  shows "table_step a t (tables db t) (tables db' t) \<and> db' = db\<lparr>tables := tables db'\<rparr>"
proof -
  obtain spec where s: "spec_of rtype = Some spec"
    using assms(1) by (auto simp: transition_resource_def load_resource_scope_def split: option.splits)
  have u: "unique_key res_id (tables db (spec_table spec))" using assms(2) by simp
  from assms(1) [unfolded transition_resource_Inr_iff [where spec = spec, OF u s]]
  obtain old "next" where o: "tbl_look res_id (tables db (spec_table spec)) rid = Some old"
    "tenant_matches a (res_tenant old)"
    "map_of (allowed_commands spec (status_opt (res_status old))) command = Some next"
    and row: "row = reviewed_row e a rtype command next note (issued_stamp e rtype command old) old"
    and d: "db' = set_table (spec_table spec)
            (tbl_upd res_id rid (\<lambda>_. row) (tables db (spec_table spec))) db"
    by blast
  have "table_step a (spec_table spec) (tables db (spec_table spec))
      (tbl_upd res_id rid (\<lambda>_. row) (tables db (spec_table spec)))"
    using o(1) allowed_command_step [OF s o(3)] tenant_matches_same [OF o(2)]
    by (intro table_step.move) (simp_all add: row)
  then show ?thesis by (simp add: d table_step.stay set_table_def)
qed

lemma command_operation_step:
  assumes "command_operation e a rtype rid command expected note key db = Inr (db', res)"
    and "biz_inv db"
  shows "biz_step a db db'"
proof -
  from assms(1) obtain db1 scope0 row where
    t: "transition_resource e a rtype rid command expected note db = Inr (db1, scope0, row)"
    and d: "db' = add_audit e a (rtype @ ''.'' @ command) rtype rid (sc_subject scope0) (Some command)
                (map_option ResSt (sc_status scope0)) (Some (ResSt (res_status row))) key
                (PDict [(''note'', opt_val note)]) db1"
    unfolding command_operation_Inr_iff by (elim exE conjE) (rule that, assumption+)
  obtain ts where db1: "db1 = db\<lparr>tables := ts\<rparr>"
    and st: "\<And>t. table_step a t (tables db t) (ts t)"
    using transition_resource_step [OF t assms(2)] by (metis bizdb.select_convs(6) bizdb.surjective bizdb.update_convs(6))
  show ?thesis using st by (simp add: biz_step_def d db1 order_step.keep)
qed

section \<open>Every request refines it\<close>

lemma create_refund_step:
  "create_refund e a q key db = Inr (db', r) \<Longrightarrow> biz_step a db db'"
  unfolding create_refund_def create_order_application_def
  by (erule idempotent_step, rule application_operation_step)
    (auto simp: refund_decision_can_submit)

lemma create_after_sales_step:
  "create_after_sales e a q key db = Inr (db', r) \<Longrightarrow> biz_step a db db'"
  unfolding create_after_sales_def create_order_application_def
  by (erule idempotent_step, rule application_operation_step)
    (auto simp: after_sales_decision_can_submit)

lemma create_invoice_step: "create_invoice e a q key db = Inr (db', r) \<Longrightarrow> biz_step a db db'"
  unfolding create_invoice_def by (erule idempotent_step) (rule invoice_operation_step)

lemma create_complaint_step: "create_complaint e a q key db = Inr (db', r) \<Longrightarrow> biz_step a db db'"
  unfolding create_complaint_def create_subject_record_def
  by (erule idempotent_step) (rule subject_record_operation_step)

lemma create_handoff_step: "create_handoff e a q key db = Inr (db', r) \<Longrightarrow> biz_step a db db'"
  unfolding create_handoff_def by (erule idempotent_step) (rule handoff_operation_step)

lemma cancel_order_step:
  "cancel_order e a oid reason v key db = Inr (db', r) \<Longrightarrow> biz_inv db \<Longrightarrow> biz_step a db db'"
  unfolding cancel_order_def by (erule idempotent_step) (rule cancel_operation_step)

lemma change_address_step:
  "change_address e a oid address v key db = Inr (db', r) \<Longrightarrow> biz_inv db \<Longrightarrow> biz_step a db db'"
  unfolding change_address_def by (erule idempotent_step) (rule address_operation_step)

lemma urge_delivery_step: "urge_delivery e a oid v key db = Inr (db', r) \<Longrightarrow> biz_step a db db'"
  unfolding urge_delivery_def by (erule idempotent_step) (rule urge_operation_step)

lemma command_resource_step:
  "command_resource e a rtype rid q key db = Inr (db', r) \<Longrightarrow> biz_inv db \<Longrightarrow> biz_step a db db'"
  unfolding command_resource_def Let_def guard_Inr_iff
  by (elim conjE, erule idempotent_step) (rule command_operation_step)

lemmas handler_steps =
  create_refund_step create_after_sales_step create_invoice_step create_complaint_step
  create_handoff_step cancel_order_step change_address_step urge_delivery_step command_resource_step

lemma run_operation_handler_step:
  "run_operation_handler e a c key h db = Inr (db', r) \<Longrightarrow> biz_inv db \<Longrightarrow> biz_step a db db'"
  by (auto simp: run_operation_handler_def Let_def
      split: sum.splits operation_handler.splits if_splits intro: handler_steps)

lemma validated_Inr_iff: "validated ok h db = Inr r \<longleftrightarrow> ok \<and> h db = Inr r"
  by (simp add: validated_def)

lemma handle_step:
  assumes "handle e a key req db = Inr (db', r)" and "biz_inv db"
  shows "biz_step a db db'"
  using assms
  by (cases req)
    (auto simp: validated_Inr_iff legacy_update_rejected_def execute_Inr_iff
      intro: handler_steps run_operation_handler_step)

lemma serve_step:
  assumes "serve e a key req db = (res, db')" and "biz_inv db"
  shows "biz_step a db db'"
  using assms
  by (cases res) (auto simp: serve_def transaction_Inl_iff transaction_Inr_iff intro: handle_step)

section \<open>Reachable databases\<close>

inductive biz_run :: "bizdb \<Rightarrow> bizdb \<Rightarrow> bool" where
  start: "biz_run db db"
| request: "biz_run db db1 \<Longrightarrow> serve e a key req db1 = (res, db2) \<Longrightarrow> biz_run db db2"

lemma biz_run_inv [inv_intros]: "biz_run db db' \<Longrightarrow> biz_inv db \<Longrightarrow> biz_inv db'"
  by (induction rule: biz_run.induct) (auto intro: biz_step_inv serve_step)

lemma biz_run_row:
  assumes "biz_run db db'" and "biz_inv db" and "tbl_look res_id (tables db t) k = Some x"
  shows "\<exists>y. tbl_look res_id (tables db' t) k = Some y \<and> row_evolves t x y"
  using assms
proof (induction rule: biz_run.induct)
  case (start db)
  then show ?case by simp
next
  case (request db db1 e a key req res db2)
  then obtain y where y: "tbl_look res_id (tables db1 t) k = Some y" "row_evolves t x y" by blast
  have i: "biz_inv db1" using request.hyps(1) request.prems(1) by (rule biz_run_inv)
  have "table_step a t (tables db1 t) (tables db2 t)"
    using serve_step [OF request.hyps(2) i] by (simp add: biz_step_def)
  from table_step_row [OF this _ y(1)] i
  obtain z where "tbl_look res_id (tables db2 t) k = Some z" "row_evolves t y z" by auto
  with y(2) show ?case by (blast intro: row_evolves_trans)
qed

lemma biz_run_order:
  assumes "biz_run db db'" and "biz_inv db" and "tbl_look ord_id (orders db) k = Some x"
  shows "\<exists>y. tbl_look ord_id (orders db') k = Some y \<and> order_evolves x y"
  using assms
proof (induction rule: biz_run.induct)
  case (start db)
  then show ?case by simp
next
  case (request db db1 e a key req res db2)
  then obtain y where y: "tbl_look ord_id (orders db1) k = Some y" "order_evolves x y" by blast
  have i: "biz_inv db1" using request.hyps(1) request.prems(1) by (rule biz_run_inv)
  have "order_step a (orders db1, logistics_rows db1) (orders db2, logistics_rows db2)"
    using serve_step [OF request.hyps(2) i] by (simp add: biz_step_def)
  from order_step_row [OF this, of k y] i y(1)
  obtain z where "tbl_look ord_id (orders db2) k = Some z" "order_evolves y z" by auto
  with y(2) show ?case by (blast intro: order_evolves_trans)
qed

end
