(* ===== verification/Biz_Properties.thy ===== *)
theory Biz_Properties
  imports Biz_System
begin

text \<open>
  The properties of the Business Service and a small database on which they are witnessed.
\<close>

section \<open>A sample database\<close>

definition sample_env :: env where
  "sample_env = \<lparr>env_now = 100, env_today = 20, env_id = ''A1'', env_sha = py_repr\<rparr>"

definition later_env :: env where
  "later_env = \<lparr>env_now = 200, env_today = 20, env_id = ''B2'', env_sha = py_repr\<rparr>"

definition customer :: actor where
  "customer = \<lparr>act_user = ''u1'', act_role = ''customer'', act_tenant = ''t1'', act_account = ''u1'',
     act_permissions = [], act_request = None\<rparr>"

definition reviewer :: actor where
  "reviewer = \<lparr>act_user = ''op'', act_role = ''operator'', act_tenant = ''t1'', act_account = ''op'',
     act_permissions = [''refund:review'', ''business:read_any''], act_request = None\<rparr>"

definition platform_admin :: actor where
  "platform_admin = \<lparr>act_user = ''root'', act_role = ''admin'', act_tenant = ''platform'',
     act_account = ''root'', act_permissions = [], act_request = None\<rparr>"

definition sample_order :: "string \<Rightarrow> string \<Rightarrow> order_status \<Rightarrow> rat \<Rightarrow> stamp \<Rightarrow> order" where
  "sample_order oid tenant st amount signed =
     \<lparr>ord_id = oid, ord_user = (if tenant = ''t1'' then ''u1'' else ''u2''), ord_tenant = tenant,
      ord_product = ''p1'', ord_product_name = ''cup'', ord_status = st, ord_amount = amount,
      ord_paid = 1, ord_signed_at = signed, ord_address = ''road 1'', ord_version = 1,
      ord_created = 1, ord_updated = 1\<rparr>"

definition sample_db :: bizdb where
  "sample_db =
     \<lparr>accounts =
        [\<lparr>acc_user = ''u1'', acc_tenant = ''t1'', acc_role = ''customer'', acc_name = ''U1'',
          acc_permissions = Some []\<rparr>,
         \<lparr>acc_user = ''u2'', acc_tenant = ''t2'', acc_role = ''customer'', acc_name = ''U2'',
          acc_permissions = Some []\<rparr>],
      products =
        [\<lparr>prod_id = ''p1'', prod_name = ''cup'', prod_category = None, prod_support_after_sales = 1,
          prod_description = None\<rparr>],
      orders =
        [sample_order ''o1'' ''t1'' Signed 99 (DayStamp 1),
         sample_order ''o2'' ''t1'' ToShip 99 NoStamp,
         sample_order ''o3'' ''t2'' Signed 2000 (DayStamp 19)],
      logistics_rows = [], coupons = [], tables = (\<lambda>_. []), idems = [], audits = []\<rparr>"

definition refund_request :: application where
  "refund_request = \<lparr>app_order = ''o1'', app_version = 1, app_subject = None, app_user = None,
     app_reason = ''broken'', app_code = None\<rparr>"

definition refund_row :: resource where
  "refund_row = fresh_row sample_env customer ''RF-0'' (Some ''o1'') ''u1'' ''t1'' ''broken'' PendingReview"

definition refund_db :: bizdb where
  "refund_db = set_table Refunds [refund_row] sample_db"

lemmas sample_defs =
  sample_env_def later_env_def customer_def reviewer_def platform_admin_def sample_order_def sample_db_def
  refund_request_def

lemma sample_inv: "biz_inv sample_db"
  by (simp add: biz_inv_def sample_db_def sample_order_def unique_key_def exclusive_def)


lemma refund_db_tables [simp]:
  "tables refund_db = (\<lambda>t. if t = Refunds then [refund_row] else [])"
  by (auto simp: refund_db_def sample_db_def)

lemma refund_db_inv: "biz_inv refund_db"
proof -
  have "exclusive t (tables refund_db t)" for t by (simp add: exclusive_def unique_key_def)
  moreover have "unique_key ord_id (orders refund_db)" "unique_key idem_key (idems refund_db)"
    using sample_inv by (simp_all add: refund_db_def)
  ultimately show ?thesis unfolding biz_inv_def by blast
qed

lemma refund_db_look: "tbl_look res_id (tables refund_db Refunds) ''RF-0'' = Some refund_row"
  by (simp add: tbl_look_def sql_first_def refund_row_def)

text \<open>The conditions under which the reviewer approves the sample refund.\<close>

definition approvable :: "resource_spec \<Rightarrow> bool" where
  "approvable spec \<longleftrightarrow> tenant_matches reviewer (res_tenant refund_row) \<and> res_tenant refund_row \<noteq> []
     \<and> (\<forall>scope. command_permitted reviewer spec scope ''approve'') \<and> res_version refund_row = 1
     \<and> map_of (allowed_commands spec (status_opt (res_status refund_row))) ''approve'' = Some Approved"

lemma refund_spec:
  obtains spec where "spec_of ''refund'' = Some spec" "spec_table spec = Refunds" "approvable spec"
proof -
  obtain spec where s: "spec_of ''refund'' = Some spec" "spec_table spec = Refunds"
      "spec_transitions spec = refund_transitions" "spec_review spec = Some ''refund:review''"
    by (simp add: spec_of_def resource_specs_def)
  have "approvable spec"
    by (simp add: approvable_def tenant_matches_def is_platform_admin_def reviewer_def refund_row_def
        command_permitted_def can_def s allowed_commands_def status_opt_def refund_transitions_def)
  with s(1,2) show ?thesis by (rule that)
qed

text \<open>The definitions a concrete request runs through.\<close>

lemmas biz_eval =
  sample_defs serve_def transaction_def validated_def valid_application_def py_len_def
  create_refund_def create_order_application_def idempotent_def application_operation_def
  resolve_subject_def requested_subject_def sql_first_def tenant_matches_def is_platform_admin_def
  printable_def owned_order_def row_order_def tbl_look_def product_for_order_def
  refund_decision_def is_custom_def product_category_def custom_mark_def utf8_def clean_code_def
  active_exists_def supports_after_sales_def store_fresh_def sql_insert_def

lemma sample_refund:
  "\<exists>r. serve sample_env customer (Some ''k'') (CreateRefund refund_request) sample_db =
     (Inr r, snd (serve sample_env customer (Some ''k'') (CreateRefund refund_request) sample_db))"
  by (simp add: biz_eval)

lemma sample_refund_plain:
  "\<exists>db' r. handle sample_env customer None (CreateRefund refund_request) sample_db = Inr (db', r)"
  by (simp add: biz_eval)

section \<open>Refinement, invariants, lifecycles\<close>

text \<open>
  C1. Every request, whatever its outcome, is a step of the abstract service: at most one
  admissible insert or one lifecycle transition per resource table, at most one order
  command, an appended audit event for every change, and an appended idempotency record.
  The invariant of the database (unique keys, mutually exclusive rows) is kept.
\<close>

theorem serve_refines_biz_step:
  assumes "biz_inv db" and "serve e a key req db = (res, db')"
  shows "biz_step a db db' \<and> biz_inv db'"
  using serve_step [OF assms(2,1)] biz_step_inv assms(1) by blast

theorem serve_refines_biz_step_witness:
  "biz_step customer sample_db
     (snd (serve sample_env customer None (CreateRefund refund_request) sample_db))"
  using serve_refines_biz_step [OF sample_inv, of sample_env customer None "CreateRefund refund_request"]
  by (metis prod.collapse)

text \<open>
  C6. The reviewed transition in full: it succeeds exactly when the record exists in a
  tenant the actor may see, the actor is permitted, the expected version is the stored one
  and the transition table offers the command in the stored status; then exactly that row
  is replaced, with the next status and the next version.
\<close>

theorem transition_resource_characterised:
  assumes "biz_inv db" and "spec_of rtype = Some spec"
  shows "transition_resource e a rtype rid command expected note db = Inr (db', scope, row) \<longleftrightarrow>
    (\<exists>old next. tbl_look res_id (tables db (spec_table spec)) rid = Some old
       \<and> tenant_matches a (res_tenant old) \<and> res_tenant old \<noteq> []
       \<and> scope = scope_from_row rtype rid old
       \<and> command_permitted a spec scope command
       \<and> res_version old = expected \<and> expected \<noteq> 0
       \<and> map_of (allowed_commands spec (status_opt (res_status old))) command = Some next
       \<and> row = reviewed_row e a rtype command next note (issued_stamp e rtype command old) old
       \<and> db' = set_table (spec_table spec)
            (tbl_upd res_id rid (\<lambda>_. row) (tables db (spec_table spec))) db)"
  using assms by (intro transition_resource_Inr_iff) simp_all

theorem transition_resource_characterised_witness:
  "\<exists>db' scope row. transition_resource sample_env reviewer ''refund'' ''RF-0'' ''approve'' 1 None
      refund_db = Inr (db', scope, row)"
proof -
  obtain spec where s: "spec_of ''refund'' = Some spec" "spec_table spec = Refunds"
    and f: "approvable spec" by (rule refund_spec)
  show ?thesis
    unfolding transition_resource_characterised [OF refund_db_inv s(1)] s(2) refund_db_look
    using f by (auto simp: approvable_def)
qed

text \<open>
  C7. Over any sequence of requests a stored record keeps its identity, a record in a
  sealed status never changes again, versions never decrease, and the version grows by at
  most the rank of the status: no record sees more than three transitions.
\<close>

theorem resource_lifecycle:
  assumes "biz_inv db" and "biz_run db db'" and "tbl_look res_id (tables db t) k = Some x"
  shows "\<exists>y. tbl_look res_id (tables db' t) k = Some y \<and> same_identity x y
     \<and> (res_step t)\<^sup>*\<^sup>* (res_status x) (res_status y)
     \<and> (res_sealed (res_status x) \<longrightarrow> y = x)
     \<and> res_version x \<le> res_version y
     \<and> res_version y + int (res_rank (res_status y)) \<le> res_version x + int (res_rank (res_status x))"
proof -
  obtain y where y: "tbl_look res_id (tables db' t) k = Some y" "row_evolves t x y"
    using biz_run_row [OF assms(2,1,3)] by blast
  have "y = x" if "res_sealed (res_status x)"
  proof -
    have "res_status y = res_status x"
      using resource_life.sealed_run [of t "res_status x" "res_status y"] y(2) that
      by (simp add: row_evolves_def)
    then show ?thesis using y(2) by (auto simp: row_evolves_def)
  qed
  with y show ?thesis by (auto simp: row_evolves_def)
qed

theorem resource_lifecycle_witness:
  "\<exists>y. tbl_look res_id (tables (snd (serve sample_env reviewer None
       (ResourceCommand ''refund'' ''RF-0'' \<lparr>cmd_name = ''approve'', cmd_version = 1, cmd_note = None\<rparr>)
       refund_db)) Refunds) ''RF-0'' = Some y \<and> res_version y \<le> 4"
proof -
  obtain res db' where s: "serve sample_env reviewer None
       (ResourceCommand ''refund'' ''RF-0'' \<lparr>cmd_name = ''approve'', cmd_version = 1, cmd_note = None\<rparr>)
       refund_db = (res, db')" by fastforce
  have run: "biz_run refund_db db'" using biz_run.request [OF biz_run.start s] .
  show ?thesis
    using resource_lifecycle [OF refund_db_inv run refund_db_look] s by (auto simp: refund_row_def)
qed

text \<open>
  C8. In every reachable database two open refund (or after-sales) applications for one
  order are the same record, and so are two live handoffs of one subject in one tenant and
  two invoices of one title for one order.
\<close>

theorem open_applications_unique:
  assumes "biz_inv db" and "biz_run db db'"
    and "x \<in> set (tables db' t)" and "y \<in> set (tables db' t)"
    and "(t = Refunds \<or> t = AfterSales) \<and> res_order x = res_order y
           \<and> is_active (res_status x) \<and> is_active (res_status y)
       \<or> t = Handoffs \<and> res_subject x = res_subject y \<and> res_tenant x = res_tenant y
           \<and> live_handoff x \<and> live_handoff y
       \<or> t = Invoices \<and> res_order x = res_order y \<and> res_title x = res_title y"
  shows "x = y"
proof -
  have "exclusive t (tables db' t)" using biz_run_inv [OF assms(2,1)] by simp
  moreover have "conflict t x y" using assms(5) by (auto simp: conflict_def)
  ultimately show ?thesis using assms(3,4) by (auto simp: exclusive_def)
qed

theorem open_applications_unique_witness:
  "hd (tables refund_db Refunds) = refund_row"
proof -
  have m: "hd (tables refund_db Refunds) \<in> set (tables refund_db Refunds)"
    "refund_row \<in> set (tables refund_db Refunds)" by simp_all
  have "is_active (res_status refund_row)" by (simp add: refund_row_def is_active_def)
  then show ?thesis
    by (intro open_applications_unique [OF refund_db_inv biz_run.start m]) simp
qed

section \<open>Idempotency\<close>

lemma biz_run_idems:
  "biz_run db db' \<Longrightarrow> biz_inv db \<Longrightarrow> tbl_look idem_key (idems db) k = Some row \<Longrightarrow>
   tbl_look idem_key (idems db') k = Some row"
proof (induction rule: biz_run.induct)
  case (start db)
  then show ?case by simp
next
  case (request db db1 e a key req res db2)
  have "biz_inv db1" using request.hyps(1) request.prems(1) by (rule biz_run_inv)
  then have "idem_step a db1 db2" using serve_step [OF request.hyps(2)] by (simp add: biz_step_def)
  then obtain xs where "idems db2 = idems db1 @ xs" by (auto simp: idem_step_def)
  moreover have "tbl_look idem_key (idems db1) k = Some row"
    using request.IH request.prems by blast
  ultimately show ?case by (simp add: tbl_look_app)
qed

lemma idempotent_recorded:
  assumes "idempotent e a command (Some k) body operation db = Inr (db', r)" and "k \<noteq> []"
    and "unique_key idem_key (idems db)"
    and "\<And>db1 r. operation db = Inr (db1, r) \<Longrightarrow> unique_key idem_key (idems db1)"
  shows "\<exists>row. tbl_look idem_key (idems db') (act_tenant a, act_user a, command, k) = Some row
     \<and> idm_hash row = request_hash e a command body \<and> replayed (idm_response row) = replayed r"
  using assms(1)
proof (cases rule: idempotent_Inr_cases)
  case bare
  with assms(2) show ?thesis by simp
next
  case (replay row)
  then show ?thesis by (simp add: replayed_def)
next
  case (fresh db1 rows)
  have u: "unique_key idem_key (idems db1)" by (rule assms(4)) (rule fresh(2))
  show ?thesis
    using idem_table.look_ins_same [OF u fresh(4)] fresh(5) by simp
qed

text \<open>A recorded execution is replayed whatever the operation would do now.\<close>

lemma idempotent_replays:
  assumes "tbl_look idem_key (idems db) (act_tenant a, act_user a, command, k) = Some row" and "k \<noteq> []"
  shows "idempotent e a command (Some k) body operation db =
    (if idm_hash row = request_hash e a command body then Inr (db, replayed (idm_response row))
     else Inl (DomainError 409 (Some ''IDEMPOTENCY_KEY_REUSED'')))"
  using assms by (simp add: idempotent_def)


text \<open>
  The form every mutating request has: either it always fails, or it is one idempotent
  execution whose command name and body do not depend on clock, ids or database.
\<close>

definition keyed_form :: "actor \<Rightarrow> string option \<Rightarrow> (env \<Rightarrow> handler) \<Rightarrow> bool" where
  "keyed_form a key F \<longleftrightarrow>
     (\<exists>command body operation. (\<forall>e. F e = idempotent e a command key body (operation e))
        \<and> (\<forall>e db db1 r. operation e db = Inr (db1, r) \<longrightarrow> biz_inv db \<longrightarrow> biz_step a db db1))
     \<or> (\<forall>e db. \<exists>err. F e db = Inl err)"

lemma keyed_idempotent:
  "(\<And>e db db1 r. operation e db = Inr (db1, r) \<Longrightarrow> biz_inv db \<Longrightarrow> biz_step a db db1)
   \<Longrightarrow> keyed_form a key (\<lambda>e. idempotent e a command key body (operation e))"
  unfolding keyed_form_def by blast

lemma keyed_failure: "(\<And>e db. F e db = Inl (err e db)) \<Longrightarrow> keyed_form a key F"
  unfolding keyed_form_def by blast

lemma keyed_validated: "keyed_form a key F \<Longrightarrow> keyed_form a key (\<lambda>e. validated ok (F e))"
  by (cases ok) (auto simp: validated_def [abs_def] intro: keyed_failure)

lemma keyed_handlers:
  "keyed_form a key (\<lambda>e. create_refund e a q key)"
  "keyed_form a key (\<lambda>e. create_after_sales e a q key)"
  "keyed_form a key (\<lambda>e. create_invoice e a q key)"
  "keyed_form a key (\<lambda>e. create_complaint e a q key)"
  "keyed_form a key (\<lambda>e. create_handoff e a q key)"
  "keyed_form a key (\<lambda>e. cancel_order e a oid reason v key)"
  "keyed_form a key (\<lambda>e. change_address e a oid address v key)"
  "keyed_form a key (\<lambda>e. urge_delivery e a oid v key)"
  unfolding create_refund_def create_after_sales_def create_invoice_def create_complaint_def
    create_handoff_def cancel_order_def change_address_def urge_delivery_def
    create_order_application_def create_subject_record_def
  by (rule keyed_idempotent; erule application_operation_step invoice_operation_step
      subject_record_operation_step handoff_operation_step cancel_operation_step
      address_operation_step urge_operation_step;
      simp add: refund_decision_can_submit after_sales_decision_can_submit)+

lemma keyed_command: "keyed_form a key (\<lambda>e. command_resource e a rtype rid q key)"
proof (cases "spec_of rtype")
  case None
  then show ?thesis by (intro keyed_failure) (simp add: command_resource_def)
next
  case (Some spec)
  have "(\<lambda>e. command_resource e a rtype rid q key) = (\<lambda>e. idempotent e a
      (rtype @ ''.'' @ py_lower (py_strip (cmd_name q))) key
      (PDict [(''resource_id'', PStr rid), (''command'', PStr (py_lower (py_strip (cmd_name q)))),
          (''expected_version'', PInt (cmd_version q)), (''note'', opt_val (cmd_note q))])
      (command_operation e a rtype rid (py_lower (py_strip (cmd_name q))) (cmd_version q) (cmd_note q) key))"
    by (intro ext) (simp add: command_resource_def Some Let_def)
  then show ?thesis by (simp add: keyed_idempotent command_operation_step)
qed

lemma keyed_operation: "keyed_form a key (\<lambda>e. execute_operation_command e a payload key)"
proof (cases "normalize_operation_command payload")
  case (Inl f)
  then show ?thesis by (intro keyed_failure) (simp add: execute_operation_command_def)
next
  case (Inr c)
  note n = Inr
  show ?thesis
  proof (cases "verify_actor_scope c (act_user a) (act_tenant a) (Some (act_role a))")
    case (Inl f)
    then show ?thesis by (intro keyed_failure) (simp add: execute_operation_command_def n)
  next
    case (Inr u)
    note v = Inr
    show ?thesis
    proof (cases "dispatch_operation_command operation_handlers c")
      case (Inl f)
      then show ?thesis by (intro keyed_failure) (simp add: execute_operation_command_def n v)
    next
      case (Inr h)
      have eq: "(\<lambda>e. execute_operation_command e a payload key) = (\<lambda>e. run_operation_handler e a c key h)"
        by (intro ext) (simp add: execute_operation_command_def n v Inr)
      show ?thesis
      proof (cases "required_expected_version (oc_input c)")
        case (Inl f)
        then show ?thesis unfolding eq by (intro keyed_failure) (simp add: run_operation_handler_def)
      next
        case (Inr version)
        have "run_operation_handler e a c key h = (case h of
             ApplyRefund \<Rightarrow> validated (valid_application (command_application c version ''reason''))
               (create_refund e a (command_application c version ''reason'') key)
           | ApplyAfterSales \<Rightarrow> validated (valid_application (command_application c version ''reason''))
               (create_after_sales e a (command_application c version ''reason'') key)
           | ApplyInvoice \<Rightarrow> validated
               (valid_invoice ((command_application c version ''invoice_title'')\<lparr>app_code := None\<rparr>))
               (create_invoice e a ((command_application c version ''invoice_title'')\<lparr>app_code := None\<rparr>) key)
           | CancelOrderCommand \<Rightarrow> cancel_order e a (oc_rid c)
               (none_if_empty (text_of (dget (oc_input c) ''reason''))) version key)" for e
          by (intro ext) (simp add: run_operation_handler_def Inr Let_def validated_def
              split: operation_handler.split)
        then show ?thesis unfolding eq
          by (cases h) (simp_all add: keyed_handlers keyed_validated)
      qed
    qed
  qed
qed

lemma keyed_request: "keyed_form a key (\<lambda>e. handle e a key req)"
  by (cases req)
    (auto simp: legacy_update_rejected_def intro: keyed_failure keyed_validated keyed_handlers keyed_command keyed_operation)

lemma served_replays:
  assumes "biz_inv db" and "k \<noteq> []"
    and "serve e a (Some k) req db = (Inr r, db1)"
    and "biz_run db1 db2" and "env_sha e2 = env_sha e"
  shows "serve e2 a (Some k) req db2 = (Inr (replayed r), db2)"
proof -
  have h: "handle e a (Some k) req db = Inr (db1, r)"
    using assms(3) by (simp add: serve_def transaction_Inr_iff)
  obtain command body operation where
    form: "\<And>e. handle e a (Some k) req = idempotent e a command (Some k) body (operation e)"
    and step: "\<And>e db db1 r. operation e db = Inr (db1, r) \<Longrightarrow> biz_inv db \<Longrightarrow> biz_step a db db1"
    using keyed_request [of a "Some k" req] h unfolding keyed_form_def by (metis sum.distinct(1))
  have i1: "biz_inv db1" using serve_step [OF assms(3,1)] assms(1) by (rule biz_step_inv)
  have "unique_key idem_key (idems db')" if "operation e db = Inr (db', r')" for db' r'
    using step [OF that assms(1)] biz_step_inv assms(1) by (meson biz_invD(2))
  then obtain row where row: "tbl_look idem_key (idems db1) (act_tenant a, act_user a, command, k) = Some row"
    "idm_hash row = request_hash e a command body" "replayed (idm_response row) = replayed r"
    using idempotent_recorded [OF h [unfolded form] assms(2)] assms(1) by auto
  have look: "tbl_look idem_key (idems db2) (act_tenant a, act_user a, command, k) = Some row"
    by (rule biz_run_idems [OF assms(4) i1 row(1)])
  have "request_hash e2 a command body = request_hash e a command body"
    by (simp add: request_hash_def assms(5))
  then have "handle e2 a (Some k) req db2 = Inr (db2, replayed r)"
    using idempotent_replays [OF look assms(2)] row(2,3) by (simp add: form)
  then show ?thesis by (simp add: serve_def transaction_Inr_iff)
qed

text \<open>
  C9. Exactly once: when a keyed request has succeeded, sending it again under the same
  key - later, after any other requests - answers with the stored result, marked as a
  replay, and changes nothing.
\<close>

theorem keyed_request_exactly_once:
  assumes "biz_inv db" and "k \<noteq> []"
    and "serve e a (Some k) req db = (Inr r, db1)"
    and "biz_run db1 db2" and "env_sha e2 = env_sha e"
  shows "serve e2 a (Some k) req db2 = (Inr (replayed r), db2)"
  using assms by (rule served_replays)

theorem keyed_request_exactly_once_witness:
  "\<exists>r db1. serve sample_env customer (Some ''k'') (CreateRefund refund_request) sample_db = (Inr r, db1)
     \<and> serve later_env customer (Some ''k'') (CreateRefund refund_request) db1 = (Inr (replayed r), db1)"
proof -
  obtain r db1 where s: "serve sample_env customer (Some ''k'') (CreateRefund refund_request) sample_db = (Inr r, db1)"
    using sample_refund by auto
  have "env_sha later_env = env_sha sample_env" by (simp add: sample_defs)
  then show ?thesis
    using keyed_request_exactly_once [OF sample_inv _ s biz_run.start, of later_env] s by auto
qed

text \<open>
  A key used for one refund application rejects every other application under it: as
  long as the hash separates the two bodies the answer is 409 and nothing changes.
\<close>

theorem key_reuse_rejected:
  assumes "biz_inv db" and "k \<noteq> []" and "valid_application q'"
    and "serve e a (Some k) (CreateRefund q) db = (Inr r, db1)" and "biz_run db1 db2"
    and "request_hash e a ''refund.apply'' (application_body q')
           \<noteq> request_hash e a ''refund.apply'' (application_body q)"
  shows "serve e a (Some k) (CreateRefund q') db2 =
    (Inl (DomainError 409 (Some ''IDEMPOTENCY_KEY_REUSED'')), db2)"
proof -
  define op where "op x = application_operation e a x Refunds ''RF'' ''refund.apply'' refund_decision (Some k)" for x
  have form: "create_refund e a x (Some k) =
      idempotent e a ''refund.apply'' (Some k) (application_body x) (op x)" for x
    by (simp add: create_refund_def create_order_application_def op_def)
  have h: "idempotent e a ''refund.apply'' (Some k) (application_body q) (op q) db = Inr (db1, r)"
    using assms(4) by (simp add: serve_def transaction_Inr_iff validated_Inr_iff form)
  have i1: "biz_inv db1" using serve_step [OF assms(4,1)] assms(1) by (rule biz_step_inv)
  have "unique_key idem_key (idems db')" if "op q db = Inr (db', r')" for db' r'
  proof -
    have "biz_step a db db'" using that unfolding op_def
      by (rule application_operation_step) (simp_all add: refund_decision_can_submit)
    then show ?thesis using biz_step_inv assms(1) by (meson biz_invD(2))
  qed
  then obtain row where
    row: "tbl_look idem_key (idems db1) (act_tenant a, act_user a, ''refund.apply'', k) = Some row"
      "idm_hash row = request_hash e a ''refund.apply'' (application_body q)"
    using idempotent_recorded [OF h assms(2)] assms(1) by auto
  have look: "tbl_look idem_key (idems db2) (act_tenant a, act_user a, ''refund.apply'', k) = Some row"
    by (rule biz_run_idems [OF assms(5) i1 row(1)])
  then have "create_refund e a q' (Some k) db2 = Inl (DomainError 409 (Some ''IDEMPOTENCY_KEY_REUSED''))"
    using idempotent_replays [OF look assms(2)] row(2) assms(6) by (auto simp: form)
  then show ?thesis using assms(3) by (simp add: serve_def transaction_Inl_iff validated_def)
qed

theorem key_reuse_rejected_witness:
  "\<exists>db1. fst (serve sample_env customer (Some ''k'')
      (CreateRefund (refund_request\<lparr>app_version := 2\<rparr>)) db1) =
    Inl (DomainError 409 (Some ''IDEMPOTENCY_KEY_REUSED''))"
proof -
  obtain r db1 where s: "serve sample_env customer (Some ''k'') (CreateRefund refund_request) sample_db = (Inr r, db1)"
    using sample_refund by auto
  have v: "valid_application (refund_request\<lparr>app_version := 2\<rparr>)"
    by (simp add: valid_application_def py_len_def refund_request_def)
  have h: "request_hash sample_env customer ''refund.apply'' (application_body (refund_request\<lparr>app_version := 2\<rparr>))
      \<noteq> request_hash sample_env customer ''refund.apply'' (application_body refund_request)"
    by (simp add: request_hash_def sample_defs application_body_def digits_of.simps str_of_int_def)
  show ?thesis
    using key_reuse_rejected [OF sample_inv _ v s biz_run.start h]
    by (intro exI [of _ db1]) simp
qed

section \<open>Audit and tenants\<close>



text \<open>
  C11. Tenant isolation: a request leaves every order and every resource record of a tenant
  other than the actor's exactly as it was, in content and in number.
\<close>

theorem tenant_isolation:
  assumes "biz_inv db" and "serve e a key req db = (res, db')"
  shows "filter (\<lambda>r. \<not> same_tenant a (res_tenant r)) (tables db' t)
       = filter (\<lambda>r. \<not> same_tenant a (res_tenant r)) (tables db t)
     \<and> filter (\<lambda>r. \<not> same_tenant a (ord_tenant r)) (orders db')
       = filter (\<lambda>r. \<not> same_tenant a (ord_tenant r)) (orders db)"
proof -
  have s: "biz_step a db db'" using assms(2,1) by (rule serve_step)
  have t: "table_step a t (tables db t) (tables db' t)"
    and o1: "order_step a (orders db, logistics_rows db) (orders db', logistics_rows db')"
    using s by (simp_all add: biz_step_def)
  show ?thesis
    using foreign_rows_step [OF t] foreign_orders_step [OF o1] assms(1) by simp
qed

theorem tenant_isolation_witness:
  "filter (\<lambda>r. \<not> same_tenant customer (ord_tenant r))
     (orders (snd (serve sample_env customer None (CancelOrder ''o3'' None 1) sample_db)))
   = [sample_order ''o3'' ''t2'' Signed 2000 (DayStamp 19)]"
proof -
  obtain res db' where s: "serve sample_env customer None (CancelOrder ''o3'' None 1) sample_db = (res, db')"
    by fastforce
  have "filter (\<lambda>r. \<not> same_tenant customer (ord_tenant r)) (orders sample_db)
      = [sample_order ''o3'' ''t2'' Signed 2000 (DayStamp 19)]"
    by (simp add: sample_defs same_tenant_def is_platform_admin_def)
  then show ?thesis using tenant_isolation [OF sample_inv s] s by simp
qed


section \<open>What the commands do\<close>

text \<open>
  C15. The refund policy in full: an application may be submitted exactly for a paid order
  in a refundable status without an open application, when the product supports after-sales
  and is not custom-made or the confirmed reason is one of the special codes; it is sent to
  review exactly when it is late, expensive or custom-made, and a question is only asked
  when no reason code was given.
\<close>

theorem refund_policy_characterised:
  "dec_can_submit (refund_decision v p reason active rc) =
     (pv_paid v \<and> refundable_status (pv_status v) \<and> \<not> active
      \<and> ((supports_after_sales p \<and> \<not> is_custom v p) \<or> quality_or_spec rc))
   \<and> (dec_verdict (refund_decision v p reason active rc) = REQUIRE_REVIEW) =
     (dec_can_submit (refund_decision v p reason active rc)
      \<and> ((case pv_signed v of None \<Rightarrow> False | Some d \<Rightarrow> d > 15) \<or> pv_amount v \<ge> 1000 \<or> is_custom v p))
   \<and> ((dec_verdict (refund_decision v p reason active rc) = NEEDS_INPUT) =
     (pv_paid v \<and> refundable_status (pv_status v) \<and> \<not> active
      \<and> \<not> (supports_after_sales p \<and> \<not> is_custom v p) \<and> \<not> quality_or_spec rc
      \<and> py_strip (opt_str rc) = []))"
proof -
  have verdict: "dec_can_submit d = (dec_verdict d \<in> {ALLOW_SUBMIT, REQUIRE_REVIEW})"
    if "d = refund_decision v p reason active rc" for d
    unfolding that refund_decision_def Let_def by auto
  show ?thesis
    unfolding refund_decision_can_submit
    by (cases "pv_status v"; cases "pv_signed v")
      (auto simp: refund_decision_def refundable_status_def Let_def)
qed

text \<open>The conditions of a refund application, and the record and answer it results in.\<close>

definition refund_admissible :: "bizdb \<Rightarrow> actor \<Rightarrow> application \<Rightarrow> string \<Rightarrow> order \<Rightarrow> bool" where
  "refund_admissible db a q subject ro \<longleftrightarrow>
     resolve_subject db a (requested_subject q) ''refund:create_on_behalf'' = Inr subject
   \<and> row_order db (app_order q) = Some ro \<and> tenant_matches a (ord_tenant ro) \<and> ord_user ro = subject
   \<and> int_or_one (ord_version ro) = app_version q
   \<and> ord_paid ro \<noteq> 0 \<and> refundable_status (ord_status ro)
   \<and> \<not> active_exists db Refunds (app_order q)
   \<and> ((supports_after_sales (product_for_order db ro) \<and> \<not> is_custom (raw_view ro) (product_for_order db ro))
      \<or> quality_or_spec (clean_code (app_code q)))"

definition refund_record :: "env \<Rightarrow> actor \<Rightarrow> application \<Rightarrow> string \<Rightarrow> order \<Rightarrow> resource" where
  "refund_record e a q subject ro =
     (fresh_row e a (new_id e ''RF'') (Some (app_order q)) subject (ord_tenant ro)
        (py_strip (app_reason q)) PendingReview)\<lparr>res_reason_code := clean_code (app_code q)\<rparr>"

definition refund_verdict :: "bizdb \<Rightarrow> application \<Rightarrow> order \<Rightarrow> decision" where
  "refund_verdict db q ro = refund_decision (raw_view ro) (product_for_order db ro) (app_reason q) False
     (clean_code (app_code q))"

lemma handle_refund_Inr_iff:
  assumes "act_user a \<noteq> []"
  shows "handle e a None (CreateRefund q) db = Inr (db', r) \<longleftrightarrow>
    valid_application q \<and> (\<exists>subject ro. refund_admissible db a q subject ro
      \<and> new_id e ''RF'' \<notin> res_id ` set (tables db Refunds)
      \<and> db' = add_audit e a ''refund.apply'' ''refund'' (new_id e ''RF'') (Some subject) None None
             (Some (ResSt PendingReview)) None
             (PDict [(''order_id'', PStr (app_order q)),
                (''policy_decision'', PStr (verdict_text (dec_verdict (refund_verdict db q ro)))),
                (''reason_codes'', PList (map PStr (dec_reason_codes (refund_verdict db q ro))))])
             (set_table Refunds (tables db Refunds @ [refund_record e a q subject ro]) db)
      \<and> r = \<lparr>resp_data = ResourceData (refund_record e a q subject ro),
             resp_decision = Some (refund_verdict db q ro), resp_idempotent = False\<rparr>)"
    (is "?L \<longleftrightarrow> ?R")
proof -
  have perm: "takeWhile (\<lambda>c. c \<noteq> CHR ''.'') ''refund.apply'' @ '':create_on_behalf'' = ''refund:create_on_behalf''"
    by simp
  have ne: "subject \<noteq> []"
    if "resolve_subject db a (requested_subject q) p = Inr subject" for subject p
    using that assms by (auto simp: resolve_subject_Inr_iff str_or_def split: if_splits)
  have L: "?L \<longleftrightarrow> valid_application q \<and>
     application_operation e a q Refunds ''RF'' ''refund.apply'' refund_decision None db = Inr (db', r)"
    by (simp add: validated_Inr_iff create_refund_def create_order_application_def idempotent_def)
  show ?thesis
    unfolding L application_operation_Inr_iff perm owned_order_Inr_iff refund_decision_can_submit
      store_fresh_Inr_iff
    apply (rule conj_cong [OF refl], rule iff_exI, rule iff_exI)
    subgoal for subject ro
      by (cases "active_exists db Refunds (app_order q)";
          cases "resolve_subject db a (requested_subject q) ''refund:create_on_behalf'' = Inr subject")
        (auto simp: refund_admissible_def refund_record_def refund_verdict_def refund_decision_can_submit ne)
    done
qed

text \<open>
  C16. A refund application succeeds exactly under the subject, ownership, version and
  policy conditions, and then adds exactly one record, for the subject and the order's
  tenant, in the initial status, with the policy's decision in audit and answer.
\<close>

theorem create_refund_correct:
  assumes "act_user a \<noteq> []"
  shows "handle e a None (CreateRefund q) db = Inr (db', r) \<longleftrightarrow>
    valid_application q \<and> (\<exists>subject ro. refund_admissible db a q subject ro
      \<and> new_id e ''RF'' \<notin> res_id ` set (tables db Refunds)
      \<and> db' = add_audit e a ''refund.apply'' ''refund'' (new_id e ''RF'') (Some subject) None None
             (Some (ResSt PendingReview)) None
             (PDict [(''order_id'', PStr (app_order q)),
                (''policy_decision'', PStr (verdict_text (dec_verdict (refund_verdict db q ro)))),
                (''reason_codes'', PList (map PStr (dec_reason_codes (refund_verdict db q ro))))])
             (set_table Refunds (tables db Refunds @ [refund_record e a q subject ro]) db)
      \<and> r = \<lparr>resp_data = ResourceData (refund_record e a q subject ro),
             resp_decision = Some (refund_verdict db q ro), resp_idempotent = False\<rparr>)"
  using assms by (rule handle_refund_Inr_iff)

theorem create_refund_correct_witness:
  "\<exists>db' r. handle sample_env customer None (CreateRefund refund_request) sample_db = Inr (db', r)"
proof -
  have u: "act_user customer \<noteq> []" by (simp add: customer_def)
  have v: "valid_application refund_request"
    by (simp add: valid_application_def py_len_def refund_request_def)
  have "refund_admissible sample_db customer refund_request ''u1'' (sample_order ''o1'' ''t1'' Signed 99 (DayStamp 1))"
    by (simp add: refund_admissible_def biz_eval refundable_status_def int_or_one_def)
  then show ?thesis
    unfolding create_refund_correct [OF u] using v
    by (auto simp: sample_db_def)
qed

lemma cancel_order_Inr_iff:
  assumes "biz_inv db"
  shows "cancel_order e a oid reason expected None db = Inr (db', r) \<longleftrightarrow>
    (\<exists>ro. row_order db oid = Some ro \<and> ord_tenant ro = act_tenant a \<and> tenant_matches a (ord_tenant ro)
       \<and> (actor_can_read_any a \<or> ord_user ro = act_user a)
       \<and> cancellable (ord_status ro) \<and> ord_version ro = expected \<and> expected \<noteq> 0
       \<and> db' = add_audit e a ''order.cancel'' ''order'' oid (Some (ord_user ro)) None
            (Some (OrderSt (ord_status ro))) (Some (OrderSt Cancelled)) None
            (PDict [(''reason'', opt_val reason)])
            (db\<lparr>orders := tbl_upd ord_id oid (\<lambda>_. cancelled_row e ro) (orders db),
                logistics_rows := sql_update (\<lambda>l. log_order l = oid) (cancelled_logistics e)
                  (logistics_rows db)\<rparr>)
       \<and> r = ok_response (OrderData (decorate_order e (cancelled_row e ro))))"
    (is "?L \<longleftrightarrow> ?R")
proof -
  let ?p = "cancel_match oid a expected"
  have u: "unique_key ord_id (orders db)" using assms by simp
  have pk: "\<And>r. ?p r \<Longrightarrow> ord_id r = oid" by (simp add: cancel_match_def)
  have cnt: "sql_rowcount ?p (orders db) = 1 \<longleftrightarrow> (\<exists>r. tbl_look ord_id (orders db) oid = Some r \<and> ?p r)"
    using sql_rowcount_look [where p = ?p, OF u pk] .
  have upd: "sql_update ?p (cancelled_row e) (orders db) = tbl_upd ord_id oid (\<lambda>_. cancelled_row e ro) (orders db)
      \<and> tbl_look ord_id (tbl_upd ord_id oid (\<lambda>_. cancelled_row e ro) (orders db)) oid = Some (cancelled_row e ro)"
    if "tbl_look ord_id (orders db) oid = Some ro" "?p ro" for ro
    using sql_update_one [where p = ?p and f = "cancelled_row e", OF u pk that]
      tbl_upd_const [OF u that(1), of "cancelled_row e"] tbl_look_upd [OF u, of oid "\<lambda>_. cancelled_row e ro" oid] that tbl_look_key [OF that(1)]
    by simp
  have L: "?L \<longleftrightarrow> cancel_operation e a oid reason expected None db = Inr (db', r)"
    by (simp add: cancel_order_def idempotent_def)
  have m: "?p ro \<longleftrightarrow> ord_tenant ro = act_tenant a \<and> cancellable (ord_status ro) \<and> ord_version ro = expected"
    if "tbl_look ord_id (orders db) oid = Some ro" for ro
    using tbl_look_key [OF that] by (simp add: cancel_match_def)
  show ?thesis
    unfolding L cancel_operation_Inr_iff owned_order_Inr_iff row_order_def
    apply (rule iff_exI)
    subgoal for ro
    proof (cases "tbl_look ord_id (orders db) oid = Some ro")
      case False
      then show ?thesis by simp
    next
      case True
      note look = True
      show ?thesis
      proof (cases "?p ro")
        case False
        then have "sql_rowcount ?p (orders db) \<noteq> 1" using cnt look by simp
        with False look show ?thesis using m [OF look] by blast
      next
        case True
        then have one: "sql_rowcount ?p (orders db) = 1" using cnt look by blast
        have v: "int_or_one (ord_version ro) = expected \<longleftrightarrow> expected \<noteq> 0"
          using True by (auto simp: cancel_match_def int_or_one_def)
        from True show ?thesis
          unfolding one upd [OF look True, THEN conjunct1] upd [OF look True, THEN conjunct2] v
          using look m [OF look] by auto
      qed
    qed
    done
qed

text \<open>
  C17. Cancelling an order succeeds exactly when the actor owns it or may read any order of
  its own tenant, the order is not shipped, and the expected version is the stored one; then
  that order is cancelled with the next version, its logistics row is closed, and nothing
  else changes except the audit trail.
\<close>

theorem cancel_order_correct:
  assumes "biz_inv db"
  shows "cancel_order e a oid reason expected None db = Inr (db', r) \<longleftrightarrow>
    (\<exists>ro. row_order db oid = Some ro \<and> ord_tenant ro = act_tenant a \<and> tenant_matches a (ord_tenant ro)
       \<and> (actor_can_read_any a \<or> ord_user ro = act_user a)
       \<and> cancellable (ord_status ro) \<and> ord_version ro = expected \<and> expected \<noteq> 0
       \<and> db' = add_audit e a ''order.cancel'' ''order'' oid (Some (ord_user ro)) None
            (Some (OrderSt (ord_status ro))) (Some (OrderSt Cancelled)) None
            (PDict [(''reason'', opt_val reason)])
            (db\<lparr>orders := tbl_upd ord_id oid (\<lambda>_. cancelled_row e ro) (orders db),
                logistics_rows := sql_update (\<lambda>l. log_order l = oid) (cancelled_logistics e)
                  (logistics_rows db)\<rparr>)
       \<and> r = ok_response (OrderData (decorate_order e (cancelled_row e ro))))"
  using assms by (rule cancel_order_Inr_iff)

theorem cancel_order_correct_witness:
  "\<exists>db' r. cancel_order sample_env customer ''o2'' None 1 None sample_db = Inr (db', r)"
  unfolding cancel_order_correct [OF sample_inv]
  by (simp add: row_order_def tbl_look_def sql_first_def sample_defs tenant_matches_def
      is_platform_admin_def cancellable_def)


text \<open>
  C18. Orders over any sequence of requests: identity, owner, tenant, product, amount and
  payment never change, versions only grow, and the status either stays or becomes
  cancelled. An order that is shipped, signed, cancelled or refunded is never touched; in
  particular no request, a completed refund included, ever marks an order as refunded.
\<close>

theorem order_lifecycle:
  assumes "biz_inv db" and "biz_run db db'" and "row_order db oid = Some x"
  shows "\<exists>y. row_order db' oid = Some y \<and> same_order x y \<and> ord_version x \<le> ord_version y
     \<and> ord_status y \<in> {ord_status x, Cancelled}
     \<and> (ord_status x \<notin> {ToShip, PaidUp} \<longrightarrow> y = x)
     \<and> (ord_status y = Refunded \<longrightarrow> ord_status x = Refunded)"
  using biz_run_order [OF assms(2,1), of oid x] assms(3)
  by (auto simp: row_order_def order_evolves_def cancellable_def)

theorem order_lifecycle_witness:
  "\<exists>y. row_order (snd (serve sample_env customer None (CancelOrder ''o2'' None 1) sample_db)) ''o2'' = Some y
     \<and> ord_user y = ''u1''"
proof -
  obtain res db' where s: "serve sample_env customer None (CancelOrder ''o2'' None 1) sample_db = (res, db')"
    by fastforce
  have run: "biz_run sample_db db'" using biz_run.request [OF biz_run.start s] .
  have look: "row_order sample_db ''o2'' = Some (sample_order ''o2'' ''t1'' ToShip 99 NoStamp)"
    by (simp add: row_order_def tbl_look_def sql_first_def sample_defs)
  show ?thesis
    using order_lifecycle [OF sample_inv run look] s
    by (auto simp: same_order_def sample_order_def)
qed

text \<open>
  A platform administrator, who passes every tenant check, can still not cancel an
  order of a tenant other than its own account's: the update is restricted to the actor's
  tenant, so a cancellable order at the expected version is answered with a conflict.
\<close>

theorem platform_admin_cancel_conflict:
  assumes "is_platform_admin a" and "row_order db oid = Some ro" and "ord_tenant ro \<noteq> act_tenant a"
    and "cancellable (ord_status ro)" and "int_or_one (ord_version ro) = v"
    and "biz_inv db" and "valid_cancel reason v"
  shows "serve e a None (CancelOrder oid reason v) db = (Inl (DomainError 409 (Some ''ORDER_CONFLICT'')), db)"
proof -
  have own: "owned_order db a oid None = Inr ro"
    using assms(1,2)
    by (auto simp: owned_order_Inr_iff tenant_matches_def actor_can_read_any_def is_operator_def
        is_platform_admin_def can_def)
  have "\<not> (\<exists>r. tbl_look ord_id (orders db) oid = Some r \<and> cancel_match oid a v r)"
    using assms(2,3) by (auto simp: row_order_def cancel_match_def)
  then have "sql_rowcount (cancel_match oid a v) (orders db) \<noteq> 1"
    using sql_rowcount_look [where p = "cancel_match oid a v" and k = oid and key = ord_id and rows = "orders db"]
      assms(6) by (auto simp: cancel_match_def)
  then have "cancel_operation e a oid reason v None db = Inl (DomainError 409 (Some ''ORDER_CONFLICT''))"
    using own assms(4,5) by (simp add: cancel_operation_def)
  then show ?thesis
    using assms(7) by (simp add: serve_def validated_def cancel_order_def idempotent_def transaction_Inl_iff)
qed

theorem platform_admin_cancel_conflict_witness:
  "fst (serve sample_env platform_admin None (CancelOrder ''o2'' None 1) sample_db)
     = Inl (DomainError 409 (Some ''ORDER_CONFLICT''))"
proof -
  have "row_order sample_db ''o2'' = Some (sample_order ''o2'' ''t1'' ToShip 99 NoStamp)"
    by (simp add: row_order_def tbl_look_def sql_first_def sample_defs)
  from platform_admin_cancel_conflict [OF _ this _ _ _ sample_inv, of platform_admin 1 None sample_env]
  show ?thesis
    by (simp add: sample_defs is_platform_admin_def cancellable_def valid_cancel_def py_len_def)
qed

text \<open>
  The review of late refunds is never reached: for a signed order of a supported,
  ordinary product below the amount limit, an application is accepted without review
  whatever the day of signing, because the policy is given the table row; on the decorated
  row the same policy would ask for review after fifteen days.
\<close>

theorem late_refund_not_reviewed:
  assumes "ord_paid ro \<noteq> 0" and "ord_status ro = Signed" and "ord_amount ro < 1000"
    and "supports_after_sales p" and "\<not> is_custom (raw_view ro) p"
    and "ord_signed_at ro = DayStamp d" and "env_today e > d + 15"
  shows "dec_verdict (refund_decision (raw_view ro) p reason False rc) = ALLOW_SUBMIT
    \<and> dec_verdict (refund_decision (decorated_view (decorate_order e ro)) p reason False rc) = REQUIRE_REVIEW"
proof (rule conjI)
  have c: "is_custom (decorated_view (decorate_order e ro)) p = is_custom (raw_view ro) p"
    by (simp add: is_custom_def decorated_view_def)
  have s: "signed_days_ago (decorate_order e ro) = Some (env_today e - d)"
    using assms(6,7) by (simp add: decorate_order_def order.extend_def)
  show "dec_verdict (refund_decision (raw_view ro) p reason False rc) = ALLOW_SUBMIT"
    using assms by (simp add: refund_decision_def Let_def)
  show "dec_verdict (refund_decision (decorated_view (decorate_order e ro)) p reason False rc) = REQUIRE_REVIEW"
    using assms c s by (simp add: refund_decision_def Let_def decorated_view_def)
qed

theorem late_refund_not_reviewed_witness:
  "dec_verdict (refund_decision (raw_view (sample_order ''o1'' ''t1'' Signed 99 (DayStamp 1))) None [] False None)
     = ALLOW_SUBMIT"
  by (rule late_refund_not_reviewed [where e = sample_env and d = 1, THEN conjunct1])
    (simp_all add: biz_eval)

end
