(* ===== verification/Biz_Preview.thy ===== *)
theory Biz_Preview
  imports Biz_Resources
begin

text \<open>
  \<open>operation_preview\<close> of \<open>application/order_operations.py\<close>: the projection of what a command
  would do now. It reads the database and never writes it. Messages are left out; the
  blocking code, the names of the asked inputs and the alternatives are kept.
\<close>

datatype preview_verdict = PvAllowed | PvNeedsReview | PvNeedsInput | PvBlocked

record order_snapshot =
  sn_order :: decorated
  sn_name :: string
  sn_received :: bool
  sn_version :: int
  sn_product :: "product option"
  sn_logistics :: "logistics option"

datatype snapshot =
    TargetSnapshot "string option" "string option"
  | OrderSnapshot order_snapshot
  | ResourceSnapshot string string "res_status option" int

record preview =
  pr_snapshot :: snapshot
  pr_decision :: preview_verdict
  pr_blocker :: "string option"
  pr_inputs :: "string list"
  pr_alternatives :: "string list"
  pr_fetched :: int

definition preview_payload ::
  "env \<Rightarrow> snapshot \<Rightarrow> preview_verdict \<Rightarrow> string list \<Rightarrow> preview" where
  "preview_payload e s d inputs =
     \<lparr>pr_snapshot = s, pr_decision = d, pr_blocker = None, pr_inputs = inputs,
      pr_alternatives = [], pr_fetched = env_now e\<rparr>"

definition blocked_with_alternatives ::
  "env \<Rightarrow> snapshot \<Rightarrow> string \<Rightarrow> string list \<Rightarrow> preview" where
  "blocked_with_alternatives e s code alternatives =
     \<lparr>pr_snapshot = s, pr_decision = PvBlocked, pr_blocker = Some code, pr_inputs = [],
      pr_alternatives = alternatives, pr_fetched = env_now e\<rparr>"

definition order_preview_snapshot :: "env \<Rightarrow> bizdb \<Rightarrow> order \<Rightarrow> order_snapshot" where
  "order_preview_snapshot e db ro =
    (let p = product_for_order db ro in
     \<lparr>sn_order = decorate_order e ro,
      sn_name = str_or (ord_product_name ro) (case p of None \<Rightarrow> [] | Some q \<Rightarrow> prod_name q),
      sn_received = (ord_status ro = Signed),
      sn_version = int_or_one (ord_version ro),
      sn_product = p,
      sn_logistics = sql_first (\<lambda>l. log_order l = ord_id ro) (logistics_rows db)\<rparr>)"

record preview_request =
  pq_rtype :: "string option"
  pq_rid :: "string option"
  pq_operation :: string
  pq_input :: pydict

section \<open>The order operations\<close>

definition preview_refund :: "env \<Rightarrow> bizdb \<Rightarrow> order \<Rightarrow> string \<Rightarrow> pydict \<Rightarrow> preview" where
  "preview_refund e db ro rid values =
    (let s = OrderSnapshot (order_preview_snapshot e db ro);
         reason = stripped (dget values ''reason'') in
     if reason = [] then preview_payload e s PvNeedsInput [''reason_code'', ''reason'']
     else
       let d = refund_decision (raw_view ro) (product_for_order db ro) reason
                 (active_exists db Refunds rid)
                 (none_if_empty (text_of (dget values ''reason_code'')))
       in if dec_verdict d = NEEDS_INPUT then preview_payload e s PvNeedsInput (dec_inputs d)
          else if \<not> dec_can_submit d
          then blocked_with_alternatives e s (str_or (opt_str (dec_reason_code d)) ''POLICY_DENIED'')
                 (if opt_str (dec_reason_code d) = ''ORDER_NOT_SIGNED''
                  then (if cancellable (ord_status ro) then [''CANCEL_ORDER''] else [''CONTACT_SUPPORT''])
                  else [])
          else preview_payload e s
                 (if dec_verdict d = REQUIRE_REVIEW then PvNeedsReview else PvAllowed) [])"

definition preview_after_sales :: "env \<Rightarrow> bizdb \<Rightarrow> order \<Rightarrow> string \<Rightarrow> pydict \<Rightarrow> preview" where
  "preview_after_sales e db ro rid values =
    (let s = OrderSnapshot (order_preview_snapshot e db ro);
         reason = stripped (dget values ''reason'') in
     if reason = [] \<or> stripped (dget values ''reason_code'') = []
     then preview_payload e s PvNeedsInput [''reason_code'', ''reason'']
     else
       let d = after_sales_decision (raw_view ro) (product_for_order db ro) reason
                 (active_exists db AfterSales rid)
                 (none_if_empty (text_of (dget values ''reason_code'')))
       in if dec_verdict d = NEEDS_INPUT then preview_payload e s PvNeedsInput (dec_inputs d)
          else if \<not> dec_can_submit d
          then blocked_with_alternatives e s (str_or (opt_str (dec_reason_code d)) ''POLICY_DENIED'')
                 [''CONTACT_SUPPORT'']
          else preview_payload e s PvAllowed [])"

definition preview_order ::
  "env \<Rightarrow> bizdb \<Rightarrow> order \<Rightarrow> string \<Rightarrow> string \<Rightarrow> pydict \<Rightarrow> preview" where
  "preview_order e db ro rid operation values =
    (let s = OrderSnapshot (order_preview_snapshot e db ro); st = ord_status ro in
     if operation = ''APPLY_REFUND'' then preview_refund e db ro rid values
     else if operation = ''APPLY_AFTER_SALES'' then preview_after_sales e db ro rid values
     else if operation = ''APPLY_INVOICE'' then
       (if stripped (dget values ''invoice_title'') = []
        then preview_payload e s PvNeedsInput [''invoice_title'']
        else if ord_paid ro = 0 \<or> st = Cancelled
        then blocked_with_alternatives e s ''INVOICE_NOT_ELIGIBLE'' []
        else preview_payload e s PvAllowed [])
     else if operation = ''CANCEL_ORDER'' then
       (if \<not> cancellable st
        then blocked_with_alternatives e s ''ORDER_CANCEL_NOT_ALLOWED'' [''CONTACT_SUPPORT'']
        else if stripped (dget values ''reason'') = [] then preview_payload e s PvNeedsInput [''reason'']
        else preview_payload e s PvAllowed [])
     else if operation = ''CHANGE_ADDRESS'' then
       (if stripped (dget values ''address'') = [] then preview_payload e s PvNeedsInput [''address'']
        else if \<not> cancellable st
        then blocked_with_alternatives e s ''ADDRESS_CHANGE_NOT_ALLOWED'' [''CONTACT_SUPPORT'']
        else preview_payload e s PvAllowed [])
     else if operation = ''URGE_DELIVERY'' then
       (if \<not> cancellable st
        then blocked_with_alternatives e s ''URGE_NOT_ALLOWED'' [''QUERY_LOGISTICS'']
        else preview_payload e s PvAllowed [])
     else blocked_with_alternatives e s ''UNKNOWN_OPERATION'' [])"

section \<open>The cancellation of a refund, and the whole preview\<close>

definition error_code :: "biz_error \<Rightarrow> string" where
  "error_code err = (case err of DomainError _ c \<Rightarrow> str_or (opt_str c) ''COMMAND_FORBIDDEN''
     | _ \<Rightarrow> ''COMMAND_FORBIDDEN'')"

definition preview_cancel_refund :: "env \<Rightarrow> actor \<Rightarrow> bizdb \<Rightarrow> string \<Rightarrow> preview" where
  "preview_cancel_refund e a db rid =
    (case load_resource_scope db a ''refund'' rid of
       Inl err \<Rightarrow> blocked_with_alternatives e (TargetSnapshot (Some ''refund'') (Some rid)) (error_code err) []
     | Inr (spec, scope) \<Rightarrow>
        (case require_command_permission a spec scope ''cancel'' of
           Inl err \<Rightarrow> blocked_with_alternatives e (TargetSnapshot (Some ''refund'') (Some rid)) (error_code err) []
         | Inr _ \<Rightarrow>
             let s = ResourceSnapshot ''refund'' rid (sc_status scope) (sc_version scope) in
             if ''cancel'' \<notin> fst ` set (allowed_commands spec (sc_status scope))
             then blocked_with_alternatives e s ''INVALID_TRANSITION'' []
             else preview_payload e s PvAllowed []))"

definition operation_preview :: "env \<Rightarrow> actor \<Rightarrow> preview_request \<Rightarrow> bizdb \<Rightarrow> biz_error + preview" where
  "operation_preview e a q db =
    (let operation = py_upper (py_strip (pq_operation q));
         rtype = none_if_empty (py_strip (opt_str (pq_rtype q)));
         rid = none_if_empty (py_strip (opt_str (pq_rid q)));
         values = pq_input q in
     if operation = ''CREATE_COMPLAINT'' \<or> operation = ''CREATE_HUMAN_HANDOFF'' then
       Inr (if stripped (dget values ''reason'') = []
            then preview_payload e (TargetSnapshot None None) PvNeedsInput [''reason'']
            else preview_payload e (TargetSnapshot None None) PvAllowed [])
     else (case (rtype, rid) of
         (Some rt, Some ri) \<Rightarrow>
           if rt = ''order'' then
             (case owned_order db a ri None of
                Inl err \<Rightarrow> Inl err
              | Inr ro \<Rightarrow> Inr (preview_order e db ro ri operation values))
           else if rt = ''refund'' \<and> operation = ''CANCEL_REFUND''
           then Inr (preview_cancel_refund e a db ri)
           else Inr (blocked_with_alternatives e (TargetSnapshot (Some rt) (Some ri)) ''UNKNOWN_OPERATION'' [])
       | _ \<Rightarrow> Inr (preview_payload e (TargetSnapshot rtype rid) PvNeedsInput [''target''])))"

section \<open>Facts\<close>

lemma preview_payload_simps [simp]:
  "pr_decision (preview_payload e s d is) = d" "pr_inputs (preview_payload e s d is) = is"
  "pr_decision (blocked_with_alternatives e s c as) = PvBlocked"
  "pr_blocker (blocked_with_alternatives e s c as) = Some c"
  by (simp_all add: preview_payload_def blocked_with_alternatives_def)

text \<open>A preview lets a refund pass exactly when the policy does.\<close>

lemma preview_refund_passes:
  "pr_decision (preview_refund e db ro rid values) \<in> {PvAllowed, PvNeedsReview} \<longleftrightarrow>
     stripped (dget values ''reason'') \<noteq> [] \<and>
     dec_can_submit (refund_decision (raw_view ro) (product_for_order db ro)
       (stripped (dget values ''reason'')) (active_exists db Refunds rid)
       (none_if_empty (text_of (dget values ''reason_code''))))"
proof -
  have q: "dec_verdict (refund_decision v p r ac rc) = NEEDS_INPUT \<Longrightarrow> \<not> dec_can_submit (refund_decision v p r ac rc)"
    for v p r ac rc
    unfolding refund_decision_can_submit by (cases "pv_status v") (auto simp: refund_decision_def Let_def split: if_splits)
  show ?thesis unfolding preview_refund_def Let_def
    using q [of "raw_view ro" "product_for_order db ro" "stripped (dget values ''reason'')"
        "active_exists db Refunds rid" "none_if_empty (text_of (dget values ''reason_code''))"]
    by simp
qed


end
