(* ===== verification/Biz_Queries.thy ===== *)
theory Biz_Queries
  imports Biz_Resources
begin

text \<open>
  \<open>application/order_queries.py\<close>: orders, their available actions, logistics and the
  catalogue. A query filters by the visible subject and the actor's tenant in SQL; its
  decoded filters are a record here (amounts are rationals, timestamps integers).
\<close>

section \<open>Listing orders\<close>

definition order_visible :: "actor \<Rightarrow> string option \<Rightarrow> order \<Rightarrow> bool" where
  "order_visible a subject r =
    ((truthy_str subject \<longrightarrow> Some (ord_user r) = subject)
     \<and> (\<not> is_platform_admin a \<longrightarrow> ord_tenant r = act_tenant a))"

definition newest_first :: "(order \<Rightarrow> bool) \<Rightarrow> order list \<Rightarrow> order list" where
  "newest_first p rows = sql_desc (\<lambda>r. (ord_created r, ord_id r)) p rows"

definition list_orders :: "env \<Rightarrow> actor \<Rightarrow> string option \<Rightarrow> bizdb \<Rightarrow> biz_error + decorated list" where
  "list_orders e a requested db =
    (case visible_subject a requested of
       Inl err \<Rightarrow> Inl err
     | Inr subject \<Rightarrow>
         Inr (map (decorate_order e) (newest_first (order_visible a subject) (orders db))))"

section \<open>Available actions\<close>

record availability =
  av_actions :: "string list"
  av_refund :: decision
  av_after_sales :: decision
  av_invoice :: bool

definition available_actions :: "bizdb \<Rightarrow> order \<Rightarrow> string \<Rightarrow> availability" where
  "available_actions db ro reason =
    (let p = product_for_order db ro;
         rd = refund_decision (raw_view ro) p reason (active_exists db Refunds (ord_id ro)) None;
         ad = after_sales_decision (raw_view ro) p reason (active_exists db AfterSales (ord_id ro)) None;
         inv = (ord_paid ro \<noteq> 0 \<and> ord_status ro \<noteq> Cancelled)
     in \<lparr>av_actions =
           (if dec_can_submit rd then [''APPLY_REFUND''] else [])
           @ (if dec_can_submit ad then [''APPLY_AFTER_SALES''] else [])
           @ (if inv then [''APPLY_INVOICE''] else [])
           @ (if cancellable (ord_status ro) then [''CANCEL_ORDER'', ''CHANGE_ADDRESS'', ''URGE_DELIVERY''] else []),
         av_refund = rd, av_after_sales = ad, av_invoice = inv\<rparr>)"

definition get_order ::
  "env \<Rightarrow> actor \<Rightarrow> string \<Rightarrow> string option \<Rightarrow> bizdb \<Rightarrow> biz_error + (decorated \<times> availability)" where
  "get_order e a oid requested db =
    (case visible_subject a requested of
       Inl err \<Rightarrow> Inl err
     | Inr subject \<Rightarrow>
        (case owned_order db a oid subject of
           Inl err \<Rightarrow> Inl err
         | Inr ro \<Rightarrow> Inr (decorate_order e ro, available_actions db ro [])))"

definition order_available_actions ::
  "actor \<Rightarrow> string \<Rightarrow> string \<Rightarrow> bizdb \<Rightarrow> biz_error + (string \<times> availability)" where
  "order_available_actions a oid reason db =
    (case owned_order db a oid None of
       Inl err \<Rightarrow> Inl err
     | Inr ro \<Rightarrow> Inr (oid, available_actions db ro reason))"

section \<open>SQL \<open>LIKE\<close>\<close>

text \<open>\<open>_\<close> stands for one code point, so a text is cut into its code points first.\<close>

fun like_match :: "string list \<Rightarrow> string list \<Rightarrow> bool" where
  "like_match [] ss = (ss = [])"
| "like_match (p # ps) ss =
    (if p = ''%'' then like_match ps ss \<or> (case ss of [] \<Rightarrow> False | s # ss' \<Rightarrow> like_match (p # ps) ss')
     else (case ss of [] \<Rightarrow> False
       | s # ss' \<Rightarrow> (p = ''_'' \<or> py_lower p = py_lower s) \<and> like_match ps ss'))"

definition sql_like :: "string \<Rightarrow> string \<Rightarrow> bool" where
  "sql_like pattern t = like_match (code_points pattern) (code_points t)"

definition contains_keyword :: "string \<Rightarrow> string \<Rightarrow> bool" where
  "contains_keyword keyword t = sql_like (''%'' @ py_lower keyword @ ''%'') (py_lower t)"

section \<open>Querying orders\<close>

record order_filters =
  of_keyword :: string
  of_status :: "order_status list"
  of_paid :: "bool option"
  of_amount_min :: "rat option"
  of_amount_max :: "rat option"
  of_range_lower :: "int option list"
  of_range_upper :: "int option list"
  of_created_gte :: "int option"
  of_created_lt :: "int option"

definition first_some :: "'a option list \<Rightarrow> 'a option" where
  "first_some xs = (case filter (\<lambda>x. x \<noteq> None) xs of [] \<Rightarrow> None | x # _ \<Rightarrow> x)"

definition at_least :: "'a::linorder option \<Rightarrow> 'a \<Rightarrow> bool" where
  "at_least b x = (case b of None \<Rightarrow> True | Some l \<Rightarrow> l \<le> x)"

definition below :: "'a::linorder option \<Rightarrow> 'a \<Rightarrow> bool" where
  "below b x = (case b of None \<Rightarrow> True | Some u \<Rightarrow> x < u)"

definition filter_matches :: "order_filters \<Rightarrow> order \<Rightarrow> bool" where
  "filter_matches f r =
    ((of_keyword f \<noteq> [] \<longrightarrow> contains_keyword (of_keyword f) (ord_product_name r))
     \<and> (of_status f \<noteq> [] \<longrightarrow> ord_status r \<in> set (of_status f))
     \<and> (case of_paid f of None \<Rightarrow> True | Some b \<Rightarrow> ord_paid r = (if b then 1 else 0))
     \<and> at_least (of_amount_min f) (ord_amount r)
     \<and> (case of_amount_max f of None \<Rightarrow> True | Some m \<Rightarrow> ord_amount r \<le> m)
     \<and> at_least (first_some (of_range_lower f)) (ord_created r)
     \<and> below (first_some (of_range_upper f)) (ord_created r)
     \<and> at_least (of_created_gte f) (ord_created r)
     \<and> below (of_created_lt f) (ord_created r))"

text \<open>\<open>[str(v) for v in scope.get("order_ids") or [] if str(v).strip()]\<close>.\<close>

definition scope_items :: "pyval \<Rightarrow> pyval list option" where
  "scope_items v = (if \<not> truthy v then Some [] else (case v of
     PList xs \<Rightarrow> Some xs
   | PStr s \<Rightarrow> Some (map PStr (code_points s))
   | PDict d \<Rightarrow> Some (map (PStr \<circ> fst) d)
   | _ \<Rightarrow> None))"

definition selected_ids :: "pydict \<Rightarrow> string list option" where
  "selected_ids scope = map_option (\<lambda>vs. filter (\<lambda>s. py_strip s \<noteq> []) (map py_str vs))
     (scope_items (dget scope ''order_ids''))"

definition selects_ids :: "pydict \<Rightarrow> bool" where
  "selects_ids scope = (dget scope ''type'' = PStr ''selected_order_ids'')"

record order_result =
  qr_rows :: "decorated list"
  qr_total :: nat
  qr_matched :: nat

definition query_orders ::
  "env \<Rightarrow> actor \<Rightarrow> string option \<Rightarrow> pydict \<Rightarrow> order_filters \<Rightarrow> bizdb \<Rightarrow> biz_error + order_result" where
  "query_orders e a requested scope f db =
    (case visible_subject a requested of
       Inl err \<Rightarrow> Inl err
     | Inr subject \<Rightarrow>
        (case selected_ids scope of
           None \<Rightarrow> Inl ConversionError
         | Some selected \<Rightarrow>
             if selects_ids scope \<and> selected = []
             then Inr \<lparr>qr_rows = [], qr_total = 0, qr_matched = 0\<rparr>
             else
               let p = (\<lambda>r. order_visible a subject r
                         \<and> (selects_ids scope \<longrightarrow> ord_id r \<in> set selected)
                         \<and> filter_matches f r);
                   rows = map (decorate_order e) (newest_first p (orders db))
               in Inr \<lparr>qr_rows = rows,
                       qr_total = sql_rowcount (order_visible a subject) (orders db),
                       qr_matched = length rows\<rparr>))"

section \<open>Logistics\<close>

definition order_logistics :: "actor \<Rightarrow> string \<Rightarrow> bizdb \<Rightarrow> biz_error + logistics" where
  "order_logistics a oid db =
    (case owned_order db a oid None of
       Inl err \<Rightarrow> Inl err
     | Inr _ \<Rightarrow> (case sql_first (\<lambda>l. log_order l = oid) (logistics_rows db) of
         None \<Rightarrow> Inl (DomainError 404 None)
       | Some l \<Rightarrow> Inr l))"

text \<open>The texts of the logistics statuses.\<close>

definition log_status_texts :: "(string \<times> log_status) list" where
  "log_status_texts =
    [(utf8 [229, 190, 133, 229, 143, 145, 232, 180, 167], LogToShip),
     (utf8 [232, 191, 144, 232, 190, 147, 228, 184, 173], LogInTransit),
     (utf8 [230, 180, 190, 233, 128, 129, 228, 184, 173], LogDispatching),
     (utf8 [229, 183, 178, 231, 173, 190, 230, 148, 182], LogSigned),
     (utf8 [229, 183, 178, 229, 143, 150, 230, 182, 136], LogCancelled)]"

datatype logistics_filter = AnyDelivery | WithStatus log_status | Dispatched bool

text \<open>The validation of the filters, in the order of its checks.\<close>

definition read_logistics_filter :: "pydict \<Rightarrow> biz_error + logistics_filter" where
  "read_logistics_filter filters =
    (if \<not> list_all (\<lambda>(k, v). k = ''delivery_status'' \<or> k = ''dispatched'') filters
     then Inl (DomainError 400 (Some ''UNSUPPORTED_LOGISTICS_FILTER''))
     else
       let status = dget filters ''delivery_status''; dispatched = dget filters ''dispatched'' in
       if status \<noteq> PNone \<and> dispatched \<noteq> PNone
       then Inl (DomainError 400 (Some ''LOGISTICS_FILTER_CONFLICT''))
       else if status \<noteq> PNone then
         (case map_of log_status_texts (py_strip (py_str status)) of
            None \<Rightarrow> Inl (DomainError 400 (Some ''INVALID_LOGISTICS_FILTER_VALUE''))
          | Some s \<Rightarrow> Inr (WithStatus s))
       else (case dispatched of
            PNone \<Rightarrow> Inr AnyDelivery
          | PBool b \<Rightarrow> Inr (Dispatched b)
          | _ \<Rightarrow> Inl (DomainError 400 (Some ''INVALID_LOGISTICS_FILTER_VALUE''))))"

definition delivery_matches :: "logistics_filter \<Rightarrow> logistics \<Rightarrow> bool" where
  "delivery_matches f l = (case f of
     AnyDelivery \<Rightarrow> True
   | WithStatus s \<Rightarrow> log_state l = s
   | Dispatched True \<Rightarrow> log_state l \<noteq> LogToShip
   | Dispatched False \<Rightarrow> log_state l = LogToShip)"

record logistics_result =
  lr_rows :: "(order \<times> logistics) list"
  lr_source :: nat
  lr_matched :: nat
  lr_applied :: logistics_filter

text \<open>The inner join; \<open>order_id\<close> is the primary key of \<open>logistics\<close>.\<close>

definition join_logistics :: "(order \<Rightarrow> bool) \<Rightarrow> bizdb \<Rightarrow> (order \<times> logistics) list" where
  "join_logistics p db = concat (map (\<lambda>r. map (Pair r) (filter (\<lambda>l. log_order l = ord_id r) (logistics_rows db)))
     (newest_first p (orders db)))"

definition query_logistics ::
  "actor \<Rightarrow> string option \<Rightarrow> pydict \<Rightarrow> pydict \<Rightarrow> bizdb \<Rightarrow> biz_error + logistics_result" where
  "query_logistics a requested scope filters db =
    (case visible_subject a requested of
       Inl err \<Rightarrow> Inl err
     | Inr subject \<Rightarrow>
        (case read_logistics_filter filters of
           Inl err \<Rightarrow> Inl err
         | Inr f \<Rightarrow>
            (case selected_ids scope of
               None \<Rightarrow> Inl ConversionError
             | Some selected \<Rightarrow>
                 if scope \<noteq> [] \<and> text_of (dget scope ''type'') \<noteq> ''selected_order_ids''
                 then Inl (DomainError 400 (Some ''INVALID_LOGISTICS_SCOPE''))
                 else if selects_ids scope \<and> selected = []
                 then Inr \<lparr>lr_rows = [], lr_source = 0, lr_matched = 0, lr_applied = AnyDelivery\<rparr>
                 else
                   let p = (\<lambda>r. order_visible a subject r
                             \<and> (selected \<noteq> [] \<longrightarrow> ord_id r \<in> set selected));
                       source = join_logistics p db;
                       rows = filter (\<lambda>(r, l). delivery_matches f l) source
                   in Inr \<lparr>lr_rows = rows, lr_source = length source, lr_matched = length rows,
                           lr_applied = f\<rparr>)))"

section \<open>Catalogue and coupons\<close>

definition list_products :: "string option \<Rightarrow> bizdb \<Rightarrow> product list" where
  "list_products keyword db =
    sort_key prod_id (filter (\<lambda>p. \<not> truthy_str keyword
        \<or> contains_keyword (opt_str keyword) (prod_name p)
        \<or> (case prod_description p of None \<Rightarrow> False
           | Some d \<Rightarrow> contains_keyword (opt_str keyword) d))
      (products db))"

definition get_product :: "string \<Rightarrow> bizdb \<Rightarrow> biz_error + product" where
  "get_product pid db = (case sql_first (\<lambda>p. prod_id p = pid) (products db) of
     None \<Rightarrow> Inl (DomainError 404 None) | Some p \<Rightarrow> Inr p)"

definition list_coupons :: "actor \<Rightarrow> string option \<Rightarrow> bizdb \<Rightarrow> biz_error + coupon list" where
  "list_coupons a requested db =
    (case visible_subject a requested of
       Inl err \<Rightarrow> Inl err
     | Inr subject \<Rightarrow> Inr (sort_key cou_id
         (filter (\<lambda>c. truthy_str subject \<longrightarrow> Some (cou_user c) = subject) (coupons db))))"

section \<open>Facts\<close>

lemma set_newest_first [simp]: "set (newest_first p rows) = {r \<in> set rows. p r}"
  by (simp add: newest_first_def)

lemma length_newest_first [simp]: "length (newest_first p rows) = sql_rowcount p rows"
  by (simp add: newest_first_def sql_desc_def sql_rowcount_def)

lemma sql_rowcount_mono: "(\<And>r. p r \<Longrightarrow> q r) \<Longrightarrow> sql_rowcount p rows \<le> sql_rowcount q rows"
  unfolding sql_rowcount_def by (induction rows) auto

text \<open>Without wildcards in the keyword, the pattern is a substring search.\<close>

lemma like_match_plain:
  "\<forall>p\<in>set ps. p \<noteq> ''%'' \<and> p \<noteq> ''_'' \<Longrightarrow>
   like_match (ps @ [''%'']) ss \<longleftrightarrow> prefix (map py_lower ps) (map py_lower ss)"
proof (induction ps arbitrary: ss)
  case Nil
  have "like_match [''%''] ss" for ss
  proof (induction ss)
    case (Cons s ss)
    then show ?case by (subst like_match.simps) simp
  qed simp
  then show ?case by simp
next
  case (Cons p ps)
  then show ?case by (cases ss) auto
qed

lemma like_match_contains:
  assumes "\<forall>p\<in>set ps. p \<noteq> ''%'' \<and> p \<noteq> ''_''"
  shows "like_match (''%'' # ps @ [''%'']) ss \<longleftrightarrow> sublist (map py_lower ps) (map py_lower ss)"
proof (induction ss)
  case Nil
  then show ?case using like_match_plain [OF assms, of "[]"] by (subst like_match.simps) auto
next
  case (Cons s ss)
  then show ?case using like_match_plain [OF assms, of "s # ss"]
    by (subst like_match.simps) (simp add: sublist_Cons_right)
qed

end
