(* ===== verification/Biz_Reads.thy ===== *)
theory Biz_Reads
  imports Biz_Properties Biz_Preview Biz_Queries
begin

text \<open>
  How the read side of the Business Service relates to its commands: what a preview, a
  capability list or a query promises, and what the operation command port can do.
\<close>

section \<open>Previews and capability lists\<close>

lemma quality_clean_code:
  assumes "valid_application q"
  shows "quality_or_spec (clean_code (app_code q)) = quality_or_spec (none_if_empty (opt_str (app_code q)))"
proof -
  have "app_code q = None \<or> (\<exists>c\<in>set reason_code_literals. app_code q = Some c)"
    using assms by (auto simp: valid_application_def split: option.splits)
  moreover have "py_strip c = c" if "c \<in> set reason_code_literals" for c
    using that by (auto simp: reason_code_literals_def printable_def)
  ultimately show ?thesis by (auto simp: clean_code_def)
qed

lemma refund_can_submit_cong:
  "quality_or_spec rc = quality_or_spec rc' \<Longrightarrow>
   dec_can_submit (refund_decision v p reason active rc) = dec_can_submit (refund_decision v p reason' active rc')"
  by (simp add: refund_decision_can_submit)



text \<open>
  C20. The capability list of a record is exact: a command is offered for a stored record
  exactly when executing it at the stored version succeeds.
\<close>

theorem offered_commands_exact:
  assumes "biz_inv db" and "spec_of rtype = Some spec"
    and "tbl_look res_id (tables db (spec_table spec)) rid = Some row"
    and "tenant_matches a (res_tenant row)" and "res_tenant row \<noteq> []" and "0 < res_version row"
  shows "command \<in> set (available_commands_for_row a rtype row) \<longleftrightarrow>
    (\<exists>db' scope row'. transition_resource e a rtype rid command (res_version row) note db = Inr (db', scope, row'))"
proof -
  have u: "unique_key res_id (tables db (spec_table spec))" using assms(1) by simp
  have id: "res_id row = rid" by (rule tbl_look_key [OF assms(3)])
  have "command \<in> set (available_commands_for_row a rtype row) \<longleftrightarrow>
      command_permitted a spec (scope_from_row rtype rid row) command
      \<and> map_of (allowed_commands spec (status_opt (res_status row))) command \<noteq> None"
    by (auto simp: available_commands_for_row_def assms(2) id Let_def map_of_eq_None_iff image_iff)
  then show ?thesis
    unfolding transition_resource_Inr_iff [where spec = spec, OF u assms(2)]
    using assms(3-6) by auto
qed

theorem offered_commands_exact_witness:
  "''approve'' \<in> set (available_commands_for_row reviewer ''refund'' refund_row)"
proof -
  obtain spec where s: "spec_of ''refund'' = Some spec" "spec_table spec = Refunds"
    and f: "approvable spec" by (rule refund_spec)
  have u: "unique_key res_id (tables refund_db (spec_table spec))" using refund_db_inv by (rule biz_invD)
  have look: "tbl_look res_id (tables refund_db (spec_table spec)) ''RF-0'' = Some refund_row"
    using refund_db_look by (simp only: s(2))
  have "\<exists>db' scope row. transition_resource sample_env reviewer ''refund'' ''RF-0'' ''approve''
      (res_version refund_row) None refund_db = Inr (db', scope, row)"
    unfolding transition_resource_Inr_iff [where spec = spec, OF u s(1)] look
    using f by (auto simp: approvable_def)
  then show ?thesis
    using offered_commands_exact [OF refund_db_inv s(1) look] f by (simp add: approvable_def)
qed

text \<open>
  Optimistic concurrency: once a command has succeeded on a record at some version, no
  later command on it at that version or an older one succeeds, whatever came in between.
\<close>

theorem stale_version_rejected:
  assumes "biz_inv db" and "biz_run db1 db2" and "v \<le> expected"
    and "serve e a key (ResourceCommand rtype rid \<lparr>cmd_name = c, cmd_version = expected, cmd_note = note\<rparr>) db = (Inr r, db1)"
    and "\<not> resp_idempotent r"
  shows "\<exists>err. transition_resource e' a' rtype rid c' v note' db2 = Inl err"
proof (cases "spec_of rtype")
  case None
  then show ?thesis by (simp add: transition_resource_def load_resource_scope_def)
next
  case (Some spec)
  let ?T = "\<lambda>d. tables d (spec_table spec)"
  have i1: "biz_inv db1" using serve_step [OF assms(4,1)] assms(1) by (rule biz_step_inv)
  have i2: "biz_inv db2" by (rule biz_run_inv [OF assms(2) i1])
  have "command_resource e a rtype rid \<lparr>cmd_name = c, cmd_version = expected, cmd_note = note\<rparr> key db = Inr (db1, r)"
    using assms(4) by (simp add: serve_def transaction_Inr_iff validated_Inr_iff)
  then have "\<exists>d. command_operation e a rtype rid (py_lower (py_strip c)) expected note key db = Inr (d, r)
      \<and> tables db1 = tables d"
    unfolding command_resource_def Let_def guard_Inr_iff
    by (elim conjE idempotent_Inr_cases) (use assms(5) in \<open>auto simp: replayed_def\<close>)
  then obtain d scope row where
    t: "transition_resource e a rtype rid (py_lower (py_strip c)) expected note db = Inr (d, scope, row)"
    and td: "tables db1 = tables d"
    by (auto simp: command_operation_Inr_iff)
  have u: "unique_key res_id (?T db)" using assms(1) by simp
  from t [unfolded transition_resource_Inr_iff [where spec = spec, OF u Some]]
  obtain old where old: "tbl_look res_id (?T db) rid = Some old" "res_version row = expected + 1" "res_id row = rid"
    "?T d = tbl_upd res_id rid (\<lambda>_. row) (?T db)"
    using tbl_look_key [of res_id "?T db" rid] by auto
  have "tbl_look res_id (?T db1) rid = Some row"
    using tbl_look_upd [OF u, of rid "\<lambda>_. row" rid] old td by simp
  then obtain y where y: "tbl_look res_id (?T db2) rid = Some y" "res_version row \<le> res_version y"
    using biz_run_row [OF assms(2) i1] by (fastforce simp: row_evolves_def)
  have u2: "unique_key res_id (?T db2)" using i2 by simp
  have "transition_resource e' a' rtype rid c' v note' db2 \<noteq> Inr z" for z
    using transition_resource_Inr_iff [where spec = spec, OF u2 Some, of e' a' rid c' v note' "fst z" "fst (snd z)" "snd (snd z)"]
      y assms(3) old(2) by auto
  then show ?thesis by (cases "transition_resource e' a' rtype rid c' v note' db2") auto
qed


theorem stale_version_rejected_witness:
  "\<exists>r db1 err. serve sample_env reviewer None
       (ResourceCommand ''refund'' ''RF-0'' \<lparr>cmd_name = ''approve'', cmd_version = 1, cmd_note = None\<rparr>)
       refund_db = (Inr r, db1)
     \<and> transition_resource sample_env reviewer ''refund'' ''RF-0'' ''cancel'' 1 None db1 = Inl err"
proof -
  obtain spec where s: "spec_of ''refund'' = Some spec" "spec_table spec = Refunds"
    and f: "approvable spec" by (rule refund_spec)
  have u: "unique_key res_id (tables refund_db (spec_table spec))" using refund_db_inv by (rule biz_invD)
  have look: "tbl_look res_id (tables refund_db (spec_table spec)) ''RF-0'' = Some refund_row"
    using refund_db_look by (simp only: s(2))
  obtain d scope row where t: "transition_resource sample_env reviewer ''refund'' ''RF-0'' ''approve'' 1 None refund_db
      = Inr (d, scope, row)"
    using f transition_resource_Inr_iff [where spec = spec, OF u s(1)] look
    by (fastforce simp: approvable_def)
  have lo: "py_lower (py_strip ''approve'') = ''approve''"
    by (simp add: printable_def py_lower_def lower_char_def)
  obtain r db1 where v: "serve sample_env reviewer None
       (ResourceCommand ''refund'' ''RF-0'' \<lparr>cmd_name = ''approve'', cmd_version = 1, cmd_note = None\<rparr>)
       refund_db = (Inr r, db1)" and n: "\<not> resp_idempotent r"
    by (simp add: serve_def transaction_def validated_def valid_command_def py_len_def command_resource_def
        s(1) lo idempotent_def command_operation_def t Let_def ok_response_def del: py_strip_printable)
  show ?thesis
    using stale_version_rejected [OF refund_db_inv biz_run.start order_refl v n] v by blast
qed


section \<open>Queries\<close>

text \<open>
  An order query answers with exactly the orders the actor may see that match the
  filters: nothing of a foreign tenant, nothing of another user for an ordinary actor, and
  nothing left out; the counts it reports are those of its rows and of its population.
\<close>

theorem query_orders_exact:
  assumes "query_orders e a requested scope f db = Inr res" and "act_user a \<noteq> []"
  shows "(\<forall>d\<in>set (qr_rows res). \<exists>r\<in>set (orders db). d = decorate_order e r \<and> filter_matches f r
        \<and> (\<not> is_platform_admin a \<longrightarrow> ord_tenant r = act_tenant a)
        \<and> (\<not> actor_can_read_any a \<longrightarrow> ord_user r = act_user a)
        \<and> (truthy_str requested \<longrightarrow> Some (ord_user r) = requested))
     \<and> (\<not> selects_ids scope \<longrightarrow> (\<forall>r\<in>set (orders db).
          (is_platform_admin a \<or> ord_tenant r = act_tenant a)
          \<and> (if truthy_str requested then Some (ord_user r) = requested
             else actor_can_read_any a \<or> ord_user r = act_user a)
          \<and> filter_matches f r \<longrightarrow> decorate_order e r \<in> set (qr_rows res)))
     \<and> qr_matched res = length (qr_rows res) \<and> qr_matched res \<le> qr_total res"
proof -
  obtain subject selected where v: "visible_subject a requested = Inr subject"
    and sel: "selected_ids scope = Some selected"
    using assms(1) by (auto simp: query_orders_def split: sum.splits option.splits)
  have sub: "if truthy_str requested
      then (opt_str requested = act_user a \<or> actor_can_read_any a) \<and> subject = requested
      else subject = (if actor_can_read_any a then None else Some (act_user a))"
    using v by (simp add: visible_subject_Inr_iff)
  have user: "Some (ord_user r) = requested \<Longrightarrow> opt_str requested = ord_user r" for r :: order
    by (metis opt_str_simps(2))
  show ?thesis
  proof (cases "selects_ids scope \<and> selected = []")
    case True
    then have "res = \<lparr>qr_rows = [], qr_total = 0, qr_matched = 0\<rparr>"
      using assms(1) v sel by (simp add: query_orders_def)
    then show ?thesis using True by simp
  next
    case False
    define p where "p = (\<lambda>r. order_visible a subject r
        \<and> (selects_ids scope \<longrightarrow> ord_id r \<in> set selected) \<and> filter_matches f r)"
    have res: "res = \<lparr>qr_rows = map (decorate_order e) (newest_first p (orders db)),
        qr_total = sql_rowcount (order_visible a subject) (orders db),
        qr_matched = sql_rowcount p (orders db)\<rparr>"
      using assms(1) v sel False by (auto simp: query_orders_def Let_def p_def)
    have vis: "order_visible a subject r \<longleftrightarrow>
        (is_platform_admin a \<or> ord_tenant r = act_tenant a)
        \<and> (if truthy_str requested then Some (ord_user r) = requested
           else actor_can_read_any a \<or> ord_user r = act_user a)" for r
      using sub assms(2) by (auto simp: order_visible_def split: if_splits)
    have own: "ord_user r = act_user a" if "order_visible a subject r" "\<not> actor_can_read_any a" for r
      using that sub user [of r] assms(2) unfolding vis by (auto split: if_splits)
    have cnt: "sql_rowcount p (orders db) \<le> sql_rowcount (order_visible a subject) (orders db)"
      by (rule sql_rowcount_mono) (simp add: p_def)
    have sound: "\<exists>r\<in>set (orders db). d = decorate_order e r \<and> filter_matches f r
        \<and> (\<not> is_platform_admin a \<longrightarrow> ord_tenant r = act_tenant a)
        \<and> (\<not> actor_can_read_any a \<longrightarrow> ord_user r = act_user a)
        \<and> (truthy_str requested \<longrightarrow> Some (ord_user r) = requested)" if "d \<in> set (qr_rows res)" for d
    proof -
      from that obtain r where r: "r \<in> set (orders db)" "p r" "d = decorate_order e r"
        by (auto simp: res)
      then have "order_visible a subject r" "filter_matches f r" by (simp_all add: p_def)
      with r own [of r] show ?thesis unfolding vis by (intro bexI [of _ r]) auto
    qed
    have complete: "decorate_order e r \<in> set (qr_rows res)"
      if "r \<in> set (orders db)" "\<not> selects_ids scope" "order_visible a subject r" "filter_matches f r" for r
      using that by (auto simp: res p_def)
    show ?thesis using cnt sound complete [unfolded vis] by (simp add: res)
  qed
qed

definition no_filters :: order_filters where
  "no_filters = \<lparr>of_keyword = [], of_status = [], of_paid = None, of_amount_min = None,
     of_amount_max = None, of_range_lower = [], of_range_upper = [], of_created_gte = None,
     of_created_lt = None\<rparr>"

theorem query_orders_exact_witness:
  "\<exists>res. query_orders sample_env customer None [] no_filters sample_db = Inr res
     \<and> qr_matched res \<le> qr_total res"
proof -
  obtain res where q: "query_orders sample_env customer None [] no_filters sample_db = Inr res"
    by (simp add: query_orders_def visible_subject_def actor_can_read_any_def is_operator_def
        selected_ids_def scope_items_def selects_ids_def customer_def Let_def)
  show ?thesis using query_orders_exact [OF q] q by (simp add: customer_def)
qed

section \<open>The operation command port\<close>

text \<open>
  The command port grants nothing: whatever it answers with is what the ordinary
  handler answers for the same actor, key and database, on a request body rebuilt from the
  command and validated again; and a command only gets that far when every assertion it
  makes about actor, tenant, role, subject, resource and version agrees with the
  authenticated actor and the payload.
\<close>

theorem operation_port_grants_nothing:
  assumes "execute_operation_command e a payload key db = Inr res"
  shows "\<exists>c v. normalize_operation_command payload = Inr c
     \<and> assertions_agree c (act_user a) (act_tenant a) (Some (act_role a))
     \<and> required_expected_version (oc_input c) = Inr v \<and> 1 \<le> v
     \<and> oc_rtype c = ''order''
     \<and> (oc_operation c = ''APPLY_REFUND''
          \<and> handle e a key (CreateRefund (command_application c v ''reason'')) db = Inr res
       \<or> oc_operation c = ''APPLY_AFTER_SALES''
          \<and> handle e a key (CreateAfterSales (command_application c v ''reason'')) db = Inr res
       \<or> oc_operation c = ''APPLY_INVOICE''
          \<and> handle e a key (CreateInvoice ((command_application c v ''invoice_title'')\<lparr>app_code := None\<rparr>)) db = Inr res
       \<or> oc_operation c = ''CANCEL_ORDER''
          \<and> cancel_order e a (oc_rid c) (none_if_empty (text_of (dget (oc_input c) ''reason''))) v key db = Inr res)"
proof -
  from assms obtain c h where c: "normalize_operation_command payload = Inr c"
      "assertions_agree c (act_user a) (act_tenant a) (Some (act_role a))"
    and h: "map_of operation_handlers (oc_rtype c, oc_operation c) = Some h"
    and r: "run_operation_handler e a c key h db = Inr res"
    unfolding execute_Inr_iff by blast
  obtain v where v: "required_expected_version (oc_input c) = Inr v"
    using r by (cases "required_expected_version (oc_input c)") (auto simp: run_operation_handler_def)
  have pos: "1 \<le> v"
    using v by (auto simp: required_expected_version_def split: option.splits if_splits)
  have "oc_rtype c = ''order'' \<and> (oc_operation c, h) \<in> {(''APPLY_REFUND'', ApplyRefund),
      (''APPLY_AFTER_SALES'', ApplyAfterSales), (''APPLY_INVOICE'', ApplyInvoice),
      (''CANCEL_ORDER'', CancelOrderCommand)}"
    using h by (auto simp: operation_handlers_def split: if_splits)
  then show ?thesis using c v pos r
    by (intro exI [of _ c] exI [of _ v])
      (auto simp: run_operation_handler_def Let_def validated_def split: if_splits)
qed

definition sample_command :: pydict where
  "sample_command = [(''contract'', PStr command_contract), (''action_id'', PStr ''act''),
     (''operation'', PStr ''CANCEL_ORDER''),
     (''target'', PDict [(''resource_type'', PStr ''order''), (''resource_id'', PStr ''o2'')]),
     (''input'', PDict [(''expected_version'', PInt 1)])]"

theorem operation_port_grants_nothing_witness:
  "\<exists>res. execute_operation_command sample_env customer sample_command None sample_db = Inr res
     \<and> (\<exists>c. normalize_operation_command sample_command = Inr c \<and> oc_rtype c = ''order'')"
proof -
  obtain res where x: "execute_operation_command sample_env customer sample_command None sample_db = Inr res"
    by (simp add: execute_operation_command_def normalize_operation_command_def sample_command_def
        dict_or_empty_def stripped_def printable_def py_upper_def upper_char_def Let_def scope_ok_def
        scope_dict_def verify_actor_scope_def stripped_or_def py_or_def version_assertion_def
        dispatch_operation_command_def operation_handlers_def run_operation_handler_def
        required_expected_version_def cancel_order_def biz_eval cancel_operation_def
        cancellable_def sql_rowcount_def cancel_match_def sql_update_def cancelled_row_def)
  show ?thesis using operation_port_grants_nothing [OF x] x by blast
qed

end
