(* ===== verification/Biz_Security.thy ===== *)
theory Biz_Security
  imports Biz_Core
begin

text \<open>
  \<open>business_service/security.py\<close> and the security part of \<open>config.py\<close>: the service token,
  the signed actor headers with their nonce table, the canonicalisation of the identity
  from the account table, and the startup check of a protected deployment.

  HMAC-SHA256 is an argument (secret and text to hex digest), the clock is the argument
  \<open>now\<close>, in whole seconds.
\<close>

section \<open>Settings\<close>

datatype runtime_profile = LOCAL | PREPROD | PRODUCTION

record settings =
  set_profile :: runtime_profile
  set_backend :: string
  set_url :: "string option"
  set_token :: string
  set_require_signature :: bool
  set_secret :: "string option"
  set_ttl :: int
  set_seed :: bool

definition is_protected :: "settings \<Rightarrow> bool" where
  "is_protected s = (set_profile s = PREPROD \<or> set_profile s = PRODUCTION)"

text \<open>The list of failures; startup is refused when it is not empty.\<close>

definition security_failures :: "settings \<Rightarrow> string list" where
  "security_failures s =
    (if \<not> is_protected s then []
     else
       (if py_lower (py_strip (set_backend s)) \<in> {''postgres'', ''postgresql''} then [] else [''backend''])
       @ (let url = py_lower (opt_str (set_url s)) in
          if prefix ''postgresql://'' url \<or> prefix ''postgresql+psycopg://'' url then [] else [''url''])
       @ (let token = py_lower (set_token s) in
          if set_token s = [] \<or> length (set_token s) < 24
             \<or> list_ex (\<lambda>m. py_in m token) [''dev-service-token'', ''change-me'', ''changeme'', ''default'']
          then [''token''] else [])
       @ (if set_require_signature s then [] else [''signature''])
       @ (let secret = opt_str (set_secret s) in
          if length secret < 32
             \<or> list_ex (\<lambda>m. py_in m (py_lower secret)) [''change-me'', ''changeme'', ''default'', ''dev-secret'']
          then [''secret''] else [])
       @ (if set_seed s then [''seed''] else []))"

definition validate_security :: "settings \<Rightarrow> string + unit" where
  "validate_security s = (if security_failures s = [] then Inr () else Inl ''RuntimeError'')"

section \<open>Headers\<close>

record headers =
  hd_authorization :: "string option"
  hd_user :: "string option"
  hd_role :: "string option"
  hd_tenant :: "string option"
  hd_account :: "string option"
  hd_permissions :: "string option"
  hd_timestamp :: "string option"
  hd_nonce :: "string option"
  hd_signature :: "string option"
  hd_request :: "string option"

fun split_at :: "char \<Rightarrow> string \<Rightarrow> string list" where
  "split_at c [] = [[]]"
| "split_at c (x # xs) =
    (if x = c then [] # split_at c xs
     else (case split_at c xs of [] \<Rightarrow> [[x]] | w # ws \<Rightarrow> (x # w) # ws))"

definition actor_permissions :: "string option \<Rightarrow> string list" where
  "actor_permissions v = filter (\<lambda>p. p \<noteq> []) (map py_strip (split_at (CHR '','') (opt_str v)))"

definition verify_service_token :: "string option \<Rightarrow> settings \<Rightarrow> biz_error + unit" where
  "verify_service_token authorization s =
    (if opt_str authorization = [] \<or> opt_str authorization \<noteq> ''Bearer '' @ set_token s
     then Inl (HttpError 401 ''invalid business service token'') else Inr ())"

section \<open>The signature\<close>

record nonce_row =
  nn_nonce :: string
  nn_expires :: int

type_synonym nonces = "nonce_row list"

record claimed =
  cl_user :: string
  cl_role :: string
  cl_tenant :: string
  cl_account :: string
  cl_permissions :: string

definition canonical_text :: "claimed \<Rightarrow> int \<Rightarrow> string \<Rightarrow> string" where
  "canonical_text c ts nonce = join_with [CHR 0x0A]
     [cl_user c, cl_role c, cl_tenant c, cl_account c, cl_permissions c, str_of_int ts, nonce]"

definition register_nonce :: "settings \<Rightarrow> int \<Rightarrow> string \<Rightarrow> nonces \<Rightarrow> biz_error + (nonces \<times> unit)" where
  "register_nonce s now nonce ns =
    (case sql_insert nn_nonce \<lparr>nn_nonce = nonce, nn_expires = now + set_ttl s\<rparr>
            (sql_delete (\<lambda>r. nn_expires r < now) ns) of
       None \<Rightarrow> Inl (HttpError 401 ''actor signature replayed'')
     | Some ns' \<Rightarrow> Inr (ns', ()))"

definition verify_signature ::
  "(string \<Rightarrow> string \<Rightarrow> string) \<Rightarrow> settings \<Rightarrow> int \<Rightarrow> claimed \<Rightarrow> string option \<Rightarrow> string option
    \<Rightarrow> string option \<Rightarrow> nonces \<Rightarrow> (biz_error + unit) \<times> nonces" where
  "verify_signature hmac s now c timestamp nonce signature ns =
    (if \<not> set_require_signature s then (Inr (), ns)
     else if opt_str (set_secret s) = [] then (Inl (HttpError 503 ''signing secret not configured''), ns)
     else (case read_int (opt_str timestamp) of
       None \<Rightarrow> (Inl (HttpError 401 ''invalid actor signature timestamp''), ns)
     | Some ts \<Rightarrow>
         if \<bar>now - ts\<bar> > set_ttl s then (Inl (HttpError 401 ''actor signature expired''), ns)
         else if opt_str nonce = [] \<or> opt_str signature = []
         then (Inl (HttpError 401 ''actor signature missing''), ns)
         else if hmac (opt_str (set_secret s)) (canonical_text c ts (opt_str nonce)) \<noteq> opt_str signature
         then (Inl (HttpError 401 ''actor signature invalid''), ns)
         else transaction (register_nonce s now (opt_str nonce)) ns))"

section \<open>The authenticated actor\<close>

definition claimed_identity :: "headers \<Rightarrow> string \<Rightarrow> claimed" where
  "claimed_identity h user =
     \<lparr>cl_user = user,
      cl_role = str_or (py_lower (py_strip (str_or (opt_str (hd_role h)) ''customer''))) ''customer'',
      cl_tenant = str_or (py_strip (str_or (opt_str (hd_tenant h)) ''default'')) ''default'',
      cl_account = str_or (py_strip (str_or (opt_str (hd_account h)) user)) user,
      cl_permissions = opt_str (hd_permissions h)\<rparr>"

definition current_actor ::
  "(string \<Rightarrow> string \<Rightarrow> string) \<Rightarrow> settings \<Rightarrow> int \<Rightarrow> headers \<Rightarrow> bizdb \<Rightarrow> nonces \<Rightarrow> (biz_error + actor) \<times> nonces" where
  "current_actor hmac s now h db ns =
    (case verify_service_token (hd_authorization h) s of
       Inl err \<Rightarrow> (Inl err, ns)
     | Inr _ \<Rightarrow>
        let user = py_strip (opt_str (hd_user h)) in
        if user = [] then (Inl (HttpError 401 ''business actor missing''), ns)
        else
          let c = claimed_identity h user in
          (case verify_signature hmac s now c (hd_timestamp h) (hd_nonce h) (hd_signature h) ns of
             (Inl err, ns') \<Rightarrow> (Inl err, ns')
           | (Inr _, ns') \<Rightarrow>
              (case sql_first (\<lambda>r. acc_user r = user) (accounts db) of
                 Some acc \<Rightarrow>
                   (Inr \<lparr>act_user = user, act_role = acc_role acc, act_tenant = acc_tenant acc,
                      act_account = cl_account c,
                      act_permissions = (case acc_permissions acc of None \<Rightarrow> [] | Some ps \<Rightarrow> ps),
                      act_request = none_if_empty (py_strip (opt_str (hd_request h)))\<rparr>, ns')
               | None \<Rightarrow>
                   if is_protected s
                   then (Inl (HttpError 401 ''business actor account not provisioned''), ns')
                   else
                     (Inr \<lparr>act_user = user, act_role = cl_role c, act_tenant = cl_tenant c,
                        act_account = cl_account c,
                        act_permissions = actor_permissions (Some (cl_permissions c)),
                        act_request = none_if_empty (py_strip (opt_str (hd_request h)))\<rparr>, ns'))))"

section \<open>Facts\<close>

interpretation nonce_table: keyed_table "tbl_look nn_nonce" "sql_insert nn_nonce"
  "tbl_upd nn_nonce" nn_nonce "unique_key nn_nonce"
  by (rule keyed_list_table)

lemma verify_signature_accepts:
  assumes "verify_signature hmac s now c t n sg ns = (Inr u, ns')" and "set_require_signature s"
  obtains ts where "opt_str (set_secret s) \<noteq> []" "read_int (opt_str t) = Some ts"
    "\<bar>now - ts\<bar> \<le> set_ttl s" "opt_str n \<noteq> []"
    "hmac (opt_str (set_secret s)) (canonical_text c ts (opt_str n)) = opt_str sg"
    "opt_str n \<notin> nn_nonce ` set (sql_delete (\<lambda>r. nn_expires r < now) ns)"
    "ns' = sql_delete (\<lambda>r. nn_expires r < now) ns @ [\<lparr>nn_nonce = opt_str n, nn_expires = now + set_ttl s\<rparr>]"
  using assms
  by (auto simp: verify_signature_def register_nonce_def transaction_Inr_iff sql_insert_Some_iff
      split: if_splits option.splits)

text \<open>
  What one verification does to the nonce table: rows that have not expired stay.
\<close>

lemma verify_signature_keeps:
  assumes "r \<in> set ns" and "now \<le> nn_expires r"
  shows "r \<in> set (snd (verify_signature hmac s now c t n sg ns))"
  using assms
  by (auto simp: verify_signature_def register_nonce_def transaction_def sql_insert_def sql_delete_def
      split: option.splits)

text \<open>A series of verifications at the given times, each with headers of its own.\<close>

record attempt =
  at_now :: int
  at_claimed :: claimed
  at_timestamp :: "string option"
  at_nonce :: "string option"
  at_signature :: "string option"

definition try_attempt ::
  "(string \<Rightarrow> string \<Rightarrow> string) \<Rightarrow> settings \<Rightarrow> attempt \<Rightarrow> nonces \<Rightarrow> (biz_error + unit) \<times> nonces" where
  "try_attempt hmac s x ns =
     verify_signature hmac s (at_now x) (at_claimed x) (at_timestamp x) (at_nonce x) (at_signature x) ns"

fun after_attempts :: "(string \<Rightarrow> string \<Rightarrow> string) \<Rightarrow> settings \<Rightarrow> attempt list \<Rightarrow> nonces \<Rightarrow> nonces" where
  "after_attempts hmac s [] ns = ns"
| "after_attempts hmac s (x # xs) ns = after_attempts hmac s xs (snd (try_attempt hmac s x ns))"

lemma after_attempts_keeps:
  "r \<in> set ns \<Longrightarrow> \<forall>x\<in>set xs. at_now x \<le> nn_expires r \<Longrightarrow> r \<in> set (after_attempts hmac s xs ns)"
  by (induction xs arbitrary: ns) (auto simp: try_attempt_def intro: verify_signature_keeps)

lemma nonce_live_rejects:
  assumes "r \<in> set ns" and "nn_nonce r = opt_str (at_nonce x)" and "at_now x \<le> nn_expires r"
    and "set_require_signature s"
  shows "fst (try_attempt hmac s x ns) \<noteq> Inr ()"
proof
  assume "fst (try_attempt hmac s x ns) = Inr ()"
  then obtain ns' where "try_attempt hmac s x ns = (Inr (), ns')" by (metis prod.collapse)
  then show False unfolding try_attempt_def
    by (rule verify_signature_accepts [OF _ assms(4)])
      (use assms(1,3) in \<open>auto simp: sql_delete_def assms(2) [symmetric]\<close>)
qed

text \<open>
  C24. Replay protection: signed headers whose timestamp is not in the future are accepted
  at most once, whatever other requests come in between, as long as the clock does not
  run backwards.
\<close>

theorem signature_accepted_once:
  assumes "set_require_signature s" and "fst (try_attempt hmac s x ns) = Inr ()"
    and "read_int (opt_str (at_timestamp x)) = Some ts" and "ts \<le> at_now x"
    and "\<forall>y\<in>set ys. at_now y \<le> now"
  shows "fst (try_attempt hmac s (x\<lparr>at_now := now\<rparr>) (after_attempts hmac s ys (snd (try_attempt hmac s x ns))))
    \<noteq> Inr ()"
proof (cases "now \<le> at_now x + set_ttl s")
  case True
  let ?r = "\<lparr>nn_nonce = opt_str (at_nonce x), nn_expires = at_now x + set_ttl s\<rparr>"
  obtain ns' where t: "try_attempt hmac s x ns = (Inr (), ns')" using assms(2) by (metis prod.collapse)
  then have "?r \<in> set ns'"
    unfolding try_attempt_def by (rule verify_signature_accepts [OF _ assms(1)]) simp
  then have "?r \<in> set (after_attempts hmac s ys (snd (try_attempt hmac s x ns)))"
    using assms(5) True t by (intro after_attempts_keeps) auto
  then show ?thesis using True assms(1) by (intro nonce_live_rejects) auto
next
  case False
  show ?thesis
  proof
    let ?ns = "after_attempts hmac s ys (snd (try_attempt hmac s x ns))"
    assume "fst (try_attempt hmac s (x\<lparr>at_now := now\<rparr>) ?ns) = Inr ()"
    then obtain ns' where "try_attempt hmac s (x\<lparr>at_now := now\<rparr>) ?ns = (Inr (), ns')"
      by (metis prod.collapse)
    then show False unfolding try_attempt_def
      by (rule verify_signature_accepts [OF _ assms(1)]) (use False assms(3,4) in auto)
  qed
qed

definition sample_settings :: settings where
  "sample_settings = \<lparr>set_profile = PRODUCTION, set_backend = ''postgres'',
     set_url = Some ''postgresql://db'', set_token = ''0123456789012345678901234'',
     set_require_signature = True, set_secret = Some ''k'', set_ttl = 30, set_seed = False\<rparr>"

definition sample_attempt :: "int \<Rightarrow> string \<Rightarrow> attempt" where
  "sample_attempt now ts = \<lparr>at_now = now,
     at_claimed = \<lparr>cl_user = ''u1'', cl_role = ''customer'', cl_tenant = ''t1'', cl_account = ''u1'',
       cl_permissions = []\<rparr>,
     at_timestamp = Some ts, at_nonce = Some ''n'', at_signature = Some ''sig''\<rparr>"

lemmas security_eval =
  try_attempt_def verify_signature_def sample_settings_def sample_attempt_def register_nonce_def
  transaction_def sql_insert_def sql_delete_def read_int_def read_nat_def is_digit_def printable_def

theorem signature_accepted_once_witness:
  "fst (try_attempt (\<lambda>_ _. ''sig'') sample_settings (sample_attempt 105 ''90'')
     (snd (try_attempt (\<lambda>_ _. ''sig'') sample_settings (sample_attempt 100 ''90'') []))) \<noteq> Inr ()"
proof -
  have "fst (try_attempt (\<lambda>_ _. ''sig'') sample_settings (sample_attempt 100 ''90'') []) = Inr ()"
    by (simp add: security_eval)
  from signature_accepted_once [OF _ this, of 90 "[]" 105]
  show ?thesis by (simp add: sample_settings_def sample_attempt_def read_int_def read_nat_def is_digit_def printable_def)
qed

text \<open>
  The gap in the protection: a nonce is only kept until the acceptance time plus the
  time to live, but a timestamp ahead of the clock stays valid longer, so the same signed
  headers can be accepted again once the nonce row has expired.
\<close>

theorem future_timestamp_replayed:
  "\<exists>hmac s x now ns1. set_require_signature s
     \<and> try_attempt hmac s x [] = (Inr (), ns1) \<and> at_now x < now
     \<and> fst (try_attempt hmac s (x\<lparr>at_now := now\<rparr>) ns1) = Inr ()"
proof -
  have "try_attempt (\<lambda>_ _. ''sig'') sample_settings (sample_attempt 100 ''120'') []
      = (Inr (), [\<lparr>nn_nonce = ''n'', nn_expires = 130\<rparr>])"
    by (simp add: security_eval)
  moreover have "fst (try_attempt (\<lambda>_ _. ''sig'') sample_settings
      ((sample_attempt 100 ''120'')\<lparr>at_now := 140\<rparr>) [\<lparr>nn_nonce = ''n'', nn_expires = 130\<rparr>]) = Inr ()"
    by (simp add: security_eval)
  moreover have "set_require_signature sample_settings" "at_now (sample_attempt 100 ''120'') < 140"
    by (simp_all add: sample_settings_def sample_attempt_def)
  ultimately show ?thesis by blast
qed

lemma current_actor_identity:
  assumes "current_actor hmac s now h db ns = (Inr a, ns')"
  shows "hd_authorization h = Some (''Bearer '' @ set_token s)
     \<and> act_user a = py_strip (opt_str (hd_user h)) \<and> act_user a \<noteq> []
     \<and> (set_require_signature s \<longrightarrow> (\<exists>ts. \<bar>now - ts\<bar> \<le> set_ttl s
          \<and> opt_str (hd_signature h) =
              hmac (opt_str (set_secret s))
                (canonical_text (claimed_identity h (act_user a)) ts (opt_str (hd_nonce h)))
          \<and> opt_str (hd_nonce h) \<notin> nn_nonce ` {r \<in> set ns. now \<le> nn_expires r}))
     \<and> (case sql_first (\<lambda>r. acc_user r = act_user a) (accounts db) of
          Some acc \<Rightarrow> act_tenant a = acc_tenant acc \<and> act_role a = acc_role acc
            \<and> set (act_permissions a) \<subseteq> (case acc_permissions acc of None \<Rightarrow> {} | Some ps \<Rightarrow> set ps)
        | None \<Rightarrow> \<not> is_protected s)"
proof -
  define user where "user = py_strip (opt_str (hd_user h))"
  have token: "hd_authorization h = Some (''Bearer '' @ set_token s)"
    using assms by (cases "hd_authorization h")
      (auto simp: current_actor_def verify_service_token_def split: sum.splits if_splits)
  have ne: "user \<noteq> []"
    using assms by (auto simp: current_actor_def user_def Let_def split: sum.splits if_splits)
  have tk: "verify_service_token (hd_authorization h) s = Inr ()"
    using token by (simp add: verify_service_token_def)
  obtain u ns1 where v: "verify_signature hmac s now (claimed_identity h user) (hd_timestamp h) (hd_nonce h)
      (hd_signature h) ns = (Inr u, ns1)"
    using assms tk ne
    by (auto simp: current_actor_def user_def Let_def split: sum.splits prod.splits)
  have sig: "\<exists>ts. \<bar>now - ts\<bar> \<le> set_ttl s
      \<and> opt_str (hd_signature h) = hmac (opt_str (set_secret s))
          (canonical_text (claimed_identity h user) ts (opt_str (hd_nonce h)))
      \<and> opt_str (hd_nonce h) \<notin> nn_nonce ` {r \<in> set ns. now \<le> nn_expires r}"
    if "set_require_signature s"
    using v that
    by (rule verify_signature_accepts) (auto simp: sql_delete_def not_less)
  have rest: "act_user a = user \<and> (case sql_first (\<lambda>r. acc_user r = user) (accounts db) of
          Some acc \<Rightarrow> act_tenant a = acc_tenant acc \<and> act_role a = acc_role acc
            \<and> set (act_permissions a) \<subseteq> (case acc_permissions acc of None \<Rightarrow> {} | Some ps \<Rightarrow> set ps)
        | None \<Rightarrow> \<not> is_protected s)"
    using assms tk ne v
    by (auto simp: current_actor_def user_def [symmetric] Let_def split: option.splits if_splits)
  then show ?thesis using token ne sig by (auto simp: user_def)
qed

text \<open>
  What an authenticated actor is: the service token was presented; where signatures
  are required, the headers carry a signature over exactly the claimed identity, inside the
  time window and under a nonce not in use; tenant, role and permissions are those of the
  stored account whenever one exists; and a protected service accepts no one without one.
\<close>

theorem current_actor_authentic:
  assumes "current_actor hmac s now h db ns = (Inr a, ns')"
  shows "hd_authorization h = Some (''Bearer '' @ set_token s)
     \<and> act_user a = py_strip (opt_str (hd_user h)) \<and> act_user a \<noteq> []
     \<and> (set_require_signature s \<longrightarrow> (\<exists>ts. \<bar>now - ts\<bar> \<le> set_ttl s
          \<and> opt_str (hd_signature h) =
              hmac (opt_str (set_secret s))
                (canonical_text (claimed_identity h (act_user a)) ts (opt_str (hd_nonce h)))
          \<and> opt_str (hd_nonce h) \<notin> nn_nonce ` {r \<in> set ns. now \<le> nn_expires r}))
     \<and> (case sql_first (\<lambda>r. acc_user r = act_user a) (accounts db) of
          Some acc \<Rightarrow> act_tenant a = acc_tenant acc \<and> act_role a = acc_role acc
            \<and> set (act_permissions a) \<subseteq> (case acc_permissions acc of None \<Rightarrow> {} | Some ps \<Rightarrow> set ps)
        | None \<Rightarrow> \<not> is_protected s)"
  using assms by (rule current_actor_identity)

theorem current_actor_authentic_witness:
  "\<exists>a ns'. current_actor (\<lambda>_ _. ''sig'') (sample_settings\<lparr>set_require_signature := False, set_profile := LOCAL\<rparr>) 0
      \<lparr>hd_authorization = Some (''Bearer '' @ set_token sample_settings), hd_user = Some ''u1'', hd_role = None,
       hd_tenant = None, hd_account = None, hd_permissions = None, hd_timestamp = None, hd_nonce = None,
       hd_signature = None, hd_request = None\<rparr>
      \<lparr>accounts = [], products = [], orders = [], logistics_rows = [], coupons = [], tables = (\<lambda>_. []),
       idems = [], audits = []\<rparr> [] = (Inr a, ns') \<and> act_user a = ''u1''"
proof -
  obtain a ns' where c: "current_actor (\<lambda>_ _. ''sig'') (sample_settings\<lparr>set_require_signature := False, set_profile := LOCAL\<rparr>) 0
      \<lparr>hd_authorization = Some (''Bearer '' @ set_token sample_settings), hd_user = Some ''u1'', hd_role = None,
       hd_tenant = None, hd_account = None, hd_permissions = None, hd_timestamp = None, hd_nonce = None,
       hd_signature = None, hd_request = None\<rparr>
      \<lparr>accounts = [], products = [], orders = [], logistics_rows = [], coupons = [], tables = (\<lambda>_. []),
       idems = [], audits = []\<rparr> [] = (Inr a, ns')"
    by (simp add: current_actor_def verify_service_token_def sample_settings_def printable_def
        verify_signature_def sql_first_def is_protected_def Let_def)
  have u: "py_strip (opt_str (Some ''u1'')) = ''u1''" by (simp add: printable_def)
  show ?thesis using current_actor_authentic [OF c] c u by auto
qed

end
