(* ===== verification/Biz_Http.thy ===== *)
theory Biz_Http
  imports Biz_Reads Biz_Security
begin

text \<open>
  \<open>api.py\<close>: the routes of the Business Service. A request authenticates its actor from the
  headers (which may record a nonce, in a transaction of its own), then runs one read or
  one mutating handler.
\<close>

section \<open>Routes\<close>

datatype read_route =
    Capabilities
  | AuthMe
  | Accounts
  | OperationPreview preview_request
  | ListOrders "string option"
  | GetOrder string "string option"
  | OrderActions string string
  | QueryOrders "string option" pydict order_filters
  | QueryLogistics "string option" pydict pydict
  | OrderLogistics string
  | Products "string option"
  | ProductById string
  | Coupons "string option"
  | ListRefunds resource_query
  | ListAfterSales resource_query
  | ListInvoices resource_query
  | ListComplaints resource_query
  | ListHandoffs resource_query
  | RefundEligibility string string "string option"

datatype answer =
    HealthAnswer string
  | CapabilitiesAnswer string
  | MeAnswer me
  | AccountsAnswer "account list"
  | PreviewAnswer preview
  | OrdersAnswer "decorated list"
  | OrderAnswer decorated availability
  | ActionsAnswer string availability
  | OrderQueryAnswer order_result
  | LogisticsQueryAnswer logistics_result
  | LogisticsAnswer logistics
  | ProductsAnswer "product list"
  | ProductAnswer product
  | CouponsAnswer "coupon list"
  | ResourcesAnswer "(resource \<times> string list) list" "res_status list"
  | EligibilityAnswer decorated decision
  | CommandAnswer response

text \<open>The length limits of \<open>OperationPreviewRequest\<close>.\<close>

definition valid_preview :: "preview_request \<Rightarrow> bool" where
  "valid_preview q = (py_len (opt_str (pq_rtype q)) \<le> 64 \<and> py_len (opt_str (pq_rid q)) \<le> 128
     \<and> 2 \<le> py_len (pq_operation q) \<and> py_len (pq_operation q) \<le> 64)"

definition answered :: "('x \<Rightarrow> answer) \<Rightarrow> biz_error + 'x \<Rightarrow> biz_error + answer" where
  "answered f r = (case r of Inl err \<Rightarrow> Inl err | Inr x \<Rightarrow> Inr (f x))"

definition list_answer :: "actor \<Rightarrow> string \<Rightarrow> resource_query \<Rightarrow> bizdb \<Rightarrow> biz_error + answer" where
  "list_answer a rtype q db = answered (\<lambda>(rows, states). ResourcesAnswer rows states) (list_resources a rtype q db)"

fun read_answer :: "env \<Rightarrow> actor \<Rightarrow> read_route \<Rightarrow> bizdb \<Rightarrow> biz_error + answer" where
  "read_answer e a Capabilities db = Inr (CapabilitiesAnswer (act_user a))"
| "read_answer e a AuthMe db = answered MeAnswer (auth_me a db)"
| "read_answer e a Accounts db = answered AccountsAnswer (accounts_handler a db)"
| "read_answer e a (OperationPreview q) db =
     (if valid_preview q then answered PreviewAnswer (operation_preview e a q db) else Inl ValidationError)"
| "read_answer e a (ListOrders user) db = answered OrdersAnswer (list_orders e a user db)"
| "read_answer e a (GetOrder oid user) db = answered (\<lambda>(d, av). OrderAnswer d av) (get_order e a oid user db)"
| "read_answer e a (OrderActions oid reason) db =
     answered (\<lambda>(i, av). ActionsAnswer i av) (order_available_actions a oid reason db)"
| "read_answer e a (QueryOrders user scope f) db = answered OrderQueryAnswer (query_orders e a user scope f db)"
| "read_answer e a (QueryLogistics user scope f) db =
     answered LogisticsQueryAnswer (query_logistics a user scope f db)"
| "read_answer e a (OrderLogistics oid) db = answered LogisticsAnswer (order_logistics a oid db)"
| "read_answer e a (Products keyword) db = Inr (ProductsAnswer (list_products keyword db))"
| "read_answer e a (ProductById pid) db = answered ProductAnswer (get_product pid db)"
| "read_answer e a (Coupons user) db = answered CouponsAnswer (list_coupons a user db)"
| "read_answer e a (ListRefunds q) db = list_answer a ''refund'' q db"
| "read_answer e a (ListAfterSales q) db = list_answer a ''after_sales'' q db"
| "read_answer e a (ListInvoices q) db = list_answer a ''invoice'' q db"
| "read_answer e a (ListComplaints q) db = list_answer a ''complaint'' (q\<lparr>rq_order := None\<rparr>) db"
| "read_answer e a (ListHandoffs q) db = list_answer a ''handoff'' (q\<lparr>rq_order := None\<rparr>) db"
| "read_answer e a (RefundEligibility oid reason code) db =
     answered (\<lambda>(d, dec). EligibilityAnswer d dec) (refund_eligibility e a oid reason code db)"

section \<open>One HTTP request\<close>

datatype http_route = Health | Read read_route | Write biz_request

record http_request =
  hr_headers :: headers
  hr_key :: "string option"
  hr_route :: http_route

record server =
  srv_hmac :: "string \<Rightarrow> string \<Rightarrow> string"
  srv_settings :: settings
  srv_env :: env

definition respond ::
  "server \<Rightarrow> http_request \<Rightarrow> bizdb \<times> nonces \<Rightarrow> (biz_error + answer) \<times> bizdb \<times> nonces" where
  "respond srv q st = (let (db, ns) = st in
    (case hr_route q of
       Health \<Rightarrow> (Inr (HealthAnswer (set_backend (srv_settings srv))), db, ns)
     | route \<Rightarrow>
        (case current_actor (srv_hmac srv) (srv_settings srv) (env_now (srv_env srv)) (hr_headers q) db ns of
           (Inl err, ns') \<Rightarrow> (Inl err, db, ns')
         | (Inr a, ns') \<Rightarrow>
            (case route of
               Health \<Rightarrow> (Inr (HealthAnswer (set_backend (srv_settings srv))), db, ns')
             | Read r \<Rightarrow> (read_answer (srv_env srv) a r db, db, ns')
             | Write w \<Rightarrow> (let (res, db') = serve (srv_env srv) a (hr_key q) w db
                           in (answered CommandAnswer res, db', ns'))))))"

text \<open>The status of an error answer; what no handler catches is a 500.\<close>

definition http_status :: "biz_error \<Rightarrow> nat" where
  "http_status err = (case err of
     DomainError n _ \<Rightarrow> n
   | HttpError n _ \<Rightarrow> n
   | ValidationError \<Rightarrow> 422
   | IntegrityError \<Rightarrow> 500
   | ConversionError \<Rightarrow> 500
   | NameError _ \<Rightarrow> 500)"

section \<open>Properties\<close>

lemma answered_Inr_iff: "answered f r = Inr y \<longleftrightarrow> (\<exists>x. r = Inr x \<and> y = f x)"
  by (auto simp: answered_def split: sum.splits)

lemma current_actor_nonces:
  assumes "current_actor hmac s now h db ns = (r, ns')" and "\<not> set_require_signature s"
  shows "ns' = ns"
  using assms by (auto simp: current_actor_def Let_def verify_signature_def split: sum.splits option.splits if_splits)

text \<open>
  C25. Whatever request arrives, the database keeps its invariant; and if anything in it
  changed, the request carried the service token and the identity of an authenticated actor
  (with a fresh signature where signatures are required, and a provisioned account in a
  protected deployment), and the change is a step of the abstract service for that actor.
\<close>

theorem http_change_is_authentic:
  assumes "biz_inv db" and "respond srv q (db, ns) = (res, db', ns')"
  shows "biz_inv db' \<and> (db' \<noteq> db \<longrightarrow> (\<exists>a w.
      current_actor (srv_hmac srv) (srv_settings srv) (env_now (srv_env srv)) (hr_headers q) db ns = (Inr a, ns')
    \<and> hr_route q = Write w \<and> biz_step a db db'
    \<and> hd_authorization (hr_headers q) = Some (''Bearer '' @ set_token (srv_settings srv))
    \<and> (\<exists>r. res = Inr (CommandAnswer r))
    \<and> (is_protected (srv_settings srv) \<longrightarrow> (\<exists>acc\<in>set (accounts db).
         acc_user acc = act_user a \<and> acc_tenant acc = act_tenant a \<and> acc_role acc = act_role a))))"
proof (cases "db' = db")
  case True
  then show ?thesis using assms(1) by simp
next
  case False
  obtain a w res0 where a: "current_actor (srv_hmac srv) (srv_settings srv) (env_now (srv_env srv)) (hr_headers q) db ns = (Inr a, ns')"
    and w: "hr_route q = Write w" and s: "serve (srv_env srv) a (hr_key q) w db = (res0, db')"
    and res: "res = answered CommandAnswer res0"
    using assms(2) False
    by (auto simp: respond_def split: http_route.splits sum.splits prod.splits)
  have st: "biz_step a db db'" using s assms(1) by (rule serve_step)
  obtain r where r: "res0 = Inr r"
    using s False by (cases res0) (auto simp: serve_def transaction_Inl_iff)
  note auth = current_actor_identity [OF a]
  have "\<exists>acc\<in>set (accounts db). acc_user acc = act_user a \<and> acc_tenant acc = act_tenant a \<and> acc_role acc = act_role a"
    if "is_protected (srv_settings srv)"
    using auth that sql_first_Some_iff [of "\<lambda>r. acc_user r = act_user a" "accounts db"]
    by (auto split: option.splits)
  then show ?thesis
    using a w st r res auth biz_step_inv [OF st assms(1)] by (auto simp: answered_def)
qed

definition sample_headers :: headers where
  "sample_headers = \<lparr>hd_authorization = Some (''Bearer '' @ set_token sample_settings), hd_user = Some ''u1'',
     hd_role = None, hd_tenant = None, hd_account = None, hd_permissions = None, hd_timestamp = None,
     hd_nonce = None, hd_signature = None, hd_request = None\<rparr>"

definition sample_server :: server where
  "sample_server = \<lparr>srv_hmac = (\<lambda>_ _. ''sig''),
     srv_settings = sample_settings\<lparr>set_require_signature := False\<rparr>, srv_env = sample_env\<rparr>"

lemma sample_actor:
  "current_actor (srv_hmac sample_server) (srv_settings sample_server) now sample_headers sample_db ns
     = (Inr customer, ns)"
  by (simp add: current_actor_def verify_service_token_def sample_headers_def sample_server_def sample_settings_def
      printable_def verify_signature_def sql_first_def is_protected_def Let_def sample_defs claimed_identity_def
      str_or_def)

theorem http_change_is_authentic_witness:
  "\<exists>res db' ns'. respond sample_server
      \<lparr>hr_headers = sample_headers, hr_key = None, hr_route = Write (CreateRefund refund_request)\<rparr>
      (sample_db, []) = (res, db', ns') \<and> db' \<noteq> sample_db \<and> biz_inv db' \<and> (\<exists>r. res = Inr (CommandAnswer r))"
proof -
  obtain db1 r where h: "handle sample_env customer None (CreateRefund refund_request) sample_db = Inr (db1, r)"
    using sample_refund_plain by blast
  have "\<exists>x. tables db1 Refunds = tables sample_db Refunds @ [x]"
    by (rule handle_refund_Inr_iff [THEN iffD1, OF _ h, THEN conjunct2, THEN exE])
      (auto simp: customer_def add_audit_def set_table_def)
  then have d: "db1 \<noteq> sample_db" by auto
  have r: "respond sample_server
      \<lparr>hr_headers = sample_headers, hr_key = None, hr_route = Write (CreateRefund refund_request)\<rparr>
      (sample_db, []) = (Inr (CommandAnswer r), db1, [])"
    using sample_actor h
    by (simp add: respond_def serve_def transaction_def answered_def sample_server_def)
  show ?thesis using http_change_is_authentic [OF sample_inv r] r d by blast
qed

end
