(* ===== verification/Json.thy ===== *)
theory Json
  imports Py_Values
begin

text \<open>
  The JSON text of a value and its reading, as Python's \<open>json\<close> module does them: \<open>json.dumps\<close>
  with \<open>ensure_ascii=False\<close> and given separators, \<open>sort_keys\<close>, and \<open>json.loads\<close>. Numbers
  with a fraction or an exponent are no values of the model; reading one gives \<open>None\<close>.
  The stores keep their structured columns as such text, and a command is digested over it.
\<close>

section \<open>Writing\<close>

definition json_char :: "char \<Rightarrow> string" where
  "json_char c = (let n = (of_char c :: nat) in
     if n = 34 then [CHR 0x5C, CHR 0x22]
     else if n = 92 then [CHR 0x5C, CHR 0x5C]
     else if n = 10 then [CHR 0x5C, CHR ''n'']
     else if n = 13 then [CHR 0x5C, CHR ''r'']
     else if n = 9 then [CHR 0x5C, CHR ''t'']
     else if n = 12 then [CHR 0x5C, CHR ''f'']
     else if n = 8 then [CHR 0x5C, CHR ''b'']
     else if n < 32 then [CHR 0x5C, CHR ''u'', CHR ''0'', CHR ''0'', hex_digit (n div 16), hex_digit (n mod 16)]
     else [c])"

definition json_string :: "string \<Rightarrow> string" where
  "json_string s = CHR 0x22 # concat (map json_char s) @ [CHR 0x22]"

fun json_dump :: "string \<Rightarrow> string \<Rightarrow> pyval \<Rightarrow> string" where
  "json_dump sep col PNone = ''null''"
| "json_dump sep col (PBool b) = (if b then ''true'' else ''false'')"
| "json_dump sep col (PInt i) = str_of_int i"
| "json_dump sep col (PStr s) = json_string s"
| "json_dump sep col (PList xs) = ''['' @ join_with sep (map (json_dump sep col) xs) @ '']''"
| "json_dump sep col (PDict d) =
     ''{'' @ join_with sep (map (\<lambda>(k, v). json_string k @ col @ json_dump sep col v) d) @ ''}''"

text \<open>\<open>sort_keys=True\<close>: code point order, which is the order of the UTF-8 bytes.\<close>

fun sort_keys :: "pyval \<Rightarrow> pyval" where
  "sort_keys (PList xs) = PList (map sort_keys xs)"
| "sort_keys (PDict d) = PDict (sort_key fst (map (\<lambda>(k, v). (k, sort_keys v)) d))"
| "sort_keys v = v"

section \<open>Reading\<close>

definition json_space :: "char \<Rightarrow> bool" where
  "json_space c = ((of_char c :: nat) \<in> {32, 9, 10, 13})"

definition skip_space :: "string \<Rightarrow> string" where
  "skip_space s = dropWhile json_space s"

definition hex_value :: "char \<Rightarrow> nat option" where
  "hex_value c = (let n = (of_char c :: nat) in
     if 48 \<le> n \<and> n \<le> 57 then Some (n - 48)
     else if 97 \<le> n \<and> n \<le> 102 then Some (n - 87)
     else if 65 \<le> n \<and> n \<le> 70 then Some (n - 55)
     else None)"

definition hex4 :: "char \<Rightarrow> char \<Rightarrow> char \<Rightarrow> char \<Rightarrow> nat option" where
  "hex4 a b c d = (case (hex_value a, hex_value b, hex_value c, hex_value d) of
     (Some w, Some x, Some y, Some z) \<Rightarrow> Some (((w * 16 + x) * 16 + y) * 16 + z)
   | _ \<Rightarrow> None)"

text \<open>The bytes of a code point.\<close>

definition utf8_encode :: "nat \<Rightarrow> string" where
  "utf8_encode n = map char_of
     (if n < 128 then [n]
      else if n < 2048 then [192 + n div 64, 128 + n mod 64]
      else if n < 65536 then [224 + n div 4096, 128 + n div 64 mod 64, 128 + n mod 64]
      else [240 + n div 262144, 128 + n div 4096 mod 64, 128 + n div 64 mod 64, 128 + n mod 64])"

definition simple_escape :: "char \<Rightarrow> char option" where
  "simple_escape c = map_of [(CHR 0x22, CHR 0x22), (CHR 0x5C, CHR 0x5C), (CHR ''/'', CHR ''/''),
     (CHR ''b'', CHR 0x08), (CHR ''f'', CHR 0x0C), (CHR ''n'', CHR 0x0A), (CHR ''r'', CHR 0x0D),
     (CHR ''t'', CHR 0x09)] c"

text \<open>
  The rest of a string literal after its opening quote. Two escapes that form a surrogate
  pair are one code point; a control character is an error.
\<close>

definition prepend :: "string \<Rightarrow> (string \<times> string) option \<Rightarrow> (string \<times> string) option" where
  "prepend x r = map_option (\<lambda>(s, t). (x @ s, t)) r"

fun parse_string :: "string \<Rightarrow> (string \<times> string) option" where
  "parse_string [] = None"
| "parse_string (c # t) =
    (if c = CHR 0x22 then Some ([], t)
     else if c = CHR 0x5C then
       (case t of
          [] \<Rightarrow> None
        | e # u \<Rightarrow>
           if e = CHR ''u'' then
             (case u of
                w # x # y # z # v \<Rightarrow>
                  (case hex4 w x y z of
                     None \<Rightarrow> None
                   | Some n \<Rightarrow>
                      if 55296 \<le> n \<and> n < 56320 then
                        (case v of
                           b # g # w' # x' # y' # z' # v' \<Rightarrow>
                             (case (if b = CHR 0x5C \<and> g = CHR ''u'' then hex4 w' x' y' z' else None) of
                                Some m \<Rightarrow>
                                  if 56320 \<le> m \<and> m < 57344
                                  then prepend (utf8_encode (65536 + (n - 55296) * 1024 + (m - 56320))) (parse_string v')
                                  else prepend (utf8_encode n) (parse_string v)
                              | None \<Rightarrow> prepend (utf8_encode n) (parse_string v))
                         | _ \<Rightarrow> prepend (utf8_encode n) (parse_string v))
                      else prepend (utf8_encode n) (parse_string v))
              | _ \<Rightarrow> None)
           else (case simple_escape e of
               None \<Rightarrow> None
             | Some x \<Rightarrow> prepend [x] (parse_string u)))
     else if (of_char c :: nat) < 32 then None
     else prepend [c] (parse_string t))"

definition digits_value :: "string \<Rightarrow> nat" where
  "digits_value s = foldl (\<lambda>a c. a * 10 + (of_char c - 48)) 0 s"

text \<open>An unsigned integer without leading zeros, not followed by a fraction or exponent.\<close>

definition parse_nat :: "string \<Rightarrow> (nat \<times> string) option" where
  "parse_nat s =
    (let ds = (case s of c # _ \<Rightarrow> if c = CHR ''0'' then [c] else takeWhile is_digit s | [] \<Rightarrow> []);
         r = drop (length ds) s in
     if ds = [] then None
     else (case r of
         [] \<Rightarrow> Some (digits_value ds, r)
       | c # _ \<Rightarrow> if c \<in> {CHR ''.'', CHR ''e'', CHR ''E''} then None else Some (digits_value ds, r)))"

definition parse_int :: "string \<Rightarrow> (int \<times> string) option" where
  "parse_int s = (case s of
     [] \<Rightarrow> None
   | c # t \<Rightarrow> if c = CHR ''-'' then map_option (\<lambda>(n, r). (- int n, r)) (parse_nat t)
             else map_option (\<lambda>(n, r). (int n, r)) (parse_nat s))"

text \<open>A dict literal: a repeated key takes its last value at its first position.\<close>

definition dict_of_members :: "(string \<times> pyval) list \<Rightarrow> pydict" where
  "dict_of_members ms = foldl (\<lambda>d (k, v). dset k v d) [] ms"

text \<open>The nesting depth bounds the recursion; the length of the text is always enough.\<close>

fun parse_value :: "nat \<Rightarrow> string \<Rightarrow> (pyval \<times> string) option"
  and parse_items :: "nat \<Rightarrow> string \<Rightarrow> (pyval list \<times> string) option"
  and parse_members :: "nat \<Rightarrow> string \<Rightarrow> ((string \<times> pyval) list \<times> string) option" where
  "parse_value 0 s = None"
| "parse_value (Suc n) s =
    (case skip_space s of
       [] \<Rightarrow> None
     | c # t \<Rightarrow>
        if c = CHR 0x22 then map_option (\<lambda>(x, r). (PStr x, r)) (parse_string t)
        else if c = CHR ''['' then
          (case skip_space t of
             [] \<Rightarrow> None
           | e # r \<Rightarrow> if e = CHR '']'' then Some (PList [], r)
                     else map_option (\<lambda>(xs, r). (PList xs, r)) (parse_items n (e # r)))
        else if c = CHR ''{'' then
          (case skip_space t of
             [] \<Rightarrow> None
           | e # r \<Rightarrow> if e = CHR ''}'' then Some (PDict [], r)
                     else map_option (\<lambda>(ms, r). (PDict (dict_of_members ms), r)) (parse_members n (e # r)))
        else if prefix ''null'' (c # t) then Some (PNone, drop 4 (c # t))
        else if prefix ''true'' (c # t) then Some (PBool True, drop 4 (c # t))
        else if prefix ''false'' (c # t) then Some (PBool False, drop 5 (c # t))
        else map_option (\<lambda>(i, r). (PInt i, r)) (parse_int (c # t)))"
| "parse_items 0 s = None"
| "parse_items (Suc n) s =
    (case parse_value n s of
       None \<Rightarrow> None
     | Some (v, r) \<Rightarrow>
        (case skip_space r of
           [] \<Rightarrow> None
         | c # t \<Rightarrow> if c = CHR '']'' then Some ([v], t)
                   else if c = CHR '','' then map_option (\<lambda>(vs, r). (v # vs, r)) (parse_items n t)
                   else None))"
| "parse_members 0 s = None"
| "parse_members (Suc n) s =
    (case skip_space s of
       [] \<Rightarrow> None
     | q # s' \<Rightarrow>
        if q \<noteq> CHR 0x22 then None
        else (case parse_string s' of
           None \<Rightarrow> None
         | Some (k, r) \<Rightarrow>
            (case skip_space r of
               [] \<Rightarrow> None
             | c # t \<Rightarrow>
                if c \<noteq> CHR '':'' then None
                else (case parse_value n t of
                   None \<Rightarrow> None
                 | Some (v, r') \<Rightarrow>
                    (case skip_space r' of
                       [] \<Rightarrow> None
                     | c' # t' \<Rightarrow> if c' = CHR ''}'' then Some ([(k, v)], t')
                                 else if c' = CHR '','' then map_option (\<lambda>(ms, r). ((k, v) # ms, r)) (parse_members n t')
                                 else None)))))"

definition json_loads :: "string \<Rightarrow> pyval option" where
  "json_loads s = (case parse_value (2 * length s + 2) s of
     None \<Rightarrow> None
   | Some (v, r) \<Rightarrow> if skip_space r = [] then Some v else None)"

section \<open>Reading back what was written\<close>

text \<open>Dicts have distinct keys.\<close>

fun well_formed :: "pyval \<Rightarrow> bool" where
  "well_formed (PList xs) = list_all well_formed xs"
| "well_formed (PDict d) = (distinct (map fst d) \<and> list_all (\<lambda>(k, v). well_formed v) d)"
| "well_formed v = True"

fun weight :: "pyval \<Rightarrow> nat" where
  "weight (PList xs) = Suc (sum_list (map (\<lambda>x. Suc (weight x)) xs))"
| "weight (PDict d) = Suc (sum_list (map (\<lambda>(k, v). Suc (weight v)) d))"
| "weight v = 1"

definition blank :: "string \<Rightarrow> bool" where
  "blank s = list_all json_space s"

text \<open>What may follow a value: nothing that would continue a number.\<close>

definition closed_by :: "string \<Rightarrow> bool" where
  "closed_by r = (case r of [] \<Rightarrow> True
     | c # _ \<Rightarrow> \<not> is_digit c \<and> c \<noteq> CHR ''.'' \<and> c \<noteq> CHR ''e'' \<and> c \<noteq> CHR ''E'')"

definition separators :: "string \<Rightarrow> string \<Rightarrow> bool" where
  "separators sep col = (\<exists>a b. sep = CHR '','' # a \<and> blank a \<and> col = CHR '':'' # b \<and> blank b)"

lemma skip_blank: "blank ws \<Longrightarrow> \<not> json_space c \<Longrightarrow> skip_space (ws @ c # s) = c # s"
  by (induction ws) (auto simp: blank_def skip_space_def)

lemma skip_no_space [simp]: "\<not> json_space c \<Longrightarrow> skip_space (c # s) = c # s"
  by (simp add: skip_space_def)

lemma closed_by_simps [simp]:
  "closed_by []" "closed_by (CHR '']'' # r)" "closed_by (CHR ''}'' # r)" "closed_by (CHR '','' # r)"
  by (auto simp: closed_by_def is_digit_def)

subsection \<open>Strings\<close>

lemma hex_value_digit: "n < 16 \<Longrightarrow> hex_value (hex_digit n) = Some n"
  by (simp add: hex_value_def hex_digit_def)

lemma hex_value_zero: "hex_value (CHR ''0'') = Some 0"
  by (simp add: hex_value_def)

lemma control_escape:
  "n < 32 \<Longrightarrow> hex4 (CHR ''0'') (CHR ''0'') (hex_digit (n div 16)) (hex_digit (n mod 16)) = Some n"
  by (simp add: hex4_def hex_value_zero hex_value_digit)

lemma char_code: "c = char_of (n::nat) \<longleftrightarrow> of_char c = n mod 256"
  by (metis char_of_char of_char_of)

lemma special_chars:
  "char_of (34::nat) = CHR 0x22" "char_of (92::nat) = CHR 0x5C" "char_of (10::nat) = CHR 0x0A"
  "char_of (13::nat) = CHR 0x0D" "char_of (9::nat) = CHR 0x09" "char_of (12::nat) = CHR 0x0C"
  "char_of (8::nat) = CHR 0x08"
  by code_simp+

lemma parse_string_char: "parse_string (json_char c @ t) = prepend [c] (parse_string t)"
proof -
  define n where "n = (of_char c :: nat)"
  have c: "c = char_of n" by (simp add: n_def)
  have esc: "c = CHR 0x22 \<longleftrightarrow> n = 34" "c = CHR 0x5C \<longleftrightarrow> n = 92"
    using of_char_eq_iff [of c "CHR 0x22", where 'a = nat] of_char_eq_iff [of c "CHR 0x5C", where 'a = nat]
    by (auto simp: n_def)
  consider (special) "n \<in> {34, 92, 10, 13, 9, 12, 8}" | (control) "n < 32" "n \<notin> {34, 92, 10, 13, 9, 12, 8}"
    | (plain) "32 \<le> n" "n \<noteq> 34" "n \<noteq> 92" by fastforce
  then show ?thesis
  proof cases
    case special
    then have "c \<in> {CHR 0x22, CHR 0x5C, CHR 0x0A, CHR 0x0D, CHR 0x09, CHR 0x0C, CHR 0x08}"
      using c special_chars by auto
    then show ?thesis
      by (elim insertE emptyE) (simp_all add: json_char_def simple_escape_def Let_def)
  next
    case control
    have "hex4 (CHR ''0'') (CHR ''0'') (hex_digit (n div 16)) (hex_digit (n mod 16)) = Some n"
      using control(1) by (rule control_escape)
    then show ?thesis
      using control by (auto simp: json_char_def n_def [symmetric] utf8_encode_def c [symmetric] Let_def)
  next
    case plain
    then show ?thesis by (simp add: json_char_def n_def [symmetric] esc Let_def)
  qed
qed

lemma parse_string_written:
  "parse_string (concat (map json_char s) @ CHR 0x22 # r) = Some (s, r)"
proof (induction s)
  case (Cons c s)
  then show ?case by (simp add: parse_string_char prepend_def)
qed simp

subsection \<open>Numbers\<close>

lemma digit_facts:
  assumes "n < 10"
  shows "is_digit (char_of (48 + n))" "(of_char (char_of (48 + n)) :: nat) - 48 = n"
    "char_of (48 + n) = CHR ''0'' \<longleftrightarrow> n = 0"
  using assms char_code [of "CHR ''0''" "48 + n"] by (auto simp: is_digit_def)

lemma digits_of_digits: "list_all is_digit (digits_of n) \<and> digits_of n \<noteq> []"
  by (induction n rule: digits_of.induct) (subst (1 2) digits_of.simps, auto simp: digit_facts)

lemma digits_of_value: "foldl (\<lambda>a c. a * 10 + (of_char c - 48)) 0 (digits_of n) = n"
proof (induction n rule: digits_of.induct)
  case (1 n)
  show ?case
  proof (cases "n < 10")
    case True
    then show ?thesis by (subst digits_of.simps) (simp add: digit_facts)
  next
    case False
    then show ?thesis using 1 by (subst digits_of.simps) (simp add: digit_facts)
  qed
qed

lemma digits_of_zero: "hd (digits_of n) = CHR ''0'' \<longleftrightarrow> n = 0"
proof (induction n rule: digits_of.induct)
  case (1 n)
  then show ?case
    by (subst digits_of.simps) (auto simp: digit_facts digits_of_digits)
qed

lemma parse_nat_written:
  assumes "closed_by r"
  shows "parse_nat (digits_of n @ r) = Some (n, r)"
proof -
  have d: "list_all is_digit (digits_of n)" "digits_of n \<noteq> []" using digits_of_digits by auto
  obtain c cs where cc: "digits_of n = c # cs" using d(2) by (cases "digits_of n") auto
  have stop: "r = [] \<or> \<not> is_digit (hd r)" using assms by (auto simp: closed_by_def split: list.splits)
  have "takeWhile is_digit (digits_of n @ r) = digits_of n"
    using d(1) stop by (cases r) (auto simp: list_all_iff takeWhile_append)
  moreover have "c = CHR ''0'' \<Longrightarrow> cs = []"
    using digits_of_zero [of n] cc by (simp add: digits_of.simps [of 0])
  ultimately have "(case digits_of n @ r of c # _ \<Rightarrow> if c = CHR ''0'' then [c] else takeWhile is_digit (digits_of n @ r)
      | [] \<Rightarrow> []) = digits_of n"
    by (simp add: cc)
  then show ?thesis
    using assms d(2) digits_of_value [of n]
    by (auto simp: parse_nat_def digits_value_def closed_by_def Let_def split: list.splits)
qed

lemma parse_int_written: "closed_by r \<Longrightarrow> parse_int (str_of_int i @ r) = Some (i, r)"
proof (cases "i < 0")
  case False
  obtain c cs where cc: "digits_of (nat i) = c # cs" "is_digit c"
    using digits_of_digits [of "nat i"] by (cases "digits_of (nat i)") auto
  then have "c \<noteq> CHR ''-''" by (auto simp: is_digit_def)
  then show "closed_by r \<Longrightarrow> ?thesis"
    using parse_nat_written [of r "nat i"] False cc by (simp add: str_of_int_def parse_int_def)
qed (simp add: str_of_int_def parse_int_def parse_nat_written)

subsection \<open>Values\<close>

lemma json_dump_starts:
  "\<exists>c t. json_dump sep col v = c # t \<and> \<not> json_space c \<and> c \<noteq> CHR '']'' \<and> c \<noteq> CHR ''}''"
proof (cases v)
  case (PInt i)
  obtain c t where "str_of_int i = c # t" "is_digit c \<or> c = CHR ''-''"
    using digits_of_digits [of "nat i"]
    by (cases "i < 0"; cases "digits_of (nat i)") (auto simp: str_of_int_def)
  then show ?thesis using PInt by (auto simp: is_digit_def json_space_def)
next
  case (PBool b)
  then show ?thesis by (cases b) (simp_all add: json_space_def)
qed (simp_all add: json_string_def json_space_def)

lemma str_of_int_starts: "\<exists>c t. str_of_int i = c # t \<and> (is_digit c \<or> c = CHR ''-'')"
    using digits_of_digits [of "nat i"]
    by (cases "i < 0"; cases "digits_of (nat i)") (auto simp: str_of_int_def)

text \<open>What the induction over the nesting provides for one value.\<close>

definition reads_back :: "string \<Rightarrow> string \<Rightarrow> pyval \<Rightarrow> bool" where
  "reads_back sep col v = (\<forall>n ws r. weight v \<le> n \<longrightarrow> blank ws \<longrightarrow> closed_by r \<longrightarrow>
     parse_value n (ws @ json_dump sep col v @ r) = Some (v, r))"

lemma reads_backD:
  "reads_back sep col v \<Longrightarrow> weight v \<le> n \<Longrightarrow> blank ws \<Longrightarrow> closed_by r \<Longrightarrow>
   parse_value n (ws @ json_dump sep col v @ r) = Some (v, r)"
  by (simp add: reads_back_def)

lemma blank_Nil [simp]: "blank []" and blank_Cons: "blank (c # s) = (json_space c \<and> blank s)"
  by (auto simp: blank_def)

lemma parse_items_written:
  assumes "separators sep col"
  shows "xs \<noteq> [] \<Longrightarrow> \<forall>v\<in>set xs. reads_back sep col v \<Longrightarrow> sum_list (map (\<lambda>x. Suc (weight x)) xs) \<le> n
    \<Longrightarrow> blank ws \<Longrightarrow> parse_items n (ws @ join_with sep (map (json_dump sep col) xs) @ CHR '']'' # r) = Some (xs, r)"
proof (induction xs arbitrary: n ws)
  case Nil
  then show ?case by simp
next
  case (Cons v xs)
  obtain a where sep: "sep = CHR '','' # a" "blank a" using assms by (auto simp: separators_def)
  obtain m where n: "n = Suc m" "weight v \<le> m" "sum_list (map (\<lambda>x. Suc (weight x)) xs) \<le> m"
    using Cons.prems(3) by (cases n) auto
  have v: "reads_back sep col v" using Cons.prems(2) by simp
  show ?case
  proof (cases xs)
    case Nil
    then show ?thesis
      using reads_backD [OF v n(2) Cons.prems(4), of "CHR '']'' # r"] by (simp add: n json_space_def)
  next
    case (Cons y ys)
    have "parse_items m (a @ join_with sep (map (json_dump sep col) xs) @ CHR '']'' # r) = Some (xs, r)"
      using Cons.IH [OF _ _ n(3) sep(2)] Cons.prems(2) Cons by simp
    then show ?thesis
      using reads_backD [OF v n(2) Cons.prems(4), of "CHR '','' # a @ join_with sep (map (json_dump sep col) xs) @ CHR '']'' # r"]
      by (simp add: n Cons sep json_space_def)
  qed
qed

lemma parse_members_written:
  assumes "separators sep col"
  shows "d \<noteq> [] \<Longrightarrow> \<forall>(k, v)\<in>set d. reads_back sep col v \<Longrightarrow> sum_list (map (\<lambda>(k, v). Suc (weight v)) d) \<le> n
    \<Longrightarrow> blank ws \<Longrightarrow> parse_members n (ws @ join_with sep (map (\<lambda>(k, v). json_string k @ col @ json_dump sep col v) d)
        @ CHR ''}'' # r) = Some (d, r)"
proof (induction d arbitrary: n ws)
  case Nil
  then show ?case by simp
next
  case (Cons p d)
  obtain a b where sep: "sep = CHR '','' # a" "blank a" "col = CHR '':'' # b" "blank b"
    using assms by (auto simp: separators_def)
  obtain k v where p: "p = (k, v)" by (cases p)
  obtain m where n: "n = Suc m" "weight v \<le> m" "sum_list (map (\<lambda>(k, v). Suc (weight v)) d) \<le> m"
    using Cons.prems(3) by (cases n) (auto simp: p)
  have v: "reads_back sep col v" using Cons.prems(2) by (simp add: p)
  have str: "parse_string (concat (map json_char k) @ CHR 0x22 # t) = Some (k, t)" for t
    by (rule parse_string_written)
  have sp: "skip_space (ws @ CHR 0x22 # t) = CHR 0x22 # t" for t
    by (rule skip_blank [OF Cons.prems(4)]) (simp add: json_space_def)
  show ?case
  proof (cases d)
    case Nil
    then show ?thesis
      using reads_backD [OF v n(2) sep(4), of "CHR ''}'' # r"]
      by (simp add: n p sep(1,3) json_space_def json_string_def str sp)
  next
    case (Cons y ys)
    let ?rest = "join_with sep (map (\<lambda>(k, v). json_string k @ col @ json_dump sep col v) d) @ CHR ''}'' # r"
    have "parse_members m (a @ ?rest) = Some (d, r)"
      using Cons.IH [OF _ _ n(3) sep(2)] Cons.prems(2) Cons by simp
    moreover have "join_with sep (map (\<lambda>(k, v). json_string k @ col @ json_dump sep col v) (p # d)) @ CHR ''}'' # r
        = (json_string k @ col @ json_dump sep col v) @ sep @ ?rest"
      by (simp add: p Cons)
    ultimately show ?thesis
      using reads_backD [OF v n(2) sep(4), of "CHR '','' # a @ ?rest"]
      by (simp add: n p sep(1,3) json_space_def json_string_def str sp)
  qed
qed

lemma dict_of_distinct:
  assumes "distinct (map fst d)"
  shows "dict_of_members d = d"
proof -
  have add: "k \<notin> fst ` set d0 \<Longrightarrow> dset k v d0 = d0 @ [(k, v)]" for k v d0
    by (induction k v d0 rule: dset.induct) auto
  have "distinct (map fst (d0 @ d)) \<Longrightarrow> foldl (\<lambda>d (k, v). dset k v d) d0 d = d0 @ d" for d0
  proof (induction d arbitrary: d0)
    case (Cons p d)
    then show ?case by (cases p) (simp add: add)
  qed simp
  from this [of "[]"] assms show ?thesis by (simp add: dict_of_members_def)
qed

lemma weight_pos [simp]: "0 < weight v"
  by (cases v) auto

lemma first_read:
  assumes "blank ws" and "s = c # t" and "\<not> json_space c"
  shows "skip_space (ws @ s @ r) = c # t @ r"
  using skip_blank [OF assms(1,3), of "t @ r"] assms(2) by simp

lemma join_map_starts:
  assumes "xs \<noteq> []" and "\<And>x. x \<in> set xs \<Longrightarrow> \<exists>c t. f x = c # t \<and> P c"
  shows "\<exists>c t. join_with sep (map f xs) = c # t \<and> P c"
proof (cases xs)
  case (Cons x ys)
  then obtain c t where "f x = c # t" "P c" using assms(2) by force
  then show ?thesis using Cons by (cases ys) auto
qed (use assms(1) in simp)

lemma reads_backI:
  assumes "\<And>n ws r. weight v \<le> Suc n \<Longrightarrow> blank ws \<Longrightarrow> closed_by r \<Longrightarrow>
    parse_value (Suc n) (ws @ json_dump sep col v @ r) = Some (v, r)"
  shows "reads_back sep col v"
  unfolding reads_back_def
proof (intro allI impI)
  fix n ws r
  assume w: "weight v \<le> n" and rest: "blank ws" "closed_by r"
  obtain m where "n = Suc m" using w weight_pos [of v] by (cases n) auto
  then show "parse_value n (ws @ json_dump sep col v @ r) = Some (v, r)"
    using assms [of m ws r] w rest by simp
qed

lemma value_reads_back:
  assumes "separators sep col"
  shows "well_formed v \<Longrightarrow> reads_back sep col v"
proof (induction v)
  case (PInt i)
  obtain c t where s: "str_of_int i = c # t" "is_digit c \<or> c = CHR ''-''" using str_of_int_starts by blast
  have c: "\<not> json_space c" "c \<noteq> CHR 0x22" "c \<noteq> CHR ''[''" "c \<noteq> CHR ''{''" "c \<noteq> CHR ''n''"
    "c \<noteq> CHR ''t''" "c \<noteq> CHR ''f''"
    using s(2) by (auto simp: is_digit_def json_space_def)
  have "parse_value (Suc n) (ws @ str_of_int i @ r) = Some (PInt i, r)" if "blank ws" "closed_by r" for n ws r
    using first_read [OF that(1) s(1) c(1), of r] parse_int_written [OF that(2), of i] c s(1) by simp
  then show ?case by (auto simp: reads_back_def Suc_le_eq gr0_conv_Suc)
next
  case (PStr s)
  have "parse_value (Suc n) (ws @ json_string s @ r) = Some (PStr s, r)" if "blank ws" for n ws r
    using first_read [OF that refl, of "CHR 0x22" "concat (map json_char s) @ [CHR 0x22]" r] parse_string_written [of s r]
    by (simp add: json_string_def json_space_def)
  then show ?case by (auto simp: reads_back_def Suc_le_eq gr0_conv_Suc)
next
  case (PList xs)
  have IH: "\<forall>v\<in>set xs. reads_back sep col v" using PList by (auto simp: list_all_iff)
  show ?case
  proof (cases "xs = []")
    case True
    have "parse_value (Suc n) (ws @ ''[]'' @ r) = Some (PList [], r)" if "blank ws" for n ws r
      using first_read [OF that, of "''[]''" "CHR ''[''" "'']''" r] by (simp add: json_space_def)
    then show ?thesis using True by (auto simp: reads_back_def Suc_le_eq gr0_conv_Suc)
  next
    case False
    let ?j = "join_with sep (map (json_dump sep col) xs)"
    obtain c t where j: "?j = c # t" "\<not> json_space c \<and> c \<noteq> CHR '']''"
      using join_map_starts [OF False, of "json_dump sep col" "\<lambda>c. \<not> json_space c \<and> c \<noteq> CHR '']''"]
        json_dump_starts by blast
    have "parse_value (Suc n) (ws @ json_dump sep col (PList xs) @ r) = Some (PList xs, r)"
      if "blank ws" "sum_list (map (\<lambda>x. Suc (weight x)) xs) \<le> n" for n ws r
      using first_read [OF that(1), of "''['' @ ?j @ '']''" "CHR ''[''" "?j @ '']''" r] j
        parse_items_written [OF assms False IH that(2), of "[]" r]
      by (simp add: json_space_def)
    then show ?thesis by (intro reads_backI) simp
  qed
next
  case (PDict d)
  have IH: "\<forall>(k, v)\<in>set d. reads_back sep col v" using PDict by (fastforce simp: list_all_iff)
  have dd: "dict_of_members d = d" using PDict.prems by (simp add: dict_of_distinct)
  show ?case
  proof (cases "d = []")
    case True
    have "parse_value (Suc n) (ws @ ''{}'' @ r) = Some (PDict [], r)" if "blank ws" for n ws r
      using first_read [OF that, of "''{}''" "CHR ''{''" "''}''" r] by (simp add: json_space_def)
    then show ?thesis using True by (auto simp: reads_back_def Suc_le_eq gr0_conv_Suc)
  next
    case False
    let ?j = "join_with sep (map (\<lambda>(k, v). json_string k @ col @ json_dump sep col v) d)"
    have "\<exists>c t. ?j = c # t \<and> c = CHR 0x22"
      by (rule join_map_starts [OF False]) (auto simp: json_string_def)
    then obtain c t where j: "?j = c # t" "c = CHR 0x22" by blast
    have "parse_value (Suc n) (ws @ json_dump sep col (PDict d) @ r) = Some (PDict d, r)"
      if "blank ws" "sum_list (map (\<lambda>(k, v). Suc (weight v)) d) \<le> n" for n ws r
      using first_read [OF that(1), of "''{'' @ ?j @ ''}''" "CHR ''{''" "?j @ ''}''" r] j
        parse_members_written [OF assms False IH that(2), of "[]" r]
      by (simp add: json_space_def dd)
    then show ?thesis by (intro reads_backI) simp
  qed
next
  case PNone
  have "parse_value (Suc n) (ws @ ''null'' @ r) = Some (PNone, r)" if "blank ws" for n ws r
    using first_read [OF that, of "''null''" "CHR ''n''" "''ull''" r] by (simp add: json_space_def)
  then show ?case by (auto simp: reads_back_def Suc_le_eq gr0_conv_Suc)
next
  case (PBool b)
  have "parse_value (Suc n) (ws @ ''true'' @ r) = Some (PBool True, r)"
    "parse_value (Suc n) (ws @ ''false'' @ r) = Some (PBool False, r)" if "blank ws" for n ws r
    using first_read [OF that, of "''true''" "CHR ''t''" "''rue''" r]
      first_read [OF that, of "''false''" "CHR ''f''" "''alse''" r] by (simp_all add: json_space_def)
  then show ?case by (auto simp: reads_back_def Suc_le_eq gr0_conv_Suc)
qed

lemma dump_nonempty [simp]: "0 < length (json_dump sep col v)"
  using json_dump_starts [of sep col v] by auto

lemma join_with_length: "sum_list (map length xs) \<le> length (join_with sep xs)"
  by (induction sep xs rule: join_with.induct) auto

lemma weight_length: "Suc (weight v) \<le> 2 * length (json_dump sep col v)"
proof (induction v)
  case (PInt i)
  have "1 \<le> length (json_dump sep col (PInt i))" using dump_nonempty [of sep col "PInt i"] by linarith
  then show ?case by simp
next
  case (PList xs)
  then have "sum_list (map (\<lambda>x. Suc (weight x)) xs) \<le> 2 * sum_list (map length (map (json_dump sep col) xs))"
    by (induction xs) fastforce+
  then show ?case using join_with_length [of "map (json_dump sep col) xs" sep] by simp
next
  case (PDict d)
  let ?f = "\<lambda>(k, v). json_string k @ col @ json_dump sep col v"
  have "sum_list (map (\<lambda>(k, v). Suc (weight v)) d) \<le> 2 * sum_list (map length (map ?f d))"
    using PDict by (induction d) fastforce+
  then show ?case using join_with_length [of "map ?f d" sep] by simp
qed (simp_all add: json_string_def)

text \<open>Reading what was written gives the value back.\<close>

lemma json_loads_dump:
  assumes "separators sep col" and "well_formed v"
  shows "json_loads (json_dump sep col v) = Some v"
proof -
  have "weight v \<le> 2 * length (json_dump sep col v) + 2"
    using weight_length [of v sep col] by simp
  then have "parse_value (2 * length (json_dump sep col v) + 2) ([] @ json_dump sep col v @ []) = Some (v, [])"
    by (intro reads_backD [OF value_reads_back [OF assms]]) simp_all
  then show ?thesis by (simp add: json_loads_def skip_space_def)
qed

lemma json_dump_inj:
  assumes "separators sep col" and "well_formed v" and "well_formed w"
  shows "json_dump sep col v = json_dump sep col w \<longleftrightarrow> v = w"
  using json_loads_dump [OF assms(1,2)] json_loads_dump [OF assms(1,3)] by (metis option.inject)

lemma distinct_sorted_keys: "distinct (map fst (sort_key fst d)) = distinct (map fst d)"
  by (simp add: distinct_map)

lemma well_formed_sort_keys: "well_formed v \<Longrightarrow> well_formed (sort_keys v)"
proof (induction v)
  case (PDict d)
  have "map fst (map (\<lambda>(k, v). (k, sort_keys v)) d) = map fst d" by (induction d) auto
  then have "distinct (map fst (sort_key fst (map (\<lambda>(k, v). (k, sort_keys v)) d)))"
    using PDict.prems by (simp only: distinct_sorted_keys) simp
  moreover have "well_formed (sort_keys x)" if "(k, x) \<in> set d" for k x
    using PDict.IH [OF that] PDict.prems that by (auto simp: list_all_iff)
  ultimately show ?case by (auto simp: list_all_iff)
qed (auto simp: list_all_iff)

end
