(* ===== verification/Action_Stores.thy ===== *)
theory Action_Stores
  imports Json Tables
begin

text \<open>
  The small durable stores of \<open>persistence/action_lifecycle_store.py\<close>: idempotency records,
  the action lock (a lease with fencing tokens), the outbox and the action runs. Times are
  integers; an automatically incremented key is the length of the table it is drawn from,
  because no row of those tables is ever deleted.
\<close>

section \<open>Idempotency records\<close>

record idempotency_record =
  ik_key :: string
  ik_action :: string
  ik_hash :: string
  ik_status :: string
  ik_result :: "pyval option"
  ik_error :: "string option"
  ik_created :: int
  ik_updated :: int

definition idempotency_get :: "string \<Rightarrow> idempotency_record list \<Rightarrow> idempotency_record option" where
  "idempotency_get k rows = (if k = [] then None else tbl_look ik_key rows k)"

text \<open>
  \<open>start\<close>: the record under a key is created at most once. The empty key is never found,
  but its second insert violates the primary key; \<open>None\<close> is that error.
\<close>

definition idempotency_start ::
  "int \<Rightarrow> string \<Rightarrow> string \<Rightarrow> string \<Rightarrow> idempotency_record list
    \<Rightarrow> (idempotency_record list \<times> bool \<times> idempotency_record option) option" where
  "idempotency_start now k action hash rows =
    (case idempotency_get k rows of
       Some r \<Rightarrow> Some (rows, False, Some r)
     | None \<Rightarrow>
        (case sql_insert ik_key \<lparr>ik_key = k, ik_action = action, ik_hash = hash, ik_status = ''running'',
                ik_result = None, ik_error = None, ik_created = now, ik_updated = now\<rparr> rows of
           None \<Rightarrow> None
         | Some rows' \<Rightarrow> Some (rows', True, idempotency_get k rows')))"

definition idempotency_finish ::
  "int \<Rightarrow> string \<Rightarrow> string \<Rightarrow> pyval \<Rightarrow> string option \<Rightarrow> idempotency_record list \<Rightarrow> idempotency_record list" where
  "idempotency_finish now k status result err rows =
     tbl_upd ik_key k (\<lambda>r. r\<lparr>ik_status := status, ik_result := Some result, ik_error := err, ik_updated := now\<rparr>) rows"

interpretation idempotency_table: keyed_table "tbl_look ik_key" "sql_insert ik_key" "tbl_upd ik_key" ik_key "unique_key ik_key"
  by (rule keyed_list_table)

section \<open>Action locks\<close>

record action_lock =
  lk_key :: string
  lk_owner :: string
  lk_token :: int
  lk_expires :: int
  lk_created :: int
  lk_renewed :: int

text \<open>\<open>action_lock_tokens\<close> is only appended to, so its keys are 1, 2, 3, ...\<close>

record lock_db =
  ld_tokens :: "(string \<times> int) list"
  ld_locks :: "action_lock list"

record acquired =
  aq_acquired :: bool
  aq_owner :: string
  aq_token :: int
  aq_expires :: int

definition lease_end :: "int \<Rightarrow> int \<Rightarrow> int" where
  "lease_end now ttl = now + max 1 ttl"

text \<open>The owner is the given one, or the fresh one when none is given.\<close>

definition acquire_lock ::
  "int \<Rightarrow> string \<Rightarrow> string \<Rightarrow> string option \<Rightarrow> int \<Rightarrow> lock_db \<Rightarrow> lock_db \<times> acquired" where
  "acquire_lock now fresh k owner ttl db =
    (let own = (if truthy_str owner then opt_str owner else fresh);
         locks = sql_delete (\<lambda>l. lk_key l = k \<and> lk_expires l \<le> now) (ld_locks db) in
     case tbl_look lk_key locks k of
       Some l \<Rightarrow> (db\<lparr>ld_locks := locks\<rparr>, \<lparr>aq_acquired = False, aq_owner = lk_owner l, aq_token = lk_token l,
                    aq_expires = lk_expires l\<rparr>)
     | None \<Rightarrow>
        let token = int (length (ld_tokens db)) + 1; expires = lease_end now ttl in
        (db\<lparr>ld_tokens := ld_tokens db @ [(k, now)],
            ld_locks := locks @ [\<lparr>lk_key = k, lk_owner = own, lk_token = token, lk_expires = expires,
                                lk_created = now, lk_renewed = now\<rparr>]\<rparr>,
         \<lparr>aq_acquired = True, aq_owner = own, aq_token = token, aq_expires = expires\<rparr>))"

definition lock_held :: "int \<Rightarrow> string \<Rightarrow> string \<Rightarrow> int \<Rightarrow> action_lock \<Rightarrow> bool" where
  "lock_held now k owner token l = (lk_key l = k \<and> lk_owner l = owner \<and> lk_token l = token \<and> now < lk_expires l)"

definition renew_lock :: "int \<Rightarrow> string \<Rightarrow> string \<Rightarrow> int \<Rightarrow> int \<Rightarrow> lock_db \<Rightarrow> lock_db \<times> bool \<times> int option" where
  "renew_lock now k owner token ttl db =
    (let n = sql_rowcount (lock_held now k owner token) (ld_locks db); expires = lease_end now ttl in
     (db\<lparr>ld_locks := sql_update (lock_held now k owner token) (\<lambda>l. l\<lparr>lk_expires := expires, lk_renewed := now\<rparr>) (ld_locks db)\<rparr>,
      n = 1, if n \<noteq> 0 then Some expires else None))"

definition validate_lock :: "int \<Rightarrow> string \<Rightarrow> string \<Rightarrow> int \<Rightarrow> lock_db \<Rightarrow> bool" where
  "validate_lock now k owner token db = sql_exists (lock_held now k owner token) (ld_locks db)"

definition release_lock :: "string \<Rightarrow> string option \<Rightarrow> int option \<Rightarrow> lock_db \<Rightarrow> lock_db" where
  "release_lock k owner token db = db\<lparr>ld_locks := sql_delete (\<lambda>l. lk_key l = k
     \<and> (case owner of None \<Rightarrow> True | Some w \<Rightarrow> lk_owner l = w)
     \<and> (case token of None \<Rightarrow> True | Some n \<Rightarrow> lk_token l = n)) (ld_locks db)\<rparr>"

section \<open>Outbox\<close>

record outbox_event =
  ob_id :: int
  ob_type :: string
  ob_aggregate :: "string option"
  ob_payload :: pyval
  ob_status :: string
  ob_created :: int

definition enqueue :: "int \<Rightarrow> string \<Rightarrow> string option \<Rightarrow> pyval \<Rightarrow> outbox_event list \<Rightarrow> outbox_event list \<times> int" where
  "enqueue now ty agg payload rows =
    (let i = int (length rows) + 1 in
     (rows @ [\<lparr>ob_id = i, ob_type = ty, ob_aggregate = agg, ob_payload = payload, ob_status = ''pending'', ob_created = now\<rparr>], i))"

text \<open>A negative \<open>LIMIT\<close> means no limit.\<close>

definition sql_limit :: "int \<Rightarrow> 'a list \<Rightarrow> 'a list" where
  "sql_limit limit rows = (if limit < 0 then rows else take (nat limit) rows)"

definition list_pending :: "int \<Rightarrow> outbox_event list \<Rightarrow> outbox_event list" where
  "list_pending limit rows = sql_limit limit (sort_key ob_id (filter (\<lambda>r. ob_status r = ''pending'') rows))"

definition list_recent :: "int \<Rightarrow> outbox_event list \<Rightarrow> outbox_event list" where
  "list_recent limit rows = sql_limit limit (sql_desc ob_id (\<lambda>_. True) rows)"

section \<open>Action runs\<close>

record run_transition =
  rt_status :: string
  rt_at :: int
  rt_detail :: "pyval option"

record action_run =
  rn_id :: string
  rn_key :: "string option"
  rn_action :: string
  rn_status :: string
  rn_transitions :: "run_transition list"
  rn_created :: int
  rn_updated :: int

text \<open>The run id is a fresh UUID.\<close>

definition start_run :: "int \<Rightarrow> string \<Rightarrow> string option \<Rightarrow> string \<Rightarrow> action_run list \<Rightarrow> action_run list option" where
  "start_run now fresh key action rows = sql_insert rn_id
     \<lparr>rn_id = fresh, rn_key = key, rn_action = action, rn_status = ''running'',
      rn_transitions = [\<lparr>rt_status = ''created'', rt_at = now, rt_detail = None\<rparr>,
                        \<lparr>rt_status = ''running'', rt_at = now, rt_detail = None\<rparr>],
      rn_created = now, rn_updated = now\<rparr> rows"

definition transition_run :: "int \<Rightarrow> string \<Rightarrow> string \<Rightarrow> pyval \<Rightarrow> action_run list \<Rightarrow> action_run list" where
  "transition_run now i status detail rows =
     tbl_upd rn_id i (\<lambda>r. r\<lparr>rn_status := status,
       rn_transitions := rn_transitions r @ [\<lparr>rt_status = status, rt_at = now, rt_detail = Some detail\<rparr>],
       rn_updated := now\<rparr>) rows"

definition get_run :: "string \<Rightarrow> action_run list \<Rightarrow> action_run option" where
  "get_run i rows = tbl_look rn_id rows i"

definition find_run_by_key :: "string option \<Rightarrow> action_run list \<Rightarrow> action_run option" where
  "find_run_by_key key rows = (if \<not> truthy_str key then None
     else sql_latest rn_created (\<lambda>r. rn_key r = key) rows)"

definition list_recent_runs :: "int \<Rightarrow> action_run list \<Rightarrow> action_run list" where
  "list_recent_runs limit rows = sql_limit limit (sql_desc rn_created (\<lambda>_. True) rows)"

section \<open>The lock as a system\<close>

datatype lock_call =
    Acquire string "string option" int
  | Renew string string int int
  | Release string "string option" "int option"

fun lock_apply :: "int \<Rightarrow> string \<Rightarrow> lock_call \<Rightarrow> lock_db \<Rightarrow> lock_db" where
  "lock_apply now fresh (Acquire k owner ttl) db = fst (acquire_lock now fresh k owner ttl db)"
| "lock_apply now fresh (Renew k owner token ttl) db = fst (renew_lock now k owner token ttl db)"
| "lock_apply now fresh (Release k owner token) db = release_lock k owner token db"

text \<open>One lock per key; every token was issued for its key, and no two locks share one.\<close>

definition lock_inv :: "lock_db \<Rightarrow> bool" where
  "lock_inv db \<longleftrightarrow> unique_key lk_key (ld_locks db) \<and> unique_key lk_token (ld_locks db)
     \<and> (\<forall>l\<in>set (ld_locks db). 1 \<le> lk_token l \<and> lk_token l \<le> int (length (ld_tokens db))
          \<and> fst (ld_tokens db ! nat (lk_token l - 1)) = lk_key l)"

text \<open>Every lock of the table after a call was there before (same key, owner and token) or is the new one.\<close>

lemma unique_delete: "unique_key key rows \<Longrightarrow> unique_key key (sql_delete p rows)"
  by (simp add: unique_key_def sql_delete_def distinct_map_filter)

lemma acquire_inv:
  assumes "lock_inv db"
  shows "lock_inv (fst (acquire_lock now fresh k owner ttl db))"
proof -
  let ?locks = "sql_delete (\<lambda>l. lk_key l = k \<and> lk_expires l \<le> now) (ld_locks db)"
  have u: "unique_key lk_key ?locks" "unique_key lk_token ?locks"
    using assms by (auto simp: lock_inv_def intro: unique_delete)
  have s: "set ?locks \<subseteq> set (ld_locks db)" by (auto simp: sql_delete_def)
  show ?thesis
  proof (cases "tbl_look lk_key ?locks k")
    case None
    have old: "1 \<le> lk_token l \<and> lk_token l \<le> int (length (ld_tokens db))
        \<and> fst (ld_tokens db ! nat (lk_token l - 1)) = lk_key l" if "l \<in> set ?locks" for l
      using assms that s by (auto simp: lock_inv_def)
    have old': "1 \<le> lk_token l \<and> lk_token l \<le> int (length (ld_tokens db @ [x]))
        \<and> fst ((ld_tokens db @ [x]) ! nat (lk_token l - 1)) = lk_key l" if "l \<in> set ?locks" for l x
      using old [OF that] by (auto simp: nth_append)
    have "int (length (ld_tokens db)) + 1 \<notin> lk_token ` set ?locks" using old by fastforce
    moreover have "k \<notin> lk_key ` set ?locks" using None by (simp add: tbl_look_None_iff)
    ultimately show ?thesis
      using None u old'
      by (simp add: acquire_lock_def lock_inv_def Let_def unique_key_insert nth_append)
  next
    case (Some l)
    then show ?thesis using u assms s by (auto simp: acquire_lock_def lock_inv_def Let_def)
  qed
qed

lemma renew_inv: "lock_inv db \<Longrightarrow> lock_inv (fst (renew_lock now k owner token ttl db))"
  by (auto simp: renew_lock_def lock_inv_def Let_def set_sql_update intro!: unique_key_update)

lemma release_inv: "lock_inv db \<Longrightarrow> lock_inv (release_lock k owner token db)"
  by (auto simp: release_lock_def lock_inv_def intro: unique_delete) (auto simp: sql_delete_def)

lemma lock_apply_inv [inv_intros]: "lock_inv db \<Longrightarrow> lock_inv (lock_apply now fresh c db)"
  by (cases c) (simp_all add: acquire_inv renew_inv release_inv)

inductive lock_run :: "lock_db \<Rightarrow> lock_db \<Rightarrow> bool" for db where
  start: "lock_run db db"
| call: "lock_run db db' \<Longrightarrow> lock_run db (lock_apply now fresh c db')"

lemma lock_run_inv: "lock_run db db' \<Longrightarrow> lock_inv db \<Longrightarrow> lock_inv db'"
  by (induction rule: lock_run.induct) (auto intro: lock_apply_inv)

definition no_locks :: lock_db where
  "no_locks = \<lparr>ld_tokens = [], ld_locks = []\<rparr>"

lemma no_locks_inv: "lock_inv no_locks"
  by (simp add: lock_inv_def no_locks_def unique_key_def)

section \<open>Fencing and exclusion\<close>

lemma tokens_grow: "lock_run db db' \<Longrightarrow> length (ld_tokens db) \<le> length (ld_tokens db')"
proof (induction rule: lock_run.induct)
  case (call db' now fresh c)
  have "length (ld_tokens db') \<le> length (ld_tokens (lock_apply now fresh c db'))"
    by (cases c) (auto simp: acquire_lock_def renew_lock_def release_lock_def Let_def split: option.split)
  with call.IH show ?case by linarith
qed simp

lemma acquire_token:
  assumes "acquire_lock now fresh k owner ttl db = (db', r)" and "aq_acquired r"
  shows "aq_token r = int (length (ld_tokens db')) \<and> length (ld_tokens db') = Suc (length (ld_tokens db))"
  using assms by (auto simp: acquire_lock_def Let_def split: option.splits)

text \<open>
  C35. Fencing tokens grow: a token handed out by a successful acquisition is larger than the
  token of every lock in the table and than every token handed out before, for any key,
  whatever was acquired, renewed or released in between.
\<close>

theorem fencing_tokens_increase:
  assumes "lock_inv db" and "acquire_lock now fresh k owner ttl db = (db1, r1)" and "aq_acquired r1"
    and "lock_run db1 db2" and "acquire_lock now' fresh' k' owner' ttl' db2 = (db3, r2)" and "aq_acquired r2"
  shows "aq_token r1 < aq_token r2 \<and> (\<forall>l\<in>set (ld_locks db2). lk_token l < aq_token r2)"
proof -
  have i1: "lock_inv db1" using acquire_inv [OF assms(1), of now fresh k owner ttl] assms(2) by simp
  have i2: "lock_inv db2" by (rule lock_run_inv [OF assms(4) i1])
  have t2: "aq_token r2 = int (length (ld_tokens db2)) + 1"
    using acquire_token [OF assms(5,6)] by simp
  have "lk_token l \<le> int (length (ld_tokens db2))" if "l \<in> set (ld_locks db2)" for l
    using i2 that by (auto simp: lock_inv_def)
  then show ?thesis
    using acquire_token [OF assms(2,3)] tokens_grow [OF assms(4)] t2 by fastforce
qed

definition first_acquisition :: "lock_db \<times> acquired" where
  "first_acquisition = acquire_lock 0 ''f'' ''k'' (Some ''w'') 10 no_locks"

theorem fencing_tokens_increase_witness:
  "aq_token (snd first_acquisition)
     < aq_token (snd (acquire_lock 20 ''f'' ''k'' (Some ''v'') 10 (fst first_acquisition)))"
proof -
  have a: "aq_acquired (snd first_acquisition)"
    "aq_acquired (snd (acquire_lock 20 ''f'' ''k'' (Some ''v'') 10 (fst first_acquisition)))" by code_simp+
  have p: "acquire_lock 0 ''f'' ''k'' (Some ''w'') 10 no_locks = (fst first_acquisition, snd first_acquisition)"
    "acquire_lock 20 ''f'' ''k'' (Some ''v'') 10 (fst first_acquisition)
       = (fst (acquire_lock 20 ''f'' ''k'' (Some ''v'') 10 (fst first_acquisition)),
          snd (acquire_lock 20 ''f'' ''k'' (Some ''v'') 10 (fst first_acquisition)))"
    by (simp_all add: first_acquisition_def)
  show ?thesis using fencing_tokens_increase [OF no_locks_inv p(1) a(1) lock_run.start p(2) a(2)] by simp
qed

text \<open>Calls that leave the lease of one holder alone until time \<open>x\<close>.\<close>

fun leaves_lease :: "string \<Rightarrow> string \<Rightarrow> int \<Rightarrow> int \<Rightarrow> int \<times> string \<times> lock_call \<Rightarrow> bool" where
  "leaves_lease k owner token x (now, fresh, Acquire k' w ttl) = (now < x)"
| "leaves_lease k owner token x (now, fresh, Renew k' w n ttl) = ((k', w, n) = (k, owner, token) \<longrightarrow> x \<le> lease_end now ttl)"
| "leaves_lease k owner token x (now, fresh, Release k' w n) =
     (k' \<noteq> k \<or> w \<notin> {None, Some owner} \<or> n \<notin> {None, Some token})"

definition lock_calls :: "(int \<times> string \<times> lock_call) list \<Rightarrow> lock_db \<Rightarrow> lock_db" where
  "lock_calls cs db = foldl (\<lambda>d (now, fresh, c). lock_apply now fresh c d) db cs"

definition leased :: "string \<Rightarrow> string \<Rightarrow> int \<Rightarrow> int \<Rightarrow> lock_db \<Rightarrow> bool" where
  "leased k owner token x db \<longleftrightarrow> (\<exists>l\<in>set (ld_locks db). lk_key l = k \<and> lk_owner l = owner \<and> lk_token l = token \<and> x \<le> lk_expires l)"

lemma leased_kept:
  assumes "leased k owner token x db" and "leaves_lease k owner token x (now, fresh, c)"
  shows "leased k owner token x (lock_apply now fresh c db)"
proof -
  obtain l where l: "l \<in> set (ld_locks db)" "lk_key l = k" "lk_owner l = owner" "lk_token l = token" "x \<le> lk_expires l"
    using assms(1) by (auto simp: leased_def)
  show ?thesis
  proof (cases c)
    case (Acquire k' w ttl)
    with l assms(2) have "l \<in> set (ld_locks (lock_apply now fresh c db))"
      by (auto simp: acquire_lock_def Let_def sql_delete_def split: option.split)
    with l show ?thesis by (auto simp: leased_def)
  next
    case (Renew k' w n ttl)
    let ?l = "if lock_held now k' w n l then l\<lparr>lk_expires := lease_end now ttl, lk_renewed := now\<rparr> else l"
    have "?l \<in> set (ld_locks (lock_apply now fresh c db))"
      using l(1) Renew by (auto simp: renew_lock_def Let_def sql_update_def)
    moreover have "x \<le> lk_expires ?l" using l assms(2) Renew by (auto simp: lock_held_def)
    moreover have "lk_key ?l = k" "lk_owner ?l = owner" "lk_token ?l = token" using l by auto
    ultimately show ?thesis unfolding leased_def by blast
  next
    case (Release k' w n)
    with l assms(2) have "l \<in> set (ld_locks (lock_apply now fresh c db))"
      by (cases w; cases n) (auto simp: release_lock_def sql_delete_def)
    with l show ?thesis by (auto simp: leased_def)
  qed
qed

lemma leased_calls:
  "leased k owner token x db \<Longrightarrow> list_all (leaves_lease k owner token x) cs \<Longrightarrow> leased k owner token x (lock_calls cs db)"
proof (induction cs arbitrary: db)
  case (Cons c cs)
  obtain now fresh call where c: "c = (now, fresh, call)" by (cases c)
  have "leased k owner token x (lock_apply now fresh call db)"
    using Cons.prems by (auto simp: c intro: leased_kept)
  then show ?case using Cons.IH Cons.prems(2) by (simp add: lock_calls_def c)
qed (simp add: lock_calls_def)

lemma lock_calls_run: "lock_run db (lock_calls cs db)"
proof (induction cs rule: rev_induct)
  case (snoc c cs)
  then show ?case by (cases c) (auto simp: lock_calls_def intro: lock_run.call)
qed (simp add: lock_calls_def lock_run.start)

text \<open>
  C36. A lease excludes everyone else: after a successful acquisition, and any calls that
  neither release this very lock nor shorten it, made before the lease ends, the holder's
  lock is valid at every moment before that end, no other owner or token is valid for the
  key, and no further acquisition of the key succeeds.
\<close>

theorem lease_excludes:
  assumes "lock_inv db" and "acquire_lock now fresh k owner ttl db = (db1, r)" and "aq_acquired r"
    and "list_all (leaves_lease k (aq_owner r) (aq_token r) (aq_expires r)) cs" and "now' < aq_expires r"
  shows "validate_lock now' k (aq_owner r) (aq_token r) (lock_calls cs db1)
     \<and> (\<forall>w n. validate_lock now' k w n (lock_calls cs db1) \<longrightarrow> w = aq_owner r \<and> n = aq_token r)
     \<and> \<not> aq_acquired (snd (acquire_lock now' fresh' k owner' ttl' (lock_calls cs db1)))"
proof -
  let ?db = "lock_calls cs db1"
  have i1: "lock_inv db1" using acquire_inv [OF assms(1), of now fresh k owner ttl] assms(2) by simp
  have u: "unique_key lk_key (ld_locks ?db)"
    using lock_run_inv [OF lock_calls_run i1, of cs] by (simp add: lock_inv_def)
  have "leased k (aq_owner r) (aq_token r) (aq_expires r) db1"
    using assms(2,3) by (auto simp: acquire_lock_def leased_def Let_def split: option.splits)
  then obtain l where l: "l \<in> set (ld_locks ?db)" "lk_key l = k" "lk_owner l = aq_owner r" "lk_token l = aq_token r"
    "aq_expires r \<le> lk_expires l"
    using leased_calls [OF _ assms(4), of db1] by (auto simp: leased_def)
  have only: "x = l" if "x \<in> set (ld_locks ?db)" "lk_key x = k" for x
    using unique_keyD [OF u that(1) l(1)] that(2) l(2) by simp
  have "l \<in> set (sql_delete (\<lambda>l. lk_key l = k \<and> lk_expires l \<le> now') (ld_locks ?db))"
    using l assms(5) by (auto simp: sql_delete_def)
  then have "tbl_look lk_key (sql_delete (\<lambda>l. lk_key l = k \<and> lk_expires l \<le> now') (ld_locks ?db)) k \<noteq> None"
    using l(2) by (auto simp: tbl_look_None_iff)
  then have "\<not> aq_acquired (snd (acquire_lock now' fresh' k owner' ttl' ?db))"
    by (auto simp: acquire_lock_def Let_def split: option.split)
  moreover have "validate_lock now' k (aq_owner r) (aq_token r) ?db"
    using l assms(5) by (auto simp: validate_lock_def lock_held_def)
  moreover have "w = aq_owner r \<and> n = aq_token r" if "validate_lock now' k w n ?db" for w n
    using that only l(3,4) by (auto simp: validate_lock_def lock_held_def)
  ultimately show ?thesis by blast
qed

theorem lease_excludes_witness:
  "validate_lock 9 ''k'' ''w'' 1 (lock_calls [(5, ''f'', Release ''k'' (Some ''v'') None)] (fst first_acquisition))
   \<and> \<not> aq_acquired (snd (acquire_lock 9 ''f'' ''k'' (Some ''v'') 10
         (lock_calls [(5, ''f'', Release ''k'' (Some ''v'') None)] (fst first_acquisition))))"
proof -
  have v: "snd first_acquisition = \<lparr>aq_acquired = True, aq_owner = ''w'', aq_token = 1, aq_expires = 10\<rparr>"
    by (simp add: first_acquisition_def acquire_lock_def no_locks_def sql_delete_def tbl_look_def sql_first_def
        lease_end_def Let_def)
  have p: "acquire_lock 0 ''f'' ''k'' (Some ''w'') 10 no_locks = (fst first_acquisition, snd first_acquisition)"
    by (simp add: first_acquisition_def)
  show ?thesis
    using lease_excludes [OF no_locks_inv p, of "[(5, ''f'', Release ''k'' (Some ''v'') None)]" 9 "''f''" "Some ''v''" 10] v
    by simp
qed

end
