(* ===== verification/Txn_Draft.thy ===== *)
theory Txn_Draft
  imports Json Lifecycles Tables
begin

text \<open>
  \<open>operations/draft.py\<close>: the lifecycle of a TransactionDraft, the decision every repository
  takes before it persists a change of one, and the canonical command a draft's digest binds.
  A draft is a row of \<open>transaction_drafts\<close>; an offer is an untyped dict. SHA-256 is an
  argument (text to hex digest).
\<close>

section \<open>States\<close>

datatype draft_state =
    DRAFT_NEEDS_INPUT
  | DRAFT_READY
  | DRAFT_AWAITING_AUTHORIZATION
  | DRAFT_AUTHORIZED
  | DRAFT_COMMITTING
  | DRAFT_COMMITTED
  | DRAFT_FAILED_RETRYABLE
  | DRAFT_FAILED_FINAL
  | DRAFT_SUBMISSION_UNKNOWN
  | DRAFT_EXPIRED
  | DRAFT_REVOKED
  | DRAFT_REQUIRES_REVIEW

definition draft_states :: "(string \<times> draft_state) list" where
  "draft_states =
    [(''NEEDS_INPUT'', DRAFT_NEEDS_INPUT), (''READY'', DRAFT_READY),
     (''AWAITING_AUTHORIZATION'', DRAFT_AWAITING_AUTHORIZATION), (''AUTHORIZED'', DRAFT_AUTHORIZED),
     (''COMMITTING'', DRAFT_COMMITTING), (''COMMITTED'', DRAFT_COMMITTED),
     (''FAILED_RETRYABLE'', DRAFT_FAILED_RETRYABLE), (''FAILED_FINAL'', DRAFT_FAILED_FINAL),
     (''SUBMISSION_UNKNOWN'', DRAFT_SUBMISSION_UNKNOWN), (''EXPIRED'', DRAFT_EXPIRED),
     (''REVOKED'', DRAFT_REVOKED), (''REQUIRES_REVIEW'', DRAFT_REQUIRES_REVIEW)]"

definition terminal_draft_states :: "draft_state list" where
  "terminal_draft_states =
    [DRAFT_COMMITTED, DRAFT_FAILED_FINAL, DRAFT_EXPIRED, DRAFT_REVOKED, DRAFT_REQUIRES_REVIEW]"

definition sealed_draft :: "draft_state \<Rightarrow> bool" where
  "sealed_draft s = (s \<in> {DRAFT_COMMITTED, DRAFT_FAILED_FINAL, DRAFT_EXPIRED, DRAFT_REVOKED})"

definition in_flight :: "draft_state \<Rightarrow> bool" where
  "in_flight s = (s = DRAFT_COMMITTING \<or> s = DRAFT_SUBMISSION_UNKNOWN)"

definition read_draft_state :: "string \<Rightarrow> draft_state" where
  "read_draft_state s = (case map_of draft_states (py_upper s) of None \<Rightarrow> DRAFT_READY | Some st \<Rightarrow> st)"

definition draft_state_text :: "draft_state \<Rightarrow> string" where
  "draft_state_text s = fst (hd (filter (\<lambda>p. snd p = s) draft_states))"

fun same_revision_transitions :: "draft_state \<Rightarrow> draft_state list" where
  "same_revision_transitions DRAFT_NEEDS_INPUT =
     [DRAFT_NEEDS_INPUT, DRAFT_READY, DRAFT_AWAITING_AUTHORIZATION, DRAFT_FAILED_FINAL, DRAFT_EXPIRED,
      DRAFT_REVOKED, DRAFT_REQUIRES_REVIEW]"
| "same_revision_transitions DRAFT_READY =
     [DRAFT_READY, DRAFT_NEEDS_INPUT, DRAFT_AWAITING_AUTHORIZATION, DRAFT_FAILED_FINAL, DRAFT_EXPIRED,
      DRAFT_REVOKED, DRAFT_REQUIRES_REVIEW]"
| "same_revision_transitions DRAFT_AWAITING_AUTHORIZATION =
     [DRAFT_AWAITING_AUTHORIZATION, DRAFT_AUTHORIZED, DRAFT_COMMITTING, DRAFT_FAILED_FINAL, DRAFT_EXPIRED,
      DRAFT_REVOKED, DRAFT_REQUIRES_REVIEW]"
| "same_revision_transitions DRAFT_AUTHORIZED =
     [DRAFT_AUTHORIZED, DRAFT_AWAITING_AUTHORIZATION, DRAFT_COMMITTING, DRAFT_FAILED_FINAL, DRAFT_EXPIRED,
      DRAFT_REVOKED, DRAFT_REQUIRES_REVIEW]"
| "same_revision_transitions DRAFT_COMMITTING =
     [DRAFT_COMMITTING, DRAFT_SUBMISSION_UNKNOWN, DRAFT_COMMITTED, DRAFT_FAILED_RETRYABLE, DRAFT_FAILED_FINAL]"
| "same_revision_transitions DRAFT_SUBMISSION_UNKNOWN =
     [DRAFT_SUBMISSION_UNKNOWN, DRAFT_COMMITTED, DRAFT_FAILED_RETRYABLE, DRAFT_FAILED_FINAL]"
| "same_revision_transitions DRAFT_FAILED_RETRYABLE =
     [DRAFT_FAILED_RETRYABLE, DRAFT_SUBMISSION_UNKNOWN, DRAFT_COMMITTED, DRAFT_FAILED_FINAL]"
| "same_revision_transitions DRAFT_REQUIRES_REVIEW = [DRAFT_REQUIRES_REVIEW, DRAFT_REVOKED, DRAFT_EXPIRED]"
| "same_revision_transitions s = [s]"

text \<open>States a new revision may enter.\<close>

definition pre_execution :: "draft_state \<Rightarrow> bool" where
  "pre_execution s = (s \<in> {DRAFT_NEEDS_INPUT, DRAFT_READY, DRAFT_AWAITING_AUTHORIZATION, DRAFT_FAILED_FINAL,
     DRAFT_EXPIRED, DRAFT_REVOKED, DRAFT_REQUIRES_REVIEW})"

fun display_projection_of :: "draft_state \<Rightarrow> string \<times> string" where
  "display_projection_of DRAFT_NEEDS_INPUT = (''needs_input'', ''needs_input'')"
| "display_projection_of DRAFT_READY = (''ready'', ''ready'')"
| "display_projection_of DRAFT_AWAITING_AUTHORIZATION = (''pending_confirmation'', ''awaiting_authority'')"
| "display_projection_of DRAFT_AUTHORIZED = (''pending_confirmation'', ''authorized'')"
| "display_projection_of DRAFT_COMMITTING = (''pending_confirmation'', ''committing'')"
| "display_projection_of DRAFT_COMMITTED = (''executed'', ''committed'')"
| "display_projection_of DRAFT_FAILED_RETRYABLE = (''failed'', ''failed_retryable'')"
| "display_projection_of DRAFT_FAILED_FINAL = (''failed'', ''failed_final'')"
| "display_projection_of DRAFT_SUBMISSION_UNKNOWN = (''submission_unknown'', ''submission_unknown'')"
| "display_projection_of DRAFT_EXPIRED = (''superseded'', ''interaction_superseded'')"
| "display_projection_of DRAFT_REVOKED = (''declined'', ''authority_rejected'')"
| "display_projection_of DRAFT_REQUIRES_REVIEW = (''review_required'', ''requires_review'')"

definition display_projection :: "string \<Rightarrow> string \<times> string" where
  "display_projection s = display_projection_of (read_draft_state s)"

section \<open>The persisted draft\<close>

record draft_row =
  dr_id :: string
  dr_tenant :: string
  dr_user :: string
  dr_thread :: string
  dr_revision :: int
  dr_state :: string
  dr_action :: string
  dr_digest :: string
  dr_envelope :: "pydict option"
  dr_projection :: "pydict option"
  dr_grant :: "string option"
  dr_attempt :: "string option"
  dr_created :: int
  dr_updated :: int
  dr_correlation :: "string option"

definition draft_state_of :: "draft_row \<Rightarrow> draft_state" where
  "draft_state_of r = read_draft_state (dr_state r)"

text \<open>\<open>_int_field\<close>: what does not read as an integer counts as 0.\<close>

definition int_field :: "pydict \<Rightarrow> string \<Rightarrow> int" where
  "int_field d name = (case py_int (py_or (dget d name) (PInt 0)) of None \<Rightarrow> 0 | Some i \<Rightarrow> i)"

text \<open>
  \<open>_projection\<close>: the projection when there is one. Without one the source falls back to the
  row itself, which has none of the fields read below, but is never empty.
\<close>

definition projection_fields :: "draft_row \<Rightarrow> pydict" where
  "projection_fields r = (case dr_projection r of None \<Rightarrow> [] | Some p \<Rightarrow> p)"

definition stale_interaction :: "pydict \<Rightarrow> pydict \<Rightarrow> string \<Rightarrow> string \<Rightarrow> string \<Rightarrow> string option" where
  "stale_interaction old new version revision ident =
    (if int_field old (version) \<noteq> 0 \<and> int_field new version < int_field old version then Some ''version''
     else if int_field old revision \<noteq> 0 \<and> int_field new revision < int_field old revision then Some ''revision''
     else if int_field old version \<noteq> 0 \<and> int_field new version = int_field old version
          \<and> text_of (dget old ident) \<noteq> [] \<and> text_of (dget new ident) \<noteq> []
          \<and> text_of (dget old ident) \<noteq> text_of (dget new ident) then Some ''identity''
     else None)"

definition interaction_projection_is_fresh :: "draft_row \<Rightarrow> draft_row \<Rightarrow> string + string" where
  "interaction_projection_is_fresh current incoming =
    (let old = projection_fields current; new = projection_fields incoming;
         t0 = int_field old ''updated_turn''; t1 = int_field new ''updated_turn'' in
     if dr_projection incoming = Some [] then Inr ''state_only_update''
     else if t0 \<noteq> 0 \<and> t1 \<noteq> 0 \<and> t1 < t0 then Inl ''projection_turn_regression''
     else if draft_state_of current = DRAFT_AWAITING_AUTHORIZATION then
       (case stale_interaction old new ''confirmation_version'' ''authority_revision'' ''confirmation_id'' of
          None \<Rightarrow> Inr ''projection_fresh''
        | Some what \<Rightarrow> Inl (if what = ''version'' then ''confirmation_version_regression''
            else if what = ''revision'' then ''authority_revision_regression'' else ''confirmation_identity_conflict''))
     else if draft_state_of current = DRAFT_NEEDS_INPUT then
       (case stale_interaction old new ''input_form_version'' ''interaction_revision'' ''input_form_id'' of
          None \<Rightarrow> Inr ''projection_fresh''
        | Some what \<Rightarrow> Inl (if what = ''version'' then ''input_form_version_regression''
            else if what = ''revision'' then ''interaction_revision_regression'' else ''input_form_identity_conflict''))
     else Inr ''projection_fresh'')"

definition identity_conflict :: "draft_row \<Rightarrow> draft_row \<Rightarrow> string option" where
  "identity_conflict current incoming =
    (case filter (\<lambda>(name, old, new). old \<noteq> [] \<and> new \<noteq> [] \<and> old \<noteq> new)
        [(''draft_id'', dr_id current, dr_id incoming), (''tenant_id'', dr_tenant current, dr_tenant incoming),
         (''user_id'', dr_user current, dr_user incoming), (''thread_id'', dr_thread current, dr_thread incoming),
         (''action_id'', dr_action current, dr_action incoming)] of
       [] \<Rightarrow> None
     | (name, _) # _ \<Rightarrow> Some name)"

definition effective_revision :: "draft_row \<Rightarrow> int" where
  "effective_revision r = max 1 (int_or_one (dr_revision r))"

definition draft_persistence_update_decision :: "draft_row option \<Rightarrow> draft_row \<Rightarrow> string + string" where
  "draft_persistence_update_decision stored incoming =
    (case stored of
       None \<Rightarrow> Inr ''new_draft''
     | Some current \<Rightarrow>
        (case identity_conflict current incoming of
           Some field \<Rightarrow> Inl (''identity_mismatch:'' @ field)
         | None \<Rightarrow>
            let s = draft_state_of current; s' = draft_state_of incoming;
                rev = effective_revision current;
                rev' = max 1 (if dr_revision incoming = 0 then rev else dr_revision incoming);
                digest = dr_digest current; digest' = str_or (dr_digest incoming) digest in
            if sealed_draft s then Inl ''sealed_draft''
            else if rev' < rev then Inl ''draft_revision_regression''
            else if rev' = rev \<and> digest \<noteq> [] \<and> digest' \<noteq> [] \<and> digest' \<noteq> digest
            then Inl ''command_digest_changed_without_revision''
            else if rev' > rev then
              (if in_flight s then Inl ''revision_change_while_in_flight''
               else if s = DRAFT_REQUIRES_REVIEW then Inl ''review_draft_requires_new_identity''
               else if \<not> pre_execution s' then Inl ''new_revision_must_reenter_pre_execution_boundary''
               else Inr ''new_revision'')
            else if s' \<notin> set (same_revision_transitions s)
            then Inl (''illegal_state_transition:'' @ draft_state_text s @ ''->'' @ draft_state_text s')
            else if s' = s then interaction_projection_is_fresh current incoming
            else Inr ''legal_state_transition''))"

section \<open>The lifecycle\<close>

text \<open>What one accepted update may do to the state.\<close>

definition draft_move :: "draft_state \<Rightarrow> draft_state \<Rightarrow> bool" where
  "draft_move s s' = (s' \<in> set (same_revision_transitions s)
     \<or> \<not> sealed_draft s \<and> \<not> in_flight s \<and> s \<noteq> DRAFT_REQUIRES_REVIEW \<and> pre_execution s')"

interpretation draft_life: sealed_lifecycle draft_move sealed_draft
proof
  show "t = s" if "sealed_draft s" and "draft_move s t" for s t
    using that by (cases s) (auto simp: draft_move_def sealed_draft_def)
qed

text \<open>A committed draft was in execution before, and nothing in execution is ever reopened.\<close>

definition in_execution :: "draft_state \<Rightarrow> bool" where
  "in_execution s = (s \<in> {DRAFT_COMMITTING, DRAFT_SUBMISSION_UNKNOWN, DRAFT_FAILED_RETRYABLE})"

lemma draft_move_committed: "draft_move s DRAFT_COMMITTED \<Longrightarrow> in_execution s \<or> s = DRAFT_COMMITTED"
  by (cases s) (auto simp: draft_move_def pre_execution_def in_execution_def)

lemma draft_move_in_flight: "draft_move s s' \<Longrightarrow> in_flight s \<Longrightarrow>
    in_flight s' \<or> s' \<in> {DRAFT_COMMITTED, DRAFT_FAILED_RETRYABLE, DRAFT_FAILED_FINAL}"
  by (cases s) (auto simp: draft_move_def in_flight_def)

text \<open>
  What every accepted update of a stored draft guarantees: the identity is kept, the draft
  was not sealed, the revision does not decrease, the state moves along the table, and the
  command digest stays with its revision.
\<close>

definition kept :: "string \<Rightarrow> string \<Rightarrow> bool" where
  "kept old new \<longleftrightarrow> old = [] \<or> new = [] \<or> old = new"

definition draft_update_sound :: "draft_row \<Rightarrow> draft_row \<Rightarrow> bool" where
  "draft_update_sound r r' \<longleftrightarrow>
     kept (dr_id r) (dr_id r') \<and> kept (dr_tenant r) (dr_tenant r') \<and> kept (dr_user r) (dr_user r')
     \<and> kept (dr_thread r) (dr_thread r') \<and> kept (dr_action r) (dr_action r')
     \<and> \<not> sealed_draft (draft_state_of r)
     \<and> draft_move (draft_state_of r) (draft_state_of r')
     \<and> (dr_revision r' \<noteq> 0 \<longrightarrow> effective_revision r \<le> effective_revision r')
     \<and> (effective_revision r' = effective_revision r \<and> dr_revision r' \<noteq> 0 \<longrightarrow> kept (dr_digest r) (dr_digest r'))"

lemma identity_conflict_None:
  "identity_conflict r r' = None \<longleftrightarrow> kept (dr_id r) (dr_id r') \<and> kept (dr_tenant r) (dr_tenant r')
     \<and> kept (dr_user r) (dr_user r') \<and> kept (dr_thread r) (dr_thread r') \<and> kept (dr_action r) (dr_action r')"
  by (auto simp: identity_conflict_def kept_def filter_empty_conv split: list.splits prod.splits)

lemma decision_sound:
  assumes "draft_persistence_update_decision (Some r) r' = Inr why"
  shows "draft_update_sound r r'"
proof -
  define s where "s = draft_state_of r"
  define s' where "s' = draft_state_of r'"
  define rev where "rev = effective_revision r"
  define rev' where "rev' = max 1 (if dr_revision r' = 0 then rev else dr_revision r')"
  have ic: "identity_conflict r r' = None"
    using assms by (cases "identity_conflict r r'") (simp_all add: draft_persistence_update_decision_def)
  have d: "\<not> sealed_draft s" "\<not> rev' < rev"
    "\<not> (rev' = rev \<and> dr_digest r \<noteq> [] \<and> str_or (dr_digest r') (dr_digest r) \<noteq> []
        \<and> str_or (dr_digest r') (dr_digest r) \<noteq> dr_digest r)"
    "if rev' > rev then \<not> in_flight s \<and> s \<noteq> DRAFT_REQUIRES_REVIEW \<and> pre_execution s'
     else s' \<in> set (same_revision_transitions s)"
    using assms ic
    by (simp_all add: draft_persistence_update_decision_def s_def [symmetric] s'_def [symmetric]
        rev_def [symmetric] rev'_def [symmetric] Let_def guard_Inr_iff split: if_splits)
  have move: "draft_move s s'" using d(1,4) by (auto simp: draft_move_def split: if_splits)
  have rr: "dr_revision r' \<noteq> 0 \<Longrightarrow> effective_revision r' = rev'"
    by (simp add: rev'_def effective_revision_def int_or_one_def)
  have "kept (dr_digest r) (dr_digest r')" if "rev' = rev"
    using d(3) that by (auto simp: kept_def str_or_def split: if_splits)
  then show ?thesis
    using ic d(1,2) move rr
    by (auto simp: draft_update_sound_def identity_conflict_None s_def [symmetric] s'_def [symmetric] rev_def [symmetric])
qed

lemma decision_new: "draft_persistence_update_decision None r = Inr why \<longleftrightarrow> why = ''new_draft''"
  by (auto simp: draft_persistence_update_decision_def)

lemma decision_sealed: "sealed_draft (draft_state_of r) \<Longrightarrow> \<exists>why. draft_persistence_update_decision (Some r) r' = Inl why"
  by (cases "draft_persistence_update_decision (Some r) r'")
    (auto dest: decision_sound simp: draft_update_sound_def)

end
