(* ===== verification/Txn_Policy.thy ===== *)
theory Txn_Policy
  imports Txn_Draft
begin

text \<open>
  \<open>storage/transaction_policy.py\<close>: the rows of the transaction tables beside the drafts, and
  the decisions the repositories take before they record a receipt, move an attempt, issue,
  reserve or consume a grant, or observe the end of a draft. A decision is \<open>Inl\<close> of the
  reason for a refusal or \<open>Inr\<close> of the reason for acceptance.
\<close>

section \<open>Rows\<close>

datatype attempt_state =
    ATTEMPT_STARTED
  | ATTEMPT_SUBMISSION_UNKNOWN
  | ATTEMPT_RECONCILIATION_REQUIRED
  | ATTEMPT_ACKED
  | ATTEMPT_FAILED_RETRYABLE
  | ATTEMPT_FAILED_FINAL

definition attempt_states :: "(string \<times> attempt_state) list" where
  "attempt_states =
    [(''STARTED'', ATTEMPT_STARTED), (''SUBMISSION_UNKNOWN'', ATTEMPT_SUBMISSION_UNKNOWN),
     (''RECONCILIATION_REQUIRED'', ATTEMPT_RECONCILIATION_REQUIRED), (''ACKED'', ATTEMPT_ACKED),
     (''FAILED_RETRYABLE'', ATTEMPT_FAILED_RETRYABLE), (''FAILED_FINAL'', ATTEMPT_FAILED_FINAL)]"

datatype grant_state = ISSUED | RESERVED | CONSUMED | REVOKED | GRANT_EXPIRED

record attempt_row =
  ta_id :: string
  ta_tenant :: string
  ta_user :: string
  ta_thread :: string
  ta_draft :: string
  ta_revision :: int
  ta_grant :: string
  ta_action :: string
  ta_digest :: string
  ta_key :: string
  ta_payload :: pydict
  ta_envelope :: "pydict option"
  ta_state :: string
  ta_result :: "pydict option"
  ta_receipt :: "string option"
  ta_error_code :: "string option"
  ta_error :: "string option"
  ta_created :: int
  ta_updated :: int
  ta_reconciled :: "int option"
  ta_correlation :: "string option"

record grant_row =
  gr_id :: string
  gr_tenant :: string
  gr_user :: string
  gr_thread :: string
  gr_draft :: string
  gr_revision :: int
  gr_digest :: string
  gr_confirmation :: string
  gr_client :: string
  gr_actor :: string
  gr_role :: string
  gr_state :: grant_state
  gr_issued :: int
  gr_reserved :: "int option"
  gr_consumed :: "int option"
  gr_revoked :: "int option"
  gr_expires :: "int option"
  gr_attempt :: "string option"
  gr_receipt :: "string option"
  gr_reason :: "string option"

record receipt_row =
  rc_id :: string
  rc_tenant :: string
  rc_user :: string
  rc_thread :: string
  rc_draft :: string
  rc_attempt :: "string option"
  rc_handle :: "string option"
  rc_state :: string
  rc_result :: pydict
  rc_resource :: "string option"
  rc_created :: int
  rc_correlation :: "string option"

text \<open>The scope every call names: tenant, user, thread and draft.\<close>

record txn_scope =
  sc_tenant_id :: string
  sc_user_id :: string
  sc_thread_id :: string
  sc_draft_id :: string

definition attempt_scope :: "attempt_row \<Rightarrow> txn_scope" where
  "attempt_scope t = \<lparr>sc_tenant_id = ta_tenant t, sc_user_id = ta_user t, sc_thread_id = ta_thread t,
     sc_draft_id = ta_draft t\<rparr>"

definition grant_scope :: "grant_row \<Rightarrow> txn_scope" where
  "grant_scope g = \<lparr>sc_tenant_id = gr_tenant g, sc_user_id = gr_user g, sc_thread_id = gr_thread g,
     sc_draft_id = gr_draft g\<rparr>"

definition receipt_scope :: "receipt_row \<Rightarrow> txn_scope" where
  "receipt_scope c = \<lparr>sc_tenant_id = rc_tenant c, sc_user_id = rc_user c, sc_thread_id = rc_thread c,
     sc_draft_id = rc_draft c\<rparr>"

definition draft_scope :: "draft_row \<Rightarrow> txn_scope" where
  "draft_scope r = \<lparr>sc_tenant_id = dr_tenant r, sc_user_id = dr_user r, sc_thread_id = dr_thread r,
     sc_draft_id = dr_id r\<rparr>"

text \<open>The loop over the scope fields: the first one that differs.\<close>

definition scope_mismatch :: "txn_scope \<Rightarrow> txn_scope \<Rightarrow> string option" where
  "scope_mismatch s t =
    (if sc_tenant_id s \<noteq> sc_tenant_id t then Some ''tenant_id''
     else if sc_user_id s \<noteq> sc_user_id t then Some ''user_id''
     else if sc_thread_id s \<noteq> sc_thread_id t then Some ''thread_id''
     else if sc_draft_id s \<noteq> sc_draft_id t then Some ''draft_id''
     else None)"

definition succeeded :: "pydict \<Rightarrow> bool" where
  "succeeded result = (dget result ''success'' = PBool True)"

section \<open>Attempts\<close>

fun attempt_transitions :: "attempt_state \<Rightarrow> attempt_state list" where
  "attempt_transitions ATTEMPT_STARTED =
     [ATTEMPT_STARTED, ATTEMPT_SUBMISSION_UNKNOWN, ATTEMPT_RECONCILIATION_REQUIRED, ATTEMPT_ACKED,
      ATTEMPT_FAILED_RETRYABLE, ATTEMPT_FAILED_FINAL]"
| "attempt_transitions ATTEMPT_SUBMISSION_UNKNOWN =
     [ATTEMPT_SUBMISSION_UNKNOWN, ATTEMPT_RECONCILIATION_REQUIRED, ATTEMPT_ACKED, ATTEMPT_FAILED_RETRYABLE,
      ATTEMPT_FAILED_FINAL]"
| "attempt_transitions ATTEMPT_RECONCILIATION_REQUIRED =
     [ATTEMPT_RECONCILIATION_REQUIRED, ATTEMPT_ACKED, ATTEMPT_FAILED_RETRYABLE, ATTEMPT_FAILED_FINAL]"
| "attempt_transitions s = [s]"

definition sealed_attempt :: "attempt_state \<Rightarrow> bool" where
  "sealed_attempt s = (s \<in> {ATTEMPT_ACKED, ATTEMPT_FAILED_RETRYABLE, ATTEMPT_FAILED_FINAL})"

text \<open>A state column as text; \<open>None\<close> for a text that is no state.\<close>

definition read_attempt_state :: "string \<Rightarrow> attempt_state option" where
  "read_attempt_state s = map_of attempt_states (py_upper s)"

definition attempt_sealed :: "attempt_row \<Rightarrow> bool" where
  "attempt_sealed t = (case read_attempt_state (ta_state t) of None \<Rightarrow> False | Some s \<Rightarrow> sealed_attempt s)"

definition attempt_transition_allowed :: "string \<Rightarrow> string \<Rightarrow> bool" where
  "attempt_transition_allowed current target =
    (case read_attempt_state current of
       None \<Rightarrow> py_upper target = py_upper current
     | Some s \<Rightarrow> (case read_attempt_state target of None \<Rightarrow> False | Some t \<Rightarrow> t \<in> set (attempt_transitions s)))"

definition attempt_persistence_update_decision ::
  "attempt_row option \<Rightarrow> string \<Rightarrow> pydict option \<Rightarrow> string option \<Rightarrow> receipt_row option \<Rightarrow> string + string" where
  "attempt_persistence_update_decision stored target result handle receipt =
    (case stored of
       None \<Rightarrow> Inl ''attempt_missing''
     | Some current \<Rightarrow>
        let target_sealed = (case read_attempt_state target of None \<Rightarrow> False | Some t \<Rightarrow> sealed_attempt t);
            rs = (case receipt of None \<Rightarrow> [] | Some c \<Rightarrow> py_upper (rc_state c)) in
        if attempt_sealed current then Inl ''attempt_sealed''
        else if \<not> attempt_transition_allowed (ta_state current) target
        then Inl (''illegal_attempt_transition:'' @ py_upper (ta_state current) @ ''->'' @ py_upper target)
        else if target_sealed \<and> rs = [] then Inl ''terminal_attempt_requires_receipt''
        else if target_sealed \<and> rs = ''SUCCESS'' \<and> read_attempt_state target \<noteq> Some ATTEMPT_ACKED
        then Inl ''success_receipt_requires_acked_attempt''
        else if target_sealed \<and> rs = ''FAILED''
             \<and> read_attempt_state target \<notin> {Some ATTEMPT_FAILED_RETRYABLE, Some ATTEMPT_FAILED_FINAL}
        then Inl ''failed_receipt_requires_failed_attempt''
        else if target_sealed \<and> rs \<noteq> ''SUCCESS'' \<and> rs \<noteq> ''FAILED'' then Inl ''terminal_attempt_receipt_invalid''
        else if \<not> target_sealed \<and> rs \<noteq> [] then Inl ''receipt_already_terminal''
        else if (case (ta_result current, result) of
              (Some old, Some new) \<Rightarrow> \<not> py_eq (PDict old) (PDict new) | _ \<Rightarrow> False)
        then Inl ''attempt_business_result_conflict''
        else if truthy_str (ta_receipt current) \<and> truthy_str handle \<and> opt_str (ta_receipt current) \<noteq> opt_str handle
        then Inl ''attempt_receipt_handle_conflict''
        else Inr ''attempt_transition_valid'')"

section \<open>Receipts\<close>

definition validate_receipt_binding ::
  "attempt_row option \<Rightarrow> grant_row option \<Rightarrow> txn_scope \<Rightarrow> string option \<Rightarrow> string \<Rightarrow> pydict option \<Rightarrow> string + string" where
  "validate_receipt_binding attempt grant scope attempt_id receipt_state result =
    (if \<not> truthy_str attempt_id then Inl ''receipt_attempt_id_required''
     else case attempt of None \<Rightarrow> Inl ''receipt_attempt_missing'' | Some t \<Rightarrow>
     if ta_id t \<noteq> opt_str attempt_id then Inl ''receipt_attempt_identity_mismatch''
     else case scope_mismatch (attempt_scope t) scope of
       Some field \<Rightarrow> Inl (''receipt_attempt_scope_mismatch:'' @ field) | None \<Rightarrow>
     if ta_grant t = [] then Inl ''receipt_grant_missing''
     else case grant of None \<Rightarrow> Inl ''receipt_grant_missing'' | Some g \<Rightarrow>
     if gr_id g \<noteq> ta_grant t then Inl ''receipt_grant_identity_mismatch''
     else case scope_mismatch (grant_scope g) scope of
       Some field \<Rightarrow> Inl (''receipt_grant_scope_mismatch:'' @ field) | None \<Rightarrow>
     if gr_revision g \<noteq> ta_revision t then Inl ''receipt_grant_revision_mismatch''
     else if gr_digest g \<noteq> ta_digest t then Inl ''receipt_grant_command_mismatch''
     else if gr_state g \<noteq> RESERVED \<and> gr_state g \<noteq> CONSUMED then Inl ''receipt_grant_not_reserved''
     else
       let state = py_upper receipt_state; r = (case result of None \<Rightarrow> [] | Some r \<Rightarrow> r);
           ts = read_attempt_state (ta_state t) in
       if state \<noteq> ''SUCCESS'' \<and> state \<noteq> ''FAILED'' then Inl ''receipt_state_invalid''
       else if state = ''SUCCESS'' \<and> \<not> succeeded r then Inl ''success_receipt_requires_success_result''
       else if state = ''FAILED'' \<and> succeeded r then Inl ''failed_receipt_conflicts_with_success_result''
       else if ts = Some ATTEMPT_ACKED \<and> state \<noteq> ''SUCCESS'' then Inl ''acked_attempt_conflicts_with_failed_receipt''
       else if ts \<in> {Some ATTEMPT_FAILED_RETRYABLE, Some ATTEMPT_FAILED_FINAL} \<and> state \<noteq> ''FAILED''
       then Inl ''failed_attempt_conflicts_with_success_receipt''
       else Inr ''receipt_binding_valid'')"

section \<open>Grants\<close>

definition grant_state_text :: "grant_state \<Rightarrow> string" where
  "grant_state_text s = (case s of ISSUED \<Rightarrow> ''ISSUED'' | RESERVED \<Rightarrow> ''RESERVED'' | CONSUMED \<Rightarrow> ''CONSUMED''
     | REVOKED \<Rightarrow> ''REVOKED'' | GRANT_EXPIRED \<Rightarrow> ''EXPIRED'')"

definition grant_consumption_decision ::
  "grant_row option \<Rightarrow> attempt_row option \<Rightarrow> receipt_row option \<Rightarrow> string option \<Rightarrow> string option \<Rightarrow> string + string" where
  "grant_consumption_decision grant attempt receipt attempt_id handle =
    (case grant of None \<Rightarrow> Inl ''grant_missing'' | Some g \<Rightarrow>
     let a = opt_str attempt_id; h = opt_str handle in
     if gr_state g = CONSUMED then
       (if a \<noteq> [] \<and> h \<noteq> [] \<and> opt_str (gr_attempt g) = a \<and> opt_str (gr_receipt g) = h
        then Inr ''already_consumed_same_binding'' else Inl ''consumed_grant_binding_immutable'')
     else if gr_state g \<noteq> RESERVED then Inl (''grant_not_reserved:'' @ grant_state_text (gr_state g))
     else if a = [] then Inl ''consume_attempt_id_required''
     else if h = [] then Inl ''consume_receipt_handle_required''
     else if opt_str (gr_attempt g) \<noteq> a then Inl ''grant_attempt_binding_mismatch''
     else case attempt of None \<Rightarrow> Inl ''consume_attempt_missing'' | Some t \<Rightarrow>
     if ta_id t \<noteq> a then Inl ''consume_attempt_identity_mismatch''
     else if ta_grant t \<noteq> gr_id g then Inl ''consume_attempt_grant_mismatch''
     else case scope_mismatch (attempt_scope t) (grant_scope g) of
       Some field \<Rightarrow> Inl (''consume_attempt_scope_mismatch:'' @ field) | None \<Rightarrow>
     if ta_revision t \<noteq> gr_revision g then Inl ''consume_attempt_revision_mismatch''
     else if ta_digest t \<noteq> gr_digest g then Inl ''consume_attempt_command_mismatch''
     else if read_attempt_state (ta_state t) \<noteq> Some ATTEMPT_ACKED then Inl ''consume_attempt_not_acked''
     else if opt_str (ta_receipt t) \<noteq> h then Inl ''consume_attempt_receipt_mismatch''
     else case receipt of None \<Rightarrow> Inl ''consume_receipt_missing'' | Some c \<Rightarrow>
     if opt_str (rc_attempt c) \<noteq> a then Inl ''consume_receipt_attempt_mismatch''
     else if opt_str (rc_handle c) \<noteq> h then Inl ''consume_receipt_handle_mismatch''
     else if py_upper (rc_state c) \<noteq> ''SUCCESS'' then Inl ''consume_receipt_not_success''
     else case scope_mismatch (receipt_scope c) (grant_scope g) of
       Some field \<Rightarrow> Inl (''consume_receipt_scope_mismatch:'' @ field) | None \<Rightarrow>
     if \<not> succeeded (rc_result c) then Inl ''consume_receipt_result_not_success''
     else Inr ''grant_consumption_valid'')"

text \<open>The request a grant is issued or reserved for.\<close>

definition grant_issue_decision ::
  "draft_row option \<Rightarrow> txn_scope \<Rightarrow> int \<Rightarrow> string \<Rightarrow> string \<Rightarrow> string + string" where
  "grant_issue_decision draft scope revision digest confirmation =
    (case draft of None \<Rightarrow> Inl ''canonical_Draft_missing'' | Some r \<Rightarrow>
     if dr_id r \<noteq> sc_draft_id scope then Inl ''canonical_Draft_identity_mismatch''
     else case scope_mismatch (draft_scope r) scope of
       Some field \<Rightarrow> Inl (''canonical_Draft_scope_mismatch:'' @ field) | None \<Rightarrow>
     if py_upper (dr_state r) \<noteq> ''AWAITING_AUTHORIZATION'' then Inl ''canonical_Draft_not_awaiting_authority''
     else if dr_revision r \<noteq> revision then Inl ''canonical_Draft_revision_mismatch''
     else if dr_digest r \<noteq> digest then Inl ''canonical_Draft_command_mismatch''
     else
       let durable = text_of (dget (projection_fields r) ''confirmation_id'') in
       if durable \<noteq> [] \<and> durable \<noteq> confirmation then Inl ''canonical_Draft_confirmation_mismatch''
       else Inr ''grant_issue_valid'')"

definition grant_reservation_decision ::
  "grant_row option \<Rightarrow> draft_row option \<Rightarrow> txn_scope \<Rightarrow> int \<Rightarrow> string \<Rightarrow> string + string" where
  "grant_reservation_decision grant draft scope revision digest =
    (case grant of None \<Rightarrow> Inl ''grant_missing'' | Some g \<Rightarrow>
     if gr_state g \<noteq> ISSUED then Inl ''grant_not_issued''
     else case scope_mismatch (grant_scope g) scope of
       Some field \<Rightarrow> Inl (''grant_request_mismatch:'' @ field) | None \<Rightarrow>
     if gr_revision g \<noteq> revision then Inl ''grant_request_revision_mismatch''
     else if gr_digest g \<noteq> digest then Inl ''grant_request_command_mismatch''
     else case grant_issue_decision draft scope revision digest (gr_confirmation g) of
       Inl why \<Rightarrow> Inl (''reservation_'' @ why)
     | Inr _ \<Rightarrow> Inr ''grant_reservation_valid'')"

definition existing_attempt_matches_request ::
  "attempt_row option \<Rightarrow> string \<Rightarrow> txn_scope \<Rightarrow> int \<Rightarrow> string \<Rightarrow> string \<Rightarrow> bool" where
  "existing_attempt_matches_request attempt grant_id scope revision action digest =
    (case attempt of
       None \<Rightarrow> False
     | Some t \<Rightarrow> ta_grant t = grant_id \<and> attempt_scope t = scope \<and> ta_action t = action
         \<and> ta_revision t = revision \<and> ta_digest t = digest)"

section \<open>The end of a draft\<close>

definition draft_terminal_observation_decision ::
  "draft_row \<Rightarrow> string \<Rightarrow> attempt_row option \<Rightarrow> receipt_row option \<Rightarrow> string + string" where
  "draft_terminal_observation_decision current target_state attempt receipt =
    (let s = py_upper (dr_state current); target = py_upper target_state; a = opt_str (dr_attempt current) in
     if \<not> (target = ''COMMITTED''
          \<or> s \<in> {''COMMITTING'', ''SUBMISSION_UNKNOWN'', ''FAILED_RETRYABLE''}
            \<and> target \<in> {''FAILED_RETRYABLE'', ''FAILED_FINAL''})
     then Inr ''no_business_receipt_required''
     else if a = [] then Inl ''terminal_Draft_attempt_missing''
     else case attempt of None \<Rightarrow> Inl ''terminal_Draft_attempt_not_found'' | Some t \<Rightarrow>
     if ta_id t \<noteq> a then Inl ''terminal_Draft_attempt_not_found''
     else case scope_mismatch (attempt_scope t) (draft_scope current) of
       Some field \<Rightarrow> Inl (''terminal_Draft_attempt_scope_mismatch:'' @ field) | None \<Rightarrow>
     if ta_revision t \<noteq> dr_revision current then Inl ''terminal_Draft_attempt_revision_mismatch''
     else if ta_digest t \<noteq> dr_digest current then Inl ''terminal_Draft_attempt_command_mismatch''
     else case receipt of None \<Rightarrow> Inl ''terminal_Draft_receipt_missing'' | Some c \<Rightarrow>
     if opt_str (rc_attempt c) \<noteq> a then Inl ''terminal_Draft_receipt_missing''
     else if rc_draft c \<noteq> dr_id current then Inl ''terminal_Draft_receipt_draft_mismatch''
     else if target = ''COMMITTED'' then
       (if py_upper (rc_state c) \<noteq> ''SUCCESS'' \<or> \<not> succeeded (rc_result c)
        then Inl ''committed_Draft_requires_success_receipt'' else Inr ''terminal_Draft_receipt_valid'')
     else
       (if py_upper (rc_state c) \<noteq> ''FAILED'' \<or> succeeded (rc_result c)
        then Inl ''failed_Draft_requires_failed_receipt'' else Inr ''terminal_Draft_receipt_valid''))"

end
