(* ===== verification/Txn_Store.thy ===== *)
theory Txn_Store
  imports Txn_Policy
begin

text \<open>
  \<open>TransactionLifecycleStore\<close> of \<open>persistence/action_lifecycle_store.py\<close>: the drafts, grants,
  attempts and receipts of the Agent, and every operation on them. Each operation runs under
  the store's lock in one SQLite transaction, so it is one function on the four tables; an
  exception leaves them as they were. Times are integers in the order of their ISO texts.
\<close>

section \<open>State\<close>

record txn_db =
  td_drafts :: "draft_row list"
  td_grants :: "grant_row list"
  td_attempts :: "attempt_row list"
  td_receipts :: "receipt_row list"

record txn_env =
  te_now :: int
  te_correlation :: "string option"

datatype txn_error = TxnValueError string | TxnIntegrityError

text \<open>\<open>TransactionScope\<close>: the thread is an optional filter.\<close>

record transaction_scope =
  ts_tenant :: string
  ts_user :: string
  ts_thread :: "string option"

definition in_scope :: "transaction_scope \<Rightarrow> txn_scope \<Rightarrow> bool" where
  "in_scope s t = (sc_tenant_id t = ts_tenant s \<and> sc_user_id t = ts_user s
     \<and> (truthy_str (ts_thread s) \<longrightarrow> Some (sc_thread_id t) = ts_thread s))"

section \<open>Structured columns\<close>

definition json_column :: "pyval \<Rightarrow> string" where
  "json_column v = json_dump '', '' '': '' v"

definition decode_column :: "string option \<Rightarrow> pyval" where
  "decode_column c = (if \<not> truthy_str c then PNone
     else (case json_loads (opt_str c) of None \<Rightarrow> PStr (opt_str c) | Some v \<Rightarrow> v))"

section \<open>Lookups\<close>

definition get_draft :: "string \<Rightarrow> txn_db \<Rightarrow> draft_row option" where
  "get_draft i db = (if i = [] then None else tbl_look dr_id (td_drafts db) i)"

definition get_grant :: "string \<Rightarrow> txn_db \<Rightarrow> grant_row option" where
  "get_grant i db = (if i = [] then None else tbl_look gr_id (td_grants db) i)"

definition get_attempt :: "string \<Rightarrow> txn_db \<Rightarrow> attempt_row option" where
  "get_attempt i db = (if i = [] then None else tbl_look ta_id (td_attempts db) i)"

definition get_attempt_by_idempotency_key :: "string \<Rightarrow> txn_db \<Rightarrow> attempt_row option" where
  "get_attempt_by_idempotency_key k db = (if k = [] then None else tbl_look ta_key (td_attempts db) k)"

definition receipt_of :: "string \<Rightarrow> txn_db \<Rightarrow> receipt_row option" where
  "receipt_of a db = tbl_look rc_attempt (td_receipts db) (Some a)"

definition get_receipt :: "string \<Rightarrow> txn_db \<Rightarrow> receipt_row option" where
  "get_receipt i db = (if i = [] then None else tbl_look rc_id (td_receipts db) i)"

definition get_receipt_by_attempt :: "string \<Rightarrow> txn_db \<Rightarrow> receipt_row option" where
  "get_receipt_by_attempt a db = (if a = [] then None else receipt_of a db)"

definition get_draft_for_scope :: "transaction_scope \<Rightarrow> string \<Rightarrow> txn_db \<Rightarrow> draft_row option" where
  "get_draft_for_scope s i db = sql_first (\<lambda>r. dr_id r = i \<and> in_scope s (draft_scope r)) (td_drafts db)"

definition get_attempt_for_scope :: "transaction_scope \<Rightarrow> string \<Rightarrow> txn_db \<Rightarrow> attempt_row option" where
  "get_attempt_for_scope s i db = sql_first (\<lambda>t. ta_id t = i \<and> in_scope s (attempt_scope t)) (td_attempts db)"

definition get_receipt_for_attempt :: "transaction_scope \<Rightarrow> string \<Rightarrow> txn_db \<Rightarrow> receipt_row option" where
  "get_receipt_for_attempt s i db =
     sql_first (\<lambda>c. rc_attempt c = Some i \<and> in_scope s (receipt_scope c)) (td_receipts db)"

definition get_latest_receipt_for_draft :: "transaction_scope \<Rightarrow> string \<Rightarrow> txn_db \<Rightarrow> receipt_row option" where
  "get_latest_receipt_for_draft s i db =
     sql_latest rc_created (\<lambda>c. rc_draft c = i \<and> in_scope s (receipt_scope c)) (td_receipts db)"

definition list_attempts_for_draft :: "transaction_scope \<Rightarrow> string \<Rightarrow> txn_db \<Rightarrow> attempt_row list" where
  "list_attempts_for_draft s i db =
     sql_desc ta_created (\<lambda>t. ta_draft t = i \<and> in_scope s (attempt_scope t)) (td_attempts db)"

text \<open>\<open>max(1, min(int(limit), 200))\<close>.\<close>

definition page_size :: "int \<Rightarrow> nat" where
  "page_size limit = nat (max 1 (min limit 200))"

definition list_drafts_for_scope ::
  "transaction_scope \<Rightarrow> string list \<Rightarrow> int \<Rightarrow> int option \<Rightarrow> txn_db \<Rightarrow> draft_row list" where
  "list_drafts_for_scope s states limit cursor db =
     take (page_size limit) (sql_desc dr_updated (\<lambda>r. in_scope s (draft_scope r)
       \<and> (states \<noteq> [] \<longrightarrow> dr_state r \<in> py_upper ` set states)
       \<and> (case cursor of None \<Rightarrow> True | Some c \<Rightarrow> dr_updated r < c)) (td_drafts db))"

definition list_reconcilable_attempts ::
  "string option \<Rightarrow> string option \<Rightarrow> string option \<Rightarrow> int \<Rightarrow> txn_db \<Rightarrow> attempt_row list" where
  "list_reconcilable_attempts tenant user thread limit db =
     take (page_size limit) (sort_key ta_updated (filter (\<lambda>t.
       ta_state t \<in> {''STARTED'', ''SUBMISSION_UNKNOWN''}
       \<and> (truthy_str tenant \<longrightarrow> Some (ta_tenant t) = tenant)
       \<and> (truthy_str user \<longrightarrow> Some (ta_user t) = user)
       \<and> (truthy_str thread \<longrightarrow> Some (ta_thread t) = thread)) (td_attempts db)))"

datatype active_draft_code = OK | NOT_FOUND | SCOPE_MISMATCH | REVISION_MISMATCH | STATE_NOT_ALLOWED
  | DRAFT_IS_EXPIRED | DRAFT_IS_REVOKED

definition validate_active_draft ::
  "transaction_scope \<Rightarrow> string \<Rightarrow> int option \<Rightarrow> string list \<Rightarrow> txn_db \<Rightarrow> active_draft_code \<times> draft_row option" where
  "validate_active_draft s i revision states db =
    (case get_draft_for_scope s i db of
       None \<Rightarrow> (if get_draft i db \<noteq> None then SCOPE_MISMATCH else NOT_FOUND, None)
     | Some r \<Rightarrow>
        let state = py_upper (dr_state r) in
        if state = ''EXPIRED'' then (DRAFT_IS_EXPIRED, Some r)
        else if state = ''REVOKED'' then (DRAFT_IS_REVOKED, Some r)
        else if (case revision of None \<Rightarrow> False | Some v \<Rightarrow> dr_revision r \<noteq> v) then (REVISION_MISMATCH, Some r)
        else if states \<noteq> [] \<and> state \<notin> py_upper ` set states then (STATE_NOT_ALLOWED, Some r)
        else (OK, Some r))"

section \<open>Drafts\<close>

definition correlated :: "txn_env \<Rightarrow> string option \<Rightarrow> string option" where
  "correlated e c = (if truthy_str c then c else te_correlation e)"

definition create_draft :: "txn_env \<Rightarrow> draft_row \<Rightarrow> txn_db \<Rightarrow> txn_db \<times> draft_row option" where
  "create_draft e r db =
    (let stored = tbl_look dr_id (td_drafts db) (dr_id r);
         row = r\<lparr>dr_created := te_now e, dr_updated := te_now e, dr_correlation := correlated e (dr_correlation r)\<rparr> in
     case draft_persistence_update_decision stored r of
       Inl _ \<Rightarrow> (db, stored)
     | Inr _ \<Rightarrow>
        let db' = db\<lparr>td_drafts := (case stored of
              None \<Rightarrow> td_drafts db @ [row]
            | Some _ \<Rightarrow> tbl_upd dr_id (dr_id r) (\<lambda>old. row\<lparr>dr_created := dr_created old\<rparr>) (td_drafts db))\<rparr>
        in (db', get_draft (dr_id r) db'))"

record draft_change =
  ch_state :: string
  ch_revision :: "int option"
  ch_digest :: "string option"
  ch_envelope :: "pydict option"
  ch_projection :: "pydict option"
  ch_grant :: "string option"
  ch_attempt :: "string option"

definition if_given :: "'a option \<Rightarrow> 'a \<Rightarrow> 'a" where
  "if_given v old = (case v of None \<Rightarrow> old | Some x \<Rightarrow> x)"

definition if_some :: "'a option \<Rightarrow> 'a option \<Rightarrow> 'a option" where
  "if_some v old = (case v of None \<Rightarrow> old | Some x \<Rightarrow> Some x)"

text \<open>The row the decision sees: the stored one with the given fields replaced.\<close>

definition changed_draft :: "draft_change \<Rightarrow> draft_row \<Rightarrow> draft_row" where
  "changed_draft ch r = r\<lparr>dr_state := ch_state ch, dr_revision := if_given (ch_revision ch) (dr_revision r),
     dr_digest := if_given (ch_digest ch) (dr_digest r), dr_envelope := if_some (ch_envelope ch) (dr_envelope r),
     dr_projection := if_some (ch_projection ch) (dr_projection r)\<rparr>"

definition advance_draft :: "txn_env \<Rightarrow> string \<Rightarrow> draft_change \<Rightarrow> txn_db \<Rightarrow> txn_db" where
  "advance_draft e i ch db =
    (case tbl_look dr_id (td_drafts db) i of
       None \<Rightarrow> db
     | Some current \<Rightarrow>
        (case draft_persistence_update_decision (Some current) (changed_draft ch current) of
           Inl _ \<Rightarrow> db
         | Inr _ \<Rightarrow>
            let a = opt_str (dr_attempt current);
                attempt = (if a = [] then None else tbl_look ta_id (td_attempts db) a);
                receipt = (if a = [] then None else receipt_of a db) in
            case draft_terminal_observation_decision current (ch_state ch) attempt receipt of
              Inl _ \<Rightarrow> db
            | Inr _ \<Rightarrow>
                db\<lparr>td_drafts := tbl_upd dr_id i (\<lambda>r. (changed_draft ch r)\<lparr>
                     dr_grant := if_some (ch_grant ch) (dr_grant r),
                     dr_attempt := if_some (ch_attempt ch) (dr_attempt r),
                     dr_updated := te_now e\<rparr>) (td_drafts db)\<rparr>))"

section \<open>Receipts\<close>

definition record_receipt :: "txn_env \<Rightarrow> receipt_row \<Rightarrow> txn_db \<Rightarrow> txn_error + (txn_db \<times> receipt_row option)" where
  "record_receipt e c db =
    (let a = opt_str (rc_attempt c);
         attempt = tbl_look ta_id (td_attempts db) a;
         gid = (case attempt of None \<Rightarrow> [] | Some t \<Rightarrow> ta_grant t);
         grant = get_grant gid db in
     case validate_receipt_binding attempt grant (receipt_scope c) (rc_attempt c) (rc_state c) (Some (rc_result c)) of
       Inl why \<Rightarrow> Inl (TxnValueError (''transaction receipt attempt binding rejected: '' @ why))
     | Inr _ \<Rightarrow>
        (case receipt_of a db of
           Some old \<Rightarrow> Inr (db, Some old)
         | None \<Rightarrow>
            if tbl_look rc_id (td_receipts db) (rc_id c) \<noteq> None
            then Inl (TxnValueError ''transaction receipt id already belongs to another attempt'')
            else
              let row = c\<lparr>rc_state := py_upper (rc_state c), rc_created := te_now e,
                         rc_correlation := correlated e (rc_correlation c)\<rparr>;
                  db' = db\<lparr>td_receipts := td_receipts db @ [row]\<rparr>
              in Inr (db', get_receipt (rc_id c) db')))"

section \<open>Grants\<close>

definition grant_binding :: "grant_row \<Rightarrow> txn_scope \<times> int \<times> string \<times> string" where
  "grant_binding g = (grant_scope g, gr_revision g, gr_digest g, gr_confirmation g)"

definition draft_in :: "txn_scope \<Rightarrow> txn_db \<Rightarrow> draft_row option" where
  "draft_in s db = sql_first (\<lambda>r. draft_scope r = s) (td_drafts db)"

definition issue_grant :: "txn_env \<Rightarrow> grant_row \<Rightarrow> txn_db \<Rightarrow> txn_error + (txn_db \<times> grant_row option)" where
  "issue_grant e g db =
    (case grant_issue_decision (draft_in (grant_scope g) db) (grant_scope g) (gr_revision g) (gr_digest g)
            (gr_confirmation g) of
       Inl why \<Rightarrow> Inl (TxnValueError (''canonical Draft rejected Grant issuance: '' @ why))
     | Inr _ \<Rightarrow>
        (case tbl_look grant_binding (td_grants db) (grant_binding g) of
           Some old \<Rightarrow> Inr (db, Some old)
         | None \<Rightarrow>
            (case sql_insert gr_id (g\<lparr>gr_state := ISSUED, gr_issued := te_now e, gr_reserved := None,
                    gr_consumed := None, gr_revoked := None, gr_attempt := None, gr_receipt := None,
                    gr_reason := None\<rparr>) (td_grants db) of
               None \<Rightarrow> Inl TxnIntegrityError
             | Some rows \<Rightarrow> let db' = db\<lparr>td_grants := rows\<rparr> in Inr (db', get_grant (gr_id g) db'))))"

definition revoked_row :: "txn_env \<Rightarrow> grant_state \<Rightarrow> string \<Rightarrow> grant_row \<Rightarrow> grant_row" where
  "revoked_row e s why g = g\<lparr>gr_state := s, gr_revoked := Some (te_now e), gr_reason := Some why\<rparr>"

definition revoke_grant :: "txn_env \<Rightarrow> string \<Rightarrow> string \<Rightarrow> txn_db \<Rightarrow> txn_db" where
  "revoke_grant e i why db = db\<lparr>td_grants := sql_update
     (\<lambda>g. gr_id g = i \<and> (gr_state g = ISSUED \<or> gr_state g = RESERVED)) (revoked_row e REVOKED why) (td_grants db)\<rparr>"

definition consume_grant :: "txn_env \<Rightarrow> string \<Rightarrow> string option \<Rightarrow> string option \<Rightarrow> txn_db \<Rightarrow> txn_db" where
  "consume_grant e i attempt_id handle db =
    (let a = opt_str attempt_id;
         grant = tbl_look gr_id (td_grants db) i;
         attempt = tbl_look ta_id (td_attempts db) a;
         receipt = receipt_of a db in
     case grant_consumption_decision grant attempt receipt attempt_id handle of
       Inl _ \<Rightarrow> db
     | Inr _ \<Rightarrow>
        if (case grant of None \<Rightarrow> False | Some g \<Rightarrow> gr_state g = CONSUMED) then db
        else
          let p = (\<lambda>g. gr_id g = i \<and> gr_state g = RESERVED \<and> gr_attempt g = Some a) in
          if sql_rowcount p (td_grants db) \<noteq> 1 then db
          else db\<lparr>td_grants := sql_update p (\<lambda>g. g\<lparr>gr_state := CONSUMED, gr_consumed := Some (te_now e),
                 gr_attempt := Some a, gr_receipt := Some (opt_str handle)\<rparr>) (td_grants db)\<rparr>)"

section \<open>Attempts\<close>

record attempt_request =
  ar_grant :: string
  ar_attempt :: string
  ar_scope :: txn_scope
  ar_revision :: int
  ar_action :: string
  ar_digest :: string
  ar_key :: string
  ar_payload :: pydict
  ar_envelope :: "pydict option"
  ar_projection :: "pydict option"
  ar_correlation :: "string option"

definition new_attempt :: "txn_env \<Rightarrow> attempt_request \<Rightarrow> pydict \<Rightarrow> attempt_row" where
  "new_attempt e q payload =
     \<lparr>ta_id = ar_attempt q, ta_tenant = sc_tenant_id (ar_scope q), ta_user = sc_user_id (ar_scope q),
      ta_thread = sc_thread_id (ar_scope q), ta_draft = sc_draft_id (ar_scope q), ta_revision = ar_revision q,
      ta_grant = ar_grant q, ta_action = ar_action q, ta_digest = ar_digest q, ta_key = ar_key q,
      ta_payload = payload, ta_envelope = ar_envelope q, ta_state = ''STARTED'', ta_result = None,
      ta_receipt = None, ta_error_code = None, ta_error = None, ta_created = te_now e,
      ta_updated = te_now e, ta_reconciled = None, ta_correlation = ar_correlation q\<rparr>"

text \<open>
  What the atomic reservation stores as the canonical payload of the attempt: its parameter
  of that name has been overwritten by the draft row when the insert reads it.
\<close>

definition draft_as_dict :: "draft_row \<Rightarrow> pydict" where
  "draft_as_dict r =
     [(''draft_id'', PStr (dr_id r)), (''tenant_id'', PStr (dr_tenant r)), (''user_id'', PStr (dr_user r)),
      (''thread_id'', PStr (dr_thread r)), (''draft_revision'', PInt (dr_revision r)),
      (''draft_state'', PStr (dr_state r)), (''action_id'', PStr (dr_action r)),
      (''command_digest'', PStr (dr_digest r)),
      (''command_envelope'', (case dr_envelope r of None \<Rightarrow> PNone | Some d \<Rightarrow> PDict d)),
      (''projection'', (case dr_projection r of None \<Rightarrow> PNone | Some d \<Rightarrow> PDict d)),
      (''active_grant_id'', opt_val (dr_grant r)), (''current_attempt_id'', opt_val (dr_attempt r))]"

record reservation =
  rv_reserved :: bool
  rv_grant :: "grant_row option"
  rv_created :: bool
  rv_attempt :: "attempt_row option"

definition refused :: "grant_row option \<Rightarrow> attempt_row option \<Rightarrow> reservation" where
  "refused g t = \<lparr>rv_reserved = False, rv_grant = g, rv_created = False, rv_attempt = t\<rparr>"

text \<open>The state of the draft row the reservation writes.\<close>

definition committing_draft :: "txn_env \<Rightarrow> attempt_request \<Rightarrow> draft_row \<Rightarrow> draft_row" where
  "committing_draft e q r = r\<lparr>dr_revision := ar_revision q, dr_state := ''COMMITTING'', dr_action := ar_action q,
     dr_digest := ar_digest q, dr_envelope := ar_envelope q, dr_projection := ar_projection q,
     dr_grant := Some (ar_grant q), dr_attempt := Some (ar_attempt q), dr_updated := te_now e,
     dr_correlation := correlated e (ar_correlation q)\<rparr>"

definition set_grants :: "grant_row list \<Rightarrow> txn_db \<Rightarrow> txn_db" where
  "set_grants rows db = db\<lparr>td_grants := rows\<rparr>"

definition revoke_issued :: "txn_env \<Rightarrow> string \<Rightarrow> string \<Rightarrow> txn_db \<Rightarrow> txn_db" where
  "revoke_issued e i why db = set_grants
     (sql_update (\<lambda>g. gr_id g = i \<and> gr_state g = ISSUED) (revoked_row e REVOKED why) (td_grants db)) db"

definition expire_grant :: "txn_env \<Rightarrow> string \<Rightarrow> txn_db \<Rightarrow> txn_db" where
  "expire_grant e i db = set_grants
     (sql_update (\<lambda>g. gr_id g = i \<and> gr_state g = ISSUED \<and> (case gr_expires g of None \<Rightarrow> False | Some x \<Rightarrow> x \<le> te_now e))
        (revoked_row e GRANT_EXPIRED ''grant_expired'') (td_grants db)) db"

definition reservable :: "txn_env \<Rightarrow> string \<Rightarrow> grant_row \<Rightarrow> bool" where
  "reservable e i g = (gr_id g = i \<and> gr_state g = ISSUED
     \<and> (case gr_expires g of None \<Rightarrow> True | Some x \<Rightarrow> te_now e < x))"

definition reserved_row :: "txn_env \<Rightarrow> string \<Rightarrow> grant_row \<Rightarrow> grant_row" where
  "reserved_row e a g = g\<lparr>gr_state := RESERVED, gr_reserved := Some (te_now e), gr_attempt := Some a\<rparr>"

definition start_reserved ::
  "txn_env \<Rightarrow> attempt_request \<Rightarrow> draft_row \<Rightarrow> txn_db \<Rightarrow> txn_error + (txn_db \<times> reservation)" where
  "start_reserved e q r db0 =
    (let db1 = expire_grant e (ar_grant q) db0;
         n = sql_rowcount (reservable e (ar_grant q)) (td_grants db1);
         db2 = set_grants (sql_update (reservable e (ar_grant q)) (reserved_row e (ar_attempt q)) (td_grants db1)) db1;
         grant = tbl_look gr_id (td_grants db2) (ar_grant q) in
     if n \<noteq> 1 then Inr (db2, refused grant None)
     else
       (case sql_insert ta_id (new_attempt e (q\<lparr>ar_correlation := correlated e (ar_correlation q)\<rparr>) (draft_as_dict r))
               (td_attempts db2) of
          None \<Rightarrow> Inl TxnIntegrityError
        | Some rows \<Rightarrow>
            Inr (db2\<lparr>td_attempts := rows,
                   td_drafts := tbl_upd dr_id (dr_id r) (committing_draft e q) (td_drafts db2)\<rparr>,
                 \<lparr>rv_reserved = True, rv_grant = grant, rv_created = True,
                  rv_attempt = tbl_look ta_id rows (ar_attempt q)\<rparr>)))"

definition reserve_grant_and_start_attempt ::
  "txn_env \<Rightarrow> attempt_request \<Rightarrow> txn_db \<Rightarrow> txn_error + (txn_db \<times> reservation)" where
  "reserve_grant_and_start_attempt e q db =
    (let grant = tbl_look gr_id (td_grants db) (ar_grant q) in
     case tbl_look ta_key (td_attempts db) (ar_key q) of
       Some t \<Rightarrow>
         Inr (db, if existing_attempt_matches_request (Some t) (ar_grant q) (ar_scope q) (ar_revision q)
                     (ar_action q) (ar_digest q)
                  then refused grant (Some t) else refused None None)
     | None \<Rightarrow>
        let draft = draft_in (ar_scope q) db in
        (case grant_reservation_decision grant draft (ar_scope q) (ar_revision q) (ar_digest q) of
           Inl why \<Rightarrow>
             Inr (if prefix ''reservation_canonical_Draft_'' why
                  then revoke_issued e (ar_grant q) ''draft_missing'' db else db, refused grant None)
         | Inr _ \<Rightarrow>
            (case draft of
               None \<Rightarrow> Inr (db, refused grant None)
             | Some r \<Rightarrow>
                (case draft_persistence_update_decision (Some r)
                        (r\<lparr>dr_state := ''COMMITTING'', dr_revision := ar_revision q, dr_digest := ar_digest q,
                           dr_projection := if_some (ar_projection q) (dr_projection r)\<rparr>) of
                   Inl why \<Rightarrow>
                     let db' = revoke_issued e (ar_grant q) (''draft_update_rejected:'' @ why) db
                     in Inr (db', refused (tbl_look gr_id (td_grants db') (ar_grant q)) None)
                 | Inr _ \<Rightarrow> start_reserved e q r db))))"

definition start_attempt :: "txn_env \<Rightarrow> attempt_request \<Rightarrow> txn_db \<Rightarrow> txn_error + (txn_db \<times> bool \<times> attempt_row option)" where
  "start_attempt e q db =
    (case tbl_look ta_key (td_attempts db) (ar_key q) of
       Some t \<Rightarrow> Inr (db, False, Some t)
     | None \<Rightarrow>
        (case sql_insert ta_id (new_attempt e (q\<lparr>ar_envelope := None, ar_correlation := None\<rparr>) (ar_payload q))
                (td_attempts db) of
           None \<Rightarrow> Inl TxnIntegrityError
         | Some rows \<Rightarrow> let db' = db\<lparr>td_attempts := rows\<rparr> in Inr (db', True, get_attempt (ar_attempt q) db')))"

record attempt_change =
  ac_state :: string
  ac_result :: "pydict option"
  ac_receipt :: "string option"
  ac_error_code :: "string option"
  ac_error :: "string option"
  ac_reconciled :: bool

definition transition_attempt :: "txn_env \<Rightarrow> string \<Rightarrow> attempt_change \<Rightarrow> txn_db \<Rightarrow> txn_error + txn_db" where
  "transition_attempt e i ch db =
    (case tbl_look ta_id (td_attempts db) i of
       None \<Rightarrow> Inl (TxnValueError ''transaction attempt missing'')
     | Some current \<Rightarrow>
        (case attempt_persistence_update_decision (Some current) (ac_state ch) (ac_result ch) (ac_receipt ch)
                (receipt_of i db) of
           Inl _ \<Rightarrow> Inr db
         | Inr _ \<Rightarrow>
            Inr (db\<lparr>td_attempts := tbl_upd ta_id i (\<lambda>t. t\<lparr>ta_state := ac_state ch,
                   ta_result := if_some (ac_result ch) (ta_result t),
                   ta_receipt := if_some (ac_receipt ch) (ta_receipt t),
                   ta_error_code := ac_error_code ch, ta_error := ac_error ch, ta_updated := te_now e,
                   ta_reconciled := (if ac_reconciled ch then Some (te_now e) else ta_reconciled t)\<rparr>)
                 (td_attempts db)\<rparr>)))"

end
