(* ===== verification/Txn_System.thy ===== *)
theory Txn_System
  imports Txn_Store
begin

text \<open>
  The transaction store as a system: every mutating operation as one call, the abstract
  step each of them refines, and the invariant and row histories of every run.
\<close>

section \<open>Calls\<close>

datatype txn_call =
    CreateDraft draft_row
  | AdvanceDraft string draft_change
  | RecordReceipt receipt_row
  | IssueGrant grant_row
  | ReserveGrant attempt_request
  | ConsumeGrant string "string option" "string option"
  | RevokeGrant string string
  | StartAttempt attempt_request
  | TransitionAttempt string attempt_change

definition state_after :: "txn_db \<Rightarrow> txn_error + (txn_db \<times> 'a) \<Rightarrow> txn_db" where
  "state_after db r = (case r of Inl _ \<Rightarrow> db | Inr (db', _) \<Rightarrow> db')"

text \<open>The tables after a call; one that raises leaves them alone.\<close>

fun txn_apply :: "txn_env \<Rightarrow> txn_call \<Rightarrow> txn_db \<Rightarrow> txn_db" where
  "txn_apply e (CreateDraft r) db = fst (create_draft e r db)"
| "txn_apply e (AdvanceDraft i ch) db = advance_draft e i ch db"
| "txn_apply e (RecordReceipt c) db = state_after db (record_receipt e c db)"
| "txn_apply e (IssueGrant g) db = state_after db (issue_grant e g db)"
| "txn_apply e (ReserveGrant q) db = state_after db (reserve_grant_and_start_attempt e q db)"
| "txn_apply e (ConsumeGrant i a h) db = consume_grant e i a h db"
| "txn_apply e (RevokeGrant i why) db = revoke_grant e i why db"
| "txn_apply e (StartAttempt q) db = state_after db (start_attempt e q db)"
| "txn_apply e (TransitionAttempt i ch) db = (case transition_attempt e i ch db of Inl _ \<Rightarrow> db | Inr db' \<Rightarrow> db')"

section \<open>The abstract step\<close>

text \<open>What never changes of an attempt, of a grant.\<close>

definition same_attempt :: "attempt_row \<Rightarrow> attempt_row \<Rightarrow> bool" where
  "same_attempt t t' \<longleftrightarrow> ta_id t = ta_id t' \<and> attempt_scope t = attempt_scope t' \<and> ta_revision t = ta_revision t'
     \<and> ta_grant t = ta_grant t' \<and> ta_action t = ta_action t' \<and> ta_digest t = ta_digest t' \<and> ta_key t = ta_key t'
     \<and> ta_payload t = ta_payload t' \<and> ta_envelope t = ta_envelope t' \<and> ta_created t = ta_created t'"

definition same_grant :: "grant_row \<Rightarrow> grant_row \<Rightarrow> bool" where
  "same_grant g g' \<longleftrightarrow> gr_id g = gr_id g' \<and> grant_binding g = grant_binding g' \<and> gr_client g = gr_client g'
     \<and> gr_actor g = gr_actor g' \<and> gr_role g = gr_role g' \<and> gr_issued g = gr_issued g' \<and> gr_expires g = gr_expires g'"

text \<open>An attempt belongs to a grant: same scope, revision and command.\<close>

definition authorised_by :: "attempt_row \<Rightarrow> grant_row \<Rightarrow> bool" where
  "authorised_by t g \<longleftrightarrow> ta_grant t = gr_id g \<and> attempt_scope t = grant_scope g
     \<and> ta_revision t = gr_revision g \<and> ta_digest t = gr_digest g"

text \<open>A receipt that closes an attempt in the given state.\<close>

definition closes :: "receipt_row \<Rightarrow> attempt_row \<Rightarrow> bool" where
  "closes c t \<longleftrightarrow> rc_attempt c = Some (ta_id t) \<and> receipt_scope c = attempt_scope t
     \<and> (rc_state c = ''SUCCESS'' \<and> succeeded (rc_result c) \<or> rc_state c = ''FAILED'' \<and> \<not> succeeded (rc_result c))"

definition outcome_agrees :: "receipt_row \<Rightarrow> attempt_row \<Rightarrow> bool" where
  "outcome_agrees c t \<longleftrightarrow> (read_attempt_state (ta_state t) = Some ATTEMPT_ACKED \<longleftrightarrow> rc_state c = ''SUCCESS'')"

inductive txn_step :: "txn_db \<Rightarrow> txn_db \<Rightarrow> bool" where
  stay: "txn_step db db"
| new_draft: "tbl_look dr_id (td_drafts db) (dr_id r) = None
    \<Longrightarrow> txn_step db (db\<lparr>td_drafts := td_drafts db @ [r]\<rparr>)"
| move_draft: "tbl_look dr_id (td_drafts db) i = Some r \<Longrightarrow> dr_id r' = i \<Longrightarrow> draft_update_sound r r'
    \<Longrightarrow> txn_step db (db\<lparr>td_drafts := tbl_upd dr_id i (\<lambda>_. r') (td_drafts db)\<rparr>)"
| new_grant: "tbl_look gr_id (td_grants db) (gr_id g) = None \<Longrightarrow> gr_state g = ISSUED
    \<Longrightarrow> tbl_look grant_binding (td_grants db) (grant_binding g) = None
    \<Longrightarrow> txn_step db (db\<lparr>td_grants := td_grants db @ [g]\<rparr>)"
| close_grant: "tbl_look gr_id (td_grants db) i = Some g \<Longrightarrow> same_grant g g'
    \<Longrightarrow> gr_state g \<in> {ISSUED, RESERVED} \<Longrightarrow> gr_state g' \<in> {REVOKED, GRANT_EXPIRED}
    \<Longrightarrow> gr_attempt g' = gr_attempt g \<Longrightarrow> txn_step db (db\<lparr>td_grants := tbl_upd gr_id i (\<lambda>_. g') (td_grants db)\<rparr>)"
| new_attempt: "tbl_look ta_id (td_attempts db) (ta_id t) = None \<Longrightarrow> tbl_look ta_key (td_attempts db) (ta_key t) = None
    \<Longrightarrow> ta_state t = ''STARTED'' \<Longrightarrow> txn_step db (db\<lparr>td_attempts := td_attempts db @ [t]\<rparr>)"
| reserve: "tbl_look gr_id (td_grants db) i = Some g \<Longrightarrow> same_grant g g' \<Longrightarrow> gr_state g = ISSUED
    \<Longrightarrow> gr_state g' = RESERVED \<Longrightarrow> gr_attempt g' = Some (ta_id t) \<Longrightarrow> authorised_by t g
    \<Longrightarrow> tbl_look ta_id (td_attempts db) (ta_id t) = None \<Longrightarrow> tbl_look ta_key (td_attempts db) (ta_key t) = None
    \<Longrightarrow> ta_state t = ''STARTED''
    \<Longrightarrow> tbl_look dr_id (td_drafts db) (dr_id r) = Some r \<Longrightarrow> draft_scope r = attempt_scope t
    \<Longrightarrow> draft_state_of r = DRAFT_AWAITING_AUTHORIZATION \<Longrightarrow> dr_revision r = ta_revision t \<Longrightarrow> dr_digest r = ta_digest t
    \<Longrightarrow> draft_scope r' = draft_scope r \<Longrightarrow> dr_revision r' = dr_revision r \<Longrightarrow> dr_digest r' = dr_digest r
    \<Longrightarrow> draft_state_of r' = DRAFT_COMMITTING \<Longrightarrow> dr_attempt r' = Some (ta_id t)
    \<Longrightarrow> txn_step db (db\<lparr>td_grants := tbl_upd gr_id i (\<lambda>_. g') (td_grants db),
          td_attempts := td_attempts db @ [t],
          td_drafts := tbl_upd dr_id (dr_id r) (\<lambda>_. r') (td_drafts db)\<rparr>)"
| move_attempt: "tbl_look ta_id (td_attempts db) i = Some t \<Longrightarrow> same_attempt t t' \<Longrightarrow> \<not> attempt_sealed t
    \<Longrightarrow> attempt_transition_allowed (ta_state t) (ta_state t')
    \<Longrightarrow> (attempt_sealed t' \<Longrightarrow> \<exists>c. receipt_of i db = Some c \<and> (closes c t \<longrightarrow> outcome_agrees c t'))
    \<Longrightarrow> txn_step db (db\<lparr>td_attempts := tbl_upd ta_id i (\<lambda>_. t') (td_attempts db)\<rparr>)"
| new_receipt: "tbl_look ta_id (td_attempts db) (ta_id t) = Some t \<Longrightarrow> closes c t \<Longrightarrow> ta_id t \<noteq> []
    \<Longrightarrow> receipt_of (ta_id t) db = None \<Longrightarrow> tbl_look rc_id (td_receipts db) (rc_id c) = None
    \<Longrightarrow> (attempt_sealed t \<Longrightarrow> outcome_agrees c t)
    \<Longrightarrow> txn_step db (db\<lparr>td_receipts := td_receipts db @ [c]\<rparr>)"
| consume: "tbl_look gr_id (td_grants db) i = Some g \<Longrightarrow> same_grant g g' \<Longrightarrow> gr_state g = RESERVED
    \<Longrightarrow> gr_state g' = CONSUMED \<Longrightarrow> gr_attempt g' = gr_attempt g \<Longrightarrow> gr_attempt g = Some (ta_id t)
    \<Longrightarrow> tbl_look ta_id (td_attempts db) (ta_id t) = Some t \<Longrightarrow> authorised_by t g
    \<Longrightarrow> read_attempt_state (ta_state t) = Some ATTEMPT_ACKED \<Longrightarrow> receipt_of (ta_id t) db = Some c
    \<Longrightarrow> succeeded (rc_result c) \<Longrightarrow> gr_receipt g' = rc_handle c
    \<Longrightarrow> txn_step db (db\<lparr>td_grants := tbl_upd gr_id i (\<lambda>_. g') (td_grants db)\<rparr>)"

section \<open>The invariant\<close>

definition txn_keys :: "txn_db \<Rightarrow> bool" where
  "txn_keys db \<longleftrightarrow> unique_key dr_id (td_drafts db) \<and> unique_key gr_id (td_grants db)
     \<and> unique_key grant_binding (td_grants db) \<and> unique_key ta_id (td_attempts db)
     \<and> unique_key ta_key (td_attempts db) \<and> unique_key rc_id (td_receipts db)
     \<and> unique_key rc_attempt (td_receipts db)"

text \<open>Receipts, attempts and grants agree about every outcome.\<close>

definition receipts_bound :: "txn_db \<Rightarrow> bool" where
  "receipts_bound db \<longleftrightarrow> (\<forall>c\<in>set (td_receipts db). \<exists>t. tbl_look ta_id (td_attempts db) (ta_id t) = Some t
     \<and> ta_id t \<noteq> [] \<and> closes c t \<and> (attempt_sealed t \<longrightarrow> outcome_agrees c t))"

definition attempts_closed :: "txn_db \<Rightarrow> bool" where
  "attempts_closed db \<longleftrightarrow> (\<forall>t\<in>set (td_attempts db). attempt_sealed t \<longrightarrow> receipt_of (ta_id t) db \<noteq> None)"

definition grants_bound :: "txn_db \<Rightarrow> bool" where
  "grants_bound db \<longleftrightarrow> (\<forall>g\<in>set (td_grants db). gr_state g \<in> {RESERVED, CONSUMED} \<longrightarrow>
     (\<exists>t. tbl_look ta_id (td_attempts db) (ta_id t) = Some t \<and> gr_attempt g = Some (ta_id t) \<and> authorised_by t g
        \<and> (gr_state g = CONSUMED \<longrightarrow> read_attempt_state (ta_state t) = Some ATTEMPT_ACKED)))"

definition txn_inv :: "txn_db \<Rightarrow> bool" where
  "txn_inv db \<longleftrightarrow> txn_keys db \<and> receipts_bound db \<and> attempts_closed db \<and> grants_bound db"

section \<open>Every step keeps the invariant\<close>

lemma tbl_upd_other_key:
  assumes "unique_key k rows" and "tbl_look k rows i = Some r" and "key r' = key r"
  shows "map key (tbl_upd k i (\<lambda>_. r') rows) = map key rows"
proof -
  have "x = r" if "x \<in> set rows" "k x = i" for x
    using unique_keyD [OF assms(1) that(1) tbl_look_in [OF assms(2)]] that(2) tbl_look_key [OF assms(2)] by simp
  then show ?thesis using assms(3) by (auto simp: tbl_upd_def sql_update_def)
qed

lemma unique_other_key [inv_intros]:
  "unique_key k rows \<Longrightarrow> tbl_look k rows i = Some r \<Longrightarrow> key r' = key r \<Longrightarrow> unique_key key rows \<Longrightarrow>
   unique_key key (tbl_upd k i (\<lambda>_. r') rows)"
  by (simp only: unique_key_def tbl_upd_other_key [unfolded unique_key_def])

lemma in_tbl_upd: "x \<in> set (tbl_upd k i (\<lambda>_. r') rows) \<Longrightarrow> x = r' \<or> x \<in> set rows \<and> k x \<noteq> i"
  by (auto simp: tbl_upd_def sql_update_def)

lemma unique_append [inv_intros]: "unique_key key rows \<Longrightarrow> tbl_look key rows (key r) = None \<Longrightarrow> unique_key key (rows @ [r])"
  by (auto simp: tbl_look_None_iff intro: unique_key_insert)

lemma look_upd_const:
  assumes "unique_key key rows" and "tbl_look key rows i = Some r" and "key r' = i"
  shows "tbl_look key (tbl_upd key i (\<lambda>_. r') rows) j = (if j = i then Some r' else tbl_look key rows j)"
  using tbl_look_upd [OF assms(1), of i "\<lambda>_. r'" j] assms(2,3) by simp

lemma same_attemptD:
  "same_attempt t t' \<Longrightarrow> ta_id t' = ta_id t \<and> ta_key t' = ta_key t \<and> attempt_scope t' = attempt_scope t
     \<and> ta_revision t' = ta_revision t \<and> ta_grant t' = ta_grant t \<and> ta_digest t' = ta_digest t"
  by (auto simp: same_attempt_def)

lemma same_grantD:
  "same_grant g g' \<Longrightarrow> gr_id g' = gr_id g \<and> grant_binding g' = grant_binding g \<and> grant_scope g' = grant_scope g
     \<and> gr_revision g' = gr_revision g \<and> gr_digest g' = gr_digest g"
  by (auto simp: same_grant_def grant_binding_def)

lemma started_open: "ta_state t = ''STARTED'' \<Longrightarrow> \<not> attempt_sealed t \<and> read_attempt_state (ta_state t) = Some ATTEMPT_STARTED"
  by (simp add: attempt_sealed_def read_attempt_state_def attempt_states_def py_upper_def upper_char_def sealed_attempt_def)

lemma receipt_of_simps [simp]:
  "receipt_of a (db\<lparr>td_drafts := x\<rparr>) = receipt_of a db"
  "receipt_of a (db\<lparr>td_grants := y\<rparr>) = receipt_of a db"
  "receipt_of a (db\<lparr>td_attempts := z\<rparr>) = receipt_of a db"
  by (simp_all add: receipt_of_def)

lemma txn_step_keys: "txn_step db db' \<Longrightarrow> txn_keys db \<Longrightarrow> txn_keys db'"
proof (induction rule: txn_step.induct)
  case (move_draft db i r r')
  then show ?case by (auto simp: txn_keys_def intro!: tbl_upd_unique)
next
  case (close_grant db i g g')
  then show ?case by (auto simp: txn_keys_def dest: same_grantD intro!: unique_other_key)
next
  case (reserve db i g g' t r r')
  have "dr_id r' = dr_id r" using reserve(15) by (simp add: draft_scope_def)
  with reserve show ?case
    by (auto simp: txn_keys_def dest: same_grantD intro!: unique_other_key unique_append)
next
  case (move_attempt db i t t')
  then show ?case by (auto simp: txn_keys_def dest: same_attemptD intro!: unique_other_key)
next
  case (new_receipt db t c)
  then have "tbl_look rc_attempt (td_receipts db) (rc_attempt c) = None" by (simp add: receipt_of_def closes_def)
  with new_receipt show ?case by (auto simp: txn_keys_def intro!: unique_append)
next
  case (consume db i g g' t c)
  then show ?case by (auto simp: txn_keys_def dest: same_grantD intro!: unique_other_key)
qed (auto simp: txn_keys_def intro!: unique_append)

text \<open>An attempt that a row refers to keeps its identity in every step.\<close>

definition attempts_kept :: "txn_db \<Rightarrow> txn_db \<Rightarrow> bool" where
  "attempts_kept db db' \<longleftrightarrow> (\<forall>i t. tbl_look ta_id (td_attempts db) i = Some t \<longrightarrow>
     (\<exists>t'. tbl_look ta_id (td_attempts db') i = Some t' \<and> same_attempt t t'
        \<and> (attempt_sealed t \<longrightarrow> t' = t) \<and> (t' \<noteq> t \<longrightarrow> attempt_transition_allowed (ta_state t) (ta_state t'))))"

lemma same_attempt_refl [simp]: "same_attempt t t"
  by (simp add: same_attempt_def)

lemma attempts_kept_refl: "td_attempts db' = td_attempts db \<Longrightarrow> attempts_kept db db'"
  by (auto simp: attempts_kept_def)

lemma attempts_kept_append: "td_attempts db' = td_attempts db @ [t] \<Longrightarrow> attempts_kept db db'"
  by (auto simp: attempts_kept_def dest: tbl_look_app)

lemma txn_step_attempts: "txn_step db db' \<Longrightarrow> txn_keys db \<Longrightarrow> attempts_kept db db'"
proof (induction rule: txn_step.induct)
  case (move_attempt db i t t')
  have u: "unique_key ta_id (td_attempts db)" using move_attempt by (simp add: txn_keys_def)
  have id: "ta_id t' = i" using move_attempt(1,2) same_attemptD tbl_look_key by metis
  show ?case
    using move_attempt by (auto simp: attempts_kept_def look_upd_const [OF u move_attempt(1) id])
qed (auto intro: attempts_kept_refl attempts_kept_append)

lemma acked_sealed: "read_attempt_state (ta_state t) = Some ATTEMPT_ACKED \<Longrightarrow> attempt_sealed t"
  by (simp add: attempt_sealed_def sealed_attempt_def)

lemma closes_same: "same_attempt t t' \<Longrightarrow> closes c t' = closes c t"
  by (auto simp: closes_def dest: same_attemptD)

lemma authorised_same: "same_attempt t t' \<Longrightarrow> authorised_by t' g = authorised_by t g"
  by (auto simp: authorised_by_def dest: same_attemptD)

lemma authorised_grant: "same_grant g g' \<Longrightarrow> authorised_by t g' = authorised_by t g"
  by (auto simp: authorised_by_def dest: same_grantD)

lemma receipt_of_in: "txn_keys db \<Longrightarrow> c \<in> set (td_receipts db) \<Longrightarrow> rc_attempt c = Some a \<Longrightarrow> receipt_of a db = Some c"
  by (simp add: receipt_of_def txn_keys_def tbl_look_Some_iff)

lemma receipt_of_append: "receipt_of a db \<noteq> None \<Longrightarrow> receipt_of a (db\<lparr>td_receipts := td_receipts db @ [c]\<rparr>) \<noteq> None"
  by (auto simp: receipt_of_def dest: tbl_look_app)

lemma receipts_bound_frame:
  assumes "receipts_bound db" and "td_receipts db' = td_receipts db" and "attempts_kept db db'"
    and "\<And>t t'. tbl_look ta_id (td_attempts db) (ta_id t) = Some t \<Longrightarrow> tbl_look ta_id (td_attempts db') (ta_id t) = Some t'
      \<Longrightarrow> t' \<noteq> t \<Longrightarrow> attempt_sealed t' \<Longrightarrow> \<exists>c. receipt_of (ta_id t) db = Some c \<and> (closes c t \<longrightarrow> outcome_agrees c t')"
    and "txn_keys db"
  shows "receipts_bound db'"
  unfolding receipts_bound_def
proof
  fix c
  assume "c \<in> set (td_receipts db')"
  then have c: "c \<in> set (td_receipts db)" using assms(2) by simp
  then obtain t where t: "tbl_look ta_id (td_attempts db) (ta_id t) = Some t" "ta_id t \<noteq> []" "closes c t"
    "attempt_sealed t \<longrightarrow> outcome_agrees c t" using assms(1) by (auto simp: receipts_bound_def)
  obtain t' where t': "tbl_look ta_id (td_attempts db') (ta_id t) = Some t'" "same_attempt t t'" "attempt_sealed t \<longrightarrow> t' = t"
    using assms(3) t(1) by (auto simp: attempts_kept_def)
  have id: "ta_id t' = ta_id t" using same_attemptD [OF t'(2)] by simp
  have "receipt_of (ta_id t) db = Some c"
    using t(3) by (intro receipt_of_in assms(5) c) (simp add: closes_def)
  then have "attempt_sealed t' \<longrightarrow> outcome_agrees c t'"
    using assms(4) [OF t(1) t'(1)] t(3,4) by (cases "t' = t") auto
  then show "\<exists>t. tbl_look ta_id (td_attempts db') (ta_id t) = Some t \<and> ta_id t \<noteq> [] \<and> closes c t
      \<and> (attempt_sealed t \<longrightarrow> outcome_agrees c t)"
    using t' t(2,3) id by (intro exI [of _ t']) (simp add: closes_same)
qed

lemma txn_step_receipts:
  assumes "txn_step db db'" and "txn_keys db" and "receipts_bound db"
  shows "receipts_bound db'"
proof -
  note kept = txn_step_attempts [OF assms(1,2)]
  have u: "unique_key ta_id (td_attempts db)" using assms(2) by (simp add: txn_keys_def)
  from assms(1) show ?thesis
  proof cases
    case (new_receipt t c)
    then show ?thesis using assms(3) by (auto simp: receipts_bound_def)
  next
    case (move_attempt i t t')
    have id: "ta_id t' = i" "ta_id t = i" using move_attempt(2,3) same_attemptD tbl_look_key by metis+
    show ?thesis
    proof (rule receipts_bound_frame [OF assms(3) _ kept _ assms(2)])
      fix x x'
      assume x: "tbl_look ta_id (td_attempts db) (ta_id x) = Some x" "tbl_look ta_id (td_attempts db') (ta_id x) = Some x'"
        "x' \<noteq> x" "attempt_sealed x'"
      then have "ta_id x = i" "x' = t'" "x = t"
        using look_upd_const [OF u move_attempt(2) id(1)] move_attempt(1,2) by (auto split: if_splits)
      then show "\<exists>c. receipt_of (ta_id x) db = Some c \<and> (closes c x \<longrightarrow> outcome_agrees c x')"
        using move_attempt(6) x(4) by simp
    qed (simp add: move_attempt(1))
  qed (rule receipts_bound_frame [OF assms(3) _ kept _ assms(2)], simp, simp add: tbl_look_append)+
qed

lemma txn_step_closed:
  assumes "txn_step db db'" and "txn_keys db" and "attempts_closed db"
  shows "attempts_closed db'"
  using assms(1)
proof cases
  case (new_attempt t)
  then show ?thesis using assms(3) by (auto simp: attempts_closed_def dest: started_open)
next
  case (reserve i g g' t r r')
  then show ?thesis using assms(3) by (auto simp: attempts_closed_def receipt_of_def dest: started_open)
next
  case (move_attempt i t t')
  have id: "ta_id t' = i" using move_attempt(2,3) same_attemptD tbl_look_key by metis
  show ?thesis
    using move_attempt(1,6) id assms(3) by (auto simp: attempts_closed_def dest!: in_tbl_upd)
next
  case (new_receipt t c)
  then show ?thesis using assms(3) receipt_of_append by (fastforce simp: attempts_closed_def)
qed (use assms(3) in \<open>auto simp: attempts_closed_def\<close>)

definition grant_bound :: "txn_db \<Rightarrow> grant_row \<Rightarrow> bool" where
  "grant_bound db g \<longleftrightarrow> (gr_state g \<in> {RESERVED, CONSUMED} \<longrightarrow>
     (\<exists>t. tbl_look ta_id (td_attempts db) (ta_id t) = Some t \<and> gr_attempt g = Some (ta_id t) \<and> authorised_by t g
        \<and> (gr_state g = CONSUMED \<longrightarrow> read_attempt_state (ta_state t) = Some ATTEMPT_ACKED)))"

lemma grants_bound_iff: "grants_bound db \<longleftrightarrow> (\<forall>g\<in>set (td_grants db). grant_bound db g)"
  by (simp add: grants_bound_def grant_bound_def)

lemma grant_bound_kept:
  assumes "grant_bound db g" and "attempts_kept db db'"
  shows "grant_bound db' g"
  unfolding grant_bound_def
proof
  assume s: "gr_state g \<in> {RESERVED, CONSUMED}"
  then obtain t where t: "tbl_look ta_id (td_attempts db) (ta_id t) = Some t" "gr_attempt g = Some (ta_id t)"
    "authorised_by t g" "gr_state g = CONSUMED \<longrightarrow> read_attempt_state (ta_state t) = Some ATTEMPT_ACKED"
    using assms(1) by (auto simp: grant_bound_def)
  obtain t' where t': "tbl_look ta_id (td_attempts db') (ta_id t) = Some t'" "same_attempt t t'" "attempt_sealed t \<longrightarrow> t' = t"
    using assms(2) t(1) by (auto simp: attempts_kept_def)
  have "gr_state g = CONSUMED \<longrightarrow> read_attempt_state (ta_state t') = Some ATTEMPT_ACKED"
    using t(4) t'(3) acked_sealed by auto
  then show "\<exists>t. tbl_look ta_id (td_attempts db') (ta_id t) = Some t \<and> gr_attempt g = Some (ta_id t) \<and> authorised_by t g
        \<and> (gr_state g = CONSUMED \<longrightarrow> read_attempt_state (ta_state t) = Some ATTEMPT_ACKED)"
    using t' t(2,3) same_attemptD [OF t'(2)] by (intro exI [of _ t']) (simp add: authorised_same)
qed

lemma txn_step_grants:
  assumes "txn_step db db'" and "txn_keys db" and "grants_bound db"
  shows "grants_bound db'"
proof -
  note kept = txn_step_attempts [OF assms(1,2)]
  have old: "grant_bound db' g" if "g \<in> set (td_grants db)" for g
    using assms(3) that kept by (auto simp: grants_bound_iff intro: grant_bound_kept)
  from assms(1) show ?thesis
  proof cases
    case (new_grant g)
    then show ?thesis using old by (auto simp: grants_bound_iff grant_bound_def [of _ g])
  next
    case (close_grant i g g')
    have "grant_bound db' g'" using close_grant by (auto simp: grant_bound_def)
    then show ?thesis using old close_grant(1) by (auto simp: grants_bound_iff dest!: in_tbl_upd)
  next
    case (reserve i g g' t r r')
    have "tbl_look ta_id (td_attempts db') (ta_id t) = Some t"
      using reserve(1,8) by (simp add: tbl_look_append)
    then have "grant_bound db' g'"
      using reserve by (auto simp: grant_bound_def authorised_grant)
    then show ?thesis using old reserve(1) by (auto simp: grants_bound_iff dest!: in_tbl_upd)
  next
    case (consume i g g' t c)
    have "tbl_look ta_id (td_attempts db') (ta_id t) = Some t" using consume(1,8) by simp
    then have "grant_bound db' g'"
      using consume by (auto simp: grant_bound_def authorised_grant)
    then show ?thesis using old consume(1) by (auto simp: grants_bound_iff dest!: in_tbl_upd)
  qed (use old in \<open>auto simp: grants_bound_iff\<close>)
qed

lemma txn_step_inv [inv_intros]: "txn_step db db' \<Longrightarrow> txn_inv db \<Longrightarrow> txn_inv db'"
  by (simp add: txn_inv_def txn_step_keys txn_step_receipts txn_step_closed txn_step_grants)

lemma txn_invD:
  assumes "txn_inv db"
  shows "unique_key dr_id (td_drafts db)" "unique_key gr_id (td_grants db)" "unique_key ta_id (td_attempts db)"
    "unique_key ta_key (td_attempts db)" "unique_key rc_attempt (td_receipts db)" "unique_key rc_id (td_receipts db)"
    "unique_key grant_binding (td_grants db)" "txn_keys db"
  using assms by (auto simp: txn_inv_def txn_keys_def)

section \<open>Every call refines the step\<close>

lemma scope_mismatch_None [simp]: "scope_mismatch s t = None \<longleftrightarrow> s = t"
  by (auto simp: scope_mismatch_def)

lemma create_draft_step:
  assumes "txn_inv db"
  shows "txn_step db (fst (create_draft e r db))"
proof (cases "draft_persistence_update_decision (tbl_look dr_id (td_drafts db) (dr_id r)) r")
  case (Inl why)
  then show ?thesis by (simp add: create_draft_def Let_def txn_step.stay)
next
  case (Inr why)
  let ?row = "r\<lparr>dr_created := te_now e, dr_updated := te_now e, dr_correlation := correlated e (dr_correlation r)\<rparr>"
  show ?thesis
  proof (cases "tbl_look dr_id (td_drafts db) (dr_id r)")
    case None
    then show ?thesis using Inr by (simp add: create_draft_def Let_def txn_step.new_draft)
  next
    case (Some old)
    have "draft_update_sound old r" using Inr Some by (simp add: decision_sound)
    then have "draft_update_sound old (?row\<lparr>dr_created := dr_created old\<rparr>)"
      by (simp add: draft_update_sound_def draft_state_of_def effective_revision_def)
    then have "txn_step db (db\<lparr>td_drafts := tbl_upd dr_id (dr_id r) (\<lambda>_. ?row\<lparr>dr_created := dr_created old\<rparr>) (td_drafts db)\<rparr>)"
      by (intro txn_step.move_draft [OF Some]) simp_all
    moreover have "tbl_upd dr_id (dr_id r) (\<lambda>old. ?row\<lparr>dr_created := dr_created old\<rparr>) (td_drafts db)
        = tbl_upd dr_id (dr_id r) (\<lambda>_. ?row\<lparr>dr_created := dr_created old\<rparr>) (td_drafts db)"
      by (rule tbl_upd_const [OF txn_invD(1) [OF assms] Some])
    ultimately show ?thesis using Inr Some by (simp add: create_draft_def Let_def)
  qed
qed

lemma advance_draft_step:
  assumes "txn_inv db"
  shows "txn_step db (advance_draft e i ch db)"
proof (cases "advance_draft e i ch db = db")
  case True
  then show ?thesis by (simp add: txn_step.stay)
next
  case False
  let ?f = "\<lambda>r. (changed_draft ch r)\<lparr>dr_grant := if_some (ch_grant ch) (dr_grant r),
      dr_attempt := if_some (ch_attempt ch) (dr_attempt r), dr_updated := te_now e\<rparr>"
  obtain r why where r: "tbl_look dr_id (td_drafts db) i = Some r"
    "draft_persistence_update_decision (Some r) (changed_draft ch r) = Inr why"
    "advance_draft e i ch db = db\<lparr>td_drafts := tbl_upd dr_id i ?f (td_drafts db)\<rparr>"
    using False by (auto simp: advance_draft_def Let_def split: option.splits sum.splits)
  have "draft_update_sound r (?f r)"
    using decision_sound [OF r(2)] by (simp add: draft_update_sound_def draft_state_of_def effective_revision_def)
  moreover have "dr_id (?f r) = i" using tbl_look_key [OF r(1)] by (simp add: changed_draft_def)
  ultimately have "txn_step db (db\<lparr>td_drafts := tbl_upd dr_id i (\<lambda>_. ?f r) (td_drafts db)\<rparr>)"
    by (intro txn_step.move_draft [OF r(1)])
  then show ?thesis using tbl_upd_const [OF txn_invD(1) [OF assms] r(1), of ?f] r(3) by simp
qed

lemma upper_idem [simp]: "py_upper (py_upper s) = py_upper s"
proof -
  have "upper_char (upper_char c) = upper_char c" for c
    unfolding upper_char_def Let_def by (auto simp: of_char_of)
  then show ?thesis by (simp add: py_upper_def)
qed

text \<open>What an accepted receipt is bound to.\<close>

definition receipt_binding ::
  "attempt_row \<Rightarrow> grant_row \<Rightarrow> txn_scope \<Rightarrow> string option \<Rightarrow> string \<Rightarrow> pydict option \<Rightarrow> bool" where
  "receipt_binding t g scope a state result \<longleftrightarrow>
     opt_str a \<noteq> [] \<and> ta_id t = opt_str a \<and> attempt_scope t = scope \<and> authorised_by t g \<and> gr_id g \<noteq> []
     \<and> gr_state g \<in> {RESERVED, CONSUMED} \<and> py_upper state \<in> {''SUCCESS'', ''FAILED''}
     \<and> (py_upper state = ''SUCCESS'' \<longleftrightarrow> succeeded (case result of None \<Rightarrow> [] | Some r \<Rightarrow> r))
     \<and> (attempt_sealed t \<longrightarrow> (py_upper state = ''SUCCESS'' \<longleftrightarrow> read_attempt_state (ta_state t) = Some ATTEMPT_ACKED))"

lemma sealed_outcomes:
  "attempt_sealed t \<longleftrightarrow> read_attempt_state (ta_state t)
     \<in> {Some ATTEMPT_ACKED, Some ATTEMPT_FAILED_RETRYABLE, Some ATTEMPT_FAILED_FINAL}"
  by (auto simp: attempt_sealed_def sealed_attempt_def split: option.splits)

lemma case_scope_Inr:
  "(case scope_mismatch s t of None \<Rightarrow> x | Some field \<Rightarrow> Inl (f field)) = Inr y \<longleftrightarrow> s = t \<and> x = Inr y"
proof (cases "s = t")
  case True
  then show ?thesis by (simp add: scope_mismatch_def)
next
  case False
  then obtain field where "scope_mismatch s t = Some field" using scope_mismatch_None [of s t] by fastforce
  then show ?thesis using False by simp
qed

lemma case_row_Inr:
  "(case row of None \<Rightarrow> Inl x | Some r \<Rightarrow> f r) = Inr y \<longleftrightarrow> (\<exists>r. row = Some r \<and> f r = Inr y)"
  by (auto split: option.splits)

lemmas decision_simps = guard_Inr_iff case_scope_Inr case_row_Inr Let_def

lemma receipt_binding_Inr:
  assumes "validate_receipt_binding attempt grant scope a state result = Inr why"
  shows "\<exists>t g. attempt = Some t \<and> grant = Some g \<and> receipt_binding t g scope a state result"
proof -
  obtain t g where t: "attempt = Some t" "grant = Some g" and v: "truthy_str a" "ta_id t = opt_str a"
    "attempt_scope t = scope" "ta_grant t \<noteq> []" "gr_id g = ta_grant t" "grant_scope g = scope"
    "gr_revision g = ta_revision t" "gr_digest g = ta_digest t"
    "gr_state g = RESERVED \<or> gr_state g = CONSUMED"
    "py_upper state = ''SUCCESS'' \<or> py_upper state = ''FAILED''"
    "py_upper state = ''SUCCESS'' \<longrightarrow> succeeded (case result of None \<Rightarrow> [] | Some r \<Rightarrow> r)"
    "py_upper state = ''FAILED'' \<longrightarrow> \<not> succeeded (case result of None \<Rightarrow> [] | Some r \<Rightarrow> r)"
    "read_attempt_state (ta_state t) = Some ATTEMPT_ACKED \<longrightarrow> py_upper state = ''SUCCESS''"
    "read_attempt_state (ta_state t) \<in> {Some ATTEMPT_FAILED_RETRYABLE, Some ATTEMPT_FAILED_FINAL} \<longrightarrow> py_upper state = ''FAILED''"
    using assms unfolding validate_receipt_binding_def decision_simps by blast
  have "opt_str a \<noteq> []" using v(1) by (simp add: truthy_str_def)
  moreover have "attempt_sealed t \<longrightarrow> (py_upper state = ''SUCCESS'' \<longleftrightarrow> read_attempt_state (ta_state t) = Some ATTEMPT_ACKED)"
    using v(13,14) unfolding sealed_outcomes by auto
  ultimately show ?thesis using t v(2-12) by (auto simp: receipt_binding_def authorised_by_def)
qed

lemma record_receipt_step:
  assumes "txn_inv db"
  shows "txn_step db (state_after db (record_receipt e c db))"
proof (cases "state_after db (record_receipt e c db) = db")
  case True
  then show ?thesis by (simp add: txn_step.stay)
next
  case False
  let ?a = "opt_str (rc_attempt c)"
  let ?row = "c\<lparr>rc_state := py_upper (rc_state c), rc_created := te_now e, rc_correlation := correlated e (rc_correlation c)\<rparr>"
  let ?t = "tbl_look ta_id (td_attempts db) ?a"
  obtain why where v: "validate_receipt_binding ?t (get_grant (case ?t of None \<Rightarrow> [] | Some t \<Rightarrow> ta_grant t) db)
      (receipt_scope c) (rc_attempt c) (rc_state c) (Some (rc_result c)) = Inr why"
    and n: "receipt_of ?a db = None" "tbl_look rc_id (td_receipts db) (rc_id c) = None"
    and db': "state_after db (record_receipt e c db) = db\<lparr>td_receipts := td_receipts db @ [?row]\<rparr>"
    using False
    by (auto simp: record_receipt_def state_after_def Let_def split: sum.splits option.splits if_splits)
  from v obtain t where t: "?t = Some t" "ta_id t = ?a" "?a \<noteq> []" "attempt_scope t = receipt_scope c"
    "py_upper (rc_state c) \<in> {''SUCCESS'', ''FAILED''}" "py_upper (rc_state c) = ''SUCCESS'' \<longleftrightarrow> succeeded (rc_result c)"
    "attempt_sealed t \<Longrightarrow> py_upper (rc_state c) = ''SUCCESS'' \<longleftrightarrow> read_attempt_state (ta_state t) = Some ATTEMPT_ACKED"
    by (auto dest!: receipt_binding_Inr simp: receipt_binding_def)
  have a: "rc_attempt c = Some ?a" using t(3) by (cases "rc_attempt c") auto
  have "closes ?row t" using t a by (auto simp: closes_def receipt_scope_def)
  moreover have "outcome_agrees ?row t" if "attempt_sealed t" using t(7) [OF that] by (simp add: outcome_agrees_def)
  ultimately show ?thesis
    unfolding db' using t n by (intro txn_step.new_receipt [of db t]) simp_all
qed

lemma issue_grant_step:
  "txn_step db (state_after db (issue_grant e g db))"
proof (cases "state_after db (issue_grant e g db) = db")
  case True
  then show ?thesis by (simp add: txn_step.stay)
next
  case False
  let ?g = "g\<lparr>gr_state := ISSUED, gr_issued := te_now e, gr_reserved := None, gr_consumed := None, gr_revoked := None,
      gr_attempt := None, gr_receipt := None, gr_reason := None\<rparr>"
  have "tbl_look grant_binding (td_grants db) (grant_binding g) = None \<and> gr_id g \<notin> gr_id ` set (td_grants db)
      \<and> state_after db (issue_grant e g db) = db\<lparr>td_grants := td_grants db @ [?g]\<rparr>"
    using False
    by (auto simp: issue_grant_def state_after_def sql_insert_def Let_def split: sum.splits option.splits if_splits)
  moreover have "grant_binding ?g = grant_binding g" by (simp add: grant_binding_def grant_scope_def)
  ultimately show ?thesis by (auto simp: tbl_look_None_iff intro!: txn_step.new_grant)
qed

text \<open>A guarded update of one grant either changes nothing or replaces that row.\<close>

lemma update_one_grant:
  assumes "unique_key gr_id rows" and "\<forall>g. p g \<longrightarrow> gr_id g = i"
  shows "sql_update p f rows = rows \<and> (\<forall>g. tbl_look gr_id rows i = Some g \<longrightarrow> \<not> p g)
    \<or> (\<exists>g. tbl_look gr_id rows i = Some g \<and> p g \<and> sql_update p f rows = tbl_upd gr_id i (\<lambda>_. f g) rows)"
proof (cases "\<exists>g. tbl_look gr_id rows i = Some g \<and> p g")
  case True
  then obtain g where g: "tbl_look gr_id rows i = Some g" "p g" by blast
  have "sql_update p f rows = tbl_upd gr_id i f rows" by (rule sql_update_one [where p = p, OF assms(1) _ g]) (use assms(2) in blast)
  also have "\<dots> = tbl_upd gr_id i (\<lambda>_. f g) rows" by (rule tbl_upd_const [OF assms(1) g(1)])
  finally show ?thesis using g by blast
next
  case False
  then have "\<not> p g" if "g \<in> set rows" for g
    using that assms(2) tbl_look_Some_iff [OF assms(1), of i g] by blast
  then have "sql_update p f rows = rows" by (rule sql_update_id)
  with False show ?thesis by blast
qed

lemma same_grant_revoked [simp]: "same_grant g (revoked_row e s why g)"
  by (simp add: same_grant_def revoked_row_def grant_binding_def grant_scope_def)

lemma revoked_simps [simp]:
  "gr_state (revoked_row e s why g) = s" "gr_attempt (revoked_row e s why g) = gr_attempt g"
  by (simp_all add: revoked_row_def)

lemma reserved_simps [simp]:
  "gr_state (reserved_row e a g) = RESERVED" "gr_attempt (reserved_row e a g) = Some a"
  by (simp_all add: reserved_row_def)

lemma same_grant_reserved [simp]: "same_grant g (reserved_row e a g)"
  by (simp add: same_grant_def reserved_row_def grant_binding_def grant_scope_def)

lemma close_grant_update:
  assumes "unique_key gr_id (td_grants db)" and "\<And>g. p g \<Longrightarrow> gr_id g = i \<and> gr_state g \<in> {ISSUED, RESERVED}"
    and "s \<in> {REVOKED, GRANT_EXPIRED}"
  shows "txn_step db (db\<lparr>td_grants := sql_update p (revoked_row e s why) (td_grants db)\<rparr>)"
proof -
  have ident: "\<forall>g. p g \<longrightarrow> gr_id g = i" using assms(2) by blast
  from update_one_grant [of "td_grants db" p i "revoked_row e s why", OF assms(1) ident] show ?thesis
  proof (elim disjE conjE exE)
  fix g
  assume g: "tbl_look gr_id (td_grants db) i = Some g" "p g"
    "sql_update p (revoked_row e s why) (td_grants db) = tbl_upd gr_id i (\<lambda>_. revoked_row e s why g) (td_grants db)"
  then show ?thesis
    unfolding g(3) using assms(2) [OF g(2)] assms(3)
    by (intro txn_step.close_grant [OF g(1)]) auto
  qed (simp_all add: txn_step.stay)
qed

lemma revoke_grant_step: "txn_inv db \<Longrightarrow> txn_step db (revoke_grant e i why db)"
  unfolding revoke_grant_def by (rule close_grant_update) (auto simp: txn_invD)

lemma consumption_Inr:
  assumes "grant_consumption_decision grant attempt receipt a h = Inr why" and "grant = Some g" and "gr_state g \<noteq> CONSUMED"
  obtains t c where "attempt = Some t" "receipt = Some c" "gr_state g = RESERVED" "ta_id t = opt_str a"
    "gr_attempt g = Some (opt_str a)" "authorised_by t g" "read_attempt_state (ta_state t) = Some ATTEMPT_ACKED"
    "opt_str (rc_handle c) = opt_str h" "opt_str h \<noteq> []" "succeeded (rc_result c)"
  using assms
  by (cases attempt; cases receipt; cases "gr_attempt g")
    (auto simp: grant_consumption_decision_def Let_def guard_Inr_iff authorised_by_def split: option.splits if_splits)

lemma consume_grant_step:
  assumes "txn_inv db"
  shows "txn_step db (consume_grant e i a h db)"
proof (cases "consume_grant e i a h db = db")
  case True
  then show ?thesis by (simp add: txn_step.stay)
next
  case False
  let ?p = "\<lambda>g. gr_id g = i \<and> gr_state g = RESERVED \<and> gr_attempt g = Some (opt_str a)"
  let ?f = "\<lambda>g. g\<lparr>gr_state := CONSUMED, gr_consumed := Some (te_now e), gr_attempt := Some (opt_str a),
      gr_receipt := Some (opt_str h)\<rparr>"
  obtain why where d: "grant_consumption_decision (tbl_look gr_id (td_grants db) i)
      (tbl_look ta_id (td_attempts db) (opt_str a)) (receipt_of (opt_str a) db) a h = Inr why"
    and n: "sql_rowcount ?p (td_grants db) = 1"
    and db': "consume_grant e i a h db = db\<lparr>td_grants := sql_update ?p ?f (td_grants db)\<rparr>"
    using False by (auto simp: consume_grant_def Let_def split: sum.splits if_splits)
  have u: "unique_key gr_id (td_grants db)" by (rule txn_invD [OF assms])
  obtain g where g: "tbl_look gr_id (td_grants db) i = Some g" "?p g"
    using n sql_rowcount_look [OF u, of ?p i] by auto
  from d obtain t c where t: "tbl_look ta_id (td_attempts db) (opt_str a) = Some t" "receipt_of (opt_str a) db = Some c"
    "ta_id t = opt_str a" "authorised_by t g" "read_attempt_state (ta_state t) = Some ATTEMPT_ACKED"
    "opt_str (rc_handle c) = opt_str h" "opt_str h \<noteq> []" "succeeded (rc_result c)"
    by (rule consumption_Inr [OF _ g(1)]) (use g(2) in auto)
  have h: "rc_handle c = Some (opt_str h)" using t(6,7) by (cases "rc_handle c") auto
  have "sql_update ?p ?f (td_grants db) = tbl_upd gr_id i (\<lambda>_. ?f g) (td_grants db)"
    using sql_update_one [OF u, of ?p i g ?f] tbl_upd_const [OF u g(1), of ?f] g by simp
  moreover have "same_grant g (?f g)" by (simp add: same_grant_def grant_binding_def grant_scope_def)
  ultimately show ?thesis
    unfolding db' using g t h by (simp add: txn_step.consume [OF g(1), of _ t c])
qed

lemma start_attempt_step:
  "txn_step db (state_after db (start_attempt e q db))"
proof (cases "state_after db (start_attempt e q db) = db")
  case True
  then show ?thesis by (simp add: txn_step.stay)
next
  case False
  let ?t = "new_attempt e (q\<lparr>ar_envelope := None, ar_correlation := None\<rparr>) (ar_payload q)"
  have "tbl_look ta_key (td_attempts db) (ta_key ?t) = None \<and> ta_id ?t \<notin> ta_id ` set (td_attempts db)
      \<and> state_after db (start_attempt e q db) = db\<lparr>td_attempts := td_attempts db @ [?t]\<rparr>"
    using False
    by (auto simp: start_attempt_def state_after_def sql_insert_def new_attempt_def Let_def
        split: sum.splits option.splits if_splits)
  then show ?thesis
    by (auto simp: tbl_look_None_iff new_attempt_def intro!: txn_step.new_attempt)
qed

lemma attempt_decision_Inr:
  assumes "attempt_persistence_update_decision (Some t) target result handle receipt = Inr why"
  shows "\<not> attempt_sealed t" "attempt_transition_allowed (ta_state t) target"
    "(case read_attempt_state target of None \<Rightarrow> False | Some s \<Rightarrow> sealed_attempt s) \<Longrightarrow>
      \<exists>c. receipt = Some c \<and> (py_upper (rc_state c) = ''SUCCESS'' \<longleftrightarrow> read_attempt_state target = Some ATTEMPT_ACKED)"
proof -
  let ?sealed = "case read_attempt_state target of None \<Rightarrow> False | Some s \<Rightarrow> sealed_attempt s"
  let ?rs = "case receipt of None \<Rightarrow> [] | Some c \<Rightarrow> py_upper (rc_state c)"
  have d: "\<not> attempt_sealed t" "attempt_transition_allowed (ta_state t) target"
    "?sealed \<longrightarrow> ?rs \<noteq> []" "?sealed \<and> ?rs = ''SUCCESS'' \<longrightarrow> read_attempt_state target = Some ATTEMPT_ACKED"
    "?sealed \<and> ?rs = ''FAILED'' \<longrightarrow> read_attempt_state target \<in> {Some ATTEMPT_FAILED_RETRYABLE, Some ATTEMPT_FAILED_FINAL}"
    "?sealed \<longrightarrow> ?rs = ''SUCCESS'' \<or> ?rs = ''FAILED''"
    using assms unfolding attempt_persistence_update_decision_def option.case decision_simps by blast+
  show "\<not> attempt_sealed t" "attempt_transition_allowed (ta_state t) target" by (rule d)+
  assume ?sealed
  with d(3-6) show "\<exists>c. receipt = Some c \<and> (py_upper (rc_state c) = ''SUCCESS'' \<longleftrightarrow> read_attempt_state target = Some ATTEMPT_ACKED)"
    by (cases receipt) auto
qed

lemma transition_attempt_step:
  assumes "txn_inv db"
  shows "txn_step db (case transition_attempt e i ch db of Inl _ \<Rightarrow> db | Inr db' \<Rightarrow> db')"
proof (cases "(case transition_attempt e i ch db of Inl _ \<Rightarrow> db | Inr db' \<Rightarrow> db') = db")
  case True
  then show ?thesis by (simp only: txn_step.stay)
next
  case False
  let ?f = "\<lambda>t. t\<lparr>ta_state := ac_state ch, ta_result := if_some (ac_result ch) (ta_result t),
      ta_receipt := if_some (ac_receipt ch) (ta_receipt t), ta_error_code := ac_error_code ch, ta_error := ac_error ch,
      ta_updated := te_now e, ta_reconciled := (if ac_reconciled ch then Some (te_now e) else ta_reconciled t)\<rparr>"
  obtain t why where t: "tbl_look ta_id (td_attempts db) i = Some t"
    and d: "attempt_persistence_update_decision (Some t) (ac_state ch) (ac_result ch) (ac_receipt ch) (receipt_of i db) = Inr why"
    and r: "transition_attempt e i ch db = Inr (db\<lparr>td_attempts := tbl_upd ta_id i ?f (td_attempts db)\<rparr>)"
    using False by (auto simp: transition_attempt_def split: option.splits sum.splits)
  have c: "tbl_upd ta_id i ?f (td_attempts db) = tbl_upd ta_id i (\<lambda>_. ?f t) (td_attempts db)"
    by (rule tbl_upd_const [OF txn_invD(3) [OF assms] t])
  have sealed: "attempt_sealed (?f t) = (case read_attempt_state (ac_state ch) of None \<Rightarrow> False | Some s \<Rightarrow> sealed_attempt s)"
    by (simp add: attempt_sealed_def)
  have agree: "\<exists>c. receipt_of i db = Some c \<and> (closes c t \<longrightarrow> outcome_agrees c (?f t))" if "attempt_sealed (?f t)"
    using attempt_decision_Inr(3) [OF d] that
    by (auto simp: sealed closes_def outcome_agrees_def py_upper_def upper_char_def)
  have "same_attempt t (?f t)" by (simp add: same_attempt_def attempt_scope_def)
  then have "txn_step db (db\<lparr>td_attempts := tbl_upd ta_id i (\<lambda>_. ?f t) (td_attempts db)\<rparr>)"
    using attempt_decision_Inr(1,2) [OF d] agree by (intro txn_step.move_attempt [OF t]) simp_all
  then show ?thesis by (simp only: r sum.case c)
qed

lemma revoke_issued_step: "txn_inv db \<Longrightarrow> txn_step db (revoke_issued e i why db)"
  unfolding revoke_issued_def set_grants_def by (rule close_grant_update) (auto simp: txn_invD)

lemma awaiting_text: "py_upper s = ''AWAITING_AUTHORIZATION'' \<Longrightarrow> read_draft_state s = DRAFT_AWAITING_AUTHORIZATION"
  by (simp add: read_draft_state_def draft_states_def)

lemma issue_decision_Inr:
  assumes "grant_issue_decision draft scope revision digest confirmation = Inr why"
  shows "\<exists>r. draft = Some r \<and> draft_scope r = scope \<and> draft_state_of r = DRAFT_AWAITING_AUTHORIZATION
    \<and> dr_revision r = revision \<and> dr_digest r = digest"
  using assms awaiting_text unfolding grant_issue_decision_def decision_simps draft_state_of_def by blast

lemma reservation_decision_Inr:
  assumes "grant_reservation_decision grant draft scope revision digest = Inr why"
  shows "\<exists>g r. grant = Some g \<and> gr_state g = ISSUED \<and> grant_scope g = scope \<and> gr_revision g = revision \<and> gr_digest g = digest
    \<and> draft = Some r \<and> draft_scope r = scope \<and> draft_state_of r = DRAFT_AWAITING_AUTHORIZATION
    \<and> dr_revision r = revision \<and> dr_digest r = digest"
proof -
  obtain g where g: "grant = Some g" "gr_state g = ISSUED" "grant_scope g = scope" "gr_revision g = revision" "gr_digest g = digest"
    and i: "(case grant_issue_decision draft scope revision digest (gr_confirmation g) of
       Inl why \<Rightarrow> Inl (''reservation_'' @ why) | Inr _ \<Rightarrow> Inr ''grant_reservation_valid'') = Inr why"
    using assms unfolding grant_reservation_decision_def decision_simps by blast
  have "\<exists>w. grant_issue_decision draft scope revision digest (gr_confirmation g) = Inr w"
    using i by (simp split: sum.splits)
  then obtain w where "grant_issue_decision draft scope revision digest (gr_confirmation g) = Inr w" by blast
  then obtain r where "draft = Some r" "draft_scope r = scope" "draft_state_of r = DRAFT_AWAITING_AUTHORIZATION"
    "dr_revision r = revision" "dr_digest r = digest" by (auto dest: issue_decision_Inr)
  with g show ?thesis by (intro exI [of _ g] exI [of _ r]) simp
qed

lemma expire_grant_step: "txn_inv db \<Longrightarrow> txn_step db (expire_grant e i db)"
  unfolding expire_grant_def set_grants_def by (rule close_grant_update) (auto simp: txn_invD)

text \<open>A grant that can still be reserved after the expiry sweep was not touched by it.\<close>

lemma expire_then_reservable:
  assumes "unique_key gr_id (td_grants db)" and "tbl_look gr_id (td_grants (expire_grant e i db)) i = Some g"
    and "reservable e i g"
  shows "expire_grant e i db = db"
proof -
  let ?p = "\<lambda>g. gr_id g = i \<and> gr_state g = ISSUED \<and> (case gr_expires g of None \<Rightarrow> False | Some x \<Rightarrow> x \<le> te_now e)"
  let ?f = "revoked_row e GRANT_EXPIRED ''grant_expired''"
  have id: "\<forall>g. ?p g \<longrightarrow> gr_id g = i" by simp
  from update_one_grant [of "td_grants db" ?p i ?f, OF assms(1) id] show ?thesis
  proof (elim disjE conjE exE)
    fix g0
    assume g0: "tbl_look gr_id (td_grants db) i = Some g0"
      "sql_update ?p ?f (td_grants db) = tbl_upd gr_id i (\<lambda>_. ?f g0) (td_grants db)"
    have key: "gr_id (?f g0) = i" using tbl_look_key [OF g0(1)] by (simp add: revoked_row_def)
    have "tbl_look gr_id (tbl_upd gr_id i (\<lambda>_. ?f g0) (td_grants db)) i = Some (?f g0)"
      by (subst look_upd_const [of gr_id "td_grants db" i g0 "?f g0", OF assms(1) g0(1) key]) simp
    moreover have "td_grants (expire_grant e i db) = tbl_upd gr_id i (\<lambda>_. ?f g0) (td_grants db)"
      unfolding g0(2) [symmetric] by (simp add: expire_grant_def set_grants_def)
    ultimately have "Some (?f g0) = Some g" using assms(2) by metis
    then have "reservable e i (?f g0)" using assms(3) by simp
    then show ?thesis by (simp add: reservable_def)
  qed (simp add: expire_grant_def set_grants_def)
qed

lemma reserve_nothing:
  assumes "unique_key gr_id rows" and "sql_rowcount (reservable e i) rows \<noteq> 1"
  shows "sql_update (reservable e i) f rows = rows"
  using assms sql_rowcount_one [OF assms(1), of "reservable e i" i]
  by (intro sql_update_id) (auto simp: reservable_def)

lemma start_reserved_step:
  assumes "txn_inv db" and "tbl_look gr_id (td_grants db) (ar_grant q) = Some g" and "gr_state g = ISSUED"
    and "grant_scope g = ar_scope q" "gr_revision g = ar_revision q" "gr_digest g = ar_digest q"
    and "tbl_look ta_key (td_attempts db) (ar_key q) = None"
    and "draft_in (ar_scope q) db = Some r" and "draft_scope r = ar_scope q"
    and "draft_state_of r = DRAFT_AWAITING_AUTHORIZATION" "dr_revision r = ar_revision q" "dr_digest r = ar_digest q"
  shows "txn_step db (state_after db (start_reserved e q r db))"
proof -
  let ?i = "ar_grant q"
  let ?db1 = "expire_grant e ?i db"
  let ?p = "reservable e ?i"
  let ?f = "reserved_row e (ar_attempt q)"
  let ?t = "Txn_Store.new_attempt e (q\<lparr>ar_correlation := correlated e (ar_correlation q)\<rparr>) (draft_as_dict r)"
  have u: "unique_key gr_id (td_grants db)" by (rule txn_invD [OF assms(1)])
  have s1: "txn_step db ?db1" by (rule expire_grant_step [OF assms(1)])
  have u1: "unique_key gr_id (td_grants ?db1)" by (rule txn_invD [OF txn_step_inv [OF s1 assms(1)]])
  show ?thesis
  proof (cases "sql_rowcount ?p (td_grants ?db1) = 1")
    case False
    then have "state_after db (start_reserved e q r db) = ?db1"
      using reserve_nothing [OF u1 False] by (simp add: start_reserved_def state_after_def set_grants_def Let_def)
    then show ?thesis using s1 by simp
  next
    case True
    then obtain g1 where g1: "tbl_look gr_id (td_grants ?db1) ?i = Some g1" "?p g1"
      using sql_rowcount_look [OF u1, of ?p ?i] by (auto simp: reservable_def)
    have e1: "?db1 = db" by (rule expire_then_reservable [OF u g1])
    have "g1 = g" using g1(1) assms(2) e1 by simp
    with g1 have g: "?p g" by simp
    have rows: "sql_update ?p ?f (td_grants db) = tbl_upd gr_id ?i (\<lambda>_. ?f g) (td_grants db)"
      using sql_update_one [OF u, of ?p ?i g ?f] tbl_upd_const [OF u assms(2), of ?f] assms(2) g
      by (simp add: reservable_def)
    have r: "tbl_look dr_id (td_drafts db) (dr_id r) = Some r"
      using sql_first_Some_iff [of _ "td_drafts db" r] assms(8) txn_invD(1) [OF assms(1)]
      by (auto simp: draft_in_def tbl_look_Some_iff)
    show ?thesis
    proof (cases "ta_id ?t \<in> ta_id ` set (td_attempts db)")
      case True
      then have "state_after db (start_reserved e q r db) = db"
        using \<open>sql_rowcount ?p (td_grants ?db1) = 1\<close> e1
        by (simp add: start_reserved_def state_after_def set_grants_def Let_def sql_insert_def)
      then show ?thesis by (simp add: txn_step.stay)
    next
      case False
      then have st: "state_after db (start_reserved e q r db) = db\<lparr>td_grants := tbl_upd gr_id ?i (\<lambda>_. ?f g) (td_grants db),
          td_attempts := td_attempts db @ [?t],
          td_drafts := tbl_upd dr_id (dr_id r) (\<lambda>_. committing_draft e q r) (td_drafts db)\<rparr>"
        using \<open>sql_rowcount ?p (td_grants ?db1) = 1\<close> e1 rows
          tbl_upd_const [OF txn_invD(1) [OF assms(1)] r, of "committing_draft e q"]
        by (simp add: start_reserved_def state_after_def set_grants_def Let_def sql_insert_def)
      have t: "ta_id ?t = ar_attempt q" "ta_key ?t = ar_key q" "ta_state ?t = ''STARTED''" "attempt_scope ?t = ar_scope q"
        "ta_revision ?t = ar_revision q" "ta_digest ?t = ar_digest q" "ta_grant ?t = ?i"
        by (simp_all add: new_attempt_def attempt_scope_def)
      have c: "draft_scope (committing_draft e q r) = draft_scope r" "dr_revision (committing_draft e q r) = ar_revision q"
        "dr_digest (committing_draft e q r) = ar_digest q" "dr_attempt (committing_draft e q r) = Some (ar_attempt q)"
        "draft_state_of (committing_draft e q r) = DRAFT_COMMITTING"
        by (simp_all add: committing_draft_def draft_scope_def draft_state_of_def read_draft_state_def draft_states_def
            py_upper_def upper_char_def)
      have "authorised_by ?t g"
        using assms(4-6) tbl_look_key [OF assms(2)] t by (simp add: authorised_by_def)
      then show ?thesis
        unfolding st using assms(3,7,9-12) r t c False
        by (intro txn_step.reserve [OF assms(2) _ _ _ _ _ _ _ _ r])
          (simp_all add: tbl_look_None_iff)
    qed
  qed
qed

lemma reserve_step:
  assumes "txn_inv db"
  shows "txn_step db (state_after db (reserve_grant_and_start_attempt e q db))"
proof (cases "tbl_look ta_key (td_attempts db) (ar_key q)")
  case (Some t)
  then show ?thesis by (simp add: reserve_grant_and_start_attempt_def state_after_def Let_def txn_step.stay)
next
  case None
  let ?g = "tbl_look gr_id (td_grants db) (ar_grant q)"
  let ?r = "draft_in (ar_scope q) db"
  show ?thesis
  proof (cases "grant_reservation_decision ?g ?r (ar_scope q) (ar_revision q) (ar_digest q)")
    case (Inl why)
    then show ?thesis using None revoke_issued_step [OF assms]
      by (simp add: reserve_grant_and_start_attempt_def state_after_def Let_def txn_step.stay)
  next
    case (Inr why)
    then obtain g r where g: "?g = Some g" "gr_state g = ISSUED" "grant_scope g = ar_scope q" "gr_revision g = ar_revision q"
      "gr_digest g = ar_digest q" and r: "?r = Some r" "draft_scope r = ar_scope q"
      "draft_state_of r = DRAFT_AWAITING_AUTHORIZATION" "dr_revision r = ar_revision q" "dr_digest r = ar_digest q"
      using reservation_decision_Inr by blast
    have st: "txn_step db (state_after db (start_reserved e q r db))"
      by (rule start_reserved_step [OF assms g None r])
    let ?d = "draft_persistence_update_decision (Some r) (r\<lparr>dr_state := ''COMMITTING'', dr_revision := ar_revision q,
        dr_digest := ar_digest q, dr_projection := if_some (ar_projection q) (dr_projection r)\<rparr>)"
    show ?thesis
    proof (cases ?d)
      case (Inl w)
      then show ?thesis using None Inr r(1) revoke_issued_step [OF assms]
        by (simp add: reserve_grant_and_start_attempt_def state_after_def Let_def)
    next
      case (Inr w)
      then have "reserve_grant_and_start_attempt e q db = start_reserved e q r db"
        using None \<open>grant_reservation_decision ?g ?r (ar_scope q) (ar_revision q) (ar_digest q) = Inr why\<close> r(1)
        by (simp add: reserve_grant_and_start_attempt_def Let_def)
      then show ?thesis using st by simp
    qed
  qed
qed

lemma txn_apply_step: "txn_inv db \<Longrightarrow> txn_step db (txn_apply e call db)"
  by (cases call)
    (simp_all add: create_draft_step advance_draft_step record_receipt_step issue_grant_step reserve_step
      consume_grant_step revoke_grant_step start_attempt_step transition_attempt_step)

section \<open>Runs\<close>

inductive txn_run :: "txn_db \<Rightarrow> txn_db \<Rightarrow> bool" for db where
  start: "txn_run db db"
| call: "txn_run db db' \<Longrightarrow> txn_run db (txn_apply e c db')"

definition empty_txn :: txn_db where
  "empty_txn = \<lparr>td_drafts = [], td_grants = [], td_attempts = [], td_receipts = []\<rparr>"

lemma empty_txn_inv: "txn_inv empty_txn"
  by (simp add: txn_inv_def txn_keys_def receipts_bound_def attempts_closed_def grants_bound_def empty_txn_def unique_key_def)

lemma txn_run_inv: "txn_run db db' \<Longrightarrow> txn_inv db \<Longrightarrow> txn_inv db'"
  by (induction rule: txn_run.induct) (auto intro: txn_step_inv txn_apply_step)

lemma txn_run_induct_step:
  assumes "txn_run db db'" and "txn_inv db" and "P db"
    and "\<And>x y. txn_inv x \<Longrightarrow> P x \<Longrightarrow> txn_step x y \<Longrightarrow> P y"
  shows "P db'"
  using assms(1)
proof induction
  case (call db' e c)
  have inv: "txn_inv db'" using call(1) assms(2) by (rule txn_run_inv)
  then show ?case using assms(4) [OF inv call.IH txn_apply_step [OF inv]] by simp
qed (rule assms(3))

end
