(* ===== verification/Txn_Offer.thy ===== *)
theory Txn_Offer
  imports Txn_Draft "HOL-Library.Monad_Syntax"
begin

text \<open>
  The offer, the untyped dict that carries a draft through the conversation
  (\<open>operations/draft.py\<close> from \<open>_clean\<close> on, and the identities \<open>transaction/coordinator.py\<close>
  derives from it). A step that may raise gives \<open>None\<close> where it does. \<open>dict(x)\<close> is read for
  dicts and falsy values only: the payloads hold no list of pairs in such a place. SHA-256 is
  the argument \<open>sha\<close>, from text to hex digest.
\<close>

section \<open>Reading fields\<close>

text \<open>\<open>str(v or default)\<close> and \<open>int(v or default)\<close>.\<close>

definition text_or :: "pyval \<Rightarrow> string \<Rightarrow> string" where
  "text_or v d = (if truthy v then py_str v else d)"

definition int_or :: "pyval \<Rightarrow> int \<Rightarrow> int option" where
  "int_or v d = (if truthy v then py_int v else Some d)"

text \<open>\<open>v if isinstance(v, dict) else {}\<close>.\<close>

definition dict_if :: "pyval \<Rightarrow> pydict" where
  "dict_if v = (case as_pydict v of None \<Rightarrow> [] | Some d \<Rightarrow> d)"

definition has_key :: "string \<Rightarrow> pydict \<Rightarrow> bool" where
  "has_key k d = (map_of d k \<noteq> None)"

section \<open>The canonical command\<close>

fun clean :: "pyval \<Rightarrow> pyval" where
  "clean (PDict d) = PDict (map (\<lambda>(k, v). (k, clean v)) d)"
| "clean (PList xs) = PList (map clean xs)"
| "clean v = v"

definition clean_dict :: "pydict \<Rightarrow> pyval" where
  "clean_dict d = clean (PDict d)"

definition canonical_json :: "pyval \<Rightarrow> string" where
  "canonical_json v = json_dump '','' '':'' (sort_keys (clean v))"

text \<open>The command of an offer that carries a business command envelope.\<close>

definition envelope_command :: "pydict \<Rightarrow> pydict \<Rightarrow> pydict option" where
  "envelope_command offer env = do {
     target \<leftarrow> dict_or_empty (dget env ''target'');
     payload \<leftarrow> (case as_pydict (dget env ''input'') of
       Some d \<Rightarrow> Some d | None \<Rightarrow> dict_or_empty (dget env ''payload''));
     actor \<leftarrow> dict_or_empty (dget env ''actor_scope'');
     Some
      [(''contract'', PStr (text_or (dget env ''contract'') ''business_adapter.commit@1'')),
       (''method'', PStr (text_or (dget env ''method'') ''POST'')),
       (''path'', PStr (text_of (dget env ''path''))),
       (''action_id'', PStr (text_of (py_or (dget env ''action_id'') (dget offer ''action_id'')))),
       (''operation'', PStr (text_of (py_or (dget env ''operation'') (dget offer ''operation'')))),
       (''target'', clean_dict target),
       (''payload'', clean_dict payload),
       (''actor_scope'', clean_dict actor)] }"

text \<open>The command of an offer without one.\<close>

definition plain_command :: "pydict \<Rightarrow> pydict option" where
  "plain_command offer = do {
     values' \<leftarrow> dict_or_empty (dget offer ''input_values'');
     scope \<leftarrow> dict_or_empty (dget offer ''scope'');
     capability \<leftarrow> dict_or_empty (dget offer ''operation_capability_snapshot'');
     let preview = dict_if (dget offer ''preview'');
     let snapshot = dict_if (dget preview ''snapshot'');
     Some
      [(''tenant_id'', PStr (text_or (dget scope ''tenant_id'') ''default'')),
       (''user_id'', PStr (text_of (dget scope ''user_id''))),
       (''thread_id'', PStr (text_of (dget scope ''thread_id''))),
       (''action_id'', PStr (text_of (dget offer ''action_id''))),
       (''operation'', PStr (text_of (dget offer ''operation''))),
       (''target_handle'', PStr (text_of (dget offer ''target_handle''))),
       (''operation_capability'', clean_dict capability),
       (''input_values'', clean_dict values'),
       (''expected_version'', dget values' ''expected_version''),
       (''policy_snapshot'', PDict
          [(''decision'', PStr (text_of (dget preview ''decision''))),
           (''snapshot_version'', dget snapshot ''version''),
           (''policy_version'', dget preview ''policy_version'')])] }"

definition canonical_command_payload :: "pydict \<Rightarrow> pydict option" where
  "canonical_command_payload offer =
    (let env = dict_if (dget offer ''business_command_envelope'') in
     if env \<noteq> [] then envelope_command offer env else plain_command offer)"

definition command_digest_for_offer :: "(string \<Rightarrow> string) \<Rightarrow> pydict \<Rightarrow> string option" where
  "command_digest_for_offer sha offer =
     map_option (\<lambda>p. sha (canonical_json (PDict p))) (canonical_command_payload offer)"

section \<open>Normalising an offer\<close>

definition offer_state :: "pydict \<Rightarrow> draft_state" where
  "offer_state offer = read_draft_state (text_of (dget offer ''draft_state''))"

definition with_identity :: "pydict \<Rightarrow> pydict" where
  "with_identity row =
     dset ''draft_state'' (PStr (draft_state_text (offer_state row)))
      (dset ''transaction_contract_version'' (PInt 1)
       (dset ''transaction_schema_version'' (PInt 2)
        (dset ''draft_id'' (PStr (text_of (py_or (dget row ''draft_id'') (dget row ''handle'')))) row)))"

text \<open>The revision and whether the effect-bearing payload changed.\<close>

definition next_revision :: "pydict \<Rightarrow> pydict option \<Rightarrow> pydict \<Rightarrow> pydict \<Rightarrow> (int \<times> bool) option" where
  "next_revision row prior old new = do {
     let p = (case prior of None \<Rightarrow> [] | Some d \<Rightarrow> d);
     revision \<leftarrow> int_or (py_or (dget row ''draft_revision'') (dget p ''draft_revision'')) 1;
     if p \<noteq> [] \<and> \<not> py_eq (PDict old) (PDict new) then do {
       prior' \<leftarrow> int_or (dget p ''draft_revision'') 1;
       given \<leftarrow> int_or (dget row ''draft_revision'') 0;
       known \<leftarrow> int_or (dget p ''draft_revision'') 0;
       Some (max (prior' + 1) (revision + (if given > known then 0 else 1)), True) }
     else Some (revision, False) }"

definition ensure_transaction_draft :: "(string \<Rightarrow> string) \<Rightarrow> pydict option \<Rightarrow> pydict \<Rightarrow> pydict option" where
  "ensure_transaction_draft sha prior offer =
    (if text_of (dget offer ''kind'') \<noteq> ''offer'' then Some offer
     else do {
       let row = with_identity offer;
       old \<leftarrow> (case prior of None \<Rightarrow> Some [] | Some p \<Rightarrow> if p = [] then Some [] else canonical_command_payload p);
       new \<leftarrow> canonical_command_payload row;
       (revision, changed) \<leftarrow> next_revision row prior old new;
       let row1 = (if changed then dset ''active_grant_id'' PNone
             (dset ''grant_invalidated_reason'' (PStr ''effect_bearing_payload_changed'') row) else row);
       let row2 = dset ''command_payload'' (PDict new) (dset ''draft_revision'' (PInt (max 1 revision)) row1);
       digest \<leftarrow> command_digest_for_offer sha row2;
       Some (ddel ''action_state'' (ddel ''status'' (dset ''command_digest'' (PStr digest) row2))) })"

definition transition_draft :: "(string \<Rightarrow> string) \<Rightarrow> pydict \<Rightarrow> string \<Rightarrow> string option \<Rightarrow> pydict option \<Rightarrow> pydict option" where
  "transition_draft sha offer state reason prior =
    (let s = py_upper state in
     if map_of draft_states s = None then None
     else
       let row = ddel ''action_state'' (ddel ''status'' (dset ''draft_state'' (PStr s) offer)) in
       ensure_transaction_draft sha prior
         (if truthy_str reason then dset ''draft_state_reason'' (opt_val reason) row else row))"

definition is_reusable_draft :: "pydict \<Rightarrow> bool" where
  "is_reusable_draft offer =
     (py_upper (text_of (dget offer ''draft_state'')) \<in> {''NEEDS_INPUT'', ''READY'', ''AWAITING_AUTHORIZATION''})"

definition is_cancellable_draft :: "pydict \<Rightarrow> bool" where
  "is_cancellable_draft offer =
     (py_upper (text_of (dget offer ''draft_state''))
        \<in> {''NEEDS_INPUT'', ''READY'', ''AWAITING_AUTHORIZATION'', ''REQUIRES_REVIEW''})"

section \<open>Command identity\<close>

definition offer_draft_id :: "pydict \<Rightarrow> string" where
  "offer_draft_id offer = text_of (py_or (dget offer ''draft_id'') (dget offer ''handle''))"

definition offer_digest :: "(string \<Rightarrow> string) \<Rightarrow> pydict \<Rightarrow> string option" where
  "offer_digest sha offer =
    (if truthy (dget offer ''command_digest'') then Some (py_str (dget offer ''command_digest''))
     else command_digest_for_offer sha offer)"

definition stable_command_id :: "(string \<Rightarrow> string) \<Rightarrow> pydict \<Rightarrow> pydict \<Rightarrow> string option" where
  "stable_command_id sha state offer = map_option (\<lambda>digest. ''cmd:'' @ sha (join_with '':''
     [''customer-agent-command'', ''command@1'', text_or (dget state ''current_tenant_id'') ''default'',
      text_of (dget state ''current_user_id''), offer_draft_id offer, digest])) (offer_digest sha offer)"

definition stable_idempotency_key :: "(string \<Rightarrow> string) \<Rightarrow> pydict \<Rightarrow> pydict \<Rightarrow> string option" where
  "stable_idempotency_key sha state offer = do {
     command_id \<leftarrow> (if truthy (dget offer ''command_id'') then Some (py_str (dget offer ''command_id''))
       else stable_command_id sha state offer);
     Some (sha (join_with '':'' [''customer-agent-idempotency'', ''idempotency@1'', command_id])) }"

section \<open>Equal commands have equal digests\<close>

lemma clean_id [simp]: "clean v = v"
proof (induction v)
  case (PDict d)
  have "map (\<lambda>(k, v). (k, clean v)) d = map id d"
    using PDict.IH by (intro map_cong) auto
  then show ?case by simp
next
  case (PList xs)
  then show ?case by (simp add: map_idI)
qed simp_all

lemma clean_dict_PDict [simp]: "clean_dict d = PDict d"
  by (simp add: clean_dict_def del: clean.simps)

text \<open>
  A bool equals the integer it stands for but is written differently, so the two notions
  agree on values without bools.
\<close>

fun bool_free :: "pyval \<Rightarrow> bool" where
  "bool_free (PBool b) = False"
| "bool_free (PList xs) = list_all bool_free xs"
| "bool_free (PDict d) = list_all (\<lambda>(k, v). bool_free v) d"
| "bool_free v = True"

lemma sorted_items_unique:
  fixes d d' :: "(string \<times> 'a) list"
  assumes "distinct (map fst d)" and "distinct (map fst d')"
  shows "sort_key fst d = sort_key fst d' \<longleftrightarrow> set d = set d'"
proof
  assume "set d = set d'"
  moreover from this have "inj_on fst (set (sort_key fst d) \<union> set (sort_key fst d'))"
    using assms(1) by (simp add: distinct_map)
  ultimately show "sort_key fst d = sort_key fst d'"
    using assms by (intro map_sorted_distinct_set_unique [of fst]) (simp_all add: distinct_sorted_keys)
next
  assume "sort_key fst d = sort_key fst d'"
  then have "set (sort_key fst d) = set (sort_key fst d')" by (rule arg_cong)
  then show "set d = set d'" by simp
qed

lemma same_items:
  assumes "distinct (map fst d)" and "distinct (map fst d')" and "length d = length d'"
    and "\<And>k v. (k, v) \<in> set d \<Longrightarrow> \<exists>v'. (k, v') \<in> set d' \<and> f v = f v'"
  shows "(\<lambda>(k, v). (k, f v)) ` set d = (\<lambda>(k, v). (k, f v)) ` set d'"
proof (rule card_subset_eq)
  show "(\<lambda>(k, v). (k, f v)) ` set d \<subseteq> (\<lambda>(k, v). (k, f v)) ` set d'"
    using assms(4) by force
  have card: "card ((\<lambda>(k, v). (k, f v)) ` set x) = length x" if "distinct (map fst x)" for x :: "('a \<times> 'b) list"
  proof -
    have "inj_on (\<lambda>(k, v). (k, f v)) (set x)"
      using that by (auto simp: inj_on_def dest: eq_key_imp_eq_value)
    then show ?thesis using that by (simp add: card_image distinct_card distinct_map)
  qed
  show "card ((\<lambda>(k, v). (k, f v)) ` set d) = card ((\<lambda>(k, v). (k, f v)) ` set d')"
    using assms(1-3) by (simp add: card)
qed simp

lemma sort_keys_eq_dict:
  assumes "distinct (map fst d)" and "distinct (map fst d')"
  shows "sort_keys (PDict d) = sort_keys (PDict d') \<longleftrightarrow>
    (\<lambda>(k, v). (k, sort_keys v)) ` set d = (\<lambda>(k, v). (k, sort_keys v)) ` set d'"
proof -
  let ?f = "\<lambda>(k, v). (k, sort_keys v)"
  have keys: "map fst (map ?f x) = map fst x" for x :: pydict by (induction x) auto
  show ?thesis using sorted_items_unique [of "map ?f d" "map ?f d'", unfolded keys, OF assms] by simp
qed

lemma num_of_cases: "num_of v = Some n \<Longrightarrow> bool_free v \<Longrightarrow> v = PInt n"
  by (cases v) (auto simp: num_of_def)

lemma map_of_item: "distinct (map fst d) \<Longrightarrow> map_of d k = Some v \<longleftrightarrow> (k, v) \<in> set d"
  by simp

lemma py_eq_same_json:
  "well_formed v \<Longrightarrow> well_formed w \<Longrightarrow> bool_free v \<Longrightarrow> bool_free w \<Longrightarrow> py_eq v w \<Longrightarrow> sort_keys v = sort_keys w"
proof (induction v arbitrary: w)
  case (PList xs)
  then obtain ys where w: "w = PList ys" "length xs = length ys"
    "\<And>i. i < length xs \<Longrightarrow> py_eq (xs ! i) (ys ! i)"
    by (cases w) (auto simp: list_all_length)
  have "sort_keys (xs ! i) = sort_keys (ys ! i)" if "i < length xs" for i
    using PList.IH [of "xs ! i" "ys ! i"] PList.prems w that by (auto simp: list_all_length)
  then show ?case using w by (auto intro: nth_equalityI)
next
  case (PDict d)
  then obtain d' where w: "w = PDict d'" "length d = length d'"
    and items: "\<And>k v. (k, v) \<in> set d \<Longrightarrow> \<exists>v'. map_of d' k = Some v' \<and> py_eq v v'"
    by (cases w) (fastforce simp: list_all_iff split: option.splits)+
  have dist: "distinct (map fst d)" "distinct (map fst d')" using PDict.prems w by auto
  have "\<exists>v'. (k, v') \<in> set d' \<and> sort_keys v = sort_keys v'" if kv: "(k, v) \<in> set d" for k v
  proof -
    obtain v' where v': "(k, v') \<in> set d'" "py_eq v v'" using items [OF kv] dist(2) by auto
    have "sort_keys v = sort_keys v'"
      using PDict.prems w v' kv by (intro PDict.IH [OF kv]) (auto simp: list_all_iff)
    with v'(1) show ?thesis by blast
  qed
  then have "sort_keys (PDict d) = sort_keys (PDict d')"
    unfolding sort_keys_eq_dict [OF dist] by (rule same_items [OF dist w(2)])
  then show ?case using w by simp
qed (auto simp: num_of_def split: pyval.splits bool.splits)

lemma same_json_py_eq:
  "well_formed v \<Longrightarrow> well_formed w \<Longrightarrow> sort_keys v = sort_keys w \<Longrightarrow> py_eq v w"
proof (induction v arbitrary: w)
  case (PList xs)
  then obtain ys where w: "w = PList ys" "map sort_keys xs = map sort_keys ys" by (cases w) auto
  have len: "length xs = length ys" using w(2) by (rule map_eq_imp_length_eq)
  have "py_eq (xs ! i) (ys ! i)" if "i < length xs" for i
  proof (rule PList.IH)
    show "sort_keys (xs ! i) = sort_keys (ys ! i)"
      using arg_cong [OF w(2), of "\<lambda>l. l ! i"] that len by simp
  qed (use PList.prems w len that in \<open>auto simp: list_all_length\<close>)
  then show ?case using w len by (auto simp: list_all_length)
next
  case (PDict d)
  then obtain d' where w: "w = PDict d'" by (cases w) auto
  have dist: "distinct (map fst d)" "distinct (map fst d')" using PDict.prems w by auto
  have same: "(\<lambda>(k, v). (k, sort_keys v)) ` set d = (\<lambda>(k, v). (k, sort_keys v)) ` set d'"
    using PDict.prems(3) unfolding w sort_keys_eq_dict [OF dist] .
  have "fst ` set d = fst ` set d'" using arg_cong [OF same, of "image fst"] by (simp add: image_image case_prod_beta)
  then have "length d = length d'" using dist by (metis distinct_card length_map set_map)
  moreover have "\<exists>v'. map_of d' k = Some v' \<and> py_eq v v'" if kv: "(k, v) \<in> set d" for k v
  proof -
    have "(k, sort_keys v) \<in> (\<lambda>(k, v). (k, sort_keys v)) ` set d'"
      unfolding same [symmetric] using kv by (intro image_eqI [of _ _ "(k, v)"]) simp_all
    then obtain v' where v': "(k, v') \<in> set d'" "sort_keys v = sort_keys v'" by auto
    have "py_eq v v'" using PDict.prems w v' kv by (intro PDict.IH [OF kv]) (auto simp: list_all_iff)
    then show ?thesis using v'(1) dist(2) by auto
  qed
  ultimately show ?case using w by (fastforce simp: list_all_iff)
next
  case (PBool b)
  then show ?case by (cases w) (auto simp: num_of_def)
next
  case (PInt i)
  then show ?case by (cases w) (auto simp: num_of_def)
next
  case (PStr x)
  then show ?case by (cases w) (auto simp: num_of_def)
next
  case PNone
  then show ?case by (cases w) (auto simp: num_of_def)
qed

text \<open>On commands without bools, equality and the digested text agree.\<close>

lemma canonical_json_eq_iff:
  assumes "well_formed v" and "well_formed w" and "bool_free v" and "bool_free w"
  shows "canonical_json v = canonical_json w \<longleftrightarrow> py_eq v w"
proof -
  have "separators '','' '':''" by (auto simp: separators_def blank_def json_space_def)
  then have "canonical_json v = canonical_json w \<longleftrightarrow> sort_keys v = sort_keys w"
    unfolding canonical_json_def clean_id using assms(1,2) by (intro json_dump_inj well_formed_sort_keys)
  then show ?thesis using py_eq_same_json [OF assms] same_json_py_eq [OF assms(1,2)] by blast
qed

lemma bool_counts_as_int: "py_eq (PBool True) (PInt 1)" "canonical_json (PBool True) \<noteq> canonical_json (PInt 1)"
  by (simp_all add: num_of_def canonical_json_def str_of_int_def digits_of.simps)

section \<open>What the command depends on\<close>

definition effect_fields :: "string list" where
  "effect_fields = [''business_command_envelope'', ''action_id'', ''operation'', ''input_values'', ''scope'',
     ''operation_capability_snapshot'', ''preview'', ''target_handle'']"

lemma canonical_frame:
  assumes "\<And>k. k \<in> set effect_fields \<Longrightarrow> dget o' k = dget o1 k"
  shows "canonical_command_payload o' = canonical_command_payload o1"
proof -
  have "dget o' ''business_command_envelope'' = dget o1 ''business_command_envelope''"
    "dget o' ''action_id'' = dget o1 ''action_id''" "dget o' ''operation'' = dget o1 ''operation''"
    "dget o' ''input_values'' = dget o1 ''input_values''" "dget o' ''scope'' = dget o1 ''scope''"
    "dget o' ''operation_capability_snapshot'' = dget o1 ''operation_capability_snapshot''"
    "dget o' ''preview'' = dget o1 ''preview''" "dget o' ''target_handle'' = dget o1 ''target_handle''"
    using assms by (simp_all add: effect_fields_def)
  then show ?thesis
    by (simp only: canonical_command_payload_def envelope_command_def plain_command_def)
qed

definition wf_dict :: "pydict \<Rightarrow> bool" where
  "wf_dict d = well_formed (PDict d)"

lemma wf_dict_Nil [simp]: "wf_dict []"
  by (simp add: wf_dict_def)

lemma wf_dict_Cons [simp]:
  "wf_dict ((k, v) # d) \<longleftrightarrow> k \<notin> fst ` set d \<and> well_formed v \<and> wf_dict d"
  by (auto simp: wf_dict_def)

lemma wf_dget: "wf_dict d \<Longrightarrow> well_formed (dget d k)"
  by (auto simp: wf_dict_def dget_def list_all_iff split: option.splits dest!: map_of_SomeD)

lemma wf_dict_or_empty: "dict_or_empty v = Some d \<Longrightarrow> well_formed v \<Longrightarrow> wf_dict d"
  by (cases v) (auto simp: dict_or_empty_def wf_dict_def split: if_splits)

lemma wf_dict_if: "well_formed v \<Longrightarrow> wf_dict (dict_if v)"
  by (cases v) (auto simp: dict_if_def wf_dict_def)

lemma wf_as_pydict: "as_pydict v = Some d \<Longrightarrow> well_formed v \<Longrightarrow> wf_dict d"
  by (cases v) (auto simp: wf_dict_def)

lemma wf_PDict: "well_formed (PDict d) = wf_dict d"
  by (simp add: wf_dict_def)

lemma bind_Some_iff: "Option.bind x f = Some y \<longleftrightarrow> (\<exists>a. x = Some a \<and> f a = Some y)"
  by (cases x) auto

lemma wf_envelope_command:
  assumes "wf_dict env" and "envelope_command offer env = Some p"
  shows "wf_dict p"
proof -
  obtain target payload actor where
    d: "dict_or_empty (dget env ''target'') = Some target" "dict_or_empty (dget env ''actor_scope'') = Some actor"
      "(case as_pydict (dget env ''input'') of Some d \<Rightarrow> Some d | None \<Rightarrow> dict_or_empty (dget env ''payload'')) = Some payload"
    and p: "p = [(''contract'', PStr (text_or (dget env ''contract'') ''business_adapter.commit@1'')),
       (''method'', PStr (text_or (dget env ''method'') ''POST'')), (''path'', PStr (text_of (dget env ''path''))),
       (''action_id'', PStr (text_of (py_or (dget env ''action_id'') (dget offer ''action_id'')))),
       (''operation'', PStr (text_of (py_or (dget env ''operation'') (dget offer ''operation'')))),
       (''target'', PDict target), (''payload'', PDict payload), (''actor_scope'', PDict actor)]"
    using assms(2) by (fastforce simp: envelope_command_def bind_Some_iff)
  have "wf_dict target" "wf_dict actor" "wf_dict payload"
    using d wf_dget [OF assms(1)] by (auto intro: wf_dict_or_empty wf_as_pydict split: option.splits)
  then show ?thesis unfolding p by (simp add: wf_PDict del: well_formed.simps(2))
qed

lemma wf_plain_command:
  assumes "wf_dict offer" and "plain_command offer = Some p"
  shows "wf_dict p"
proof -
  obtain inputs scope cap where
    d: "dict_or_empty (dget offer ''input_values'') = Some inputs" "dict_or_empty (dget offer ''scope'') = Some scope"
      "dict_or_empty (dget offer ''operation_capability_snapshot'') = Some cap"
    using assms(2) by (fastforce simp: plain_command_def bind_Some_iff)
  have wf: "wf_dict inputs" "wf_dict cap" "wf_dict (dict_if (dget offer ''preview''))"
    using d wf_dget [OF assms(1)] by (auto intro: wf_dict_or_empty wf_dict_if)
  have "well_formed (dget inputs ''expected_version'')" "well_formed (dget (dict_if (dget offer ''preview'')) ''policy_version'')"
    "well_formed (dget (dict_if (dget (dict_if (dget offer ''preview'')) ''snapshot'')) ''version'')"
    using wf by (auto intro: wf_dget wf_dict_if)
  then show ?thesis
    using assms(2) d wf by (auto simp: plain_command_def Let_def wf_PDict simp del: well_formed.simps(2))
qed

lemma wf_canonical: "wf_dict offer \<Longrightarrow> canonical_command_payload offer = Some p \<Longrightarrow> wf_dict p"
  by (auto simp: canonical_command_payload_def Let_def split: if_splits
      intro: wf_plain_command wf_envelope_command wf_dict_if wf_dget)


definition sample_offer :: pydict where
  "sample_offer =
    [(''kind'', PStr ''offer''), (''handle'', PStr ''d''), (''draft_state'', PStr ''ready''),
     (''scope'', PDict [(''tenant_id'', PStr ''default''), (''user_id'', PStr ''u''), (''thread_id'', PStr ''th'')]),
     (''action_id'', PStr ''create_refund''), (''operation'', PStr ''APPLY_REFUND''), (''target_handle'', PStr ''h''),
     (''input_values'', PDict [(''reason'', PStr ''broken''), (''expected_version'', PInt 1)]),
     (''preview'', PDict [(''decision'', PStr ''ALLOWED'')]), (''label'', PStr ''Refund''), (''draft_revision'', PInt 1)]"

definition reworded_offer :: pydict where
  "reworded_offer = dset ''label'' (PStr ''Ask for a refund'') sample_offer"

definition changed_offer :: pydict where
  "changed_offer = dset ''input_values'' (PDict [(''reason'', PStr ''late''), (''expected_version'', PInt 1)]) sample_offer"

lemma sample_commands:
  "case (canonical_command_payload sample_offer, canonical_command_payload changed_offer) of
     (Some p, Some p') \<Rightarrow> bool_free (PDict p) \<and> bool_free (PDict p') \<and> \<not> py_eq (PDict p) (PDict p')
   | _ \<Rightarrow> False"
  by code_simp


section \<open>Revisions\<close>

lemma map_of_dset: "map_of (dset k v d) k' = (if k' = k then Some v else map_of d k')"
  by (induction k v d rule: dset.induct) auto

lemma map_of_ddel: "map_of (ddel k d) k' = (if k' = k then None else map_of d k')"
  by (induction k d rule: ddel.induct) auto

lemma dset_same: "map_of d k = Some v \<Longrightarrow> dset k v d = d"
  by (induction k v d rule: dset.induct) (auto split: if_splits)

lemma ddel_absent: "map_of d k = None \<Longrightarrow> ddel k d = d"
  by (induction k d rule: ddel.induct) (auto split: if_splits)

lemma state_text_back [simp]: "read_draft_state (draft_state_text s) = s"
  by (cases s) (simp_all add: read_draft_state_def draft_state_text_def draft_states_def py_upper_def upper_char_def)

text \<open>The row \<open>ensure_transaction_draft\<close> returns for an offer.\<close>

definition ensured_row :: "(string \<Rightarrow> string) \<Rightarrow> pydict \<Rightarrow> pydict \<Rightarrow> int \<Rightarrow> bool \<Rightarrow> pydict" where
  "ensured_row sha offer new revision changed =
    (let row = with_identity offer;
         row1 = (if changed then dset ''active_grant_id'' PNone
             (dset ''grant_invalidated_reason'' (PStr ''effect_bearing_payload_changed'') row) else row);
         row2 = dset ''command_payload'' (PDict new) (dset ''draft_revision'' (PInt (max 1 revision)) row1)
     in ddel ''action_state'' (ddel ''status'' (dset ''command_digest'' (PStr (sha (canonical_json (PDict new)))) row2)))"

lemma dget_identity: "k \<in> set effect_fields \<Longrightarrow> dget (with_identity offer) k = dget offer k"
  by (auto simp: effect_fields_def with_identity_def)

lemma canonical_identity [simp]: "canonical_command_payload (with_identity offer) = canonical_command_payload offer"
  by (rule canonical_frame) (rule dget_identity)

lemma ensured_effects: "k \<in> set effect_fields \<Longrightarrow> dget (ensured_row sha offer new revision changed) k = dget offer k"
  using dget_identity [of k offer] by (auto simp: effect_fields_def ensured_row_def Let_def)

lemma canonical_ensured [simp]:
  "canonical_command_payload (ensured_row sha offer new revision changed) = canonical_command_payload offer"
  by (rule canonical_frame) (rule ensured_effects)

definition prior_command :: "pydict option \<Rightarrow> pydict option" where
  "prior_command prior = (case prior of None \<Rightarrow> Some []
     | Some p \<Rightarrow> if p = [] then Some [] else canonical_command_payload p)"

lemma canonical_rows [simp]:
  "canonical_command_payload (dset ''command_payload'' (PDict new) (dset ''draft_revision'' v row)) = canonical_command_payload row"
  "canonical_command_payload (dset ''active_grant_id'' PNone (dset ''grant_invalidated_reason'' w row)) = canonical_command_payload row"
  by (rule canonical_frame; simp add: effect_fields_def; blast)+

lemma ensure_offer:
  assumes "text_of (dget offer ''kind'') = ''offer''"
  shows "ensure_transaction_draft sha prior offer =
    Option.bind (prior_command prior) (\<lambda>old. Option.bind (canonical_command_payload offer) (\<lambda>new.
      map_option (\<lambda>(revision, changed). ensured_row sha offer new revision changed)
        (next_revision (with_identity offer) prior old new)))"
proof (cases "canonical_command_payload offer")
  case None
  then show ?thesis
    using assms by (cases "prior_command prior") (simp_all add: ensure_transaction_draft_def prior_command_def)
next
  case (Some new)
  show ?thesis
  proof (cases "prior_command prior")
    case None
    then show ?thesis using assms by (simp add: ensure_transaction_draft_def prior_command_def)
  next
    case (Some old)
    show ?thesis
    proof (cases "next_revision (with_identity offer) prior old new")
      case None
      then show ?thesis using assms Some \<open>canonical_command_payload offer = Some new\<close>
        by (simp add: ensure_transaction_draft_def prior_command_def Let_def)
    next
      case (Some rc)
      then show ?thesis
        using assms \<open>prior_command prior = Some old\<close> \<open>canonical_command_payload offer = Some new\<close>
        by (cases rc) (simp add: ensure_transaction_draft_def prior_command_def Let_def ensured_row_def
            command_digest_for_offer_def)
    qed
  qed
qed

lemma ensured_fields:
  "map_of (ensured_row sha offer new revision changed) ''draft_state'' = Some (PStr (draft_state_text (offer_state offer)))"
  "map_of (ensured_row sha offer new revision changed) ''transaction_contract_version'' = Some (PInt 1)"
  "map_of (ensured_row sha offer new revision changed) ''transaction_schema_version'' = Some (PInt 2)"
  "map_of (ensured_row sha offer new revision changed) ''draft_id'' = Some (PStr (offer_draft_id offer))"
  "map_of (ensured_row sha offer new revision changed) ''command_payload'' = Some (PDict new)"
  "map_of (ensured_row sha offer new revision changed) ''draft_revision'' = Some (PInt (max 1 revision))"
  "map_of (ensured_row sha offer new revision changed) ''command_digest'' = Some (PStr (sha (canonical_json (PDict new))))"
  "map_of (ensured_row sha offer new revision changed) ''status'' = None"
  "map_of (ensured_row sha offer new revision changed) ''action_state'' = None"
  "map_of (ensured_row sha offer new revision changed) ''kind'' = map_of offer ''kind''"
  "map_of (ensured_row sha offer new revision changed) ''handle'' = map_of offer ''handle''"
  "map_of (ensured_row sha offer new revision changed) ''active_grant_id'' =
     (if changed then Some PNone else map_of offer ''active_grant_id'')"
  by (simp_all add: ensured_row_def with_identity_def offer_draft_id_def Let_def map_of_dset map_of_ddel)

lemma dget_map_of: "map_of d k = Some v \<Longrightarrow> dget d k = v"
  by (simp add: dget_def)

lemma truthy_text: "truthy v \<Longrightarrow> py_str v \<noteq> []"
proof (cases v)
  case (PInt i)
  have "digits_of n \<noteq> []" for n by (subst digits_of.simps) simp
  then show ?thesis using PInt by (simp add: py_str_def str_of_int_def)
qed (simp_all add: py_str_def)

lemma offer_state_ensured [simp]: "offer_state (ensured_row sha offer new revision changed) = offer_state offer"
  unfolding offer_state_def [of "ensured_row sha offer new revision changed"]
  by (simp add: dget_map_of [OF ensured_fields(1)])

lemma offer_draft_id_ensured [simp]:
  "offer_draft_id (ensured_row sha offer new revision changed) = offer_draft_id offer"
proof -
  let ?r = "ensured_row sha offer new revision changed"
  show ?thesis
  proof (cases "offer_draft_id offer = []")
    case True
    then have "text_of (dget offer ''handle'') = []"
      by (auto simp: offer_draft_id_def py_or_def text_of_def dest: truthy_text split: if_splits)
    moreover have "dget ?r ''handle'' = dget offer ''handle''" by (simp add: dget_def ensured_fields(11))
    ultimately show ?thesis
      using True by (simp add: offer_draft_id_def [of ?r] dget_map_of [OF ensured_fields(4)] py_or_def)
  qed (simp add: offer_draft_id_def [of ?r] dget_map_of [OF ensured_fields(4)] py_or_def)
qed

lemma identity_fixed: "with_identity (ensured_row sha offer new revision changed) = ensured_row sha offer new revision changed"
proof -
  let ?r = "ensured_row sha offer new revision changed"
  have "text_of (py_or (dget ?r ''draft_id'') (dget ?r ''handle'')) = offer_draft_id offer"
    using offer_draft_id_ensured [of sha offer new revision changed] by (simp only: offer_draft_id_def [of ?r])
  then show ?thesis
    by (simp add: with_identity_def dset_same ensured_fields)
qed

text \<open>Normalising a normalised offer changes nothing.\<close>

lemma ensure_fixed:
  assumes "text_of (dget offer ''kind'') = ''offer''" and "ensure_transaction_draft sha prior offer = Some row"
  shows "ensure_transaction_draft sha None row = Some row"
proof -
  obtain old new revision changed where c: "canonical_command_payload offer = Some new"
    "row = ensured_row sha offer new revision changed"
    using assms(2) by (auto simp: ensure_offer [OF assms(1)] bind_Some_iff)
  have kind: "text_of (dget row ''kind'') = ''offer''"
    using assms(1) by (simp add: c(2) dget_def ensured_fields)
  have "next_revision row None [] new = Some (max 1 revision, False)"
    by (simp add: c(2) next_revision_def int_or_def py_or_def dget_map_of [OF ensured_fields(6)])
  moreover have "ensured_row sha row new (max 1 revision) False = row"
    unfolding ensured_row_def [of sha row] Let_def
    by (simp add: c(2) identity_fixed dset_same ddel_absent ensured_fields)
  moreover have "with_identity row = row" "canonical_command_payload row = Some new"
    by (simp_all add: c identity_fixed)
  ultimately show ?thesis by (simp add: ensure_offer [OF kind] prior_command_def)
qed

text \<open>The fields normalisation writes; it leaves every other one alone.\<close>

definition normal_fields :: "string list" where
  "normal_fields = [''draft_id'', ''transaction_schema_version'', ''transaction_contract_version'', ''draft_state'',
     ''draft_revision'', ''command_payload'', ''command_digest'', ''status'', ''action_state'', ''active_grant_id'',
     ''grant_invalidated_reason'']"

lemma ensure_frame:
  assumes "ensure_transaction_draft sha prior offer = Some row" and "k \<notin> set normal_fields"
  shows "dget row k = dget offer k"
proof (cases "text_of (dget offer ''kind'') = ''offer''")
  case True
  then obtain new revision changed where "row = ensured_row sha offer new revision changed"
    using assms(1) by (auto simp: ensure_offer bind_Some_iff)
  then show ?thesis
    using assms(2) by (simp add: normal_fields_def ensured_row_def with_identity_def Let_def)
qed (use assms in \<open>simp add: ensure_transaction_draft_def\<close>)

lemma ensure_state:
  assumes "ensure_transaction_draft sha prior offer = Some row" and "text_of (dget offer ''kind'') = ''offer''"
  shows "dget row ''draft_state'' = PStr (draft_state_text (offer_state offer))"
  using assms by (auto simp: ensure_offer bind_Some_iff dget_map_of [OF ensured_fields(1)])

lemma ensure_draft_id:
  assumes "ensure_transaction_draft sha prior offer = Some row"
  shows "offer_draft_id row = offer_draft_id offer"
proof (cases "text_of (dget offer ''kind'') = ''offer''")
  case True
  then obtain new revision changed where "row = ensured_row sha offer new revision changed"
    using assms by (auto simp: ensure_offer bind_Some_iff)
  then show ?thesis by simp
qed (use assms in \<open>simp add: ensure_transaction_draft_def\<close>)

lemma transition_frame:
  assumes "transition_draft sha offer state reason prior = Some row"
    and "k \<notin> set normal_fields" and "k \<noteq> ''draft_state_reason''"
  shows "dget row k = dget offer k"
proof -
  let ?o = "ddel ''action_state'' (ddel ''status'' (dset ''draft_state'' (PStr (py_upper state)) offer))"
  let ?o' = "if truthy_str reason then dset ''draft_state_reason'' (opt_val reason) ?o else ?o"
  have "ensure_transaction_draft sha prior ?o' = Some row"
    using assms(1) by (auto simp: transition_draft_def Let_def split: if_splits)
  from ensure_frame [OF this assms(2)] show ?thesis
    using assms(2,3) by (auto simp: normal_fields_def split: if_splits)
qed

lemma upper_state_text [simp]: "py_upper (draft_state_text s) = draft_state_text s"
  by (cases s) (simp_all add: draft_state_text_def draft_states_def py_upper_def upper_char_def)

lemma known_state_text [simp]: "map_of draft_states (draft_state_text s) = Some s"
  by (cases s) (simp_all add: draft_state_text_def draft_states_def)

lemma transition_draft_id:
  assumes "transition_draft sha offer state reason prior = Some row"
  shows "offer_draft_id row = offer_draft_id offer"
proof -
  let ?o = "ddel ''action_state'' (ddel ''status'' (dset ''draft_state'' (PStr (py_upper state)) offer))"
  let ?o' = "if truthy_str reason then dset ''draft_state_reason'' (opt_val reason) ?o else ?o"
  have "ensure_transaction_draft sha prior ?o' = Some row"
    using assms by (auto simp: transition_draft_def Let_def split: if_splits)
  from ensure_draft_id [OF this] show ?thesis by (simp add: offer_draft_id_def)
qed

text \<open>An offer with a readable command and revision can enter every state.\<close>

lemma transition_succeeds:
  assumes "text_of (dget offer ''kind'') = ''offer''" and "canonical_command_payload offer \<noteq> None"
    and "int_or (dget offer ''draft_revision'') 1 \<noteq> None"
  shows "transition_draft sha offer (draft_state_text s) reason None \<noteq> None"
proof -
  let ?o = "ddel ''action_state'' (ddel ''status'' (dset ''draft_state'' (PStr (draft_state_text s)) offer))"
  let ?o' = "if truthy_str reason then dset ''draft_state_reason'' (opt_val reason) ?o else ?o"
  have kind: "text_of (dget ?o' ''kind'') = ''offer''" using assms(1) by simp
  have "canonical_command_payload ?o' = canonical_command_payload offer"
    by (rule canonical_frame) (auto simp: effect_fields_def)
  moreover have "next_revision (with_identity ?o') None [] new \<noteq> None" for new
    using assms(3) by (auto simp: next_revision_def with_identity_def py_or_def int_or_def bind_eq_None_conv split: if_splits)
  ultimately show ?thesis
    using assms(2) by (auto simp: transition_draft_def ensure_offer [OF kind] prior_command_def Let_def bind_eq_None_conv)
qed

lemma transition_state:
  assumes "transition_draft sha offer (draft_state_text s) reason prior = Some row"
    and "text_of (dget offer ''kind'') = ''offer''"
  shows "dget row ''draft_state'' = PStr (draft_state_text s)"
    and "ensure_transaction_draft sha None row = Some row"
proof -
  let ?o = "ddel ''action_state'' (ddel ''status'' (dset ''draft_state'' (PStr (draft_state_text s)) offer))"
  let ?o' = "if truthy_str reason then dset ''draft_state_reason'' (opt_val reason) ?o else ?o"
  have e: "ensure_transaction_draft sha prior ?o' = Some row"
    using assms(1) by (auto simp: transition_draft_def Let_def split: if_splits)
  have k: "text_of (dget ?o' ''kind'') = ''offer''" using assms(2) by simp
  have "offer_state ?o' = s" by (simp add: offer_state_def)
  then show "dget row ''draft_state'' = PStr (draft_state_text s)" using ensure_state [OF e k] by simp
  show "ensure_transaction_draft sha None row = Some row" by (rule ensure_fixed [OF k e])
qed

text \<open>
  Normalising an update of an offer keeps revision, command and digest in step: the
  digest is the one of the command it stores; when the command differs from the previous one
  the revision grows beyond the previous revision and the grant is dropped, and otherwise the
  given revision and the grant stay. The state is kept, and normalising again changes nothing.
\<close>

theorem draft_revision_law:
  assumes "text_of (dget offer ''kind'') = ''offer''" and "prior \<noteq> []"
    and "ensure_transaction_draft sha (Some prior) offer = Some row"
  shows "\<exists>old new rev. canonical_command_payload prior = Some old \<and> canonical_command_payload offer = Some new
     \<and> dget row ''command_payload'' = PDict new \<and> Some (dget row ''command_digest'') = map_option PStr (command_digest_for_offer sha row)
     \<and> dget row ''draft_revision'' = PInt rev \<and> 1 \<le> rev \<and> offer_state row = offer_state offer
     \<and> (if py_eq (PDict old) (PDict new)
        then map_option (max 1) (int_or (py_or (dget offer ''draft_revision'') (dget prior ''draft_revision'')) 1) = Some rev
          \<and> dget row ''active_grant_id'' = dget offer ''active_grant_id''
        else (\<exists>r. int_or (dget prior ''draft_revision'') 1 = Some r \<and> r < rev) \<and> dget row ''active_grant_id'' = PNone)
     \<and> ensure_transaction_draft sha None row = Some row"
proof -
  obtain old new revision changed where c: "canonical_command_payload prior = Some old"
    "canonical_command_payload offer = Some new" "next_revision (with_identity offer) (Some prior) old new = Some (revision, changed)"
    "row = ensured_row sha offer new revision changed"
    using assms(2,3) by (auto simp: ensure_offer [OF assms(1)] bind_Some_iff prior_command_def)
  have rev0: "dget (with_identity offer) ''draft_revision'' = dget offer ''draft_revision''"
    by (simp add: with_identity_def)
  have step: "if py_eq (PDict old) (PDict new)
      then int_or (py_or (dget offer ''draft_revision'') (dget prior ''draft_revision'')) 1 = Some revision \<and> \<not> changed
      else changed \<and> (\<exists>r. int_or (dget prior ''draft_revision'') 1 = Some r \<and> r < revision)"
    using c(3) assms(2) by (auto simp: next_revision_def bind_Some_iff Let_def rev0 split: if_splits)
  have "offer_state row = offer_state offer" by (simp add: c(4))
  moreover have "Some (dget row ''command_digest'') = map_option PStr (command_digest_for_offer sha row)"
    by (simp add: command_digest_for_offer_def c(2,4) dget_map_of [OF ensured_fields(7)])
  moreover have "dget row ''active_grant_id'' = (if changed then PNone else dget offer ''active_grant_id'')"
    by (simp add: c(4) dget_def ensured_fields)
  ultimately show ?thesis
    using step ensure_fixed [OF assms(1,3)] c(1,2)
    by (intro exI [of _ old] exI [of _ new] exI [of _ "max 1 revision"])
      (auto simp: c(4) dget_map_of [OF ensured_fields(5)] dget_map_of [OF ensured_fields(6)])
qed

theorem draft_revision_law_witness:
  "\<exists>row rev. ensure_transaction_draft (\<lambda>t. t) (Some sample_offer) changed_offer = Some row
     \<and> dget row ''draft_revision'' = PInt rev \<and> 1 < rev"
proof -
  obtain row where row: "ensure_transaction_draft (\<lambda>t. t) (Some sample_offer) changed_offer = Some row"
    using sample_commands
    by (auto simp: ensure_offer prior_command_def next_revision_def int_or_def py_or_def with_identity_def
        sample_offer_def changed_offer_def split: option.splits)
  then show ?thesis
    using draft_revision_law [OF _ _ row] sample_commands
    by (auto simp: sample_offer_def changed_offer_def int_or_def split: option.splits)
qed

end
