(* ===== verification/Ledger.thy ===== *)
theory Ledger
  imports Txn_Offer "HOL-Library.AList" "HOL-Library.Multiset"
begin

text \<open>
  \<open>ledger/ledger.py\<close>: the artifact ledger of a conversation. An entry is an untyped dict; the
  ledger is a list of them, normalised on every read and every append. A call reads the clock
  once; time and the other numbers of an entry are integers. A fresh handle is an argument.
\<close>

definition MAX_LEDGER_ENTRIES :: nat where "MAX_LEDGER_ENTRIES = 200"
definition ACTIVE_OFFER_SECONDS :: int where "ACTIVE_OFFER_SECONDS = 10 * 60"
definition VIEW_SECONDS :: int where "VIEW_SECONDS = 2 * 60 * 60"
definition RESULT_SECONDS :: int where "RESULT_SECONDS = 2 * 60 * 60"
definition ARTIFACT_SECONDS :: int where "ARTIFACT_SECONDS = 2 * 60 * 60"

section \<open>Scopes\<close>

definition execution_scope_for_state :: "pydict \<Rightarrow> pydict" where
  "execution_scope_for_state state =
    [(''tenant_id'', PStr (text_or (dget state ''current_tenant_id'') ''default'')),
     (''user_id'', PStr (text_of (dget state ''current_user_id''))),
     (''thread_id'', PStr (text_of (dget state ''current_thread_id'')))]"

definition scope_for_state :: "pydict \<Rightarrow> pydict" where
  "scope_for_state state =
    (let actor = text_of (dget state ''current_user_id'') in
     execution_scope_for_state state
       @ [(''actor_user_id'', PStr actor), (''subject_user_id'', PStr (text_or (dget state ''current_subject'') actor))])"

definition same_scope :: "pydict \<Rightarrow> pydict \<Rightarrow> bool" where
  "same_scope left right =
     list_all (\<lambda>k. text_of (dget left k) = text_of (dget right k)) [''tenant_id'', ''user_id'', ''thread_id'']"

section \<open>Entries\<close>

definition kind_of :: "pydict \<Rightarrow> string" where
  "kind_of item = text_of (dget item ''kind'')"

definition handle_of :: "pydict \<Rightarrow> string" where
  "handle_of item = text_of (dget item ''handle'')"

definition is_list :: "pyval \<Rightarrow> bool" where
  "is_list v = (case v of PList _ \<Rightarrow> True | _ \<Rightarrow> False)"

definition valid_entry :: "pydict \<Rightarrow> bool" where
  "valid_entry item =
    (let kind = kind_of item; has = (\<lambda>k. truthy (dget item k)) in
     kind \<in> {''artifact'', ''view'', ''result'', ''offer'', ''receipt'', ''eligibility'', ''authority''}
     \<and> handle_of item \<noteq> []
     \<and> (case as_pydict (dget item ''scope'') of
          None \<Rightarrow> False
        | Some scope \<Rightarrow> truthy (dget scope ''user_id'') \<and> truthy (dget scope ''thread_id''))
     \<and> (if kind = ''artifact'' then has ''resource_type'' \<and> has ''resource_id''
        else if kind = ''view'' then has ''view_type'' \<and> is_list (dget item ''member_handles'')
        else if kind = ''result'' then has ''capability'' \<and> is_list (dget item ''member_handles'')
        else if kind = ''offer'' \<or> kind = ''eligibility''
        then has ''action_id'' \<and> has ''target_handle'' \<and> as_pydict (dget item ''preview'') \<noteq> None
        else if kind = ''authority''
        then has ''offer_handle'' \<and> has ''action_id'' \<and> has ''target_handle'' \<and> has ''authority_type''
        else True))"

definition expired :: "int \<Rightarrow> pydict \<Rightarrow> bool" where
  "expired now item = (case int_or (dget item ''expires_at'') 0 of None \<Rightarrow> True | Some t \<Rightarrow> 0 < t \<and> t \<le> now)"

definition is_offer :: "pydict \<Rightarrow> bool" where
  "is_offer item = (kind_of item = ''offer'')"

definition state_text :: "pydict \<Rightarrow> string" where
  "state_text item = text_of (dget item ''draft_state'')"

definition terminal_texts :: "string list" where
  "terminal_texts = map draft_state_text terminal_draft_states"

definition sealed_texts :: "string list" where
  "sealed_texts = [''COMMITTED'', ''FAILED_FINAL'', ''REVOKED'', ''EXPIRED'']"

text \<open>An offer whose draft has ended is not replaced by another copy of it.\<close>

definition closed_offer :: "pydict option \<Rightarrow> bool" where
  "closed_offer entry = (case entry of None \<Rightarrow> False
     | Some e \<Rightarrow> is_offer e \<and> py_upper (state_text e) \<in> set terminal_texts)"

definition expire_entry :: "(string \<Rightarrow> string) \<Rightarrow> int \<Rightarrow> pydict \<Rightarrow> pydict option" where
  "expire_entry sha now item =
    (if \<not> expired now item then Some item
     else if is_offer item then
       (if state_text item \<in> set sealed_texts then Some item
        else transition_draft sha item ''EXPIRED'' (Some ''ttl_expired'') None)
     else if text_or (dget item ''status'') ''active''
       \<in> {''active'', ''ready'', ''needs_input'', ''pending_confirmation'', ''eligible'', ''authorized'', ''committing''}
     then Some (dset ''status'' (PStr ''expired'') item)
     else Some item)"

definition normalize_entry ::
  "(string \<Rightarrow> string) \<Rightarrow> int \<Rightarrow> pyval \<Rightarrow> (string \<times> pydict) list \<Rightarrow> (string \<times> pydict) list option" where
  "normalize_entry sha now raw acc =
    (case as_pydict raw of
       None \<Rightarrow> Some acc
     | Some row \<Rightarrow>
        let handle = handle_of row; previous = map_of acc handle in
        if \<not> valid_entry row then Some acc
        else if is_offer row \<and> closed_offer previous then Some acc
        else do {
          item \<leftarrow> (if is_offer row then ensure_transaction_draft sha previous row else Some row);
          item' \<leftarrow> expire_entry sha now item;
          (case previous of
             None \<Rightarrow> Some (AList.update handle item' acc)
           | Some p \<Rightarrow> do {
               new \<leftarrow> int_or (dget item' ''version'') 0;
               old \<leftarrow> int_or (dget p ''version'') 0;
               Some (if old \<le> new then AList.update handle item' acc else acc) }) })"

fun normalize_all ::
  "(string \<Rightarrow> string) \<Rightarrow> int \<Rightarrow> pyval list \<Rightarrow> (string \<times> pydict) list \<Rightarrow> (string \<times> pydict) list option" where
  "normalize_all sha now [] acc = Some acc"
| "normalize_all sha now (raw # raws) acc =
     (case normalize_entry sha now raw acc of None \<Rightarrow> None | Some acc' \<Rightarrow> normalize_all sha now raws acc')"

section \<open>Order\<close>

definition projection_rank :: "(string \<times> int) list" where
  "projection_rank = [(''pending_confirmation'', 9), (''authorized'', 8), (''ready'', 7), (''needs_input'', 6),
     (''eligible'', 5), (''active'', 4), (''executed'', 2), (''declined'', 1), (''expired'', 0), (''superseded'', 0)]"

definition draft_rank :: "(string \<times> int) list" where
  "draft_rank = [(''AWAITING_AUTHORIZATION'', 12), (''AUTHORIZED'', 11), (''READY'', 10), (''NEEDS_INPUT'', 9),
     (''COMMITTING'', 8), (''SUBMISSION_UNKNOWN'', 7), (''FAILED_RETRYABLE'', 6), (''RECONCILIATION_REQUIRED'', 5),
     (''COMMITTED'', 2), (''FAILED_FINAL'', 1), (''REVOKED'', 0), (''EXPIRED'', 0)]"

definition rank_in :: "(string \<times> int) list \<Rightarrow> string \<Rightarrow> int \<Rightarrow> int" where
  "rank_in table k d = (case map_of table k of None \<Rightarrow> d | Some n \<Rightarrow> n)"

definition entry_rank :: "pydict \<Rightarrow> int" where
  "entry_rank row = (if is_offer row then rank_in draft_rank (state_text row) 0
     else rank_in projection_rank (text_or (dget row ''status'') ''active'') 1)"

definition entry_key :: "pydict \<Rightarrow> (int \<times> int \<times> int) option" where
  "entry_key row = do {
     turn \<leftarrow> int_or (dget row ''updated_turn'') 0;
     stamp \<leftarrow> int_or (dget row ''updated_at'') 0;
     Some (entry_rank row, turn, stamp) }"

definition by_rank :: "pydict list \<Rightarrow> pydict list option" where
  "by_rank rows = map_option (\<lambda>ks. map snd (sorted_desc fst (zip ks rows))) (those (map entry_key rows))"

definition normalize_ledger :: "(string \<Rightarrow> string) \<Rightarrow> int \<Rightarrow> pyval list \<Rightarrow> pydict list option" where
  "normalize_ledger sha now entries = do {
     acc \<leftarrow> normalize_all sha now entries [];
     rows \<leftarrow> by_rank (map snd acc);
     Some (take MAX_LEDGER_ENTRIES rows) }"

section \<open>Reading\<close>

definition active_entries ::
  "(string \<Rightarrow> string) \<Rightarrow> int \<Rightarrow> pyval list \<Rightarrow> pydict \<Rightarrow> string \<Rightarrow> string \<Rightarrow> string list \<Rightarrow> pydict list option" where
  "active_entries sha now entries scope kind rtype statuses =
     map_option (filter (\<lambda>item. same_scope (dict_if (dget item ''scope'')) scope
         \<and> (kind \<noteq> [] \<longrightarrow> kind_of item = kind)
         \<and> (rtype \<noteq> [] \<longrightarrow> text_of (dget item ''resource_type'') = rtype)
         \<and> (statuses \<noteq> [] \<longrightarrow>
              (if is_offer item then state_text item else text_of (dget item ''status'')) \<in> set statuses)))
       (normalize_ledger sha now entries)"

definition readable :: "pydict \<Rightarrow> string list \<Rightarrow> string list \<Rightarrow> bool \<Rightarrow> pydict \<Rightarrow> bool" where
  "readable scope kinds rtypes active_only item =
    (same_scope (dict_if (dget item ''scope'')) scope
     \<and> (kinds \<noteq> [] \<longrightarrow> kind_of item \<in> set kinds)
     \<and> (rtypes \<noteq> [] \<longrightarrow> text_of (dget item ''resource_type'') \<in> set rtypes)
     \<and> (active_only \<longrightarrow>
          (if is_offer item then state_text item \<notin> set sealed_texts
           else text_or (dget item ''status'') ''active'' \<notin> {''expired'', ''declined'', ''superseded''})))"

text \<open>The outer \<open>None\<close> is an exception, the inner one the answer \<open>None\<close>.\<close>

definition find_handle ::
  "(string \<Rightarrow> string) \<Rightarrow> int \<Rightarrow> pyval list \<Rightarrow> string \<Rightarrow> pydict \<Rightarrow> string list \<Rightarrow> string list \<Rightarrow> bool
    \<Rightarrow> pydict option option" where
  "find_handle sha now entries handle scope kinds rtypes active_only =
     map_option (\<lambda>rows. case find (\<lambda>item. handle_of item = handle) rows of
         None \<Rightarrow> None
       | Some item \<Rightarrow> if readable scope kinds rtypes active_only item then Some item else None)
       (normalize_ledger sha now entries)"

section \<open>Making entries\<close>

definition base_entry ::
  "int \<Rightarrow> string \<Rightarrow> string \<Rightarrow> pydict \<Rightarrow> int \<Rightarrow> string \<Rightarrow> int \<Rightarrow> string \<Rightarrow> pydict" where
  "base_entry now kind handle scope turn status ttl label =
    [(''kind'', PStr kind), (''handle'', PStr handle), (''scope'', PDict scope), (''label'', PStr label),
     (''status'', PStr status), (''created_turn'', PInt turn), (''updated_turn'', PInt turn),
     (''created_at'', PInt now), (''updated_at'', PInt now), (''expires_at'', PInt (now + ttl)), (''version'', PInt 1)]"

text \<open>\<open>row.update(d)\<close>, and \<open>list(dict.fromkeys(...))\<close> of the non-empty texts.\<close>

definition dict_update :: "pydict \<Rightarrow> pydict \<Rightarrow> pydict" where
  "dict_update row d = fold (\<lambda>(k, v). dset k v) d row"

definition unique_texts :: "string list \<Rightarrow> string list" where
  "unique_texts xs = rev (remdups (rev (filter (\<lambda>x. x \<noteq> []) xs)))"

definition texts :: "string list \<Rightarrow> pyval" where
  "texts xs = PList (map PStr xs)"

text \<open>\<open>create_handle\<close>: the prefix and a fresh hex number.\<close>

definition create_handle :: "string \<Rightarrow> string \<Rightarrow> string" where
  "create_handle pre fresh = pre @ '':'' @ fresh"

definition handle_or :: "string option \<Rightarrow> string \<Rightarrow> string \<Rightarrow> string" where
  "handle_or handle pre fresh = (if truthy_str handle then opt_str handle else create_handle pre fresh)"

definition artifact_entry ::
  "int \<Rightarrow> string \<Rightarrow> string \<Rightarrow> string \<Rightarrow> string \<Rightarrow> pydict \<Rightarrow> pydict \<Rightarrow> int \<Rightarrow> string \<Rightarrow> int option \<Rightarrow> string option \<Rightarrow> pydict" where
  "artifact_entry now fresh rtype rid label facts scope turn source freshness handle =
     dict_update (base_entry now ''artifact'' (handle_or handle (''h_'' @ rtype) fresh) scope turn ''active'' ARTIFACT_SECONDS label)
      [(''resource_type'', PStr rtype), (''resource_id'', PStr rid), (''facts'', clean_dict facts),
       (''source'', PStr source), (''freshness_version'', (case freshness of None \<Rightarrow> PNone | Some n \<Rightarrow> PInt n))]"

text \<open>The labels name the number of members; their text is given by its UTF-8 bytes.\<close>

definition counted_label :: "string \<Rightarrow> nat \<Rightarrow> string" where
  "counted_label name n = name @ utf8 [239, 188, 136] @ digits_of n @ utf8 [233, 161, 185, 239, 188, 137]"

definition result_label :: "string \<Rightarrow> nat \<Rightarrow> string" where
  "result_label name n = counted_label (name @ utf8 [231, 187, 147, 230, 158, 156]) n"

definition view_entry ::
  "int \<Rightarrow> string \<Rightarrow> string \<Rightarrow> string list \<Rightarrow> string list \<Rightarrow> pydict \<Rightarrow> int \<Rightarrow> string \<Rightarrow> pydict
    \<Rightarrow> string option \<Rightarrow> pydict" where
  "view_entry now fresh vtype members labels scope turn source query handle =
    (let uniq = unique_texts members in
     dict_update (base_entry now ''view'' (handle_or handle ''h_view'' fresh) scope turn ''active'' VIEW_SECONDS
        (counted_label vtype (length uniq)))
      [(''view_type'', PStr vtype), (''member_handles'', texts uniq), (''labels'', texts labels),
       (''source'', PStr source), (''query'', clean_dict query)])"

definition result_entry ::
  "int \<Rightarrow> string \<Rightarrow> string \<Rightarrow> string list \<Rightarrow> string list \<Rightarrow> pydict \<Rightarrow> int \<Rightarrow> pydict
    \<Rightarrow> string option \<Rightarrow> pydict" where
  "result_entry now fresh capability members labels scope turn source_target handle =
    (let uniq = unique_texts members in
     dict_update (base_entry now ''result'' (handle_or handle ''h_result'' fresh) scope turn ''active'' RESULT_SECONDS
        (result_label capability (length uniq)))
      [(''capability'', PStr capability), (''member_handles'', texts uniq), (''labels'', texts labels),
       (''source_target'', clean_dict source_target)])"

definition offer_entry ::
  "(string \<Rightarrow> string) \<Rightarrow> int \<Rightarrow> string \<Rightarrow> string \<Rightarrow> string \<Rightarrow> string \<Rightarrow> pydict \<Rightarrow> pydict \<Rightarrow> pydict \<Rightarrow> int \<Rightarrow> string
    \<Rightarrow> string option \<Rightarrow> pydict option" where
  "offer_entry sha now fresh action operation target inputs preview scope turn label handle =
    (let row = ddel ''status'' (base_entry now ''offer'' (handle_or handle ''h_offer'' fresh) scope turn ''draft''
           ACTIVE_OFFER_SECONDS label) in
     ensure_transaction_draft sha None (dict_update row
      [(''action_id'', PStr action), (''operation'', PStr operation), (''target_handle'', PStr target),
       (''input_values'', clean_dict inputs), (''preview'', clean_dict preview), (''draft_id'', PStr (handle_of row)),
       (''draft_revision'', PInt 1), (''draft_state'', PStr ''READY''), (''transaction_contract_version'', PInt 1)]))"

definition receipt_entry ::
  "int \<Rightarrow> string \<Rightarrow> string \<Rightarrow> pydict \<Rightarrow> pydict \<Rightarrow> int \<Rightarrow> string \<Rightarrow> string \<Rightarrow> string \<Rightarrow> string \<Rightarrow> pydict" where
  "receipt_entry now fresh action result scope turn label draft attempt key =
    (let ok = truthy (dget result ''success'') in
     dict_update (base_entry now ''receipt'' (create_handle ''h_receipt'' fresh) scope turn
        (if ok then ''committed'' else ''failed'') ARTIFACT_SECONDS label)
      [(''action_id'', PStr action), (''result'', clean_dict result),
       (''receipt_state'', PStr (if ok then ''SUCCESS'' else ''FAILED'')), (''draft_id'', PStr draft),
       (''attempt_id'', PStr attempt), (''idempotency_key'', PStr key)])"

definition set_default :: "string \<Rightarrow> pyval \<Rightarrow> pydict \<Rightarrow> pydict" where
  "set_default k v row = (if has_key k row then row else dset k v row)"

definition authority_entry :: "int \<Rightarrow> string \<Rightarrow> pydict \<Rightarrow> pydict \<Rightarrow> int \<Rightarrow> string \<Rightarrow> pydict" where
  "authority_entry now fresh authority scope turn label =
    (let status = (if text_of (dget authority ''authority_type'') = ''ui_confirmed'' then ''authorized'' else ''rejected'');
         row = dict_update (base_entry now ''authority''
            (text_or (dget authority ''grant_id'') (create_handle ''h_authority'' fresh)) scope turn status ARTIFACT_SECONDS label)
          authority in
     set_default ''grant_state'' (PStr (if status = ''authorized'' then ''ISSUED'' else ''REVOKED''))
      (set_default ''grant_id'' (PStr (py_str (dget row ''handle''))) row))"

definition eligibility_entry ::
  "int \<Rightarrow> string \<Rightarrow> string \<Rightarrow> string \<Rightarrow> string \<Rightarrow> pydict \<Rightarrow> pydict \<Rightarrow> pydict \<Rightarrow> int \<Rightarrow> string \<Rightarrow> string option \<Rightarrow> pydict" where
  "eligibility_entry now fresh action operation target inputs preview scope turn label handle =
     dict_update (base_entry now ''eligibility'' (handle_or handle ''h_eligibility'' fresh) scope turn ''eligible''
        ACTIVE_OFFER_SECONDS label)
      [(''action_id'', PStr action), (''operation'', PStr operation), (''target_handle'', PStr target),
       (''input_values'', clean_dict inputs), (''preview'', clean_dict preview)]"

section \<open>Appending\<close>

definition get_or :: "string \<Rightarrow> pydict \<Rightarrow> pyval \<Rightarrow> pyval" where
  "get_or k d v = (if has_key k d then dget d k else v)"

definition same_artifact :: "pydict \<Rightarrow> pydict \<Rightarrow> bool" where
  "same_artifact current candidate =
    (kind_of current = ''artifact'' \<and> kind_of candidate = ''artifact''
     \<and> text_of (dget current ''resource_type'') = text_of (dget candidate ''resource_type'')
     \<and> text_of (dget current ''resource_id'') = text_of (dget candidate ''resource_id''))"

text \<open>What an entry takes over from the one it replaces.\<close>

definition inherit_entry :: "pydict \<Rightarrow> pydict \<Rightarrow> pydict option" where
  "inherit_entry current candidate = do {
     old \<leftarrow> int_or (dget current ''version'') 0;
     new \<leftarrow> int_or (dget candidate ''version'') 0;
     let row = dset ''created_turn'' (get_or ''created_turn'' current (dget candidate ''created_turn''))
       (dset ''created_at'' (get_or ''created_at'' current (dget candidate ''created_at''))
         (dset ''version'' (PInt (max (old + 1) new)) candidate));
     Some (if same_artifact current row \<and> \<not> has_key ''presentation_origin'' row
             \<and> as_pydict (dget current ''presentation_origin'') \<noteq> None
           then dset ''presentation_origin'' (dget current ''presentation_origin'') row else row) }"

definition appended :: "(string \<Rightarrow> string) \<Rightarrow> int \<Rightarrow> pydict option \<Rightarrow> pydict \<Rightarrow> pydict option" where
  "appended sha now current row = do {
     candidate \<leftarrow> (if is_offer row then ensure_transaction_draft sha current row else Some row);
     candidate' \<leftarrow> (case current of None \<Rightarrow> Some candidate | Some c \<Rightarrow> inherit_entry c candidate);
     Some (dset ''updated_at'' (PInt now) candidate') }"

definition append_entry ::
  "(string \<Rightarrow> string) \<Rightarrow> int \<Rightarrow> pyval \<Rightarrow> (string \<times> pydict) list \<Rightarrow> (string \<times> pydict) list option" where
  "append_entry sha now raw merged =
    (case as_pydict raw of
       None \<Rightarrow> Some merged
     | Some row \<Rightarrow>
        let current = map_of merged (handle_of row) in
        if \<not> truthy (dget row ''handle'') \<or> is_offer row \<and> closed_offer current then Some merged
        else map_option (\<lambda>entry. AList.update (handle_of row) entry merged) (appended sha now current row))"

fun append_all ::
  "(string \<Rightarrow> string) \<Rightarrow> int \<Rightarrow> pyval list \<Rightarrow> (string \<times> pydict) list \<Rightarrow> (string \<times> pydict) list option" where
  "append_all sha now [] merged = Some merged"
| "append_all sha now (raw # raws) merged =
     (case append_entry sha now raw merged of None \<Rightarrow> None | Some merged' \<Rightarrow> append_all sha now raws merged')"

definition append_entries :: "(string \<Rightarrow> string) \<Rightarrow> int \<Rightarrow> pyval list \<Rightarrow> pyval list \<Rightarrow> pydict list option" where
  "append_entries sha now existing additions = do {
     rows \<leftarrow> normalize_ledger sha now existing;
     merged \<leftarrow> append_all sha now additions (map (\<lambda>item. (handle_of item, item)) rows);
     normalize_ledger sha now (map (\<lambda>p. PDict (snd p)) merged) }"

section \<open>Cards\<close>

text \<open>\<open>len(v or [])\<close> and \<open>list(v or [])\<close> on a list or a falsy value.\<close>

definition items_of :: "pyval \<Rightarrow> pyval list" where
  "items_of v = (case v of PList xs \<Rightarrow> xs | _ \<Rightarrow> [])"

definition pick_fields :: "(string \<times> string) list \<Rightarrow> pydict \<Rightarrow> pydict" where
  "pick_fields names item = map (\<lambda>(name, field). (name, dget item field)) names"

definition artifact_card :: "pydict \<Rightarrow> pydict" where
  "artifact_card = pick_fields [(''handle'', ''handle''), (''type'', ''resource_type''), (''label'', ''label''),
     (''version'', ''freshness_version''), (''updated_turn'', ''updated_turn'')]"

definition member_card :: "string \<Rightarrow> string \<Rightarrow> pydict \<Rightarrow> pydict" where
  "member_card name field item =
     [(''handle'', dget item ''handle''), (name, dget item field), (''label'', dget item ''label''),
      (''count'', PInt (int (length (items_of (dget item ''member_handles''))))),
      (''labels'', PList (take 10 (items_of (dget item ''labels'')))), (''updated_turn'', dget item ''updated_turn'')]"

definition offer_card :: "pydict \<Rightarrow> pydict" where
  "offer_card item =
     [(''handle'', dget item ''handle''), (''draft_id'', py_or (dget item ''draft_id'') (dget item ''handle'')),
      (''draft_revision'', dget item ''draft_revision''), (''draft_state'', dget item ''draft_state''),
      (''command_digest'', dget item ''command_digest''), (''action_id'', dget item ''action_id''),
      (''label'', dget item ''label''),
      (''status'', PStr (fst (display_projection (text_or (dget item ''draft_state'') ''READY'')))),
      (''required_inputs'', PList (items_of (py_or (dget (dict_if (dget item ''preview'')) ''required_inputs'')
         (dget item ''required_inputs'')))), (''updated_turn'', dget item ''updated_turn'')]"

definition eligibility_card :: "pydict \<Rightarrow> pydict" where
  "eligibility_card = pick_fields [(''handle'', ''handle''), (''action_id'', ''action_id''), (''label'', ''label''),
     (''status'', ''status''), (''updated_turn'', ''updated_turn'')]"

definition authority_card :: "pydict \<Rightarrow> pydict" where
  "authority_card = pick_fields [(''handle'', ''handle''), (''offer_handle'', ''offer_handle''), (''action_id'', ''action_id''),
     (''authority_type'', ''authority_type''), (''actor_id'', ''actor_id''), (''status'', ''status''),
     (''updated_turn'', ''updated_turn'')]"

definition cards_of :: "string \<Rightarrow> nat \<Rightarrow> (pydict \<Rightarrow> bool) \<Rightarrow> (pydict \<Rightarrow> pydict) \<Rightarrow> pydict list \<Rightarrow> pyval" where
  "cards_of kind n also_if f rows =
     PList (map PDict (take n (map f (filter (\<lambda>item. dget item ''kind'' = PStr kind \<and> also_if item) rows))))"

definition ledger_cards :: "(string \<Rightarrow> string) \<Rightarrow> int \<Rightarrow> pyval list \<Rightarrow> pydict \<Rightarrow> pydict option" where
  "ledger_cards sha now entries scope = map_option (\<lambda>rows.
     [(''artifacts'', cards_of ''artifact'' 20 (\<lambda>_. True) artifact_card rows),
      (''views'', cards_of ''view'' 10 (\<lambda>_. True) (member_card ''type'' ''view_type'') rows),
      (''results'', cards_of ''result'' 12 (\<lambda>_. True) (member_card ''capability'' ''capability'') rows),
      (''offers'', cards_of ''offer'' 8 (\<lambda>item. state_text item \<in> {''NEEDS_INPUT'', ''READY'',
          ''AWAITING_AUTHORIZATION'', ''AUTHORIZED'', ''COMMITTING'', ''SUBMISSION_UNKNOWN''}) offer_card rows),
      (''eligibilities'', cards_of ''eligibility'' 8 (\<lambda>item. dget item ''status'' = PStr ''eligible'') eligibility_card rows),
      (''authorities'', cards_of ''authority'' 12 (\<lambda>_. True) authority_card rows)])
     (active_entries sha now entries scope [] [] [])"

section \<open>The normal form\<close>

definition validity_fields :: "string list" where
  "validity_fields = [''kind'', ''handle'', ''scope'', ''resource_type'', ''resource_id'', ''view_type'', ''member_handles'',
     ''capability'', ''action_id'', ''target_handle'', ''preview'', ''offer_handle'', ''authority_type'']"

lemma valid_frame:
  assumes "\<And>k. k \<in> set validity_fields \<Longrightarrow> dget e k = dget e' k"
  shows "valid_entry e = valid_entry e'" and "handle_of e = handle_of e'" and "is_offer e = is_offer e'"
proof -
  have f: "dget e ''kind'' = dget e' ''kind''" "dget e ''handle'' = dget e' ''handle''" "dget e ''scope'' = dget e' ''scope''"
    "dget e ''resource_type'' = dget e' ''resource_type''" "dget e ''resource_id'' = dget e' ''resource_id''"
    "dget e ''view_type'' = dget e' ''view_type''" "dget e ''member_handles'' = dget e' ''member_handles''"
    "dget e ''capability'' = dget e' ''capability''" "dget e ''action_id'' = dget e' ''action_id''"
    "dget e ''target_handle'' = dget e' ''target_handle''" "dget e ''preview'' = dget e' ''preview''"
    "dget e ''offer_handle'' = dget e' ''offer_handle''" "dget e ''authority_type'' = dget e' ''authority_type''"
    using assms by (simp_all add: validity_fields_def)
  show "valid_entry e = valid_entry e'" by (simp only: valid_entry_def kind_of_def handle_of_def Let_def f)
  show "handle_of e = handle_of e'" "is_offer e = is_offer e'"
    by (simp_all only: handle_of_def is_offer_def kind_of_def f)
qed

lemma not_normal_fields: "k \<in> set validity_fields \<Longrightarrow> k \<notin> set normal_fields" "''expires_at'' \<notin> set normal_fields"
  by (auto simp: validity_fields_def normal_fields_def)

lemma ensure_entry:
  assumes "ensure_transaction_draft sha prior e = Some e'"
  shows "valid_entry e' = valid_entry e" and "handle_of e' = handle_of e" and "is_offer e' = is_offer e"
    and "expired now e' = expired now e"
  using valid_frame [of e' e] ensure_frame [OF assms] not_normal_fields by (simp_all add: expired_def)

lemma transition_entry:
  assumes "transition_draft sha e state reason prior = Some e'"
  shows "valid_entry e' = valid_entry e" and "handle_of e' = handle_of e" and "is_offer e' = is_offer e"
    and "expired now e' = expired now e"
proof -
  have f: "dget e' k = dget e k" if "k \<in> set validity_fields \<or> k = ''expires_at''" for k
  proof (rule transition_frame [OF assms])
    show "k \<notin> set normal_fields" "k \<noteq> ''draft_state_reason''"
      using that not_normal_fields by (auto simp: validity_fields_def)
  qed
  show "valid_entry e' = valid_entry e" "handle_of e' = handle_of e" "is_offer e' = is_offer e"
    using valid_frame [of e' e] f by blast+
  show "expired now e' = expired now e" by (simp add: expired_def f)
qed

lemma status_entry:
  "valid_entry (dset ''status'' v e) = valid_entry e" "handle_of (dset ''status'' v e) = handle_of e"
  "is_offer (dset ''status'' v e) = is_offer e" "expired now (dset ''status'' v e) = expired now e"
  by (rule valid_frame; auto simp: validity_fields_def)+ (simp add: expired_def)

text \<open>
  An entry in normal form: valid, an offer is a normalised draft, and when its time is over
  it is no longer live.
\<close>

definition ended :: "pydict \<Rightarrow> bool" where
  "ended e = (if is_offer e then state_text e \<in> set sealed_texts
     else text_or (dget e ''status'') ''active''
       \<notin> {''active'', ''ready'', ''needs_input'', ''pending_confirmation'', ''eligible'', ''authorized'', ''committing''})"

definition normal_entry :: "(string \<Rightarrow> string) \<Rightarrow> int \<Rightarrow> pydict \<Rightarrow> bool" where
  "normal_entry sha now e \<longleftrightarrow> valid_entry e \<and> (is_offer e \<longrightarrow> ensure_transaction_draft sha None e = Some e)
     \<and> (expired now e \<longrightarrow> ended e)"

lemma is_offer_kind: "is_offer e \<Longrightarrow> text_of (dget e ''kind'') = ''offer''"
  by (simp add: is_offer_def kind_of_def)

lemma expire_normal:
  assumes "expire_entry sha now e = Some e'" and "valid_entry e"
    and "is_offer e \<Longrightarrow> ensure_transaction_draft sha None e = Some e"
  shows "normal_entry sha now e' \<and> handle_of e' = handle_of e \<and> is_offer e' = is_offer e"
proof (cases "expired now e \<and> is_offer e \<and> state_text e \<notin> set sealed_texts")
  case True
  then have t: "transition_draft sha e ''EXPIRED'' (Some ''ttl_expired'') None = Some e'"
    using assms(1) by (simp add: expire_entry_def)
  have "draft_state_text DRAFT_EXPIRED = ''EXPIRED''" by (simp add: draft_state_text_def draft_states_def)
  then show ?thesis
    using transition_entry [OF t] True assms(2) transition_state [of sha e DRAFT_EXPIRED] t
    by (simp add: normal_entry_def ended_def state_text_def sealed_texts_def is_offer_kind)
next
  case False
  then show ?thesis
    using assms by (auto simp: expire_entry_def normal_entry_def ended_def status_entry text_or_def split: if_splits)
qed

definition filed :: "(string \<Rightarrow> string) \<Rightarrow> int \<Rightarrow> (string \<times> pydict) list \<Rightarrow> bool" where
  "filed sha now acc \<longleftrightarrow> distinct (map fst acc) \<and> (\<forall>(h, e)\<in>set acc. normal_entry sha now e \<and> handle_of e = h)"

lemma filed_Nil [simp]: "filed sha now []"
  by (simp add: filed_def)

lemma set_update: "set (AList.update h e acc) \<subseteq> insert (h, e) (set acc)"
  by (induction acc) auto

lemma filed_update:
  "filed sha now acc \<Longrightarrow> normal_entry sha now e \<Longrightarrow> handle_of e = h \<Longrightarrow> filed sha now (AList.update h e acc)"
  using set_update [of h e acc] distinct_update [of acc h e] by (fastforce simp: filed_def)

lemma normalize_entry_filed:
  assumes "normalize_entry sha now raw acc = Some acc'" and "filed sha now acc"
  shows "filed sha now acc'"
proof (cases "acc' = acc")
  case False
  then obtain row item item' where r: "raw = PDict row" "valid_entry row"
      "(if is_offer row then ensure_transaction_draft sha (map_of acc (handle_of row)) row else Some row) = Some item"
      "expire_entry sha now item = Some item'" "acc' = AList.update (handle_of row) item' acc"
    using assms(1)
    by (cases raw) (auto simp: normalize_entry_def Let_def bind_Some_iff split: if_splits option.splits)
  have i: "valid_entry item" "handle_of item = handle_of row" "is_offer item \<Longrightarrow> ensure_transaction_draft sha None item = Some item"
    using r(2,3) ensure_entry ensure_fixed [OF is_offer_kind] by (auto split: if_splits)
  show ?thesis unfolding r(5)
    using expire_normal [OF r(4) i(1,3)] i(2) by (intro filed_update [OF assms(2)]) simp_all
qed (use assms in simp)

lemma normalize_all_filed:
  "normalize_all sha now raws acc = Some acc' \<Longrightarrow> filed sha now acc \<Longrightarrow> filed sha now acc'"
  by (induction raws arbitrary: acc) (auto split: option.splits intro: normalize_entry_filed)

lemma sorted_desc_props:
  "mset (sorted_desc f xs) = mset xs" "sorted_wrt (\<lambda>a b. f b \<le> f a) (sorted_desc f xs)"
proof -
  show "mset (sorted_desc f xs) = mset xs" by (simp add: sorted_desc_def)
  have "sorted (map f (sort_key f (rev xs)))" by simp
  then show "sorted_wrt (\<lambda>a b. f b \<le> f a) (sorted_desc f xs)"
    by (simp only: sorted_desc_def sorted_wrt_rev sorted_map)
qed

lemma those_keys: "those (map g rows) = Some ks \<Longrightarrow> list_all2 (\<lambda>k r. g r = Some k) ks rows"
  by (induction rows arbitrary: ks) (auto split: option.splits simp: list_all2_Cons2)

lemma entry_key_rank: "entry_key row = Some k \<Longrightarrow> fst k = entry_rank row"
  by (auto simp: entry_key_def bind_Some_iff)

lemma by_rank_props:
  assumes "by_rank rows = Some out"
  shows "mset out = mset rows" and "sorted_wrt (\<lambda>e e'. entry_rank e' \<le> entry_rank e) out"
proof -
  obtain ks where ks: "those (map entry_key rows) = Some ks" "out = map snd (sorted_desc fst (zip ks rows))"
    using assms by (auto simp: by_rank_def)
  have all: "list_all2 (\<lambda>k r. entry_key r = Some k) ks rows" by (rule those_keys [OF ks(1)])
  have len: "length ks = length rows" by (rule list_all2_lengthD [OF all])
  show "mset out = mset rows"
    unfolding ks(2) mset_map sorted_desc_props(1) using len by (simp flip: mset_map)
  have key: "fst (fst p) = entry_rank (snd p)" if "p \<in> set (zip ks rows)" for p
    using that all entry_key_rank by (cases p) (auto simp: list_all2_iff)
  have s: "set (sorted_desc fst (zip ks rows)) = set (zip ks rows)"
    by (rule mset_eq_setD) (rule sorted_desc_props(1))
  have "sorted_wrt (\<lambda>p q. entry_rank (snd q) \<le> entry_rank (snd p)) (sorted_desc fst (zip ks rows))"
  proof (rule sorted_wrt_mono_rel [OF _ sorted_desc_props(2)])
    fix p q assume "p \<in> set (sorted_desc fst (zip ks rows))" "q \<in> set (sorted_desc fst (zip ks rows))" "fst q \<le> fst p"
    then show "entry_rank (snd q) \<le> entry_rank (snd p)"
      using key [of p] key [of q] unfolding s by (auto simp: less_eq_prod_def)
  qed
  then show "sorted_wrt (\<lambda>e e'. entry_rank e' \<le> entry_rank e) out"
    by (simp add: ks(2) sorted_wrt_map)
qed

text \<open>What every normalised ledger satisfies.\<close>

definition normal_ledger :: "(string \<Rightarrow> string) \<Rightarrow> int \<Rightarrow> pydict list \<Rightarrow> bool" where
  "normal_ledger sha now led \<longleftrightarrow> length led \<le> MAX_LEDGER_ENTRIES \<and> distinct (map handle_of led)
     \<and> (\<forall>e\<in>set led. normal_entry sha now e) \<and> sorted_wrt (\<lambda>e e'. entry_rank e' \<le> entry_rank e) led"

lemma normalize_cases:
  assumes "normalize_ledger sha now entries = Some led"
  obtains acc where "normalize_all sha now entries [] = Some acc" "filed sha now acc" "set led \<subseteq> snd ` set acc"
    "normal_ledger sha now led"
proof -
  obtain acc rows where a: "normalize_all sha now entries [] = Some acc" "by_rank (map snd acc) = Some rows"
    "led = take MAX_LEDGER_ENTRIES rows"
    using assms by (auto simp: normalize_ledger_def bind_Some_iff)
  have f: "filed sha now acc" using a(1) filed_Nil by (rule normalize_all_filed)
  note r = by_rank_props [OF a(2)]
  have set_rows: "set rows = snd ` set acc" using mset_eq_setD [OF r(1)] by simp
  have "mset (map handle_of rows) = mset (map handle_of (map snd acc))" by (simp only: mset_map r(1))
  also have "map handle_of (map snd acc) = map fst acc" using f by (auto simp: filed_def)
  finally have "mset (map handle_of rows) = mset (map fst acc)" .
  then have "distinct (map handle_of rows)"
    using f mset_eq_imp_distinct_iff [of "map handle_of rows" "map fst acc"] by (simp only: filed_def)
  moreover have "\<forall>e\<in>set led. normal_entry sha now e"
    using f set_rows by (fastforce simp: a(3) filed_def dest: in_set_takeD)
  ultimately have "normal_ledger sha now led"
    using r(2) by (simp add: normal_ledger_def a(3) take_map [symmetric] sorted_wrt_take)
  then show thesis using that [OF a(1) f] set_rows by (auto simp: a(3) dest: in_set_takeD)
qed

section \<open>Sealed drafts in the ledger\<close>

definition sealed_entry :: "pydict \<Rightarrow> bool" where
  "sealed_entry e \<longleftrightarrow> is_offer e \<and> state_text e \<in> set sealed_texts"

lemma sealed_closed: "sealed_entry e \<Longrightarrow> closed_offer (Some e)"
  by (auto simp: sealed_entry_def closed_offer_def sealed_texts_def terminal_texts_def terminal_draft_states_def
      draft_state_text_def draft_states_def py_upper_def upper_char_def)

lemma append_entry_cases:
  assumes "append_entry sha now raw merged = Some merged'"
  obtains "merged' = merged"
  | row entry where "raw = PDict row" "\<not> (is_offer row \<and> closed_offer (map_of merged (handle_of row)))"
      "appended sha now (map_of merged (handle_of row)) row = Some entry"
      "merged' = AList.update (handle_of row) entry merged"
proof (cases "as_pydict raw")
  case None
  then show thesis using assms that(1) by (simp add: append_entry_def)
next
  case (Some row)
  then have raw: "raw = PDict row" by (cases raw) simp_all
  show thesis
  proof (cases "\<not> truthy (dget row ''handle'') \<or> is_offer row \<and> closed_offer (map_of merged (handle_of row))")
    case True
    then have "merged' = merged" using assms by (simp add: append_entry_def Some Let_def)
    then show thesis by (rule that(1))
  next
    case False
    then obtain entry where "appended sha now (map_of merged (handle_of row)) row = Some entry"
      "merged' = AList.update (handle_of row) entry merged"
      using assms unfolding append_entry_def Some Let_def by auto
    with False raw show thesis by (intro that(2)) simp_all
  qed
qed

lemma append_entry_sealed:
  assumes "append_entry sha now raw merged = Some merged'" and "map_of merged h = Some o1" and "sealed_entry o1"
    and "\<And>d. raw = PDict d \<Longrightarrow> handle_of d = h \<Longrightarrow> is_offer d"
  shows "map_of merged' h = Some o1"
  using assms(1)
proof (cases rule: append_entry_cases)
  case (2 row entry)
  have "handle_of row \<noteq> h" using 2(1,2) assms(2,4) sealed_closed [OF assms(3)] by auto
  then show ?thesis using assms(2) by (simp add: 2(4) update_conv')
qed (use assms in simp)

lemma append_all_sealed:
  "append_all sha now raws merged = Some merged' \<Longrightarrow> map_of merged h = Some o1 \<Longrightarrow> sealed_entry o1
    \<Longrightarrow> (\<And>d. PDict d \<in> set raws \<Longrightarrow> handle_of d = h \<Longrightarrow> is_offer d) \<Longrightarrow> map_of merged' h = Some o1"
proof (induction raws arbitrary: merged)
  case (Cons raw raws)
  then obtain m where m: "append_entry sha now raw merged = Some m" "append_all sha now raws m = Some merged'"
    by (auto split: option.splits)
  have "map_of m h = Some o1" using Cons.prems by (intro append_entry_sealed [OF m(1)]) auto
  then show ?case using Cons.prems by (intro Cons.IH [OF m(2)]) auto
qed simp

lemma normalize_entry_other:
  assumes "normalize_entry sha now raw acc = Some acc'" and "\<And>d. raw = PDict d \<Longrightarrow> handle_of d \<noteq> h"
  shows "map_of acc' h = map_of acc h"
  using assms by (cases raw) (auto simp: normalize_entry_def Let_def bind_Some_iff update_conv' split: if_splits option.splits)

lemma normalize_all_other:
  "normalize_all sha now raws acc = Some acc' \<Longrightarrow> (\<And>d. PDict d \<in> set raws \<Longrightarrow> handle_of d \<noteq> h)
    \<Longrightarrow> map_of acc' h = map_of acc h"
proof (induction raws arbitrary: acc)
  case (Cons raw raws)
  then obtain m where m: "normalize_entry sha now raw acc = Some m" "normalize_all sha now raws m = Some acc'"
    by (auto split: option.splits)
  have "map_of acc' h = map_of m h" using Cons.prems by (intro Cons.IH [OF m(2)]) auto
  also have "\<dots> = map_of acc h" using Cons.prems(2) by (intro normalize_entry_other [OF m(1)]) auto
  finally show ?case .
qed simp

text \<open>Over entries with different handles, a sealed normalised offer is kept as it is.\<close>

lemma normalize_all_sealed:
  assumes "distinct (map handle_of (pre @ o1 # post))" and "sealed_entry o1" and "valid_entry o1"
    and "ensure_transaction_draft sha None o1 = Some o1"
    and "normalize_all sha now (map PDict (pre @ o1 # post)) [] = Some acc"
  shows "map_of acc (handle_of o1) = Some o1"
proof -
  have split: "normalize_all sha now (xs @ ys) a = Option.bind (normalize_all sha now xs a) (normalize_all sha now ys)" for xs ys a
    by (induction xs arbitrary: a) (auto split: option.splits)
  obtain m1 m2 where m: "normalize_all sha now (map PDict pre) [] = Some m1"
    "normalize_entry sha now (PDict o1) m1 = Some m2" "normalize_all sha now (map PDict post) m2 = Some acc"
    using assms(5) by (auto simp: split bind_Some_iff split: option.splits)
  have "handle_of o1 \<notin> handle_of ` (set pre \<union> set post)" using assms(1) by auto
  then have other: "handle_of d \<noteq> handle_of o1" if "d \<in> set pre \<or> d \<in> set post" for d
    using that by (metis UnI1 UnI2 imageI)
  have "map_of m1 (handle_of o1) = map_of [] (handle_of o1)"
    using other by (intro normalize_all_other [OF m(1)]) auto
  moreover have "expire_entry sha now o1 = Some o1" using assms(2) by (auto simp: expire_entry_def sealed_entry_def)
  ultimately have "map_of m2 (handle_of o1) = Some o1"
    using m(2) assms(2-4) by (auto simp: normalize_entry_def closed_offer_def sealed_entry_def update_conv')
  moreover have "map_of acc (handle_of o1) = map_of m2 (handle_of o1)"
    using other by (intro normalize_all_other [OF m(3)]) auto
  ultimately show ?thesis by simp
qed

definition keyed :: "(string \<times> pydict) list \<Rightarrow> bool" where
  "keyed merged \<longleftrightarrow> distinct (map fst merged) \<and> (\<forall>(h, e)\<in>set merged. handle_of e = h)"

lemma keyed_update: "keyed merged \<Longrightarrow> handle_of e = h \<Longrightarrow> keyed (AList.update h e merged)"
  using set_update [of h e merged] distinct_update [of merged h e] by (fastforce simp: keyed_def)

lemma appended_handle:
  assumes "appended sha now current row = Some entry"
  shows "handle_of entry = handle_of row"
proof -
  obtain c c' where r: "(if is_offer row then ensure_transaction_draft sha current row else Some row) = Some c"
    "(case current of None \<Rightarrow> Some c | Some x \<Rightarrow> inherit_entry x c) = Some c'" "entry = dset ''updated_at'' (PInt now) c'"
    using assms by (auto simp: appended_def bind_Some_iff)
  have "handle_of c = handle_of row" using r(1) ensure_entry(2) by (auto split: if_splits)
  moreover have "handle_of c' = handle_of c"
    using r(2) by (auto simp: inherit_entry_def bind_Some_iff Let_def handle_of_def split: option.splits if_splits)
  ultimately show ?thesis by (simp add: r(3) handle_of_def)
qed

lemma append_entry_keyed:
  assumes "append_entry sha now raw merged = Some merged'" and "keyed merged"
  shows "keyed merged'"
  using assms(1) by (cases rule: append_entry_cases) (use assms(2) in \<open>auto intro: keyed_update appended_handle\<close>)

lemma append_all_keyed: "append_all sha now raws merged = Some merged' \<Longrightarrow> keyed merged \<Longrightarrow> keyed merged'"
  by (induction raws arbitrary: merged) (auto split: option.splits intro: append_entry_keyed)

lemma append_sealed:
  assumes "append_entries sha now existing additions = Some led" and "normalize_ledger sha now existing = Some old"
    and "o1 \<in> set old" and "sealed_entry o1" and "e \<in> set led" and "handle_of e = handle_of o1"
    and "\<And>d. PDict d \<in> set additions \<Longrightarrow> handle_of d = handle_of o1 \<Longrightarrow> is_offer d"
  shows "e = o1"
proof -
  let ?start = "map (\<lambda>item. (handle_of item, item)) old"
  obtain merged where m: "append_all sha now additions ?start = Some merged"
    "normalize_ledger sha now (map (\<lambda>p. PDict (snd p)) merged) = Some led"
    using assms(1,2) by (auto simp: append_entries_def bind_Some_iff)
  have normal: "normal_ledger sha now old" using assms(2) by (rule normalize_cases)
  have keys: "map fst ?start = map handle_of old" by simp
  have start: "keyed ?start" unfolding keyed_def keys using normal by (auto simp: normal_ledger_def)
  have "map_of ?start (handle_of o1) = Some o1"
    using assms(3) start unfolding keyed_def by (intro map_of_is_SomeI) auto
  then have "map_of merged (handle_of o1) = Some o1"
    using assms(4,7) by (intro append_all_sealed [OF m(1)]) auto
  moreover have keyed: "keyed merged" using m(1) start by (rule append_all_keyed)
  ultimately obtain pre post where p: "merged = pre @ (handle_of o1, o1) # post"
    by (meson map_of_SomeD split_list)
  have "map handle_of (map snd merged) = map fst merged" using keyed by (auto simp: keyed_def)
  then have "distinct (map handle_of (map snd merged))" using keyed by (simp only: keyed_def)
  then have dist: "distinct (map handle_of (map snd pre @ o1 # map snd post))"
    by (simp only: p map_append list.map snd_conv)
  obtain acc where a: "normalize_all sha now (map (\<lambda>p. PDict (snd p)) merged) [] = Some acc" "filed sha now acc"
    "set led \<subseteq> snd ` set acc"
    using m(2) by (rule normalize_cases)
  have o1: "valid_entry o1" "ensure_transaction_draft sha None o1 = Some o1"
    using normal assms(3,4) by (auto simp: normal_ledger_def normal_entry_def sealed_entry_def)
  have "normalize_all sha now (map PDict (map snd pre @ o1 # map snd post)) [] = Some acc"
    using a(1) by (simp add: p comp_def)
  then have "map_of acc (handle_of o1) = Some o1" by (rule normalize_all_sealed [OF dist assms(4) o1])
  moreover obtain h where h: "(h, e) \<in> set acc" using a(3) assms(5) by force
  then have "map_of acc (handle_of e) = Some e" using a(2) by (auto simp: filed_def intro!: map_of_is_SomeI)
  ultimately show ?thesis using assms(6) by simp
qed

text \<open>
  C38. Whatever is appended, the ledger is in normal form: at most 200 entries under different
  handles, all valid, every offer a normalised draft, no entry live beyond its time, the most
  urgent ones first. And a draft that has ended keeps its entry unchanged as long as it is
  listed; only an entry of another kind under the same handle could take its place.
\<close>

theorem ledger_normal_form:
  assumes "append_entries sha now existing additions = Some led" and "normalize_ledger sha now existing = Some old"
  shows "length led \<le> 200 \<and> distinct (map handle_of led) \<and> sorted_wrt (\<lambda>e e'. entry_rank e' \<le> entry_rank e) led
    \<and> (\<forall>e\<in>set led. valid_entry e \<and> (is_offer e \<longrightarrow> ensure_transaction_draft sha None e = Some e)
         \<and> (expired now e \<longrightarrow> ended e))
    \<and> (\<forall>o1\<in>set old. \<forall>e\<in>set led. is_offer o1 \<and> state_text o1 \<in> {''COMMITTED'', ''FAILED_FINAL'', ''REVOKED'', ''EXPIRED''}
         \<and> handle_of e = handle_of o1 \<and> (\<forall>d. PDict d \<in> set additions \<and> handle_of d = handle_of o1 \<longrightarrow> is_offer d)
         \<longrightarrow> e = o1)"
proof -
  have "normal_ledger sha now led"
    using assms(1) by (auto simp: append_entries_def bind_Some_iff elim: normalize_cases)
  then show ?thesis
    using append_sealed [OF assms]
    by (auto simp: normal_ledger_def normal_entry_def sealed_entry_def sealed_texts_def MAX_LEDGER_ENTRIES_def)
qed

definition committed_offer :: pydict where
  "committed_offer = dset ''draft_state'' (PStr ''COMMITTED'') sample_offer"

lemma sample_ledger_values:
  "map_option (map state_text) (append_entries (\<lambda>t. ''x'') 5 [PDict committed_offer] [PDict sample_offer]) = Some [''COMMITTED'']"
  "map_option (map state_text) (normalize_ledger (\<lambda>t. ''x'') 5 [PDict committed_offer]) = Some [''COMMITTED'']"
  "handle_of sample_offer = ''d'' \<and> is_offer sample_offer"
  by code_simp+

theorem ledger_normal_form_witness:
  "\<exists>old led. normalize_ledger (\<lambda>t. ''x'') 5 [PDict committed_offer] = Some old
     \<and> append_entries (\<lambda>t. ''x'') 5 [PDict committed_offer] [PDict sample_offer] = Some led
     \<and> length led \<le> 200 \<and> (\<exists>e. led = [e] \<and> state_text e = ''COMMITTED'' \<and> valid_entry e)"
proof -
  obtain led e where led: "append_entries (\<lambda>t. ''x'') 5 [PDict committed_offer] [PDict sample_offer] = Some led"
    "led = [e]" "state_text e = ''COMMITTED''"
    using sample_ledger_values(1) by (auto simp: map_eq_Cons_conv)
  obtain old where old: "normalize_ledger (\<lambda>t. ''x'') 5 [PDict committed_offer] = Some old"
    using sample_ledger_values(2) by auto
  show ?thesis using ledger_normal_form [OF led(1) old] led old by auto
qed

end
