(* ===== verification/Txn_Flow.thy ===== *)
theory Txn_Flow
  imports Txn_System Ledger
begin

text \<open>
  The coordination above the store: \<open>transaction/authority.py\<close>, \<open>failure.py\<close>, \<open>focus.py\<close>,
  \<open>coordinator.py\<close> and \<open>reconciliation.py\<close>. The registered operation plugins are an argument.
  \<open>Inl\<close> of a step is the exception it raises; what it wrote before stays written.
\<close>

section \<open>Authority\<close>

record action_policy =
  ap_action :: string
  ap_risk :: string
  ap_requirement :: string
  ap_description :: string

record operation_plugin =
  op_action :: string
  op_risk :: string
  op_label :: string

text \<open>The descriptions are given by their UTF-8 bytes where they are not ASCII.\<close>

definition one_time_authority :: string where
  "one_time_authority = utf8
    [239, 188, 155, 233, 156, 128, 232, 166, 129, 228, 184, 128, 230, 172, 161, 230, 128, 167, 32, 85, 73, 32,
     230, 142, 136, 230, 157, 131, 227, 128, 130]"

definition registered_action_policies :: "operation_plugin list \<Rightarrow> (string \<times> action_policy) list" where
  "registered_action_policies plugins = map (\<lambda>p. (op_action p,
     \<lparr>ap_action = op_action p, ap_risk = op_risk p, ap_requirement = ''ui_action_authority'',
      ap_description = op_label p @ one_time_authority\<rparr>)) plugins"

definition unregistered_action :: string where
  "unregistered_action = utf8
    [230, 156, 170, 230, 179, 168, 229, 134, 140, 229, 138, 168, 228, 189, 156, 233, 187, 152, 232, 174,
     164, 233, 156, 128, 232, 166, 129, 228, 184, 128, 230, 172, 161, 230, 128, 167, 32, 85, 73, 32,
     230, 142, 136, 230, 157, 131, 239, 188, 140, 228, 184, 148, 228, 184, 154, 229, 138, 161, 230, 156,
     141, 229, 138, 161, 228, 187, 141, 229, 143, 175, 230, 139, 146, 231, 187, 157, 227, 128, 130]"

text \<open>A later plugin of the same action wins; an unknown action is the most restricted one.\<close>

definition policy_for_action :: "operation_plugin list \<Rightarrow> string \<Rightarrow> action_policy" where
  "policy_for_action plugins action =
    (case map_of (rev (registered_action_policies plugins)) action of
       Some p \<Rightarrow> p
     | None \<Rightarrow> \<lparr>ap_action = str_or action ''unknown'', ap_risk = ''high_risk'', ap_requirement = ''ui_action_authority'',
                ap_description = unregistered_action\<rparr>)"

text \<open>Here and below the outer \<open>None\<close> is an exception of \<open>int\<close>.\<close>

definition deterministic_offer_readiness :: "pydict \<Rightarrow> int \<Rightarrow> bool \<Rightarrow> (string + unit) option" where
  "deterministic_offer_readiness offer turn target_exists =
    (if \<not> target_exists then Some (Inl ''action_target_missing'')
     else if py_upper (state_text offer) \<noteq> ''READY'' then Some (Inl ''offer_not_ready'')
     else map_option (\<lambda>ready. if ready \<noteq> turn then Inl ''action_draft_not_transitioned_in_current_turn'' else Inr ())
       (int_or (dget offer ''ready_turn'') 0))"

definition build_ui_authority :: "pydict \<Rightarrow> string \<Rightarrow> string \<Rightarrow> int \<Rightarrow> pydict option" where
  "build_ui_authority payload actor role revision = do {
     version \<leftarrow> int_or (dget payload ''confirmation_version'') 0;
     conversation \<leftarrow> int_or (dget payload ''conversation_revision'') 0;
     let text = (\<lambda>k. PStr (text_of (dget payload k)));
     Some
      [(''protocol'', PStr ''ui_action_authority@1''), (''authority_type'', text ''authority_type''),
       (''offer_handle'', text ''offer_handle''), (''action_id'', text ''action_id''),
       (''target_handle'', text ''target_handle''), (''confirmation_id'', text ''confirmation_id''),
       (''confirmation_version'', PInt version), (''conversation_revision'', PInt conversation),
       (''actor_id'', PStr actor), (''actor_role'', PStr role), (''client_request_id'', text ''client_request_id''),
       (''comment'', text ''comment''), (''validated_at_revision'', PInt revision), (''grant_id'', PStr []),
       (''draft_id'', PStr []), (''draft_revision'', PInt 0), (''command_digest'', PStr []),
       (''grant_state'', PStr ''ISSUED'')] }"

text \<open>One comparison of \<open>validate_ui_authority\<close>: text fields, and integer fields with a default.\<close>

definition text_differs :: "pydict \<Rightarrow> string \<Rightarrow> string \<Rightarrow> bool" where
  "text_differs row k expected = (text_of (dget row k) \<noteq> expected)"

definition int_differs :: "pydict \<Rightarrow> string \<Rightarrow> pyval \<Rightarrow> int \<Rightarrow> bool option" where
  "int_differs row k v d = do {
     x \<leftarrow> int_or (dget row k) 0;
     y \<leftarrow> int_or v d;
     Some (x \<noteq> y) }"

text \<open>The checks in their order: the first that holds is the reason; one may raise.\<close>

fun first_failure :: "(string \<times> bool option) list \<Rightarrow> (string + unit) option" where
  "first_failure [] = Some (Inr ())"
| "first_failure ((reason, failed) # rest) =
     (case failed of None \<Rightarrow> None | Some True \<Rightarrow> Some (Inl reason) | Some False \<Rightarrow> first_failure rest)"

definition validate_ui_authority :: "pydict \<Rightarrow> pydict \<Rightarrow> int \<Rightarrow> (string + unit) option" where
  "validate_ui_authority row offer revision = first_failure
    [(''authority_protocol_mismatch'', Some (text_differs row ''protocol'' ''ui_action_authority@1'')),
     (''authority_not_confirmed'', Some (text_differs row ''authority_type'' ''ui_confirmed'')),
     (''authority_offer_mismatch'', Some (text_differs row ''offer_handle'' (text_of (dget offer ''handle'')))),
     (''authority_action_mismatch'', Some (text_differs row ''action_id'' (text_of (dget offer ''action_id'')))),
     (''authority_target_mismatch'', Some (text_differs row ''target_handle'' (text_of (dget offer ''target_handle'')))),
     (''authority_confirmation_id_mismatch'',
        Some (text_differs row ''confirmation_id'' (text_of (dget offer ''confirmation_id'')))),
     (''authority_confirmation_version_mismatch'',
        int_differs row ''confirmation_version'' (dget offer ''confirmation_version'') 0),
     (''authority_conversation_revision_mismatch'',
        int_differs row ''conversation_revision'' (dget offer ''authority_revision'') revision),
     (''authority_validated_revision_mismatch'', int_differs row ''validated_at_revision'' (PInt revision) 0),
     (''authority_draft_id_mismatch'', Some (text_differs row ''draft_id'' (offer_draft_id offer))),
     (''authority_draft_revision_mismatch'', int_differs row ''draft_revision'' (dget offer ''draft_revision'') 0),
     (''authority_command_digest_mismatch'',
        Some (text_differs row ''command_digest'' (text_of (dget offer ''command_digest'')))),
     (''authority_grant_id_missing'', Some (text_of (dget row ''grant_id'') = [])),
     (''authority_actor_or_request_missing'',
        Some (text_of (dget row ''actor_id'') = [] \<or> text_of (dget row ''client_request_id'') = []))]"

section \<open>Failures\<close>

definition classify_business_failure :: "pyval \<Rightarrow> string \<Rightarrow> string" where
  "classify_business_failure code err =
    (let numeric = (case py_int code of None \<Rightarrow> 0 | Some n \<Rightarrow> n); t = py_lower err in
     if numeric \<in> {0, 502, 503, 504}
        \<or> list_ex (\<lambda>w. py_in w t) [''timeout'', ''connection'', ''network'', ''temporarily'', ''request failed'']
     then ''SUBMISSION_UNKNOWN''
     else if numeric \<in> {409, 423, 429} then ''FAILED_RETRYABLE''
     else ''FAILED_FINAL'')"

section \<open>Focus\<close>

definition open_draft_states :: "string list" where
  "open_draft_states = [''NEEDS_INPUT'', ''READY'', ''AWAITING_AUTHORIZATION'', ''AUTHORIZED'', ''COMMITTING'',
     ''SUBMISSION_UNKNOWN'', ''RECONCILIATION_REQUIRED'', ''FAILED_RETRYABLE'']"

definition normalized_text :: "pyval \<Rightarrow> string option" where
  "normalized_text v = none_if_empty (stripped v)"

definition get_focused_draft_id :: "pydict \<Rightarrow> string option" where
  "get_focused_draft_id state =
    (if has_key ''focused_draft_id'' state then normalized_text (dget state ''focused_draft_id'')
     else normalized_text (dget state ''active_draft_id''))"

definition focused_draft_patch :: "string option \<Rightarrow> pydict" where
  "focused_draft_patch draft =
    (let v = opt_val (normalized_text (opt_val draft)) in [(''focused_draft_id'', v), (''active_draft_id'', v)])"

definition list_open_drafts :: "transaction_scope \<Rightarrow> int \<Rightarrow> txn_db \<Rightarrow> draft_row list" where
  "list_open_drafts scope limit db = list_drafts_for_scope scope open_draft_states limit None db"

definition next_focus_after_terminal :: "transaction_scope \<Rightarrow> string \<Rightarrow> txn_db \<Rightarrow> string option" where
  "next_focus_after_terminal scope terminal db =
    (case filter (\<lambda>r. dr_id r \<noteq> terminal) (list_open_drafts scope 50 db) of
       [r] \<Rightarrow> normalized_text (PStr (dr_id r))
     | _ \<Rightarrow> None)"

section \<open>The coordinator\<close>

text \<open>
  What one call draws from its surroundings: clock and correlation, SHA-256, and fresh hex
  numbers, one per purpose.
\<close>

record flow_env =
  fe_txn :: txn_env
  fe_sha :: "string \<Rightarrow> string"
  fe_fresh :: "string \<Rightarrow> string"

definition offer_scope :: "pydict \<Rightarrow> pydict \<Rightarrow> txn_scope" where
  "offer_scope state offer =
    (let scope = dict_if (dget offer ''scope'') in
     \<lparr>sc_tenant_id = text_or (py_or (dget scope ''tenant_id'') (dget state ''current_tenant_id'')) ''default'',
      sc_user_id = text_of (py_or (dget scope ''user_id'') (dget state ''current_user_id'')),
      sc_thread_id = text_of (py_or (dget scope ''thread_id'') (dget state ''current_thread_id'')),
      sc_draft_id = offer_draft_id offer\<rparr>)"

definition grant_expiry :: "pydict \<Rightarrow> int option" where
  "grant_expiry offer = (case py_int (dget offer ''expires_at'') of
     None \<Rightarrow> None | Some t \<Rightarrow> if t \<le> 0 then None else Some t)"

definition projection_keys :: "string list" where
  "projection_keys = [''kind'', ''handle'', ''draft_id'', ''draft_revision'', ''draft_state'', ''label'',
     ''action_id'', ''operation'', ''target_handle'', ''target_reference'', ''input_values'', ''preview'',
     ''required_inputs'', ''input_schema'', ''input_form_id'', ''input_form_version'',
     ''input_step'', ''interaction_revision'', ''input_errors'', ''suggested_input'',
     ''authority_protocol'', ''authority_requirement'', ''authority_revision'',
     ''confirmation_id'', ''confirmation_version'', ''scope'', ''expires_at'',
     ''created_at'', ''updated_at'', ''transaction_schema_version'',
     ''transaction_contract_version'', ''operation_capability_id'',
     ''operation_capability_version'', ''operation_capability_digest'',
     ''operation_capability_snapshot'', ''command_id'', ''command_digest'',
     ''business_command_envelope'']"

definition draft_projection :: "pydict \<Rightarrow> pydict" where
  "draft_projection offer = map (\<lambda>k. (k, dget offer k)) (filter (\<lambda>k. has_key k offer) projection_keys)"

text \<open>\<open>dict(offer.get("business_command_envelope") or {}) or None\<close>.\<close>

definition some_dict :: "pydict \<Rightarrow> pydict option" where
  "some_dict d = (if d = [] then None else Some d)"

definition offer_envelope :: "pydict \<Rightarrow> pydict option option" where
  "offer_envelope offer = map_option some_dict (dict_or_empty (dget offer ''business_command_envelope''))"

definition offer_row ::
  "flow_env \<Rightarrow> pydict \<Rightarrow> pydict \<Rightarrow> string option \<Rightarrow> string option \<Rightarrow> string option \<Rightarrow> draft_row option" where
  "offer_row e state offer st grant attempt = do {
     let scope = offer_scope state offer;
     revision \<leftarrow> int_or (dget offer ''draft_revision'') 1;
     digest \<leftarrow> offer_digest (fe_sha e) offer;
     envelope \<leftarrow> offer_envelope offer;
     Some \<lparr>dr_id = sc_draft_id scope, dr_tenant = sc_tenant_id scope, dr_user = sc_user_id scope,
       dr_thread = sc_thread_id scope, dr_revision = revision,
       dr_state = str_or (opt_str st) (text_or (dget offer ''draft_state'') ''READY''),
       dr_action = text_of (dget offer ''action_id''), dr_digest = digest, dr_envelope = envelope,
       dr_projection = Some (draft_projection offer),
       dr_grant = (case grant of Some g \<Rightarrow> Some g | None \<Rightarrow> none_if_empty (text_of (dget offer ''active_grant_id''))),
       dr_attempt = (case attempt of Some a \<Rightarrow> Some a | None \<Rightarrow> none_if_empty (text_of (dget offer ''commit_attempt_id''))),
       dr_created = 0, dr_updated = 0, dr_correlation = None\<rparr> }"

definition persist_draft_from_offer ::
  "flow_env \<Rightarrow> pydict \<Rightarrow> pydict \<Rightarrow> string option \<Rightarrow> string option \<Rightarrow> string option \<Rightarrow> txn_db
    \<Rightarrow> (txn_db \<times> draft_row option) option" where
  "persist_draft_from_offer e state offer st grant attempt db =
     map_option (\<lambda>row. create_draft (fe_txn e) row db) (offer_row e state offer st grant attempt)"

definition offer_receipt ::
  "flow_env \<Rightarrow> pydict \<Rightarrow> pydict \<Rightarrow> string option \<Rightarrow> string option \<Rightarrow> string \<Rightarrow> pydict \<Rightarrow> receipt_row" where
  "offer_receipt e state offer attempt handle st result =
    (let scope = offer_scope state offer;
         target = dict_if (dget (dict_if (dget offer ''business_command_envelope'')) ''target'') in
     \<lparr>rc_id = ''receipt:'' @ fe_fresh e (opt_str attempt @ ''/receipt''), rc_tenant = sc_tenant_id scope,
      rc_user = sc_user_id scope, rc_thread = sc_thread_id scope, rc_draft = sc_draft_id scope,
      rc_attempt = attempt, rc_handle = handle, rc_state = st, rc_result = result,
      rc_resource = none_if_empty (text_of (dget target ''resource_id'')), rc_created = 0, rc_correlation = None\<rparr>)"

definition record_transaction_receipt ::
  "flow_env \<Rightarrow> pydict \<Rightarrow> pydict \<Rightarrow> string option \<Rightarrow> string option \<Rightarrow> string \<Rightarrow> pydict \<Rightarrow> txn_db
    \<Rightarrow> txn_error + (txn_db \<times> receipt_row option)" where
  "record_transaction_receipt e state offer attempt handle st result db =
     record_receipt (fe_txn e) (offer_receipt e state offer attempt handle st result) db"

datatype flow_error = FlowValueError string | StoreError txn_error | FlowCrash

definition lookup_scope :: "txn_scope \<Rightarrow> transaction_scope" where
  "lookup_scope s = \<lparr>ts_tenant = sc_tenant_id s, ts_user = sc_user_id s, ts_thread = Some (sc_thread_id s)\<rparr>"

definition authority_grant :: "flow_env \<Rightarrow> txn_scope \<Rightarrow> string \<Rightarrow> int \<Rightarrow> string \<Rightarrow> pydict \<Rightarrow> pydict \<Rightarrow> grant_row" where
  "authority_grant e scope grant_id revision digest offer authority =
     \<lparr>gr_id = grant_id, gr_tenant = sc_tenant_id scope, gr_user = sc_user_id scope, gr_thread = sc_thread_id scope,
      gr_draft = sc_draft_id scope, gr_revision = revision, gr_digest = digest,
      gr_confirmation = text_of (dget offer ''confirmation_id''), gr_client = text_of (dget authority ''client_request_id''),
      gr_actor = text_of (dget authority ''actor_id''), gr_role = text_of (dget authority ''actor_role''),
      gr_state = ISSUED, gr_issued = 0, gr_reserved = None, gr_consumed = None, gr_revoked = None,
      gr_expires = grant_expiry offer, gr_attempt = None, gr_receipt = None, gr_reason = None\<rparr>"

text \<open>Why the stored draft no longer fits the card the user confirmed.\<close>

definition stale_authority :: "draft_row option \<Rightarrow> int option \<Rightarrow> flow_error option" where
  "stale_authority current revision =
    (case current of
       None \<Rightarrow> None
     | Some r \<Rightarrow>
        if py_upper (dr_state r) \<noteq> ''AWAITING_AUTHORIZATION''
        then Some (FlowValueError ''canonical Draft is no longer awaiting authority'')
        else if revision = None then Some FlowCrash
        else if Some (dr_revision r) \<noteq> revision
        then Some (FlowValueError ''canonical Draft revision no longer matches authority card'')
        else None)"

definition issued_authority :: "pydict \<Rightarrow> txn_scope \<Rightarrow> string \<Rightarrow> int \<Rightarrow> string \<Rightarrow> grant_row option \<Rightarrow> pydict" where
  "issued_authority authority scope grant_id revision digest stored =
     dict_update authority
      [(''grant_id'', PStr (case stored of None \<Rightarrow> grant_id | Some g \<Rightarrow> str_or (gr_id g) grant_id)),
       (''draft_id'', PStr (sc_draft_id scope)), (''draft_revision'', PInt revision), (''command_digest'', PStr digest),
       (''grant_state'', PStr (case stored of None \<Rightarrow> ''ISSUED'' | Some g \<Rightarrow> grant_state_text (gr_state g))),
       (''expires_at'', (case stored of None \<Rightarrow> PNone
          | Some g \<Rightarrow> (case gr_expires g of None \<Rightarrow> PNone | Some t \<Rightarrow> PInt t)))]"

definition issue_grant_for_authority ::
  "flow_env \<Rightarrow> pydict \<Rightarrow> pydict \<Rightarrow> pydict \<Rightarrow> txn_db \<Rightarrow> txn_db \<times> (flow_error + pydict)" where
  "issue_grant_for_authority e state offer authority db =
    (let scope = offer_scope state offer;
         grant_id = text_or (dget authority ''grant_id'') (''grant:'' @ fe_fresh e ''grant'');
         current = get_draft_for_scope (lookup_scope scope) (sc_draft_id scope) db in
     case offer_digest (fe_sha e) offer of None \<Rightarrow> (db, Inl FlowCrash) | Some digest \<Rightarrow>
     case stale_authority current (int_or (dget offer ''draft_revision'') 1) of Some err \<Rightarrow> (db, Inl err) | None \<Rightarrow>
     case int_or (dget offer ''draft_revision'') 1 of None \<Rightarrow> (db, Inl FlowCrash) | Some revision \<Rightarrow>
     case persist_draft_from_offer e state offer (Some ''AWAITING_AUTHORIZATION'') None None db of
       None \<Rightarrow> (db, Inl FlowCrash)
     | Some (db1, persisted) \<Rightarrow>
        if (case persisted of None \<Rightarrow> True | Some r \<Rightarrow> py_upper (dr_state r) \<noteq> ''AWAITING_AUTHORIZATION'')
        then (db1, Inl (FlowValueError ''canonical Draft rejected stale authority projection''))
        else
          (case issue_grant (fe_txn e) (authority_grant e scope grant_id revision digest offer authority) db1 of
             Inl err \<Rightarrow> (db1, Inl (StoreError err))
           | Inr (db2, stored) \<Rightarrow> (db2, Inr (issued_authority authority scope grant_id revision digest stored))))"

text \<open>The call of the atomic reservation for an authorised offer.\<close>

definition attempt_request_of :: "flow_env \<Rightarrow> pydict \<Rightarrow> pydict \<Rightarrow> pydict \<Rightarrow> attempt_request option" where
  "attempt_request_of e state offer authority = do {
     key \<leftarrow> stable_idempotency_key (fe_sha e) state offer;
     revision \<leftarrow> int_or (dget offer ''draft_revision'') 1;
     digest \<leftarrow> offer_digest (fe_sha e) offer;
     payload \<leftarrow> canonical_command_payload offer;
     envelope \<leftarrow> offer_envelope offer;
     Some \<lparr>ar_grant = text_of (dget authority ''grant_id''), ar_attempt = ''attempt:'' @ fe_fresh e ''attempt'',
       ar_scope = offer_scope state offer, ar_revision = revision, ar_action = text_of (dget offer ''action_id''),
       ar_digest = digest, ar_key = key, ar_payload = payload, ar_envelope = envelope,
       ar_projection = Some (draft_projection offer), ar_correlation = None\<rparr> }"

definition reserve_for_authority ::
  "flow_env \<Rightarrow> pydict \<Rightarrow> pydict \<Rightarrow> pydict \<Rightarrow> txn_db \<Rightarrow> txn_db \<times> (flow_error + reservation)" where
  "reserve_for_authority e state offer authority db =
    (case attempt_request_of e state offer authority of
       None \<Rightarrow> (db, Inl FlowCrash)
     | Some q \<Rightarrow>
        (case reserve_grant_and_start_attempt (fe_txn e) q db of
           Inl err \<Rightarrow> (db, Inl (StoreError err))
         | Inr (db', rv) \<Rightarrow> (db', Inr rv)))"

end
