(* ===== verification/Op_Plugins.thy ===== *)
theory Op_Plugins
  imports Txn_Flow
begin

text \<open>
  The declared business operations: \<open>operations/capability.py\<close>, \<open>operations/base.py\<close>,
  \<open>operations/registry.py\<close>, the frozen capability of a draft
  (\<open>transaction/capability_snapshot.py\<close>, \<open>target_contract.py\<close>), the command of a draft
  (\<open>transaction/command_envelope.py\<close>) and the ecommerce declarations
  (\<open>agent_modules/ecommerce/operation_plugins.py\<close>). SHA-256 is the argument \<open>sha\<close>.
\<close>

section \<open>Capabilities\<close>

record capability =
  cap_id :: string
  cap_version :: string
  cap_types :: "string list"
  cap_cardinality :: string
  cap_min :: int
  cap_max :: "int option"
  cap_binding :: string
  cap_authority :: string
  cap_mode :: string
  cap_shape :: string
  cap_lifecycle :: bool

text \<open>\<open>__post_init__\<close>: the message of the \<open>ValueError\<close>, if any.\<close>

definition capability_error :: "capability \<Rightarrow> string option" where
  "capability_error c =
    (if py_strip (cap_id c) = [] \<or> py_strip (cap_version c) = []
     then Some ''operation capability requires id and version''
     else if cap_types c = [] then Some ''operation capability requires at least one target resource type''
     else if cap_min c < 1 then Some ''min_targets must be >= 1''
     else if (case cap_max c of None \<Rightarrow> False | Some m \<Rightarrow> m < cap_min c)
     then Some ''max_targets must be >= min_targets''
     else if cap_cardinality c = ''exactly_one'' then
       (if cap_min c \<noteq> 1 \<or> cap_max c \<noteq> Some 1 then Some ''exactly_one capability must require exactly one target''
        else if cap_mode c \<noteq> ''single'' \<or> cap_shape c \<noteq> ''single''
        then Some ''exactly_one capability must use single execution/result shape'' else None)
     else None)"

text \<open>\<open>json.dumps(..., ensure_ascii=False, sort_keys=True, separators=(",", ":"))\<close>.\<close>

definition dump_sorted :: "pyval \<Rightarrow> string" where
  "dump_sorted v = json_dump '','' '':'' (sort_keys v)"

definition opt_int :: "int option \<Rightarrow> pyval" where
  "opt_int v = (case v of None \<Rightarrow> PNone | Some i \<Rightarrow> PInt i)"

definition capability_fields :: "capability \<Rightarrow> pydict" where
  "capability_fields c =
    [(''capability_id'', PStr (cap_id c)), (''version'', PStr (cap_version c)),
     (''target_resource_types'', texts (cap_types c)), (''target_cardinality'', PStr (cap_cardinality c)),
     (''min_targets'', PInt (cap_min c)), (''max_targets'', opt_int (cap_max c)),
     (''input_binding'', PStr (cap_binding c)), (''authority_scope'', PStr (cap_authority c)),
     (''execution_mode'', PStr (cap_mode c)), (''result_shape'', PStr (cap_shape c)),
     (''supports_lifecycle_query'', PBool (cap_lifecycle c))]"

definition capability_snapshot :: "(string \<Rightarrow> string) \<Rightarrow> capability \<Rightarrow> pydict list \<Rightarrow> pydict" where
  "capability_snapshot sha c schema =
    (let payload = capability_fields c @ [(''input_schema_version'', PStr ''action_plugin.input_schema@1''),
           (''input_schema_digest'', PStr (sha (dump_sorted (PList (map PDict schema)))))]
     in payload @ [(''digest'', PStr (sha (dump_sorted (PDict payload))))])"

definition single_target_operation_capability :: "string \<Rightarrow> string \<Rightarrow> capability" where
  "single_target_operation_capability action target =
     \<lparr>cap_id = ''operation.'' @ action, cap_version = ''1'', cap_types = [target], cap_cardinality = ''exactly_one'',
      cap_min = 1, cap_max = Some 1, cap_binding = ''per_item_required'', cap_authority = ''per_item'',
      cap_mode = ''single'', cap_shape = ''single'', cap_lifecycle = True\<rparr>"

definition capability_digest :: "(string \<Rightarrow> string) \<Rightarrow> pydict \<Rightarrow> string" where
  "capability_digest sha snapshot = str_or (stripped (dget snapshot ''digest'')) (sha (dump_sorted (PDict snapshot)))"

section \<open>Plugins\<close>

text \<open>\<open>ActorContext\<close> of \<open>business/contracts.py\<close>; the optional user token is not used here.\<close>

record actor_context =
  ax_user :: string
  ax_role :: string
  ax_tenant :: "string option"
  ax_subject_user :: "string option"
  ax_subject :: "string option"
  ax_permissions :: "string list"

definition resolved_subject_user_id :: "actor_context \<Rightarrow> string" where
  "resolved_subject_user_id a = str_or (opt_str (ax_subject_user a)) (str_or (opt_str (ax_subject a)) (ax_user a))"

record action_plugin = operation_plugin +
  op_code :: string
  op_operation :: string
  op_schema :: "pydict list"
  op_target :: string
  op_required :: "string list"
  op_result_type :: "string option"
  op_result_id :: "string option"
  op_refresh :: bool
  op_versioned :: bool
  op_transform :: "(pydict \<Rightarrow> pydict) option"
  op_capability :: capability

text \<open>A plugin is refused when it is made with a capability for another target.\<close>

definition plugin_error :: "action_plugin \<Rightarrow> string option" where
  "plugin_error p =
    (if op_target p \<notin> set (cap_types (op_capability p))
     then Some ''operation capability target type does not match operation target type'' else None)"

text \<open>\<open>ValueError\<close> and every other exception; the callers catch the first one only.\<close>

datatype plugin_fault = PluginValueError string | PluginCrash

definition int_fault :: "pyval \<Rightarrow> plugin_fault" where
  "int_fault v = (case v of PStr _ \<Rightarrow> PluginValueError ''invalid literal for int() with base 10'' | _ \<Rightarrow> PluginCrash)"

definition int_value :: "pyval \<Rightarrow> int \<Rightarrow> plugin_fault + int" where
  "int_value v d = (if \<not> truthy v then Inr d else case py_int v of None \<Rightarrow> Inl (int_fault v) | Some n \<Rightarrow> Inr n)"

definition target_id :: "pydict \<Rightarrow> plugin_fault + string" where
  "target_id target = (let i = stripped (dget target ''resource_id'') in
     if i = [] then Inl (PluginValueError ''operation target requires resource_id'') else Inr i)"

text \<open>The dicts of a list; anything else that is no list has none.\<close>

definition dict_rows :: "pyval \<Rightarrow> pydict list" where
  "dict_rows v = map dict_if (filter (\<lambda>x. as_pydict x \<noteq> None) (items_of v))"

definition missing_fields :: "action_plugin \<Rightarrow> pydict \<Rightarrow> pydict \<Rightarrow> string list" where
  "missing_fields p preview vs =
    (let wanted = map (\<lambda>row. text_of (dget row ''name''))
           (filter (\<lambda>row. truthy (get_or ''required'' row (PBool True))) (dict_rows (dget preview ''required_inputs'')))
     in filter (\<lambda>name. name \<in> set wanted \<and> stripped (dget vs name) = []) (op_required p))"

text \<open>The version of the preview is taken when the input has none.\<close>

definition versioned_input :: "action_plugin \<Rightarrow> pydict \<Rightarrow> pydict \<Rightarrow> plugin_fault + pydict" where
  "versioned_input p preview vs =
    (let v = dget (dict_if (dget preview ''snapshot'')) ''version'' in
     if op_versioned p \<and> \<not> has_key ''expected_version'' vs \<and> v \<noteq> PNone
     then (case int_value v 1 of Inl f \<Rightarrow> Inl f | Inr n \<Rightarrow> Inr (dset ''expected_version'' (PInt n) vs))
     else Inr vs)"

definition build_commit_payload ::
  "action_plugin \<Rightarrow> actor_context \<Rightarrow> pydict \<Rightarrow> pydict \<Rightarrow> pydict \<Rightarrow> plugin_fault + pydict" where
  "build_commit_payload p a target inputs preview =
    (case target_id target of Inl f \<Rightarrow> Inl f | Inr _ \<Rightarrow>
     case versioned_input p preview inputs of Inl f \<Rightarrow> Inl f | Inr vs1 \<Rightarrow>
     let vs2 = set_default ''subject_user_id'' (PStr (resolved_subject_user_id a)) vs1;
         vs = (case op_transform p of None \<Rightarrow> vs2 | Some f \<Rightarrow> f vs2);
         missing = missing_fields p preview vs in
     if missing \<noteq> [] then Inl (PluginValueError (''missing commit payload fields: '' @ join_with '', '' missing))
     else if \<not> op_versioned p then Inr vs
     else case int_value (dget vs ''expected_version'') 0 of
         Inl f \<Rightarrow> Inl f
       | Inr n \<Rightarrow> if n \<le> 0 then Inl (PluginValueError ''expected_version is required for versioned transaction commits'')
                  else Inr vs)"

definition command_contract_text :: string where
  "command_contract_text = ''business.operation.command@1''"

definition command_of :: "action_plugin \<Rightarrow> actor_context \<Rightarrow> string \<Rightarrow> string \<Rightarrow> pydict \<Rightarrow> pydict" where
  "command_of p a i subject payload =
    (let target = [(''resource_type'', PStr (op_target p)), (''resource_id'', PStr i)] in
     [(''contract'', PStr command_contract_text), (''action_id'', PStr (op_action p)), (''operation'', PStr (op_operation p)),
      (''target'', PDict target), (''input'', PDict payload),
      (''actor_scope'', PDict [(''actor_user_id'', PStr (ax_user a)), (''actor_role'', PStr (ax_role a)),
         (''tenant_id'', opt_val (ax_tenant a))]),
      (''subject_scope'', PDict [(''subject_user_id'', PStr subject), (''tenant_id'', opt_val (ax_tenant a))]),
      (''resource_scope'', PDict (target @ [(''expected_version'', dget payload ''expected_version''),
         (''subject_user_id'', PStr subject)]))])"

definition plugin_envelope ::
  "action_plugin \<Rightarrow> actor_context \<Rightarrow> pydict \<Rightarrow> pydict \<Rightarrow> pydict \<Rightarrow> plugin_fault + pydict" where
  "plugin_envelope p a target inputs preview =
    (case build_commit_payload p a target inputs preview of Inl f \<Rightarrow> Inl f | Inr payload \<Rightarrow>
     case target_id target of Inl f \<Rightarrow> Inl f | Inr i \<Rightarrow> Inr (command_of p a i (resolved_subject_user_id a) payload))"

text \<open>The checks of \<open>commit_envelope\<close> before it calls the business port.\<close>

definition envelope_fault :: "action_plugin \<Rightarrow> pydict \<Rightarrow> plugin_fault option" where
  "envelope_fault p envelope =
    (if text_of (dget envelope ''contract'') \<noteq> command_contract_text
     then Some (PluginValueError ''unsupported business operation command envelope'')
     else if text_of (dget envelope ''action_id'') \<noteq> op_action p
     then Some (PluginValueError ''business command envelope action mismatch'')
     else case dict_or_empty (dget envelope ''target'') of
       None \<Rightarrow> Some PluginCrash
     | Some target \<Rightarrow>
        if text_of (dget target ''resource_type'') \<noteq> op_target p
        then Some (PluginValueError ''business command envelope resource type mismatch'')
        else (case target_id target of Inl f \<Rightarrow> Some f | Inr _ \<Rightarrow> None))"

text \<open>\<open>commit\<close>: an envelope made on the spot, with the subject of the payload.\<close>

definition direct_envelope :: "action_plugin \<Rightarrow> actor_context \<Rightarrow> pydict \<Rightarrow> pydict \<Rightarrow> plugin_fault + pydict" where
  "direct_envelope p a target payload = (case target_id target of Inl f \<Rightarrow> Inl f | Inr i \<Rightarrow>
     Inr (command_of p a i (text_or (dget payload ''subject_user_id'') (resolved_subject_user_id a)) payload))"

text \<open>The resources a result names; an \<open>int\<close> that raises is \<open>None\<close>.\<close>

definition created_descriptor :: "action_plugin \<Rightarrow> pydict \<Rightarrow> int \<Rightarrow> pydict list" where
  "created_descriptor p d version =
    (if truthy_str (op_result_type p) \<and> truthy_str (op_result_id p) then
       (let i = text_of (dget d (opt_str (op_result_id p))) in
        if i = [] then []
        else [[(''resource_type'', PStr (opt_str (op_result_type p))), (''resource_id'', PStr i),
               (''label'', PStr (opt_str (op_result_type p) @ '':'' @ i)), (''facts'', PDict d),
               (''freshness_version'', PInt version)]])
     else [])"

definition refreshed_descriptor :: "action_plugin \<Rightarrow> pydict \<Rightarrow> pydict \<Rightarrow> pydict \<Rightarrow> int \<Rightarrow> pydict list" where
  "refreshed_descriptor p target existing d version =
    (if op_refresh p then
       (let i = text_of (py_or (dget d ''resource_id'') (py_or (dget target ''resource_id'') (dget existing ''resource_id''))) in
        if i = [] then []
        else [[(''resource_type'', PStr (op_target p)), (''resource_id'', PStr i),
               (''label'', PStr (text_or (dget existing ''label'') (op_target p @ '':'' @ i))), (''facts'', PDict d),
               (''freshness_version'', PInt version),
               (''handle'', opt_val (none_if_empty (text_of (dget existing ''handle''))))]])
     else [])"

definition project_result_artifacts :: "action_plugin \<Rightarrow> pydict \<Rightarrow> pydict \<Rightarrow> pydict \<Rightarrow> pydict list option" where
  "project_result_artifacts p target result existing =
    (case (truthy (dget result ''success''), as_pydict (dget result ''data'')) of
       (True, Some d) \<Rightarrow>
         (let made = created_descriptor p d; refreshed = refreshed_descriptor p target existing d in
          if made 0 @ refreshed 0 = [] then Some []
          else map_option (\<lambda>v. made v @ refreshed v) (int_or (dget d ''version'') 1))
     | _ \<Rightarrow> Some [])"

section \<open>The ecommerce operations\<close>

text \<open>Labels, given by their UTF-8 bytes.\<close>

definition label_cancel :: string where
  "label_cancel = utf8 [229, 143, 150, 230, 182, 136, 232, 174, 162, 229, 141, 149]"

definition label_after_sales :: string where
  "label_after_sales = utf8 [231, 148, 179, 232, 175, 183, 229, 148, 174, 229, 144, 142]"

definition label_refund :: string where
  "label_refund = utf8 [231, 148, 179, 232, 175, 183, 233, 128, 128, 230, 172, 190]"

definition label_invoice :: string where
  "label_invoice = utf8 [231, 148, 179, 232, 175, 183, 229, 143, 145, 231, 165, 168]"

definition text_issue :: string where
  "text_issue = utf8 [233, 151, 174, 233, 162, 152, 231, 177, 187, 229, 158, 139]"

definition text_pick_issue :: string where
  "text_pick_issue = utf8 [233, 128, 137, 230, 139, 169, 233, 151, 174, 233, 162, 152, 231, 177, 187, 229, 158, 139]"

definition text_quality :: string where
  "text_quality = utf8 [232, 180, 168, 233, 135, 143, 233, 151, 174, 233, 162, 152]"

definition text_spec :: string where
  "text_spec = utf8 [232, 167, 132, 230, 160, 188, 230, 136, 150, 230, 143, 143, 232, 191, 176, 228, 184, 141, 231, 172,
     166]"

definition text_wrong :: string where
  "text_wrong = utf8 [229, 143, 145, 233, 148, 153, 229, 149, 134, 229, 147, 129]"

definition text_other :: string where
  "text_other = utf8 [229, 133, 182, 228, 187, 150]"

definition text_describe :: string where
  "text_describe = utf8 [230, 143, 143, 232, 191, 176, 233, 151, 174, 233, 162, 152]"

definition text_please_describe :: string where
  "text_please_describe = utf8 [232, 175, 183, 230, 143, 143, 232, 191, 176, 229, 133, 183, 228, 189, 147, 230, 131, 133, 229, 134,
     181, 227, 128, 130]"

definition text_cancel_reason :: string where
  "text_cancel_reason = utf8 [229, 143, 150, 230, 182, 136, 229, 142, 159, 229, 155, 160]"

definition text_pick_cancel :: string where
  "text_pick_cancel = utf8 [233, 128, 137, 230, 139, 169, 229, 143, 150, 230, 182, 136, 229, 142, 159, 229, 155, 160]"

definition text_not_needed :: string where
  "text_not_needed = utf8 [228, 184, 141, 230, 131, 179, 232, 166, 129, 228, 186, 134]"

definition text_duplicate :: string where
  "text_duplicate = utf8 [233, 135, 141, 229, 164, 141, 228, 184, 139, 229, 141, 149]"

definition text_reputation :: string where
  "text_reputation = utf8 [229, 143, 163, 231, 162, 145, 228, 184, 141, 229, 165, 189]"

definition text_problem :: string where
  "text_problem = utf8 [233, 151, 174, 233, 162, 152, 230, 143, 143, 232, 191, 176]"

definition text_refund_reason :: string where
  "text_refund_reason = utf8 [233, 128, 128, 230, 172, 190, 229, 142, 159, 229, 155, 160]"

definition text_title :: string where
  "text_title = utf8 [229, 143, 145, 231, 165, 168, 230, 138, 172, 229, 164, 180]"

definition text_fill_invoice :: string where
  "text_fill_invoice = utf8 [229, 161, 171, 229, 134, 153, 229, 188, 128, 231, 165, 168, 228, 191, 161, 230, 129, 175]"


definition input_option :: "string \<Rightarrow> string \<Rightarrow> pyval" where
  "input_option v label = PDict [(''value'', PStr v), (''label'', PStr label)]"

definition input_row :: "string \<Rightarrow> string \<Rightarrow> string \<Rightarrow> string \<Rightarrow> int \<Rightarrow> string \<Rightarrow> pydict" where
  "input_row name label control kind step title =
    [(''name'', PStr name), (''label'', PStr label), (''control'', PStr control), (''input_kind'', PStr kind),
     (''required'', PBool True), (''step'', PInt step), (''step_title'', PStr title)]"

definition issue_type_input :: pydict where
  "issue_type_input = input_row ''reason_code'' text_issue ''choice_or_text'' ''select'' 1 text_pick_issue
     @ [(''options'', PList [input_option ''QUALITY_ISSUE'' text_quality, input_option ''SPEC_MISMATCH'' text_spec,
          input_option ''WRONG_ITEM'' text_wrong, input_option ''OTHER'' text_other])]"

definition reason_input :: "string \<Rightarrow> pydict" where
  "reason_input label = input_row ''reason'' label ''textarea'' ''textarea'' 2 text_describe
     @ [(''placeholder'', PStr text_please_describe)]"

text \<open>The service type goes in front of a reason that has no bracket yet.\<close>

definition after_sales_payload :: "pydict \<Rightarrow> pydict" where
  "after_sales_payload vs =
    (let service = stripped (dget vs ''service_type''); reason = stripped (dget vs ''reason'') in
     if service \<noteq> [] \<and> reason \<noteq> [] \<and> \<not> prefix ''['' reason
     then dset ''reason'' (PStr (''['' @ service @ ''] '' @ reason)) vs else vs)"

definition order_operation :: "string \<Rightarrow> string \<Rightarrow> string \<Rightarrow> string \<Rightarrow> pydict list \<Rightarrow> string list \<Rightarrow> action_plugin" where
  "order_operation action code label risk schema required =
     \<lparr>op_action = action, op_risk = risk, op_label = label, op_code = code, op_operation = code, op_schema = schema,
      op_target = ''order'', op_required = required, op_result_type = None, op_result_id = None, op_refresh = False,
      op_versioned = True, op_transform = None, op_capability = single_target_operation_capability action ''order''\<rparr>"

definition cancel_plugin :: action_plugin where
  "cancel_plugin = (order_operation ''cancel_order'' ''CANCEL_ORDER'' label_cancel ''low_mutation''
     [input_row ''reason'' text_cancel_reason ''choice_or_text'' ''select'' 1 text_pick_cancel
       @ [(''options'', PList [input_option ''not_needed'' text_not_needed, input_option ''duplicate'' text_duplicate,
            input_option ''bad_reputation'' text_reputation, input_option ''other'' text_other])]]
     [''reason''])\<lparr>op_refresh := True\<rparr>"

definition after_sales_plugin :: action_plugin where
  "after_sales_plugin = (order_operation ''create_after_sales_request'' ''APPLY_AFTER_SALES'' label_after_sales
     ''medium_mutation'' [issue_type_input, reason_input text_problem] [''reason'', ''reason_code''])
     \<lparr>op_result_type := Some ''after_sales'', op_result_id := Some ''ticket_id'', op_transform := Some after_sales_payload\<rparr>"

definition refund_plugin :: action_plugin where
  "refund_plugin = (order_operation ''create_refund'' ''APPLY_REFUND'' label_refund ''financial_mutation''
     [issue_type_input, reason_input text_refund_reason] [''reason''])
     \<lparr>op_result_type := Some ''refund'', op_result_id := Some ''refund_id''\<rparr>"

definition invoice_plugin :: action_plugin where
  "invoice_plugin = (order_operation ''create_invoice'' ''APPLY_INVOICE'' label_invoice ''medium_mutation''
     [input_row ''invoice_title'' text_title ''text'' ''text'' 1 text_fill_invoice] [''invoice_title''])
     \<lparr>op_result_type := Some ''invoice'', op_result_id := Some ''invoice_id''\<rparr>"

definition default_order_operations :: "action_plugin list" where
  "default_order_operations = [cancel_plugin, after_sales_plugin, refund_plugin, invoice_plugin]"

section \<open>The registry\<close>

text \<open>\<open>__init__\<close>: the message of the \<open>ValueError\<close>, if any; keys are exact, codes upper case.\<close>

definition registry_error :: "action_plugin list \<Rightarrow> string option" where
  "registry_error ps =
    (if \<not> distinct (map op_action ps) then Some ''duplicate action plugin registration''
     else if \<not> distinct (map (\<lambda>p. py_upper (op_code p)) ps) then Some ''duplicate business action code registration''
     else map_option (\<lambda>p. ''operation plugin '' @ op_action p @ '' capability target mismatch'')
       (find (\<lambda>p. op_target p \<notin> set (cap_types (op_capability p))) ps))"

definition find_plugin :: "action_plugin list \<Rightarrow> string \<Rightarrow> action_plugin option" where
  "find_plugin ps action = find (\<lambda>p. op_action p = py_strip action) ps"

definition all_for_resource :: "action_plugin list \<Rightarrow> string \<Rightarrow> action_plugin list" where
  "all_for_resource ps rtype = filter (\<lambda>p. op_target p = rtype) ps"

text \<open>The plugins behind the offered business codes; their public metadata is presentation.\<close>

definition plugins_for_business_codes :: "action_plugin list \<Rightarrow> pyval list \<Rightarrow> action_plugin list" where
  "plugins_for_business_codes ps codes =
    (let available = map (\<lambda>c. py_upper (stripped c)) codes in filter (\<lambda>p. py_upper (op_code p) \<in> set available) ps)"

section \<open>Frozen capabilities\<close>

definition SNAPSHOT_REQUIRED_KEYS :: "string list" where
  "SNAPSHOT_REQUIRED_KEYS = [''capability_id'', ''version'', ''target_resource_types'', ''target_cardinality'',
     ''min_targets'', ''max_targets'', ''input_binding'', ''authority_scope'', ''execution_mode'', ''result_shape'',
     ''supports_lifecycle_query'', ''input_schema_version'', ''input_schema_digest'', ''digest'']"

definition snapshot_for_action :: "(string \<Rightarrow> string) \<Rightarrow> action_plugin list \<Rightarrow> string \<Rightarrow> pydict option" where
  "snapshot_for_action sha ps action =
     map_option (\<lambda>p. capability_snapshot sha (op_capability p) (op_schema p)) (find_plugin ps action)"

definition has_complete_snapshot :: "pydict \<Rightarrow> bool" where
  "has_complete_snapshot offer =
    (let snapshot = dict_if (dget offer ''operation_capability_snapshot'') in
     list_all (\<lambda>k. has_key k snapshot) SNAPSHOT_REQUIRED_KEYS
     \<and> text_of (py_or (dget offer ''operation_capability_digest'') (dget snapshot ''digest'')) \<noteq> [])"

definition snapshot_matches_registry :: "(string \<Rightarrow> string) \<Rightarrow> action_plugin list \<Rightarrow> pydict \<Rightarrow> bool" where
  "snapshot_matches_registry sha ps offer =
    (let snapshot = dict_if (dget offer ''operation_capability_snapshot'') in
     has_complete_snapshot offer
     \<and> (case snapshot_for_action sha ps (text_of (dget offer ''action_id'')) of
          None \<Rightarrow> False
        | Some current \<Rightarrow> text_of (dget current ''capability_id'') = text_of (dget snapshot ''capability_id'')
            \<and> text_of (dget current ''version'') = text_of (dget snapshot ''version'')
            \<and> capability_digest sha current = capability_digest sha snapshot))"

definition attach_snapshot :: "(string \<Rightarrow> string) \<Rightarrow> action_plugin list \<Rightarrow> pydict \<Rightarrow> pydict" where
  "attach_snapshot sha ps offer =
    (case snapshot_for_action sha ps (text_of (dget offer ''action_id'')) of
       None \<Rightarrow> offer
     | Some snapshot \<Rightarrow>
        dset ''operation_capability_digest'' (PStr (capability_digest sha snapshot))
         (dset ''operation_capability_version'' (PStr (text_of (dget snapshot ''version'')))
          (dset ''operation_capability_id'' (PStr (text_of (dget snapshot ''capability_id'')))
           (dset ''operation_capability_snapshot'' (PDict snapshot) offer))))"

definition allowed_target_resource_types :: "action_plugin list \<Rightarrow> string \<Rightarrow> string list" where
  "allowed_target_resource_types ps action = (case find_plugin ps action of
     None \<Rightarrow> [] | Some p \<Rightarrow> (let t = py_strip (op_target p) in if t = [] then [] else [t]))"

section \<open>The command of a draft\<close>

definition actor_context_from_state :: "pydict \<Rightarrow> actor_context" where
  "actor_context_from_state state =
     \<lparr>ax_user = text_of (dget state ''current_user_id''),
      ax_role = text_or (dget state ''current_role'') ''customer'',
      ax_tenant = none_if_empty (text_of (dget state ''current_tenant_id'')),
      ax_subject_user = none_if_empty (text_of (py_or (dget state ''current_subject'') (dget state ''current_user_id''))),
      ax_subject = none_if_empty (text_of (dget state ''current_subject'')),
      ax_permissions = filter (\<lambda>s. s \<noteq> []) (map py_str (items_of (dget state ''actor_permissions'')))\<rparr>"

definition unimplemented_action :: "string \<Rightarrow> string" where
  "unimplemented_action action = utf8 [230, 156, 170, 229, 174, 158, 231, 142, 176, 231, 154, 132, 228, 184, 154, 229, 138, 161, 229, 138,
     168, 228, 189, 156, 239, 188, 154] @ action"

definition command_id_of :: "(string \<Rightarrow> string) \<Rightarrow> pydict \<Rightarrow> pydict \<Rightarrow> plugin_fault + string" where
  "command_id_of sha state offer =
    (let given = text_of (dget offer ''command_id'') in
     if given \<noteq> [] then Inr given
     else case stable_command_id sha state offer of None \<Rightarrow> Inl PluginCrash | Some i \<Rightarrow> Inr i)"

definition build_business_command_envelope ::
  "(string \<Rightarrow> string) \<Rightarrow> action_plugin list \<Rightarrow> pydict \<Rightarrow> pydict \<Rightarrow> pydict \<Rightarrow> plugin_fault + pydict" where
  "build_business_command_envelope sha ps state offer target =
    (let action = text_of (dget offer ''action_id'') in
     case find_plugin ps action of
       None \<Rightarrow> Inl (PluginValueError (unimplemented_action action))
     | Some p \<Rightarrow>
        if action \<notin> set (map op_action ps) then Inl (PluginValueError (unimplemented_action action))
        else
          let commit_target = [(''resource_type'', PStr (text_of (dget target ''resource_type''))),
                (''resource_id'', PStr (text_of (dget target ''resource_id'')))] in
          case dict_or_empty (dget offer ''input_values'') of None \<Rightarrow> Inl PluginCrash | Some inputs \<Rightarrow>
          case plugin_envelope p (actor_context_from_state state) commit_target inputs (dict_if (dget offer ''preview'')) of
            Inl f \<Rightarrow> Inl f
          | Inr envelope \<Rightarrow>
             (case command_id_of sha state offer of Inl f \<Rightarrow> Inl f
              | Inr i \<Rightarrow> Inr (dset ''command_id'' (PStr i) envelope)))"

end
