(* ===== verification/Txn_Reconcile.thy ===== *)
theory Txn_Reconcile
  imports Txn_Flow
begin

text \<open>
  \<open>transaction/reconciliation.py\<close>: the pass over attempts whose outcome is open. The business
  call is the argument \<open>exec\<close>, over an arbitrary world; the artifacts a plugin projects from a
  result are the argument \<open>artifacts\<close>. A pass that raises part way keeps what it has written:
  every operation of the store commits on its own.
\<close>

text \<open>\<open>BusinessServiceError\<close> with status and message, or any other exception with its text.\<close>

datatype exec_error = ServiceError int string | OtherError string

type_synonym 'w executor = "'w \<Rightarrow> pydict \<Rightarrow> string \<Rightarrow> 'w \<times> (exec_error + pydict)"

definition exec_result :: "exec_error + pydict \<Rightarrow> pydict" where
  "exec_result r = (case r of
     Inr d \<Rightarrow> d
   | Inl (ServiceError code msg) \<Rightarrow> [(''success'', PBool False), (''error'', PStr msg), (''code'', PInt code)]
   | Inl (OtherError txt) \<Rightarrow>
       [(''success'', PBool False), (''error'', PStr (''reconcile exception: '' @ txt)), (''code'', PInt 0)])"

record 'w recon =
  rn_db :: txn_db
  rn_world :: 'w
  rn_additions :: "pydict list"
  rn_reports :: "pydict list"

text \<open>What the steps of one pass share.\<close>

record pass_env =
  pe_flow :: flow_env
  pe_state :: pydict
  pe_ledger :: "pyval list"
  pe_artifacts :: "pydict \<Rightarrow> pydict \<Rightarrow> pydict list"

definition pass_scope :: "pass_env \<Rightarrow> pydict" where
  "pass_scope e = scope_for_state (pe_state e)"

definition report :: "string \<Rightarrow> string \<Rightarrow> pydict" where
  "report attempt st = [(''attempt_id'', PStr attempt), (''state'', PStr st)]"

text \<open>The two writes on an attempt that cannot be judged yet.\<close>

definition open_change :: "string \<Rightarrow> string option \<Rightarrow> string option \<Rightarrow> attempt_change" where
  "open_change st code err = \<lparr>ac_state = st, ac_result = None, ac_receipt = None, ac_error_code = code,
     ac_error = err, ac_reconciled = True\<rparr>"

definition closing_change :: "string \<Rightarrow> pydict \<Rightarrow> string option \<Rightarrow> string option \<Rightarrow> string option \<Rightarrow> attempt_change" where
  "closing_change st result handle code err = \<lparr>ac_state = st, ac_result = Some result, ac_receipt = handle,
     ac_error_code = code, ac_error = err, ac_reconciled = True\<rparr>"

definition state_change :: "string \<Rightarrow> string \<Rightarrow> draft_change" where
  "state_change st attempt = \<lparr>ch_state = st, ch_revision = None, ch_digest = None, ch_envelope = None,
     ch_projection = None, ch_grant = None, ch_attempt = Some attempt\<rparr>"

definition committed_by :: "string \<Rightarrow> pydict \<Rightarrow> pydict" where
  "committed_by attempt offer = dset ''commit_attempt_id'' (PStr attempt) offer"

text \<open>\<open>transition_draft\<close> of the offer when there is one; it may raise.\<close>

definition offer_addition :: "pass_env \<Rightarrow> pydict \<Rightarrow> string \<Rightarrow> string option \<Rightarrow> string \<Rightarrow> pydict list option" where
  "offer_addition e offer st reason attempt =
    (if offer = [] then Some []
     else map_option (\<lambda>o1. [committed_by attempt o1]) (transition_draft (fe_sha (pe_flow e)) offer st reason None))"

text \<open>The receipt is there already: the attempt is closed from it.\<close>

definition reproject_receipt :: "pass_env \<Rightarrow> attempt_row \<Rightarrow> pydict \<Rightarrow> receipt_row \<Rightarrow> 'w recon \<Rightarrow> 'w recon \<times> bool" where
  "reproject_receipt e t offer c s =
    (let st = (if rc_state c = ''SUCCESS'' then ''COMMITTED'' else ''FAILED_FINAL'') in
     case offer_addition e offer st None (ta_id t) of
       None \<Rightarrow> (s, False)
     | Some new \<Rightarrow>
        (case transition_attempt (fe_txn (pe_flow e)) (ta_id t)
            (closing_change (if st = ''COMMITTED'' then ''ACKED'' else ''FAILED_FINAL'') (rc_result c)
               (none_if_empty (opt_str (rc_handle c))) None None) (rn_db s) of
           Inl _ \<Rightarrow> (s, False)
         | Inr db \<Rightarrow> (s\<lparr>rn_db := db, rn_additions := rn_additions s @ new,
             rn_reports := rn_reports s @ [report (ta_id t) ''RECEIPT_REPROJECTED'']\<rparr>, True)))"

text \<open>The command cannot be verified or is gone: the attempt is left for a person.\<close>

definition require_review :: "pass_env \<Rightarrow> attempt_row \<Rightarrow> pydict \<Rightarrow> string \<Rightarrow> string \<Rightarrow> 'w recon \<Rightarrow> 'w recon \<times> bool" where
  "require_review e t offer err reason s =
    (case transition_attempt (fe_txn (pe_flow e)) (ta_id t) (open_change ''RECONCILIATION_REQUIRED'' None (Some err)) (rn_db s) of
       Inl _ \<Rightarrow> (s, False)
     | Inr db1 \<Rightarrow>
        let s1 = s\<lparr>rn_db := advance_draft (fe_txn (pe_flow e)) (ta_draft t) (state_change ''SUBMISSION_UNKNOWN'' (ta_id t)) db1\<rparr> in
        (case offer_addition e offer ''SUBMISSION_UNKNOWN'' (Some reason) (ta_id t) of
           None \<Rightarrow> (s1, False)
         | Some new \<Rightarrow> (s1\<lparr>rn_additions := rn_additions s1 @ new,
             rn_reports := rn_reports s1 @ [report (ta_id t) ''RECONCILIATION_REQUIRED'']\<rparr>, True)))"

definition still_unknown :: "pass_env \<Rightarrow> attempt_row \<Rightarrow> pydict \<Rightarrow> pydict \<Rightarrow> 'w recon \<Rightarrow> 'w recon \<times> bool" where
  "still_unknown e t source result s =
    (case transition_draft (fe_sha (pe_flow e)) source ''SUBMISSION_UNKNOWN'' (Some ''reconciliation_still_unknown'') None of
       None \<Rightarrow> (s, False)
     | Some unknown \<Rightarrow>
        let s1 = s\<lparr>rn_additions := rn_additions s @ [committed_by (ta_id t) unknown]\<rparr> in
        (case transition_attempt (fe_txn (pe_flow e)) (ta_id t)
            (open_change ''SUBMISSION_UNKNOWN'' (Some (text_of (dget result ''code''))) (Some (text_of (dget result ''error''))))
            (rn_db s1) of
           Inl _ \<Rightarrow> (s1, False)
         | Inr db1 \<Rightarrow> (s1\<lparr>rn_db := advance_draft (fe_txn (pe_flow e)) (ta_draft t)
                (state_change ''SUBMISSION_UNKNOWN'' (ta_id t)) db1,
              rn_reports := rn_reports s1 @ [report (ta_id t) ''SUBMISSION_UNKNOWN'']\<rparr>, True)))"

definition operation_label :: string where
  "operation_label = utf8 [228, 184, 154, 229, 138, 161, 230, 147, 141, 228, 189, 156]"

text \<open>\<open>str(attempt.get("grant_id") or durable.get("active_grant_id") or "")\<close>.\<close>

definition attempt_grant :: "attempt_row \<Rightarrow> draft_row option \<Rightarrow> string" where
  "attempt_grant t durable = str_or (ta_grant t) (case durable of None \<Rightarrow> [] | Some r \<Rightarrow> opt_str (dr_grant r))"

text \<open>
  The definite outcome: draft and receipt entry, the durable receipt, the draft, the attempt,
  the grant, in this order.
\<close>

definition close_attempt ::
  "pass_env \<Rightarrow> attempt_row \<Rightarrow> draft_row option \<Rightarrow> pydict \<Rightarrow> pydict \<Rightarrow> string \<Rightarrow> 'w recon \<Rightarrow> 'w recon \<times> bool" where
  "close_attempt e t durable source result st s =
    (let ok = (st = ''COMMITTED'');
         x = fe_txn (pe_flow e);
         reason = (if ok then None else Some ''reconciliation_business_rejection'') in
     case (transition_draft (fe_sha (pe_flow e)) source st reason None, int_or (dget (pe_state e) ''turn_index'') 0) of
       (Some moved, Some turn) \<Rightarrow>
         let offer = committed_by (ta_id t) moved;
             entry = receipt_entry (te_now x) (fe_fresh (pe_flow e) (ta_id t)) (text_of (dget offer ''action_id'')) result
               (pass_scope e) turn (text_or (dget offer ''label'') operation_label) (ta_draft t) (ta_id t) (ta_key t);
             handle = handle_of entry;
             s1 = s\<lparr>rn_additions := rn_additions s @ [offer, entry] @ (if ok then pe_artifacts e offer result else [])\<rparr> in
         (case record_transaction_receipt (pe_flow e) (pe_state e) offer (Some (ta_id t)) (Some handle)
             (if ok then ''SUCCESS'' else ''FAILED'') result (rn_db s1) of
            Inl _ \<Rightarrow> (s1, False)
          | Inr (db1, _) \<Rightarrow>
             let db2 = advance_draft x (ta_draft t) (state_change st (ta_id t)) db1 in
             (case transition_attempt x (ta_id t)
                 (if ok then closing_change ''ACKED'' result (Some handle) None None
                  else closing_change st result (Some handle) (Some (text_of (dget result ''code'')))
                         (Some (text_of (dget result ''error'')))) db2 of
                Inl _ \<Rightarrow> (s1\<lparr>rn_db := db2\<rparr>, False)
              | Inr db3 \<Rightarrow>
                 let g = attempt_grant t durable;
                     db4 = (if g = [] then db3
                            else if ok then consume_grant x g (Some (ta_id t)) (Some handle) db3
                            else revoke_grant x g st db3)
                 in (s1\<lparr>rn_db := db4, rn_reports := rn_reports s1 @
                       (if ok then [report (ta_id t) ''ACKED'' @ [(''receipt_handle'', PStr handle)]] else [])\<rparr>, True)))
     | _ \<Rightarrow> (s, False))"

text \<open>What stands in for the offer when neither ledger nor store has one.\<close>

definition fallback_source :: "pass_env \<Rightarrow> attempt_row \<Rightarrow> draft_row option \<Rightarrow> pydict \<Rightarrow> string \<Rightarrow> pydict" where
  "fallback_source e t durable envelope expected =
     [(''kind'', PStr ''offer''), (''handle'', PStr (ta_draft t)), (''draft_id'', PStr (ta_draft t)),
      (''draft_revision'', PInt (let r = (case durable of None \<Rightarrow> 0 | Some d \<Rightarrow> dr_revision d) in
         if r \<noteq> 0 then r else int_or_one (ta_revision t))),
      (''draft_state'', PStr ''COMMITTING''),
      (''action_id'', PStr (text_of (py_or (dget envelope ''action_id'') (PStr (ta_action t))))),
      (''label'', PStr operation_label),
      (''scope'', PDict (pass_scope e)), (''business_command_envelope'', PDict envelope), (''command_digest'', PStr expected)]"

definition durable_projection :: "draft_row option \<Rightarrow> pydict" where
  "durable_projection durable = (case durable of None \<Rightarrow> [] | Some r \<Rightarrow> (case dr_projection r of None \<Rightarrow> [] | Some p \<Rightarrow> p))"

definition attempt_envelope :: "attempt_row \<Rightarrow> draft_row option \<Rightarrow> pydict" where
  "attempt_envelope t durable =
    (let own = (case ta_envelope t of None \<Rightarrow> [] | Some d \<Rightarrow> d) in
     if own \<noteq> [] then own
     else (case durable of None \<Rightarrow> [] | Some r \<Rightarrow> (case dr_envelope r of None \<Rightarrow> [] | Some d \<Rightarrow> d)))"

text \<open>The offer of the ledger, or else the projection the store kept; reading the ledger may raise.\<close>

definition chosen_offer :: "pass_env \<Rightarrow> attempt_row \<Rightarrow> draft_row option \<Rightarrow> pydict option" where
  "chosen_offer e t durable = map_option
     (\<lambda>found. case found of None \<Rightarrow> durable_projection durable | Some o1 \<Rightarrow> o1)
     (find_handle (fe_sha (pe_flow e)) (te_now (fe_txn (pe_flow e))) (pe_ledger e) (ta_draft t) (pass_scope e) [''offer''] [] False)"

definition reconcile_attempt :: "pass_env \<Rightarrow> 'w executor \<Rightarrow> attempt_row \<Rightarrow> 'w recon \<Rightarrow> 'w recon \<times> bool" where
  "reconcile_attempt e exec t s =
    (let durable = get_draft (ta_draft t) (rn_db s);
         sha = fe_sha (pe_flow e) in
     case chosen_offer e t durable of
       None \<Rightarrow> (s, False)
     | Some offer \<Rightarrow>
        (case get_receipt_by_attempt (ta_id t) (rn_db s) of
           Some c \<Rightarrow> reproject_receipt e t offer c s
         | None \<Rightarrow>
            let envelope = attempt_envelope t durable;
                expected = str_or (ta_digest t) (case durable of None \<Rightarrow> [] | Some r \<Rightarrow> dr_digest r) in
            if envelope = []
            then require_review e t offer ''durable command envelope missing'' ''reconcile_envelope_missing'' s
            else
              let digest = command_digest_for_offer sha (dset ''business_command_envelope'' (PDict envelope) offer) in
              if expected \<noteq> [] \<and> digest = None then (s, False)
              else if expected \<noteq> [] \<and> digest \<noteq> Some expected
              then require_review e t offer ''recorded command digest unverifiable'' ''reconcile_digest_unverifiable'' s
              else
                let (w, answer) = exec (rn_world s) envelope (ta_key t);
                    result = exec_result answer;
                    s1 = s\<lparr>rn_world := w\<rparr>;
                    source = (if offer = [] then fallback_source e t durable envelope expected else offer) in
                if truthy (dget result ''success'') then close_attempt e t durable source result ''COMMITTED'' s1
                else
                  let st = classify_business_failure (dget result ''code'') (text_of (dget result ''error'')) in
                  if st = ''SUBMISSION_UNKNOWN'' then still_unknown e t source result s1
                  else close_attempt e t durable source result st s1))"

fun reconcile_all :: "pass_env \<Rightarrow> 'w executor \<Rightarrow> attempt_row list \<Rightarrow> 'w recon \<Rightarrow> 'w recon \<times> bool" where
  "reconcile_all e exec [] s = (s, True)"
| "reconcile_all e exec (t # ts) s =
     (case reconcile_attempt e exec t s of
        (s', True) \<Rightarrow> reconcile_all e exec ts s'
      | (s', False) \<Rightarrow> (s', False))"

record pass_patch =
  pp_ledger :: "pydict list"
  pp_cards :: pydict
  pp_reports :: "pydict list"
  pp_focus :: "pydict option"

definition terminal_ids :: "pydict list \<Rightarrow> string list" where
  "terminal_ids additions = map (\<lambda>item. text_of (dget item ''draft_id''))
     (filter (\<lambda>item. is_offer item \<and> py_upper (state_text item) \<in> set sealed_texts) additions)"

text \<open>The focus leaves a draft that has ended.\<close>

definition focus_patch :: "pass_env \<Rightarrow> pydict list \<Rightarrow> txn_db \<Rightarrow> pydict option" where
  "focus_patch e additions db =
    (case get_focused_draft_id (pe_state e) of
       None \<Rightarrow> None
     | Some draft \<Rightarrow>
        if draft \<notin> set (terminal_ids additions) then None
        else
          let scope = pass_scope e;
              look = \<lparr>ts_tenant = text_or (dget scope ''tenant_id'') ''default'', ts_user = text_of (dget scope ''user_id''),
                ts_thread = none_if_empty (text_of (dget scope ''thread_id''))\<rparr>
          in Some (focused_draft_patch (next_focus_after_terminal look draft db)
               @ [(''pending_confirmation_id'', PNone), (''pending_confirmation_version'', PNone), (''response_contract'', PNone)]))"

definition open_attempts :: "pass_env \<Rightarrow> txn_db \<Rightarrow> attempt_row list" where
  "open_attempts e db =
    (let scope = pass_scope e; arg = (\<lambda>k. Some (text_of (dget scope k))) in
     list_reconcilable_attempts (arg ''tenant_id'') (arg ''user_id'') (arg ''thread_id'') 20 db)"

definition start_pass :: "txn_db \<Rightarrow> 'w \<Rightarrow> 'w recon" where
  "start_pass db w = \<lparr>rn_db = db, rn_world = w, rn_additions = [], rn_reports = []\<rparr>"

text \<open>The outer \<open>None\<close> is an exception, the inner one the answer \<open>None\<close>.\<close>

definition pass_answer :: "pass_env \<Rightarrow> 'w recon \<Rightarrow> pass_patch option option" where
  "pass_answer e s =
    (if rn_additions s = [] then Some None
     else
       let sha = fe_sha (pe_flow e); now = te_now (fe_txn (pe_flow e)) in do {
         merged \<leftarrow> append_entries sha now (pe_ledger e) (map PDict (rn_additions s));
         cards \<leftarrow> ledger_cards sha now (map PDict merged) (pass_scope e);
         Some (Some \<lparr>pp_ledger = merged, pp_cards = cards, pp_reports = rn_reports s,
           pp_focus = focus_patch e (rn_additions s) (rn_db s)\<rparr>) })"

definition reconcile_attempts ::
  "pass_env \<Rightarrow> 'w executor \<Rightarrow> txn_db \<Rightarrow> 'w \<Rightarrow> 'w recon \<times> pass_patch option option" where
  "reconcile_attempts e exec db w =
    (case reconcile_all e exec (open_attempts e db) (start_pass db w) of
       (s, True) \<Rightarrow> (s, pass_answer e s)
     | (s, False) \<Rightarrow> (s, None))"

end
