(* ===== verification/Agent_Client.thy ===== *)
theory Agent_Client
  imports Op_Plugins Txn_Reconcile Biz_Http
begin

text \<open>
  The agent's side of the business boundary: \<open>agent_modules/ecommerce/business_client.py\<close> (the
  signed headers and the request loop), \<open>business_port.py\<close>, the routing of
  \<open>agent_core/modules/business_router.py\<close>, and the execution of a frozen command
  (\<open>_execute_business_command_envelope\<close> of \<open>transaction/commit_runtime.py\<close>). The transport is
  an argument: what a request gets back, if anything.
\<close>

section \<open>Headers\<close>

text \<open>The actor bound to a call by \<open>business_actor_context\<close> (\<open>business/transport.py\<close>).\<close>

record bound_actor =
  ba_user :: string
  ba_role :: string
  ba_tenant :: "string option"
  ba_account :: string
  ba_permissions :: "string list"

definition business_actor_context :: "string \<Rightarrow> string \<Rightarrow> string option \<Rightarrow> string option \<Rightarrow> string list \<Rightarrow> bound_actor" where
  "business_actor_context user role tenant account permissions =
     \<lparr>ba_user = user, ba_role = role, ba_tenant = tenant, ba_account = str_or (opt_str account) user,
      ba_permissions = permissions\<rparr>"

text \<open>\<open>EcommerceHttpBusinessPort._call\<close>.\<close>

definition port_actor :: "actor_context \<Rightarrow> bound_actor" where
  "port_actor a = business_actor_context (ax_user a) (ax_role a) (ax_tenant a)
     (Some (str_or (opt_str (ax_subject a)) (ax_user a))) (ax_permissions a)"

record client_env =
  ce_hmac :: "string \<Rightarrow> string \<Rightarrow> string"
  ce_token :: string
  ce_secret :: "string option"
  ce_now :: int
  ce_nonce :: string

definition signed_text :: "string list \<Rightarrow> string" where
  "signed_text parts = join_with [CHR 0x0A] parts"

text \<open>An empty part is left out of the headers but stays in the signed text.\<close>

definition client_headers :: "client_env \<Rightarrow> bound_actor \<Rightarrow> headers" where
  "client_headers x b =
    (let user = ba_user b; role = str_or (ba_role b) ''customer''; tenant = opt_str (ba_tenant b);
         account = str_or (ba_account b) user; permissions = join_with '','' (ba_permissions b);
         signing = truthy_str (ce_secret x); timestamp = str_of_int (ce_now x);
         signature = ce_hmac x (opt_str (ce_secret x))
           (signed_text [user, role, tenant, account, permissions, timestamp, ce_nonce x]);
         signed = (\<lambda>v. if signing then Some v else None) in
     \<lparr>hd_authorization = Some (''Bearer '' @ ce_token x), hd_user = Some user, hd_role = Some role,
      hd_tenant = none_if_empty tenant, hd_account = none_if_empty account,
      hd_permissions = none_if_empty permissions, hd_timestamp = signed timestamp, hd_nonce = signed (ce_nonce x),
      hd_signature = signed signature, hd_request = None\<rparr>)"

section \<open>Requests\<close>

text \<open>No reply (a timeout or another transport error), or a status with the decoded body.\<close>

datatype wire = NoReply | Reply int pyval

definition read_transport_retries :: "string option \<Rightarrow> nat" where
  "read_transport_retries configured =
    (let n = (case configured of None \<Rightarrow> 2 | Some s \<Rightarrow> (case read_int s of None \<Rightarrow> 2 | Some n \<Rightarrow> n))
     in nat (max 0 (min n 3)))"

definition gateway_failure :: "int \<Rightarrow> bool" where
  "gateway_failure status \<longleftrightarrow> status \<in> {502, 503, 504}"

definition unknown_message :: string where
  "unknown_message = ''business service response is unknown; do not resubmit automatically''"

definition exhausted_message :: string where
  "exhausted_message = ''business service transport retry exhausted''"

definition no_reply_error :: "bool \<Rightarrow> bool \<Rightarrow> exec_error" where
  "no_reply_error retryable with_key =
    (if \<not> retryable \<and> with_key then ServiceError 504 unknown_message else ServiceError 503 exhausted_message)"

definition read_reply :: "bool \<Rightarrow> bool \<Rightarrow> int \<Rightarrow> pyval \<Rightarrow> exec_error + pydict" where
  "read_reply retryable with_key status payload =
    (if 400 \<le> status then
       (let detail = (case as_pydict payload of None \<Rightarrow> PNone | Some d \<Rightarrow> dget d ''detail'') in
        if retryable \<and> gateway_failure status then Inl (ServiceError 503 (text_or detail exhausted_message))
        else if \<not> retryable \<and> with_key \<and> gateway_failure status then Inl (ServiceError 504 unknown_message)
        else Inl (ServiceError status (py_str (py_or detail payload))))
     else (case as_pydict payload of
        None \<Rightarrow> Inl (ServiceError 502 ''business service returned non-object JSON'')
      | Some d \<Rightarrow> Inr d))"

text \<open>The loop of \<open>_request\<close>: only reads have retries left.\<close>

function request_loop ::
  "(nat \<Rightarrow> 'w \<Rightarrow> 'w \<times> wire) \<Rightarrow> bool \<Rightarrow> bool \<Rightarrow> nat \<Rightarrow> nat \<Rightarrow> 'w \<Rightarrow> 'w \<times> (exec_error + pydict)" where
  "request_loop send retryable with_key limit attempts w =
    (case send attempts w of
       (w', NoReply) \<Rightarrow>
         if attempts < limit then request_loop send retryable with_key limit (Suc attempts) w'
         else (w', Inl (no_reply_error retryable with_key))
     | (w', Reply status payload) \<Rightarrow>
         if retryable \<and> gateway_failure status \<and> attempts < limit
         then request_loop send retryable with_key limit (Suc attempts) w'
         else (w', read_reply retryable with_key status payload))"
  by pat_completeness auto
termination
  by (relation "measure (\<lambda>(send, retryable, with_key, limit, attempts, w). limit - attempts)") auto

declare request_loop.simps [simp del]

record call =
  cl_method :: string
  cl_path :: string
  cl_body :: pydict
  cl_key :: "string option"
  cl_safe :: bool

definition retryable_read :: "call \<Rightarrow> bool" where
  "retryable_read c \<longleftrightarrow> py_upper (str_or (cl_method c) ''GET'') \<in> {''GET'', ''HEAD'', ''OPTIONS''} \<or> cl_safe c"

definition client_request ::
  "string option \<Rightarrow> (call \<Rightarrow> nat \<Rightarrow> 'w \<Rightarrow> 'w \<times> wire) \<Rightarrow> call \<Rightarrow> 'w \<Rightarrow> 'w \<times> (exec_error + pydict)" where
  "client_request configured send c w =
     request_loop (send c) (retryable_read c) (truthy_str (cl_key c))
       (if retryable_read c then read_transport_retries configured else 0) 0 w"

definition execute_call :: "pydict \<Rightarrow> string \<Rightarrow> call" where
  "execute_call command key = \<lparr>cl_method = ''POST'', cl_path = ''/operations/execute'', cl_body = command,
     cl_key = Some key, cl_safe = False\<rparr>"

definition preview_call :: "string option \<Rightarrow> string option \<Rightarrow> string \<Rightarrow> pydict \<Rightarrow> call" where
  "preview_call rtype rid operation inputs = \<lparr>cl_method = ''POST'', cl_path = ''/operations/preview'',
     cl_body = [(''resource_type'', opt_val rtype), (''resource_id'', opt_val rid), (''operation'', PStr operation),
       (''input'', PDict inputs)], cl_key = None, cl_safe = True\<rparr>"

section \<open>Which port owns a command\<close>

definition command_port :: "(string \<times> 'p) list \<Rightarrow> (string \<times> 'p) list \<Rightarrow> pydict \<Rightarrow> string + 'p" where
  "command_port action_ports resource_ports command =
    (case map_of action_ports (text_of (py_or (dget command ''action_id'') (dget command ''operation''))) of
       Some p \<Rightarrow> Inr p
     | None \<Rightarrow>
        (case map_of resource_ports
            (text_of (py_or (dget command ''resource_type'') (dget command ''target_resource_type''))) of
           Some p \<Rightarrow> Inr p
         | None \<Rightarrow> Inl ''No enabled module owns this command''))"

section \<open>Executing a frozen command\<close>

definition invalid_envelope :: "string \<Rightarrow> pydict" where
  "invalid_envelope err = [(''success'', PBool False), (''error'', PStr err), (''code'', PStr ''INVALID_COMMAND_ENVELOPE'')]"

definition execute_envelope ::
  "action_plugin list \<Rightarrow> ('w \<Rightarrow> pydict \<Rightarrow> string \<Rightarrow> 'w \<times> (exec_error + pydict)) \<Rightarrow> 'w executor" where
  "execute_envelope ps port w envelope key =
    (let action = text_of (dget envelope ''action_id'') in
     case find_plugin ps action of
       None \<Rightarrow> (w, Inr (invalid_envelope (unimplemented_action action)))
     | Some p \<Rightarrow>
        if action \<notin> set (map op_action ps) then (w, Inr (invalid_envelope (unimplemented_action action)))
        else (case envelope_fault p envelope of
            Some (PluginValueError m) \<Rightarrow> (w, Inr (invalid_envelope m))
          | Some PluginCrash \<Rightarrow> (w, Inl (OtherError ''TypeError''))
          | None \<Rightarrow> port w envelope key))"

section \<open>The loop ends\<close>

text \<open>Counting the requests of a run.\<close>

definition counting :: "(nat \<Rightarrow> 'w \<Rightarrow> 'w \<times> wire) \<Rightarrow> nat \<Rightarrow> nat \<times> 'w \<Rightarrow> (nat \<times> 'w) \<times> wire" where
  "counting send i s = (case send i (snd s) of (w, r) \<Rightarrow> ((Suc (fst s), w), r))"

lemma request_loop_count:
  assumes "attempts \<le> limit"
  shows "\<exists>n w' r. request_loop (counting send) retryable with_key limit attempts (m, w) = ((n, w'), r)
    \<and> request_loop send retryable with_key limit attempts w = (w', r) \<and> m < n \<and> n + attempts \<le> m + limit + 1"
  using assms
proof (induction "limit - attempts" arbitrary: attempts m w)
  case 0
  obtain w' a where s: "send attempts w = (w', a)" by (cases "send attempts w")
  show ?case
    using 0 by (cases a) (simp_all add: request_loop.simps [of _ _ _ _ attempts] counting_def s)
next
  case (Suc k)
  obtain w' a where s: "send attempts w = (w', a)" by (cases "send attempts w")
  have less: "attempts < limit" using Suc.hyps(2) by simp
  obtain n w2 r where ih: "request_loop (counting send) retryable with_key limit (Suc attempts) (Suc m, w') = ((n, w2), r)"
    "request_loop send retryable with_key limit (Suc attempts) w' = (w2, r)" "Suc m < n" "n + Suc attempts \<le> Suc m + limit + 1"
    using Suc.hyps(1) [of "Suc attempts" "Suc m" w'] Suc.hyps(2) less by fastforce
  show ?case
    using ih less by (cases a) (auto simp: request_loop.simps [of _ _ _ _ attempts] counting_def s)
qed

lemma retries_bound: "read_transport_retries configured \<le> 3"
  by (simp add: read_transport_retries_def Let_def)

lemma single_send:
  "request_loop send False True 0 0 w = (case send 0 w of
     (w', NoReply) \<Rightarrow> (w', Inl (ServiceError 504 unknown_message))
   | (w', Reply status payload) \<Rightarrow> (w', read_reply False True status payload))"
  by (simp add: request_loop.simps no_reply_error_def split: prod.split wire.split)

lemma unknown_outcome: "classify_business_failure (PInt 504) err = ''SUBMISSION_UNKNOWN''"
  by (simp add: classify_business_failure_def)

text \<open>
  C32. Every call of the business service ends, whatever the transport does: a read is sent at
  most four times, and a write under an idempotency key exactly once. When that write gets no
  reply, or one from a failing gateway, the caller is told 504, which the transaction layer
  takes for an unknown outcome and never for a rejection.
\<close>

theorem client_request_ends:
  "\<exists>n w' r. client_request configured (\<lambda>c. counting (send c)) c (0, w) = ((n, w'), r)
     \<and> client_request configured send c w = (w', r) \<and> 1 \<le> n \<and> n \<le> 4
     \<and> (\<not> retryable_read c \<longrightarrow> n = 1)
     \<and> (\<not> retryable_read c \<and> truthy_str (cl_key c)
         \<and> (case snd (send c 0 w) of NoReply \<Rightarrow> True | Reply status _ \<Rightarrow> gateway_failure status)
         \<longrightarrow> r = Inl (ServiceError 504 unknown_message)
           \<and> classify_business_failure (dget (exec_result r) ''code'') (text_of (dget (exec_result r) ''error''))
               = ''SUBMISSION_UNKNOWN'')"
proof -
  let ?limit = "if retryable_read c then read_transport_retries configured else 0"
  obtain n w' r where c: "client_request configured (\<lambda>c. counting (send c)) c (0, w) = ((n, w'), r)"
    "client_request configured send c w = (w', r)" "0 < n" "n \<le> ?limit + 1"
    using request_loop_count [of 0 ?limit "send c" "retryable_read c" "truthy_str (cl_key c)" 0 w]
    unfolding client_request_def by auto
  have "r = Inl (ServiceError 504 unknown_message)"
    if "\<not> retryable_read c" "truthy_str (cl_key c)"
      "case snd (send c 0 w) of NoReply \<Rightarrow> True | Reply status _ \<Rightarrow> gateway_failure status"
    using c(2) that by (auto simp: client_request_def single_send read_reply_def gateway_failure_def
      split: prod.splits wire.splits)
  then show ?thesis
    using c retries_bound [of configured] by (auto simp: exec_result_def unknown_outcome dget_def split: if_splits)
qed

text \<open>A write whose reply is lost.\<close>

definition silent :: "call \<Rightarrow> nat \<Rightarrow> nat \<Rightarrow> nat \<times> wire" where
  "silent c i w = (w, NoReply)"

theorem client_request_ends_witness:
  "\<exists>w'. client_request None (\<lambda>c. counting (silent c)) (execute_call [] ''k'') (0, 7)
    = ((1, w'), Inl (ServiceError 504 unknown_message))"
proof -
  have post: "\<not> retryable_read (execute_call [] ''k'')" "truthy_str (cl_key (execute_call [] ''k''))" by code_simp+
  moreover have "case snd (silent (execute_call [] ''k'') 0 7) of NoReply \<Rightarrow> True | Reply status _ \<Rightarrow> gateway_failure status"
    by (simp add: silent_def)
  ultimately show ?thesis
    using client_request_ends [of None silent "execute_call [] ''k''" 7] by auto
qed

end
