(* ===== verification/Op_Contract.thy ===== *)
theory Op_Contract
  imports Agent_Client Json
begin

text \<open>
  The contract between the two services: the headers the agent signs are the ones the Business
  Service verifies, and the commands of the declared operations are the ones it executes. Both
  sides are translated from their own sources; nothing but the header and field names is shared.
\<close>

section \<open>Texts both sides read\<close>

lemma read_digits_value:
  "list_all is_digit s \<Longrightarrow> read_digits acc s = Some (foldl (\<lambda>a c. a * 10 + (of_char c - 48)) acc s)"
  by (induction s arbitrary: acc) auto

lemma read_nat_written: "read_nat (digits_of n) = Some n"
proof -
  obtain c t where s: "digits_of n = c # t" using digits_of_digits [of n] by (cases "digits_of n") auto
  then have "is_digit c" "list_all is_digit t" using digits_of_digits [of n] by auto
  then show ?thesis using digits_of_value [of n] s by (simp add: read_nat_def read_digits_value)
qed

lemma digit_printable: "is_digit c \<Longrightarrow> printable c"
  unfolding is_digit_def printable_def by linarith

lemma digits_last: "printable (last (digits_of n))"
  using digits_of_digits [of n] by (auto simp: list_all_iff intro: digit_printable)

lemma read_int_written: "read_int (str_of_int i) = Some i"
proof -
  obtain c t where s: "str_of_int i = c # t" and c: "is_digit c \<or> c = CHR ''-''" using str_of_int_starts by blast
  have "printable c" using c digit_printable [of c] by (auto simp: printable_def [of "CHR ''-''"])
  moreover have "printable (last (str_of_int i))"
    using digits_last [of "nat i"] digits_last [of "nat (- i)"] digits_of_digits [of "nat (- i)"]
    by (auto simp: str_of_int_def)
  ultimately have strip: "py_strip (str_of_int i) = str_of_int i" using s by simp
  show ?thesis
  proof (cases "i < 0")
    case True
    then show ?thesis using strip by (simp add: read_int_def str_of_int_def read_nat_written)
  next
    case False
    have "c \<noteq> CHR ''-''" "c \<noteq> CHR ''+''"
      using s False digits_of_digits [of "nat i"] by (auto simp: str_of_int_def is_digit_def)
    then show ?thesis
      using False strip s read_nat_written [of "nat i"] by (simp add: read_int_def str_of_int_def)
  qed
qed


section \<open>Signed headers\<close>

text \<open>The identity a client signs for an actor of the port, as the server reads it.\<close>

definition plain_text :: "string \<Rightarrow> bool" where
  "plain_text s \<longleftrightarrow> s \<noteq> [] \<and> py_strip s = s"

definition port_identity :: "actor_context \<Rightarrow> claimed" where
  "port_identity a = \<lparr>cl_user = ax_user a, cl_role = str_or (ax_role a) ''customer'', cl_tenant = opt_str (ax_tenant a),
     cl_account = str_or (opt_str (ax_subject a)) (ax_user a), cl_permissions = join_with '','' (ax_permissions a)\<rparr>"

lemma client_headers_signed:
  assumes "ce_secret x = Some k" and "k \<noteq> []" and "ax_user a \<noteq> []"
  shows "hd_signature (client_headers x (port_actor a))
      = Some (ce_hmac x k (canonical_text (port_identity a) (ce_now x) (ce_nonce x)))"
    "hd_timestamp (client_headers x (port_actor a)) = Some (str_of_int (ce_now x))"
    "hd_nonce (client_headers x (port_actor a)) = Some (ce_nonce x)"
    "hd_user (client_headers x (port_actor a)) = Some (ax_user a)"
    "hd_authorization (client_headers x (port_actor a)) = Some (''Bearer '' @ ce_token x)"
  using assms
  by (simp_all add: client_headers_def port_actor_def business_actor_context_def port_identity_def canonical_text_def
      signed_text_def Let_def str_or_def)

lemma claimed_port_identity:
  assumes "plain_text (ax_user a)" and "plain_text (str_or (opt_str (ax_subject a)) (ax_user a))"
    and "plain_text (str_or (ax_role a) ''customer'')" and "py_lower (str_or (ax_role a) ''customer'') = str_or (ax_role a) ''customer''"
    and "ax_tenant a = None \<or> plain_text (opt_str (ax_tenant a))"
  shows "claimed_identity (client_headers x (port_actor a)) (ax_user a)
      = (port_identity a)\<lparr>cl_tenant := str_or (opt_str (ax_tenant a)) ''default''\<rparr>"
proof -
  have d: "py_strip ''default'' = ''default''" by (simp add: printable_def)
  have n: "str_or (str_or s t) u = str_or s (str_or t u)" for s t u by (simp add: str_or_def)
  show ?thesis
    using assms d
    by (auto simp: claimed_identity_def client_headers_def port_actor_def business_actor_context_def port_identity_def
        Let_def plain_text_def n str_or_def [of "[]"] str_or_def split: if_splits)
qed

text \<open>The configuration the two services share, and a request inside the time window.\<close>

definition signing_agrees :: "client_env \<Rightarrow> settings \<Rightarrow> int \<Rightarrow> bool" where
  "signing_agrees x s now \<longleftrightarrow> set_require_signature s \<and> ce_secret x = set_secret s \<and> opt_str (set_secret s) \<noteq> []
     \<and> ce_token x = set_token s \<and> \<bar>now - ce_now x\<bar> \<le> set_ttl s \<and> ce_nonce x \<noteq> []
     \<and> (\<forall>t. ce_hmac x (opt_str (set_secret s)) t \<noteq> [])"

definition plain_actor :: "actor_context \<Rightarrow> bool" where
  "plain_actor a \<longleftrightarrow> plain_text (ax_user a) \<and> plain_text (str_or (opt_str (ax_subject a)) (ax_user a))
     \<and> plain_text (str_or (ax_role a) ''customer'')
     \<and> py_lower (str_or (ax_role a) ''customer'') = str_or (ax_role a) ''customer''
     \<and> (ax_tenant a = None \<or> plain_text (opt_str (ax_tenant a)))"

lemma headers_verified:
  assumes agree: "signing_agrees x s now" and actor: "plain_actor a"
    and acc: "sql_first (\<lambda>r. acc_user r = ax_user a) (accounts db) = Some acc"
    and fresh: "ce_nonce x \<notin> nn_nonce ` {r \<in> set ns. now \<le> nn_expires r}"
  shows "(opt_str (ax_tenant a) \<noteq> [] \<longrightarrow>
      fst (current_actor (ce_hmac x) s now (client_headers x (port_actor a)) db ns)
        = Inr \<lparr>act_user = ax_user a, act_role = acc_role acc, act_tenant = acc_tenant acc,
            act_account = str_or (opt_str (ax_subject a)) (ax_user a),
            act_permissions = (case acc_permissions acc of None \<Rightarrow> [] | Some ps \<Rightarrow> ps), act_request = None\<rparr>)
    \<and> (ax_tenant a = None
        \<and> ce_hmac x (opt_str (set_secret s)) (canonical_text (port_identity a) (ce_now x) (ce_nonce x))
          \<noteq> ce_hmac x (opt_str (set_secret s))
              (canonical_text ((port_identity a)\<lparr>cl_tenant := ''default''\<rparr>) (ce_now x) (ce_nonce x)) \<longrightarrow>
      fst (current_actor (ce_hmac x) s now (client_headers x (port_actor a)) db ns)
        = Inl (HttpError 401 ''actor signature invalid''))"
proof -
  let ?h = "client_headers x (port_actor a)" and ?c = "port_identity a"
  obtain k where k: "set_secret s = Some k" "ce_secret x = Some k" "k \<noteq> []"
    using agree by (cases "set_secret s") (auto simp: signing_agrees_def)
  have user: "ax_user a \<noteq> []" "py_strip (ax_user a) = ax_user a"
    using actor by (auto simp: plain_actor_def plain_text_def)
  note hd = client_headers_signed [OF k(2,3) user(1)]
  have claimed: "claimed_identity ?h (ax_user a) = ?c\<lparr>cl_tenant := str_or (opt_str (ax_tenant a)) ''default''\<rparr>"
    using actor by (intro claimed_port_identity) (auto simp: plain_actor_def)
  have request: "hd_request ?h = None" by (simp add: client_headers_def Let_def)
  have token: "verify_service_token (hd_authorization ?h) s = Inr ()"
    using agree hd(5) by (simp add: verify_service_token_def signing_agrees_def)
  have new: "sql_insert nn_nonce \<lparr>nn_nonce = ce_nonce x, nn_expires = e\<rparr> (sql_delete (\<lambda>r. nn_expires r < now) ns) \<noteq> None" for e
    using fresh by (auto simp: sql_insert_def sql_delete_def not_less split: if_splits)
  have tenant: "?c\<lparr>cl_tenant := str_or (opt_str (ax_tenant a)) ''default''\<rparr> = ?c" if "opt_str (ax_tenant a) \<noteq> []"
    using that by (simp add: port_identity_def)
  have sig: "fst (verify_signature (ce_hmac x) s now (claimed_identity ?h (ax_user a)) (hd_timestamp ?h) (hd_nonce ?h)
        (hd_signature ?h) ns)
      = (if ce_hmac x k (canonical_text (?c\<lparr>cl_tenant := str_or (opt_str (ax_tenant a)) ''default''\<rparr>) (ce_now x) (ce_nonce x))
            = ce_hmac x k (canonical_text ?c (ce_now x) (ce_nonce x))
         then Inr () else Inl (HttpError 401 ''actor signature invalid''))"
    using agree k new [of "now + set_ttl s"]
    by (auto simp: verify_signature_def hd claimed read_int_written signing_agrees_def register_nonce_def transaction_def
        split: option.splits)
  show ?thesis
    using sig tenant token user acc claimed request k
    by (auto simp: current_actor_def hd Let_def port_identity_def split: prod.splits)
qed

text \<open>
  C31. The two services agree on the signature: a request of the agent's client for an actor
  with a tenant, signed inside the time window under a fresh nonce, is authenticated by the
  Business Service as that user, with the role, tenant and permissions of the stored account.
  For an actor without a tenant they disagree: the client signs the empty tenant and sends
  no header, the server verifies the text with the tenant \<open>default\<close>, so every such request
  is rejected with 401 unless the HMAC collides.
\<close>

theorem signed_headers_authenticate:
  assumes agree: "signing_agrees x s now" and actor: "plain_actor a"
    and acc: "sql_first (\<lambda>r. acc_user r = ax_user a) (accounts db) = Some acc"
    and fresh: "ce_nonce x \<notin> nn_nonce ` {r \<in> set ns. now \<le> nn_expires r}"
  shows "(opt_str (ax_tenant a) \<noteq> [] \<longrightarrow>
      fst (current_actor (ce_hmac x) s now (client_headers x (port_actor a)) db ns)
        = Inr \<lparr>act_user = ax_user a, act_role = acc_role acc, act_tenant = acc_tenant acc,
            act_account = str_or (opt_str (ax_subject a)) (ax_user a),
            act_permissions = (case acc_permissions acc of None \<Rightarrow> [] | Some ps \<Rightarrow> ps), act_request = None\<rparr>)
    \<and> (ax_tenant a = None
        \<and> ce_hmac x (opt_str (set_secret s)) (canonical_text (port_identity a) (ce_now x) (ce_nonce x))
          \<noteq> ce_hmac x (opt_str (set_secret s))
              (canonical_text ((port_identity a)\<lparr>cl_tenant := ''default''\<rparr>) (ce_now x) (ce_nonce x)) \<longrightarrow>
      fst (current_actor (ce_hmac x) s now (client_headers x (port_actor a)) db ns)
        = Inl (HttpError 401 ''actor signature invalid''))"
  using assms by (rule headers_verified)

definition sample_client :: client_env where
  "sample_client = \<lparr>ce_hmac = (\<lambda>k t. k @ t), ce_token = set_token sample_settings, ce_secret = Some ''k'', ce_now = 90,
     ce_nonce = ''n''\<rparr>"

definition sample_context :: actor_context where
  "sample_context = \<lparr>ax_user = ''u1'', ax_role = ''customer'', ax_tenant = Some ''t1'', ax_subject_user = None,
     ax_subject = None, ax_permissions = []\<rparr>"

lemma sample_context_plain: "plain_actor sample_context" "plain_actor (sample_context\<lparr>ax_tenant := None\<rparr>)"
  by (simp_all add: plain_actor_def plain_text_def sample_context_def printable_def py_lower_def lower_char_def)

lemma sample_signing: "signing_agrees sample_client sample_settings 100"
  by (simp add: signing_agrees_def sample_client_def sample_settings_def)

theorem signed_headers_authenticate_witness:
  "fst (current_actor (ce_hmac sample_client) sample_settings 100 (client_headers sample_client (port_actor sample_context))
      sample_db []) = Inr customer
   \<and> fst (current_actor (ce_hmac sample_client) sample_settings 100
      (client_headers sample_client (port_actor (sample_context\<lparr>ax_tenant := None\<rparr>))) sample_db [])
        = Inl (HttpError 401 ''actor signature invalid'')"
proof -
  let ?acc = "hd (accounts sample_db)"
  have acc: "sql_first (\<lambda>r. acc_user r = ''u1'') (accounts sample_db) = Some ?acc" "acc_role ?acc = ''customer''"
    "acc_tenant ?acc = ''t1''" "acc_permissions ?acc = Some []"
    by (simp_all add: sample_defs sql_first_def)
  show ?thesis
    using signed_headers_authenticate [OF sample_signing sample_context_plain(1), of sample_db ?acc "[]"]
      signed_headers_authenticate [OF sample_signing sample_context_plain(2), of sample_db ?acc "[]"] acc
    by (simp add: sample_context_def customer_def sample_client_def port_identity_def canonical_text_def)
qed

section \<open>Commands\<close>

lemma has_key_dset [simp]: "has_key k (dset k' v d) \<longleftrightarrow> k = k' \<or> has_key k d"
  by (induction k' v d rule: dset.induct) (auto simp: has_key_def)

lemma dget_set_default: "dget (set_default k v d) k' = (if k' = k \<and> \<not> has_key k d then v else dget d k')"
  by (auto simp: set_default_def)

lemma stripped_simps [simp]: "stripped (PStr s) = py_strip s" "stripped PNone = []"
  by (simp_all add: stripped_def)

lemma default_plugin:
  assumes "p \<in> set default_order_operations"
  shows "op_versioned p" "op_target p = ''order''" "op_operation p \<in> {''CANCEL_ORDER'', ''APPLY_AFTER_SALES'', ''APPLY_REFUND'', ''APPLY_INVOICE''}"
    "op_action p \<in> {''cancel_order'', ''create_after_sales_request'', ''create_refund'', ''create_invoice''}"
    "op_transform p = None \<or> op_transform p = Some after_sales_payload"
  using assms
  by (auto simp: default_order_operations_def cancel_plugin_def after_sales_plugin_def refund_plugin_def invoice_plugin_def
      order_operation_def)

lemma after_sales_payload_other: "k \<noteq> ''reason'' \<Longrightarrow> dget (after_sales_payload vs) k = dget vs k"
  by (simp add: after_sales_payload_def Let_def)

lemma versioned_input_subject:
  "versioned_input p preview vs = Inr vs' \<Longrightarrow>
     dget vs' ''subject_user_id'' = dget vs ''subject_user_id'' \<and> has_key ''subject_user_id'' vs' = has_key ''subject_user_id'' vs"
  by (auto simp: versioned_input_def Let_def split: if_splits sum.splits)

lemma commit_payload_facts:
  assumes "build_commit_payload p a target inputs preview = Inr payload" and "p \<in> set default_order_operations"
  obtains n where "truthy (dget payload ''expected_version'')" "py_int (dget payload ''expected_version'') = Some n" "0 < n"
    "dget payload ''subject_user_id'' = (if has_key ''subject_user_id'' inputs then dget inputs ''subject_user_id''
       else PStr (resolved_subject_user_id a))"
    "\<exists>i. target_id target = Inr i"
proof -
  note plug = default_plugin [OF assms(2)]
  obtain i vs1 where i: "target_id target = Inr i" and v: "versioned_input p preview inputs = Inr vs1"
    using assms(1) by (auto simp: build_commit_payload_def split: sum.splits)
  define vs2 where "vs2 = set_default ''subject_user_id'' (PStr (resolved_subject_user_id a)) vs1"
  define vs where "vs = (case op_transform p of None \<Rightarrow> vs2 | Some f \<Rightarrow> f vs2)"
  have same: "dget vs k = dget vs2 k" if "k \<noteq> ''reason''" for k
    using plug(5) that by (auto simp: vs_def after_sales_payload_other)
  obtain n where n: "int_value (dget vs ''expected_version'') 0 = Inr n" "\<not> n \<le> 0" and payload: "payload = vs"
    using assms(1) i v plug(1)
    by (auto simp: build_commit_payload_def Let_def vs2_def [symmetric] vs_def [symmetric] split: sum.splits if_splits)
  have "truthy (dget vs ''expected_version'')" "py_int (dget vs ''expected_version'') = Some n"
    using n by (auto simp: int_value_def split: if_splits option.splits)
  moreover have "dget vs ''subject_user_id'' = (if has_key ''subject_user_id'' inputs then dget inputs ''subject_user_id''
      else PStr (resolved_subject_user_id a))"
    using versioned_input_subject [OF v] same [of "''subject_user_id''"] by (simp add: vs2_def dget_set_default)
  ultimately show ?thesis using that n(2) payload i by auto
qed

text \<open>An actor of the Business Service that the agent's actor speaks for.\<close>

definition speaks_for :: "actor_context \<Rightarrow> actor \<Rightarrow> bool" where
  "speaks_for a b \<longleftrightarrow> py_strip (ax_user a) = act_user b \<and> py_strip (ax_role a) = act_role b
     \<and> (ax_tenant a = None \<or> py_strip (opt_str (ax_tenant a)) = act_tenant b)"

text \<open>The input may name a subject of its own; it must be the actor's.\<close>

definition same_subject :: "actor_context \<Rightarrow> pydict \<Rightarrow> bool" where
  "same_subject a inputs \<longleftrightarrow> (let own = py_strip (resolved_subject_user_id a) in
     own = [] \<or> stripped (dget inputs ''subject_user_id'') \<in> {[], own})"

definition refuses :: "command_fault + unit \<Rightarrow> bool" where
  "refuses r \<longleftrightarrow> r = Inr () \<or> (\<exists>m. r = Inl (CommandError m))"

lemma refuses_if: "refuses r \<Longrightarrow> refuses (if b then Inl (CommandError m) else r)"
  by (simp add: refuses_def)

lemma refuses_version: "refuses (version_assertion v w)"
  by (simp add: refuses_def version_assertion_def split: option.split)

lemma verify_error: "refuses (verify_actor_scope c user tenant role)"
  unfolding verify_actor_scope_def Let_def by (intro refuses_if refuses_version)

lemma target_id_resource: "target_id target = Inr i \<Longrightarrow> i = stripped (dget target ''resource_id'') \<and> i \<noteq> [] \<and> py_strip i = i"
  by (auto simp: target_id_def Let_def stripped_def split: if_splits)

lemma operation_texts:
  "py_strip ''order'' = ''order''" "py_strip ''CANCEL_ORDER'' = ''CANCEL_ORDER''"
  "py_strip ''APPLY_AFTER_SALES'' = ''APPLY_AFTER_SALES''" "py_strip ''APPLY_REFUND'' = ''APPLY_REFUND''"
  "py_strip ''APPLY_INVOICE'' = ''APPLY_INVOICE''" "py_strip ''cancel_order'' = ''cancel_order''"
  "py_strip ''create_after_sales_request'' = ''create_after_sales_request''"
  "py_strip ''create_refund'' = ''create_refund''" "py_strip ''create_invoice'' = ''create_invoice''"
  by (simp_all add: printable_def)

lemma operation_uppers:
  "py_upper ''CANCEL_ORDER'' = ''CANCEL_ORDER''" "py_upper ''APPLY_AFTER_SALES'' = ''APPLY_AFTER_SALES''"
  "py_upper ''APPLY_REFUND'' = ''APPLY_REFUND''" "py_upper ''APPLY_INVOICE'' = ''APPLY_INVOICE''"
  by code_simp+

lemma operation_lengths:
  "list_all (\<lambda>s. str_between 2 128 (PStr s)) [''cancel_order'', ''create_after_sales_request'', ''create_refund'',
     ''create_invoice'', ''CANCEL_ORDER'', ''APPLY_AFTER_SALES'', ''APPLY_REFUND'', ''APPLY_INVOICE'']"
  by code_simp

lemma plugin_texts:
  assumes "p \<in> set default_order_operations"
  shows "py_strip (op_action p) = op_action p" "op_action p \<noteq> []" "py_upper (py_strip (op_operation p)) = op_operation p"
    "op_operation p \<noteq> []" "str_between 2 128 (PStr (op_action p))" "str_between 2 128 (PStr (op_operation p))"
    "map_of operation_handlers (''order'', op_operation p) \<noteq> None"
proof -
  note ops = default_plugin(3) [OF assms, unfolded insert_iff empty_iff simp_thms]
  note acts = default_plugin(4) [OF assms, unfolded insert_iff empty_iff simp_thms]
  show "py_strip (op_action p) = op_action p" "op_action p \<noteq> []" using acts by (elim disjE; simp only: operation_texts; simp)+
  show "py_upper (py_strip (op_operation p)) = op_operation p" "op_operation p \<noteq> []"
    using ops by (elim disjE; simp only: operation_texts operation_uppers; simp)+
  show "str_between 2 128 (PStr (op_action p))" "str_between 2 128 (PStr (op_operation p))"
    using acts ops operation_lengths unfolding list.pred_inject by auto
  show "map_of operation_handlers (''order'', op_operation p) \<noteq> None"
    using ops by (elim disjE; simp add: operation_handlers_def)
qed

lemma command_normalized:
  assumes p: "p \<in> set default_order_operations" and i: "i \<noteq> []" "py_strip i = i"
  shows "normalize_operation_command (dset ''command_id'' (PStr cid) (command_of p a i subject payload))
    = Inr \<lparr>oc_command_id = none_if_empty (py_strip cid), oc_action = op_action p, oc_operation = op_operation p,
        oc_rtype = ''order'', oc_rid = i, oc_input = payload,
        oc_actor = [(''actor_user_id'', PStr (ax_user a)), (''actor_role'', PStr (ax_role a)), (''tenant_id'', opt_val (ax_tenant a))],
        oc_subject = [(''subject_user_id'', PStr subject), (''tenant_id'', opt_val (ax_tenant a))],
        oc_resource = [(''resource_type'', PStr ''order''), (''resource_id'', PStr i),
          (''expected_version'', dget payload ''expected_version''), (''subject_user_id'', PStr subject)]\<rparr>"
  using default_plugin(2) [OF p] plugin_texts [OF p] i operation_texts(1)
  by (simp add: normalize_operation_command_def command_of_def command_contract_text_def command_contract_def
      Let_def scope_ok_def scope_dict_def)

lemma command_verified:
  assumes "speaks_for a b" and "py_strip i = i"
    and subject: "subject = resolved_subject_user_id a"
    and version: "py_int (dget payload ''expected_version'') = Some n"
    and input: "dget payload ''subject_user_id'' = (if has_key ''subject_user_id'' inputs then dget inputs ''subject_user_id''
       else PStr subject)"
  shows "verify_actor_scope \<lparr>oc_command_id = cid, oc_action = action, oc_operation = operation,
        oc_rtype = ''order'', oc_rid = i, oc_input = payload,
        oc_actor = [(''actor_user_id'', PStr (ax_user a)), (''actor_role'', PStr (ax_role a)), (''tenant_id'', opt_val (ax_tenant a))],
        oc_subject = [(''subject_user_id'', PStr subject), (''tenant_id'', opt_val (ax_tenant a))],
        oc_resource = [(''resource_type'', PStr ''order''), (''resource_id'', PStr i),
          (''expected_version'', dget payload ''expected_version''), (''subject_user_id'', PStr subject)]\<rparr>
      (act_user b) (act_tenant b) (Some (act_role b)) = Inr () \<longleftrightarrow> same_subject a inputs"
proof -
  have absent: "dget inputs k = PNone" if "\<not> has_key k inputs" for k
    using that by (simp add: has_key_def dget_def)
  have tenant: "stripped (opt_val (ax_tenant a)) \<in> {[], act_tenant b}"
    using assms(1) by (auto simp: speaks_for_def stripped_def)
  have scopes: "stripped_or (PStr (ax_user a)) PNone = act_user b" "stripped_or (PStr (ax_role a)) PNone = act_role b"
    using assms(1) by (auto simp: speaks_for_def stripped_or_def py_or_def)
  have payload: "py_strip subject = [] \<or> stripped (dget payload ''subject_user_id'') \<in> {[], py_strip subject} \<longleftrightarrow> same_subject a inputs"
    unfolding input same_subject_def Let_def subject using absent [of "''subject_user_id''"] by (auto simp: stripped_def)
  show ?thesis
    unfolding verify_actor_scope_Inr_iff assertions_agree_def payload [symmetric]
    using tenant scopes version assms(2) operation_texts(1) by (auto simp: str_or_def)
qed

lemma envelope_executed:
  assumes p: "p \<in> set default_order_operations" and env: "plugin_envelope p a target inputs preview = Inr envelope"
    and cid: "str_between 8 160 (PStr cid)" and b: "speaks_for a b"
  obtains c h n where "envelope_fault p (dset ''command_id'' (PStr cid) envelope) = None"
    "valid_command_envelope (dset ''command_id'' (PStr cid) envelope)"
    "normalize_operation_command (dset ''command_id'' (PStr cid) envelope) = Inr c"
    "map_of operation_handlers (''order'', op_operation p) = Some h" "oc_rid c = stripped (dget target ''resource_id'')"
    "oc_rid c \<noteq> []" "required_expected_version (oc_input c) = Inr n" "0 < n"
    "\<And>e key db. execute_operation_command e b (dset ''command_id'' (PStr cid) envelope) key db
      = (if same_subject a inputs then run_operation_handler e b c key h db
         else Inl (DomainError 400 (Some ''INVALID_OPERATION_COMMAND'')))"
proof -
  obtain payload i where payload: "build_commit_payload p a target inputs preview = Inr payload" and i: "target_id target = Inr i"
    and envelope: "envelope = command_of p a i (resolved_subject_user_id a) payload"
    using env by (auto simp: plugin_envelope_def split: sum.splits)
  let ?command = "dset ''command_id'' (PStr cid) envelope"
  note fine = target_id_resource [OF i] and plug = default_plugin [OF p] and texts = plugin_texts [OF p]
  obtain n where n: "truthy (dget payload ''expected_version'')" "py_int (dget payload ''expected_version'') = Some n" "0 < n"
    and input: "dget payload ''subject_user_id'' = (if has_key ''subject_user_id'' inputs then dget inputs ''subject_user_id''
       else PStr (resolved_subject_user_id a))"
    using commit_payload_facts [OF payload p] by metis
  obtain h where h: "map_of operation_handlers (''order'', op_operation p) = Some h" using texts(7) by blast
  define c where "c = \<lparr>oc_command_id = none_if_empty (py_strip cid),
      oc_action = op_action p, oc_operation = op_operation p, oc_rtype = ''order'', oc_rid = i, oc_input = payload,
      oc_actor = [(''actor_user_id'', PStr (ax_user a)), (''actor_role'', PStr (ax_role a)), (''tenant_id'', opt_val (ax_tenant a))],
      oc_subject = [(''subject_user_id'', PStr (resolved_subject_user_id a)), (''tenant_id'', opt_val (ax_tenant a))],
      oc_resource = [(''resource_type'', PStr ''order''), (''resource_id'', PStr i),
        (''expected_version'', dget payload ''expected_version''), (''subject_user_id'', PStr (resolved_subject_user_id a))]\<rparr>"
  have norm: "normalize_operation_command ?command = Inr c"
    unfolding c_def envelope using fine by (intro command_normalized [OF p]) auto
  have ok: "verify_actor_scope c (act_user b) (act_tenant b) (Some (act_role b)) = Inr () \<longleftrightarrow> same_subject a inputs"
    unfolding c_def using fine by (intro command_verified [OF b _ refl n(2) input]) auto
  have fault: "envelope_fault p ?command = None"
    using fine plug(2) by (auto simp: envelope_fault_def envelope command_of_def target_id_def Let_def)
  have valid: "valid_command_envelope ?command"
    using texts cid by (simp add: valid_command_envelope_def envelope command_of_def command_contract_text_def command_contract_def)
  have run: "execute_operation_command e b ?command key db = (if same_subject a inputs
      then run_operation_handler e b c key h db else Inl (DomainError 400 (Some ''INVALID_OPERATION_COMMAND'')))" for e key db
    using ok h verify_error [of c "act_user b" "act_tenant b" "Some (act_role b)"]
    unfolding execute_operation_command_def norm refuses_def
    by (auto simp: dispatch_operation_command_def fault_response_def c_def)
  show ?thesis
    using that [OF fault valid norm h _ _ _ n(3) run] fine n by (auto simp: required_expected_version_def c_def)
qed

text \<open>
  C30. What the agent builds the Business Service executes: the command built from an offer of
  one of the declared operations passes the agent's own checks, the request validation, the
  normalisation and the assertions on actor, subject and resource, with a positive version,
  and runs the handler registered for its operation on the very resource of the target. It
  is rejected with 400 in exactly one case: the input names another subject than the actor's.
\<close>

theorem envelope_contract_agrees:
  assumes command: "build_business_command_envelope sha default_order_operations state offer target = Inr command"
    and cid: "str_between 8 160 (dget command ''command_id'')"
    and actor: "speaks_for (actor_context_from_state state) b"
  shows "\<exists>p c h n inputs. find_plugin default_order_operations (text_of (dget offer ''action_id'')) = Some p
    \<and> dict_or_empty (dget offer ''input_values'') = Some inputs
    \<and> envelope_fault p command = None \<and> valid_command_envelope command
    \<and> normalize_operation_command command = Inr c \<and> oc_rid c = stripped (dget target ''resource_id'') \<and> oc_rid c \<noteq> []
    \<and> map_of operation_handlers (''order'', op_operation p) = Some h
    \<and> required_expected_version (oc_input c) = Inr n \<and> 0 < n
    \<and> (\<forall>e key db. execute_operation_command e b command key db
        = (if same_subject (actor_context_from_state state) inputs then run_operation_handler e b c key h db
           else Inl (DomainError 400 (Some ''INVALID_OPERATION_COMMAND''))))"
proof -
  let ?target = "[(''resource_type'', PStr (text_of (dget target ''resource_type''))),
    (''resource_id'', PStr (text_of (dget target ''resource_id'')))]"
  obtain p inputs envelope i where p: "find_plugin default_order_operations (text_of (dget offer ''action_id'')) = Some p"
    and inputs: "dict_or_empty (dget offer ''input_values'') = Some inputs"
    and env: "plugin_envelope p (actor_context_from_state state) ?target inputs (dict_if (dget offer ''preview'')) = Inr envelope"
    and built: "command = dset ''command_id'' (PStr i) envelope"
    using command unfolding build_business_command_envelope_def Let_def
    by (auto split: option.splits if_splits sum.splits)
  have "p \<in> set default_order_operations" using p by (auto simp: find_plugin_def find_Some_iff)
  moreover have "str_between 8 160 (PStr i)" using cid built by simp
  ultimately obtain c h n where
    "envelope_fault p command = None" "valid_command_envelope command" "normalize_operation_command command = Inr c"
    "map_of operation_handlers (''order'', op_operation p) = Some h" "oc_rid c = stripped (dget ?target ''resource_id'')"
    "oc_rid c \<noteq> []" "required_expected_version (oc_input c) = Inr n" "0 < n"
    "\<And>e key db. execute_operation_command e b command key db
      = (if same_subject (actor_context_from_state state) inputs then run_operation_handler e b c key h db
         else Inl (DomainError 400 (Some ''INVALID_OPERATION_COMMAND'')))"
    using envelope_executed [OF _ env _ actor] unfolding built by metis
  then show ?thesis using p inputs by (auto simp: stripped_def)
qed

definition sample_state :: pydict where
  "sample_state = [(''current_user_id'', PStr ''u1''), (''current_role'', PStr ''customer''), (''current_tenant_id'', PStr ''t1'')]"

definition sample_refund_offer :: pydict where
  "sample_refund_offer = [(''action_id'', PStr ''create_refund''), (''command_id'', PStr ''cmd_00000001''),
     (''input_values'', PDict [(''reason'', PStr ''it broke'')]),
     (''preview'', PDict [(''snapshot'', PDict [(''version'', PInt 1)])])]"

definition sample_target :: pydict where
  "sample_target = [(''resource_type'', PStr ''order''), (''resource_id'', PStr ''o1'')]"

definition sample_command :: pydict where
  "sample_command =
     [(''contract'', PStr ''business.operation.command@1''), (''action_id'', PStr ''create_refund''),
      (''operation'', PStr ''APPLY_REFUND''),
      (''target'', PDict [(''resource_type'', PStr ''order''), (''resource_id'', PStr ''o1'')]),
      (''input'', PDict [(''reason'', PStr ''it broke''), (''expected_version'', PInt 1), (''subject_user_id'', PStr ''u1'')]),
      (''actor_scope'', PDict [(''actor_user_id'', PStr ''u1''), (''actor_role'', PStr ''customer''), (''tenant_id'', PStr ''t1'')]),
      (''subject_scope'', PDict [(''subject_user_id'', PStr ''u1''), (''tenant_id'', PStr ''t1'')]),
      (''resource_scope'', PDict [(''resource_type'', PStr ''order''), (''resource_id'', PStr ''o1''),
         (''expected_version'', PInt 1), (''subject_user_id'', PStr ''u1'')]),
      (''command_id'', PStr ''cmd_00000001'')]"

lemma sample_command_built:
  "build_business_command_envelope (\<lambda>s. s) default_order_operations sample_state sample_refund_offer sample_target
     = Inr sample_command"
proof -
  let ?a = "actor_context_from_state sample_state"
  let ?inputs = "[(''reason'', PStr ''it broke'')]" and ?preview = "[(''snapshot'', PDict [(''version'', PInt 1)])]"
  have o1: "py_strip ''o1'' = ''o1''" by (simp add: printable_def)
  have plugin: "find_plugin default_order_operations ''create_refund'' = Some refund_plugin"
    "''create_refund'' \<in> set (map op_action default_order_operations)"
    by (simp_all add: find_plugin_def default_order_operations_def operation_texts cancel_plugin_def after_sales_plugin_def
        refund_plugin_def order_operation_def)
  have a: "resolved_subject_user_id ?a = ''u1''" "ax_user ?a = ''u1''" "ax_role ?a = ''customer''" "ax_tenant ?a = Some ''t1''"
    by (simp_all add: resolved_subject_user_id_def actor_context_from_state_def sample_state_def text_or_def py_or_def)
  have id: "target_id sample_target = Inr ''o1''" by (simp add: target_id_def sample_target_def Let_def o1)
  have "versioned_input refund_plugin ?preview ?inputs = Inr [(''reason'', PStr ''it broke''), (''expected_version'', PInt 1)]"
    by (simp add: versioned_input_def refund_plugin_def order_operation_def has_key_def dict_if_def int_value_def Let_def)
  then have "build_commit_payload refund_plugin ?a sample_target ?inputs ?preview
      = Inr [(''reason'', PStr ''it broke''), (''expected_version'', PInt 1), (''subject_user_id'', PStr ''u1'')]"
    using id a(1) by (simp add: build_commit_payload_def set_default_def has_key_def missing_fields_def dict_rows_def
        items_of_def refund_plugin_def order_operation_def int_value_def Let_def)
  then have "plugin_envelope refund_plugin ?a sample_target ?inputs ?preview = Inr (butlast sample_command)"
    using id a by (simp add: plugin_envelope_def command_of_def sample_command_def refund_plugin_def order_operation_def
        command_contract_text_def opt_val_def)
  then show ?thesis
    using plugin by (simp add: build_business_command_envelope_def sample_refund_offer_def sample_target_def dict_if_def
        command_id_of_def sample_command_def Let_def)
qed

lemma sample_command_id: "str_between 8 160 (dget sample_command ''command_id'')"
  by (simp add: sample_command_def str_between_def py_len_def)

lemma sample_speaks: "speaks_for (actor_context_from_state sample_state) customer"
  by (simp add: speaks_for_def actor_context_from_state_def sample_state_def customer_def text_or_def printable_def)

theorem envelope_contract_agrees_witness:
  "\<exists>p c h. find_plugin default_order_operations ''create_refund'' = Some p \<and> normalize_operation_command sample_command = Inr c
    \<and> oc_rid c = ''o1'' \<and> map_of operation_handlers (''order'', op_operation p) = Some h
    \<and> execute_operation_command sample_env customer sample_command (Some ''key'') sample_db
        = run_operation_handler sample_env customer c (Some ''key'') h sample_db"
proof -
  have "text_of (dget sample_refund_offer ''action_id'') = ''create_refund''" "stripped (dget sample_target ''resource_id'') = ''o1''"
    "dict_or_empty (dget sample_refund_offer ''input_values'') = Some [(''reason'', PStr ''it broke'')]"
    "same_subject (actor_context_from_state sample_state) [(''reason'', PStr ''it broke'')]"
    by (simp_all add: sample_refund_offer_def sample_target_def printable_def same_subject_def)
  then show ?thesis using envelope_contract_agrees [OF sample_command_built sample_command_id sample_speaks] by auto
qed

end
