(* ===== verification/Txn_Properties.thy ===== *)
theory Txn_Properties
  imports Txn_System
begin

text \<open>
  What the transaction store promises over every sequence of calls: agreement of receipts,
  attempts and grants, finality of sealed rows, single use of grants, the exact conditions
  of a reservation, and what its structured columns give back.
\<close>

section \<open>A sample store\<close>

definition sample_scope :: txn_scope where
  "sample_scope = \<lparr>sc_tenant_id = ''t'', sc_user_id = ''u'', sc_thread_id = ''th'', sc_draft_id = ''d''\<rparr>"

definition sample_draft :: draft_row where
  "sample_draft = \<lparr>dr_id = ''d'', dr_tenant = ''t'', dr_user = ''u'', dr_thread = ''th'', dr_revision = 1,
     dr_state = ''AWAITING_AUTHORIZATION'', dr_action = ''refund'', dr_digest = ''x'', dr_envelope = None,
     dr_projection = None, dr_grant = None, dr_attempt = None, dr_created = 0, dr_updated = 0, dr_correlation = None\<rparr>"

definition sample_grant :: grant_row where
  "sample_grant = \<lparr>gr_id = ''g'', gr_tenant = ''t'', gr_user = ''u'', gr_thread = ''th'', gr_draft = ''d'',
     gr_revision = 1, gr_digest = ''x'', gr_confirmation = ''c'', gr_client = ''r'', gr_actor = ''u'', gr_role = ''customer'',
     gr_state = ISSUED, gr_issued = 0, gr_reserved = None, gr_consumed = None, gr_revoked = None, gr_expires = Some 100,
     gr_attempt = None, gr_receipt = None, gr_reason = None\<rparr>"

definition sample_txn_env :: "int \<Rightarrow> txn_env" where
  "sample_txn_env now = \<lparr>te_now = now, te_correlation = None\<rparr>"

definition sample_attempt_request :: attempt_request where
  "sample_attempt_request = \<lparr>ar_grant = ''g'', ar_attempt = ''a'', ar_scope = sample_scope, ar_revision = 1,
     ar_action = ''refund'', ar_digest = ''x'', ar_key = ''k'', ar_payload = [(''operation'', PStr ''APPLY_REFUND'')],
     ar_envelope = None, ar_projection = None, ar_correlation = None\<rparr>"

definition sample_receipt :: receipt_row where
  "sample_receipt = \<lparr>rc_id = ''rc'', rc_tenant = ''t'', rc_user = ''u'', rc_thread = ''th'', rc_draft = ''d'',
     rc_attempt = Some ''a'', rc_handle = Some ''h'', rc_state = ''SUCCESS'',
     rc_result = [(''success'', PBool True)], rc_resource = None, rc_created = 0, rc_correlation = None\<rparr>"

definition open_store :: txn_db where
  "open_store = txn_apply (sample_txn_env 2) (IssueGrant sample_grant)
     (txn_apply (sample_txn_env 1) (CreateDraft sample_draft) empty_txn)"

definition reserved_store :: txn_db where
  "reserved_store = txn_apply (sample_txn_env 3) (ReserveGrant sample_attempt_request) open_store"

definition acked :: attempt_change where
  "acked = \<lparr>ac_state = ''ACKED'', ac_result = None, ac_receipt = Some ''h'', ac_error_code = None, ac_error = None,
     ac_reconciled = False\<rparr>"

definition acked_store :: txn_db where
  "acked_store = txn_apply (sample_txn_env 5) (TransitionAttempt ''a'' acked)
     (txn_apply (sample_txn_env 4) (RecordReceipt sample_receipt) reserved_store)"

definition consumed_store :: txn_db where
  "consumed_store = txn_apply (sample_txn_env 6) (ConsumeGrant ''g'' (Some ''a'') (Some ''h'')) acked_store"

lemma consumed_run: "txn_run empty_txn consumed_store" "txn_run open_store consumed_store"
  unfolding consumed_store_def acked_store_def reserved_store_def open_store_def
  by (intro txn_run.intros)+

lemma open_store_value:
  "td_grants open_store = [sample_grant\<lparr>gr_issued := 2\<rparr>]"
  "td_drafts open_store = [sample_draft\<lparr>dr_created := 1, dr_updated := 1\<rparr>]"
  "td_attempts open_store = []" "td_receipts open_store = []"
  by code_simp+

lemma consumed_store_value:
  "map gr_state (td_grants consumed_store) = [CONSUMED]" "map ta_state (td_attempts consumed_store) = [''ACKED'']"
  "length (td_receipts consumed_store) = 1" "map draft_state_of (td_drafts consumed_store) = [DRAFT_COMMITTING]"
  by code_simp+

section \<open>Agreement\<close>

lemma outcomes_agree:
  assumes "txn_inv db"
  shows "\<forall>t\<in>set (td_attempts db). attempt_sealed t \<longrightarrow>
      (\<exists>!c. c \<in> set (td_receipts db) \<and> rc_attempt c = Some (ta_id t))
      \<and> (\<forall>c\<in>set (td_receipts db). rc_attempt c = Some (ta_id t) \<longrightarrow> closes c t \<and> outcome_agrees c t)"
proof (intro ballI impI conjI)
  fix t
  assume t: "t \<in> set (td_attempts db)" "attempt_sealed t"
  obtain c where c: "receipt_of (ta_id t) db = Some c"
    using assms t by (auto simp: txn_inv_def attempts_closed_def)
  have look: "tbl_look ta_id (td_attempts db) (ta_id t) = Some t"
    using t(1) txn_invD(3) [OF assms] by (simp add: tbl_look_Some_iff)
  have uniq: "receipt_of (ta_id t) db = Some x" if "x \<in> set (td_receipts db)" "rc_attempt x = Some (ta_id t)" for x
    using that by (rule receipt_of_in [OF txn_invD(8) [OF assms]])
  show "\<exists>!c. c \<in> set (td_receipts db) \<and> rc_attempt c = Some (ta_id t)"
  proof (rule ex1I [of _ c])
    show "c \<in> set (td_receipts db) \<and> rc_attempt c = Some (ta_id t)"
      using tbl_look_in [of rc_attempt "td_receipts db"] tbl_look_key [of rc_attempt "td_receipts db"] c
      unfolding receipt_of_def by blast
    show "x = c" if "x \<in> set (td_receipts db) \<and> rc_attempt x = Some (ta_id t)" for x
      using uniq [of x] that c by auto
  qed
  fix x
  assume x: "x \<in> set (td_receipts db)" "rc_attempt x = Some (ta_id t)"
  then obtain t' where "tbl_look ta_id (td_attempts db) (ta_id t') = Some t'" "closes x t'" "attempt_sealed t' \<longrightarrow> outcome_agrees x t'"
    using assms by (auto simp: txn_inv_def receipts_bound_def)
  moreover from this(2) x(2) have "ta_id t' = ta_id t" by (simp add: closes_def)
  ultimately show "closes x t" "outcome_agrees x t" using look t(2) by auto
qed

lemma consumed_grant_proof:
  assumes "txn_inv db"
  shows "\<forall>g\<in>set (td_grants db). gr_state g = CONSUMED \<longrightarrow>
      (\<exists>t\<in>set (td_attempts db). \<exists>c\<in>set (td_receipts db). gr_attempt g = Some (ta_id t) \<and> authorised_by t g
         \<and> read_attempt_state (ta_state t) = Some ATTEMPT_ACKED \<and> closes c t \<and> rc_state c = ''SUCCESS'')"
proof (intro ballI impI)
  fix g
  assume "g \<in> set (td_grants db)" "gr_state g = CONSUMED"
  then obtain t where t: "tbl_look ta_id (td_attempts db) (ta_id t) = Some t" "gr_attempt g = Some (ta_id t)"
    "authorised_by t g" "read_attempt_state (ta_state t) = Some ATTEMPT_ACKED"
    using assms by (auto simp: txn_inv_def grants_bound_def)
  have tin: "t \<in> set (td_attempts db)" by (rule tbl_look_in [OF t(1)])
  then obtain c where c: "c \<in> set (td_receipts db)" "rc_attempt c = Some (ta_id t)" "closes c t" "outcome_agrees c t"
    using outcomes_agree [OF assms] acked_sealed [OF t(4)] by blast
  with t tin show "\<exists>t\<in>set (td_attempts db). \<exists>c\<in>set (td_receipts db). gr_attempt g = Some (ta_id t) \<and> authorised_by t g
         \<and> read_attempt_state (ta_state t) = Some ATTEMPT_ACKED \<and> closes c t \<and> rc_state c = ''SUCCESS''"
    by (auto simp: outcome_agrees_def)
qed



section \<open>Finality\<close>

definition grant_move :: "grant_state \<Rightarrow> grant_state \<Rightarrow> bool" where
  "grant_move s s' = (s = ISSUED \<and> s' \<in> {RESERVED, REVOKED, GRANT_EXPIRED}
     \<or> s = RESERVED \<and> s' \<in> {CONSUMED, REVOKED, GRANT_EXPIRED})"

fun grant_rank :: "grant_state \<Rightarrow> nat" where
  "grant_rank ISSUED = 2" | "grant_rank RESERVED = 1" | "grant_rank _ = 0"

interpretation grant_life: forward_lifecycle grant_move "\<lambda>s. s \<in> {CONSUMED, REVOKED, GRANT_EXPIRED}" grant_rank
  by unfold_locales (auto simp: grant_move_def)

text \<open>How a grant row evolves: the attempt it was reserved for never changes.\<close>

definition grant_evolves :: "grant_row \<Rightarrow> grant_row \<Rightarrow> bool" where
  "grant_evolves g g' \<longleftrightarrow> same_grant g g' \<and> grant_move\<^sup>*\<^sup>* (gr_state g) (gr_state g')
     \<and> (gr_state g \<noteq> ISSUED \<longrightarrow> gr_attempt g' = gr_attempt g)"

lemma same_grant_refl [simp]: "same_grant g g"
  by (simp add: same_grant_def)

lemma same_grant_trans: "same_grant g g' \<Longrightarrow> same_grant g' g'' \<Longrightarrow> same_grant g g''"
  by (simp add: same_grant_def)

lemma not_issued_again: "grant_move\<^sup>*\<^sup>* s s' \<Longrightarrow> s \<noteq> ISSUED \<Longrightarrow> s' \<noteq> ISSUED"
  by (induction rule: rtranclp_induct) (auto simp: grant_move_def)

lemma txn_step_grant:
  assumes "txn_step db db'" and "txn_inv db" and "tbl_look gr_id (td_grants db) i = Some g"
  shows "\<exists>g'. tbl_look gr_id (td_grants db') i = Some g' \<and> same_grant g g'
    \<and> (g' = g \<or> grant_move (gr_state g) (gr_state g') \<and> (gr_state g \<noteq> ISSUED \<longrightarrow> gr_attempt g' = gr_attempt g))"
proof -
  have u: "unique_key gr_id (td_grants db)" by (rule txn_invD [OF assms(2)])
  have upd: "tbl_look gr_id (tbl_upd gr_id j (\<lambda>_. x') (td_grants db)) i = (if i = j then Some x' else Some g)"
    if "tbl_look gr_id (td_grants db) j = Some x" "same_grant x x'" for j x x'
    using look_upd_const [of gr_id "td_grants db" j x x', OF u that(1)] that assms(3) tbl_look_key [OF that(1)]
    by (auto dest: same_grantD)
  from assms(1) show ?thesis
  proof cases
    case (new_grant x)
    then show ?thesis using assms(3) by (auto dest: tbl_look_app)
  next
    case (close_grant j x x')
    then show ?thesis using upd [of j x x'] assms(3) by (auto simp: grant_move_def)
  next
    case (reserve j x x' t r r')
    then show ?thesis using upd [of j x x'] assms(3) by (auto simp: grant_move_def)
  next
    case (consume j x x' t c)
    then show ?thesis using upd [of j x x'] assms(3) by (auto simp: grant_move_def)
  qed (use assms(3) in auto)
qed

lemma grant_history:
  assumes "txn_run db db'" and "txn_inv db" and "tbl_look gr_id (td_grants db) i = Some g"
  shows "\<exists>g'. tbl_look gr_id (td_grants db') i = Some g' \<and> grant_evolves g g'"
  using assms(1,2)
proof (rule txn_run_induct_step)
  show "\<exists>g'. tbl_look gr_id (td_grants db) i = Some g' \<and> grant_evolves g g'"
    using assms(3) by (auto simp: grant_evolves_def)
  fix x y
  assume x: "txn_inv x" "\<exists>g'. tbl_look gr_id (td_grants x) i = Some g' \<and> grant_evolves g g'" "txn_step x y"
  then obtain g1 where g1: "tbl_look gr_id (td_grants x) i = Some g1" "grant_evolves g g1" by blast
  from txn_step_grant [OF x(3,1) g1(1)] obtain g2 where g2: "tbl_look gr_id (td_grants y) i = Some g2" "same_grant g1 g2"
    "g2 = g1 \<or> grant_move (gr_state g1) (gr_state g2) \<and> (gr_state g1 \<noteq> ISSUED \<longrightarrow> gr_attempt g2 = gr_attempt g1)" by blast
  have "grant_evolves g g2"
    using g1(2) g2(2,3) not_issued_again [of "gr_state g" "gr_state g1"]
    by (auto simp: grant_evolves_def intro: same_grant_trans rtranclp.rtrancl_into_rtrancl)
  with g2(1) show "\<exists>g'. tbl_look gr_id (td_grants y) i = Some g' \<and> grant_evolves g g'" by blast
qed

text \<open>
  C27. A grant is used at most once: over any sequence of calls it keeps its identity and the
  command it authorises, its state only moves forward (at most two moves in all), and once
  it has been reserved it stays with that attempt and is never reservable again.
\<close>

theorem grant_single_use:
  assumes "txn_inv db" and "txn_run db db'" and "tbl_look gr_id (td_grants db) i = Some g"
  shows "\<exists>g'. tbl_look gr_id (td_grants db') i = Some g' \<and> same_grant g g'
     \<and> grant_rank (gr_state g') \<le> grant_rank (gr_state g)
     \<and> (gr_state g \<noteq> ISSUED \<longrightarrow> gr_attempt g' = gr_attempt g \<and> \<not> reservable e i g')
     \<and> (gr_state g \<in> {CONSUMED, REVOKED, GRANT_EXPIRED} \<longrightarrow> gr_state g' = gr_state g)"
proof -
  obtain g' where g': "tbl_look gr_id (td_grants db') i = Some g'" "grant_evolves g g'"
    using grant_history [OF assms(2,1,3)] by blast
  show ?thesis
    using g' grant_life.rank_run [of "gr_state g" "gr_state g'"] grant_life.sealed_run [of "gr_state g" "gr_state g'"]
      not_issued_again [of "gr_state g" "gr_state g'"]
    by (auto simp: grant_evolves_def reservable_def)
qed

theorem grant_single_use_witness:
  "\<exists>g'. tbl_look gr_id (td_grants consumed_store) ''g'' = Some g' \<and> grant_rank (gr_state g') \<le> 2"
proof -
  have inv: "txn_inv open_store"
    unfolding open_store_def by (intro txn_run_inv [OF _ empty_txn_inv] txn_run.intros)
  have "tbl_look gr_id (td_grants open_store) ''g'' = Some (sample_grant\<lparr>gr_issued := 2\<rparr>)"
    by (simp add: open_store_value tbl_look_def sql_first_def sample_grant_def)
  from grant_single_use [OF inv consumed_run(2) this] show ?thesis by (auto simp: sample_grant_def)
qed

lemma attempts_kept_sealed:
  assumes "txn_run db db'" and "txn_inv db" and "tbl_look ta_id (td_attempts db) i = Some t"
  shows "\<exists>t'. tbl_look ta_id (td_attempts db') i = Some t' \<and> same_attempt t t' \<and> (attempt_sealed t \<longrightarrow> t' = t)"
  using assms(1,2)
proof (rule txn_run_induct_step)
  fix x y
  assume x: "txn_inv x" "\<exists>t'. tbl_look ta_id (td_attempts x) i = Some t' \<and> same_attempt t t' \<and> (attempt_sealed t \<longrightarrow> t' = t)"
    "txn_step x y"
  then obtain t1 where t1: "tbl_look ta_id (td_attempts x) i = Some t1" "same_attempt t t1" "attempt_sealed t \<longrightarrow> t1 = t" by blast
  have "attempts_kept x y" using x(3) txn_invD(8) [OF x(1)] by (rule txn_step_attempts)
  then obtain t2 where "tbl_look ta_id (td_attempts y) i = Some t2" "same_attempt t1 t2" "attempt_sealed t1 \<longrightarrow> t2 = t1"
    using t1(1) by (auto simp: attempts_kept_def)
  moreover have "same_attempt t t2" using t1(2) \<open>same_attempt t1 t2\<close> by (simp add: same_attempt_def)
  ultimately show "\<exists>t'. tbl_look ta_id (td_attempts y) i = Some t' \<and> same_attempt t t' \<and> (attempt_sealed t \<longrightarrow> t' = t)"
    using t1(3) by auto
qed (use assms(3) in simp)

lemma txn_step_receipts_append: "txn_step db db' \<Longrightarrow> \<exists>more. td_receipts db' = td_receipts db @ more"
  by (cases rule: txn_step.cases) auto

lemma receipts_kept:
  assumes "txn_run db db'" and "txn_inv db"
  shows "\<exists>more. td_receipts db' = td_receipts db @ more"
  using assms
proof (rule txn_run_induct_step)
  fix x y
  assume "\<exists>more. td_receipts x = td_receipts db @ more" "txn_step x y"
  then show "\<exists>more. td_receipts y = td_receipts db @ more" using txn_step_receipts_append by fastforce
qed simp

lemma txn_step_draft:
  assumes "txn_step db db'" and "txn_inv db" and "tbl_look dr_id (td_drafts db) i = Some r"
  shows "\<exists>r'. tbl_look dr_id (td_drafts db') i = Some r'
     \<and> (r' = r \<or> draft_move (draft_state_of r) (draft_state_of r') \<and> \<not> sealed_draft (draft_state_of r))"
proof -
  have u: "unique_key dr_id (td_drafts db)" by (rule txn_invD [OF assms(2)])
  from assms(1) show ?thesis
  proof cases
    case (new_draft x)
    then show ?thesis using assms(3) by (auto dest: tbl_look_app)
  next
    case (move_draft j x x')
    then show ?thesis
      using look_upd_const [of dr_id "td_drafts db" j x x' i, OF u] assms(3) by (auto simp: draft_update_sound_def)
  next
    case (reserve j g g' t x x')
    have "dr_id x' = dr_id x" using reserve(16) by (simp add: draft_scope_def)
    then show ?thesis
      using look_upd_const [of dr_id "td_drafts db" "dr_id x" x x' i, OF u] assms(3) reserve
      by (auto simp: draft_move_def sealed_draft_def)
  qed (use assms(3) in auto)
qed

lemma draft_history:
  assumes "txn_run db db'" and "txn_inv db" and "tbl_look dr_id (td_drafts db) i = Some r"
  shows "\<exists>r'. tbl_look dr_id (td_drafts db') i = Some r' \<and> draft_move\<^sup>*\<^sup>* (draft_state_of r) (draft_state_of r')
     \<and> (sealed_draft (draft_state_of r) \<longrightarrow> r' = r)"
  using assms(1,2)
proof (rule txn_run_induct_step)
  fix x y
  assume x: "txn_inv x" "\<exists>r'. tbl_look dr_id (td_drafts x) i = Some r' \<and> draft_move\<^sup>*\<^sup>* (draft_state_of r) (draft_state_of r')
     \<and> (sealed_draft (draft_state_of r) \<longrightarrow> r' = r)" "txn_step x y"
  then obtain r1 where r1: "tbl_look dr_id (td_drafts x) i = Some r1" "draft_move\<^sup>*\<^sup>* (draft_state_of r) (draft_state_of r1)"
    "sealed_draft (draft_state_of r) \<longrightarrow> r1 = r" by blast
  from txn_step_draft [OF x(3,1) r1(1)] r1(2,3)
  show "\<exists>r'. tbl_look dr_id (td_drafts y) i = Some r' \<and> draft_move\<^sup>*\<^sup>* (draft_state_of r) (draft_state_of r')
     \<and> (sealed_draft (draft_state_of r) \<longrightarrow> r' = r)" by (auto intro: rtranclp.rtrancl_into_rtrancl)
qed (use assms(3) in simp)

text \<open>
  Terminal rows are final: over any sequence of calls, receipts are only ever added,
  an attempt in a terminal state and a draft that is committed, finally failed, expired or
  revoked never change again, no row disappears, and attempts keep their identity.
\<close>

theorem terminal_rows_final:
  assumes "txn_inv db" and "txn_run db db'"
  shows "(\<exists>more. td_receipts db' = td_receipts db @ more)
    \<and> (\<forall>i t. tbl_look ta_id (td_attempts db) i = Some t \<longrightarrow>
         (\<exists>t'. tbl_look ta_id (td_attempts db') i = Some t' \<and> same_attempt t t' \<and> (attempt_sealed t \<longrightarrow> t' = t)))
    \<and> (\<forall>i r. tbl_look dr_id (td_drafts db) i = Some r \<longrightarrow>
         (\<exists>r'. tbl_look dr_id (td_drafts db') i = Some r' \<and> draft_move\<^sup>*\<^sup>* (draft_state_of r) (draft_state_of r')
            \<and> (sealed_draft (draft_state_of r) \<longrightarrow> r' = r)))"
  using receipts_kept [OF assms(2,1)] attempts_kept_sealed [OF assms(2,1)] draft_history [OF assms(2,1)] by blast

theorem terminal_rows_final_witness:
  "\<exists>r'. tbl_look dr_id (td_drafts consumed_store) ''d'' = Some r' \<and> draft_move\<^sup>*\<^sup>* DRAFT_AWAITING_AUTHORIZATION (draft_state_of r')"
proof -
  have inv: "txn_inv open_store"
    unfolding open_store_def by (intro txn_run_inv [OF _ empty_txn_inv] txn_run.intros)
  have look: "tbl_look dr_id (td_drafts open_store) ''d'' = Some (sample_draft\<lparr>dr_created := 1, dr_updated := 1\<rparr>)"
    by (simp add: open_store_value tbl_look_def sql_first_def sample_draft_def)
  have st: "draft_state_of (sample_draft\<lparr>dr_created := 1, dr_updated := 1\<rparr>) = DRAFT_AWAITING_AUTHORIZATION" by code_simp
  show ?thesis
    using terminal_rows_final [OF inv consumed_run(2), THEN conjunct2, THEN conjunct2, rule_format, OF look]
    unfolding st by blast
qed

section \<open>One call on a draft\<close>


definition revised_draft :: draft_row where
  "revised_draft = sample_draft\<lparr>dr_revision := 2, dr_digest := ''y''\<rparr>"


section \<open>The end of a draft\<close>

lemma committed_observation:
  assumes "draft_terminal_observation_decision r target attempt receipt = Inr why" and "py_upper target = ''COMMITTED''"
  shows "\<exists>t c. attempt = Some t \<and> receipt = Some c \<and> dr_attempt r = Some (ta_id t) \<and> attempt_scope t = draft_scope r
    \<and> ta_revision t = dr_revision r \<and> ta_digest t = dr_digest r \<and> rc_attempt c = Some (ta_id t)
    \<and> py_upper (rc_state c) = ''SUCCESS'' \<and> succeeded (rc_result c)"
proof -
  have o: "opt_str x = y \<Longrightarrow> y \<noteq> [] \<Longrightarrow> x = Some y" for x y by (cases x) auto
  have d: "opt_str (dr_attempt r) \<noteq> []"
    "\<exists>t. attempt = Some t \<and> ta_id t = opt_str (dr_attempt r) \<and> attempt_scope t = draft_scope r
      \<and> ta_revision t = dr_revision r \<and> ta_digest t = dr_digest r
      \<and> (\<exists>c. receipt = Some c \<and> opt_str (rc_attempt c) = opt_str (dr_attempt r)
          \<and> py_upper (rc_state c) = ''SUCCESS'' \<and> succeeded (rc_result c))"
    using assms unfolding draft_terminal_observation_decision_def decision_simps by (simp_all add: decision_simps, blast)
  then show ?thesis using o by metis
qed

text \<open>
  An advance of a draft that changes it to committed is backed by the business outcome:
  the draft's own attempt, of the same scope, revision and command, has a success receipt
  with a successful result.
\<close>

theorem advance_commits_with_receipt:
  assumes "tbl_look dr_id (td_drafts (advance_draft e i ch db)) i = Some r'" and "draft_state_of r' = DRAFT_COMMITTED"
    and "tbl_look dr_id (td_drafts db) i = Some r" and "draft_state_of r \<noteq> DRAFT_COMMITTED" and "txn_inv db"
  shows "\<exists>t\<in>set (td_attempts db). \<exists>c\<in>set (td_receipts db). dr_attempt r = Some (ta_id t)
     \<and> attempt_scope t = draft_scope r \<and> ta_revision t = dr_revision r \<and> ta_digest t = dr_digest r
     \<and> rc_attempt c = Some (ta_id t) \<and> succeeded (rc_result c)"
proof -
  let ?a = "opt_str (dr_attempt r)"
  have u: "unique_key dr_id (td_drafts db)" by (rule txn_invD [OF assms(5)])
  have ch: "advance_draft e i ch db \<noteq> db" using assms(1-4) by auto
  then obtain why where d: "draft_terminal_observation_decision r (ch_state ch)
      (if ?a = [] then None else tbl_look ta_id (td_attempts db) ?a) (if ?a = [] then None else receipt_of ?a db) = Inr why"
    and db': "advance_draft e i ch db = db\<lparr>td_drafts := tbl_upd dr_id i (\<lambda>r. (changed_draft ch r)\<lparr>
        dr_grant := if_some (ch_grant ch) (dr_grant r), dr_attempt := if_some (ch_attempt ch) (dr_attempt r),
        dr_updated := te_now e\<rparr>) (td_drafts db)\<rparr>"
    using assms(3) by (auto simp: advance_draft_def Let_def split: sum.splits)
  have "dr_state r' = ch_state ch"
    using assms(1,3) tbl_look_upd [OF u, of i "\<lambda>r. (changed_draft ch r)\<lparr>dr_grant := if_some (ch_grant ch) (dr_grant r),
        dr_attempt := if_some (ch_attempt ch) (dr_attempt r), dr_updated := te_now e\<rparr>" i] tbl_look_key [OF assms(3)]
    by (auto simp: db' changed_draft_def)
  then have "py_upper (ch_state ch) = ''COMMITTED''"
    using assms(2)
    by (auto simp: draft_state_of_def read_draft_state_def draft_states_def split: option.splits if_splits)
  from committed_observation [OF d this] obtain t c where
    t: "tbl_look ta_id (td_attempts db) ?a = Some t" "receipt_of ?a db = Some c" "dr_attempt r = Some (ta_id t)"
      "attempt_scope t = draft_scope r" "ta_revision t = dr_revision r" "ta_digest t = dr_digest r"
      "rc_attempt c = Some (ta_id t)" "succeeded (rc_result c)"
    by (auto split: if_splits)
  then show ?thesis
    using tbl_look_in [OF t(1)] tbl_look_in [OF t(2) [unfolded receipt_of_def]] by blast
qed

definition commit_change :: draft_change where
  "commit_change = \<lparr>ch_state = ''COMMITTED'', ch_revision = None, ch_digest = None, ch_envelope = None,
     ch_projection = None, ch_grant = None, ch_attempt = None\<rparr>"

theorem advance_commits_with_receipt_witness:
  "\<exists>t\<in>set (td_attempts acked_store). \<exists>c\<in>set (td_receipts acked_store). rc_attempt c = Some (ta_id t) \<and> succeeded (rc_result c)"
proof -
  have run: "txn_run empty_txn acked_store"
    unfolding acked_store_def reserved_store_def open_store_def by (intro txn_run.intros)
  have before_st: "map (\<lambda>r. (dr_id r, draft_state_of r)) (td_drafts acked_store) = [(''d'', DRAFT_COMMITTING)]" by code_simp
  have after_st: "map (\<lambda>r. (dr_id r, draft_state_of r))
      (td_drafts (advance_draft (sample_txn_env 6) ''d'' commit_change acked_store)) = [(''d'', DRAFT_COMMITTED)]" by code_simp
  obtain r where r: "td_drafts acked_store = [r]" "dr_id r = ''d''" "draft_state_of r = DRAFT_COMMITTING"
    using before_st by (auto simp: map_eq_Cons_conv)
  obtain r' where r': "td_drafts (advance_draft (sample_txn_env 6) ''d'' commit_change acked_store) = [r']"
    "dr_id r' = ''d''" "draft_state_of r' = DRAFT_COMMITTED"
    using after_st by (auto simp: map_eq_Cons_conv)
  show ?thesis
    using advance_commits_with_receipt [of "sample_txn_env 6" "''d''" commit_change acked_store r' r,
        OF _ r'(3) _ _ txn_run_inv [OF run empty_txn_inv]] r r'
    by (auto simp: tbl_look_def sql_first_def)
qed

text \<open>
  The upsert does not ask for that proof: a draft whose attempt has no receipt at all can
  be written as committed through \<open>create_draft\<close>.
\<close>

theorem create_draft_commits_without_receipt:
  "\<exists>db r. txn_run empty_txn db \<and> td_receipts db = [] \<and> map draft_state_of (td_drafts db) = [DRAFT_COMMITTING]
     \<and> map draft_state_of (td_drafts (fst (create_draft (sample_txn_env 4) r db))) = [DRAFT_COMMITTED]"
proof -
  have run: "txn_run empty_txn reserved_store"
    unfolding reserved_store_def open_store_def by (intro txn_run.intros)
  have "td_receipts reserved_store = []" "map draft_state_of (td_drafts reserved_store) = [DRAFT_COMMITTING]"
    "map draft_state_of (td_drafts (fst (create_draft (sample_txn_env 4) (sample_draft\<lparr>dr_state := ''COMMITTED''\<rparr>)
       reserved_store))) = [DRAFT_COMMITTED]" by code_simp+
  with run show ?thesis
    by (intro exI [of _ reserved_store] exI [of _ "sample_draft\<lparr>dr_state := ''COMMITTED''\<rparr>"]) simp
qed

section \<open>Reservations\<close>

definition awaits :: "draft_row \<Rightarrow> int \<Rightarrow> string \<Rightarrow> string \<Rightarrow> bool" where
  "awaits r revision digest confirmation \<longleftrightarrow> py_upper (dr_state r) = ''AWAITING_AUTHORIZATION''
     \<and> dr_revision r = revision \<and> dr_digest r = digest
     \<and> text_of (dget (projection_fields r) ''confirmation_id'') \<in> {[], confirmation}"

definition reservation_conditions :: "txn_env \<Rightarrow> attempt_request \<Rightarrow> txn_db \<Rightarrow> grant_row \<Rightarrow> draft_row \<Rightarrow> bool" where
  "reservation_conditions e q db g r \<longleftrightarrow>
     tbl_look ta_key (td_attempts db) (ar_key q) = None \<and> ar_attempt q \<notin> ta_id ` set (td_attempts db)
     \<and> tbl_look gr_id (td_grants db) (ar_grant q) = Some g \<and> reservable e (ar_grant q) g
     \<and> grant_scope g = ar_scope q \<and> gr_revision g = ar_revision q \<and> gr_digest g = ar_digest q
     \<and> draft_in (ar_scope q) db = Some r \<and> awaits r (ar_revision q) (ar_digest q) (gr_confirmation g)"

lemma draft_in_scope: "draft_in s db = Some r \<Longrightarrow> draft_scope r = s"
  using sql_first_Some_iff by (fastforce simp: draft_in_def)

lemma issue_decision_iff:
  "draft_in scope db = Some r \<Longrightarrow>
   (\<exists>why. grant_issue_decision (draft_in scope db) scope revision digest confirmation = Inr why)
     \<longleftrightarrow> awaits r revision digest confirmation"
  using draft_in_scope [of scope db r]
  unfolding grant_issue_decision_def awaits_def decision_simps
  by (auto simp: draft_scope_def)

lemma reservation_decision_iff:
  "(\<exists>why. grant_reservation_decision grant (draft_in scope db) scope revision digest = Inr why) \<longleftrightarrow>
   (\<exists>g r. grant = Some g \<and> gr_state g = ISSUED \<and> grant_scope g = scope \<and> gr_revision g = revision \<and> gr_digest g = digest
      \<and> draft_in scope db = Some r \<and> awaits r revision digest (gr_confirmation g))"
proof (cases "draft_in scope db")
  case None
  then show ?thesis
    by (auto simp: grant_reservation_decision_def grant_issue_decision_def split: option.splits)
next
  case (Some r)
  have "(\<exists>why. (case grant_issue_decision (draft_in scope db) scope revision digest (gr_confirmation g) of
       Inl why \<Rightarrow> Inl (''reservation_'' @ why) | Inr _ \<Rightarrow> Inr ''grant_reservation_valid'') = Inr why)
     \<longleftrightarrow> awaits r revision digest (gr_confirmation g)" for g
    using issue_decision_iff [OF Some, of revision digest "gr_confirmation g"]
    by (auto split: sum.splits)
  then show ?thesis
    unfolding grant_reservation_decision_def decision_simps Some by blast
qed

text \<open>The draft of an accepted reservation may always start to commit.\<close>

lemma committing_allowed:
  assumes "awaits r revision digest confirmation"
  shows "draft_persistence_update_decision (Some r) (r\<lparr>dr_state := ''COMMITTING'', dr_revision := revision,
     dr_digest := digest, dr_projection := p\<rparr>) = Inr ''legal_state_transition''"
proof -
  let ?r = "r\<lparr>dr_state := ''COMMITTING'', dr_revision := revision, dr_digest := digest, dr_projection := p\<rparr>"
  have s: "draft_state_of r = DRAFT_AWAITING_AUTHORIZATION" "draft_state_of ?r = DRAFT_COMMITTING"
    using assms awaiting_text
    by (simp_all add: awaits_def draft_state_of_def read_draft_state_def draft_states_def py_upper_def upper_char_def)
  have v: "dr_revision r = revision" "dr_digest r = digest" using assms by (simp_all add: awaits_def)
  have "identity_conflict r ?r = None" by (simp add: identity_conflict_None kept_def)
  then show ?thesis
    using v by (simp add: draft_persistence_update_decision_def s Let_def sealed_draft_def str_or_def
        effective_revision_def int_or_one_def)
qed

lemma start_reserved_result:
  assumes "txn_inv db" and "tbl_look gr_id (td_grants db) (ar_grant q) = Some g" and "gr_state g = ISSUED"
  shows "(\<exists>db' rv. start_reserved e q r db = Inr (db', rv) \<and> rv_reserved rv)
    \<longleftrightarrow> reservable e (ar_grant q) g \<and> ar_attempt q \<notin> ta_id ` set (td_attempts db)"
proof -
  let ?db1 = "expire_grant e (ar_grant q) db"
  have u: "unique_key gr_id (td_grants db)" by (rule txn_invD [OF assms(1)])
  have u1: "unique_key gr_id (td_grants ?db1)"
    by (rule txn_invD [OF txn_step_inv [OF expire_grant_step [OF assms(1)] assms(1)]])
  have "sql_rowcount (reservable e (ar_grant q)) (td_grants ?db1) = 1 \<longleftrightarrow> reservable e (ar_grant q) g"
  proof
    assume "sql_rowcount (reservable e (ar_grant q)) (td_grants ?db1) = 1"
    then obtain g1 where g1: "tbl_look gr_id (td_grants ?db1) (ar_grant q) = Some g1" "reservable e (ar_grant q) g1"
      using sql_rowcount_look [OF u1, of "reservable e (ar_grant q)" "ar_grant q"] by (auto simp: reservable_def)
    then have "?db1 = db" by (rule expire_then_reservable [OF u])
    then show "reservable e (ar_grant q) g" using g1 assms(2) by simp
  next
    assume r: "reservable e (ar_grant q) g"
    have "\<not> (gr_id x = ar_grant q \<and> gr_state x = ISSUED \<and> (case gr_expires x of None \<Rightarrow> False | Some y \<Rightarrow> y \<le> te_now e))"
      if "x \<in> set (td_grants db)" for x
      using that r tbl_look_Some_iff [OF u, of "ar_grant q" x] assms(2) by (auto simp: reservable_def split: option.splits)
    then have "?db1 = db" unfolding expire_grant_def set_grants_def by (subst sql_update_id) auto
    then show "sql_rowcount (reservable e (ar_grant q)) (td_grants ?db1) = 1"
      using sql_rowcount_look [OF u, of "reservable e (ar_grant q)" "ar_grant q"] r assms(2) by (auto simp: reservable_def)
  qed
  then show ?thesis
    by (auto simp: start_reserved_def Let_def refused_def sql_insert_def new_attempt_def set_grants_def expire_grant_def)
qed

lemma reservation_iff:
  assumes "txn_inv db"
  shows "(\<exists>db' rv. reserve_grant_and_start_attempt e q db = Inr (db', rv) \<and> rv_reserved rv)
    \<longleftrightarrow> (\<exists>g r. reservation_conditions e q db g r)"
proof (cases "tbl_look ta_key (td_attempts db) (ar_key q)")
  case (Some t)
  then show ?thesis by (auto simp: reserve_grant_and_start_attempt_def reservation_conditions_def refused_def Let_def)
next
  case None
  let ?g = "tbl_look gr_id (td_grants db) (ar_grant q)"
  let ?d = "grant_reservation_decision ?g (draft_in (ar_scope q) db) (ar_scope q) (ar_revision q) (ar_digest q)"
  note iff = reservation_decision_iff [of ?g "ar_scope q" db "ar_revision q" "ar_digest q"]
  show ?thesis
  proof (cases ?d)
    case (Inl why)
    then have "\<not> (\<exists>why. ?d = Inr why)" by simp
    then have "\<not> (\<exists>g r. reservation_conditions e q db g r)"
      unfolding iff by (auto simp: reservation_conditions_def reservable_def)
    then show ?thesis using None Inl by (auto simp: reserve_grant_and_start_attempt_def refused_def Let_def)
  next
    case (Inr why)
    then obtain g r where g: "?g = Some g" "gr_state g = ISSUED" "grant_scope g = ar_scope q" "gr_revision g = ar_revision q"
      "gr_digest g = ar_digest q" and r: "draft_in (ar_scope q) db = Some r" "awaits r (ar_revision q) (ar_digest q) (gr_confirmation g)"
      using iff by blast
    have "reserve_grant_and_start_attempt e q db = start_reserved e q r db"
      using None Inr r by (simp add: reserve_grant_and_start_attempt_def Let_def committing_allowed)
    then show ?thesis
      using start_reserved_result [OF assms g(1,2), of e r] None g r by (auto simp: reservation_conditions_def)
  qed
qed

text \<open>
  A reservation starts an attempt exactly when the idempotency key and the attempt id
  are new, the grant is issued, unexpired and for exactly this scope, revision and command,
  and the stored draft still awaits authorisation at that revision, command and
  confirmation.
\<close>

theorem reservation_characterised:
  assumes "txn_inv db"
  shows "(\<exists>db' rv. reserve_grant_and_start_attempt e q db = Inr (db', rv) \<and> rv_reserved rv) \<longleftrightarrow>
    tbl_look ta_key (td_attempts db) (ar_key q) = None \<and> ar_attempt q \<notin> ta_id ` set (td_attempts db)
    \<and> (\<exists>g r. tbl_look gr_id (td_grants db) (ar_grant q) = Some g \<and> reservable e (ar_grant q) g
        \<and> grant_scope g = ar_scope q \<and> gr_revision g = ar_revision q \<and> gr_digest g = ar_digest q
        \<and> draft_in (ar_scope q) db = Some r \<and> awaits r (ar_revision q) (ar_digest q) (gr_confirmation g))"
  using reservation_iff [OF assms, of e q] by (simp add: reservation_conditions_def)

lemma open_store_inv: "txn_inv open_store"
  unfolding open_store_def by (intro txn_run_inv [OF _ empty_txn_inv] txn_run.intros)

theorem reservation_characterised_witness:
  "\<exists>db' rv. reserve_grant_and_start_attempt (sample_txn_env 3) sample_attempt_request open_store = Inr (db', rv) \<and> rv_reserved rv"
  unfolding reservation_characterised [OF open_store_inv]
  by (simp add: open_store_value tbl_look_def sql_first_def draft_in_def reservable_def sample_grant_def sample_draft_def
      sample_attempt_request_def sample_scope_def grant_scope_def draft_scope_def awaits_def sample_txn_env_def
      projection_fields_def py_upper_def upper_char_def)

text \<open>
  What the reservation records as the canonical payload of the new attempt is never the
  command it was given but a copy of the draft row: its parameter of that name has been
  overwritten. The plain start of an attempt does record the command.
\<close>

theorem reservation_loses_payload:
  assumes "txn_inv db" and "reserve_grant_and_start_attempt e q db = Inr (db', rv)" and "rv_reserved rv"
  shows "\<exists>r t. draft_in (ar_scope q) db = Some r \<and> rv_attempt rv = Some t \<and> ta_id t = ar_attempt q
     \<and> ta_payload t = draft_as_dict r"
proof -
  obtain g r where c: "reservation_conditions e q db g r" using reservation_iff [OF assms(1), of e q] assms(2,3) by blast
  have d: "\<exists>why. grant_reservation_decision (Some g) (draft_in (ar_scope q) db) (ar_scope q) (ar_revision q) (ar_digest q) = Inr why"
    using c unfolding reservation_decision_iff by (auto simp: reservation_conditions_def reservable_def)
  have s: "start_reserved e q r db = Inr (db', rv)"
    using assms(2) c d by (auto simp: reserve_grant_and_start_attempt_def reservation_conditions_def Let_def committing_allowed)
  have "ar_attempt q \<notin> ta_id ` set (td_attempts db)" using c by (simp add: reservation_conditions_def)
  then have "rv_attempt rv = Some (new_attempt e (q\<lparr>ar_correlation := correlated e (ar_correlation q)\<rparr>) (draft_as_dict r))"
    using s assms(3) tbl_look_None_iff [of ta_id "td_attempts db" "ar_attempt q"]
    by (auto simp: start_reserved_def Let_def refused_def sql_insert_def set_grants_def expire_grant_def tbl_look_append
        new_attempt_def split: if_splits)
  then show ?thesis using c by (auto simp: reservation_conditions_def new_attempt_def)
qed

theorem reservation_loses_payload_witness:
  "\<exists>r. draft_in sample_scope open_store = Some r \<and> draft_as_dict r \<noteq> ar_payload sample_attempt_request"
proof -
  obtain db' rv where x: "reserve_grant_and_start_attempt (sample_txn_env 3) sample_attempt_request open_store = Inr (db', rv)"
      "rv_reserved rv"
    using reservation_iff [OF open_store_inv, of "sample_txn_env 3" sample_attempt_request]
    by (auto simp: reservation_conditions_def open_store_value tbl_look_def sql_first_def draft_in_def reservable_def
        sample_grant_def sample_draft_def sample_attempt_request_def sample_scope_def grant_scope_def draft_scope_def
        awaits_def sample_txn_env_def projection_fields_def py_upper_def upper_char_def)
  have "ar_scope sample_attempt_request = sample_scope" by (simp add: sample_attempt_request_def)
  then show ?thesis
    using reservation_loses_payload [OF open_store_inv x] by (auto simp: draft_as_dict_def sample_attempt_request_def)
qed

section \<open>Columns and pages\<close>

text \<open>
  A structured column gives back what was written into it: decoding the stored JSON text
  of a value with distinct dict keys yields that value.
\<close>

theorem column_roundtrip:
  assumes "well_formed v"
  shows "decode_column (Some (json_column v)) = v"
proof -
  have "separators '', '' '': ''" by (auto simp: separators_def blank_def json_space_def)
  then have "json_loads (json_column v) = Some v" unfolding json_column_def using assms by (rule json_loads_dump)
  then show ?thesis
    using dump_nonempty [of "'', ''" "'': ''" v] by (auto simp: decode_column_def json_column_def)
qed

theorem column_roundtrip_witness:
  "decode_column (Some (json_column (PDict [(''a'', PList [PInt (- 12), PNone, PBool True]), (''b'', PStr [CHR 0x22, CHR 0x0A])])))
     = PDict [(''a'', PList [PInt (- 12), PNone, PBool True]), (''b'', PStr [CHR 0x22, CHR 0x0A])]"
  by (rule column_roundtrip) simp

text \<open>
  Whatever limit a caller passes, a page of drafts or of reconcilable attempts has at
  most 200 rows and at most the limit when it is positive; a page of attempts is only empty
  when no attempt in the scope can be reconciled.
\<close>

theorem page_bounds:
  "length (list_drafts_for_scope s states limit cursor db) \<le> 200
   \<and> length (list_reconcilable_attempts t u th limit db) \<le> 200
   \<and> int (length (list_reconcilable_attempts t u th limit db)) \<le> max 1 limit
   \<and> (list_reconcilable_attempts t u th limit db = [] \<longleftrightarrow>
        \<not> (\<exists>x\<in>set (td_attempts db). ta_state x \<in> {''STARTED'', ''SUBMISSION_UNKNOWN''}
             \<and> \<not> (truthy_str t \<and> Some (ta_tenant x) \<noteq> t) \<and> \<not> (truthy_str u \<and> Some (ta_user x) \<noteq> u)
             \<and> \<not> (truthy_str th \<and> Some (ta_thread x) \<noteq> th)))"
proof -
  have p: "0 < page_size limit" "page_size limit \<le> 200" "int (page_size limit) \<le> max 1 limit"
    by (auto simp: page_size_def)
  have e: "sort_key f xs = [] \<longleftrightarrow> xs = []" for f :: "attempt_row \<Rightarrow> int" and xs
    by (metis length_0_conv length_sort)
  show ?thesis
    using p unfolding list_drafts_for_scope_def list_reconcilable_attempts_def
    by (auto simp: e filter_empty_conv min_def)
qed

theorem page_bounds_witness:
  "int (length (list_reconcilable_attempts None None None (- 5) reserved_store)) \<le> 1"
  using page_bounds [where limit = "- 5" and t = None and u = None and th = None and db = reserved_store] by auto

end
