(* ===== verification/Txn_Recovery.thy ===== *)
theory Txn_Recovery
  imports Txn_Reconcile Txn_Properties
begin

text \<open>
  What a reconciliation pass achieves: an attempt whose business outcome was lost stays open
  while the outcome is ambiguous, and the first definite answer closes attempt, draft and
  grant together.
\<close>

section \<open>An attempt in flight\<close>

definition attempt_in_flight :: "txn_db \<Rightarrow> attempt_row \<Rightarrow> bool" where
  "attempt_in_flight db t \<longleftrightarrow> tbl_look ta_id (td_attempts db) (ta_id t) = Some t \<and> ta_id t \<noteq> []
     \<and> read_attempt_state (ta_state t) \<in> {Some ATTEMPT_STARTED, Some ATTEMPT_SUBMISSION_UNKNOWN}
     \<and> ta_result t = None \<and> ta_receipt t = None \<and> receipt_of (ta_id t) db = None"

definition grant_in_flight :: "txn_db \<Rightarrow> attempt_row \<Rightarrow> grant_row \<Rightarrow> bool" where
  "grant_in_flight db t g \<longleftrightarrow> tbl_look gr_id (td_grants db) (ta_grant t) = Some g \<and> ta_grant t \<noteq> []
     \<and> gr_state g = RESERVED \<and> gr_attempt g = Some (ta_id t) \<and> authorised_by t g"

definition draft_in_flight :: "txn_db \<Rightarrow> attempt_row \<Rightarrow> draft_row \<Rightarrow> bool" where
  "draft_in_flight db t r \<longleftrightarrow> tbl_look dr_id (td_drafts db) (ta_draft t) = Some r \<and> ta_draft t \<noteq> []
     \<and> dr_attempt r = Some (ta_id t) \<and> draft_scope r = attempt_scope t \<and> dr_revision r = ta_revision t
     \<and> dr_digest r = ta_digest t \<and> dr_state r \<in> {''COMMITTING'', ''SUBMISSION_UNKNOWN''}"

definition in_flight_rows :: "txn_db \<Rightarrow> attempt_row \<Rightarrow> grant_row \<Rightarrow> draft_row \<Rightarrow> bool" where
  "in_flight_rows db t g r \<longleftrightarrow> txn_inv db \<and> attempt_in_flight db t \<and> grant_in_flight db t g \<and> draft_in_flight db t r"

section \<open>The writes of a pass\<close>

lemma upper_texts [simp]:
  "py_upper ''COMMITTING'' = ''COMMITTING''" "py_upper ''SUBMISSION_UNKNOWN'' = ''SUBMISSION_UNKNOWN''"
  "py_upper ''COMMITTED'' = ''COMMITTED''" "py_upper ''FAILED_RETRYABLE'' = ''FAILED_RETRYABLE''"
  "py_upper ''FAILED_FINAL'' = ''FAILED_FINAL''" "py_upper ''ACKED'' = ''ACKED''"
  "py_upper ''SUCCESS'' = ''SUCCESS''" "py_upper ''FAILED'' = ''FAILED''"
  "py_upper ''AWAITING_AUTHORIZATION'' = ''AWAITING_AUTHORIZATION''"
  by (simp_all add: py_upper_def upper_char_def)

lemma read_states [simp]:
  "read_attempt_state ''ACKED'' = Some ATTEMPT_ACKED"
  "read_attempt_state ''SUBMISSION_UNKNOWN'' = Some ATTEMPT_SUBMISSION_UNKNOWN"
  "read_attempt_state ''FAILED_RETRYABLE'' = Some ATTEMPT_FAILED_RETRYABLE"
  "read_attempt_state ''FAILED_FINAL'' = Some ATTEMPT_FAILED_FINAL"
  "read_draft_state ''COMMITTING'' = DRAFT_COMMITTING" "read_draft_state ''COMMITTED'' = DRAFT_COMMITTED"
  "read_draft_state ''SUBMISSION_UNKNOWN'' = DRAFT_SUBMISSION_UNKNOWN"
  "read_draft_state ''FAILED_RETRYABLE'' = DRAFT_FAILED_RETRYABLE"
  "read_draft_state ''FAILED_FINAL'' = DRAFT_FAILED_FINAL"
  by (simp_all add: read_attempt_state_def attempt_states_def read_draft_state_def draft_states_def)

text \<open>The receipt a pass records, and when its outcome and the new draft state fit together.\<close>

definition outcome_fits :: "string \<Rightarrow> pydict \<Rightarrow> bool" where
  "outcome_fits st result \<longleftrightarrow> st = ''COMMITTED'' \<and> succeeded result
     \<or> st \<in> {''FAILED_RETRYABLE'', ''FAILED_FINAL''} \<and> \<not> succeeded result"

definition receipt_text :: "string \<Rightarrow> string" where
  "receipt_text st = (if st = ''COMMITTED'' then ''SUCCESS'' else ''FAILED'')"

lemma scope_same [simp]: "scope_mismatch s s = None"
  by (simp add: scope_mismatch_def)

lemma record_receipt_in_flight:
  assumes "attempt_in_flight db t" and "grant_in_flight db t g" and "rc_attempt c = Some (ta_id t)"
    and "receipt_scope c = attempt_scope t" and "rc_state c = receipt_text st" and "outcome_fits st (rc_result c)"
    and "rc_id c \<notin> rc_id ` set (td_receipts db)"
  shows "\<exists>stored. record_receipt x c db = Inr (db\<lparr>td_receipts := td_receipts db @
      [c\<lparr>rc_created := te_now x, rc_correlation := correlated x (rc_correlation c)\<rparr>]\<rparr>, stored)"
proof -
  have look: "tbl_look ta_id (td_attempts db) (ta_id t) = Some t" "ta_id t \<noteq> []" "receipt_of (ta_id t) db = None"
    "read_attempt_state (ta_state t) \<in> {Some ATTEMPT_STARTED, Some ATTEMPT_SUBMISSION_UNKNOWN}"
    using assms(1) by (auto simp: attempt_in_flight_def)
  have g: "get_grant (ta_grant t) db = Some g" "gr_state g = RESERVED" "authorised_by t g" "ta_grant t \<noteq> []"
    using assms(2) by (auto simp: grant_in_flight_def get_grant_def)
  have "\<exists>why. validate_receipt_binding (Some t) (Some g) (receipt_scope c) (rc_attempt c) (rc_state c) (Some (rc_result c)) = Inr why"
    using look g assms(3-6) unfolding validate_receipt_binding_def
    by (auto simp: authorised_by_def receipt_text_def outcome_fits_def Let_def)
  moreover have "tbl_look rc_id (td_receipts db) (rc_id c) = None"
    using assms(7) by (simp add: tbl_look_None_iff)
  moreover have "py_upper (rc_state c) = rc_state c" using assms(5) by (auto simp: receipt_text_def)
  ultimately show ?thesis
    unfolding record_receipt_def Let_def using look g(1) assms(3) by (auto simp: Let_def)
qed

text \<open>The draft row after \<open>advance_draft(..., draft_state=st, current_attempt_id=a)\<close>.\<close>

definition moved_draft :: "txn_env \<Rightarrow> string \<Rightarrow> string \<Rightarrow> draft_row \<Rightarrow> draft_row" where
  "moved_draft x st a r = r\<lparr>dr_state := st, dr_attempt := Some a, dr_updated := te_now x\<rparr>"

lemma if_some_simps [simp]: "if_some None v = v" "if_some (Some w) v = Some w"
  by (simp_all add: if_some_def)

lemma state_change_simps [simp]:
  "ch_state (state_change st a) = st" "ch_grant (state_change st a) = None" "ch_attempt (state_change st a) = Some a"
  "changed_draft (state_change st a) r = r\<lparr>dr_state := st\<rparr>"
  by (simp_all add: changed_draft_def state_change_def if_given_def)

lemma move_allowed:
  assumes "dr_state r \<in> {''COMMITTING'', ''SUBMISSION_UNKNOWN''}"
    and "st \<in> {''SUBMISSION_UNKNOWN'', ''COMMITTED'', ''FAILED_RETRYABLE'', ''FAILED_FINAL''}"
  shows "\<exists>why. draft_persistence_update_decision (Some r) (r\<lparr>dr_state := st\<rparr>) = Inr why"
proof -
  let ?n = "r\<lparr>dr_state := st\<rparr>"
  have "identity_conflict r ?n = None" by (simp add: identity_conflict_None kept_def)
  moreover have "max 1 (if dr_revision ?n = 0 then effective_revision r else dr_revision ?n) = effective_revision r"
    by (simp add: effective_revision_def int_or_one_def)
  moreover have "draft_state_of r \<in> {DRAFT_COMMITTING, DRAFT_SUBMISSION_UNKNOWN}"
    using assms(1) by (auto simp: draft_state_of_def)
  moreover have "draft_state_of ?n \<in> {DRAFT_SUBMISSION_UNKNOWN, DRAFT_COMMITTED, DRAFT_FAILED_RETRYABLE, DRAFT_FAILED_FINAL}"
    using assms(2) by (auto simp: draft_state_of_def)
  moreover have "\<exists>why. interaction_projection_is_fresh r ?n = Inr why"
    if "draft_state_of r \<in> {DRAFT_COMMITTING, DRAFT_SUBMISSION_UNKNOWN}"
  proof -
    have "projection_fields ?n = projection_fields r" by (simp add: projection_fields_def)
    then show ?thesis using that by (auto simp: interaction_projection_is_fresh_def Let_def)
  qed
  ultimately show ?thesis
    unfolding draft_persistence_update_decision_def option.case Let_def
    by (auto simp: sealed_draft_def str_or_def)
qed

lemma advance_in_flight:
  assumes "tbl_look dr_id (td_drafts db) i = Some r" and "dr_state r \<in> {''COMMITTING'', ''SUBMISSION_UNKNOWN''}"
    and "st \<in> {''SUBMISSION_UNKNOWN'', ''COMMITTED'', ''FAILED_RETRYABLE'', ''FAILED_FINAL''}"
    and "\<exists>why. draft_terminal_observation_decision r st
      (if opt_str (dr_attempt r) = [] then None else tbl_look ta_id (td_attempts db) (opt_str (dr_attempt r)))
      (if opt_str (dr_attempt r) = [] then None else receipt_of (opt_str (dr_attempt r)) db) = Inr why"
  shows "advance_draft x i (state_change st a) db = db\<lparr>td_drafts := tbl_upd dr_id i (moved_draft x st a) (td_drafts db)\<rparr>"
proof -
  obtain why where "draft_persistence_update_decision (Some r) (r\<lparr>dr_state := st\<rparr>) = Inr why"
    using move_allowed [OF assms(2,3)] by blast
  then show ?thesis
    using assms(1,4) by (auto simp: advance_draft_def Let_def moved_draft_def [abs_def])
qed

lemma observation_closed:
  assumes "dr_attempt r = Some (ta_id t)" and "ta_id t \<noteq> []" and "attempt_scope t = draft_scope r"
    and "ta_revision t = dr_revision r" and "ta_digest t = dr_digest r"
    and "rc_attempt c = Some (ta_id t)" and "receipt_scope c = attempt_scope t" and "rc_state c = receipt_text st"
    and "outcome_fits st (rc_result c)"
  shows "\<exists>why. draft_terminal_observation_decision r st (Some t) (Some c) = Inr why"
proof -
  have "rc_draft c = dr_id r" using assms(3,7) by (simp add: receipt_scope_def draft_scope_def)
  then show ?thesis
    using assms by (auto simp: draft_terminal_observation_decision_def Let_def receipt_text_def outcome_fits_def)
qed

lemma observation_unknown:
  "dr_state r \<in> {''COMMITTING'', ''SUBMISSION_UNKNOWN''} \<Longrightarrow>
    \<exists>why. draft_terminal_observation_decision r ''SUBMISSION_UNKNOWN'' t c = Inr why"
  by (auto simp: draft_terminal_observation_decision_def Let_def)

definition changed_attempt :: "txn_env \<Rightarrow> attempt_change \<Rightarrow> attempt_row \<Rightarrow> attempt_row" where
  "changed_attempt x ch t = t\<lparr>ta_state := ac_state ch, ta_result := if_some (ac_result ch) (ta_result t),
     ta_receipt := if_some (ac_receipt ch) (ta_receipt t), ta_error_code := ac_error_code ch, ta_error := ac_error ch,
     ta_updated := te_now x, ta_reconciled := (if ac_reconciled ch then Some (te_now x) else ta_reconciled t)\<rparr>"

lemma transition_in_flight:
  assumes "tbl_look ta_id (td_attempts db) (ta_id t) = Some t"
    and "read_attempt_state (ta_state t) \<in> {Some ATTEMPT_STARTED, Some ATTEMPT_SUBMISSION_UNKNOWN}"
    and "ta_result t = None" and "ta_receipt t = None"
    and "ac_state ch = ''SUBMISSION_UNKNOWN'' \<and> receipt_of (ta_id t) db = None
      \<or> (\<exists>c st. receipt_of (ta_id t) db = Some c \<and> rc_state c = receipt_text st \<and> outcome_fits st (rc_result c)
           \<and> ac_state ch = (if st = ''COMMITTED'' then ''ACKED'' else st))"
  shows "transition_attempt x (ta_id t) ch db =
    Inr (db\<lparr>td_attempts := tbl_upd ta_id (ta_id t) (changed_attempt x ch) (td_attempts db)\<rparr>)"
proof -
  have open_t: "\<not> attempt_sealed t" using assms(2) by (auto simp: attempt_sealed_def sealed_attempt_def)
  have allowed: "attempt_transition_allowed (ta_state t) st'"
    if "st' \<in> {''SUBMISSION_UNKNOWN'', ''ACKED'', ''FAILED_RETRYABLE'', ''FAILED_FINAL''}" for st'
    using assms(2) that by (auto simp: attempt_transition_allowed_def)
  have "\<exists>why. attempt_persistence_update_decision (Some t) (ac_state ch) (ac_result ch) (ac_receipt ch) (receipt_of (ta_id t) db) = Inr why"
    using assms(5)
  proof (elim disjE exE conjE)
    assume "ac_state ch = ''SUBMISSION_UNKNOWN''" "receipt_of (ta_id t) db = None"
    then show ?thesis
      using open_t allowed assms(3,4) by (simp add: attempt_persistence_update_decision_def sealed_attempt_def)
  next
    fix c st assume c: "receipt_of (ta_id t) db = Some c" "rc_state c = receipt_text st" "outcome_fits st (rc_result c)"
      "ac_state ch = (if st = ''COMMITTED'' then ''ACKED'' else st)"
    then consider "st = ''COMMITTED''" | "st = ''FAILED_RETRYABLE''" | "st = ''FAILED_FINAL''" by (auto simp: outcome_fits_def)
    then show ?thesis
      by cases (use c open_t allowed assms(3,4) in \<open>simp_all add: attempt_persistence_update_decision_def sealed_attempt_def
        receipt_text_def\<close>)
  qed
  moreover have "(\<lambda>t. t\<lparr>ta_state := ac_state ch, ta_result := if_some (ac_result ch) (ta_result t),
     ta_receipt := if_some (ac_receipt ch) (ta_receipt t), ta_error_code := ac_error_code ch, ta_error := ac_error ch,
     ta_updated := te_now x, ta_reconciled := (if ac_reconciled ch then Some (te_now x) else ta_reconciled t)\<rparr>) = changed_attempt x ch"
    by (rule ext) (simp add: changed_attempt_def)
  ultimately show ?thesis using assms(1) by (auto simp: transition_attempt_def)
qed

lemma receipt_appended:
  "receipt_of a db = None \<Longrightarrow> rc_attempt c = Some a \<Longrightarrow> receipt_of a (db\<lparr>td_receipts := td_receipts db @ [c]\<rparr>) = Some c"
  by (simp add: receipt_of_def tbl_look_append)

lemma consume_in_flight:
  assumes "unique_key gr_id (td_grants db)" and "tbl_look gr_id (td_grants db) i = Some g" and "gr_state g = RESERVED"
    and "gr_attempt g = Some a" and "a \<noteq> []" and "h \<noteq> []" and "tbl_look ta_id (td_attempts db) a = Some t"
    and "authorised_by t g" and "read_attempt_state (ta_state t) = Some ATTEMPT_ACKED" and "ta_receipt t = Some h"
    and "receipt_of a db = Some c" and "rc_attempt c = Some a" and "rc_handle c = Some h" and "rc_state c = ''SUCCESS''"
    and "receipt_scope c = attempt_scope t" and "succeeded (rc_result c)"
  shows "consume_grant x i (Some a) (Some h) db = db\<lparr>td_grants := tbl_upd gr_id i (\<lambda>g. g\<lparr>gr_state := CONSUMED,
      gr_consumed := Some (te_now x), gr_attempt := Some a, gr_receipt := Some h\<rparr>) (td_grants db)\<rparr>"
proof -
  have ids: "ta_id t = a" "gr_id g = i" using assms(2,7) by (auto dest: tbl_look_key)
  have "\<exists>why. grant_consumption_decision (Some g) (Some t) (Some c) (Some a) (Some h) = Inr why"
    using assms(3-6,8-16) ids unfolding grant_consumption_decision_def
    by (simp add: authorised_by_def Let_def)
  moreover have "sql_rowcount (\<lambda>g. gr_id g = i \<and> gr_state g = RESERVED \<and> gr_attempt g = Some a) (td_grants db) = 1"
    using assms(1-4) ids(2) by (intro sql_rowcount_one [OF assms(1), of _ i g]) (auto dest: tbl_look_in)
  moreover have "sql_update (\<lambda>g. gr_id g = i \<and> gr_state g = RESERVED \<and> gr_attempt g = Some a) f (td_grants db)
      = tbl_upd gr_id i f (td_grants db)" for f
    using assms(2-4) ids(2) by (intro sql_update_one [OF assms(1)]) auto
  ultimately show ?thesis
    using assms(2,3,7,11) by (auto simp: consume_grant_def Let_def)
qed

lemma revoke_in_flight:
  assumes "unique_key gr_id (td_grants db)" and "tbl_look gr_id (td_grants db) i = Some g" and "gr_state g = RESERVED"
  shows "revoke_grant x i why db = db\<lparr>td_grants := tbl_upd gr_id i (revoked_row x REVOKED why) (td_grants db)\<rparr>"
proof -
  have "gr_id g = i" using assms(2) by (rule tbl_look_key)
  then show ?thesis
    unfolding revoke_grant_def using assms by (subst sql_update_one [OF assms(1), of _ i g]) auto
qed

text \<open>Attempt, draft and grant after a definite outcome.\<close>

definition closed_together :: "txn_db \<Rightarrow> attempt_row \<Rightarrow> string \<Rightarrow> pydict \<Rightarrow> bool" where
  "closed_together db t st result \<longleftrightarrow> (\<exists>t' g r c.
     tbl_look ta_id (td_attempts db) (ta_id t) = Some t' \<and> ta_state t' = (if st = ''COMMITTED'' then ''ACKED'' else st)
     \<and> tbl_look gr_id (td_grants db) (ta_grant t) = Some g \<and> gr_state g = (if st = ''COMMITTED'' then CONSUMED else REVOKED)
     \<and> gr_attempt g = Some (ta_id t)
     \<and> tbl_look dr_id (td_drafts db) (ta_draft t) = Some r \<and> dr_state r = st
     \<and> receipt_of (ta_id t) db = Some c \<and> rc_result c = result \<and> rc_state c = receipt_text st)"

definition settle_grant :: "txn_env \<Rightarrow> string \<Rightarrow> string \<Rightarrow> string \<Rightarrow> string \<Rightarrow> txn_db \<Rightarrow> txn_db" where
  "settle_grant x i a h st db =
    (if i = [] then db else if st = ''COMMITTED'' then consume_grant x i (Some a) (Some h) db else revoke_grant x i st db)"

lemma settle_attempts [simp]: "td_attempts (settle_grant x i a h st db) = td_attempts db"
  by (simp add: settle_grant_def consume_grant_def revoke_grant_def Let_def split: sum.split)

lemma close_rows:
  assumes rows: "in_flight_rows db t g r" and c: "rc_attempt c = Some (ta_id t)" "receipt_scope c = attempt_scope t"
      "rc_state c = receipt_text st" "rc_handle c = Some h" "rc_id c \<notin> rc_id ` set (td_receipts db)"
    and out: "outcome_fits st (rc_result c)" and h: "h \<noteq> []"
  shows "\<exists>db1 stored db3. record_receipt x c db = Inr (db1, stored)
     \<and> transition_attempt x (ta_id t)
         (closing_change (if st = ''COMMITTED'' then ''ACKED'' else st) (rc_result c) (Some h) code err)
         (advance_draft x (ta_draft t) (state_change st (ta_id t)) db1) = Inr db3
     \<and> closed_together (settle_grant x (ta_grant t) (ta_id t) h st db3) t st (rc_result c)
     \<and> td_attempts db3 = tbl_upd ta_id (ta_id t)
         (changed_attempt x (closing_change (if st = ''COMMITTED'' then ''ACKED'' else st) (rc_result c) (Some h) code err)) (td_attempts db)"
proof -
  let ?c = "c\<lparr>rc_created := te_now x, rc_correlation := correlated x (rc_correlation c)\<rparr>"
  let ?db1 = "db\<lparr>td_receipts := td_receipts db @ [?c]\<rparr>"
  let ?drafts = "tbl_upd dr_id (ta_draft t) (moved_draft x st (ta_id t)) (td_drafts db)"
  let ?ch = "closing_change (if st = ''COMMITTED'' then ''ACKED'' else st) (rc_result c) (Some h) code err"
  let ?attempts = "tbl_upd ta_id (ta_id t) (changed_attempt x ?ch) (td_attempts db)"
  let ?db3 = "db\<lparr>td_receipts := td_receipts db @ [?c], td_drafts := ?drafts, td_attempts := ?attempts\<rparr>"
  have inv: "txn_inv db" and at: "attempt_in_flight db t" and gr: "grant_in_flight db t g" and dr: "draft_in_flight db t r"
    using rows by (auto simp: in_flight_rows_def)
  note a = at [unfolded attempt_in_flight_def] and gg = gr [unfolded grant_in_flight_def] and d = dr [unfolded draft_in_flight_def]
  obtain stored where rec: "record_receipt x c db = Inr (?db1, stored)"
    using record_receipt_in_flight [OF at gr c(1-3) out c(5)] by blast
  have rc: "receipt_of (ta_id t) ?db1 = Some ?c" using a c(1) by (intro receipt_appended) simp_all
  have st: "st \<in> {''SUBMISSION_UNKNOWN'', ''COMMITTED'', ''FAILED_RETRYABLE'', ''FAILED_FINAL''}"
    using out by (auto simp: outcome_fits_def)
  have obs: "\<exists>why. draft_terminal_observation_decision r st (Some t) (Some ?c) = Inr why"
    using d a c out by (intro observation_closed) (simp_all add: receipt_scope_def)
  have adv: "advance_draft x (ta_draft t) (state_change st (ta_id t)) ?db1 = ?db1\<lparr>td_drafts := ?drafts\<rparr>"
    using d a rc obs st by (subst advance_in_flight [where r = r]) simp_all
  have trans: "transition_attempt x (ta_id t) ?ch (?db1\<lparr>td_drafts := ?drafts\<rparr>) = Inr ?db3"
    using a rc c(3) out by (subst transition_in_flight) (auto simp: closing_change_def)
  have t': "tbl_look ta_id ?attempts (ta_id t) = Some (changed_attempt x ?ch t)"
    using a by (subst tbl_look_upd [OF txn_invD(3) [OF inv]]) (auto simp: changed_attempt_def dest: tbl_look_key)
  have r': "tbl_look dr_id ?drafts (ta_draft t) = Some (moved_draft x st (ta_id t) r)"
    using d by (subst tbl_look_upd [OF txn_invD(1) [OF inv]]) (auto simp: moved_draft_def dest: tbl_look_key)
  have rc3: "receipt_of (ta_id t) ?db3 = Some ?c" using rc by (simp add: receipt_of_def)
  have "closed_together (settle_grant x (ta_grant t) (ta_id t) h st ?db3) t st (rc_result c)"
  proof (cases "st = ''COMMITTED''")
    case True
    have "consume_grant x (ta_grant t) (Some (ta_id t)) (Some h) ?db3 = ?db3\<lparr>td_grants :=
        tbl_upd gr_id (ta_grant t) (\<lambda>g. g\<lparr>gr_state := CONSUMED, gr_consumed := Some (te_now x), gr_attempt := Some (ta_id t),
          gr_receipt := Some h\<rparr>) (td_grants ?db3)\<rparr>"
      using a gg d h c out True t' rc3 txn_invD(2) [OF inv]
      by (intro consume_in_flight [where g = g and c = ?c and t = "changed_attempt x ?ch t"])
        (auto simp: changed_attempt_def closing_change_def authorised_by_def attempt_scope_def receipt_text_def
          outcome_fits_def receipt_scope_def)
    moreover have "tbl_look gr_id (tbl_upd gr_id (ta_grant t) (\<lambda>g. g\<lparr>gr_state := CONSUMED, gr_consumed := Some (te_now x),
        gr_attempt := Some (ta_id t), gr_receipt := Some h\<rparr>) (td_grants db)) (ta_grant t)
        = Some (g\<lparr>gr_state := CONSUMED, gr_consumed := Some (te_now x), gr_attempt := Some (ta_id t), gr_receipt := Some h\<rparr>)"
      using gg by (subst tbl_look_upd [OF txn_invD(2) [OF inv]]) (auto dest: tbl_look_key)
    ultimately show ?thesis
      using gg t' r' rc3 c(3) True
      by (simp add: settle_grant_def closed_together_def changed_attempt_def closing_change_def moved_draft_def)
  next
    case False
    have "revoke_grant x (ta_grant t) st ?db3 = ?db3\<lparr>td_grants := tbl_upd gr_id (ta_grant t) (revoked_row x REVOKED st) (td_grants ?db3)\<rparr>"
      using gg txn_invD(2) [OF inv] by (intro revoke_in_flight) auto
    moreover have "tbl_look gr_id (tbl_upd gr_id (ta_grant t) (revoked_row x REVOKED st) (td_grants db)) (ta_grant t)
        = Some (revoked_row x REVOKED st g)"
      using gg by (subst tbl_look_upd [OF txn_invD(2) [OF inv]]) (auto simp: revoked_row_def dest: tbl_look_key)
    ultimately show ?thesis
      using gg t' r' rc3 c(3) False
      by (simp add: settle_grant_def closed_together_def changed_attempt_def closing_change_def moved_draft_def revoked_row_def)
  qed
  then show ?thesis using rec adv trans by auto
qed

section \<open>One pass\<close>

text \<open>What a pass makes of the answer of the business service.\<close>

definition outcome :: "pydict \<Rightarrow> string" where
  "outcome result =
    (if truthy (dget result ''success'') then ''COMMITTED''
     else classify_business_failure (dget result ''code'') (text_of (dget result ''error'')))"

text \<open>A result whose \<open>success\<close> counts as true is exactly \<open>True\<close>.\<close>

definition plain_answer :: "pydict \<Rightarrow> bool" where
  "plain_answer result \<longleftrightarrow> (truthy (dget result ''success'') \<longrightarrow> succeeded result)"

text \<open>
  The pass can act on the attempt: it runs in the scope of the attempt, finds a command that
  the recorded digest verifies, and can read offer and turn.
\<close>

definition expected_digest :: "attempt_row \<Rightarrow> draft_row option \<Rightarrow> string" where
  "expected_digest t durable = str_or (ta_digest t) (case durable of None \<Rightarrow> [] | Some r \<Rightarrow> dr_digest r)"

definition pass_source :: "pass_env \<Rightarrow> attempt_row \<Rightarrow> draft_row option \<Rightarrow> pydict \<Rightarrow> pydict" where
  "pass_source e t durable offer =
    (if offer = [] then fallback_source e t durable (attempt_envelope t durable) (expected_digest t durable) else offer)"

definition verified :: "pass_env \<Rightarrow> attempt_row \<Rightarrow> draft_row option \<Rightarrow> pydict \<Rightarrow> bool" where
  "verified e t durable offer \<longleftrightarrow> attempt_envelope t durable \<noteq> [] \<and> (expected_digest t durable = []
     \<or> command_digest_for_offer (fe_sha (pe_flow e))
         (dset ''business_command_envelope'' (PDict (attempt_envelope t durable)) offer) = Some (expected_digest t durable))"

definition usable_source :: "pass_env \<Rightarrow> attempt_row \<Rightarrow> pydict \<Rightarrow> bool" where
  "usable_source e t source \<longleftrightarrow> is_offer source \<and> canonical_command_payload source \<noteq> None
     \<and> int_or (dget source ''draft_revision'') 1 \<noteq> None \<and> offer_scope (pe_state e) source = attempt_scope t"

definition pass_scope_of :: "pass_env \<Rightarrow> attempt_row \<Rightarrow> bool" where
  "pass_scope_of e t \<longleftrightarrow> text_of (dget (pass_scope e) ''tenant_id'') = ta_tenant t
     \<and> text_of (dget (pass_scope e) ''user_id'') = ta_user t \<and> text_of (dget (pass_scope e) ''thread_id'') = ta_thread t"

definition pass_ready :: "pass_env \<Rightarrow> attempt_row \<Rightarrow> draft_row \<Rightarrow> bool" where
  "pass_ready e t r \<longleftrightarrow> pass_scope_of e t \<and> int_or (dget (pe_state e) ''turn_index'') 0 \<noteq> None
     \<and> (case chosen_offer e t (Some r) of None \<Rightarrow> False
        | Some offer \<Rightarrow> verified e t (Some r) offer \<and> usable_source e t (pass_source e t (Some r) offer))"

definition fresh_receipt :: "pass_env \<Rightarrow> attempt_row \<Rightarrow> txn_db \<Rightarrow> bool" where
  "fresh_receipt e t db \<longleftrightarrow>
     ''receipt:'' @ fe_fresh (pe_flow e) (ta_id t @ ''/receipt'') \<notin> rc_id ` set (td_receipts db)"

text \<open>A pass looks only at the fixed part of the two rows.\<close>

definition same_attempt_core :: "attempt_row \<Rightarrow> attempt_row \<Rightarrow> bool" where
  "same_attempt_core t t' \<longleftrightarrow> ta_id t' = ta_id t \<and> attempt_scope t' = attempt_scope t \<and> ta_revision t' = ta_revision t
     \<and> ta_digest t' = ta_digest t \<and> ta_grant t' = ta_grant t \<and> ta_key t' = ta_key t \<and> ta_envelope t' = ta_envelope t
     \<and> ta_action t' = ta_action t"

definition same_draft_core :: "draft_row \<Rightarrow> draft_row \<Rightarrow> bool" where
  "same_draft_core r r' \<longleftrightarrow> draft_scope r' = draft_scope r \<and> dr_revision r' = dr_revision r \<and> dr_digest r' = dr_digest r
     \<and> dr_envelope r' = dr_envelope r \<and> dr_projection r' = dr_projection r"

lemma core_refl [simp]: "same_attempt_core t t" "same_draft_core r r"
  by (simp_all add: same_attempt_core_def same_draft_core_def)

lemma core_trans:
  "same_attempt_core t t' \<Longrightarrow> same_attempt_core t' t'' \<Longrightarrow> same_attempt_core t t''"
  "same_draft_core r r' \<Longrightarrow> same_draft_core r' r'' \<Longrightarrow> same_draft_core r r''"
  by (simp_all add: same_attempt_core_def same_draft_core_def)

lemma core_moved [simp]:
  "same_attempt_core t (changed_attempt x ch t)" "same_draft_core r (moved_draft x st a r)"
  by (simp_all add: same_attempt_core_def same_draft_core_def changed_attempt_def moved_draft_def attempt_scope_def draft_scope_def)

lemma pass_core:
  assumes "same_attempt_core t t'" and "same_draft_core r r'"
  shows "pass_ready e t' r' = pass_ready e t r" and "fresh_receipt e t' db = fresh_receipt e t db"
    and "attempt_envelope t' (Some r') = attempt_envelope t (Some r)" and "ta_key t' = ta_key t"
    and "closed_together db t' st result = closed_together db t st result"
proof -
  have [simp]: "ta_tenant t' = ta_tenant t" "ta_user t' = ta_user t" "ta_thread t' = ta_thread t" "ta_draft t' = ta_draft t"
    "ta_id t' = ta_id t" "ta_revision t' = ta_revision t" "ta_digest t' = ta_digest t" "ta_grant t' = ta_grant t"
    "ta_envelope t' = ta_envelope t" "ta_action t' = ta_action t" "attempt_scope t' = attempt_scope t"
    "dr_revision r' = dr_revision r" "dr_digest r' = dr_digest r" "dr_envelope r' = dr_envelope r"
    "dr_projection r' = dr_projection r"
    using assms by (auto simp: same_attempt_core_def same_draft_core_def attempt_scope_def)
  have [simp]: "attempt_envelope t' (Some r') = attempt_envelope t (Some r)" "expected_digest t' (Some r') = expected_digest t (Some r)"
    "chosen_offer e t' (Some r') = chosen_offer e t (Some r)"
    unfolding attempt_envelope_def expected_digest_def chosen_offer_def durable_projection_def option.case Let_def by simp_all
  have [simp]: "pass_source e t' (Some r') offer = pass_source e t (Some r) offer" for offer
    by (simp add: pass_source_def fallback_source_def Let_def)
  have "verified e t' (Some r') offer = verified e t (Some r) offer" "usable_source e t' offer = usable_source e t offer" for offer
    by (simp_all add: verified_def usable_source_def)
  then show "pass_ready e t' r' = pass_ready e t r"
    by (simp add: pass_ready_def pass_scope_of_def split: option.split)
  show "fresh_receipt e t' db = fresh_receipt e t db" "closed_together db t' st result = closed_together db t st result"
    by (simp_all add: fresh_receipt_def closed_together_def)
  show "attempt_envelope t' (Some r') = attempt_envelope t (Some r)" by simp
  show "ta_key t' = ta_key t" using assms(1) by (simp add: same_attempt_core_def)
qed

text \<open>An ambiguous answer leaves the attempt in flight.\<close>

lemma unknown_rows:
  assumes rows: "in_flight_rows db t g r"
  shows "\<exists>db1 t' r'. transition_attempt x (ta_id t) (open_change ''SUBMISSION_UNKNOWN'' code err) db = Inr db1
     \<and> (let db2 = advance_draft x (ta_draft t) (state_change ''SUBMISSION_UNKNOWN'' (ta_id t)) db1 in
        in_flight_rows db2 t' g r' \<and> same_attempt_core t t' \<and> same_draft_core r r' \<and> td_receipts db2 = td_receipts db
        \<and> ta_state t' = ''SUBMISSION_UNKNOWN'' \<and> td_attempts db2 = tbl_upd ta_id (ta_id t) (\<lambda>_. t') (td_attempts db))"
proof -
  let ?ch = "open_change ''SUBMISSION_UNKNOWN'' code err"
  let ?t = "changed_attempt x ?ch t"
  let ?r = "moved_draft x ''SUBMISSION_UNKNOWN'' (ta_id t) r"
  let ?attempts = "tbl_upd ta_id (ta_id t) (changed_attempt x ?ch) (td_attempts db)"
  let ?drafts = "tbl_upd dr_id (ta_draft t) (moved_draft x ''SUBMISSION_UNKNOWN'' (ta_id t)) (td_drafts db)"
  let ?db1 = "db\<lparr>td_attempts := ?attempts\<rparr>"
  let ?db2 = "db\<lparr>td_attempts := ?attempts, td_drafts := ?drafts\<rparr>"
  have inv: "txn_inv db" using rows by (simp add: in_flight_rows_def)
  note a = rows [unfolded in_flight_rows_def attempt_in_flight_def]
    and gg = rows [unfolded in_flight_rows_def grant_in_flight_def] and d = rows [unfolded in_flight_rows_def draft_in_flight_def]
  have trans: "transition_attempt x (ta_id t) ?ch db = Inr ?db1"
    using a by (intro transition_in_flight) (auto simp: open_change_def)
  have adv: "advance_draft x (ta_draft t) (state_change ''SUBMISSION_UNKNOWN'' (ta_id t)) ?db1 = ?db2"
    using d observation_unknown by (subst advance_in_flight [where r = r]) auto
  have inv1: "txn_inv ?db1" using txn_step_inv [OF transition_attempt_step [OF inv] inv] trans by (metis sum.simps(6))
  have inv2: "txn_inv ?db2" using txn_step_inv [OF advance_draft_step [OF inv1] inv1] adv by metis
  have t': "tbl_look ta_id ?attempts (ta_id t) = Some ?t"
    using a by (subst tbl_look_upd [OF txn_invD(3) [OF inv]]) (auto simp: changed_attempt_def dest: tbl_look_key)
  have r': "tbl_look dr_id ?drafts (ta_draft t) = Some ?r"
    using d by (subst tbl_look_upd [OF txn_invD(1) [OF inv]]) (auto simp: moved_draft_def dest: tbl_look_key)
  have "in_flight_rows ?db2 ?t g ?r"
    using inv2 a gg d t' r'
    by (auto simp: in_flight_rows_def attempt_in_flight_def grant_in_flight_def draft_in_flight_def changed_attempt_def
      open_change_def moved_draft_def receipt_of_def authorised_by_def attempt_scope_def draft_scope_def)
  moreover have "?attempts = tbl_upd ta_id (ta_id t) (\<lambda>_. ?t) (td_attempts db)"
    using a by (intro tbl_upd_const [OF txn_invD(3) [OF inv]]) auto
  moreover have "ta_state ?t = ''SUBMISSION_UNKNOWN''" by (simp add: changed_attempt_def open_change_def)
  ultimately show ?thesis using trans adv by (simp add: Let_def) (metis core_moved)
qed

section \<open>The only open attempt of a conversation\<close>

definition open_states :: "string list" where
  "open_states = [''STARTED'', ''SUBMISSION_UNKNOWN'']"

definition open_in :: "attempt_row \<Rightarrow> attempt_row \<Rightarrow> bool" where
  "open_in t a \<longleftrightarrow> ta_state a \<in> set open_states \<and> ta_tenant a = ta_tenant t \<and> ta_user a = ta_user t \<and> ta_thread a = ta_thread t"

definition open_list :: "attempt_row \<Rightarrow> txn_db \<Rightarrow> attempt_row list" where
  "open_list t db = filter (open_in t) (td_attempts db)"

text \<open>The conversation is named: an empty part of the scope would match every attempt.\<close>

definition named :: "attempt_row \<Rightarrow> bool" where
  "named t \<longleftrightarrow> ta_tenant t \<noteq> [] \<and> ta_user t \<noteq> [] \<and> ta_thread t \<noteq> []"

lemma open_attempts_eq:
  assumes "pass_scope_of e t" and "named t"
  shows "open_attempts e db = take 20 (sort_key ta_updated (open_list t db))"
proof -
  have "page_size 20 = 20" by (simp add: page_size_def)
  moreover have "(\<lambda>a. ta_state a \<in> {''STARTED'', ''SUBMISSION_UNKNOWN''} \<and> ta_tenant a = ta_tenant t
      \<and> ta_user a = ta_user t \<and> ta_thread a = ta_thread t) = open_in t"
    by (rule ext) (simp add: open_in_def open_states_def)
  ultimately show ?thesis
    using assms by (simp add: open_attempts_def list_reconcilable_attempts_def open_list_def pass_scope_of_def named_def
      truthy_str_def opt_str_def Let_def)
qed

lemma filter_singleton: "filter p rows = [r] \<Longrightarrow> r \<in> set rows \<and> p r"
  by (metis filter_eq_ConsD in_set_conv_decomp)

lemma filter_tbl_upd:
  assumes "filter p rows = [r]" and "key r = k" and "\<And>a. a \<in> set rows \<Longrightarrow> key a = k \<Longrightarrow> a = r" and "distinct rows"
  shows "filter p (tbl_upd key k (\<lambda>_. r') rows) = (if p r' then [r'] else [])"
  using assms
proof (induction rows)
  case (Cons a rows)
  show ?case
  proof (cases "key a = k")
    case True
    then have "a = r" using Cons.prems(3) by simp
    moreover have "k \<notin> key ` set rows" using Cons.prems(3,4) \<open>a = r\<close> by force
    moreover have "p r" using filter_singleton [OF Cons.prems(1)] by simp
    ultimately show ?thesis using Cons.prems(1,2) by (simp add: tbl_upd_Cons tbl_upd_absent)
  next
    case False
    then have "\<not> p a" using Cons.prems(1,2) by (auto split: if_splits)
    then show ?thesis using Cons False by (simp add: tbl_upd_Cons)
  qed
qed simp

lemma unique_key_distinct: "unique_key key rows \<Longrightarrow> distinct rows"
  by (simp add: unique_key_def distinct_map)

lemma open_list_upd:
  assumes "txn_inv db" and "open_list t db = [t]" and "td_attempts db' = tbl_upd ta_id (ta_id t) (\<lambda>_. t') (td_attempts db)"
  shows "open_list t db' = (if open_in t t' then [t'] else [])"
proof -
  have "t \<in> set (td_attempts db)" using assms(2) unfolding open_list_def by (auto dest: filter_singleton)
  then have "a = t" if "a \<in> set (td_attempts db)" "ta_id a = ta_id t" for a
    using unique_keyD [OF txn_invD(3) [OF assms(1)]] that by blast
  then show ?thesis
    using assms(2,3) unique_key_distinct [OF txn_invD(3) [OF assms(1)]] unfolding open_list_def
    by (simp add: filter_tbl_upd)
qed

lemma open_in_core: "same_attempt_core t t' \<Longrightarrow> open_in t' = open_in t"
  by (rule ext) (auto simp: same_attempt_core_def open_in_def attempt_scope_def)

section \<open>What one pass does\<close>

lemma outcome_cases:
  "outcome result \<in> {''COMMITTED'', ''FAILED_RETRYABLE'', ''FAILED_FINAL'', ''SUBMISSION_UNKNOWN''}"
  by (simp add: outcome_def classify_business_failure_def Let_def)

lemma outcome_committed: "outcome result = ''COMMITTED'' \<longleftrightarrow> truthy (dget result ''success'')"
  by (simp add: outcome_def classify_business_failure_def Let_def)

lemma outcome_fits_answer:
  "plain_answer result \<Longrightarrow> outcome result \<noteq> ''SUBMISSION_UNKNOWN'' \<Longrightarrow> outcome_fits (outcome result) result"
  using outcome_cases [of result] outcome_committed [of result]
  by (auto simp: outcome_fits_def plain_answer_def succeeded_def)

lemma exec_step:
  assumes ready: "pass_ready e t r" and rows: "in_flight_rows db t g r"
    and "exec w (attempt_envelope t (Some r)) (ta_key t) = (w', answer)" and result: "result = exec_result answer"
  shows "\<exists>source. usable_source e t source \<and> reconcile_attempt e exec t (start_pass db w) =
     (if outcome result = ''SUBMISSION_UNKNOWN'' then still_unknown e t source result (start_pass db w')
      else close_attempt e t (Some r) source result (outcome result) (start_pass db w'))"
proof -
  obtain offer where offer: "chosen_offer e t (Some r) = Some offer" "verified e t (Some r) offer"
    "usable_source e t (pass_source e t (Some r) offer)"
    using ready by (auto simp: pass_ready_def split: option.splits)
  have draft: "get_draft (ta_draft t) db = Some r" and none: "get_receipt_by_attempt (ta_id t) db = None"
    using rows by (auto simp: in_flight_rows_def draft_in_flight_def attempt_in_flight_def get_draft_def
      get_receipt_by_attempt_def)
  have digest: "str_or (ta_digest t) (dr_digest r) = expected_digest t (Some r)" by (simp add: expected_digest_def)
  have env: "attempt_envelope t (Some r) \<noteq> []" using offer(2) by (simp add: verified_def)
  have "reconcile_attempt e exec t (start_pass db w) =
     (if outcome result = ''SUBMISSION_UNKNOWN'' then still_unknown e t (pass_source e t (Some r) offer) result (start_pass db w')
      else close_attempt e t (Some r) (pass_source e t (Some r) offer) result (outcome result) (start_pass db w'))"
    using offer(2) assms(3) outcome_committed [of result]
    by (auto simp: reconcile_attempt_def start_pass_def draft none offer(1) env digest verified_def Let_def outcome_def
      pass_source_def result)
  then show ?thesis using offer(3) by blast
qed

lemma source_texts:
  "usable_source e t source \<Longrightarrow> text_of (dget source ''kind'') = ''offer''"
  by (simp add: usable_source_def is_offer_def kind_of_def)

lemma moved_source:
  assumes "usable_source e t source" and "st = draft_state_text s"
  obtains moved where "transition_draft sha source st reason None = Some moved" "offer_scope (pe_state e) moved = attempt_scope t"
proof -
  obtain moved where m: "transition_draft sha source st reason None = Some moved"
    using transition_succeeds [of source sha s reason] assms by (auto simp: usable_source_def source_texts)
  have "dget moved ''scope'' = dget source ''scope''"
    by (rule transition_frame [OF m]) (auto simp: normal_fields_def)
  then have "offer_scope (pe_state e) moved = offer_scope (pe_state e) source"
    by (simp add: offer_scope_def transition_draft_id [OF m])
  then show ?thesis using that m assms(1) by (simp add: usable_source_def)
qed

lemma state_texts:
  "''COMMITTED'' = draft_state_text DRAFT_COMMITTED" "''FAILED_FINAL'' = draft_state_text DRAFT_FAILED_FINAL"
  "''FAILED_RETRYABLE'' = draft_state_text DRAFT_FAILED_RETRYABLE"
  "''SUBMISSION_UNKNOWN'' = draft_state_text DRAFT_SUBMISSION_UNKNOWN"
  by (simp_all add: draft_state_text_def draft_states_def)

text \<open>A definite answer closes attempt, draft and grant, and no open attempt is left.\<close>

lemma close_pass:
  assumes rows: "in_flight_rows (rn_db s) t g r" and src: "usable_source e t source"
    and turn: "int_or (dget (pe_state e) ''turn_index'') 0 \<noteq> None" and fresh: "fresh_receipt e t (rn_db s)"
    and out: "outcome_fits st result" and "open_list t (rn_db s) = [t]"
  shows "\<exists>s'. close_attempt e t durable source result st s = (s', True) \<and> rn_world s' = rn_world s
     \<and> closed_together (rn_db s') t st result \<and> open_list t (rn_db s') = []"
proof -
  let ?x = "fe_txn (pe_flow e)"
  have st: "\<exists>q. st = draft_state_text q" using out state_texts by (auto simp: outcome_fits_def)
  then obtain moved where m: "transition_draft (fe_sha (pe_flow e)) source st
      (if st = ''COMMITTED'' then None else Some ''reconciliation_business_rejection'') None = Some moved"
    "offer_scope (pe_state e) moved = attempt_scope t"
    using moved_source [OF src] by blast
  obtain turn' where turn': "int_or (dget (pe_state e) ''turn_index'') 0 = Some turn'" using turn by blast
  let ?offer = "committed_by (ta_id t) moved"
  define entry where "entry = receipt_entry (te_now ?x) (fe_fresh (pe_flow e) (ta_id t)) (text_of (dget ?offer ''action_id'')) result
     (pass_scope e) turn' (text_or (dget ?offer ''label'') operation_label) (ta_draft t) (ta_id t) (ta_key t)"
  define c where "c = offer_receipt (pe_flow e) (pe_state e) ?offer (Some (ta_id t)) (Some (handle_of entry))
     (if st = ''COMMITTED'' then ''SUCCESS'' else ''FAILED'') result"
  have handle: "handle_of entry = ''h_receipt:'' @ fe_fresh (pe_flow e) (ta_id t)"
    by (simp add: entry_def handle_of_def receipt_entry_def base_entry_def dict_update_def create_handle_def dget_def
      Let_def text_of_def)
  have scope: "offer_scope (pe_state e) ?offer = attempt_scope t"
    using m(2) by (simp add: committed_by_def offer_scope_def offer_draft_id_def)
  have c_facts: "rc_attempt c = Some (ta_id t)" "receipt_scope c = attempt_scope t" "rc_state c = receipt_text st"
    "rc_handle c = Some (handle_of entry)" "rc_result c = result" "rc_id c \<notin> rc_id ` set (td_receipts (rn_db s))"
    using fresh by (simp_all add: c_def offer_receipt_def Let_def scope receipt_text_def receipt_scope_def fresh_receipt_def opt_str_def)
  let ?code = "if st = ''COMMITTED'' then None else Some (text_of (dget result ''code''))"
  let ?err = "if st = ''COMMITTED'' then None else Some (text_of (dget result ''error''))"
  obtain db1 stored db3 where w: "record_receipt ?x c (rn_db s) = Inr (db1, stored)"
    "transition_attempt ?x (ta_id t)
         (closing_change (if st = ''COMMITTED'' then ''ACKED'' else st) result (Some (handle_of entry)) ?code ?err)
         (advance_draft ?x (ta_draft t) (state_change st (ta_id t)) db1) = Inr db3"
    "closed_together (settle_grant ?x (ta_grant t) (ta_id t) (handle_of entry) st db3) t st result"
    "td_attempts db3 = tbl_upd ta_id (ta_id t) (changed_attempt ?x
       (closing_change (if st = ''COMMITTED'' then ''ACKED'' else st) result (Some (handle_of entry)) ?code ?err)) (td_attempts (rn_db s))"
    using close_rows [OF rows c_facts(1-4,6), of ?x ?code ?err] out handle by (auto simp: c_facts(5))
  have grant: "attempt_grant t durable = ta_grant t"
    using rows by (auto simp: in_flight_rows_def grant_in_flight_def attempt_grant_def)
  let ?db4 = "settle_grant ?x (ta_grant t) (ta_id t) (handle_of entry) st db3"
  let ?t = "changed_attempt ?x (closing_change (if st = ''COMMITTED'' then ''ACKED'' else st) result (Some (handle_of entry)) ?code ?err) t"
  have inv: "txn_inv (rn_db s)" and look: "tbl_look ta_id (td_attempts (rn_db s)) (ta_id t) = Some t"
    using rows by (auto simp: in_flight_rows_def attempt_in_flight_def)
  have "td_attempts ?db4 = tbl_upd ta_id (ta_id t) (\<lambda>_. ?t) (td_attempts (rn_db s))"
    using w(4) tbl_upd_const [OF txn_invD(3) [OF inv] look] by simp
  moreover have "\<not> open_in t ?t"
    using out by (auto simp: open_in_def open_states_def changed_attempt_def closing_change_def outcome_fits_def)
  ultimately have none: "open_list t ?db4 = []" using open_list_upd [OF inv assms(6)] by simp
  show ?thesis
    using w(1-3) none turn' m(1) grant
    by (auto simp: close_attempt_def Let_def entry_def [symmetric] c_def [symmetric] record_transaction_receipt_def
      settle_grant_def closing_change_def)
qed

text \<open>An ambiguous answer keeps everything open for the next pass.\<close>

lemma unknown_pass:
  assumes rows: "in_flight_rows (rn_db s) t g r" and src: "usable_source e t source" and lone: "open_list t (rn_db s) = [t]"
  shows "\<exists>s' t' r'. still_unknown e t source result s = (s', True) \<and> rn_world s' = rn_world s
     \<and> in_flight_rows (rn_db s') t' g r' \<and> same_attempt_core t t' \<and> same_draft_core r r'
     \<and> td_receipts (rn_db s') = td_receipts (rn_db s) \<and> open_list t' (rn_db s') = [t']"
proof -
  let ?x = "fe_txn (pe_flow e)"
  obtain moved where m: "transition_draft (fe_sha (pe_flow e)) source ''SUBMISSION_UNKNOWN'' (Some ''reconciliation_still_unknown'') None = Some moved"
    by (rule moved_source [OF src state_texts(4)])
  obtain db1 t' r' where u: "transition_attempt ?x (ta_id t) (open_change ''SUBMISSION_UNKNOWN'' (Some (text_of (dget result ''code'')))
      (Some (text_of (dget result ''error'')))) (rn_db s) = Inr db1"
    "in_flight_rows (advance_draft ?x (ta_draft t) (state_change ''SUBMISSION_UNKNOWN'' (ta_id t)) db1) t' g r'"
    "same_attempt_core t t'" "same_draft_core r r'" "ta_state t' = ''SUBMISSION_UNKNOWN''"
    "td_receipts (advance_draft ?x (ta_draft t) (state_change ''SUBMISSION_UNKNOWN'' (ta_id t)) db1) = td_receipts (rn_db s)"
    "td_attempts (advance_draft ?x (ta_draft t) (state_change ''SUBMISSION_UNKNOWN'' (ta_id t)) db1)
      = tbl_upd ta_id (ta_id t) (\<lambda>_. t') (td_attempts (rn_db s))"
    using unknown_rows [OF rows, of ?x] unfolding Let_def by blast
  have inv: "txn_inv (rn_db s)" using rows by (simp add: in_flight_rows_def)
  have "open_in t t'" using u(3,5) by (auto simp: open_in_def open_states_def same_attempt_core_def attempt_scope_def)
  then have "open_list t' (advance_draft ?x (ta_draft t) (state_change ''SUBMISSION_UNKNOWN'' (ta_id t)) db1) = [t']"
    using open_list_upd [OF inv lone u(7)] by (simp add: open_list_def open_in_core [OF u(3)])
  then show ?thesis using m u by (auto simp: still_unknown_def Let_def)
qed

section \<open>Passes until the answer is definite\<close>

text \<open>The answer to the \<open>n\<close>-th retry of one command, counted from 0.\<close>

fun nth_answer :: "'w executor \<Rightarrow> pydict \<Rightarrow> string \<Rightarrow> nat \<Rightarrow> 'w \<Rightarrow> pydict" where
  "nth_answer exec env key 0 w = exec_result (snd (exec w env key))"
| "nth_answer exec env key (Suc n) w = nth_answer exec env key n (fst (exec w env key))"

text \<open>Passes one after the other, each with its own state, ledger and clock.\<close>

fun run_passes :: "pass_env list \<Rightarrow> 'w executor \<Rightarrow> txn_db \<Rightarrow> 'w \<Rightarrow> txn_db \<times> 'w" where
  "run_passes [] exec db w = (db, w)"
| "run_passes (e # es) exec db w =
     (let s = fst (reconcile_attempts e exec db w) in run_passes es exec (rn_db s) (rn_world s))"

lemma idle_passes:
  "open_list t db = [] \<Longrightarrow> named t \<Longrightarrow> \<forall>e\<in>set es. pass_scope_of e t \<Longrightarrow> run_passes es exec db w = (db, w)"
  by (induction es) (simp_all add: reconcile_attempts_def open_attempts_eq [of _ t] start_pass_def Let_def)

lemma pass_on_lone:
  assumes "open_list t db = [t]" and "named t" and "pass_scope_of e t"
  shows "fst (reconcile_attempts e exec db w) = fst (reconcile_attempt e exec t (start_pass db w))"
  using assms by (simp add: reconcile_attempts_def open_attempts_eq [of _ t] split: prod.split bool.split)

text \<open>What stays fixed over passes whose answers are ambiguous.\<close>

definition waiting :: "pass_env list \<Rightarrow> attempt_row \<Rightarrow> grant_row \<Rightarrow> draft_row \<Rightarrow> txn_db \<Rightarrow> bool" where
  "waiting es t g r db \<longleftrightarrow> in_flight_rows db t g r \<and> open_list t db = [t] \<and> named t
     \<and> (\<forall>e\<in>set es. pass_ready e t r \<and> fresh_receipt e t db)"

lemma open_pass:
  assumes "waiting (e # es) t g r db" and "exec w (attempt_envelope t (Some r)) (ta_key t) = (w', answer)"
    and "outcome (exec_result answer) = ''SUBMISSION_UNKNOWN''"
  shows "\<exists>db' t' r'. (\<forall>es. run_passes (e # es) exec db w = run_passes es exec db' w') \<and> waiting es t' g r' db'
     \<and> same_attempt_core t t' \<and> same_draft_core r r'"
proof -
  have ready: "pass_ready e t r" "pass_scope_of e t" and rows: "in_flight_rows db t g r" "open_list t db = [t]" "named t"
    using assms(1) by (auto simp: waiting_def pass_ready_def)
  obtain source where s: "usable_source e t source"
    and "reconcile_attempt e exec t (start_pass db w) = still_unknown e t source (exec_result answer) (start_pass db w')"
    using exec_step [of e t r db g exec w w' answer] ready(1) rows(1) assms(2,3) by auto
  moreover obtain s' t' r' where u: "still_unknown e t source (exec_result answer) (start_pass db w') = (s', True)" "rn_world s' = w'"
    "in_flight_rows (rn_db s') t' g r'" "same_attempt_core t t'" "same_draft_core r r'"
    "td_receipts (rn_db s') = td_receipts db" "open_list t' (rn_db s') = [t']"
    using unknown_pass [of "start_pass db w'" t g r e source "exec_result answer"] s rows(1,2)
    by (auto simp: start_pass_def)
  ultimately have run: "\<forall>es. run_passes (e # es) exec db w = run_passes es exec (rn_db s') w'"
    by (simp add: pass_on_lone [OF rows(2,3) ready(2)])
  have "named t'" using rows(3) u(4) by (simp add: named_def same_attempt_core_def attempt_scope_def)
  moreover have "fresh_receipt e' t (rn_db s') = fresh_receipt e' t db" for e' by (simp add: fresh_receipt_def u(6))
  ultimately have "waiting es t' g r' (rn_db s')"
    using u(3,7) assms(1) by (simp add: waiting_def pass_core [OF u(4,5)])
  with run show ?thesis using u(4,5) by blast
qed

lemma closing_pass:
  assumes "waiting (e # es) t g r db" and "exec w (attempt_envelope t (Some r)) (ta_key t) = (w', answer)"
    and "outcome (exec_result answer) \<noteq> ''SUBMISSION_UNKNOWN''" and "plain_answer (exec_result answer)"
  shows "closed_together (fst (run_passes (e # es) exec db w)) t (outcome (exec_result answer)) (exec_result answer)
    \<and> snd (run_passes (e # es) exec db w) = w'"
proof -
  let ?st = "outcome (exec_result answer)"
  have ready: "pass_ready e t r" "fresh_receipt e t db" "\<forall>e\<in>set es. pass_scope_of e t" "pass_scope_of e t"
    and rows: "in_flight_rows db t g r" "open_list t db = [t]" "named t"
    using assms(1) by (auto simp: waiting_def pass_ready_def)
  obtain source where s: "usable_source e t source"
    and "reconcile_attempt e exec t (start_pass db w) = close_attempt e t (Some r) source (exec_result answer) ?st (start_pass db w')"
    using exec_step [of e t r db g exec w w' answer] ready(1) rows(1) assms(2,3) by auto
  moreover obtain s' where c: "close_attempt e t (Some r) source (exec_result answer) ?st (start_pass db w') = (s', True)"
    "closed_together (rn_db s') t ?st (exec_result answer)" "open_list t (rn_db s') = []" "rn_world s' = w'"
    using close_pass [of "start_pass db w'" t g r e source ?st "exec_result answer" "Some r"] s ready rows(1,2)
      outcome_fits_answer [OF assms(4,3)] by (auto simp: start_pass_def pass_ready_def)
  ultimately have "run_passes (e # es) exec db w = (rn_db s', rn_world s')"
    using idle_passes [OF c(3) rows(3) ready(3)] by (simp add: pass_on_lone [OF rows(2,3) ready(4)])
  then show ?thesis using c(2,4) by simp
qed

lemma passes_open:
  assumes "waiting es t g r db" and "n \<le> length es"
    and "\<forall>k<n. outcome (nth_answer exec (attempt_envelope t (Some r)) (ta_key t) k w) = ''SUBMISSION_UNKNOWN''"
  shows "\<exists>db' w' t' r'. (\<forall>es'. run_passes (take n es @ es') exec db w = run_passes es' exec db' w')
     \<and> waiting (drop n es) t' g r' db' \<and> same_attempt_core t t' \<and> same_draft_core r r'
     \<and> (\<forall>k. nth_answer exec (attempt_envelope t (Some r)) (ta_key t) (n + k) w
           = nth_answer exec (attempt_envelope t (Some r)) (ta_key t) k w')
     \<and> w' = ((\<lambda>v. fst (exec v (attempt_envelope t (Some r)) (ta_key t))) ^^ n) w"
  using assms
proof (induction n arbitrary: es db t r w)
  case 0
  then show ?case by (intro exI [of _ db] exI [of _ w] exI [of _ t] exI [of _ r]) simp
next
  case (Suc n)
  then obtain e es' where es: "es = e # es'" by (cases es) auto
  let ?env = "attempt_envelope t (Some r)"
  obtain w1 answer where a: "exec w ?env (ta_key t) = (w1, answer)" by (cases "exec w ?env (ta_key t)")
  have out: "outcome (exec_result answer) = ''SUBMISSION_UNKNOWN''" using Suc.prems(3) a by force
  obtain db1 t1 r1 where u: "\<And>es. run_passes (e # es) exec db w = run_passes es exec db1 w1" "waiting es' t1 g r1 db1"
    "same_attempt_core t t1" "same_draft_core r r1"
    using open_pass [of e es' t g r db exec w w1 answer] Suc.prems(1) a out unfolding es by blast
  have env: "attempt_envelope t1 (Some r1) = ?env" "ta_key t1 = ta_key t" using pass_core [OF u(3,4)] by simp_all
  have shift: "nth_answer exec ?env (ta_key t) (Suc k) w = nth_answer exec ?env (ta_key t) k w1" for k using a by simp
  have "\<forall>k<n. outcome (nth_answer exec ?env (ta_key t) k w1) = ''SUBMISSION_UNKNOWN''"
    using Suc.prems(3) by (simp add: shift [symmetric] del: nth_answer.simps)
  then obtain db' w' t' r' where v: "\<And>es2. run_passes (take n es' @ es2) exec db1 w1 = run_passes es2 exec db' w'"
    "waiting (drop n es') t' g r' db'" "same_attempt_core t1 t'" "same_draft_core r1 r'"
    "\<And>k. nth_answer exec ?env (ta_key t) (n + k) w1 = nth_answer exec ?env (ta_key t) k w'"
    "w' = ((\<lambda>v. fst (exec v ?env (ta_key t))) ^^ n) w1"
    using Suc.IH [OF u(2), of w1] Suc.prems(2) unfolding es env by auto
  have "w' = ((\<lambda>v. fst (exec v ?env (ta_key t))) ^^ Suc n) w"
    unfolding funpow_Suc_right using v(6) a by simp
  then show ?case
    using u(1) v(1-5) core_trans(1) [OF u(3) v(3)] core_trans(2) [OF u(4) v(4)]
    by (intro exI [of _ db'] exI [of _ w'] exI [of _ t'] exI [of _ r']) (simp add: es a del: funpow.simps)
qed

text \<open>
  C39. A lost answer is recovered. Take the only open attempt of a conversation, with its
  grant reserved and its draft committing, and reconciliation passes that find the recorded
  command. As long as the business service answers ambiguously, the attempt stays open and no
  receipt is made up; the first definite answer closes attempt, draft and grant together with
  its receipt, and later passes leave them alone.
\<close>

theorem reconciliation_closes:
  assumes "waiting es t g r db" and "n < length es"
    and "\<forall>k<n. outcome (nth_answer exec (attempt_envelope t (Some r)) (ta_key t) k w) = ''SUBMISSION_UNKNOWN''"
    and "outcome (nth_answer exec (attempt_envelope t (Some r)) (ta_key t) n w) = st" and "st \<noteq> ''SUBMISSION_UNKNOWN''"
    and "plain_answer (nth_answer exec (attempt_envelope t (Some r)) (ta_key t) n w)"
  shows "closed_together (fst (run_passes es exec db w)) t st (nth_answer exec (attempt_envelope t (Some r)) (ta_key t) n w)
    \<and> (\<forall>m\<le>n. \<exists>t' r'. in_flight_rows (fst (run_passes (take m es) exec db w)) t' g r' \<and> same_attempt_core t t')"
proof (intro conjI allI impI)
  let ?answer = "\<lambda>k w. nth_answer exec (attempt_envelope t (Some r)) (ta_key t) k w"
  obtain db' w' t' r' where v: "\<And>es'. run_passes (take n es @ es') exec db w = run_passes es' exec db' w'"
    "waiting (drop n es) t' g r' db'" "same_attempt_core t t'" "same_draft_core r r'" "\<And>k. ?answer (n + k) w = ?answer k w'"
    using passes_open [OF assms(1) less_imp_le [OF assms(2)] assms(3)] by blast
  obtain e es' where es: "drop n es = e # es'" using assms(2) by (metis Cons_nth_drop_Suc)
  have last: "?answer n w = exec_result (snd (exec w' (attempt_envelope t' (Some r')) (ta_key t')))"
    using v(5) [of 0] by (simp add: pass_core [OF v(3,4)])
  have "closed_together (fst (run_passes (e # es') exec db' w')) t' st (?answer n w)"
    using closing_pass [OF v(2) [unfolded es], of exec w'] assms(4-6) unfolding last by (auto simp: prod_eq_iff)
  moreover have "run_passes es exec db w = run_passes (e # es') exec db' w'"
    using v(1) [of "drop n es"] unfolding es [symmetric] append_take_drop_id .
  ultimately show "closed_together (fst (run_passes es exec db w)) t st (?answer n w)"
    by (simp add: pass_core [OF v(3,4)])
next
  fix m assume m: "m \<le> n"
  then have "m \<le> length es" and "\<forall>k<m. outcome (nth_answer exec (attempt_envelope t (Some r)) (ta_key t) k w) = ''SUBMISSION_UNKNOWN''"
    using assms(2,3) by auto
  then obtain db' w' t' r' where v: "\<And>es'. run_passes (take m es @ es') exec db w = run_passes es' exec db' w'"
    "waiting (drop m es) t' g r' db'" "same_attempt_core t t'"
    using passes_open [OF assms(1), of m exec w] by blast
  have "fst (run_passes (take m es) exec db w) = db'" using v(1) [of "[]"] by simp
  then show "\<exists>t' r'. in_flight_rows (fst (run_passes (take m es) exec db w)) t' g r' \<and> same_attempt_core t t'"
    using v(2,3) by (auto simp: waiting_def)
qed

text \<open>
  A refund whose first retry times out and whose second one succeeds. The world is the number
  of calls made so far.
\<close>

definition refund_envelope :: pydict where
  "refund_envelope = [(''action_id'', PStr ''refund''), (''operation'', PStr ''APPLY_REFUND''), (''path'', PStr ''/refunds'')]"

definition inflight_store :: txn_db where
  "inflight_store = txn_apply (sample_txn_env 3)
     (ReserveGrant (sample_attempt_request\<lparr>ar_envelope := Some refund_envelope\<rparr>)) open_store"

definition flaky :: "int executor" where
  "flaky w envelope key = (w + 1, if w = 0 then Inl (ServiceError 504 ''timeout'') else Inr [(''success'', PBool True)])"

definition sample_pass :: "int \<Rightarrow> pass_env" where
  "sample_pass now = \<lparr>pe_flow = \<lparr>fe_txn = sample_txn_env now, fe_sha = (\<lambda>_. ''x''), fe_fresh = (\<lambda>p. p)\<rparr>,
     pe_state = [(''current_tenant_id'', PStr ''t''), (''current_user_id'', PStr ''u''), (''current_thread_id'', PStr ''th'')],
     pe_ledger = [], pe_artifacts = (\<lambda>_ _. [])\<rparr>"

definition inflight_attempt :: attempt_row where "inflight_attempt = hd (td_attempts inflight_store)"
definition inflight_grant :: grant_row where "inflight_grant = hd (td_grants inflight_store)"
definition inflight_draft :: draft_row where "inflight_draft = hd (td_drafts inflight_store)"

lemma inflight_rows: "in_flight_rows inflight_store inflight_attempt inflight_grant inflight_draft"
  unfolding in_flight_rows_def
proof (intro conjI)
  show "txn_inv inflight_store"
    unfolding inflight_store_def by (rule txn_step_inv [OF txn_apply_step [OF open_store_inv] open_store_inv])
qed code_simp+

lemma inflight_waiting: "waiting [sample_pass 4, sample_pass 5] inflight_attempt inflight_grant inflight_draft inflight_store"
  unfolding waiting_def by (intro conjI inflight_rows) code_simp+

lemma flaky_answers:
  "outcome (nth_answer flaky (attempt_envelope inflight_attempt (Some inflight_draft)) (ta_key inflight_attempt) 0 0) = ''SUBMISSION_UNKNOWN''"
  "nth_answer flaky (attempt_envelope inflight_attempt (Some inflight_draft)) (ta_key inflight_attempt) 1 0 = [(''success'', PBool True)]"
  by code_simp+

theorem reconciliation_closes_witness:
  "closed_together (fst (run_passes [sample_pass 4, sample_pass 5] flaky inflight_store 0)) inflight_attempt ''COMMITTED''
     [(''success'', PBool True)]"
proof -
  have "outcome [(''success'', PBool True)] = ''COMMITTED''" by code_simp
  moreover have "plain_answer [(''success'', PBool True)]" by code_simp
  ultimately show ?thesis
    using reconciliation_closes [OF inflight_waiting, of 1 flaky 0 "''COMMITTED''"] flaky_answers by simp
qed

section \<open>A crash after the receipt\<close>

lemma addition_succeeds:
  "offer = [] \<or> usable_source e t offer \<Longrightarrow> \<exists>new. offer_addition e offer ''COMMITTED'' reason a = Some new"
  unfolding state_texts(1) by (auto simp: offer_addition_def elim!: moved_source [OF _ refl])

lemma open_list_receipts [simp]: "open_list t (db\<lparr>td_receipts := cs\<rparr>) = open_list t db"
  by (simp add: open_list_def)

text \<open>
  C40. The process may stop between the receipt and the draft. The next pass finds the receipt
  and acknowledges the attempt, but it writes neither draft nor grant, and no later pass looks
  at the attempt again: the draft stays committing and the grant reserved for good, although
  the business change is done and receipted.
\<close>

theorem receipt_recovery_strands:
  assumes rows: "in_flight_rows db t g r" and lone: "open_list t db = [t]" and named: "named t"
    and c: "rc_attempt c = Some (ta_id t)" "receipt_scope c = attempt_scope t" "rc_state c = ''SUCCESS''"
      "succeeded (rc_result c)" "rc_id c \<notin> rc_id ` set (td_receipts db)"
    and crash: "record_receipt x c db = Inr (db1, stored)"
    and pass: "chosen_offer e t (Some r) = Some offer" "offer = [] \<or> usable_source e t offer"
    and scopes: "\<forall>e'\<in>set (e # es). pass_scope_of e' t"
  shows "\<exists>db'. run_passes (e # es) exec db1 w = (db', w)
    \<and> map_option ta_state (tbl_look ta_id (td_attempts db') (ta_id t)) = Some ''ACKED''
    \<and> tbl_look dr_id (td_drafts db') (ta_draft t) = Some r \<and> dr_state r \<in> {''COMMITTING'', ''SUBMISSION_UNKNOWN''}
    \<and> tbl_look gr_id (td_grants db') (ta_grant t) = Some g \<and> gr_state g = RESERVED"
proof -
  let ?c = "c\<lparr>rc_created := te_now x, rc_correlation := correlated x (rc_correlation c)\<rparr>"
  let ?y = "fe_txn (pe_flow e)"
  let ?ch = "closing_change ''ACKED'' (rc_result c) (none_if_empty (opt_str (rc_handle c))) None None"
  let ?t = "changed_attempt ?y ?ch t"
  let ?attempts = "tbl_upd ta_id (ta_id t) (changed_attempt ?y ?ch) (td_attempts db)"
  have a: "attempt_in_flight db t" "grant_in_flight db t g" "draft_in_flight db t r" "txn_inv db"
    using rows by (auto simp: in_flight_rows_def)
  have out: "outcome_fits ''COMMITTED'' (rc_result c)" using c(4) by (simp add: outcome_fits_def)
  have db1: "db1 = db\<lparr>td_receipts := td_receipts db @ [?c]\<rparr>"
    using record_receipt_in_flight [OF a(1,2) c(1,2) _ out c(5), of x] crash c(3) by (auto simp: receipt_text_def)
  have rc: "receipt_of (ta_id t) db1 = Some ?c"
    using a(1) c(1) unfolding db1 by (intro receipt_appended) (simp_all add: attempt_in_flight_def)
  have trans: "transition_attempt ?y (ta_id t) ?ch db1 = Inr (db1\<lparr>td_attempts := ?attempts\<rparr>)"
    using a(1) c(3) out rc unfolding db1
    by (subst transition_in_flight) (auto simp: attempt_in_flight_def closing_change_def receipt_text_def)
  have look: "tbl_look ta_id (td_attempts db) (ta_id t) = Some t" using a(1) by (simp add: attempt_in_flight_def)
  have upd: "?attempts = tbl_upd ta_id (ta_id t) (\<lambda>_. ?t) (td_attempts db)"
    by (rule tbl_upd_const [OF txn_invD(3) [OF a(4)] look])
  have t': "tbl_look ta_id ?attempts (ta_id t) = Some ?t"
    using look by (subst tbl_look_upd [OF txn_invD(3) [OF a(4)]]) (auto simp: changed_attempt_def dest: tbl_look_key)
  have "\<not> open_in t ?t" by (simp add: open_in_def open_states_def changed_attempt_def closing_change_def)
  then have none: "open_list t (db1\<lparr>td_attempts := ?attempts\<rparr>) = []"
    using open_list_upd [OF a(4) lone, of "db1\<lparr>td_attempts := ?attempts\<rparr>"] upd by simp
  obtain new where "offer_addition e offer ''COMMITTED'' None (ta_id t) = Some new" using addition_succeeds [OF pass(2)] by blast
  moreover have "get_draft (ta_draft t) db1 = Some r" "get_receipt_by_attempt (ta_id t) db1 = Some ?c"
    using a rc by (auto simp: db1 get_draft_def get_receipt_by_attempt_def draft_in_flight_def attempt_in_flight_def)
  ultimately have "\<exists>s'. reconcile_attempt e exec t (start_pass db1 w) = (s', True)
      \<and> rn_db s' = db1\<lparr>td_attempts := ?attempts\<rparr> \<and> rn_world s' = w"
    using trans c(3) by (simp add: reconcile_attempt_def reproject_receipt_def start_pass_def pass(1) Let_def)
  moreover have "open_list t db1 = [t]" using lone by (simp add: db1)
  ultimately have "run_passes (e # es) exec db1 w = (db1\<lparr>td_attempts := ?attempts\<rparr>, w)"
    using idle_passes [OF none named] scopes by (auto simp: pass_on_lone [OF _ named])
  then show ?thesis
    using t' a(2,3) by (simp add: db1 grant_in_flight_def draft_in_flight_def changed_attempt_def closing_change_def)
qed

definition refund_receipt :: receipt_row where
  "refund_receipt = offer_receipt (pe_flow (sample_pass 4)) (pe_state (sample_pass 4))
     [(''kind'', PStr ''offer''), (''draft_id'', PStr ''d'')] (Some ''a'') (Some ''h'') ''SUCCESS'' [(''success'', PBool True)]"

lemma refund_receipt_facts:
  "rc_attempt refund_receipt = Some (ta_id inflight_attempt)" "receipt_scope refund_receipt = attempt_scope inflight_attempt"
  "rc_state refund_receipt = ''SUCCESS''" "succeeded (rc_result refund_receipt)"
  "rc_id refund_receipt \<notin> rc_id ` set (td_receipts inflight_store)"
  "open_list inflight_attempt inflight_store = [inflight_attempt]" "named inflight_attempt"
  "chosen_offer (sample_pass 5) inflight_attempt (Some inflight_draft) = Some []"
  "pass_scope_of (sample_pass 5) inflight_attempt" "pass_scope_of (sample_pass 6) inflight_attempt"
  "case record_receipt (sample_txn_env 4) refund_receipt inflight_store of Inl _ \<Rightarrow> False | Inr _ \<Rightarrow> True"
  by code_simp+

theorem receipt_recovery_strands_witness:
  "\<exists>db1 stored db'. record_receipt (sample_txn_env 4) refund_receipt inflight_store = Inr (db1, stored)
    \<and> run_passes [sample_pass 5, sample_pass 6] flaky db1 0 = (db', 0)
    \<and> map_option gr_state (tbl_look gr_id (td_grants db') (ta_grant inflight_attempt)) = Some RESERVED"
proof -
  obtain db1 stored where c: "record_receipt (sample_txn_env 4) refund_receipt inflight_store = Inr (db1, stored)"
    using refund_receipt_facts(11) by (auto split: sum.splits)
  show ?thesis
    using receipt_recovery_strands [OF inflight_rows refund_receipt_facts(6,7,1-5) c refund_receipt_facts(8), of "[sample_pass 6]" flaky 0]
      c refund_receipt_facts(9,10) by fastforce
qed

end
