(* ===== verification/Commit_Once.thy ===== *)
theory Commit_Once
  imports Op_Contract Txn_Recovery
begin

text \<open>
  The two services together: the reconciliation passes of the agent, over its own client and
  the signed requests it sends, against the HTTP boundary of the Business Service. Between two
  requests other clients may do what they like, and a request or its reply may be lost.
\<close>

section \<open>The connected services\<close>

datatype fate = Delivered | ReplyLost | RequestLost

text \<open>
  One request of the agent: what other clients sent before it (each with the clock, the date
  and the fresh id the server then has), the server's own clock, date and fresh id, the
  agent's clock and nonce, and what the network does.
\<close>

record turn =
  tn_before :: "(env \<times> http_request) list"
  tn_env :: env
  tn_time :: int
  tn_nonce :: string
  tn_fate :: fate

text \<open>The log has the answer the Business Service computed for each request that reached it.\<close>

record port_world =
  pw_db :: bizdb
  pw_nonces :: nonces
  pw_turns :: "turn list"
  pw_log :: "(biz_error + answer) list"

text \<open>Both configurations; the rest of a success body and the detail of an error are arguments.\<close>

record link =
  lk_server :: server
  lk_client :: client_env
  lk_actor :: actor_context
  lk_plugins :: "action_plugin list"
  lk_retries :: "string option"
  lk_encode :: "response \<Rightarrow> pydict"
  lk_detail :: "biz_error \<Rightarrow> pyval"

text \<open>The same deployment at another time: its SHA-256 does not change.\<close>

definition server_at :: "server \<Rightarrow> env \<Rightarrow> server" where
  "server_at srv e = srv\<lparr>srv_env := e\<lparr>env_sha := env_sha (srv_env srv)\<rparr>\<rparr>"

fun serve_others :: "server \<Rightarrow> (env \<times> http_request) list \<Rightarrow> bizdb \<times> nonces \<Rightarrow> bizdb \<times> nonces" where
  "serve_others srv [] st = st"
| "serve_others srv ((e, q) # qs) st = serve_others srv qs (snd (respond (server_at srv e) q st))"

definition turn_request :: "link \<Rightarrow> turn \<Rightarrow> call \<Rightarrow> http_request" where
  "turn_request l t c =
     \<lparr>hr_headers = client_headers ((lk_client l)\<lparr>ce_now := tn_time t, ce_nonce := tn_nonce t\<rparr>) (port_actor (lk_actor l)),
      hr_key = cl_key c, hr_route = Write (OperationCommand (cl_body c))\<rparr>"

definition reply_of :: "link \<Rightarrow> biz_error + answer \<Rightarrow> wire" where
  "reply_of l res = (case res of
     Inl err \<Rightarrow> Reply (int (http_status err)) (PDict [(''detail'', lk_detail l err)])
   | Inr (CommandAnswer r) \<Rightarrow> Reply 200 (PDict ((''success'', PBool True) # lk_encode l r))
   | Inr _ \<Rightarrow> Reply 200 (PDict []))"

definition business_send :: "link \<Rightarrow> call \<Rightarrow> nat \<Rightarrow> port_world \<Rightarrow> port_world \<times> wire" where
  "business_send l c i w =
    (case pw_turns w of
       [] \<Rightarrow> (w, NoReply)
     | t # ts \<Rightarrow>
        let (db, ns) = serve_others (lk_server l) (tn_before t) (pw_db w, pw_nonces w) in
        if tn_fate t = RequestLost then (w\<lparr>pw_db := db, pw_nonces := ns, pw_turns := ts\<rparr>, NoReply)
        else
          let (res, db', ns') = respond (server_at (lk_server l) (tn_env t)) (turn_request l t c) (db, ns) in
          (w\<lparr>pw_db := db', pw_nonces := ns', pw_turns := ts, pw_log := pw_log w @ [res]\<rparr>,
           if tn_fate t = ReplyLost then NoReply else reply_of l res))"

text \<open>The executor a reconciliation pass calls.\<close>

definition business_exec :: "link \<Rightarrow> port_world executor" where
  "business_exec l = execute_envelope (lk_plugins l)
     (\<lambda>w command key. client_request (lk_retries l) (business_send l) (execute_call command key) w)"

section \<open>What the server keeps\<close>

lemma biz_run_trans: "biz_run db1 db2 \<Longrightarrow> biz_run db db1 \<Longrightarrow> biz_run db db2"
  by (induction rule: biz_run.induct) (auto intro: biz_run.intros)

lemma biz_run_accounts: "biz_run db db' \<Longrightarrow> biz_inv db \<Longrightarrow> accounts db' = accounts db"
  by (induction rule: biz_run.induct) (auto dest!: serve_step intro: biz_run_inv simp: biz_step_def)

lemma respond_run: "respond srv q (db, ns) = (res, db', ns') \<Longrightarrow> biz_run db db'"
  by (auto simp: respond_def split: http_route.splits sum.splits prod.splits
      intro: biz_run.start biz_run.request [OF biz_run.start])

lemma serve_others_run: "serve_others srv qs (db, ns) = (db', ns') \<Longrightarrow> biz_run db db'"
proof (induction qs arbitrary: db ns)
  case Nil
  then show ?case by (auto intro: biz_run.start)
next
  case (Cons p qs)
  obtain e q where p: "p = (e, q)" by force
  obtain res db1 ns1 where r: "respond (server_at srv e) q (db, ns) = (res, db1, ns1)" by (metis prod_cases3)
  have "biz_run db1 db'" using Cons p r by simp
  then show ?case using respond_run [OF r] by (rule biz_run_trans)
qed

text \<open>A rejected signature is a 401, a server without a secret a 503.\<close>

definition turned_away :: "biz_error + answer \<Rightarrow> bool" where
  "turned_away res \<longleftrightarrow> (\<exists>m. res = Inl (HttpError 401 m))"

lemma current_actor_error:
  "current_actor hmac s now h db ns = (Inl err, ns') \<Longrightarrow> \<exists>m. err = HttpError 401 m \<or> err = HttpError 503 m"
  by (auto simp: current_actor_def verify_service_token_def verify_signature_def register_nonce_def transaction_def
      Let_def split: if_splits sum.splits prod.splits option.splits)

text \<open>The identity of an actor does not depend on when its requests are signed.\<close>

lemma current_actor_fixed:
  assumes "current_actor hmac s now (client_headers x b) db ns = (Inr a, ns1)"
    and "current_actor hmac s now' (client_headers (x\<lparr>ce_now := k, ce_nonce := m\<rparr>) b) db' ns2 = (Inr a', ns3)"
    and "accounts db' = accounts db"
  shows "a' = a"
proof -
  have same: "hd_user (client_headers (x\<lparr>ce_now := k, ce_nonce := m\<rparr>) b) = hd_user (client_headers x b)"
    "hd_request (client_headers (x\<lparr>ce_now := k, ce_nonce := m\<rparr>) b) = hd_request (client_headers x b)"
    "claimed_identity (client_headers (x\<lparr>ce_now := k, ce_nonce := m\<rparr>) b) u = claimed_identity (client_headers x b) u" for u
    by (simp_all add: client_headers_def Let_def claimed_identity_def)
  show ?thesis
    using assms by (auto simp: current_actor_def same Let_def split: sum.splits if_splits prod.splits option.splits)
qed

section \<open>Exactly once over the wire\<close>

text \<open>Every further arrival of the command is refused at the door or answered as a replay.\<close>

definition replays :: "link \<Rightarrow> call \<Rightarrow> bizdb \<Rightarrow> bool" where
  "replays l c db \<longleftrightarrow> (\<forall>t db1 ns res db2 ns'. biz_run db db1 \<longrightarrow>
     respond (server_at (lk_server l) (tn_env t)) (turn_request l t c) (db1, ns) = (res, db2, ns') \<longrightarrow>
     (\<exists>m. res = Inl (HttpError 401 m) \<or> res = Inl (HttpError 503 m))
     \<or> (\<exists>r. res = Inr (CommandAnswer r) \<and> resp_idempotent r))"

lemma replays_run: "replays l c db \<Longrightarrow> biz_run db db' \<Longrightarrow> replays l c db'"
  unfolding replays_def by (blast intro: biz_run_trans)

lemma respond_turn:
  assumes "respond (server_at (lk_server l) (tn_env t)) (turn_request l t c) (db, ns) = (res, db', ns')"
  obtains (door) m where "res = Inl (HttpError 401 m) \<or> res = Inl (HttpError 503 m)"
  | (served) a res0 where
      "current_actor (srv_hmac (lk_server l)) (srv_settings (lk_server l)) (env_now (tn_env t))
         (hr_headers (turn_request l t c)) db ns = (Inr a, ns')"
      "serve ((tn_env t)\<lparr>env_sha := env_sha (srv_env (lk_server l))\<rparr>) a (cl_key c) (OperationCommand (cl_body c)) db = (res0, db')"
      "res = answered CommandAnswer res0"
  using assms current_actor_error
  by (fastforce simp: respond_def turn_request_def server_at_def split: sum.splits prod.splits)

lemma first_success:
  assumes "respond (server_at (lk_server l) (tn_env t)) (turn_request l t c) (db, ns) = (Inr ans, db', ns')"
    and "biz_inv db" and "cl_key c = Some k" and "k \<noteq> []"
  shows "replays l c db'"
  unfolding replays_def
proof (intro allI impI)
  fix t2 db1 ns1 res db2 ns2
  assume run: "biz_run db' db1" and again: "respond (server_at (lk_server l) (tn_env t2)) (turn_request l t2 c) (db1, ns1) = (res, db2, ns2)"
  let ?e = "\<lambda>t. (tn_env t)\<lparr>env_sha := env_sha (srv_env (lk_server l))\<rparr>"
  obtain a r where a: "current_actor (srv_hmac (lk_server l)) (srv_settings (lk_server l)) (env_now (tn_env t))
      (hr_headers (turn_request l t c)) db ns = (Inr a, ns')"
    and s: "serve (?e t) a (Some k) (OperationCommand (cl_body c)) db = (Inr r, db')"
    using assms(1) by (rule respond_turn) (auto simp: answered_def assms(3) split: sum.splits)
  show "(\<exists>m. res = Inl (HttpError 401 m) \<or> res = Inl (HttpError 503 m)) \<or> (\<exists>r. res = Inr (CommandAnswer r) \<and> resp_idempotent r)"
    using again
  proof (cases rule: respond_turn)
    case (served a2 res0)
    have "accounts db1 = accounts db"
      using biz_run_accounts [OF biz_run_trans [OF run respond_run [OF assms(1)]] assms(2)] .
    then have "a2 = a"
      using current_actor_fixed [where x = "(lk_client l)\<lparr>ce_now := tn_time t, ce_nonce := tn_nonce t\<rparr>"
        and k = "tn_time t2" and m = "tn_nonce t2", OF a [unfolded turn_request_def http_request.select_convs]] served(1)
      by (simp add: turn_request_def)
    then have "res0 = Inr (replayed r)"
      using served_replays [OF assms(2,4) s run, of "?e t2"] served(2) assms(3) by simp
    then show ?thesis using served(3) by (simp add: answered_def replayed_def)
  qed blast
qed

text \<open>One call of the executor: nothing reaches the server, or one request does.\<close>

definition unanswered :: "exec_error + pydict \<Rightarrow> bool" where
  "unanswered answer \<longleftrightarrow> outcome (exec_result answer) = ''SUBMISSION_UNKNOWN'' \<and> plain_answer (exec_result answer)"

definition door_answer :: "link \<Rightarrow> biz_error + answer \<Rightarrow> exec_error + pydict" where
  "door_answer l res = (case reply_of l res of Reply status payload \<Rightarrow> read_reply False True status payload
     | NoReply \<Rightarrow> Inl (ServiceError 504 unknown_message))"

lemma no_number: "read_int ''INVALID_COMMAND_ENVELOPE'' = None"
  by (simp add: read_int_def read_nat_def is_digit_def printable_def)

lemma unanswered_simps [simp]:
  "unanswered (Inr (invalid_envelope m))" "unanswered (Inl (OtherError m))" "unanswered (Inl (ServiceError 504 m))"
  by (simp_all add: unanswered_def outcome_def invalid_envelope_def exec_result_def dget_def classify_business_failure_def
      plain_answer_def py_int_def no_number)

lemma door_success:
  "exec_result (door_answer l (Inr (CommandAnswer r))) = (''success'', PBool True) # lk_encode l r"
  by (simp add: door_answer_def reply_of_def read_reply_def exec_result_def)

lemma door_failure: "dget (exec_result (door_answer l (Inl err))) ''success'' \<in> {PBool False, PNone}"
  by (auto simp: door_answer_def reply_of_def read_reply_def exec_result_def Let_def)

lemma door_unavailable: "unanswered (door_answer l (Inl (HttpError 503 m)))"
  by (simp add: door_answer_def reply_of_def read_reply_def http_status_def gateway_failure_def)

lemma turn_answer:
  assumes "respond (server_at (lk_server l) (tn_env t)) (turn_request l t c) (db, ns) = (res, db', ns')"
  shows "(\<exists>err. res = Inl err) \<or> (\<exists>r. res = Inr (CommandAnswer r))"
  using assms by (cases rule: respond_turn) (auto simp: answered_def split: sum.splits)

lemma exec_loop:
  assumes "find_plugin (lk_plugins l) (text_of (dget env ''action_id'')) = Some p" and "envelope_fault p env = None" and "k \<noteq> []"
    and "text_of (dget env ''action_id'') \<in> set (map op_action (lk_plugins l))"
  shows "business_exec l w env k = (case business_send l (execute_call env k) 0 w of
      (w1, NoReply) \<Rightarrow> (w1, Inl (ServiceError 504 unknown_message))
    | (w1, Reply status payload) \<Rightarrow> (w1, read_reply False True status payload))"
proof -
  have "py_upper ''POST'' = ''POST''" by code_simp
  then have "\<not> retryable_read (execute_call env k)" "truthy_str (cl_key (execute_call env k))"
    using assms(3) by (simp_all add: retryable_read_def execute_call_def)
  then show ?thesis
    using assms by (simp add: business_exec_def execute_envelope_def Let_def client_request_def single_send)
qed

lemma exec_cases:
  assumes "business_exec l w env k = (w', answer)" and "k \<noteq> []"
  obtains (quiet) "unanswered answer" "pw_log w' = pw_log w" "biz_run (pw_db w) (pw_db w')"
  | (sent) t db ns res where "biz_run (pw_db w) db"
      "respond (server_at (lk_server l) (tn_env t)) (turn_request l t (execute_call env k)) (db, ns) = (res, pw_db w', pw_nonces w')"
      "pw_log w' = pw_log w @ [res]" "unanswered answer \<or> answer = door_answer l res"
proof -
  have unsent: thesis if "unanswered answer" "w' = w" using that quiet biz_run.start by simp
  let ?action = "text_of (dget env ''action_id'')"
  show thesis
  proof (cases "find_plugin (lk_plugins l) ?action")
    case None
    show ?thesis by (rule unsent) (use assms(1) None in \<open>auto simp: business_exec_def execute_envelope_def Let_def\<close>)
  next
    case (Some p)
    show ?thesis
    proof (cases "?action \<in> set (map op_action (lk_plugins l)) \<and> envelope_fault p env = None")
      case False
      show ?thesis
        by (rule unsent) (use assms(1) Some False in \<open>auto simp: business_exec_def execute_envelope_def Let_def
          split: option.splits plugin_fault.splits if_splits\<close>)
    next
      case True
      let ?c = "execute_call env k"
      have loop: "(w', answer) = (case business_send l ?c 0 w of
           (w1, NoReply) \<Rightarrow> (w1, Inl (ServiceError 504 unknown_message))
         | (w1, Reply status payload) \<Rightarrow> (w1, read_reply False True status payload))"
        using assms exec_loop [OF Some _ assms(2)] True by simp
      show ?thesis
      proof (cases "pw_turns w")
        case Nil
        show ?thesis by (rule unsent) (use loop Nil in \<open>simp_all add: business_send_def\<close>)
      next
        case (Cons t ts)
        obtain db ns where others: "serve_others (lk_server l) (tn_before t) (pw_db w, pw_nonces w) = (db, ns)" by fastforce
        have run: "biz_run (pw_db w) db" using others by (rule serve_others_run)
        show ?thesis
        proof (cases "tn_fate t = RequestLost")
          case True
          show ?thesis by (rule quiet) (use loop run True in \<open>simp_all add: business_send_def Cons others\<close>)
        next
          case False
          obtain res db' ns' where r: "respond (server_at (lk_server l) (tn_env t)) (turn_request l t ?c) (db, ns) = (res, db', ns')"
            by (metis prod_cases3)
          have "w' = w\<lparr>pw_db := db', pw_nonces := ns', pw_turns := ts, pw_log := pw_log w @ [res]\<rparr>
              \<and> (unanswered answer \<or> answer = door_answer l res)"
            using loop False turn_answer [OF r]
            by (cases "tn_fate t = ReplyLost") (auto simp: business_send_def Cons others r reply_of_def door_answer_def)
          then show ?thesis by (intro sent [OF run, of t ns res]) (simp_all add: r)
        qed
      qed
    qed
  qed
qed

definition fresh_success :: "biz_error + answer \<Rightarrow> bool" where
  "fresh_success res = (case res of Inr (CommandAnswer r) \<Rightarrow> \<not> resp_idempotent r | _ \<Rightarrow> False)"

definition success_in :: "(biz_error + answer) list \<Rightarrow> bool" where
  "success_in rs \<longleftrightarrow> (\<exists>r. Inr (CommandAnswer r) \<in> set rs)"

definition once :: "link \<Rightarrow> call \<Rightarrow> port_world \<Rightarrow> bool" where
  "once l c w \<longleftrightarrow> biz_inv (pw_db w) \<and> length (filter fresh_success (pw_log w)) \<le> 1
     \<and> (success_in (pw_log w) \<longrightarrow> replays l c (pw_db w))"

lemma fresh_is_success: "fresh_success res \<Longrightarrow> \<exists>r. res = Inr (CommandAnswer r) \<and> \<not> resp_idempotent r"
  by (auto simp: fresh_success_def split: sum.splits answer.splits)

lemma no_success: "\<not> success_in rs \<Longrightarrow> filter fresh_success rs = []"
  by (auto simp: success_in_def filter_empty_conv dest!: fresh_is_success)

lemma success_in_snoc: "success_in (rs @ [res]) \<longleftrightarrow> success_in rs \<or> (\<exists>r. res = Inr (CommandAnswer r))"
  by (auto simp: success_in_def)

lemma exec_once:
  assumes "once l (execute_call env k) w" and "k \<noteq> []" and "business_exec l w env k = (w', answer)"
  shows "once l (execute_call env k) w'"
  using assms(3,2)
proof (cases rule: exec_cases)
  case quiet
  then show ?thesis
    using assms(1) biz_run_inv [OF quiet(3)] by (auto simp: once_def intro: replays_run)
next
  case (sent t db ns res)
  have inv: "biz_inv db" "biz_inv (pw_db w')"
    using assms(1) biz_run_inv [OF sent(1)] biz_run_inv [OF respond_run [OF sent(2)]] by (auto simp: once_def)
  show ?thesis
  proof (cases "success_in (pw_log w)")
    case True
    then have r: "replays l (execute_call env k) (pw_db w)" using assms(1) by (simp add: once_def)
    then have "\<not> fresh_success res"
      using sent(1,2) fresh_is_success [of res] unfolding replays_def by fastforce
    then show ?thesis
      using assms(1) inv(2) sent(3) replays_run [OF replays_run [OF r sent(1)] respond_run [OF sent(2)]]
      by (simp add: once_def)
  next
    case False
    have "replays l (execute_call env k) (pw_db w')" if "res = Inr (CommandAnswer r)" for r
      using first_success [OF sent(2) [unfolded that] inv(1) _ assms(2)] by (simp add: execute_call_def)
    then show ?thesis
      using False inv(2) sent(3) no_success [OF False] by (auto simp: once_def success_in_snoc)
  qed
qed

lemma exec_plain:
  assumes "business_exec l w env k = (w', answer)" and "k \<noteq> []"
  shows "plain_answer (exec_result answer)"
  using assms
proof (cases rule: exec_cases)
  case quiet
  then show ?thesis by (simp add: unanswered_def)
next
  case (sent t db ns res)
  have "plain_answer (exec_result (door_answer l res))"
    using turn_answer [OF sent(2)]
  proof (elim disjE exE)
    fix err assume "res = Inl err"
    then show ?thesis using door_failure [of l err] by (auto simp: plain_answer_def)
  next
    fix r assume "res = Inr (CommandAnswer r)"
    then show ?thesis by (simp add: plain_answer_def succeeded_def door_success)
  qed
  then show ?thesis using sent(4) by (auto simp: unanswered_def)
qed

lemma exec_definite:
  assumes "once l (execute_call env k) w" and "k \<noteq> []" and "business_exec l w env k = (w', answer)"
    and "outcome (exec_result answer) \<noteq> ''SUBMISSION_UNKNOWN''" and "\<forall>res\<in>set (pw_log w'). \<not> turned_away res"
  shows "outcome (exec_result answer) = ''COMMITTED'' \<longleftrightarrow> success_in (pw_log w')"
  using assms(3,2)
proof (cases rule: exec_cases)
  case quiet
  then show ?thesis using assms(4) by (simp add: unanswered_def)
next
  case (sent t db ns res)
  then have a: "answer = door_answer l res" using assms(4) by (auto simp: unanswered_def)
  show ?thesis
  proof (cases "\<exists>r. res = Inr (CommandAnswer r)")
    case True
    then show ?thesis
      unfolding outcome_committed using a sent(3) by (auto simp: door_success success_in_snoc)
  next
    case False
    then obtain err where err: "res = Inl err" using turn_answer [OF sent(2)] by blast
    have "\<not> success_in (pw_log w)"
    proof
      assume "success_in (pw_log w)"
      then have "replays l (execute_call env k) (pw_db w)" using assms(1) by (simp add: once_def)
      then consider m where "res = Inl (HttpError 401 m)" | m where "res = Inl (HttpError 503 m)"
        using sent(1,2) False unfolding replays_def by metis
      then show False
        by cases (use assms(4,5) sent(3) a door_unavailable in \<open>auto simp: turned_away_def unanswered_def\<close>)
    qed
    then show ?thesis
      unfolding outcome_committed using door_failure [of l err] err sent(3) a
      by (auto simp: success_in_snoc)
  qed
qed

lemma iterated_once:
  assumes "once l (execute_call env k) w" and "k \<noteq> []"
  shows "once l (execute_call env k) (((\<lambda>v. fst (business_exec l v env k)) ^^ n) w)"
proof (induction n)
  case (Suc n)
  show ?case using exec_once [OF Suc assms(2)] by (simp add: prod_eq_iff)
qed (use assms in simp)

lemma once_start: "biz_inv (pw_db w) \<Longrightarrow> pw_log w = [] \<Longrightarrow> once l c w"
  by (simp add: once_def success_in_def)


section \<open>A refund whose reply is lost\<close>

definition sample_link :: link where
  "sample_link = \<lparr>lk_server = \<lparr>srv_hmac = (\<lambda>k t. k @ t), srv_settings = sample_settings, srv_env = sample_env\<rparr>,
     lk_client = sample_client, lk_actor = sample_context, lk_plugins = default_order_operations, lk_retries = None,
     lk_encode = (\<lambda>_. []), lk_detail = (\<lambda>err. case err of HttpError _ m \<Rightarrow> PStr m | _ \<Rightarrow> PNone)\<rparr>"

definition sample_turn :: "fate \<Rightarrow> turn" where
  "sample_turn f = \<lparr>tn_before = [], tn_env = sample_env, tn_time = 90, tn_nonce = ''n'', tn_fate = f\<rparr>"

text \<open>The second request comes with a clock that lags behind.\<close>

definition late_turn :: turn where
  "late_turn = \<lparr>tn_before = [], tn_env = later_env, tn_time = 100, tn_nonce = ''m'', tn_fate = Delivered\<rparr>"

definition sample_world :: "turn list \<Rightarrow> port_world" where
  "sample_world ts = \<lparr>pw_db = sample_db, pw_nonces = [], pw_turns = ts, pw_log = []\<rparr>"

lemma sample_command_valid: "valid_command_envelope sample_command"
  by (simp add: valid_command_envelope_def sample_command_def command_contract_def str_between_def py_len_def)

lemma sample_command_normal:
  "normalize_operation_command sample_command = Inr \<lparr>oc_command_id = Some ''cmd_00000001'', oc_action = ''create_refund'',
     oc_operation = ''APPLY_REFUND'', oc_rtype = ''order'', oc_rid = ''o1'',
     oc_input = [(''reason'', PStr ''it broke''), (''expected_version'', PInt 1), (''subject_user_id'', PStr ''u1'')],
     oc_actor = [(''actor_user_id'', PStr ''u1''), (''actor_role'', PStr ''customer''), (''tenant_id'', PStr ''t1'')],
     oc_subject = [(''subject_user_id'', PStr ''u1''), (''tenant_id'', PStr ''t1'')],
     oc_resource = [(''resource_type'', PStr ''order''), (''resource_id'', PStr ''o1''), (''expected_version'', PInt 1),
       (''subject_user_id'', PStr ''u1'')]\<rparr>"
proof -
  have "py_strip ''o1'' = ''o1''" "py_strip ''cmd_00000001'' = ''cmd_00000001''" by (simp_all add: printable_def)
  then show ?thesis
    by (simp add: normalize_operation_command_def sample_command_def command_contract_def Let_def scope_ok_def scope_dict_def
        operation_texts operation_uppers)
qed

lemma sample_command_runs:
  "\<exists>db' r. serve sample_env customer (Some ''k'') (OperationCommand sample_command) sample_db = (Inr r, db')"
proof -
  have texts: "py_strip ''u1'' = ''u1''" "py_strip ''t1'' = ''t1''" "py_strip ''customer'' = ''customer''" "py_strip ''o1'' = ''o1''"
    by (simp_all add: printable_def)
  have "assertions_agree \<lparr>oc_command_id = Some ''cmd_00000001'', oc_action = ''create_refund'',
     oc_operation = ''APPLY_REFUND'', oc_rtype = ''order'', oc_rid = ''o1'',
     oc_input = [(''reason'', PStr ''it broke''), (''expected_version'', PInt 1), (''subject_user_id'', PStr ''u1'')],
     oc_actor = [(''actor_user_id'', PStr ''u1''), (''actor_role'', PStr ''customer''), (''tenant_id'', PStr ''t1'')],
     oc_subject = [(''subject_user_id'', PStr ''u1''), (''tenant_id'', PStr ''t1'')],
     oc_resource = [(''resource_type'', PStr ''order''), (''resource_id'', PStr ''o1''), (''expected_version'', PInt 1),
       (''subject_user_id'', PStr ''u1'')]\<rparr> (act_user customer) (act_tenant customer) (Some (act_role customer))"
    by (simp add: assertions_agree_def stripped_or_def py_or_def customer_def texts operation_texts)
  then show ?thesis
    unfolding serve_def handle.simps validated_def using sample_command_valid sample_command_normal
    by (simp add: execute_operation_command_def verify_actor_scope_Inr_iff [symmetric] dispatch_operation_command_def
        operation_handlers_def run_operation_handler_def required_expected_version_def command_application_def
        command_subject_def biz_eval)
qed

lemma sample_plugin:
  "find_plugin (lk_plugins sample_link) (text_of (dget sample_command ''action_id'')) = Some refund_plugin"
  "envelope_fault refund_plugin sample_command = None"
  "text_of (dget sample_command ''action_id'') \<in> set (map op_action (lk_plugins sample_link))"
proof -
  have "py_strip ''o1'' = ''o1''" by (simp add: printable_def)
  then show "find_plugin (lk_plugins sample_link) (text_of (dget sample_command ''action_id'')) = Some refund_plugin"
    "envelope_fault refund_plugin sample_command = None"
    "text_of (dget sample_command ''action_id'') \<in> set (map op_action (lk_plugins sample_link))"
    by (simp_all add: sample_link_def sample_command_def find_plugin_def default_order_operations_def operation_texts
        cancel_plugin_def after_sales_plugin_def refund_plugin_def order_operation_def envelope_fault_def
        command_contract_text_def target_id_def Let_def)
qed

lemma sample_door:
  "\<exists>r db' ns'. respond (server_at (lk_server sample_link) sample_env)
     (turn_request sample_link (sample_turn f) (execute_call sample_command ''k'')) (sample_db, []) = (Inr (CommandAnswer r), db', ns')"
proof -
  let ?acc = "hd (accounts sample_db)"
  have acc: "sql_first (\<lambda>r. acc_user r = ''u1'') (accounts sample_db) = Some ?acc" "acc_role ?acc = ''customer''"
    "acc_tenant ?acc = ''t1''" "acc_permissions ?acc = Some []"
    by (simp_all add: sample_defs sql_first_def)
  have same: "sample_client\<lparr>ce_now := 90, ce_nonce := ''n''\<rparr> = sample_client" by (simp add: sample_client_def)
  have "fst (current_actor (\<lambda>k t. k @ t) sample_settings 100 (client_headers sample_client (port_actor sample_context)) sample_db [])
      = Inr customer"
    using headers_verified [OF sample_signing sample_context_plain(1), of sample_db ?acc "[]"] acc
    by (simp add: sample_context_def customer_def sample_client_def)
  then obtain ns' where a: "current_actor (\<lambda>k t. k @ t) sample_settings 100
      (client_headers sample_client (port_actor sample_context)) sample_db [] = (Inr customer, ns')"
    by (metis prod.collapse)
  obtain db' r where s: "serve sample_env customer (Some ''k'') (OperationCommand sample_command) sample_db = (Inr r, db')"
    using sample_command_runs by blast
  have "sample_env\<lparr>env_sha := env_sha sample_env\<rparr> = sample_env" "env_now sample_env = 100" by (simp_all add: sample_env_def)
  then show ?thesis
    using a s by (simp add: respond_def server_at_def turn_request_def sample_link_def sample_turn_def same execute_call_def answered_def)
qed

lemma late_door:
  "respond (server_at (lk_server sample_link) later_env) (turn_request sample_link late_turn c) (db, ns)
     = (Inl (HttpError 401 ''actor signature expired''), db, ns)"
proof -
  let ?x = "sample_client\<lparr>ce_now := 100, ce_nonce := ''m''\<rparr>"
  have k: "ce_secret ?x = Some ''k''" "ax_user sample_context = ''u1''" "py_strip ''u1'' = ''u1''"
    by (simp_all add: sample_client_def sample_context_def printable_def)
  have "current_actor (\<lambda>k t. k @ t) sample_settings 200 (client_headers ?x (port_actor sample_context)) db ns
      = (Inl (HttpError 401 ''actor signature expired''), ns)"
    using client_headers_signed [OF k(1), of sample_context] k
    by (simp add: current_actor_def verify_service_token_def verify_signature_def read_int_written Let_def sample_settings_def
        sample_client_def)
  then show ?thesis
    by (simp add: respond_def server_at_def turn_request_def sample_link_def late_turn_def later_env_def)
qed

definition port_store :: txn_db where
  "port_store = txn_apply (sample_txn_env 3) (ReserveGrant (sample_attempt_request\<lparr>ar_envelope := Some sample_command\<rparr>)) open_store"

definition port_attempt :: attempt_row where "port_attempt = hd (td_attempts port_store)"
definition port_grant :: grant_row where "port_grant = hd (td_grants port_store)"
definition port_draft :: draft_row where "port_draft = hd (td_drafts port_store)"

lemma port_rows: "in_flight_rows port_store port_attempt port_grant port_draft"
  unfolding in_flight_rows_def
proof (intro conjI)
  show "txn_inv port_store"
    unfolding port_store_def by (rule txn_step_inv [OF txn_apply_step [OF open_store_inv] open_store_inv])
qed code_simp+

lemma port_waiting: "waiting [sample_pass 4, sample_pass 5] port_attempt port_grant port_draft port_store"
  unfolding waiting_def by (intro conjI port_rows) code_simp+

lemma port_command: "attempt_envelope port_attempt (Some port_draft) = sample_command" "ta_key port_attempt = ''k''"
  by code_simp+

lemma sample_first:
  assumes "f \<noteq> RequestLost"
  shows "\<exists>w1 r. business_exec sample_link (sample_world (sample_turn f # ts)) sample_command ''k''
      = (w1, if f = ReplyLost then Inl (ServiceError 504 unknown_message) else Inr [(''success'', PBool True)])
    \<and> pw_turns w1 = ts \<and> pw_log w1 = [Inr (CommandAnswer r)]"
proof -
  obtain r db' ns' where "respond (server_at (lk_server sample_link) sample_env)
     (turn_request sample_link (sample_turn f) (execute_call sample_command ''k'')) (sample_db, []) = (Inr (CommandAnswer r), db', ns')"
    using sample_door by blast
  moreover have "lk_encode sample_link r = []" by (simp add: sample_link_def)
  ultimately show ?thesis
    using assms exec_loop [OF sample_plugin(1,2) _ sample_plugin(3), of "''k''" "sample_world (sample_turn f # ts)"]
    by (intro exI [of _ "\<lparr>pw_db = db', pw_nonces = ns', pw_turns = ts, pw_log = [Inr (CommandAnswer r)]\<rparr>"] exI [of _ r])
      (simp_all add: business_send_def sample_world_def sample_turn_def reply_of_def read_reply_def)
qed


text \<open>
  C34. A refused retry is taken for the outcome of the command. When the reply to an executed
  command was lost and the next request of the same command is turned away with 401 - the
  clock lags, the secret was rotated - the pass closes the attempt as finally failed and
  revokes the grant, although the Business Service has executed the command; no later pass
  looks at it again.
\<close>

theorem refused_retry_misreported:
  fixes l :: link
  defines "exec \<equiv> business_exec l"
  assumes waiting: "waiting (e1 # e2 # es) t g r db" and key: "ta_key t \<noteq> []"
    and first: "exec w (attempt_envelope t (Some r)) (ta_key t) = (w1, a1)"
      "outcome (exec_result a1) = ''SUBMISSION_UNKNOWN''" "success_in (pw_log w1)"
    and second: "exec w1 (attempt_envelope t (Some r)) (ta_key t) = (w2, a2)"
      "outcome (exec_result a2) \<noteq> ''SUBMISSION_UNKNOWN''" "pw_log w2 = pw_log w1 @ [Inl (HttpError 401 m)]"
    and final: "(db', w') = run_passes (e1 # e2 # es) exec db w"
  shows "closed_together db' t ''FAILED_FINAL'' (exec_result a2) \<and> w' = w2 \<and> success_in (pw_log w')"
proof -
  obtain db1 t1 r1 where o: "run_passes (e1 # e2 # es) exec db w = run_passes (e2 # es) exec db1 w1"
    "waiting (e2 # es) t1 g r1 db1" "same_attempt_core t t1" "same_draft_core r r1"
    using open_pass [of e1 "e2 # es" t g r db exec w w1 a1] waiting first(1,2) by blast
  have core: "attempt_envelope t1 (Some r1) = attempt_envelope t (Some r)" "ta_key t1 = ta_key t"
    using pass_core [OF o(3,4)] by simp_all
  have "a2 = door_answer l (Inl (HttpError 401 m))"
    using second(1) [unfolded exec_def] key
    by (cases rule: exec_cases) (use second(2,3) in \<open>auto simp: unanswered_def\<close>)
  then have "dget (exec_result a2) ''success'' = PBool False" "dget (exec_result a2) ''code'' = PInt 401"
    by (simp_all add: door_answer_def reply_of_def read_reply_def http_status_def gateway_failure_def exec_result_def Let_def dget_def)
  then have failed: "outcome (exec_result a2) = ''FAILED_FINAL''" "plain_answer (exec_result a2)"
    using second(2) by (simp_all add: outcome_def classify_business_failure_def Let_def plain_answer_def split: if_splits)
  have "closed_together db' t1 ''FAILED_FINAL'' (exec_result a2) \<and> w' = w2"
    using closing_pass [OF o(2), of exec w1, unfolded core, OF second(1,2) failed(2)] final unfolding o(1) failed(1)
    by (metis fst_conv snd_conv)
  then show ?thesis using first(3) second(3) pass_core [OF o(3,4)] by (auto simp: success_in_def)
qed

theorem refused_retry_misreported_witness:
  "\<exists>db' w' result. (db', w') = run_passes [sample_pass 4, sample_pass 5] (business_exec sample_link) port_store
       (sample_world [sample_turn ReplyLost, late_turn])
     \<and> closed_together db' port_attempt ''FAILED_FINAL'' result \<and> success_in (pw_log w')"
proof -
  let ?w = "sample_world [sample_turn ReplyLost, late_turn]" and ?expired = "Inl (HttpError 401 ''actor signature expired'')"
  obtain w1 r where e: "business_exec sample_link ?w sample_command ''k'' = (w1, Inl (ServiceError 504 unknown_message))"
    "pw_log w1 = [Inr (CommandAnswer r)]" "pw_turns w1 = [late_turn]"
    using sample_first [of ReplyLost "[late_turn]", simplified] by blast
  define w2 where "w2 = w1\<lparr>pw_turns := [], pw_log := pw_log w1 @ [?expired]\<rparr>"
  have detail: "lk_detail sample_link (HttpError n m) = PStr m" for n m by (simp add: sample_link_def)
  have late: "tn_env late_turn = later_env" "tn_before late_turn = []" "tn_fate late_turn = Delivered" by (simp_all add: late_turn_def)
  have e2: "business_exec sample_link w1 sample_command ''k'' = (w2, Inl (ServiceError 401 ''actor signature expired''))"
    using exec_loop [OF sample_plugin(1,2) _ sample_plugin(3), of "''k''" w1]
    by (simp add: business_send_def e(3) late late_door w2_def reply_of_def read_reply_def http_status_def gateway_failure_def
        detail py_or_def Let_def)
  have out: "outcome (exec_result (Inl (ServiceError 504 unknown_message))) = ''SUBMISSION_UNKNOWN''"
    "outcome (exec_result (Inl (ServiceError 401 ''actor signature expired''))) \<noteq> ''SUBMISSION_UNKNOWN''"
    by code_simp+
  obtain db' w' where run: "(db', w') = run_passes [sample_pass 4, sample_pass 5] (business_exec sample_link) port_store ?w"
    by (metis prod.collapse)
  have "success_in (pw_log w1)" "pw_log w2 = pw_log w1 @ [?expired]" by (simp_all add: e(2) success_in_def w2_def)
  then show ?thesis
    using refused_retry_misreported [OF port_waiting _ _ out(1) _ _ out(2) _ run, unfolded port_command, OF _ e(1) _ e2] run
    by (metis list.distinct(1))
qed

section \<open>A command that cannot be sent\<close>

definition undeliverable :: "action_plugin list \<Rightarrow> pydict \<Rightarrow> bool" where
  "undeliverable ps env \<longleftrightarrow> (case find_plugin ps (text_of (dget env ''action_id'')) of
     None \<Rightarrow> True
   | Some p \<Rightarrow> (\<exists>m. envelope_fault p env = Some (PluginValueError m)))"

lemma undeliverable_unsent:
  assumes "undeliverable (lk_plugins l) env"
  shows "\<exists>answer. business_exec l w env k = (w, answer) \<and> unanswered answer"
  using assms by (auto simp: undeliverable_def business_exec_def execute_envelope_def Let_def split: option.splits)

text \<open>
  A command that was never sent is treated as one whose outcome is unknown. When no
  enabled plugin executes the action of a recorded command any more, or the plugin rejects the
  envelope, no pass sends anything, and the attempt stays open with its grant reserved for ever
  - the code of the rejection is no number, which is classified like a lost reply.
\<close>

theorem undeliverable_stays_open:
  fixes l :: link
  assumes "waiting es t g r db" and "undeliverable (lk_plugins l) (attempt_envelope t (Some r))"
  shows "\<exists>db' t' r'. run_passes es (business_exec l) db w = (db', w) \<and> in_flight_rows db' t' g r'
    \<and> same_attempt_core t t'"
proof -
  let ?exec = "business_exec l" and ?env = "attempt_envelope t (Some r)"
  have still: "fst (?exec v ?env (ta_key t)) = v" "outcome (exec_result (snd (?exec v ?env (ta_key t)))) = ''SUBMISSION_UNKNOWN''" for v
    using undeliverable_unsent [OF assms(2), of v "ta_key t"] by (auto simp: unanswered_def)
  have "outcome (nth_answer ?exec ?env (ta_key t) n w) = ''SUBMISSION_UNKNOWN''" for n
    by (induction n) (simp_all add: still)
  moreover have "((\<lambda>v. fst (?exec v ?env (ta_key t))) ^^ n) w = w" for n
    by (induction n) (simp_all add: still)
  ultimately obtain db' t' r' where "run_passes (take (length es) es @ []) ?exec db w = run_passes [] ?exec db' w"
    "waiting (drop (length es) es) t' g r' db'" "same_attempt_core t t'"
    using passes_open [OF assms(1) le_refl, of ?exec w] by metis
  then show ?thesis by (auto simp: waiting_def)
qed

theorem undeliverable_stays_open_witness:
  "\<exists>db' t' r'. run_passes [sample_pass 4, sample_pass 5] (business_exec (sample_link\<lparr>lk_plugins := []\<rparr>)) port_store
     (sample_world []) = (db', sample_world []) \<and> in_flight_rows db' t' port_grant r'"
proof -
  have "undeliverable (lk_plugins (sample_link\<lparr>lk_plugins := []\<rparr>)) (attempt_envelope port_attempt (Some port_draft))"
    by (simp add: undeliverable_def find_plugin_def)
  from undeliverable_stays_open [OF port_waiting this, of "sample_world []"] show ?thesis by blast
qed

end
