(* ===== verification/Txn_Commit.thy ===== *)
theory Txn_Commit
  imports Agent_Client
begin

text \<open>
  \<open>transaction/commit_runtime.py\<close> with what it uses of \<open>gateway_runtime.py\<close> and
  \<open>interaction.py\<close>: the node that submits an authorised draft. The business port is an argument,
  over an arbitrary world. A node answers with the patch of the graph state, a dict; messages to
  the customer, traces and runtime outcomes are presentation and left out of it. \<open>None\<close> is an
  exception; what the node wrote before stays written.
\<close>

section \<open>The surroundings of a node\<close>

record 'w business_port =
  bp_read :: "'w \<Rightarrow> actor_context \<Rightarrow> string \<Rightarrow> string \<Rightarrow> 'w \<times> (exec_error + pydict)"
  bp_preview :: "'w \<Rightarrow> actor_context \<Rightarrow> string \<Rightarrow> string \<Rightarrow> string \<Rightarrow> pydict \<Rightarrow> 'w \<times> (exec_error + pydict)"
  bp_execute :: "'w executor"

record node_env =
  ne_flow :: flow_env
  ne_plugins :: "action_plugin list"

abbreviation ne_sha :: "node_env \<Rightarrow> string \<Rightarrow> string" where "ne_sha e \<equiv> fe_sha (ne_flow e)"
abbreviation ne_now :: "node_env \<Rightarrow> int" where "ne_now e \<equiv> te_now (fe_txn (ne_flow e))"

type_synonym 'w node_answer = "txn_db \<times> 'w \<times> pydict option"

definition turn_of :: "pydict \<Rightarrow> int option" where
  "turn_of state = int_or (dget state ''turn_index'') 0"

text \<open>Texts that end up in results, given by their UTF-8 bytes.\<close>

definition text_operation_failed :: string where
  "text_operation_failed = utf8 [228, 184, 154, 229, 138, 161, 233, 162, 132, 230, 163, 128, 229, 164, 177, 232, 180, 165]"

definition text_preflight_exception :: string where
  "text_preflight_exception = utf8 [233, 162, 132, 230, 163, 128, 229, 188, 130, 229, 184, 184, 239, 188, 154]"

definition text_state_changed :: string where
  "text_state_changed = utf8 [228, 184, 154, 229, 138, 161, 231, 138, 182, 230, 128, 129, 229, 183, 178, 229, 143, 152, 229, 140,
     150, 239, 188, 140, 230, 151, 160, 230, 179, 149, 230, 143, 144, 228, 186, 164, 227, 128, 130]"

definition text_commit_exception :: string where
  "text_commit_exception = utf8 [228, 184, 154, 229, 138, 161, 230, 143, 144, 228, 186, 164, 229, 188, 130, 229, 184, 184, 239, 188,
     154]"

definition text_commit_failed :: string where
  "text_commit_failed = utf8 [228, 184, 154, 229, 138, 161, 230, 143, 144, 228, 186, 164, 229, 183, 178, 229, 164, 177, 232, 180,
     165, 227, 128, 130]"

definition text_commit_pending :: string where
  "text_commit_pending = utf8 [230, 143, 144, 228, 186, 164, 231, 187, 147, 230, 158, 156, 230, 173, 163, 229, 156, 168, 231, 161,
     174, 232, 174, 164, 228, 184, 173, 239, 188, 140, 232, 175, 183, 229, 139, 191, 233, 135, 141, 229, 164,
     141, 230, 147, 141, 228, 189, 156, 227, 128, 130]"

section \<open>The preflight\<close>

definition internal_input_keys :: "string list" where
  "internal_input_keys = [''action_span'', ''action_turn'', ''expected_version'']"

definition business_input_values :: "pydict \<Rightarrow> pydict option" where
  "business_input_values offer =
     map_option (filter (\<lambda>(k, v). k \<notin> set internal_input_keys)) (dict_or_empty (dget offer ''input_values''))"

text \<open>The artifact of a fresh read; whatever fails here is passed over.\<close>

definition fresh_read :: "node_env \<Rightarrow> pydict \<Rightarrow> pydict \<Rightarrow> exec_error + pydict \<Rightarrow> pydict list" where
  "fresh_read e state target current =
    (case current of
       Inl _ \<Rightarrow> []
     | Inr answer \<Rightarrow>
        (case (truthy (dget answer ''success''), as_pydict (dget answer ''data''), turn_of state) of
           (True, Some row, Some turn) \<Rightarrow>
             (case int_or (dget row ''version'') 1 of
                None \<Rightarrow> []
              | Some version \<Rightarrow>
                 let rtype = text_of (dget target ''resource_type''); rid = text_of (dget target ''resource_id'') in
                 [artifact_entry (ne_now e) (fe_fresh (ne_flow e) ''fresh_read'') rtype rid
                    (text_or (dget target ''label'') (text_or (dget target ''resource_type'') ''resource'' @ '':'' @ rid))
                    row (scope_for_state state) turn ''action_gateway_fresh_read'' (Some version)
                    (none_if_empty (text_of (dget target ''handle'')))])
         | _ \<Rightarrow> []))"

definition preflight_answer :: "exec_error + pydict \<Rightarrow> string + pydict" where
  "preflight_answer answer =
    (case answer of
       Inl (ServiceError _ m) \<Rightarrow> Inl m
     | Inl (OtherError t) \<Rightarrow> Inl (text_preflight_exception @ t)
     | Inr payload \<Rightarrow>
        (case (truthy (dget payload ''success''), as_pydict (dget payload ''data'')) of
           (True, Some d) \<Rightarrow> Inr d
         | _ \<Rightarrow> Inl (text_or (dget payload ''error'') text_operation_failed)))"

text \<open>The error of a failed preflight or the preview, and the artifacts read on the way.\<close>

definition refresh_offer_preflight ::
  "node_env \<Rightarrow> 'w business_port \<Rightarrow> pydict \<Rightarrow> pydict \<Rightarrow> pydict \<Rightarrow> 'w \<Rightarrow> 'w \<times> (string + pydict) \<times> pydict list" where
  "refresh_offer_preflight e port state offer target w =
    (let actor = actor_context_from_state state;
         rtype = text_of (dget target ''resource_type''); rid = text_of (dget target ''resource_id'');
         (w1, current) = bp_read port w actor rtype rid;
         additions = fresh_read e state target current in
     case business_input_values offer of
       None \<Rightarrow> (w1, Inl text_preflight_exception, additions)
     | Some inputs \<Rightarrow>
        let (w2, answer) = bp_preview port w1 actor rtype rid (text_of (dget offer ''operation'')) inputs in
        (w2, preflight_answer answer, additions))"

section \<open>Back to the card\<close>

definition target_locator :: "pydict \<Rightarrow> pydict \<Rightarrow> pydict" where
  "target_locator state target =
    (let text = (\<lambda>k. PStr (text_of (dget target k))) in
     [(''handle'', text ''handle''), (''resource_type'', text ''resource_type''), (''resource_id'', text ''resource_id''),
      (''label'', text ''label''), (''scope'', py_or (dget target ''scope'') (PDict (scope_for_state state)))])"

definition awaiting_offer :: "node_env \<Rightarrow> pydict \<Rightarrow> pydict \<Rightarrow> pyval list \<Rightarrow> pydict option" where
  "awaiting_offer e state offer ledger = do {
     let find = (\<lambda>h kind. find_handle (ne_sha e) (ne_now e) ledger h (scope_for_state state) [kind] [] False);
     prior \<leftarrow> find (text_of (dget offer ''handle'')) ''offer'';
     moved \<leftarrow> transition_draft (ne_sha e) offer ''AWAITING_AUTHORIZATION'' None prior;
     turn \<leftarrow> turn_of state;
     version \<leftarrow> int_or (dget offer ''confirmation_version'') 0;
     let next_offer = dset ''updated_turn'' (PInt turn) (dset ''confirmation_version'' (PInt (version + 1))
       (dset ''confirmation_id'' (PStr (fe_fresh (ne_flow e) ''confirmation''))
        (dset ''authority_revision'' (PInt turn) (dset ''authority_requirement'' (PStr ''ui_action_authority'')
         (dset ''authority_protocol'' (PStr ''ui_action_authority@1'') moved)))));
     (case as_pydict (dget offer ''target_reference'') of
        Some reference \<Rightarrow> Some (dset ''target_reference'' (PDict reference) next_offer)
      | None \<Rightarrow> map_option (\<lambda>found. case found of
            None \<Rightarrow> next_offer
          | Some target \<Rightarrow> dset ''target_reference'' (PDict (target_locator state target)) next_offer)
          (find (text_of (dget offer ''target_handle'')) ''artifact'')) }"

definition mark_offer_awaiting_authority ::
  "node_env \<Rightarrow> pydict \<Rightarrow> pydict \<Rightarrow> pyval list \<Rightarrow> txn_db \<Rightarrow> txn_db \<times> (pydict list \<times> pydict) option" where
  "mark_offer_awaiting_authority e state offer ledger db =
    (case awaiting_offer e state offer ledger of
       None \<Rightarrow> (db, None)
     | Some next_offer \<Rightarrow>
        (case persist_draft_from_offer (ne_flow e) state next_offer (Some ''AWAITING_AUTHORIZATION'') None None db of
           None \<Rightarrow> (db, None)
         | Some (db1, _) \<Rightarrow>
            (db1, map_option (\<lambda>rows. (rows, next_offer)) (append_entries (ne_sha e) (ne_now e) ledger [PDict next_offer]))))"

section \<open>Recording an outcome\<close>

definition descriptor_entry :: "node_env \<Rightarrow> pydict \<Rightarrow> nat \<times> pydict \<Rightarrow> pydict option" where
  "descriptor_entry e state nd = do {
     let d = snd nd;
     facts \<leftarrow> dict_or_empty (dget d ''facts'');
     turn \<leftarrow> turn_of state;
     version \<leftarrow> int_or (dget d ''freshness_version'') 1;
     Some (artifact_entry (ne_now e) (fe_fresh (ne_flow e) (''artifact'' @ digits_of (fst nd)))
       (text_of (dget d ''resource_type'')) (text_of (dget d ''resource_id''))
       (text_of (py_or (dget d ''label'') (dget d ''resource_id''))) facts (scope_for_state state) turn
       ''action_gateway_commit'' (Some version) (none_if_empty (text_of (dget d ''handle'')))) }"

definition new_resource_artifacts ::
  "node_env \<Rightarrow> pydict \<Rightarrow> pyval list \<Rightarrow> pydict \<Rightarrow> pydict \<Rightarrow> pydict list option" where
  "new_resource_artifacts e state ledger offer result =
    (case find_plugin (ne_plugins e) (text_of (dget offer ''action_id'')) of
       None \<Rightarrow> Some []
     | Some p \<Rightarrow>
        if \<not> truthy (dget result ''success'') then Some []
        else do {
          found \<leftarrow> find_handle (ne_sha e) (ne_now e) ledger (text_of (dget offer ''target_handle''))
            (scope_for_state state) [''artifact''] [] False;
          let target = (case found of None \<Rightarrow> [] | Some t \<Rightarrow> t);
          descriptors \<leftarrow> project_result_artifacts p
            [(''resource_type'', PStr (text_of (dget target ''resource_type''))),
             (''resource_id'', PStr (text_of (dget target ''resource_id'')))] result target;
          those (map (descriptor_entry e state) (List.enumerate 0 descriptors)) })"

text \<open>What \<open>_transaction_commit_update\<close> is told about the outcome.\<close>

record commit_outcome =
  co_result :: pydict
  co_state :: string
  co_attempt :: "string option"
  co_key :: "string option"
  co_status :: string
  co_receipt :: bool

definition outcome_receipt :: "node_env \<Rightarrow> pydict \<Rightarrow> pydict \<Rightarrow> commit_outcome \<Rightarrow> pydict list option" where
  "outcome_receipt e state offer o1 =
    (if \<not> co_receipt o1 then Some []
     else map_option (\<lambda>turn.
       [dset ''idempotency_key'' (opt_val (co_key o1)) (dset ''attempt_id'' (opt_val (co_attempt o1))
         (receipt_entry (ne_now e) (fe_fresh (ne_flow e) ''receipt'') (text_of (dget offer ''action_id'')) (co_result o1)
           (scope_for_state state) turn (text_or (dget offer ''label'') operation_label) (offer_draft_id offer)
           (opt_str (co_attempt o1)) (opt_str (co_key o1))))]) (turn_of state))"

definition observed_offer :: "node_env \<Rightarrow> pydict \<Rightarrow> pydict \<Rightarrow> commit_outcome \<Rightarrow> pydict option" where
  "observed_offer e state offer o1 = do {
     moved \<leftarrow> transition_draft (ne_sha e) offer (co_state o1) None None;
     turn \<leftarrow> turn_of state;
     let row = dset ''updated_turn'' (PInt turn) moved;
     Some (if truthy_str (co_attempt o1) then dset ''commit_attempt_id'' (opt_val (co_attempt o1)) row else row) }"

definition commit_projection_keys :: "string list" where
  "commit_projection_keys = [''kind'', ''handle'', ''draft_id'', ''draft_revision'', ''draft_state'', ''label'', ''action_id'',
     ''operation'', ''target_handle'', ''input_values'', ''preview'', ''scope'', ''command_id'', ''command_digest'',
     ''business_command_envelope'']"

definition commit_projection :: "pydict \<Rightarrow> pydict" where
  "commit_projection offer = map (\<lambda>k. (k, dget offer k)) (filter (\<lambda>k. has_key k offer) commit_projection_keys)"

text \<open>The arguments of the call of \<open>advance_draft\<close>.\<close>

definition outcome_change :: "node_env \<Rightarrow> pydict \<Rightarrow> commit_outcome \<Rightarrow> draft_change option" where
  "outcome_change e next_offer o1 = do {
     revision \<leftarrow> int_or (dget next_offer ''draft_revision'') 1;
     digest \<leftarrow> offer_digest (ne_sha e) next_offer;
     envelope \<leftarrow> offer_envelope next_offer;
     Some \<lparr>ch_state = co_state o1, ch_revision = Some revision, ch_digest = Some digest, ch_envelope = envelope,
       ch_projection = Some (commit_projection next_offer), ch_grant = None, ch_attempt = co_attempt o1\<rparr> }"

definition attempt_outcome :: "commit_outcome \<Rightarrow> string \<Rightarrow> attempt_change" where
  "attempt_outcome o1 h =
     \<lparr>ac_state = (if truthy (dget (co_result o1) ''success'') then ''ACKED'' else co_state o1),
      ac_result = Some (co_result o1), ac_receipt = Some h, ac_error_code = None, ac_error = None,
      ac_reconciled = False\<rparr>"

definition settle_outcome_grant :: "node_env \<Rightarrow> string \<Rightarrow> commit_outcome \<Rightarrow> string \<Rightarrow> txn_db \<Rightarrow> txn_db" where
  "settle_outcome_grant e grant o1 h db =
    (if grant = [] then db
     else if truthy (dget (co_result o1) ''success'')
     then consume_grant (fe_txn (ne_flow e)) grant (co_attempt o1) (none_if_empty h) db
     else if co_state o1 \<in> {''FAILED_RETRYABLE'', ''FAILED_FINAL''}
     then revoke_grant (fe_txn (ne_flow e)) grant (co_state o1) db else db)"

text \<open>The writes in their order: receipt, draft, attempt, grant. \<open>False\<close> is an exception.\<close>

definition outcome_writes ::
  "node_env \<Rightarrow> pydict \<Rightarrow> pydict \<Rightarrow> pydict \<Rightarrow> string \<Rightarrow> commit_outcome \<Rightarrow> txn_db \<Rightarrow> txn_db \<times> bool" where
  "outcome_writes e state offer next_offer h o1 db =
    (let x = fe_txn (ne_flow e); ok = truthy (dget (co_result o1) ''success'') in
     case (if co_receipt o1
           then record_transaction_receipt (ne_flow e) state next_offer (co_attempt o1) (Some h)
                  (if ok then ''SUCCESS'' else ''FAILED'') (co_result o1) db
           else Inr (db, None)) of
       Inl _ \<Rightarrow> (db, False)
     | Inr (db1, _) \<Rightarrow>
        (case (if truthy_str (co_attempt o1)
               then map_option (\<lambda>ch. advance_draft x (offer_draft_id next_offer) ch db1) (outcome_change e next_offer o1)
               else Some db1) of
           None \<Rightarrow> (db1, False)
         | Some db2 \<Rightarrow>
            (case (if h \<noteq> [] \<and> truthy_str (co_attempt o1)
                   then transition_attempt x (opt_str (co_attempt o1)) (attempt_outcome o1 h) db2 else Inr db2) of
               Inl _ \<Rightarrow> (db2, False)
             | Inr db3 \<Rightarrow> (settle_outcome_grant e (text_of (dget offer ''active_grant_id'')) o1 h db3, True))))"

definition outcome_decision :: "commit_outcome \<Rightarrow> string" where
  "outcome_decision o1 = (if truthy (dget (co_result o1) ''success'') then ''committed''
     else if co_state o1 = ''SUBMISSION_UNKNOWN'' then ''submission_unknown'' else ''commit_failed'')"

definition clear_pending :: pydict where
  "clear_pending = focused_draft_patch None @ [(''pending_confirmation_id'', PNone), (''pending_confirmation_version'', PNone),
     (''response_contract'', PNone)]"

text \<open>\<open>dict\<close> of the ledger and its cards; reading the entries may raise.\<close>

definition ledger_patch :: "node_env \<Rightarrow> pydict \<Rightarrow> pydict list \<Rightarrow> pydict option" where
  "ledger_patch e state rows = map_option
     (\<lambda>cards. [(''artifact_ledger'', PList (map PDict rows)), (''ledger_snapshot'', PDict cards)])
     (ledger_cards (ne_sha e) (ne_now e) (map PDict rows) (scope_for_state state))"

definition outcome_patch :: "node_env \<Rightarrow> pydict \<Rightarrow> pydict list \<Rightarrow> pydict \<Rightarrow> commit_outcome \<Rightarrow> pydict option" where
  "outcome_patch e state rows offer o1 = map_option (\<lambda>ledger. ledger @ clear_pending
     @ [(''offer_execution_result'', PDict (co_result o1)),
        (''action_gateway_result'', PDict
          [(''decision'', PStr (outcome_decision o1)), (''offer_handle'', dget offer ''handle''),
           (''draft_id'', py_or (dget offer ''draft_id'') (dget offer ''handle'')), (''draft_state'', PStr (co_state o1)),
           (''attempt_id'', opt_val (co_attempt o1)),
           (''command_id'', opt_val (none_if_empty (text_of (py_or (dget offer ''command_id'')
              (dget (dict_if (dget offer ''business_command_envelope'')) ''command_id''))))),
           (''idempotency_key'', opt_val (co_key o1)), (''action_id'', dget offer ''action_id''),
           (''result'', PDict (co_result o1))]),
        (''commit_authority'', PNone),
        (''phase'', PStr (if truthy (dget state ''action_queue'') \<and> co_state o1 \<noteq> ''SUBMISSION_UNKNOWN'' then ''action_gateway''
           else ''final'')),
        (''status'', PStr (co_status o1))]) (ledger_patch e state rows)"

definition transaction_commit_update ::
  "node_env \<Rightarrow> pydict \<Rightarrow> pyval list \<Rightarrow> pydict \<Rightarrow> commit_outcome \<Rightarrow> txn_db \<Rightarrow> txn_db \<times> pydict option" where
  "transaction_commit_update e state ledger offer o1 db =
    (case do {
        next_offer \<leftarrow> observed_offer e state offer o1;
        receipt \<leftarrow> outcome_receipt e state offer o1;
        artifacts \<leftarrow> new_resource_artifacts e state ledger offer (co_result o1);
        rows \<leftarrow> append_entries (ne_sha e) (ne_now e) ledger (map PDict ([next_offer] @ receipt @ artifacts));
        Some (next_offer, concat (map handle_of receipt), rows) } of
       None \<Rightarrow> (db, None)
     | Some (next_offer, h, rows) \<Rightarrow>
        (case outcome_writes e state offer next_offer h o1 db of
           (db', False) \<Rightarrow> (db', None)
         | (db', True) \<Rightarrow> (db', outcome_patch e state rows offer o1)))"

section \<open>The node\<close>

definition unavailable :: "string \<Rightarrow> pydict" where
  "unavailable st = [(''response_contract'', PNone), (''commit_authority'', PNone), (''phase'', PStr ''final''), (''status'', PStr st)]"

definition stamped :: "int \<Rightarrow> pydict \<Rightarrow> pydict" where
  "stamped turn offer = dset ''updated_turn'' (PInt turn) offer"

text \<open>The frozen capability is not the registered one any more: the draft becomes read only.\<close>

definition capability_review :: "node_env \<Rightarrow> pydict \<Rightarrow> pyval list \<Rightarrow> pydict \<Rightarrow> pydict option" where
  "capability_review e state ledger offer = do {
     review \<leftarrow> transition_draft (ne_sha e) offer ''REQUIRES_REVIEW'' (Some ''operation_capability_snapshot_unavailable'') None;
     turn \<leftarrow> turn_of state;
     rows \<leftarrow> append_entries (ne_sha e) (ne_now e) ledger [PDict (stamped turn (dset ''read_only'' (PBool True) review))];
     patch \<leftarrow> ledger_patch e state rows;
     Some (patch @ [(''response_contract'', PNone), (''commit_authority'', PNone)] @ focused_draft_patch None
       @ [(''phase'', PStr ''final''), (''status'', PStr ''ActionCapabilityReviewRequired'')]) }"

definition authority_rejected ::
  "node_env \<Rightarrow> pydict \<Rightarrow> pyval list \<Rightarrow> pydict \<Rightarrow> pydict \<Rightarrow> string \<Rightarrow> txn_db \<Rightarrow> txn_db \<times> pydict option" where
  "authority_rejected e state ledger offer authority reason db =
    (case do {
        blocked \<leftarrow> transition_draft (ne_sha e) offer ''REVOKED'' (Some reason) None;
        turn \<leftarrow> turn_of state;
        append_entries (ne_sha e) (ne_now e) ledger [PDict (stamped turn blocked)] } of
       None \<Rightarrow> (db, None)
     | Some rows \<Rightarrow>
        let grant = text_of (dget authority ''grant_id'') in
        (if grant = [] then db else revoke_grant (fe_txn (ne_flow e)) grant reason db,
         map_option (\<lambda>patch. patch @ [(''commit_authority'', PNone)] @ clear_pending
             @ [(''phase'', PStr ''final''), (''status'', PStr ''ActionAuthorityInvalid'')])
           (ledger_patch e state rows)))"

definition failed_result :: "string \<Rightarrow> pydict" where
  "failed_result err = [(''success'', PBool False), (''error'', PStr err)]"

definition final_failure :: "pydict \<Rightarrow> string \<Rightarrow> commit_outcome" where
  "final_failure result st = \<lparr>co_result = result, co_state = ''FAILED_FINAL'', co_attempt = None, co_key = None,
     co_status = st, co_receipt = False\<rparr>"

definition preflight_rejected ::
  "node_env \<Rightarrow> pydict \<Rightarrow> pyval list \<Rightarrow> pydict \<Rightarrow> string + pydict \<Rightarrow> txn_db \<Rightarrow> txn_db \<times> pydict option" where
  "preflight_rejected e state ledger offer preflight db =
    (case do {
        failed \<leftarrow> transition_draft (ne_sha e) offer ''FAILED_FINAL'' (Some ''commit_time_preflight_rejected'') None;
        turn \<leftarrow> turn_of state;
        rows \<leftarrow> append_entries (ne_sha e) (ne_now e) ledger [PDict (stamped turn failed)];
        Some (stamped turn failed, rows) } of
       None \<Rightarrow> (db, None)
     | Some (failed, rows) \<Rightarrow>
        let err = (case preflight of Inl m \<Rightarrow> str_or m text_state_changed
                   | Inr preview \<Rightarrow> text_or (dget preview ''message'') text_state_changed) in
        transaction_commit_update e state (map PDict rows) failed
          (final_failure (failed_result err) ''ActionCommitPreflightRejected'') db)"

definition preflight_passed :: "string + pydict \<Rightarrow> pydict option" where
  "preflight_passed preflight = (case preflight of Inl _ \<Rightarrow> None
     | Inr preview \<Rightarrow> if text_of (dget preview ''decision'') \<in> {''ALLOWED'', ''NEEDS_REVIEW''} then Some preview else None)"

text \<open>The offer with the version and the preview just read.\<close>

definition refreshed_inputs :: "pydict \<Rightarrow> pydict \<Rightarrow> pydict option" where
  "refreshed_inputs offer preview = do {
     inputs \<leftarrow> dict_or_empty (dget offer ''input_values'');
     let version = dget (dict_if (dget preview ''snapshot'')) ''version'';
     vs \<leftarrow> (if version = PNone then Some inputs
       else map_option (\<lambda>n. dset ''expected_version'' (PInt n) inputs)
         (int_or (py_or version (dget inputs ''expected_version'')) 1));
     Some (dset ''preview'' (PDict preview) (dset ''input_values'' (PDict vs) offer)) }"

definition envelope_rejected ::
  "node_env \<Rightarrow> pydict \<Rightarrow> pyval list \<Rightarrow> pydict \<Rightarrow> string \<Rightarrow> txn_db \<Rightarrow> txn_db \<times> pydict option" where
  "envelope_rejected e state ledger offer err db =
    (case transition_draft (ne_sha e) offer ''FAILED_FINAL'' (Some ''commit_command_envelope_invalid'') None of
       None \<Rightarrow> (db, None)
     | Some failed \<Rightarrow> transaction_commit_update e state ledger failed
         (final_failure (invalid_envelope err) ''ActionCommitEnvelopeInvalid'') db)"

definition sealed_command :: "node_env \<Rightarrow> pydict \<Rightarrow> pydict \<Rightarrow> pydict \<Rightarrow> pydict option" where
  "sealed_command e state offer envelope = do {
     let row = dset ''business_command_envelope'' (PDict envelope) offer;
     command_id \<leftarrow> (if truthy (dget envelope ''command_id'') then Some (py_str (dget envelope ''command_id''))
       else stable_command_id (ne_sha e) state row);
     turn \<leftarrow> turn_of state;
     Some (stamped turn (dset ''command_id'' (PStr command_id) row)) }"

text \<open>Append an offer and read it back.\<close>

definition reread_offer :: "node_env \<Rightarrow> pydict \<Rightarrow> pyval list \<Rightarrow> string \<Rightarrow> pydict \<Rightarrow> (pydict list \<times> pydict) option" where
  "reread_offer e state ledger h offer = do {
     rows \<leftarrow> append_entries (ne_sha e) (ne_now e) ledger [PDict offer];
     found \<leftarrow> find_handle (ne_sha e) (ne_now e) (map PDict rows) h (scope_for_state state) [''offer''] [] False;
     Some (rows, case found of None \<Rightarrow> offer | Some o1 \<Rightarrow> o1) }"

text \<open>
  The digest changed: the grant is revoked and the draft goes back to its card; then the node
  calls \<open>interaction_response_contract\<close>, a name the module does not import, and fails.
\<close>

definition reauthorize :: "node_env \<Rightarrow> pydict \<Rightarrow> pyval list \<Rightarrow> pydict \<Rightarrow> pydict \<Rightarrow> txn_db \<Rightarrow> txn_db \<times> pydict option" where
  "reauthorize e state ledger offer authority db =
    (let grant = text_of (dget authority ''grant_id'');
         db1 = (if grant = [] then db
           else revoke_grant (fe_txn (ne_flow e)) grant ''command_digest_changed_after_preflight'' db) in
     (fst (mark_offer_awaiting_authority e state offer ledger db1), None))"

definition pending_result :: pydict where
  "pending_result = [(''success'', PBool False), (''error'', PStr text_commit_pending), (''code'', PStr ''SUBMISSION_UNKNOWN'')]"

text \<open>The reservation was refused: what the receipt of the attempt says, or nothing known.\<close>

definition known_outcome :: "attempt_row option \<Rightarrow> string option \<Rightarrow> string \<Rightarrow> receipt_row option \<Rightarrow> commit_outcome option" where
  "known_outcome t attempt key receipt =
    (let make = (\<lambda>result st status. Some \<lparr>co_result = result, co_state = st, co_attempt = attempt, co_key = Some key,
           co_status = status, co_receipt = False\<rparr>) in
     case receipt of
       None \<Rightarrow> None
     | Some c \<Rightarrow>
        if py_upper (rc_state c) = ''SUCCESS'' \<and> truthy (dget (rc_result c) ''success'')
        then make (rc_result c) ''COMMITTED'' ''ActionAlreadyCommitted''
        else if py_upper (rc_state c) = ''FAILED'' then
          (let st = py_upper (case t of None \<Rightarrow> [] | Some r \<Rightarrow> ta_state r) in
           make (if rc_result c = [] then failed_result text_commit_failed else rc_result c)
             (if st \<in> {''FAILED_RETRYABLE'', ''FAILED_FINAL''} then st else ''FAILED_FINAL'') ''ActionAlreadyFailed'')
        else None)"

definition already_reserved ::
  "node_env \<Rightarrow> pydict \<Rightarrow> pyval list \<Rightarrow> pydict \<Rightarrow> attempt_row option \<Rightarrow> string option \<Rightarrow> string \<Rightarrow> txn_db \<Rightarrow> txn_db \<times> pydict option" where
  "already_reserved e state ledger offer t attempt key db =
    (case known_outcome t attempt key (if truthy_str attempt then get_receipt_by_attempt (opt_str attempt) db else None) of
       Some o1 \<Rightarrow> transaction_commit_update e state ledger offer o1 db
     | None \<Rightarrow>
        (case do {
            moved \<leftarrow> transition_draft (ne_sha e) offer ''SUBMISSION_UNKNOWN'' (Some ''grant_already_reserved_or_consumed'') None;
            let unknown = dset ''commit_attempt_id'' (opt_val attempt) moved;
            rows \<leftarrow> append_entries (ne_sha e) (ne_now e) ledger [PDict unknown];
            Some (unknown, rows) } of
           None \<Rightarrow> (db, None)
         | Some (unknown, rows) \<Rightarrow> transaction_commit_update e state (map PDict rows) unknown
             \<lparr>co_result = pending_result, co_state = ''SUBMISSION_UNKNOWN'', co_attempt = attempt, co_key = Some key,
              co_status = ''ActionCommitAlreadyInProgress'', co_receipt = False\<rparr> db))"

definition commit_answer :: "exec_error + pydict \<Rightarrow> pydict" where
  "commit_answer r = (case r of
     Inr d \<Rightarrow> d
   | Inl (ServiceError code msg) \<Rightarrow> [(''success'', PBool False), (''error'', PStr msg), (''code'', PInt code)]
   | Inl (OtherError t) \<Rightarrow> [(''success'', PBool False), (''error'', PStr (text_commit_exception @ t)), (''code'', PInt 0)])"

text \<open>After the business call: the outcome is recorded.\<close>

definition after_execution ::
  "node_env \<Rightarrow> pydict \<Rightarrow> pyval list \<Rightarrow> pydict \<Rightarrow> string option \<Rightarrow> string \<Rightarrow> pydict \<Rightarrow> txn_db \<Rightarrow> txn_db \<times> pydict option" where
  "after_execution e state ledger offer attempt key result db =
    (let make = (\<lambda>st status receipt. \<lparr>co_result = result, co_state = st, co_attempt = attempt, co_key = Some key,
           co_status = status, co_receipt = receipt\<rparr>);
         st = classify_business_failure (dget result ''code'') (text_of (dget result ''error'')) in
     if truthy (dget result ''success'')
     then transaction_commit_update e state ledger offer (make ''COMMITTED'' ''ActionCommitted'' True) db
     else if st \<noteq> ''SUBMISSION_UNKNOWN''
     then transaction_commit_update e state ledger offer (make st ''ActionCommitFailed'' True) db
     else
       (case transition_attempt (fe_txn (ne_flow e)) (opt_str attempt)
           \<lparr>ac_state = st, ac_result = None, ac_receipt = None, ac_error_code = Some (text_of (dget result ''code'')),
            ac_error = Some (text_of (dget result ''error'')), ac_reconciled = False\<rparr> db of
          Inl _ \<Rightarrow> (db, None)
        | Inr db1 \<Rightarrow> transaction_commit_update e state ledger offer (make st ''ActionSubmissionUnknown'' False) db1))"

definition committing_offer :: "node_env \<Rightarrow> pydict \<Rightarrow> pydict \<Rightarrow> pydict \<Rightarrow> string option \<Rightarrow> pydict option" where
  "committing_offer e state offer authority attempt = do {
     moved \<leftarrow> transition_draft (ne_sha e) offer ''COMMITTING'' None None;
     turn \<leftarrow> turn_of state;
     Some (stamped turn (dset ''commit_attempt_id'' (opt_val attempt)
       (dset ''active_grant_id'' (dget authority ''grant_id'') moved))) }"

text \<open>The one business call: the recorded envelope under the recorded key.\<close>

definition execute_reserved ::
  "node_env \<Rightarrow> 'w business_port \<Rightarrow> pydict \<Rightarrow> pyval list \<Rightarrow> string \<Rightarrow> pydict \<Rightarrow> pydict \<Rightarrow> string option \<Rightarrow> string
    \<Rightarrow> txn_db \<Rightarrow> 'w \<Rightarrow> 'w node_answer" where
  "execute_reserved e port state ledger h offer authority attempt key db w =
    (case do {
        committing \<leftarrow> committing_offer e state offer authority attempt;
        reread_offer e state ledger h committing } of
       None \<Rightarrow> (db, w, None)
     | Some (rows, current) \<Rightarrow>
        let (w1, answer) = (case dict_or_empty (dget current ''business_command_envelope'') of
               None \<Rightarrow> (w, Inl (OtherError []))
             | Some envelope \<Rightarrow> execute_envelope (ne_plugins e) (bp_execute port) w envelope key);
            (db1, patch) = after_execution e state (map PDict rows) current attempt key (commit_answer answer) db in
        (db1, w1, patch))"

definition reserve_and_execute ::
  "node_env \<Rightarrow> 'w business_port \<Rightarrow> pydict \<Rightarrow> pyval list \<Rightarrow> string \<Rightarrow> pydict \<Rightarrow> pydict \<Rightarrow> txn_db \<Rightarrow> 'w \<Rightarrow> 'w node_answer" where
  "reserve_and_execute e port state ledger h offer authority db w =
    (case reserve_for_authority (ne_flow e) state offer authority db of
       (db1, Inl _) \<Rightarrow> (db1, w, None)
     | (db1, Inr rv) \<Rightarrow>
        let attempt = (case rv_attempt rv of None \<Rightarrow> None | Some t \<Rightarrow> none_if_empty (ta_id t));
            recorded = (case rv_attempt rv of None \<Rightarrow> [] | Some t \<Rightarrow> ta_key t) in
        (case (if recorded \<noteq> [] then Some recorded else stable_idempotency_key (ne_sha e) state offer) of
           None \<Rightarrow> (db1, w, None)
         | Some key \<Rightarrow>
            if rv_reserved rv then execute_reserved e port state ledger h offer authority attempt key db1 w
            else (let (db2, patch) = already_reserved e state ledger offer (rv_attempt rv) attempt key db1 in (db2, w, patch))))"

definition commit_previewed ::
  "node_env \<Rightarrow> 'w business_port \<Rightarrow> pydict \<Rightarrow> pyval list \<Rightarrow> string \<Rightarrow> pydict \<Rightarrow> pydict \<Rightarrow> pydict \<Rightarrow> pydict \<Rightarrow> txn_db \<Rightarrow> 'w
    \<Rightarrow> 'w node_answer" where
  "commit_previewed e port state ledger h offer target authority preview db w =
    (case refreshed_inputs offer preview of
       None \<Rightarrow> (db, w, None)
     | Some renewed \<Rightarrow>
        (case build_business_command_envelope (ne_sha e) (ne_plugins e) state renewed target of
           Inl PluginCrash \<Rightarrow> (db, w, None)
         | Inl (PluginValueError m) \<Rightarrow> (let (db1, patch) = envelope_rejected e state ledger renewed m db in (db1, w, patch))
         | Inr envelope \<Rightarrow>
            (case do {
                sealed \<leftarrow> sealed_command e state renewed envelope;
                (rows, current) \<leftarrow> reread_offer e state ledger h sealed;
                digest \<leftarrow> offer_digest (ne_sha e) current;
                Some (rows, current, digest) } of
               None \<Rightarrow> (db, w, None)
             | Some (rows, current, digest) \<Rightarrow>
                if text_of (dget authority ''command_digest'') \<noteq> digest
                then (let (db1, patch) = reauthorize e state (map PDict rows) current authority db in (db1, w, patch))
                else reserve_and_execute e port state (map PDict rows) h current authority db w)))"

definition commit_authorized ::
  "node_env \<Rightarrow> 'w business_port \<Rightarrow> pydict \<Rightarrow> pyval list \<Rightarrow> string \<Rightarrow> pydict \<Rightarrow> pydict \<Rightarrow> txn_db \<Rightarrow> 'w \<Rightarrow> 'w node_answer" where
  "commit_authorized e port state ledger h offer authority db w =
    (case find_handle (ne_sha e) (ne_now e) ledger (text_of (dget offer ''target_handle'')) (scope_for_state state)
        [''artifact''] (allowed_target_resource_types (ne_plugins e) (text_of (dget offer ''action_id''))) False of
       None \<Rightarrow> (db, w, None)
     | Some None \<Rightarrow> (db, w, Some (unavailable ''ActionTargetUnavailable''))
     | Some (Some target) \<Rightarrow>
        let (w1, preflight, additions) = refresh_offer_preflight e port state offer target w in
        (case append_entries (ne_sha e) (ne_now e) ledger (map PDict additions) of
           None \<Rightarrow> (db, w1, None)
         | Some rows \<Rightarrow>
            (case preflight_passed preflight of
               None \<Rightarrow> (let (db1, patch) = preflight_rejected e state (map PDict rows) offer preflight db in (db1, w1, patch))
             | Some preview \<Rightarrow> commit_previewed e port state (map PDict rows) h offer target authority preview db w1)))"

definition commit_action_node :: "node_env \<Rightarrow> 'w business_port \<Rightarrow> pydict \<Rightarrow> txn_db \<Rightarrow> 'w \<Rightarrow> 'w node_answer" where
  "commit_action_node e port state db w =
    (let ledger = items_of (dget state ''artifact_ledger''); h = opt_str (get_focused_draft_id state) in
     case find_handle (ne_sha e) (ne_now e) ledger h (scope_for_state state) [''offer''] [] False of
       None \<Rightarrow> (db, w, None)
     | Some None \<Rightarrow> (db, w, Some (unavailable ''ActionUnavailable''))
     | Some (Some offer) \<Rightarrow>
        if state_text offer \<noteq> ''AUTHORIZED'' then (db, w, Some (unavailable ''ActionUnavailable''))
        else if \<not> snapshot_matches_registry (ne_sha e) (ne_plugins e) offer then (db, w, capability_review e state ledger offer)
        else
          let authority = dict_if (dget state ''commit_authority'') in
          (case turn_of state of
             None \<Rightarrow> (db, w, None)
           | Some turn \<Rightarrow>
              (case validate_ui_authority authority offer turn of
                 None \<Rightarrow> (db, w, None)
               | Some (Inl reason) \<Rightarrow>
                   (let (db1, patch) = authority_rejected e state ledger offer authority reason db in (db1, w, patch))
               | Some (Inr _) \<Rightarrow> commit_authorized e port state ledger h offer authority db w)))"

end
