(* ===== verification/Ledger_Facts.thy ===== *)
theory Ledger_Facts
  imports Ledger
begin

text \<open>
  What appending an offer does to the entry that is read back under its handle: other entries
  stay as they are, and the appended offer comes back with every field but the ones the ledger
  maintains, its digest recomputed from its command.
\<close>

section \<open>Normal entries are fixed\<close>

lemma normal_fixed:
  assumes "normal_entry sha now e"
  shows "expire_entry sha now e = Some e" and "is_offer e \<Longrightarrow> ensure_transaction_draft sha None e = Some e"
    and "valid_entry e"
  using assms by (auto simp: normal_entry_def expire_entry_def ended_def)

lemma normalize_all_append:
  "normalize_all sha now (xs @ ys) a = Option.bind (normalize_all sha now xs a) (normalize_all sha now ys)"
  by (induction xs arbitrary: a) (auto split: option.splits)

text \<open>The entry of one row, over rows with different handles.\<close>

lemma normalize_all_at:
  assumes "distinct (map handle_of (pre @ o1 # post))" and "valid_entry o1"
    and "normalize_all sha now (map PDict (pre @ o1 # post)) [] = Some acc"
  shows "\<exists>item item'. (if is_offer o1 then ensure_transaction_draft sha None o1 else Some o1) = Some item
    \<and> expire_entry sha now item = Some item' \<and> map_of acc (handle_of o1) = Some item'"
proof -
  obtain m1 m2 where m: "normalize_all sha now (map PDict pre) [] = Some m1"
    "normalize_entry sha now (PDict o1) m1 = Some m2" "normalize_all sha now (map PDict post) m2 = Some acc"
    using assms(3) by (auto simp: normalize_all_append bind_Some_iff split: option.splits)
  have "handle_of o1 \<notin> handle_of ` (set pre \<union> set post)" using assms(1) by auto
  then have other: "handle_of d \<noteq> handle_of o1" if "d \<in> set pre \<or> d \<in> set post" for d
    using that by (metis UnI1 UnI2 imageI)
  have "map_of m1 (handle_of o1) = map_of [] (handle_of o1)"
    using other by (intro normalize_all_other [OF m(1)]) auto
  then have "\<exists>item item'. (if is_offer o1 then ensure_transaction_draft sha None o1 else Some o1) = Some item
      \<and> expire_entry sha now item = Some item' \<and> map_of m2 (handle_of o1) = Some item'"
    using m(2) assms(2) by (auto simp: normalize_entry_def closed_offer_def update_conv' bind_Some_iff Let_def split: if_splits)
  moreover have "map_of acc (handle_of o1) = map_of m2 (handle_of o1)"
    using other by (intro normalize_all_other [OF m(3)]) auto
  ultimately show ?thesis by simp
qed

section \<open>Short ledgers are not cut\<close>

lemma update_length: "length (AList.update k v al) \<le> Suc (length al)"
  by (induction al) auto

lemma normalize_entry_length:
  "normalize_entry sha now raw acc = Some acc' \<Longrightarrow> length acc' \<le> Suc (length acc)"
  using update_length
  by (cases raw) (auto simp: normalize_entry_def Let_def bind_Some_iff split: if_splits option.splits)

lemma normalize_all_length:
  "normalize_all sha now raws acc = Some acc' \<Longrightarrow> length acc' \<le> length acc + length raws"
proof (induction raws arbitrary: acc)
  case (Cons raw raws)
  then obtain m where m: "normalize_entry sha now raw acc = Some m" "normalize_all sha now raws m = Some acc'"
    by (auto split: option.splits)
  show ?case using Cons.IH [OF m(2)] normalize_entry_length [OF m(1)] by simp
qed simp

lemma normalize_short:
  assumes "normalize_ledger sha now entries = Some led" and "length entries \<le> MAX_LEDGER_ENTRIES"
  obtains acc where "normalize_all sha now entries [] = Some acc" "filed sha now acc" "set led = snd ` set acc"
    "normal_ledger sha now led" "length led \<le> length entries"
proof -
  obtain acc rows where a: "normalize_all sha now entries [] = Some acc" "by_rank (map snd acc) = Some rows"
    "led = take MAX_LEDGER_ENTRIES rows"
    using assms(1) by (auto simp: normalize_ledger_def bind_Some_iff)
  have m: "mset rows = mset (map snd acc)" by (rule by_rank_props [OF a(2)])
  have len: "length rows = length acc" using mset_eq_length [OF m] by simp
  then have "led = rows" using a(3) normalize_all_length [OF a(1)] assms(2) by simp
  moreover have "set rows = snd ` set acc" using mset_eq_setD [OF m] by simp
  moreover have "normal_ledger sha now led" using assms(1) by (rule normalize_cases)
  ultimately show thesis
    using that [OF a(1) normalize_all_filed [OF a(1) filed_Nil]] normalize_all_length [OF a(1)] len by simp
qed

text \<open>What a normalised ledger makes of one row of a list of rows with different handles.\<close>

lemma normalize_at:
  assumes "normalize_ledger sha now (map (\<lambda>p. PDict (snd p)) merged) = Some led" and "keyed merged"
    and "map_of merged h = Some x" and "valid_entry x"
  shows "\<exists>item item'. (if is_offer x then ensure_transaction_draft sha None x else Some x) = Some item
    \<and> expire_entry sha now item = Some item' \<and> (\<forall>p\<in>set led. handle_of p = h \<longrightarrow> p = item')
    \<and> (length merged \<le> MAX_LEDGER_ENTRIES \<longrightarrow> item' \<in> set led)"
proof -
  obtain acc where a: "normalize_all sha now (map (\<lambda>p. PDict (snd p)) merged) [] = Some acc" "filed sha now acc"
    "set led \<subseteq> snd ` set acc" "normal_ledger sha now led"
    using assms(1) by (rule normalize_cases)
  have hx: "handle_of x = h" using map_of_SomeD [OF assms(3)] assms(2) by (auto simp: keyed_def)
  obtain pre post where p: "merged = pre @ (h, x) # post" using split_list [OF map_of_SomeD [OF assms(3)]] by (elim exE)
  have "map handle_of (map snd merged) = map fst merged" using assms(2) by (auto simp: keyed_def)
  then have "distinct (map handle_of (map snd merged))" using assms(2) by (simp only: keyed_def)
  then have dist: "distinct (map handle_of (map snd pre @ x # map snd post))"
    by (simp only: p map_append list.map snd_conv)
  have "normalize_all sha now (map PDict (map snd pre @ x # map snd post)) [] = Some acc"
    using a(1) by (simp add: p comp_def)
  then obtain item item' where i: "(if is_offer x then ensure_transaction_draft sha None x else Some x) = Some item"
    "expire_entry sha now item = Some item'" "map_of acc (handle_of x) = Some item'"
    using normalize_all_at [OF dist assms(4), of sha now acc] by blast
  have "y = item'" if y: "y \<in> set led" "handle_of y = h" for y
  proof -
    obtain h' where "(h', y) \<in> set acc" using a(3) y(1) by force
    then have "map_of acc (handle_of y) = Some y" using a(2) by (auto simp: filed_def intro!: map_of_is_SomeI)
    then show ?thesis using i(3) y(2) hx by simp
  qed
  moreover have "item' \<in> set led" if short: "length merged \<le> MAX_LEDGER_ENTRIES"
  proof -
    have len: "length (map (\<lambda>p. PDict (snd p)) merged) \<le> MAX_LEDGER_ENTRIES" using short by simp
    obtain acc' where acc: "normalize_all sha now (map (\<lambda>p. PDict (snd p)) merged) [] = Some acc'" "filed sha now acc'"
      "set led = snd ` set acc'" "normal_ledger sha now led" "length led \<le> length (map (\<lambda>p. PDict (snd p)) merged)"
      by (rule normalize_short [OF assms(1) len])
    have "(handle_of x, item') \<in> set acc" using map_of_SomeD [OF i(3)] .
    then show ?thesis using imageI [of "(handle_of x, item')" "set acc" snd] acc(1,3) a(1) by simp
  qed
  ultimately show ?thesis using i(1,2) by blast
qed

lemma normal_start:
  assumes "normal_ledger sha now led"
  shows "keyed (map (\<lambda>item. (handle_of item, item)) led)"
    and "e \<in> set led \<Longrightarrow> map_of (map (\<lambda>item. (handle_of item, item)) led) (handle_of e) = Some e"
    and "e \<in> set led \<Longrightarrow> normal_entry sha now e"
    and "e \<in> set led \<Longrightarrow> find (\<lambda>item. handle_of item = handle_of e) led = Some e"
proof -
  have dist: "distinct (map handle_of led)" using assms by (simp add: normal_ledger_def)
  have keys: "map fst (map (\<lambda>item. (handle_of item, item)) led) = map handle_of led" by simp
  show k: "keyed (map (\<lambda>item. (handle_of item, item)) led)" unfolding keyed_def keys using dist by auto
  show "map_of (map (\<lambda>item. (handle_of item, item)) led) (handle_of e) = Some e" if "e \<in> set led"
    using k that unfolding keyed_def by (intro map_of_is_SomeI) auto
  show "normal_entry sha now e" if "e \<in> set led" using assms that by (simp add: normal_ledger_def)
  show "find (\<lambda>item. handle_of item = handle_of e) led = Some e" if "e \<in> set led"
    using dist that by (induction led) auto
qed

text \<open>A normal entry is what it is made of.\<close>

lemma normal_kept:
  assumes "normal_entry sha now x" and "(if is_offer x then ensure_transaction_draft sha None x else Some x) = Some item"
    and "expire_entry sha now item = Some item'"
  shows "item' = x"
proof -
  have "item = x" using assms(2) normal_fixed(2) [OF assms(1)] by (cases "is_offer x") simp_all
  then show ?thesis using assms(3) normal_fixed(1) [OF assms(1)] by simp
qed

text \<open>A ledger in normal form reads back as it is.\<close>

lemma normal_reread:
  assumes "normal_ledger sha now led" and "normalize_ledger sha now (map PDict led) = Some led'"
  shows "set led \<subseteq> set led'" and "\<And>p e. p \<in> set led' \<Longrightarrow> e \<in> set led \<Longrightarrow> handle_of p = handle_of e \<Longrightarrow> p = e"
proof -
  let ?start = "map (\<lambda>item. (handle_of item, item)) led"
  note s = normal_start [OF assms(1)]
  have rows: "normalize_ledger sha now (map (\<lambda>p. PDict (snd p)) ?start) = Some led'" using assms(2) by (simp add: comp_def)
  have short: "length ?start \<le> MAX_LEDGER_ENTRIES" using assms(1) by (simp add: normal_ledger_def)
  have both: "e \<in> set led' \<and> (\<forall>p\<in>set led'. handle_of p = handle_of e \<longrightarrow> p = e)" if e: "e \<in> set led" for e
  proof -
    obtain item item' where i: "(if is_offer e then ensure_transaction_draft sha None e else Some e) = Some item"
      "expire_entry sha now item = Some item'" "\<forall>p\<in>set led'. handle_of p = handle_of e \<longrightarrow> p = item'"
      "length ?start \<le> MAX_LEDGER_ENTRIES \<longrightarrow> item' \<in> set led'"
      using normalize_at [OF rows s(1) s(2) [OF e] normal_fixed(3) [OF s(3) [OF e]]] by (elim exE conjE)
    then show ?thesis using normal_kept [OF s(3) [OF e] i(1,2)] short by simp
  qed
  show "set led \<subseteq> set led'" using both by blast
  show "\<And>p e. p \<in> set led' \<Longrightarrow> e \<in> set led \<Longrightarrow> handle_of p = handle_of e \<Longrightarrow> p = e" using both by blast
qed

section \<open>Appending\<close>

text \<open>The fields of an offer that the ledger maintains itself.\<close>

definition maintained :: "string list" where
  "maintained = normal_fields @ [''draft_state_reason'', ''version'', ''created_at'', ''created_turn'', ''updated_at'',
     ''presentation_origin'']"

definition carries :: "pydict \<Rightarrow> pydict \<Rightarrow> bool" where
  "carries e o1 \<longleftrightarrow> (\<forall>k. k \<notin> set maintained \<longrightarrow> dget e k = dget o1 k)"

lemma carriesD: "carries e o1 \<Longrightarrow> k \<notin> set maintained \<Longrightarrow> dget e k = dget o1 k"
  by (simp add: carries_def)

lemma carries_trans: "carries a b \<Longrightarrow> carries b c \<Longrightarrow> carries a c"
  by (simp add: carries_def)

lemma validity_not_maintained: "k \<in> set validity_fields \<Longrightarrow> k \<notin> set maintained"
  by (auto simp: validity_fields_def maintained_def normal_fields_def)

lemma carries_entry:
  assumes "carries e o1"
  shows "valid_entry e = valid_entry o1" and "handle_of e = handle_of o1" and "is_offer e = is_offer o1"
  using valid_frame [of e o1] carriesD [OF assms validity_not_maintained] by simp_all

lemma ensure_carries: "ensure_transaction_draft sha prior o1 = Some e \<Longrightarrow> carries e o1"
  by (simp add: carries_def maintained_def ensure_frame)

lemma transition_carries: "transition_draft sha o1 st reason prior = Some e \<Longrightarrow> carries e o1"
  by (simp add: carries_def maintained_def transition_frame)

lemma expire_carries: "expire_entry sha now o1 = Some e \<Longrightarrow> carries e o1"
  by (auto simp: expire_entry_def carries_def maintained_def normal_fields_def transition_frame split: if_splits)

lemma appended_carries:
  assumes "appended sha now current o1 = Some e"
  shows "carries e o1"
proof -
  obtain c c' where r: "(if is_offer o1 then ensure_transaction_draft sha current o1 else Some o1) = Some c"
    "(case current of None \<Rightarrow> Some c | Some x \<Rightarrow> inherit_entry x c) = Some c'" "e = dset ''updated_at'' (PInt now) c'"
    using assms by (auto simp: appended_def bind_Some_iff)
  have "carries c o1" using r(1) ensure_carries by (cases "is_offer o1") (auto simp: carries_def)
  moreover have "carries c' c"
    using r(2) by (auto simp: inherit_entry_def bind_Some_iff Let_def carries_def maintained_def split: option.splits if_splits)
  moreover have "carries e c'" by (simp add: r(3) carries_def maintained_def)
  ultimately show ?thesis using carries_trans by blast
qed

lemma append_cases:
  assumes "append_entries sha now existing additions = Some rows"
  obtains old merged where "normalize_ledger sha now existing = Some old" "normal_ledger sha now old"
    "append_all sha now additions (map (\<lambda>item. (handle_of item, item)) old) = Some merged" "keyed merged"
    "normalize_ledger sha now (map (\<lambda>p. PDict (snd p)) merged) = Some rows"
proof -
  obtain old merged where m: "normalize_ledger sha now existing = Some old"
    "append_all sha now additions (map (\<lambda>item. (handle_of item, item)) old) = Some merged"
    "normalize_ledger sha now (map (\<lambda>p. PDict (snd p)) merged) = Some rows"
    using assms by (auto simp: append_entries_def bind_Some_iff)
  have normal: "normal_ledger sha now old" using m(1) by (rule normalize_cases)
  show thesis using that [OF m(1) normal m(2) append_all_keyed [OF m(2) normal_start(1) [OF normal]] m(3)] .
qed

lemma append_entry_length: "append_entry sha now raw merged = Some merged' \<Longrightarrow> length merged' \<le> Suc (length merged)"
  by (erule append_entry_cases) (simp_all add: update_length)

lemma append_all_length: "append_all sha now raws merged = Some merged' \<Longrightarrow> length merged' \<le> length merged + length raws"
proof (induction raws arbitrary: merged)
  case (Cons raw raws)
  then obtain m where m: "append_entry sha now raw merged = Some m" "append_all sha now raws m = Some merged'"
    by (auto split: option.splits)
  show ?case using Cons.IH [OF m(2)] append_entry_length [OF m(1)] by simp
qed simp

lemma normalize_length:
  assumes "normalize_ledger sha now entries = Some led"
  shows "length led \<le> length entries"
proof -
  obtain acc rows where a: "normalize_all sha now entries [] = Some acc" "by_rank (map snd acc) = Some rows"
    "led = take MAX_LEDGER_ENTRIES rows"
    using assms by (auto simp: normalize_ledger_def bind_Some_iff)
  have "length rows = length acc" using mset_eq_length [OF by_rank_props(1) [OF a(2)]] by simp
  then show ?thesis using normalize_all_length [OF a(1)] a(3) by simp
qed

lemma append_length:
  assumes "append_entries sha now existing additions = Some rows"
  shows "length rows \<le> length existing + length additions"
proof -
  obtain old merged where m: "normalize_ledger sha now existing = Some old"
    "append_all sha now additions (map (\<lambda>item. (handle_of item, item)) old) = Some merged"
    "normalize_ledger sha now (map (\<lambda>p. PDict (snd p)) merged) = Some rows"
    using append_cases [OF assms] by blast
  show ?thesis
    using normalize_length [OF m(1)] append_all_length [OF m(2)] normalize_length [OF m(3)] by simp
qed

text \<open>Entries under other handles stay as they are.\<close>

lemma append_entry_other:
  assumes "append_entry sha now raw merged = Some merged'" and "\<And>d. raw = PDict d \<Longrightarrow> handle_of d \<noteq> h"
  shows "map_of merged' h = map_of merged h"
  using assms(1) by (cases rule: append_entry_cases) (use assms(2) in \<open>auto simp: update_conv'\<close>)

lemma append_all_other:
  "append_all sha now raws merged = Some merged' \<Longrightarrow> (\<And>d. PDict d \<in> set raws \<Longrightarrow> handle_of d \<noteq> h)
    \<Longrightarrow> map_of merged' h = map_of merged h"
proof (induction raws arbitrary: merged)
  case (Cons raw raws)
  then obtain m where m: "append_entry sha now raw merged = Some m" "append_all sha now raws m = Some merged'"
    by (auto split: option.splits)
  have "map_of merged' h = map_of m h" using Cons.prems by (intro Cons.IH [OF m(2)]) auto
  also have "\<dots> = map_of merged h" using Cons.prems(2) by (intro append_entry_other [OF m(1)]) auto
  finally show ?case .
qed simp

lemma append_other:
  assumes "append_entries sha now existing additions = Some rows" and "normalize_ledger sha now existing = Some old"
    and "x \<in> set old" and "\<And>d. PDict d \<in> set additions \<Longrightarrow> handle_of d \<noteq> handle_of x"
  shows "p \<in> set rows \<Longrightarrow> handle_of p = handle_of x \<Longrightarrow> p = x"
    and "length existing + length additions \<le> MAX_LEDGER_ENTRIES \<Longrightarrow> x \<in> set rows"
proof -
  obtain old' merged where m: "normalize_ledger sha now existing = Some old'" "normal_ledger sha now old'"
    "append_all sha now additions (map (\<lambda>item. (handle_of item, item)) old') = Some merged" "keyed merged"
    "normalize_ledger sha now (map (\<lambda>p. PDict (snd p)) merged) = Some rows"
    using append_cases [OF assms(1)] by blast
  have old: "old' = old" using m(1) assms(2) by simp
  note s = normal_start [OF m(2) [unfolded old]]
  have "map_of merged (handle_of x) = Some x"
    using append_all_other [OF m(3) assms(4)] s(2) [OF assms(3)] by (simp add: old)
  then obtain item item' where i: "(if is_offer x then ensure_transaction_draft sha None x else Some x) = Some item"
    "expire_entry sha now item = Some item'" "\<forall>p\<in>set rows. handle_of p = handle_of x \<longrightarrow> p = item'"
    "length merged \<le> MAX_LEDGER_ENTRIES \<longrightarrow> item' \<in> set rows"
    using normalize_at [OF m(5,4) _ normal_fixed(3) [OF s(3) [OF assms(3)]], of "handle_of x"] by blast
  have x: "item' = x" using normal_kept [OF s(3) [OF assms(3)] i(1,2)] .
  show "p \<in> set rows \<Longrightarrow> handle_of p = handle_of x \<Longrightarrow> p = x" using i(3) x by simp
  show "x \<in> set rows" if "length existing + length additions \<le> MAX_LEDGER_ENTRIES"
    using i(4) x that append_all_length [OF m(3)] normalize_length [OF m(1)] by simp
qed

lemma handle_truthy: "valid_entry e \<Longrightarrow> truthy (dget e ''handle'')"
  by (cases "truthy (dget e ''handle'')") (simp_all add: valid_entry_def Let_def handle_of_def text_of_def)

text \<open>The offer just appended is listed, unless its draft was closed already.\<close>

lemma append_offer:
  assumes "append_entries sha now existing [PDict o1] = Some rows" and "is_offer o1" and "valid_entry o1"
    and "length existing < MAX_LEDGER_ENTRIES"
  shows "\<exists>e\<in>set rows. handle_of e = handle_of o1 \<and> (carries e o1
    \<or> (\<exists>old. normalize_ledger sha now existing = Some old \<and> e \<in> set old \<and> closed_offer (Some e)))"
proof -
  obtain old merged where m: "normalize_ledger sha now existing = Some old" "normal_ledger sha now old"
    "append_all sha now [PDict o1] (map (\<lambda>item. (handle_of item, item)) old) = Some merged" "keyed merged"
    "normalize_ledger sha now (map (\<lambda>p. PDict (snd p)) merged) = Some rows"
    using append_cases [OF assms(1)] by blast
  let ?start = "map (\<lambda>item. (handle_of item, item)) old"
  have one: "append_entry sha now (PDict o1) ?start = Some merged" using m(3) by (simp split: option.splits)
  have short: "length merged \<le> MAX_LEDGER_ENTRIES"
    using append_entry_length [OF one] normalize_length [OF m(1)] assms(4) by simp
  show ?thesis
  proof (cases "closed_offer (map_of ?start (handle_of o1))")
    case True
    then obtain x where x: "map_of ?start (handle_of o1) = Some x" by (auto simp: closed_offer_def split: option.splits)
    then have old: "x \<in> set old" "handle_of x = handle_of o1" by (auto dest!: map_of_SomeD)
    have "merged = ?start" using one True assms(2) by (simp add: append_entry_def Let_def)
    then have "map_of merged (handle_of x) = Some x" using x old(2) by simp
    then obtain item item' where i: "(if is_offer x then ensure_transaction_draft sha None x else Some x) = Some item"
      "expire_entry sha now item = Some item'" "length merged \<le> MAX_LEDGER_ENTRIES \<longrightarrow> item' \<in> set rows"
      using normalize_at [OF m(5,4) _ normal_fixed(3) [OF normal_start(3) [OF m(2) old(1)]], of "handle_of x"] by blast
    have "x \<in> set rows" using i(3) short normal_kept [OF normal_start(3) [OF m(2) old(1)] i(1,2)] by simp
    then show ?thesis using m(1) old x True by auto
  next
    case False
    then obtain e where e: "appended sha now (map_of ?start (handle_of o1)) o1 = Some e"
      "merged = AList.update (handle_of o1) e ?start"
      using one handle_truthy [OF assms(3)] by (auto simp: append_entry_def Let_def)
    note c = appended_carries [OF e(1)]
    have "map_of merged (handle_of o1) = Some e" by (simp add: e(2) update_conv')
    then obtain item item' where i: "(if is_offer e then ensure_transaction_draft sha None e else Some e) = Some item"
      "expire_entry sha now item = Some item'" "length merged \<le> MAX_LEDGER_ENTRIES \<longrightarrow> item' \<in> set rows"
      using normalize_at [OF m(5,4), of "handle_of o1" e] carries_entry(1) [OF c] assms(3) by blast
    have "carries item e" using i(1) ensure_carries by (cases "is_offer e") (auto simp: carries_def)
    then have "carries item' o1" using expire_carries [OF i(2)] c carries_trans by blast
    then show ?thesis using i(3) short carries_entry(2) by blast
  qed
qed

lemma find_listed:
  assumes "find_handle sha now (map PDict rows) h scope kinds rtypes active = Some found"
    and "normal_ledger sha now rows" and "e \<in> set rows" and "handle_of e = h"
  shows "found = (if readable scope kinds rtypes active e then Some e else None)"
proof -
  obtain led where led: "normalize_ledger sha now (map PDict rows) = Some led"
    "found = (case find (\<lambda>item. handle_of item = h) led of None \<Rightarrow> None
       | Some item \<Rightarrow> if readable scope kinds rtypes active item then Some item else None)"
    using assms(1) by (auto simp: find_handle_def)
  have "e \<in> set led" using normal_reread(1) [OF assms(2) led(1)] assms(3) by blast
  moreover have "normal_ledger sha now led" using led(1) by (rule normalize_cases)
  ultimately have "find (\<lambda>item. handle_of item = h) led = Some e" using normal_start(4) [of sha now led e] assms(4) by simp
  then show ?thesis by (simp add: led(2))
qed

end
