(* ===== verification/Commit_Safety.thy ===== *)
theory Commit_Safety
  imports Txn_Commit Ledger_Facts Txn_Properties
begin

text \<open>
  The commit node executes the command the customer confirmed, and nothing else: from the card
  through the ledger, the digest and the reservation to the one business call.
\<close>

section \<open>The draft through the ledger\<close>

lemma found_entry:
  assumes "find_handle sha now entries h scope kinds rtypes active = Some (Some item)"
  obtains old where "normalize_ledger sha now entries = Some old" "normal_ledger sha now old" "item \<in> set old"
    "handle_of item = h" "readable scope kinds rtypes active item"
proof -
  obtain old where old: "normalize_ledger sha now entries = Some old" "find (\<lambda>x. handle_of x = h) old = Some item"
    "readable scope kinds rtypes active item"
    using assms by (auto simp: find_handle_def split: option.splits if_splits)
  have "item \<in> set old" "handle_of item = h" using old(2) by (auto simp: find_Some_iff)
  then show thesis using that old normalize_cases [OF old(1)] by blast
qed

definition scoped :: "pydict \<Rightarrow> pydict \<Rightarrow> bool" where
  "scoped state o1 \<longleftrightarrow> same_scope (dict_if (dget o1 ''scope'')) (scope_for_state state)"

lemma readable_offer: "readable (scope_for_state state) [''offer''] [] False o1 \<longleftrightarrow> scoped state o1 \<and> is_offer o1"
  by (auto simp: readable_def scoped_def is_offer_def)

lemma carries_scoped: "carries e o1 \<Longrightarrow> scoped state e = scoped state o1"
  by (simp add: scoped_def carriesD [of e o1 "''scope''"] maintained_def normal_fields_def)

lemma carries_payload:
  assumes "carries e o1"
  shows "canonical_command_payload e = canonical_command_payload o1"
  by (rule canonical_frame, rule carriesD [OF assms]) (auto simp: effect_fields_def maintained_def normal_fields_def)

text \<open>An offer appended and read back: it is listed as it was, or its draft had been closed.\<close>

lemma reread_listed:
  assumes "reread_offer e state ledger h o1 = Some (rows, cur)" and "is_offer o1" and "valid_entry o1" and "handle_of o1 = h"
    and "scoped state o1" and "length ledger < MAX_LEDGER_ENTRIES"
    and "\<And>old p. normalize_ledger (ne_sha e) (ne_now e) ledger = Some old \<Longrightarrow> p \<in> set old \<Longrightarrow> handle_of p = h
      \<Longrightarrow> closed_offer (Some p) \<Longrightarrow> scoped state p"
  shows "normal_ledger (ne_sha e) (ne_now e) rows \<and> cur \<in> set rows \<and> handle_of cur = h \<and> is_offer cur \<and> scoped state cur
    \<and> (carries cur o1 \<or> (\<exists>old. normalize_ledger (ne_sha e) (ne_now e) ledger = Some old \<and> cur \<in> set old
        \<and> closed_offer (Some cur)))"
proof -
  obtain found where r: "append_entries (ne_sha e) (ne_now e) ledger [PDict o1] = Some rows"
    "find_handle (ne_sha e) (ne_now e) (map PDict rows) h (scope_for_state state) [''offer''] [] False = Some found"
    "cur = (case found of None \<Rightarrow> o1 | Some o2 \<Rightarrow> o2)"
    using assms(1) by (auto simp: reread_offer_def bind_Some_iff)
  obtain x where x: "x \<in> set rows" "handle_of x = h" "carries x o1
      \<or> (\<exists>old. normalize_ledger (ne_sha e) (ne_now e) ledger = Some old \<and> x \<in> set old \<and> closed_offer (Some x))"
    using append_offer [OF r(1) assms(2,3,6)] assms(4) by blast
  have normal: "normal_ledger (ne_sha e) (ne_now e) rows"
    using append_cases [OF r(1)] normalize_cases by metis
  have off: "is_offer x" using x(3) carries_entry(3) [of x o1] assms(2) by (auto simp: closed_offer_def)
  have sc: "scoped state x" using x(2,3) carries_scoped [of x o1 state] assms(5,7) by blast
  have "found = Some x" using find_listed [OF r(2) normal x(1,2)] off sc by (simp add: readable_offer)
  then show ?thesis using normal x off sc by (simp add: r(3))
qed

lemma normal_digest:
  assumes "normal_entry sha now o1" and "is_offer o1"
  shows "offer_digest sha o1 = command_digest_for_offer sha o1"
proof -
  have e: "ensure_transaction_draft sha None o1 = Some o1" using assms by (rule normal_fixed(2))
  have kind: "text_of (dget o1 ''kind'') = ''offer''" using assms(2) by (rule is_offer_kind)
  obtain new revision changed where c: "canonical_command_payload o1 = Some new" "o1 = ensured_row sha o1 new revision changed"
    using e unfolding ensure_offer [OF kind] bind_Some_iff by auto metis
  have "dget o1 ''command_digest'' = PStr (sha (canonical_json (PDict new)))"
    using dget_map_of [OF ensured_fields(7) [of sha o1 new revision changed]] c(2) by simp
  then show ?thesis using c(1) by (simp add: offer_digest_def command_digest_for_offer_def py_str_def)
qed

section \<open>The command of the draft\<close>

lemma dset_not_Nil: "dset k (PStr t) d \<noteq> []"
proof
  assume "dset k (PStr t) d = []"
  then have "dget (dset k (PStr t) d) k = PNone" by simp
  then show False by simp
qed

lemma build_envelope_id:
  assumes "build_business_command_envelope sha ps state o1 target = Inr envelope"
  shows "envelope \<noteq> []"
  using assms dset_not_Nil
  by (auto simp: build_business_command_envelope_def Let_def split: option.splits if_splits sum.splits)

lemma envelope_payload:
  assumes "dget o1 ''business_command_envelope'' = PDict envelope" and "envelope \<noteq> []"
  shows "canonical_command_payload o1 = envelope_command o1 envelope"
  using assms by (simp add: canonical_command_payload_def dict_if_def)

lemma envelope_command_frame:
  assumes "dget o1 ''action_id'' = dget o2 ''action_id''" and "dget o1 ''operation'' = dget o2 ''operation''"
  shows "envelope_command o1 envelope = envelope_command o2 envelope"
  by (simp only: envelope_command_def assms)

section \<open>The business call\<close>

text \<open>The port with a log of the commands it executes.\<close>

definition logged :: "'w business_port \<Rightarrow> ('w \<times> (pydict \<times> string) list) business_port" where
  "logged port =
     \<lparr>bp_read = (\<lambda>s a rtype rid. let (w, r) = bp_read port (fst s) a rtype rid in ((w, snd s), r)),
      bp_preview = (\<lambda>s a rtype rid op d. let (w, r) = bp_preview port (fst s) a rtype rid op d in ((w, snd s), r)),
      bp_execute = (\<lambda>s envelope key. let (w, r) = bp_execute port (fst s) envelope key
         in ((w, snd s @ [(envelope, key)]), r))\<rparr>"

lemma executed_log:
  "snd (fst (execute_envelope ps (bp_execute (logged port)) s envelope key)) \<in> {snd s, snd s @ [(envelope, key)]}"
  by (auto simp: execute_envelope_def logged_def Let_def split: option.split plugin_fault.split prod.split)

lemma preflight_log: "snd (fst (refresh_offer_preflight e (logged port) state o1 target s)) = snd s"
  by (auto simp: refresh_offer_preflight_def logged_def Let_def split: option.split prod.split)

lemma committing_fields:
  assumes "committing_offer e state cur authority attempt = Some o1"
    and "k \<notin> set maintained" and "k \<notin> {''commit_attempt_id'', ''updated_turn''}"
  shows "dget o1 k = dget cur k"
proof -
  obtain moved turn where m: "transition_draft (ne_sha e) cur ''COMMITTING'' None None = Some moved"
    "o1 = stamped turn (dset ''commit_attempt_id'' (opt_val attempt) (dset ''active_grant_id'' (dget authority ''grant_id'') moved))"
    using assms(1) by (auto simp: committing_offer_def bind_Some_iff)
  then show ?thesis
    using assms(2,3) carriesD [OF transition_carries [OF m(1)] assms(2)]
    by (auto simp: stamped_def maintained_def normal_fields_def)
qed

lemma execute_reserved_log:
  assumes "execute_reserved e (logged port) state (map PDict rows) h cur authority attempt key db s = (db', s', patch)"
    and "normal_ledger (ne_sha e) (ne_now e) rows" and "cur \<in> set rows" and "handle_of cur = h" and "is_offer cur"
    and "scoped state cur" and "length rows < MAX_LEDGER_ENTRIES"
    and "dget cur ''business_command_envelope'' = PDict envelope"
  shows "snd s' \<in> {snd s, snd s @ [(envelope, key)]}"
proof (cases "do { o1 \<leftarrow> committing_offer e state cur authority attempt; reread_offer e state (map PDict rows) h o1 }")
  case None
  then show ?thesis using assms(1) by (simp add: execute_reserved_def)
next
  case (Some found)
  then obtain o1 rows2 x where o1: "committing_offer e state cur authority attempt = Some o1"
    "reread_offer e state (map PDict rows) h o1 = Some (rows2, x)" "found = (rows2, x)"
    by (cases found) (auto simp: bind_Some_iff)
  note f = committing_fields [OF o1(1)]
  have v: "valid_entry o1 = valid_entry cur" "handle_of o1 = handle_of cur" "is_offer o1 = is_offer cur"
    by (rule valid_frame; rule f [OF validity_not_maintained]; auto simp: validity_fields_def)+
  have sc: "scoped state o1" using assms(6) f [of "''scope''"] by (simp add: scoped_def maintained_def normal_fields_def)
  have valid: "valid_entry cur" using normal_start(3) [OF assms(2,3)] by (rule normal_fixed(3))
  have prior: "p = cur" if "normalize_ledger (ne_sha e) (ne_now e) (map PDict rows) = Some old" "p \<in> set old" "handle_of p = h"
    for old p
    using normal_reread(2) [OF assms(2) that(1,2) assms(3)] that(3) assms(4) by simp
  have sh: "length (map PDict rows) < MAX_LEDGER_ENTRIES" using assms(7) by simp
  have off: "is_offer o1" "valid_entry o1" "handle_of o1 = h" using v valid assms(4,5) by simp_all
  have "carries x o1 \<or> x = cur"
    using reread_listed [OF o1(2) off sc sh] prior assms(6) by blast
  then have "dget x ''business_command_envelope'' = PDict envelope"
  proof
    assume "carries x o1"
    then have "dget x ''business_command_envelope'' = dget o1 ''business_command_envelope''"
      by (rule carriesD) (simp add: maintained_def normal_fields_def)
    also have "\<dots> = dget cur ''business_command_envelope''" by (rule f) (simp_all add: maintained_def normal_fields_def)
    finally show ?thesis using assms(8) by simp
  qed (use assms(8) in simp)
  then have "s' = fst (execute_envelope (ne_plugins e) (bp_execute (logged port)) s envelope key)"
    using assms(1) Some o1(3) by (auto simp: execute_reserved_def dict_or_empty_def Let_def split: prod.splits if_splits)
  then show ?thesis using executed_log by metis
qed

section \<open>The reservation\<close>

lemma look_appended: "key r \<notin> key ` set rows \<Longrightarrow> tbl_look key (rows @ [r]) (key r) = Some r"
  using tbl_look_None_iff [of key rows "key r"] by (simp add: tbl_look_append tbl_look_Cons)

lemma start_reserved_key:
  assumes "start_reserved e q r db = Inr (db', rv)" and "rv_reserved rv"
  shows "\<exists>t. rv_attempt rv = Some t \<and> ta_key t = ar_key q"
proof -
  let ?q = "q\<lparr>ar_correlation := correlated e (ar_correlation q)\<rparr>"
  let ?t = "new_attempt e ?q (draft_as_dict r)"
  have id: "ta_id ?t = ar_attempt q" "ta_key ?t = ar_key q" by (simp_all add: new_attempt_def)
  obtain rows where rows: "ta_id ?t \<notin> ta_id ` set rows" "rv_attempt rv = tbl_look ta_id (rows @ [?t]) (ar_attempt q)"
    using assms by (auto simp: start_reserved_def Let_def refused_def sql_insert_def split: if_splits)
  then have "rv_attempt rv = Some ?t" using look_appended [of ta_id ?t rows] id(1) by simp
  then show ?thesis using id(2) by blast
qed

lemma reserved_key:
  assumes "reserve_grant_and_start_attempt e q db = Inr (db', rv)" and "rv_reserved rv"
  shows "\<exists>t. rv_attempt rv = Some t \<and> ta_key t = ar_key q"
  using assms start_reserved_key
  by (auto simp: reserve_grant_and_start_attempt_def Let_def refused_def split: if_splits option.splits sum.splits)

text \<open>What a business call stands on: the digest the customer confirmed and the reserved grant.\<close>

definition confirmed_call :: "node_env \<Rightarrow> pydict \<Rightarrow> pydict \<Rightarrow> txn_db \<Rightarrow> pydict \<Rightarrow> string \<Rightarrow> bool" where
  "confirmed_call e authority offer db envelope key \<longleftrightarrow>
    (\<exists>command q g r. envelope_command offer envelope = Some command
       \<and> text_of (dget authority ''command_digest'') = ne_sha e (canonical_json (PDict command))
       \<and> ar_digest q = text_of (dget authority ''command_digest'')
       \<and> ar_grant q = text_of (dget authority ''grant_id'') \<and> ar_key q = key
       \<and> reservation_conditions (fe_txn (ne_flow e)) q db g r)"

lemma reserve_and_execute_log:
  assumes "reserve_and_execute e (logged port) state (map PDict rows) h cur authority db s = (db', s', patch)"
    and "normal_ledger (ne_sha e) (ne_now e) rows" and "cur \<in> set rows" and "handle_of cur = h" and "is_offer cur"
    and "scoped state cur" and "length rows < MAX_LEDGER_ENTRIES"
    and "dget cur ''business_command_envelope'' = PDict envelope" and "txn_inv db"
  shows "snd s' = snd s \<or> (\<exists>key q g r. snd s' = snd s @ [(envelope, key)]
    \<and> attempt_request_of (ne_flow e) state cur authority = Some q \<and> ar_key q = key
    \<and> reservation_conditions (fe_txn (ne_flow e)) q db g r)"
proof -
  obtain db1 answer where res: "reserve_for_authority (ne_flow e) state cur authority db = (db1, answer)"
    by (cases "reserve_for_authority (ne_flow e) state cur authority db")
  show ?thesis
  proof (cases "\<exists>rv. answer = Inr rv \<and> rv_reserved rv")
    case False
    then have "s' = s"
      using assms(1) by (auto simp: reserve_and_execute_def res Let_def split: sum.splits option.splits prod.splits if_splits)
    then show ?thesis by simp
  next
    case True
    then obtain rv where rv: "answer = Inr rv" "rv_reserved rv" by blast
    obtain q where q: "attempt_request_of (ne_flow e) state cur authority = Some q"
      "reserve_grant_and_start_attempt (fe_txn (ne_flow e)) q db = Inr (db1, rv)"
      using res rv(1) by (auto simp: reserve_for_authority_def split: option.splits sum.splits)
    obtain t where t: "rv_attempt rv = Some t" "ta_key t = ar_key q" using reserved_key [OF q(2) rv(2)] by blast
    have key: "stable_idempotency_key (ne_sha e) state cur = Some (ar_key q)"
      using q(1) by (auto simp: attempt_request_of_def bind_Some_iff)
    obtain g r where conds: "reservation_conditions (fe_txn (ne_flow e)) q db g r"
      using reservation_iff [OF assms(9)] q(2) rv(2) by blast
    have "execute_reserved e (logged port) state (map PDict rows) h cur authority (none_if_empty (ta_id t)) (ar_key q) db1 s
        = (db', s', patch)"
      using assms(1) by (cases "ar_key q = []") (simp_all add: reserve_and_execute_def res rv t key Let_def)
    then have "snd s' \<in> {snd s, snd s @ [(envelope, ar_key q)]}"
      using assms(2-8) by (rule execute_reserved_log)
    then show ?thesis using q(1) conds by blast
  qed
qed

section \<open>The whole node\<close>

text \<open>What the node did before the preflight: the draft it found, and what it checked.\<close>

definition confirmed_draft :: "node_env \<Rightarrow> pydict \<Rightarrow> pydict \<Rightarrow> bool" where
  "confirmed_draft e state offer \<longleftrightarrow>
     find_handle (ne_sha e) (ne_now e) (items_of (dget state ''artifact_ledger'')) (opt_str (get_focused_draft_id state))
       (scope_for_state state) [''offer''] [] False = Some (Some offer)
     \<and> state_text offer = ''AUTHORIZED'' \<and> snapshot_matches_registry (ne_sha e) (ne_plugins e) offer
     \<and> (\<exists>turn. turn_of state = Some turn
          \<and> validate_ui_authority (dict_if (dget state ''commit_authority'')) offer turn = Some (Inr ()))"

lemma sealed_fields:
  assumes "sealed_command e state offer envelope = Some o1"
  shows "dget o1 ''business_command_envelope'' = PDict envelope"
    and "k \<notin> {''business_command_envelope'', ''command_id'', ''updated_turn''} \<Longrightarrow> dget o1 k = dget offer k"
  using assms by (auto simp: sealed_command_def bind_Some_iff stamped_def Let_def)

lemma refreshed_fields:
  assumes "refreshed_inputs offer preview = Some o1"
  shows "k \<notin> {''preview'', ''input_values''} \<Longrightarrow> dget o1 k = dget offer k" and "dget o1 ''preview'' = PDict preview"
  using assms by (auto simp: refreshed_inputs_def bind_Some_iff Let_def)

lemma authorized_open: "state_text o1 = ''AUTHORIZED'' \<Longrightarrow> \<not> closed_offer (Some o1)"
  by (auto simp: closed_offer_def terminal_texts_def terminal_draft_states_def draft_state_text_def draft_states_def
      py_upper_def upper_char_def)

lemma valid_offer_frame:
  assumes "is_offer offer" and "valid_entry offer" and "dget o1 ''preview'' = PDict preview"
    and "\<And>k. k \<in> set validity_fields - {''preview''} \<Longrightarrow> dget o1 k = dget offer k"
  shows "valid_entry o1" and "is_offer o1" and "handle_of o1 = handle_of offer"
proof -
  have f: "dget o1 ''kind'' = dget offer ''kind''" "dget o1 ''handle'' = dget offer ''handle''"
    "dget o1 ''scope'' = dget offer ''scope''" "dget o1 ''action_id'' = dget offer ''action_id''"
    "dget o1 ''target_handle'' = dget offer ''target_handle''"
    using assms(4) by (simp_all add: validity_fields_def)
  have k: "kind_of offer = ''offer''" using assms(1) by (simp add: is_offer_def)
  show "is_offer o1" "handle_of o1 = handle_of offer" using k by (simp_all add: is_offer_def kind_of_def handle_of_def f)
  show "valid_entry o1"
    using assms(2,3) k by (auto simp: valid_entry_def Let_def kind_of_def handle_of_def f)
qed

lemma authorized_digest:
  assumes "normal_ledger (ne_sha e) (ne_now e) rows" and "cur \<in> set rows" and "is_offer cur" and "carries cur o1"
    and "dget o1 ''business_command_envelope'' = PDict envelope" and "envelope \<noteq> []"
    and "dget o1 ''action_id'' = dget offer ''action_id''" and "dget o1 ''operation'' = dget offer ''operation''"
    and "offer_digest (ne_sha e) cur = Some digest"
  shows "\<exists>command. envelope_command offer envelope = Some command \<and> digest = ne_sha e (canonical_json (PDict command))"
proof -
  have "canonical_command_payload cur = envelope_command offer envelope"
    using carries_payload [OF assms(4)] envelope_payload [OF assms(5,6)] envelope_command_frame [OF assms(7,8), of envelope]
    by simp
  then show ?thesis
    using assms(9) normal_digest [OF normal_start(3) [OF assms(1,2)] assms(3)] by (auto simp: command_digest_for_offer_def)
qed

text \<open>The sealed command in the ledger: the draft of the card with the rebuilt command.\<close>

lemma sealed_listed:
  assumes "normal_ledger (ne_sha e) (ne_now e) rows" and "offer \<in> set rows" and "is_offer offer" and "scoped state offer"
    and "state_text offer = ''AUTHORIZED''" and "length rows < MAX_LEDGER_ENTRIES" and "handle_of offer = h"
    and "refreshed_inputs offer preview = Some renewed" and "sealed_command e state renewed envelope = Some sealed"
    and "reread_offer e state (map PDict rows) h sealed = Some (rows2, cur)"
  shows "normal_ledger (ne_sha e) (ne_now e) rows2 \<and> cur \<in> set rows2 \<and> handle_of cur = h \<and> is_offer cur
    \<and> scoped state cur \<and> carries cur sealed"
    and "dget sealed ''action_id'' = dget offer ''action_id''" and "dget sealed ''operation'' = dget offer ''operation''"
proof -
  note q = sealed_fields [OF assms(9)]
  note r = refreshed_fields [OF assms(8)]
  have f: "dget sealed k = dget offer k"
    if "k \<notin> {''business_command_envelope'', ''command_id'', ''updated_turn'', ''preview'', ''input_values''}" for k
    using q(2) [of k] r(1) [of k] that by simp
  show "dget sealed ''action_id'' = dget offer ''action_id''" "dget sealed ''operation'' = dget offer ''operation''"
    by (rule f, simp)+
  have p: "dget sealed ''preview'' = PDict preview" using q(2) [of "''preview''"] r(2) by simp
  have fr: "dget sealed k = dget offer k" if "k \<in> set validity_fields - {''preview''}" for k
    using that by (intro f) (auto simp: validity_fields_def)
  note v = valid_offer_frame [OF assms(3) normal_fixed(3) [OF normal_start(3) [OF assms(1,2)]] p fr]
  have handle: "handle_of sealed = h" and valid: "is_offer sealed" "valid_entry sealed" using v assms(7) by simp_all
  have sc: "scoped state sealed" using f [of "''scope''"] assms(4) by (simp add: scoped_def)
  have prior: "x = offer" if "normalize_ledger (ne_sha e) (ne_now e) (map PDict rows) = Some old" "x \<in> set old"
    "handle_of x = h" for old x
    using normal_reread(2) [OF assms(1) that(1,2) assms(2)] that(3) assms(7) by simp
  have short: "length (map PDict rows) < MAX_LEDGER_ENTRIES" using assms(6) by simp
  have cur: "normal_ledger (ne_sha e) (ne_now e) rows2 \<and> cur \<in> set rows2 \<and> handle_of cur = h \<and> is_offer cur
    \<and> scoped state cur \<and> (carries cur sealed \<or> (\<exists>old. normalize_ledger (ne_sha e) (ne_now e) (map PDict rows) = Some old
      \<and> cur \<in> set old \<and> closed_offer (Some cur)))"
    by (rule reread_listed [OF assms(10) valid handle sc short]) (drule (2) prior, simp add: assms(4))
  then have "carries cur sealed" using prior authorized_open [OF assms(5)] by blast
  then show "normal_ledger (ne_sha e) (ne_now e) rows2 \<and> cur \<in> set rows2 \<and> handle_of cur = h \<and> is_offer cur
    \<and> scoped state cur \<and> carries cur sealed" using cur by blast
qed

lemma reread_length: "reread_offer e state ledger h o1 = Some (rows, cur) \<Longrightarrow> length rows \<le> Suc (length ledger)"
  using append_length [of "ne_sha e" "ne_now e" ledger "[PDict o1]"] by (auto simp: reread_offer_def bind_Some_iff)

lemma commit_previewed_log:
  assumes "commit_previewed e (logged port) state (map PDict rows) h offer target authority preview db s = (db', s', patch)"
    and "normal_ledger (ne_sha e) (ne_now e) rows" and "offer \<in> set rows" and "is_offer offer" and "scoped state offer"
    and "state_text offer = ''AUTHORIZED''" and "length rows + 1 < MAX_LEDGER_ENTRIES" and "handle_of offer = h"
    and "txn_inv db"
  shows "snd s' = snd s \<or> (\<exists>envelope key. snd s' = snd s @ [(envelope, key)]
    \<and> confirmed_call e authority offer db envelope key)"
proof (cases "refreshed_inputs offer preview")
  case None
  then show ?thesis using assms(1) by (simp add: commit_previewed_def)
next
  case renewed: (Some renewed)
  show ?thesis
  proof (cases "build_business_command_envelope (ne_sha e) (ne_plugins e) state renewed target")
    case (Inl f)
    then show ?thesis using assms(1) renewed
      by (cases f) (auto simp: commit_previewed_def Let_def split: prod.splits)
  next
    case (Inr envelope)
    show ?thesis
    proof (cases "do { sealed \<leftarrow> sealed_command e state renewed envelope;
        (rows, cur) \<leftarrow> reread_offer e state (map PDict rows) h sealed;
        digest \<leftarrow> offer_digest (ne_sha e) cur; Some (rows, cur, digest) }")
      case None
      then show ?thesis using assms(1) renewed Inr by (simp add: commit_previewed_def)
    next
      case (Some found)
      obtain rows2 cur digest where found: "found = (rows2, cur, digest)" by (cases found) auto
      obtain sealed where sealed: "sealed_command e state renewed envelope = Some sealed"
        "reread_offer e state (map PDict rows) h sealed = Some (rows2, cur)" "offer_digest (ne_sha e) cur = Some digest"
        using Some by (auto simp: bind_Some_iff found)
      have short: "length rows < MAX_LEDGER_ENTRIES" "length rows2 < MAX_LEDGER_ENTRIES"
        using assms(7) reread_length [OF sealed(2)] by simp_all
      note cur = sealed_listed [OF assms(2-6) short(1) assms(8) renewed sealed(1,2)]
      note q = sealed_fields(1) [OF sealed(1)]
      have bce: "dget cur ''business_command_envelope'' = PDict envelope"
        using carriesD [of cur sealed "''business_command_envelope''"] cur(1) q by (simp add: maintained_def normal_fields_def)
      obtain command where command: "envelope_command offer envelope = Some command"
        "digest = ne_sha e (canonical_json (PDict command))"
        using authorized_digest [OF _ _ _ _ q build_envelope_id [OF Inr] cur(2,3) sealed(3)] cur(1) by blast
      show ?thesis
      proof (cases "text_of (dget authority ''command_digest'') = digest")
        case False
        then show ?thesis using assms(1) renewed Inr Some
          by (auto simp: commit_previewed_def found Let_def split: prod.splits)
      next
        case True
        then have run: "reserve_and_execute e (logged port) state (map PDict rows2) h cur authority db s = (db', s', patch)"
          using assms(1) renewed Inr Some by (simp add: commit_previewed_def found)
        have "snd s' = snd s \<or> (\<exists>key q g r. snd s' = snd s @ [(envelope, key)]
            \<and> attempt_request_of (ne_flow e) state cur authority = Some q \<and> ar_key q = key
            \<and> reservation_conditions (fe_txn (ne_flow e)) q db g r)"
          using cur(1) by (intro reserve_and_execute_log [OF run _ _ _ _ _ short(2) bce assms(9)]) blast+
        moreover have "ar_digest q = digest" "ar_grant q = text_of (dget authority ''grant_id'')"
          if "attempt_request_of (ne_flow e) state cur authority = Some q" for q
          using that sealed(3) by (auto simp: attempt_request_of_def bind_Some_iff)
        ultimately show ?thesis using command True unfolding confirmed_call_def by metis
      qed
    qed
  qed
qed

text \<open>The artifact read before the preflight keeps the handle of the target.\<close>

lemma fresh_handle:
  assumes "d \<in> set (fresh_read e state target current)" and "text_of (dget target ''handle'') \<noteq> []"
  shows "handle_of d = handle_of target"
proof -
  have "handle_of (artifact_entry now fresh rtype rid label facts scope turn source freshness
      (none_if_empty (text_of (dget target ''handle'')))) = handle_of target"
    for now fresh rtype rid label facts scope turn source freshness
    using assms(2) by (simp add: artifact_entry_def dict_update_def base_entry_def handle_of_def handle_or_def)
  then show ?thesis
    using assms(1) by (auto simp: fresh_read_def Let_def split: sum.splits option.splits bool.splits prod.splits if_splits)
qed

lemma fresh_read_length: "length (fresh_read e state target current) \<le> 1"
  by (auto simp: fresh_read_def Let_def split: sum.split option.split bool.split)

lemma refresh_additions:
  assumes "refresh_offer_preflight e port state offer target s = (s1, preflight, additions)"
  obtains current where "additions = fresh_read e state target current"
  using assms by (auto simp: refresh_offer_preflight_def Let_def split: option.splits prod.splits)

lemma preflight_rows:
  assumes "find_handle (ne_sha e) (ne_now e) ledger h (scope_for_state state) [''offer''] [] False = Some (Some offer)"
    and "find_handle (ne_sha e) (ne_now e) ledger th (scope_for_state state) [''artifact''] rtypes False = Some (Some target)"
    and "append_entries (ne_sha e) (ne_now e) ledger (map PDict (fresh_read e state target current)) = Some rows"
    and "length ledger < MAX_LEDGER_ENTRIES"
  shows "normal_ledger (ne_sha e) (ne_now e) rows \<and> offer \<in> set rows \<and> length rows \<le> Suc (length ledger)"
proof -
  obtain old where o: "normalize_ledger (ne_sha e) (ne_now e) ledger = Some old"
    "normal_ledger (ne_sha e) (ne_now e) old" "offer \<in> set old" "handle_of offer = h"
    "readable (scope_for_state state) [''offer''] [] False offer"
    using found_entry [OF assms(1)] by blast
  obtain old' where t: "normalize_ledger (ne_sha e) (ne_now e) ledger = Some old'" "target \<in> set old'"
    "readable (scope_for_state state) [''artifact''] rtypes False target"
    using found_entry [OF assms(2)] by blast
  have target: "target \<in> set old" using o(1) t(1,2) by simp
  have "valid_entry target" using normal_start(3) [OF o(2) target] by (rule normal_fixed(3))
  then have th: "text_of (dget target ''handle'') \<noteq> []" by (simp add: valid_entry_def Let_def handle_of_def)
  have "handle_of target \<noteq> handle_of offer"
  proof
    assume same: "handle_of target = handle_of offer"
    let ?m = "map_of (map (\<lambda>item. (handle_of item, item)) old)"
    have m: "?m (handle_of target) = Some target" by (rule normal_start(2) [OF o(2) target])
    have "?m (handle_of offer) = Some offer" by (rule normal_start(2) [OF o(2,3)])
    then have "Some offer = Some target" using m unfolding same by (rule trans [OF sym])
    then have "offer = target" by (rule option.inject [THEN iffD1])
    then show False using o(5) t(3) by (auto simp: readable_def)
  qed
  then have other: "handle_of d \<noteq> handle_of offer" if "PDict d \<in> set (map PDict (fresh_read e state target current))" for d
    using that fresh_handle [OF _ th] by auto
  have len: "length ledger + length (map PDict (fresh_read e state target current)) \<le> MAX_LEDGER_ENTRIES"
    using assms(4) fresh_read_length [of e state target current] by simp
  have "normal_ledger (ne_sha e) (ne_now e) rows" using append_cases [OF assms(3)] normalize_cases by metis
  moreover have "offer \<in> set rows" by (rule append_other(2) [OF assms(3) o(1,3) other len])
  ultimately show ?thesis using append_length [OF assms(3)] fresh_read_length [of e state target current] by simp
qed

lemma commit_authorized_log:
  assumes "commit_authorized e (logged port) state ledger h offer authority db s = (db', s', patch)"
    and "find_handle (ne_sha e) (ne_now e) ledger h (scope_for_state state) [''offer''] [] False = Some (Some offer)"
    and "state_text offer = ''AUTHORIZED''" and "length ledger + 3 \<le> MAX_LEDGER_ENTRIES" and "txn_inv db"
  shows "snd s' = snd s \<or> (\<exists>envelope key. snd s' = snd s @ [(envelope, key)]
    \<and> confirmed_call e authority offer db envelope key)"
proof -
  let ?found = "find_handle (ne_sha e) (ne_now e) ledger (text_of (dget offer ''target_handle'')) (scope_for_state state)
    [''artifact''] (allowed_target_resource_types (ne_plugins e) (text_of (dget offer ''action_id''))) False"
  show ?thesis
  proof (cases "\<exists>target. ?found = Some (Some target)")
    case False
    then have "s' = s" using assms(1) by (auto simp: commit_authorized_def Let_def split: option.splits)
    then show ?thesis by simp
  next
    case True
    then obtain target where target: "?found = Some (Some target)" by blast
    obtain s1 preflight additions where pre: "refresh_offer_preflight e (logged port) state offer target s = (s1, preflight, additions)"
      by (cases "refresh_offer_preflight e (logged port) state offer target s") auto
    have log: "snd s1 = snd s" using preflight_log [of e port state offer target s] pre by simp
    show ?thesis
    proof (cases "\<exists>rows preview. append_entries (ne_sha e) (ne_now e) ledger (map PDict additions) = Some rows
        \<and> preflight_passed preflight = Some preview")
      case False
      then have "s' = s1" using assms(1)
        by (auto simp: commit_authorized_def target pre Let_def split: option.splits prod.splits)
      then show ?thesis using log by simp
    next
      case True
      then obtain rows preview where rows: "append_entries (ne_sha e) (ne_now e) ledger (map PDict additions) = Some rows"
        "preflight_passed preflight = Some preview" by blast
      obtain current where cur: "additions = fresh_read e state target current" using refresh_additions [OF pre] .
      have ledger: "normal_ledger (ne_sha e) (ne_now e) rows \<and> offer \<in> set rows \<and> length rows \<le> Suc (length ledger)"
        using assms(4) by (intro preflight_rows [OF assms(2) target rows(1) [unfolded cur]]) simp
      obtain old where o: "handle_of offer = h" "readable (scope_for_state state) [''offer''] [] False offer"
        using found_entry [OF assms(2)] by blast
      have run: "commit_previewed e (logged port) state (map PDict rows) h offer target authority preview db s1 = (db', s', patch)"
        using assms(1) by (simp add: commit_authorized_def target pre rows)
      have "snd s' = snd s1 \<or> (\<exists>envelope key. snd s' = snd s1 @ [(envelope, key)]
          \<and> confirmed_call e authority offer db envelope key)"
        using ledger o assms(3-5) by (intro commit_previewed_log [OF run]) (simp_all add: readable_offer)
      then show ?thesis using log by simp
    qed
  qed
qed

text \<open>
  C2. The commit node makes at most one business call, and only for the command the customer
  confirmed: the draft in focus is authorised, its frozen capability is still the registered
  one, the authority fits its card; the command that is sent hashes to the digest in the
  authority; and the grant of the authority was still issued, unexpired and for exactly that
  digest and revision when the attempt, whose idempotency key goes with the call, was
  reserved. This holds through three appends to the ledger and whatever the preflight reads.
\<close>

theorem commit_executes_confirmed_command:
  assumes "commit_action_node e (logged port) state db (w, []) = (db', (w', calls), patch)"
    and "length (items_of (dget state ''artifact_ledger'')) + 3 \<le> MAX_LEDGER_ENTRIES" and "txn_inv db"
  shows "calls = [] \<or> (\<exists>offer envelope key. calls = [(envelope, key)] \<and> confirmed_draft e state offer
    \<and> confirmed_call e (dict_if (dget state ''commit_authority'')) offer db envelope key)"
proof -
  let ?ledger = "items_of (dget state ''artifact_ledger'')" and ?h = "opt_str (get_focused_draft_id state)"
  let ?authority = "dict_if (dget state ''commit_authority'')"
  show ?thesis
  proof (cases "\<exists>offer. confirmed_draft e state offer")
    case False
    then have "(w', calls) = (w, [])" using assms(1)
      by (auto simp: commit_action_node_def confirmed_draft_def Let_def split: option.splits sum.splits prod.splits if_splits)
    then show ?thesis by simp
  next
    case True
    then obtain offer where offer: "confirmed_draft e state offer" by blast
    then have f: "find_handle (ne_sha e) (ne_now e) ?ledger ?h (scope_for_state state) [''offer''] [] False = Some (Some offer)"
      "state_text offer = ''AUTHORIZED''" by (simp_all add: confirmed_draft_def)
    have run: "commit_authorized e (logged port) state ?ledger ?h offer ?authority db (w, []) = (db', (w', calls), patch)"
      using assms(1) offer by (auto simp: commit_action_node_def confirmed_draft_def Let_def)
    show ?thesis using commit_authorized_log [OF run f assms(2,3)] offer by auto
  qed
qed

text \<open>A card in focus, over a port that knows no resource.\<close>

definition card_env :: node_env where
  "card_env = \<lparr>ne_flow = \<lparr>fe_txn = sample_txn_env 3, fe_sha = (\<lambda>t. ''x''), fe_fresh = (\<lambda>p. ''n'')\<rparr>,
     ne_plugins = default_order_operations\<rparr>"

definition card_state :: pydict where
  "card_state = [(''current_tenant_id'', PStr ''t''), (''current_user_id'', PStr ''u''), (''current_thread_id'', PStr ''th''),
     (''turn_index'', PInt 3), (''focused_draft_id'', PStr ''d''), (''artifact_ledger'', PList [PDict sample_offer]),
     (''commit_authority'', PDict [(''grant_id'', PStr ''g''), (''command_digest'', PStr ''x'')])]"

definition card_port :: "unit business_port" where
  "card_port = \<lparr>bp_read = (\<lambda>w a t i. (w, Inl (ServiceError 404 ''none''))),
     bp_preview = (\<lambda>w a t i op d. (w, Inr [(''success'', PBool True), (''data'', PDict [(''decision'', PStr ''ALLOWED'')])])),
     bp_execute = (\<lambda>w c k. (w, Inr [(''success'', PBool True)]))\<rparr>"

theorem commit_executes_confirmed_command_witness:
  "\<exists>db' calls patch. commit_action_node card_env (logged card_port) card_state open_store ((), []) = (db', ((), calls), patch)
    \<and> (calls = [] \<or> (\<exists>offer envelope key. calls = [(envelope, key)] \<and> confirmed_draft card_env card_state offer
      \<and> confirmed_call card_env [(''grant_id'', PStr ''g''), (''command_digest'', PStr ''x'')] offer open_store envelope key))"
proof -
  obtain db' calls patch where run:
    "commit_action_node card_env (logged card_port) card_state open_store ((), []) = (db', ((), calls), patch)"
    by (cases "commit_action_node card_env (logged card_port) card_state open_store ((), [])") auto
  have short: "length (items_of (dget card_state ''artifact_ledger'')) + 3 \<le> MAX_LEDGER_ENTRIES"
    by (simp add: card_state_def items_of_def MAX_LEDGER_ENTRIES_def)
  have "dict_if (dget card_state ''commit_authority'') = [(''grant_id'', PStr ''g''), (''command_digest'', PStr ''x'')]"
    by (simp add: card_state_def dict_if_def)
  then show ?thesis using commit_executes_confirmed_command [OF run short open_store_inv] run by simp
qed

end
