(* ===== verification/Commit_Effects.thy ===== *)
theory Commit_Effects
  imports Commit_Safety
begin

text \<open>
  What the commit node writes: only runs of the store's own calls, whatever path it takes, and
  what it tells the customer when the reservation is refused.
\<close>

section \<open>Store calls\<close>

lemmas run_call = txn_run.call

lemma create_run: "txn_run x db \<Longrightarrow> create_draft e r db = (db1, o1) \<Longrightarrow> txn_run x db1"
  using run_call [of x db e "CreateDraft r"] by simp

lemma advance_run: "txn_run x db \<Longrightarrow> txn_run x (advance_draft e i ch db)"
  using run_call [of x db e "AdvanceDraft i ch"] by simp

lemma receipt_run: "txn_run x db \<Longrightarrow> record_receipt e c db = Inr (db1, o1) \<Longrightarrow> txn_run x db1"
  using run_call [of x db e "RecordReceipt c"] by (simp add: state_after_def)

lemma reserve_run: "txn_run x db \<Longrightarrow> reserve_grant_and_start_attempt e q db = Inr (db1, rv) \<Longrightarrow> txn_run x db1"
  using run_call [of x db e "ReserveGrant q"] by (simp add: state_after_def)

lemma consume_run: "txn_run x db \<Longrightarrow> txn_run x (consume_grant e i a h db)"
  using run_call [of x db e "ConsumeGrant i a h"] by simp

lemma revoke_run: "txn_run x db \<Longrightarrow> txn_run x (revoke_grant e i why db)"
  using run_call [of x db e "RevokeGrant i why"] by simp

lemma transition_run: "txn_run x db \<Longrightarrow> transition_attempt e i ch db = Inr db1 \<Longrightarrow> txn_run x db1"
  using run_call [of x db e "TransitionAttempt i ch"] by simp

section \<open>The parts of the node\<close>

lemma settle_run: "txn_run x db \<Longrightarrow> txn_run x (settle_outcome_grant e grant o1 h db)"
  by (simp add: settle_outcome_grant_def consume_run revoke_run)

lemma persist_run: "txn_run x db \<Longrightarrow> persist_draft_from_offer e state offer st g a db = Some (db1, o1) \<Longrightarrow> txn_run x db1"
  by (auto simp: persist_draft_from_offer_def intro: create_run)

lemma outcome_writes_run:
  assumes "txn_run x db"
  shows "txn_run x (fst (outcome_writes e state offer next_offer h o1 db))"
proof -
  let ?x = "fe_txn (ne_flow e)"
  define receipt where "receipt = (if co_receipt o1
    then record_transaction_receipt (ne_flow e) state next_offer (co_attempt o1) (Some h)
      (if truthy (dget (co_result o1) ''success'') then ''SUCCESS'' else ''FAILED'') (co_result o1) db
    else Inr (db, None))"
  define advanced where "advanced db1 = (if truthy_str (co_attempt o1)
    then map_option (\<lambda>ch. advance_draft ?x (offer_draft_id next_offer) ch db1) (outcome_change e next_offer o1)
    else Some db1)" for db1
  define moved where "moved db2 = (if h \<noteq> [] \<and> truthy_str (co_attempt o1)
    then transition_attempt ?x (opt_str (co_attempt o1)) (attempt_outcome o1 h) db2 else Inr db2)" for db2
  have r: "txn_run x db1" if "receipt = Inr (db1, o2)" for db1 o2
    using that assms receipt_run by (auto simp: receipt_def record_transaction_receipt_def split: if_splits)
  have a: "txn_run x db2" if "advanced db1 = Some db2" "txn_run x db1" for db1 db2
    using that advance_run by (auto simp: advanced_def split: if_splits)
  have m: "txn_run x db3" if "moved db2 = Inr db3" "txn_run x db2" for db2 db3
    using that transition_run by (auto simp: moved_def split: if_splits)
  have w: "outcome_writes e state offer next_offer h o1 db = (case receipt of Inl _ \<Rightarrow> (db, False)
    | Inr (db1, _) \<Rightarrow> (case advanced db1 of None \<Rightarrow> (db1, False)
    | Some db2 \<Rightarrow> (case moved db2 of Inl _ \<Rightarrow> (db2, False)
    | Inr db3 \<Rightarrow> (settle_outcome_grant e (text_of (dget offer ''active_grant_id'')) o1 h db3, True))))"
    unfolding outcome_writes_def Let_def receipt_def advanced_def moved_def ..
  show ?thesis
  proof (cases receipt)
    case (Inr p)
    obtain db1 o2 where p: "p = (db1, o2)" by (cases p)
    have run1: "txn_run x db1" using r Inr p by blast
    show ?thesis
    proof (cases "advanced db1")
      case (Some db2)
      have run2: "txn_run x db2" using a [OF Some run1] .
      show ?thesis
        using Inr p Some run2 by (cases "moved db2") (simp_all add: w settle_run [OF m])
    qed (use Inr p run1 in \<open>simp add: w\<close>)
  qed (use assms in \<open>simp add: w\<close>)
qed

lemma update_run:
  assumes "txn_run x db"
  shows "txn_run x (fst (transaction_commit_update e state ledger offer o1 db))"
proof -
  have "txn_run x db1" if "outcome_writes e state offer next_offer h o1 db = (db1, b)" for next_offer h db1 b
    using outcome_writes_run [OF assms, of e state offer next_offer h o1] that by simp
  then show ?thesis using assms
    by (auto simp: transaction_commit_update_def split: option.split prod.split bool.split)
qed

lemma awaiting_run: "txn_run x db \<Longrightarrow> txn_run x (fst (mark_offer_awaiting_authority e state offer ledger db))"
  by (auto simp: mark_offer_awaiting_authority_def intro: persist_run split: option.split prod.split)

lemma reauthorize_run: "txn_run x db \<Longrightarrow> txn_run x (fst (reauthorize e state ledger offer authority db))"
  by (simp add: reauthorize_def Let_def awaiting_run revoke_run)

lemma rejected_runs:
  assumes "txn_run x db"
  shows "txn_run x (fst (authority_rejected e state ledger offer authority reason db))"
    and "txn_run x (fst (preflight_rejected e state ledger offer preflight db))"
    and "txn_run x (fst (envelope_rejected e state ledger offer err db))"
    and "txn_run x (fst (already_reserved e state ledger offer t attempt key db))"
  using assms
  by (auto simp: authority_rejected_def preflight_rejected_def envelope_rejected_def already_reserved_def Let_def
      intro: update_run revoke_run split: option.split prod.split)

lemma after_execution_run: "txn_run x db \<Longrightarrow> txn_run x (fst (after_execution e state ledger offer attempt key result db))"
  by (auto simp: after_execution_def Let_def intro: update_run transition_run split: sum.split)

lemma fst_case_pair: "fst (case p of (a, b) \<Rightarrow> (a, w, b)) = fst p"
  by (cases p) simp

lemma execute_reserved_run:
  "txn_run x db \<Longrightarrow> txn_run x (fst (execute_reserved e port state ledger h offer authority attempt key db w))"
  by (auto simp: execute_reserved_def Let_def fst_case_pair intro: after_execution_run split: option.split prod.split)

lemma reserve_and_execute_run:
  assumes "txn_run x db"
  shows "txn_run x (fst (reserve_and_execute e port state ledger h offer authority db w))"
proof (cases "reserve_for_authority (ne_flow e) state offer authority db")
  case (Pair db1 answer)
  then have db1: "txn_run x db1"
    using assms by (auto simp: reserve_for_authority_def intro: reserve_run split: option.splits sum.splits)
  show ?thesis
    using Pair db1
    by (auto simp: reserve_and_execute_def Let_def fst_case_pair intro: execute_reserved_run rejected_runs
        split: sum.split option.split if_splits)
qed

lemma previewed_run:
  "txn_run x db \<Longrightarrow> txn_run x (fst (commit_previewed e port state ledger h offer target authority preview db w))"
  by (auto simp: commit_previewed_def fst_case_pair intro: rejected_runs reauthorize_run reserve_and_execute_run
      split: option.split sum.split plugin_fault.split prod.split)

lemma authorized_run: "txn_run x db \<Longrightarrow> txn_run x (fst (commit_authorized e port state ledger h offer authority db w))"
  by (auto simp: commit_authorized_def Let_def fst_case_pair intro: rejected_runs previewed_run
      split: option.split prod.split)


section \<open>A refused reservation\<close>

lemma refused_unused:
  assumes "reserve_grant_and_start_attempt e q db = Inr (db1, rv)" and "tbl_look ta_key (td_attempts db) (ar_key q) = None"
    and "\<not> rv_reserved rv"
  shows "rv_attempt rv = None \<and> td_attempts db1 = td_attempts db"
  using assms
  by (auto simp: reserve_grant_and_start_attempt_def start_reserved_def Let_def refused_def revoke_issued_def expire_grant_def
      set_grants_def split: sum.splits option.splits if_splits)

lemma nothing_known: "known_outcome t attempt key None = None"
  by (simp add: known_outcome_def)

lemma pending_writes:
  assumes "co_attempt o1 = None" and "\<not> co_receipt o1" and "co_result o1 = pending_result" and "co_state o1 = ''SUBMISSION_UNKNOWN''"
  shows "outcome_writes e state offer next_offer h o1 db = (db, True)"
  using assms by (simp add: outcome_writes_def settle_outcome_grant_def pending_result_def)

lemma pending_patch:
  assumes "outcome_patch e state rows offer o1 = Some patch" and "co_result o1 = pending_result"
    and "co_state o1 = ''SUBMISSION_UNKNOWN''" and "co_attempt o1 = None"
  shows "dget patch ''status'' = PStr (co_status o1)"
    and "dget (dict_if (dget patch ''action_gateway_result'')) ''decision'' = PStr ''submission_unknown''"
    and "dget (dict_if (dget patch ''action_gateway_result'')) ''attempt_id'' = PNone"
proof -
  obtain cards where p: "patch = [(''artifact_ledger'', PList (map PDict rows)), (''ledger_snapshot'', PDict cards)] @ clear_pending
     @ [(''offer_execution_result'', PDict (co_result o1)),
        (''action_gateway_result'', PDict
          [(''decision'', PStr (outcome_decision o1)), (''offer_handle'', dget offer ''handle''),
           (''draft_id'', py_or (dget offer ''draft_id'') (dget offer ''handle'')), (''draft_state'', PStr (co_state o1)),
           (''attempt_id'', opt_val (co_attempt o1)),
           (''command_id'', opt_val (none_if_empty (text_of (py_or (dget offer ''command_id'')
              (dget (dict_if (dget offer ''business_command_envelope'')) ''command_id''))))),
           (''idempotency_key'', opt_val (co_key o1)), (''action_id'', dget offer ''action_id''),
           (''result'', PDict (co_result o1))]),
        (''commit_authority'', PNone),
        (''phase'', PStr (if truthy (dget state ''action_queue'') \<and> co_state o1 \<noteq> ''SUBMISSION_UNKNOWN'' then ''action_gateway''
           else ''final'')),
        (''status'', PStr (co_status o1))]"
    using assms(1) by (auto simp: outcome_patch_def ledger_patch_def)
  show "dget patch ''status'' = PStr (co_status o1)"
    "dget (dict_if (dget patch ''action_gateway_result'')) ''decision'' = PStr ''submission_unknown''"
    "dget (dict_if (dget patch ''action_gateway_result'')) ''attempt_id'' = PNone"
    using assms(2-4) by (simp_all add: p clear_pending_def focused_draft_patch_def Let_def dict_if_def opt_val_def
        outcome_decision_def pending_result_def)
qed

lemma already_reserved_unknown:
  assumes "already_reserved e state ledger offer None None key db = (db', patch)"
  shows "db' = db" and "patch = Some p \<Longrightarrow> dget p ''status'' = PStr ''ActionCommitAlreadyInProgress''
    \<and> dget (dict_if (dget p ''action_gateway_result'')) ''decision'' = PStr ''submission_unknown''
    \<and> dget (dict_if (dget p ''action_gateway_result'')) ''attempt_id'' = PNone"
proof -
  let ?o = "\<lparr>co_result = pending_result, co_state = ''SUBMISSION_UNKNOWN'', co_attempt = None, co_key = Some key,
              co_status = ''ActionCommitAlreadyInProgress'', co_receipt = False\<rparr>"
  have u: "(db', patch) = (db, None) \<or> (\<exists>rows offer'. db' = db \<and> patch = outcome_patch e state rows offer' ?o)"
    using assms pending_writes [of ?o e state]
    by (auto simp: already_reserved_def nothing_known transaction_commit_update_def split: option.splits prod.splits)
  then show "db' = db" by auto
  show "dget p ''status'' = PStr ''ActionCommitAlreadyInProgress''
    \<and> dget (dict_if (dget p ''action_gateway_result'')) ''decision'' = PStr ''submission_unknown''
    \<and> dget (dict_if (dget p ''action_gateway_result'')) ''attempt_id'' = PNone" if "patch = Some p"
    using u that pending_patch [where ?o1.0 = ?o] by auto
qed

text \<open>
  C33. When the grant has expired by the time of the submission, nothing is submitted and no
  attempt is started; yet the node reports the draft as submitted with an unknown outcome,
  under an attempt that does not exist, so that no reconciliation ever resolves it.
\<close>

theorem expired_grant_reported_in_progress:
  assumes "txn_inv db" and "attempt_request_of (ne_flow e) state offer authority = Some q"
    and "tbl_look ta_key (td_attempts db) (ar_key q) = None"
    and "tbl_look gr_id (td_grants db) (ar_grant q) = Some g" and "gr_expires g = Some t" and "t \<le> ne_now e"
    and "reserve_and_execute e port state ledger h offer authority db w = (db', w', patch)"
  shows "w' = w \<and> td_attempts db' = td_attempts db
    \<and> (case patch of None \<Rightarrow> True | Some p \<Rightarrow> dget p ''status'' = PStr ''ActionCommitAlreadyInProgress''
        \<and> dget (dict_if (dget p ''action_gateway_result'')) ''decision'' = PStr ''submission_unknown''
        \<and> dget (dict_if (dget p ''action_gateway_result'')) ''attempt_id'' = PNone)"
proof -
  have "\<not> reservation_conditions (fe_txn (ne_flow e)) q db g' r" for g' r
    using assms(4-6) by (auto simp: reservation_conditions_def reservable_def)
  then have none: "\<not> rv_reserved rv" if "reserve_grant_and_start_attempt (fe_txn (ne_flow e)) q db = Inr (db1, rv)" for db1 rv
    using reservation_iff [OF assms(1)] that by blast
  show ?thesis
  proof (cases "reserve_grant_and_start_attempt (fe_txn (ne_flow e)) q db")
    case (Inl err)
    then show ?thesis using assms(7) by (auto simp: reserve_and_execute_def reserve_for_authority_def assms(2))
  next
    case (Inr pair)
    then obtain db1 rv where p: "pair = (db1, rv)" by (cases pair)
    note res = Inr [unfolded p]
    have rv: "\<not> rv_reserved rv" "rv_attempt rv = None" "td_attempts db1 = td_attempts db"
      using none [OF res] refused_unused [OF res assms(3)] by simp_all
    have key: "stable_idempotency_key (ne_sha e) state offer = Some (ar_key q)"
      using assms(2) by (auto simp: attempt_request_of_def bind_Some_iff)
    obtain db2 p2 where a: "already_reserved e state ledger offer None None (ar_key q) db1 = (db2, p2)"
      by (cases "already_reserved e state ledger offer None None (ar_key q) db1")
    have "(db', w', patch) = (db2, w, p2)"
      using assms(7) by (simp add: reserve_and_execute_def reserve_for_authority_def assms(2) res rv(1,2) key a)
    then show ?thesis using already_reserved_unknown [OF a] rv(3) by (auto split: option.split)
  qed
qed

section \<open>A sample\<close>

definition late_env :: node_env where
  "late_env = \<lparr>ne_flow = \<lparr>fe_txn = sample_txn_env 200, fe_sha = (\<lambda>t. ''x''), fe_fresh = (\<lambda>p. ''n'')\<rparr>, ne_plugins = []\<rparr>"

definition late_state :: pydict where
  "late_state = [(''current_tenant_id'', PStr ''t''), (''current_user_id'', PStr ''u''), (''current_thread_id'', PStr ''th''),
     (''turn_index'', PInt 3)]"

definition late_authority :: pydict where "late_authority = [(''grant_id'', PStr ''g'')]"

definition absent_port :: "unit business_port" where
  "absent_port = \<lparr>bp_read = (\<lambda>w a t i. (w, Inl (ServiceError 404 ''none''))),
     bp_preview = (\<lambda>w a t i op d. (w, Inl (ServiceError 404 ''none''))),
     bp_execute = (\<lambda>w c k. (w, Inl (ServiceError 404 ''none'')))\<rparr>"

lemma late_request:
  "map_option (\<lambda>q. (ar_key q, ar_grant q)) (attempt_request_of (ne_flow late_env) late_state sample_offer late_authority)
     = Some (''x'', ''g'')"
  by code_simp

theorem expired_grant_reported_in_progress_witness:
  "\<exists>db' patch. reserve_and_execute late_env absent_port late_state [] ''d'' sample_offer late_authority open_store ()
      = (db', (), patch) \<and> td_attempts db' = []
    \<and> (case patch of None \<Rightarrow> True | Some p \<Rightarrow> dget p ''status'' = PStr ''ActionCommitAlreadyInProgress''
        \<and> dget (dict_if (dget p ''action_gateway_result'')) ''decision'' = PStr ''submission_unknown''
        \<and> dget (dict_if (dget p ''action_gateway_result'')) ''attempt_id'' = PNone)"
proof -
  obtain q where q: "attempt_request_of (ne_flow late_env) late_state sample_offer late_authority = Some q"
    "ar_key q = ''x''" "ar_grant q = ''g''"
    using late_request by auto
  obtain db' patch where run: "reserve_and_execute late_env absent_port late_state [] ''d'' sample_offer late_authority open_store ()
      = (db', (), patch)"
    by (cases "reserve_and_execute late_env absent_port late_state [] ''d'' sample_offer late_authority open_store ()") auto
  let ?g = "sample_grant\<lparr>gr_issued := 2\<rparr>"
  have db: "td_attempts open_store = []" "tbl_look gr_id (td_grants open_store) ''g'' = Some ?g"
    by (simp_all add: open_store_value tbl_look_Cons sample_grant_def)
  have late: "gr_expires ?g = Some 100" "100 \<le> ne_now late_env"
    by (simp_all add: sample_grant_def late_env_def sample_txn_env_def)
  show ?thesis
    using expired_grant_reported_in_progress [OF open_store_inv q(1) _ _ late run] q(2,3) db run
    by (simp add: tbl_look_None_iff)
qed

end
