(* ===== verification/Goal_Text.thy ===== *)
theory Goal_Text
  imports Json
begin

text \<open>
  What the modules on goals share: the bounded text \<open>_text\<close>, fallible steps that answer the
  text of a \<open>ValueError\<close>, and loops over lists of untyped rows.
\<close>

section \<open>Bounded text\<close>

text \<open>\<open>_text(v, limit=n)\<close> is \<open>str(v or "").strip()[:n]\<close>.\<close>

definition limited :: "nat \<Rightarrow> pyval \<Rightarrow> string" where
  "limited n v = clip n (stripped v)"

text \<open>
  The slice may end in a blank, which a second application strips. A text is settled when the
  second application changes nothing.
\<close>

definition settled :: "nat \<Rightarrow> string \<Rightarrow> bool" where
  "settled n s = (py_strip s = s \<and> py_len s \<le> n)"

lemma stripped_PStr [simp]: "stripped (PStr s) = py_strip s"
  by (simp add: stripped_def)

lemma stripped_PNone [simp]: "stripped PNone = []"
  by (simp add: stripped_def)

lemma limited_PNone [simp]: "limited n PNone = []"
  by (simp add: limited_def)

lemma limited_settled [simp]: "settled n s \<Longrightarrow> limited n (PStr s) = s"
  by (simp add: limited_def settled_def)

lemma limited_PStr_settled: "limited n (PStr s) = s \<longleftrightarrow> settled n s"
proof
  assume eq: "limited n (PStr s) = s"
  show "settled n s"
  proof (cases "py_len (py_strip s) \<le> n")
    case True
    then have "py_strip s = s" using eq by (simp add: limited_def)
    then show ?thesis using True by (simp add: settled_def)
  next
    case False
    have "length (py_strip t) \<le> length t" for t
      using py_rstrip_prefix [of "py_lstrip t"] py_lstrip_shorter [of t] prefix_length_le
      unfolding py_strip_def by (metis le_trans)
    moreover have "length (clip n t) < length t" if "n < py_len t" for t
      using clip_shorter that by blast
    ultimately show ?thesis using eq False
      by (metis limited_def stripped_PStr leD le_trans not_le_imp_less)
  qed
qed simp

lemma settled_py_len: "settled n s \<Longrightarrow> py_len s \<le> n"
  by (simp add: settled_def)

text \<open>Short texts between printable characters are settled.\<close>

lemma settled_text: "printable (hd s) \<Longrightarrow> printable (last s) \<Longrightarrow> length s \<le> n \<Longrightarrow> s \<noteq> [] \<Longrightarrow> settled n s"
  unfolding settled_def using py_len_le_length [of s]
  by (cases s) (auto simp del: last.simps)

lemma settled_Nil [simp]: "settled n []"
  by (simp add: settled_def py_len_simps)

section \<open>Fallible steps\<close>

text \<open>\<open>Inl\<close> carries the text of the exception.\<close>

definition and_then :: "'e + 'a \<Rightarrow> ('a \<Rightarrow> 'e + 'b) \<Rightarrow> 'e + 'b" where
  "and_then r f = (case r of Inl e \<Rightarrow> Inl e | Inr x \<Rightarrow> f x)"

lemma and_then_simps [simp]: "and_then (Inl e) f = Inl e" "and_then (Inr x) f = f x"
  by (auto simp: and_then_def)

lemma and_then_Inr_iff [err_simps]: "and_then r f = Inr y \<longleftrightarrow> (\<exists>x. r = Inr x \<and> f x = Inr y)"
  by (cases r) auto

lemma and_then_Inl_iff [err_simps]: "and_then r f = Inl e \<longleftrightarrow> r = Inl e \<or> (\<exists>x. r = Inr x \<and> f x = Inl e)"
  by (cases r) auto

lemma and_then_cong [fundef_cong]:
  "r = r' \<Longrightarrow> (\<And>x. r' = Inr x \<Longrightarrow> f x = g x) \<Longrightarrow> and_then r f = and_then r' g"
  by (cases r') auto

definition require :: "bool \<Rightarrow> 'e \<Rightarrow> 'e + unit" where
  "require b e = (if b then Inr () else Inl e)"

lemma require_simps [simp]: "require b e = Inr u \<longleftrightarrow> b" "require b e = Inl e' \<longleftrightarrow> \<not> b \<and> e' = e"
  by (auto simp: require_def)

text \<open>A comprehension whose element may raise: the first exception ends it.\<close>

fun each :: "('a \<Rightarrow> 'e + 'b) \<Rightarrow> 'a list \<Rightarrow> 'e + 'b list" where
  "each f [] = Inr []"
| "each f (x # xs) = and_then (f x) (\<lambda>y. and_then (each f xs) (\<lambda>ys. Inr (y # ys)))"

lemma each_cong [fundef_cong]:
  "xs = xs' \<Longrightarrow> (\<And>x. x \<in> set xs' \<Longrightarrow> f x = g x) \<Longrightarrow> each f xs = each g xs'"
proof (induction xs arbitrary: xs')
  case (Cons x xs)
  then show ?case by (cases "g x") (auto simp: and_then_def)
qed simp

lemma each_Inr_iff: "each f xs = Inr ys \<longleftrightarrow> list_all2 (\<lambda>x y. f x = Inr y) xs ys"
  by (induction xs arbitrary: ys) (auto simp: err_simps list_all2_Cons1)

lemma each_length: "each f xs = Inr ys \<Longrightarrow> length ys = length xs"
  by (simp add: each_Inr_iff list_all2_lengthD)

lemma each_source: "each f xs = Inr ys \<Longrightarrow> y \<in> set ys \<Longrightarrow> \<exists>x \<in> set xs. f x = Inr y"
  by (induction xs arbitrary: ys) (auto simp: err_simps)

text \<open>A loop that threads a state.\<close>

fun thread :: "('a \<Rightarrow> 's \<Rightarrow> 'e + 's) \<Rightarrow> 'a list \<Rightarrow> 's \<Rightarrow> 'e + 's" where
  "thread f [] s = Inr s"
| "thread f (x # xs) s = and_then (f x s) (thread f xs)"

lemma thread_append: "thread f (xs @ ys) s = and_then (thread f xs s) (thread f ys)"
  by (induction xs arbitrary: s) (auto simp: and_then_def split: sum.splits)

lemma thread_invariant:
  assumes "thread f xs s = Inr s'" and "P s"
    and "\<And>x s s'. x \<in> set xs \<Longrightarrow> P s \<Longrightarrow> f x s = Inr s' \<Longrightarrow> P s'"
  shows "P s'"
  using assms by (induction xs arbitrary: s) (auto simp: err_simps)

text \<open>
  \<open>thread_invariant\<close> for a relation between the first and the last state.
\<close>

lemma thread_relation:
  assumes "thread f xs s = Inr s'" and "\<And>s. R s s"
    and "\<And>x s s'. x \<in> set xs \<Longrightarrow> f x s = Inr s' \<Longrightarrow> R s s'"
    and "\<And>a b c. R a b \<Longrightarrow> R b c \<Longrightarrow> R a c"
  shows "R s s'"
  using thread_invariant [of f xs s s' "R s"] assms by blast

section \<open>Rows\<close>

text \<open>\<open>[row for row in rows if isinstance(row, dict)]\<close>.\<close>

definition only_dicts :: "pyval list \<Rightarrow> pydict list" where
  "only_dicts xs = List.map_filter as_pydict xs"

lemma only_dicts_simps [simp]:
  "only_dicts [] = []" "only_dicts (PDict d # xs) = d # only_dicts xs"
  "only_dicts (map PDict ds) = ds"
  by (auto simp: only_dicts_def map_filter_def comp_def)

lemma only_dicts_skip [simp]: "as_pydict v = None \<Longrightarrow> only_dicts (v # xs) = only_dicts xs"
  by (simp add: only_dicts_def map_filter_def)

lemma as_pydict_iff: "as_pydict v = Some d \<longleftrightarrow> v = PDict d"
  by (cases v) auto

lemma only_dicts_mem: "d \<in> set (only_dicts xs) \<longleftrightarrow> PDict d \<in> set xs"
  by (induction xs) (auto simp: only_dicts_def map_filter_def as_pydict_iff split: option.splits)

text \<open>
  \<open>list(v or [])\<close>. Iterating a text or a dict gives texts; a number, a bool \<open>True\<close> is not iterable.
\<close>

definition list_of :: "pyval \<Rightarrow> string + pyval list" where
  "list_of v = (if \<not> truthy v then Inr [] else
    (case v of
       PList xs \<Rightarrow> Inr xs
     | PStr s \<Rightarrow> Inr (map PStr (code_points s))
     | PDict d \<Rightarrow> Inr (map (\<lambda>(k, v). PStr k) d)
     | _ \<Rightarrow> Inl ''object is not iterable''))"

lemma list_of_PList [simp]: "list_of (PList xs) = Inr xs"
  by (simp add: list_of_def)

lemma list_of_PNone [simp]: "list_of PNone = Inr []"
  by (simp add: list_of_def)

text \<open>\<open>v if isinstance(v, dict) else {}\<close>.\<close>

definition dict_or :: "pyval \<Rightarrow> pydict" where
  "dict_or v = (case as_pydict v of None \<Rightarrow> [] | Some d \<Rightarrow> d)"

lemma dict_or_simps [simp]: "dict_or (PDict d) = d" "dict_or PNone = []"
  by (auto simp: dict_or_def)

definition has_field :: "string \<Rightarrow> pydict \<Rightarrow> bool" where
  "has_field k d = (k \<in> set (map fst d))"

lemma has_field_simps [simp]:
  "\<not> has_field k []" "has_field k ((j, v) # d) \<longleftrightarrow> j = k \<or> has_field k d"
  "has_field k (d @ e) \<longleftrightarrow> has_field k d \<or> has_field k e"
  by (auto simp: has_field_def)

lemma has_field_dset [simp]: "has_field k (dset j v d) \<longleftrightarrow> j = k \<or> has_field k d"
  by (induction j v d rule: dset.induct) auto

lemma dget_absent: "\<not> has_field k d \<Longrightarrow> dget d k = PNone"
  by (simp add: dget_def has_field_def map_of_eq_None_iff [THEN iffD2])

lemma dget_append: "dget (d @ e) k = (if has_field k d then dget d k else dget e k)"
  by (induction d) auto

lemma ddel_no_field: "\<not> has_field k d \<Longrightarrow> ddel k d = d"
  by (induction k d rule: ddel.induct) auto

lemma ddel_append [simp]: "ddel k (d @ e) = ddel k d @ ddel k e"
  by (induction k d rule: ddel.induct) auto

text \<open>\<open>d.update(e)\<close>.\<close>

definition dupdate :: "pydict \<Rightarrow> pydict \<Rightarrow> pydict" where
  "dupdate d e = foldl (\<lambda>d (k, v). dset k v d) d e"

lemma dupdate_simps [simp]: "dupdate d [] = d" "dupdate d ((k, v) # e) = dupdate (dset k v d) e"
  by (auto simp: dupdate_def)

lemma dget_dupdate: "dget (dupdate d e) k = (if has_field k e then dget (rev e) k else dget d k)"
proof (induction e arbitrary: d)
  case (Cons p e)
  obtain j w where p: "p = (j, w)" by fastforce
  have "\<not> has_field k e \<Longrightarrow> map_of (rev e) k = None"
    by (auto simp: has_field_def map_of_eq_None_iff)
  moreover have "has_field k e \<Longrightarrow> map_of (rev e) k \<noteq> None"
    by (auto simp: has_field_def map_of_eq_None_iff)
  ultimately have "dget (rev e @ [(j, w)]) k
      = (if has_field k e then dget (rev e) k else if j = k then w else PNone)"
    by (auto simp: dget_def map_add_def split: option.splits)
  then show ?case using Cons.IH [of "dset j w d"] by (auto simp: p has_field_def)
qed simp

text \<open>\<open>dict.fromkeys\<close>: the first occurrences, in order.\<close>

fun first_of_each :: "'a list \<Rightarrow> 'a list" where
  "first_of_each [] = []"
| "first_of_each (x # xs) = x # filter (\<lambda>y. y \<noteq> x) (first_of_each xs)"

lemma set_first_of_each [simp]: "set (first_of_each xs) = set xs"
  by (induction xs) auto

lemma distinct_first_of_each [simp]: "distinct (first_of_each xs)"
  by (induction xs) auto

lemma first_of_each_distinct: "distinct xs \<Longrightarrow> first_of_each xs = xs"
  by (induction xs) (auto simp: filter_id_conv)

end
