(* ===== verification/Goal_Condition.thy ===== *)
theory Goal_Condition
  imports Goal_Text
begin

text \<open>
  \<open>lifecycle/condition_expression.py\<close>: the closed algebra of conditions between goals. A raw
  condition proposed by the model is normalised to a canonical expression, a dict, or refused.
  The main fact is that normalisation is a projection onto the canonical expressions: what it
  answers is canonical, and a canonical expression is left alone. \<open>condition_schema\<close>, the
  schema handed to the provider, is not modelled.
\<close>

section \<open>Vocabulary\<close>

definition condition_version :: string where
  "condition_version = ''condition-expression@1''"

definition comparisons :: "string list" where
  "comparisons = [''eq'', ''neq'', ''gt'', ''gte'', ''lt'', ''lte'', ''in'', ''between'', ''exists'']"

definition logical_ops :: "string list" where
  "logical_ops = [''and'', ''or'', ''not'']"

definition operand_sources :: "string list" where
  "operand_sources = [''goal_output'', ''target_fact'', ''input'', ''literal'']"

definition max_condition_depth :: nat where "max_condition_depth = 4"
definition max_logical_arguments :: nat where "max_logical_arguments = 8"

section \<open>Paths\<close>

text \<open>
  A path is a dotted sequence of segments over ASCII letters, digits, \<open>_\<close>, \<open>-\<close> and the code
  points U+3400 to U+9FFF, whose UTF-8 encodings are the three bytes from E3 90 80 to E9 BF BF.
\<close>

definition ascii_word :: "char \<Rightarrow> bool" where
  "ascii_word c = (let n = (of_char c :: nat) in
     48 \<le> n \<and> n \<le> 57 \<or> 65 \<le> n \<and> n \<le> 90 \<or> 97 \<le> n \<and> n \<le> 122 \<or> n = 95 \<or> n = 45)"

definition path_char :: "string \<Rightarrow> bool" where
  "path_char p = (case p of
     [c] \<Rightarrow> ascii_word c
   | [a, b, c] \<Rightarrow>
       (let n = (of_char a * 256 + of_char b) * 256 + of_char c in 14913664 \<le> (n::nat) \<and> n \<le> 15319999)
   | _ \<Rightarrow> False)"

fun split_dots :: "string list \<Rightarrow> string list list" where
  "split_dots [] = [[]]"
| "split_dots (p # ps) = (if p = ''.'' then [] # split_dots ps
     else (case split_dots ps of [] \<Rightarrow> [[p]] | seg # segs \<Rightarrow> (p # seg) # segs))"

definition safe_path_text :: "string \<Rightarrow> bool" where
  "safe_path_text s = list_all (\<lambda>seg. seg \<noteq> [] \<and> list_all path_char seg) (split_dots (code_points s))"

definition safe_path :: "pyval \<Rightarrow> string + string" where
  "safe_path v = (let path = limited 300 v in
     if path = [] \<or> \<not> safe_path_text path \<or> py_in ''__'' path
     then Inl ''condition_operand_path_invalid'' else Inr path)"

section \<open>Operands\<close>

definition operand :: "pyval \<Rightarrow> string + pydict" where
  "operand raw = (case raw of
     PDict d \<Rightarrow>
       let source = limited 80 (dget d ''source'') in
       if source \<notin> set operand_sources then Inl ''condition_operand_source_invalid''
       else if source = ''goal_output'' then
         (let g = limited 200 (dget d ''goal_id'') in
          if g = [] then Inl ''condition_goal_output_binding_required''
          else and_then (safe_path (dget d ''path''))
            (\<lambda>p. Inr [(''source'', PStr source), (''goal_id'', PStr g), (''path'', PStr p)]))
       else if source \<in> {''target_fact'', ''input''} then
         and_then (safe_path (dget d ''path'')) (\<lambda>p. Inr [(''source'', PStr source), (''path'', PStr p)])
       else Inr [(''source'', PStr source), (''value'', dget d ''value'')]
   | _ \<Rightarrow> Inr [(''source'', PStr ''literal''), (''value'', raw)])"

definition literal :: "pyval \<Rightarrow> pyval" where
  "literal v = PDict [(''source'', PStr ''literal''), (''value'', v)]"

text \<open>The flat form of earlier checkpoints.\<close>

definition legacy_to_canonical :: "pydict \<Rightarrow> pydict option" where
  "legacy_to_canonical raw =
    (let g = limited 200 (dget raw ''source_goal_id'');
         path = limited 300 (py_or (dget raw ''output_path'') (dget raw ''path''));
         operator = py_lower (limited 40 (dget raw ''operator'')) in
     if g \<noteq> [] \<and> path \<noteq> [] \<and> operator \<in> set comparisons then
       Some ([(''op'', PStr operator),
              (''left'', PDict [(''source'', PStr ''goal_output''), (''goal_id'', PStr g), (''path'', PStr path)])]
         @ (if operator = ''between'' then
              [(''lower'', literal (dget raw ''lower'')), (''upper'', literal (dget raw ''upper''))]
            else if operator \<noteq> ''exists'' then [(''right'', literal (dget raw ''value''))]
            else []))
     else None)"

definition operand_rows :: "pydict \<Rightarrow> pydict list" where
  "operand_rows e = List.map_filter (\<lambda>k. as_pydict (dget e k)) [''left'', ''right'', ''lower'', ''upper'']"

lemma child_size:
  assumes "list_of (dget e k) = Inr xs" and "c \<in> set (only_dicts xs)"
  shows "size (PDict c) < size (PDict e)"
proof -
  have c: "PDict c \<in> set xs" using assms(2) by (simp add: only_dicts_mem)
  moreover from this assms(1) have v: "dget e k = PList xs"
    by (auto simp: list_of_def split: if_splits pyval.splits)
  moreover from v have "(k, PList xs) \<in> set e"
    by (auto simp: dget_def split: option.splits dest: map_of_SomeD)
  ultimately show ?thesis
    using size_list_estimation' [of "PDict c" xs "size (PDict c)" size]
      size_list_estimation [of "(k, PList xs)" e "size (PDict c)" "size_prod (\<lambda>_. 0) size"]
    by simp
qed

function condition_operands :: "pyval \<Rightarrow> string + pydict list" where
  "condition_operands v =
    (case v of
       PDict e \<Rightarrow>
         if text_of (dget e ''op'') \<in> set logical_ops then
           and_then (list_of (dget e ''args''))
             (\<lambda>xs. and_then (each (\<lambda>c. condition_operands (PDict c)) (only_dicts xs)) (\<lambda>rs. Inr (concat rs)))
         else Inr (operand_rows e)
     | _ \<Rightarrow> Inr [])"
  by pat_completeness auto
termination
  by (relation "measure size") (auto dest: child_size)

declare condition_operands.simps [simp del]

text \<open>The goals an expression reads, without repetition.\<close>

definition condition_goal_dependencies :: "pyval \<Rightarrow> string + string list" where
  "condition_goal_dependencies e =
    and_then (condition_operands e)
      (\<lambda>rows. Inr (first_of_each [text_of (dget r ''goal_id''). r \<leftarrow> rows,
         dget r ''source'' = PStr ''goal_output'' \<and> text_of (dget r ''goal_id'') \<noteq> []]))"

section \<open>Normalisation\<close>

definition comparison_row :: "string \<Rightarrow> pydict \<Rightarrow> string + pydict" where
  "comparison_row op source =
    and_then (operand (dget source ''left''))
      (\<lambda>l. let row = [(''version'', PStr condition_version), (''op'', PStr op), (''left'', PDict l)] in
        if op = ''between'' then
          and_then (operand (dget source ''lower''))
            (\<lambda>a. and_then (operand (dget source ''upper''))
              (\<lambda>b. Inr (row @ [(''lower'', PDict a), (''upper'', PDict b)])))
        else if op \<noteq> ''exists'' then
          and_then (operand (dget source ''right'')) (\<lambda>r. Inr (row @ [(''right'', PDict r)]))
        else Inr row)"

definition names_unknown_goal :: "string list \<Rightarrow> pydict \<Rightarrow> bool" where
  "names_unknown_goal known r =
    (dget r ''source'' = PStr ''goal_output''
     \<and> text_of (dget r ''goal_id'') \<notin> set (filter (\<lambda>k. k \<noteq> []) known))"

function normalize_condition :: "string list \<Rightarrow> nat \<Rightarrow> pyval \<Rightarrow> string + pydict" where
  "normalize_condition known depth raw =
    (if max_condition_depth < depth then Inl ''condition_expression_depth_exceeded''
     else (case raw of
       PDict d \<Rightarrow>
         let source = (case legacy_to_canonical d of Some e \<Rightarrow> e | None \<Rightarrow> d);
             op = py_lower (limited 40 (dget source ''op'')) in
         if op \<in> set logical_ops then
           (let args = (case dget source ''args'' of PList xs \<Rightarrow> xs | _ \<Rightarrow> []) in
            if op = ''not'' \<and> length args \<noteq> 1 then Inl ''condition_not_requires_one_argument''
            else if op \<in> {''and'', ''or''} \<and> length args < 2 then Inl ''condition_logical_requires_two_arguments''
            else if max_logical_arguments < length args then Inl ''condition_logical_argument_limit_exceeded''
            else and_then (each (\<lambda>v. normalize_condition known (Suc depth) v) args)
              (\<lambda>rows. Inr [(''version'', PStr condition_version), (''op'', PStr op),
                          (''args'', PList (map PDict rows))]))
         else if op \<notin> set comparisons then Inl ''condition_operator_invalid''
         else and_then (comparison_row op source)
           (\<lambda>row. and_then (condition_operands (PDict row))
             (\<lambda>rows. case find (names_unknown_goal known) rows of
                Some r \<Rightarrow> Inl (''condition_unknown_goal:'' @ py_str (dget r ''goal_id''))
              | None \<Rightarrow> Inr row))
     | _ \<Rightarrow> Inl ''condition_expression_object_required''))"
  by pat_completeness auto
termination
  by (relation "measure (\<lambda>(known, depth, raw). Suc max_condition_depth - depth)")
    (auto simp: max_condition_depth_def)

declare normalize_condition.simps [simp del]

section \<open>Safe paths are settled\<close>

lemma concat_code_points [simp]: "concat (code_points s) = s"
  by (induction s rule: code_points.induct) auto

lemma code_points_tail: "c \<in> set (code_points s) \<Longrightarrow> \<exists>b t. c = b # t \<and> list_all continues t"
proof (induction s rule: code_points.induct)
  case (2 b s)
  then show ?case by (auto simp: list_all_iff dest: set_takeWhileD)
qed simp

lemma split_dots_chars:
  "list_all (list_all path_char) (split_dots ps) \<Longrightarrow> p \<in> set ps \<Longrightarrow> p = ''.'' \<or> path_char p"
  by (induction ps) (auto split: if_splits list.splits)

text \<open>A code point of a path does not begin or end with a blank.\<close>

definition solid :: "string \<Rightarrow> bool" where
  "solid p = ((\<exists>c. p = [c] \<and> printable c)
     \<or> (\<exists>a b c. p = [a, b, c] \<and> (227::nat) \<le> of_char a \<and> ((of_char a :: nat) = 227 \<longrightarrow> (144::nat) \<le> of_char b)
          \<and> (of_char a :: nat) \<le> 233 \<and> continues b \<and> continues c))"

lemma path_char_solid:
  assumes "p = ''.'' \<or> path_char p" and "\<exists>b t. p = b # t \<and> list_all continues t"
  shows "solid p"
proof (cases "\<exists>c. p = [c]")
  case True
  then obtain c where p: "p = [c]" by blast
  have "ascii_word c \<Longrightarrow> printable c"
    unfolding ascii_word_def printable_def Let_def by linarith
  then have "printable c" using assms(1)
    by (elim disjE) (simp_all add: p path_char_def printable_def)
  then show ?thesis by (simp add: solid_def p)
next
  case False
  then obtain a b c where p: "p = [a, b, c]"
    using assms(1) by (auto simp: path_char_def split: list.splits)
  define x y z :: nat where "x = of_char a" and "y = of_char b" and "z = of_char c"
  have lt: "x < 256" "y < 256" "z < 256"
    by (simp_all add: x_def y_def z_def)
  have n: "14913664 \<le> (x * 256 + y) * 256 + z" and m: "(x * 256 + y) * 256 + z \<le> 15319999"
    using assms(1) by (auto simp: p path_char_def x_def y_def z_def Let_def)
  have sum: "(x * 256 + y) * 256 + z = 65536 * x + 256 * y + z" by (simp add: algebra_simps)
  note bounds = lt n [unfolded sum] m [unfolded sum]
  have "227 \<le> x" using bounds by linarith
  moreover have "x \<le> 233" using bounds by linarith
  moreover have "x = 227 \<longrightarrow> 144 \<le> y" using bounds by linarith
  ultimately show ?thesis using assms(2) by (auto simp: solid_def p x_def y_def)
qed

lemma whitespace_forms:
  "list_all (\<lambda>w. (\<exists>c. w = [c] \<and> \<not> printable c \<and> (of_char c :: nat) < 128)
     \<or> (\<exists>a b. w = [a, b] \<and> \<not> continues a \<and> \<not> printable a \<and> \<not> printable b \<and> (of_char a :: nat) < 227)
     \<or> (\<exists>a b c. w = [a, b, c] \<and> \<not> printable a \<and> \<not> printable c \<and> (of_char a :: nat) \<le> 227
          \<and> ((of_char a :: nat) = 227 \<longrightarrow> (of_char b :: nat) < 144))) py_whitespace"
  by (simp add: py_whitespace_def utf8_def printable_def continues_def)

lemma whitespace_cases:
  assumes "w \<in> set py_whitespace"
  obtains (one) c where "w = [c]" "\<not> printable c" "(of_char c :: nat) < 128"
  | (two) a b where "w = [a, b]" "\<not> continues a" "\<not> printable a" "\<not> printable b" "(of_char a :: nat) < 227"
  | (three) a b c where "w = [a, b, c]" "\<not> printable a" "\<not> printable c" "(of_char a :: nat) \<le> 227"
      "(of_char a :: nat) = 227 \<longrightarrow> (of_char b :: nat) < 144"
  using bspec [OF whitespace_forms [unfolded list_all_iff] assms]
  by (elim disjE exE conjE) (rule one two three; assumption)+

lemma solid_cases:
  assumes "solid p"
  obtains (ascii) c where "p = [c]" "printable c"
  | (wide) a b c where "p = [a, b, c]" "(227::nat) \<le> of_char a"
      "(of_char a :: nat) = 227 \<longrightarrow> (144::nat) \<le> of_char b" "continues b" "continues c"
  using assms unfolding solid_def by blast

lemma solid_head:
  assumes "solid p" and "w \<in> set py_whitespace"
  shows "\<not> prefix w (p @ s)"
  using assms(1)
proof (cases p rule: solid_cases)
  case ascii
  show ?thesis using assms(2) ascii by (cases w rule: whitespace_cases) (auto simp: prefix_Cons)
next
  case wide
  show ?thesis using assms(2) wide by (cases w rule: whitespace_cases) (auto simp: prefix_Cons)
qed

lemma solid_last:
  assumes "solid p" and "w \<in> set py_whitespace"
  shows "\<not> suffix w (s @ p)"
  unfolding suffix_to_prefix using assms(1)
proof (cases p rule: solid_cases)
  case ascii
  show "\<not> prefix (rev w) (rev (s @ p))" using assms(2) ascii
    by (cases w rule: whitespace_cases) (auto simp: prefix_Cons)
next
  case wide
  show "\<not> prefix (rev w) (rev (s @ p))" using assms(2) wide
    by (cases w rule: whitespace_cases) (auto simp: prefix_Cons continues_def)
qed

lemma safe_path_strip:
  assumes "safe_path_text s"
  shows "py_strip s = s"
proof (cases "code_points s")
  case Nil
  then show ?thesis using concat_code_points [of s] by simp
next
  case (Cons c cs)
  have solid: "solid p" if "p \<in> set (code_points s)" for p
    using assms that split_dots_chars [of "code_points s" p] code_points_tail [OF that] path_char_solid
    by (auto simp: safe_path_text_def list_all_iff)
  have s: "s = c @ concat cs" using concat_code_points [of s] Cons by simp
  then have "find (\<lambda>w. prefix w s) py_whitespace = None"
    using solid_head [of c] solid [of c] Cons by (auto intro!: find_none)
  moreover have "s = concat (butlast (c # cs)) @ last (c # cs)"
    using concat_code_points [of s] Cons append_butlast_last_id [of "c # cs"]
    by (metis concat.simps concat_append append_Nil2 list.distinct(1))
  then have "find (\<lambda>w. suffix w s) py_whitespace = None"
    using solid_last [of "last (c # cs)"] solid [of "last (c # cs)"] Cons
    by (metis find_none last_in_set list.distinct(1))
  ultimately show ?thesis
    by (simp add: py_strip_def py_lstrip_fix py_rstrip_fix)
qed

lemma safe_path_fix: "safe_path v = Inr p \<Longrightarrow> safe_path (PStr p) = Inr p"
  using safe_path_strip [of p] py_len_clip [of 300 "stripped v"]
  by (auto simp: safe_path_def limited_def Let_def split: if_splits)

section \<open>Canonical expressions\<close>

text \<open>
  The specification: what a stored condition looks like. \<open>canonical known n e\<close> says that \<open>e\<close> is a
  canonical expression over the goals \<open>known\<close> with at most \<open>n\<close> nested connectives.
\<close>

definition canonical_operand :: "string list \<Rightarrow> pydict \<Rightarrow> bool" where
  "canonical_operand known r =
    ((\<exists>g p. r = [(''source'', PStr ''goal_output''), (''goal_id'', PStr g), (''path'', PStr p)]
        \<and> g \<in> set known \<and> g \<noteq> [] \<and> safe_path (PStr p) = Inr p)
     \<or> (\<exists>s p. r = [(''source'', PStr s), (''path'', PStr p)]
        \<and> s \<in> {''target_fact'', ''input''} \<and> safe_path (PStr p) = Inr p)
     \<or> (\<exists>v. r = [(''source'', PStr ''literal''), (''value'', v)]))"

definition expression_row :: "string \<Rightarrow> pydict \<Rightarrow> pydict" where
  "expression_row op parts = (''version'', PStr condition_version) # (''op'', PStr op) # parts"

inductive canonical :: "string list \<Rightarrow> nat \<Rightarrow> pydict \<Rightarrow> bool" for known where
  negation: "canonical known n r \<Longrightarrow> canonical known (Suc n) (expression_row ''not'' [(''args'', PList [PDict r])])"
| junction: "op \<in> {''and'', ''or''} \<Longrightarrow> 2 \<le> length rs \<Longrightarrow> length rs \<le> max_logical_arguments
    \<Longrightarrow> (\<And>r. r \<in> set rs \<Longrightarrow> canonical known n r)
    \<Longrightarrow> canonical known (Suc n) (expression_row op [(''args'', PList (map PDict rs))])"
| between: "canonical_operand known l \<Longrightarrow> canonical_operand known a \<Longrightarrow> canonical_operand known b
    \<Longrightarrow> canonical known n (expression_row ''between'' [(''left'', PDict l), (''lower'', PDict a), (''upper'', PDict b)])"
| exists: "canonical_operand known l \<Longrightarrow> canonical known n (expression_row ''exists'' [(''left'', PDict l)])"
| relation: "op \<in> {''eq'', ''neq'', ''gt'', ''gte'', ''lt'', ''lte'', ''in''}
    \<Longrightarrow> canonical_operand known l \<Longrightarrow> canonical_operand known r
    \<Longrightarrow> canonical known n (expression_row op [(''left'', PDict l), (''right'', PDict r)])"

lemma operand_source_texts: "list_all (settled 80) operand_sources"
  by (simp add: operand_sources_def settled_def py_len_def printable_def)

lemma op_texts: "list_all (\<lambda>op. settled 40 op \<and> py_lower op = op) (logical_ops @ comparisons)"
  by (simp add: logical_ops_def comparisons_def settled_def py_len_def printable_def py_lower_def
      lower_char_def)

lemma limited_source [simp]: "s \<in> set operand_sources \<Longrightarrow> limited 80 (PStr s) = s"
  using operand_source_texts by (simp add: list_all_iff)

lemma read_op [simp]: "op \<in> set logical_ops \<union> set comparisons \<Longrightarrow> py_lower (limited 40 (PStr op)) = op"
  using op_texts by (auto simp: list_all_iff)

lemma canonical_operand_intro:
  assumes "operand raw = Inr r" and "\<not> names_unknown_goal known r"
  shows "canonical_operand known r"
  using assms
  by (auto simp: operand_def canonical_operand_def names_unknown_goal_def Let_def err_simps operand_sources_def
      dest: safe_path_fix split: pyval.splits if_splits)

lemma canonical_operand_fix:
  assumes "canonical_operand known r" and "\<And>k. k \<in> set known \<Longrightarrow> settled 200 k"
  shows "operand (PDict r) = Inr r" and "\<not> names_unknown_goal known r"
proof -
  have src: "''goal_output'' \<in> set operand_sources" "''target_fact'' \<in> set operand_sources"
    "''input'' \<in> set operand_sources" "''literal'' \<in> set operand_sources"
    by (simp_all add: operand_sources_def)
  show "operand (PDict r) = Inr r"
    using assms(1) unfolding canonical_operand_def
    by (elim disjE exE conjE) (auto simp: operand_def Let_def src assms(2))
  show "\<not> names_unknown_goal known r"
    using assms(1) unfolding canonical_operand_def
    by (elim disjE exE conjE) (auto simp: names_unknown_goal_def)
qed

lemma no_legacy [simp]:
  "list_all (\<lambda>(k, v). k \<noteq> ''source_goal_id'') parts \<Longrightarrow> legacy_to_canonical (expression_row op parts) = None"
proof -
  assume "list_all (\<lambda>(k, v). k \<noteq> ''source_goal_id'') parts"
  then have "dget parts ''source_goal_id'' = PNone"
    by (induction parts) auto
  then show ?thesis by (simp add: legacy_to_canonical_def expression_row_def Let_def)
qed

lemma dget_expression_row [simp]:
  "dget (expression_row op parts) ''op'' = PStr op"
  "k \<noteq> ''version'' \<Longrightarrow> k \<noteq> ''op'' \<Longrightarrow> dget (expression_row op parts) k = dget parts k"
  by (simp_all add: expression_row_def)

lemma comparison_operators:
  "op \<in> {''eq'', ''neq'', ''gt'', ''gte'', ''lt'', ''lte'', ''in''} \<longleftrightarrow>
     op \<in> set comparisons \<and> op \<noteq> ''between'' \<and> op \<noteq> ''exists''"
  by (auto simp: comparisons_def)

lemma comparison_not_logical: "op \<in> set comparisons \<Longrightarrow> op \<notin> set logical_ops"
  by (auto simp: comparisons_def logical_ops_def)

lemma condition_operands_comparison:
  "op \<in> set comparisons \<Longrightarrow> condition_operands (PDict (expression_row op parts)) = Inr (operand_rows parts)"
  by (subst condition_operands.simps) (simp add: comparison_not_logical operand_rows_def map_filter_def)

lemma operand_rows_simps [simp]:
  "operand_rows [(''left'', PDict l)] = [l]"
  "operand_rows [(''left'', PDict l), (''right'', PDict r)] = [l, r]"
  "operand_rows [(''left'', PDict l), (''lower'', PDict a), (''upper'', PDict b)] = [l, a, b]"
  by (simp_all add: operand_rows_def map_filter_def)

text \<open>The comparison a source describes is canonical, once its goals are known.\<close>

definition checked :: "string list \<Rightarrow> pydict \<Rightarrow> string + pydict" where
  "checked known row = and_then (condition_operands (PDict row))
     (\<lambda>rows. case find (names_unknown_goal known) rows of
        Some r \<Rightarrow> Inl (''condition_unknown_goal:'' @ py_str (dget r ''goal_id''))
      | None \<Rightarrow> Inr row)"

lemma comparison_canonical:
  assumes op: "op \<in> set comparisons"
    and row: "comparison_row op source = Inr row" and ok: "checked known row = Inr row'"
  shows "row' = row \<and> canonical known n row"
proof -
  obtain l where l: "operand (dget source ''left'') = Inr l"
    using row by (auto simp: comparison_row_def err_simps)
  consider (between) a b where "op = ''between''" "operand (dget source ''lower'') = Inr a"
      "operand (dget source ''upper'') = Inr b"
      "row = expression_row op [(''left'', PDict l), (''lower'', PDict a), (''upper'', PDict b)]"
    | (exists) "op = ''exists''" "row = expression_row op [(''left'', PDict l)]"
    | (relation) r where "op \<noteq> ''between''" "op \<noteq> ''exists''" "operand (dget source ''right'') = Inr r"
      "row = expression_row op [(''left'', PDict l), (''right'', PDict r)]"
    using row l by (auto simp: comparison_row_def expression_row_def err_simps Let_def split: if_splits)
  then show ?thesis
  proof cases
    case between
    then show ?thesis using ok op l
      by (auto simp: checked_def condition_operands_comparison split: if_splits
          intro!: canonical.between canonical_operand_intro)
  next
    case exists
    then show ?thesis using ok op l
      by (auto simp: checked_def condition_operands_comparison split: if_splits
          intro!: canonical.exists canonical_operand_intro)
  next
    case (relation r)
    then have mem: "op \<in> {''eq'', ''neq'', ''gt'', ''gte'', ''lt'', ''lte'', ''in''}"
      using op by (intro comparison_operators [THEN iffD2] conjI)
    have "row' = row" "\<not> names_unknown_goal known l" "\<not> names_unknown_goal known r"
      using ok by (auto simp: relation(4) checked_def condition_operands_comparison [OF op] split: if_splits)
    then show ?thesis
      using canonical.relation [OF mem canonical_operand_intro [OF l] canonical_operand_intro [OF relation(3)]]
      by (simp add: relation(4))
  qed
qed

lemma normalize_steps:
  "normalize_condition known depth (PDict d) =
    (if max_condition_depth < depth then Inl ''condition_expression_depth_exceeded''
     else let source = (case legacy_to_canonical d of Some e \<Rightarrow> e | None \<Rightarrow> d);
             op = py_lower (limited 40 (dget source ''op'')) in
         if op \<in> set logical_ops then
           (let args = (case dget source ''args'' of PList xs \<Rightarrow> xs | _ \<Rightarrow> []) in
            if op = ''not'' \<and> length args \<noteq> 1 then Inl ''condition_not_requires_one_argument''
            else if op \<in> {''and'', ''or''} \<and> length args < 2 then Inl ''condition_logical_requires_two_arguments''
            else if max_logical_arguments < length args then Inl ''condition_logical_argument_limit_exceeded''
            else and_then (each (normalize_condition known (Suc depth)) args)
              (\<lambda>rows. Inr (expression_row op [(''args'', PList (map PDict rows))])))
         else if op \<notin> set comparisons then Inl ''condition_operator_invalid''
         else and_then (comparison_row op source) (checked known))"
  by (subst normalize_condition.simps) (simp add: expression_row_def checked_def [abs_def] cong: if_cong)

lemma normalize_object: "normalize_condition known depth raw = Inr row \<Longrightarrow> \<exists>d. raw = PDict d"
  by (subst (asm) normalize_condition.simps) (auto split: if_splits pyval.splits)

lemma normalize_depth: "normalize_condition known depth raw = Inr row \<Longrightarrow> depth \<le> max_condition_depth"
  by (subst (asm) normalize_condition.simps) (simp split: if_splits)

lemma normalize_canonical:
  assumes "normalize_condition known depth raw = Inr row"
  shows "canonical known (max_condition_depth - depth) row \<and> depth \<le> max_condition_depth"
  using assms
proof (induction "max_condition_depth - depth" arbitrary: depth raw row rule: less_induct)
  case less
  obtain d where raw: "raw = PDict d" using normalize_object [OF less.prems] by blast
  define source where "source = (case legacy_to_canonical d of Some e \<Rightarrow> e | None \<Rightarrow> d)"
  define op where "op = py_lower (limited 40 (dget source ''op''))"
  have depth: "depth \<le> max_condition_depth"
    using less.prems by (rule normalize_depth)
  note unfolded = less.prems [unfolded raw normalize_steps, folded source_def, unfolded Let_def, folded op_def]
  show ?case
  proof (cases "op \<in> set logical_ops")
    case True
    define args where "args = (case dget source ''args'' of PList xs \<Rightarrow> xs | _ \<Rightarrow> [])"
    have step: "(if op = ''not'' \<and> length args \<noteq> 1 then Inl ''condition_not_requires_one_argument''
        else if op \<in> {''and'', ''or''} \<and> length args < 2 then Inl ''condition_logical_requires_two_arguments''
        else if max_logical_arguments < length args then Inl ''condition_logical_argument_limit_exceeded''
        else and_then (each (normalize_condition known (Suc depth)) args)
          (\<lambda>rows. Inr (expression_row op [(''args'', PList (map PDict rows))]))) = Inr row"
      using unfolded True depth by (simp only: args_def not_less if_False if_True) simp
    then have lens: "op = ''not'' \<longrightarrow> length args = 1" "op \<in> {''and'', ''or''} \<longrightarrow> 2 \<le> length args"
        "length args \<le> max_logical_arguments"
      by (auto split: if_splits)
    obtain rows where rows: "each (normalize_condition known (Suc depth)) args = Inr rows"
      and row: "row = expression_row op [(''args'', PList (map PDict rows))]"
      using step by (auto simp: err_simps split: if_splits)
    have len: "length rows = length args" using each_length [OF rows] .
    have op: "op = ''not'' \<or> op \<in> {''and'', ''or''}" using True by (auto simp: logical_ops_def)
    then have "rows \<noteq> []" using lens len by auto
    then obtain r0 where "r0 \<in> set rows" by (cases rows) auto
    then have deeper: "Suc depth \<le> max_condition_depth"
      using each_source [OF rows] normalize_depth by blast
    then have less': "max_condition_depth - Suc depth < max_condition_depth - depth" by simp
    have sub: "canonical known (max_condition_depth - Suc depth) r" if "r \<in> set rows" for r
      using each_source [OF rows that] less.hyps [OF less'] by blast
    have n: "max_condition_depth - depth = Suc (max_condition_depth - Suc depth)" using deeper by simp
    show ?thesis
    proof (cases "op = ''not''")
      case True
      then obtain r where r: "rows = [r]" using lens(1) len by (cases rows) auto
      show ?thesis using canonical.negation [OF sub [of r]] depth by (simp add: row True n r)
    next
      case False
      then show ?thesis
        using canonical.junction [OF _ _ _ sub, of op rows] op lens len depth by (simp add: row n)
    qed
  next
    case False
    then show ?thesis
      using unfolded depth comparison_canonical [of op source _ known row]
      by (auto simp: err_simps split: if_splits)
  qed
qed

lemma checked_ok:
  "op \<in> set comparisons \<Longrightarrow> (\<And>r. r \<in> set (operand_rows parts) \<Longrightarrow> \<not> names_unknown_goal known r)
    \<Longrightarrow> checked known (expression_row op parts) = Inr (expression_row op parts)"
  by (simp add: checked_def condition_operands_comparison find_none)

lemma normalize_comparison:
  assumes "op \<in> set comparisons" and "depth \<le> max_condition_depth"
    and "list_all (\<lambda>(k, v). k \<noteq> ''source_goal_id'') parts"
    and "comparison_row op (expression_row op parts) = Inr (expression_row op parts)"
    and "\<And>r. r \<in> set (operand_rows parts) \<Longrightarrow> \<not> names_unknown_goal known r"
  shows "normalize_condition known depth (PDict (expression_row op parts)) = Inr (expression_row op parts)"
  using assms comparison_not_logical [OF assms(1)] checked_ok [OF assms(1,5)]
  by (simp add: normalize_steps)

lemma each_fix: "(\<And>x. x \<in> set xs \<Longrightarrow> f (g x) = Inr x) \<Longrightarrow> each f (map g xs) = Inr xs"
  by (induction xs) auto

lemma normalize_logical:
  assumes "op \<in> set logical_ops" and "depth < max_condition_depth"
    and "op = ''not'' \<longrightarrow> length rs = 1" and "op \<in> {''and'', ''or''} \<longrightarrow> 2 \<le> length rs"
    and "length rs \<le> max_logical_arguments"
    and "\<And>r. r \<in> set rs \<Longrightarrow> normalize_condition known (Suc depth) (PDict r) = Inr r"
  shows "normalize_condition known depth (PDict (expression_row op [(''args'', PList (map PDict rs))]))
    = Inr (expression_row op [(''args'', PList (map PDict rs))])"
  using assms each_fix [of rs "normalize_condition known (Suc depth)" PDict]
  by (auto simp: normalize_steps)

lemma canonical_normal:
  assumes "canonical known n row" and settled: "\<And>k. k \<in> set known \<Longrightarrow> settled 200 k"
    and "n + depth \<le> max_condition_depth"
  shows "normalize_condition known depth (PDict row) = Inr row"
  using assms(1,3)
proof (induction arbitrary: depth)
  case (negation n r)
  then have "normalize_condition known (Suc depth) (PDict r) = Inr r" by simp
  then show ?case
    using negation.prems normalize_logical [of "''not''" depth "[r]" known]
    by (simp add: logical_ops_def max_logical_arguments_def)
next
  case (junction op rs n)
  then show ?case
    by (intro normalize_logical) (auto simp: logical_ops_def)
next
  case (between l a b n)
  note ok = this(1-3) [THEN canonical_operand_fix(1), OF settled] this(1-3) [THEN canonical_operand_fix(2), OF settled]
  then show ?case using between.prems
    by (intro normalize_comparison) (auto simp: comparison_row_def comparisons_def expression_row_def)
next
  case (exists l n)
  note ok = this(1) [THEN canonical_operand_fix(1), OF settled] this(1) [THEN canonical_operand_fix(2), OF settled]
  then show ?case using exists.prems
    by (intro normalize_comparison) (auto simp: comparison_row_def comparisons_def expression_row_def)
next
  case (relation op l r n)
  note ok = this(2,3) [THEN canonical_operand_fix(1), OF settled] this(2,3) [THEN canonical_operand_fix(2), OF settled]
  have op: "op \<in> set comparisons" "op \<noteq> ''between''" "op \<noteq> ''exists''"
    using relation.hyps(1) by (auto simp: comparisons_def)
  show ?case using relation.prems ok op
    by (intro normalize_comparison) (auto simp: comparison_row_def expression_row_def)
qed

text \<open>The goals a canonical expression depends on are known.\<close>

lemma canonical_reads:
  assumes "canonical known n row"
  shows "\<exists>rs. condition_operands (PDict row) = Inr rs \<and> (\<forall>r \<in> set rs. canonical_operand known r)"
  using assms
proof induction
  case (negation n r)
  then show ?case
    by (subst condition_operands.simps) (auto simp: logical_ops_def)
next
  case (junction op rs n)
  then have ex: "\<forall>r \<in> set rs. \<exists>os. condition_operands (PDict r) = Inr os \<and> (\<forall>o' \<in> set os. canonical_operand known o')"
    by blast
  have "\<exists>oss. each (\<lambda>c. condition_operands (PDict c)) rs = Inr oss
      \<and> (\<forall>os \<in> set oss. \<forall>o' \<in> set os. canonical_operand known o')"
    using ex by (induction rs) (auto simp: err_simps)
  then obtain oss where "each (\<lambda>c. condition_operands (PDict c)) rs = Inr oss"
    "\<forall>os \<in> set oss. \<forall>o' \<in> set os. canonical_operand known o'" by blast
  then show ?case using junction.hyps(1)
    by (subst condition_operands.simps) (auto simp: logical_ops_def)
qed (auto simp: condition_operands_comparison comparisons_def)

lemma canonical_dependencies:
  assumes "canonical known n row"
  obtains ds where "condition_goal_dependencies (PDict row) = Inr ds" "set ds \<subseteq> set known" "[] \<notin> set ds"
proof -
  obtain rs where rs: "condition_operands (PDict row) = Inr rs" "\<forall>r \<in> set rs. canonical_operand known r"
    using canonical_reads [OF assms] by blast
  have "text_of (dget r ''goal_id'') \<in> set known"
    if "r \<in> set rs" "dget r ''source'' = PStr ''goal_output''" for r
    using rs(2) that by (auto simp: canonical_operand_def)
  then show ?thesis using rs(1)
    by (intro that) (auto simp: condition_goal_dependencies_def)
qed

end
