(* ===== verification/Goal_Graph.thy ===== *)
theory Goal_Graph
  imports Goal_Text
begin

text \<open>
  The dependency graph of a semantic contract, from \<open>kernel/semantic_contract.py\<close>: the goals a
  goal depends on, and the search for a dependency cycle. The search is a depth-first one; the
  main fact is that it answers a cycle of the graph exactly when there is one.
\<close>

section \<open>Dependencies of a goal\<close>

text \<open>\<open>_condition_goal_dependencies\<close>: every goal output read anywhere inside a condition.\<close>

fun condition_reads :: "pyval \<Rightarrow> string list" where
  "condition_reads (PDict d) = filter (\<lambda>g. g \<noteq> [])
     ((if dget d ''source'' = PStr ''goal_output'' then [limited 200 (dget d ''goal_id'')] else [])
      @ concat (map (\<lambda>(k, v). condition_reads v) d))"
| "condition_reads (PList xs) = concat (map condition_reads xs)"
| "condition_reads v = []"

text \<open>A binding counts when its source is the output of a goal of the same turn.\<close>

definition producer_of :: "pyval \<Rightarrow> string option" where
  "producer_of v = (case as_pydict v of None \<Rightarrow> None
     | Some b \<Rightarrow> (case as_pydict (dget b ''source'') of None \<Rightarrow> None
        | Some s \<Rightarrow> if dget s ''kind'' = PStr ''current_goal_output''
            then Some (limited 200 (dget s ''producer_goal_id'')) else None))"

definition goal_dependency_ids :: "pydict \<Rightarrow> string + string list" where
  "goal_dependency_ids row =
    (case dget row ''input_bindings'' of
       PList bs \<Rightarrow> Inr (first_of_each (filter (\<lambda>g. g \<noteq> [])
         (List.map_filter producer_of bs @ sort (remdups (condition_reads (dget row ''condition''))))))
     | _ \<Rightarrow> and_then (list_of (dget row ''depends_on''))
         (\<lambda>xs. Inr (first_of_each (filter (\<lambda>g. g \<noteq> []) (map (limited 200) xs)))))"

section \<open>The search\<close>

type_synonym goal_graph = "(string \<times> string list) list"

definition goal_key :: "pydict \<Rightarrow> string" where
  "goal_key row = limited 200 (dget row ''goal_id'')"

text \<open>
  The graph, the latest entry of a key first. Dependencies on goals that are not listed are left out.
\<close>

definition dependency_entry :: "string list \<Rightarrow> pydict \<Rightarrow> string + string \<times> string list" where
  "dependency_entry ids row = and_then (goal_dependency_ids row)
     (\<lambda>ds. Inr (goal_key row, first_of_each
        (filter (\<lambda>d. d \<noteq> [] \<and> d \<in> set ids) (map (\<lambda>d. limited 200 (PStr d)) ds))))"

definition dependency_graph :: "pydict list \<Rightarrow> string + goal_graph" where
  "dependency_graph goals =
    (let named = filter (\<lambda>r. goal_key r \<noteq> []) goals in
     and_then (each (dependency_entry (map goal_key named)) named) (\<lambda>es. Inr (rev es)))"

definition successors :: "goal_graph \<Rightarrow> string \<Rightarrow> string list" where
  "successors G g = (case map_of G g of None \<Rightarrow> [] | Some ds \<Rightarrow> ds)"

lemma thread_cong [fundef_cong]:
  "xs = xs' \<Longrightarrow> s = s' \<Longrightarrow> (\<And>x t. x \<in> set xs' \<Longrightarrow> f x t = g x t) \<Longrightarrow> thread f xs s = thread g xs' s'"
proof (induction xs arbitrary: xs' s s')
  case (Cons x xs)
  then show ?case by (cases "g x s'") auto
qed simp

lemma successors_key: "d \<in> set (successors G g) \<Longrightarrow> g \<in> fst ` set G"
  unfolding successors_def by (cases "map_of G g") (auto dest: map_of_SomeD intro: rev_image_eqI)

text \<open>
  \<open>visit\<close>. The path holds the goals being visited in order: it is the \<open>stack\<close>, its elements are
  the set \<open>visiting\<close> and their positions \<open>stack_index\<close>. A return without a cycle leaves these three
  as they were, so they are arguments; only \<open>visited\<close> is threaded. \<open>Inl\<close> is a cycle.
\<close>

function visit :: "goal_graph \<Rightarrow> string list \<Rightarrow> string \<Rightarrow> string list \<Rightarrow> string list + string list" where
  "visit G path g seen =
    (if g \<in> set path then Inl (dropWhile (\<lambda>x. x \<noteq> g) path @ [g])
     else if g \<in> set seen then Inr seen
     else and_then (thread (\<lambda>d s. visit G (path @ [g]) d s) (successors G g) seen)
       (\<lambda>seen'. Inr (g # seen')))"
  by pat_completeness auto
termination
proof (relation "measure (\<lambda>(G, path, g, seen). card (fst ` set G - set path))", goal_cases)
  case (2 G path g seen d s)
  then have "g \<in> fst ` set G - set path" using successors_key by simp
  moreover have "fst ` set G - set (path @ [g]) = (fst ` set G - set path) - {g}" by auto
  moreover from calculation(1) have "card (fst ` set G - set path - {g}) < card (fst ` set G - set path)"
    by (intro card_Diff1_less) auto
  ultimately show ?case by (simp del: set_append)
qed simp

declare visit.simps [simp del]

definition find_cycle :: "goal_graph \<Rightarrow> string list" where
  "find_cycle G = (case thread (visit G []) (sort (remdups (map fst G))) [] of Inl c \<Rightarrow> c | Inr seen \<Rightarrow> [])"

definition find_goal_dependency_cycle :: "pydict list \<Rightarrow> string + string list" where
  "find_goal_dependency_cycle goals = and_then (dependency_graph goals) (\<lambda>G. Inr (find_cycle G))"

section \<open>The search finds a cycle exactly when there is one\<close>

definition depends_on :: "goal_graph \<Rightarrow> (string \<times> string) set" where
  "depends_on G = {(g, d). d \<in> set (successors G g)}"

text \<open>A walk follows dependencies.\<close>

definition walk :: "goal_graph \<Rightarrow> string list \<Rightarrow> bool" where
  "walk G p = successively (\<lambda>a b. b \<in> set (successors G a)) p"

definition is_cycle :: "goal_graph \<Rightarrow> string list \<Rightarrow> bool" where
  "is_cycle G c = (2 \<le> length c \<and> hd c = last c \<and> walk G c)"

lemma walk_rtrancl: "walk G (a # p) \<Longrightarrow> b \<in> set p \<Longrightarrow> (a, b) \<in> (depends_on G)\<^sup>+"
proof (induction p arbitrary: a)
  case (Cons x p)
  then have edge: "(a, x) \<in> depends_on G" and rest: "walk G (x # p)"
    by (auto simp: walk_def depends_on_def)
  show ?case
  proof (cases "b = x")
    case False
    then have "(x, b) \<in> (depends_on G)\<^sup>+" using Cons.IH [OF rest] Cons.prems by auto
    then show ?thesis using edge by (rule trancl_into_trancl2 [rotated])
  qed (use edge in auto)
qed simp

lemma cycle_cyclic: "is_cycle G c \<Longrightarrow> \<not> acyclic (depends_on G)"
proof -
  assume c: "is_cycle G c"
  then obtain a p where p: "c = a # p" "p \<noteq> []" by (cases c; cases "tl c") (auto simp: is_cycle_def)
  then have "a \<in> set p" using c by (metis is_cycle_def last_ConsR last_in_set list.sel(1))
  then have "(a, a) \<in> (depends_on G)\<^sup>+" using c p by (auto simp: is_cycle_def intro: walk_rtrancl)
  then show ?thesis by (auto simp: acyclic_def)
qed

text \<open>
  Visited goals form a list in which the dependencies of each goal come later: a topological order.
\<close>

fun ordered :: "goal_graph \<Rightarrow> string list \<Rightarrow> bool" where
  "ordered G [] = True"
| "ordered G (g # s) = (set (successors G g) \<subseteq> set s \<and> ordered G s)"

fun rank :: "string list \<Rightarrow> string \<Rightarrow> nat" where
  "rank [] y = 0"
| "rank (x # s) y = (if y \<in> set s then rank s y else length s)"

lemma rank_less: "y \<in> set s \<Longrightarrow> rank s y < length s"
  by (induction s) auto

lemma ordered_rank:
  "ordered G s \<Longrightarrow> y \<in> set s \<Longrightarrow> d \<in> set (successors G y) \<Longrightarrow> d \<in> set s \<and> rank s d < rank s y"
  by (induction s) (auto simp: rank_less)

lemma ordered_acyclic:
  assumes "ordered G s" and "fst ` set G \<subseteq> set s"
  shows "acyclic (depends_on G)"
proof -
  have down: "rank s d < rank s g" if "(g, d) \<in> depends_on G" for g d
  proof -
    have d: "d \<in> set (successors G g)" using that by (simp add: depends_on_def)
    then have "g \<in> set s" using successors_key assms(2) by blast
    then show ?thesis using ordered_rank [OF assms(1) _ d] by simp
  qed
  have "(a, b) \<in> (depends_on G)\<^sup>+ \<Longrightarrow> rank s b < rank s a" for a b
  proof (induction rule: trancl_induct)
    case (base b)
    then show ?case by (rule down)
  next
    case (step b c)
    then show ?case using down [of b c] by simp
  qed
  then show ?thesis by (metis acyclic_def less_irrefl)
qed

text \<open>What a visit guarantees.\<close>

definition visit_ok :: "goal_graph \<Rightarrow> string list \<Rightarrow> string list \<Rightarrow> string list + string list \<Rightarrow> bool" where
  "visit_ok G goals seen r = (case r of
     Inl c \<Rightarrow> is_cycle G c
   | Inr seen' \<Rightarrow> ordered G seen' \<and> set seen \<subseteq> set seen' \<and> set goals \<subseteq> set seen')"

lemma thread_visit_ok:
  assumes "\<And>d s. d \<in> set ds \<Longrightarrow> ordered G s \<Longrightarrow> visit_ok G [d] s (visit G path d s)"
    and "ordered G seen"
  shows "visit_ok G ds seen (thread (visit G path) ds seen)"
  using assms
proof (induction ds arbitrary: seen)
  case (Cons d ds)
  have first: "visit_ok G [d] seen (visit G path d seen)" using Cons.prems by simp
  show ?case
  proof (cases "visit G path d seen")
    case (Inl c)
    then show ?thesis using first by (simp add: visit_ok_def)
  next
    case (Inr s)
    then have s: "ordered G s" "set seen \<subseteq> set s" "d \<in> set s" using first by (auto simp: visit_ok_def)
    have "visit_ok G ds s (thread (visit G path) ds s)" using Cons.IH Cons.prems(1) s(1) by simp
    then show ?thesis using s Inr by (auto simp: visit_ok_def split: sum.splits)
  qed
qed (simp add: visit_ok_def)

lemma dropWhile_first: "g \<in> set path \<Longrightarrow> \<exists>q. dropWhile (\<lambda>x. x \<noteq> g) path = g # q"
  by (induction path) auto

lemma walk_dropWhile: "walk G (path @ q) \<Longrightarrow> walk G (dropWhile P path @ q)"
  by (induction path) (auto simp: walk_def successively_Cons)

lemma visit_correct:
  assumes "walk G (path @ [g])" and "ordered G seen"
  shows "visit_ok G [g] seen (visit G path g seen)"
  using assms
proof (induction G path g seen rule: visit.induct)
  case (1 G path g seen)
  note IH = 1(1) and path = 1(2) and seen = 1(3)
  consider (again) "g \<in> set path" | (old) "g \<notin> set path" "g \<in> set seen"
    | (new) "g \<notin> set path" "g \<notin> set seen" by blast
  then show ?case
  proof cases
    case again
    then obtain q where "dropWhile (\<lambda>x. x \<noteq> g) path = g # q" using dropWhile_first by metis
    then show ?thesis
      using again walk_dropWhile [OF path, of "\<lambda>x. x \<noteq> g"]
      by (subst visit.simps) (auto simp: visit_ok_def is_cycle_def)
  next
    case old
    then show ?thesis using seen by (subst visit.simps) (auto simp: visit_ok_def)
  next
    case new
    have "visit_ok G (successors G g) seen (thread (visit G (path @ [g])) (successors G g) seen)"
    proof (rule thread_visit_ok [OF _ seen])
      fix d s assume d: "d \<in> set (successors G g)" and s: "ordered G s"
      have "walk G ((path @ [g]) @ [d])"
        using path d by (auto simp: walk_def successively_append_iff)
      then show "visit_ok G [d] s (visit G (path @ [g]) d s)" using IH [OF new d] s by simp
    qed
    then show ?thesis using new
      by (subst visit.simps) (auto simp: visit_ok_def split: sum.splits)
  qed
qed

lemma find_cycle_correct:
  "find_cycle G = [] \<longleftrightarrow> acyclic (depends_on G)" "find_cycle G \<noteq> [] \<Longrightarrow> is_cycle G (find_cycle G)"
proof -
  let ?keys = "sort (remdups (map fst G))"
  have ok: "visit_ok G ?keys [] (thread (visit G []) ?keys [])"
    by (rule thread_visit_ok) (auto intro: visit_correct simp: walk_def)
  have "is_cycle G (find_cycle G) \<and> find_cycle G \<noteq> [] \<or> find_cycle G = [] \<and> acyclic (depends_on G)"
    using ok ordered_acyclic [of G] by (auto simp: find_cycle_def visit_ok_def is_cycle_def split: sum.splits)
  then show "find_cycle G = [] \<longleftrightarrow> acyclic (depends_on G)"
    and "find_cycle G \<noteq> [] \<Longrightarrow> is_cycle G (find_cycle G)"
    using cycle_cyclic by blast+
qed

end
