(* ===== verification/Goal_Integrity.thy ===== *)
theory Goal_Integrity
  imports Goal_Graph
begin

text \<open>
  \<open>kernel/semantic_contract.py\<close> apart from the dependency graph: the identity of the target a goal
  is about, the digest of a frozen semantic contract and the integrity check that every reader of
  a contract runs. SHA-256 is the argument \<open>sha\<close>, from text to the hex digest.
\<close>

section \<open>Versions\<close>

definition contract_version :: string where "contract_version = ''frozen-turn-semantic-contract@1''"
definition binding_version :: string where "binding_version = ''goal-input-binding@1''"
definition binding_authority :: string where "binding_authority = ''typed_goal_input_bindings''"
definition legacy_authority :: string where "legacy_authority = ''legacy_depends_on_read_only''"
definition compatibility_version :: string where "compatibility_version = ''goal-target-compatibility@1''"

section \<open>Digests\<close>

text \<open>\<open>json.dumps(v, ensure_ascii=False, sort_keys=True, separators=(",", ":"))\<close>.\<close>

definition contract_json :: "pyval \<Rightarrow> string" where
  "contract_json v = json_dump '','' '':'' (sort_keys v)"

definition digest_payload :: "pydict \<Rightarrow> pydict" where
  "digest_payload c = ddel ''semantic_contract_id'' (ddel ''semantic_digest'' c)"

definition compute_semantic_digest :: "(string \<Rightarrow> string) \<Rightarrow> pydict \<Rightarrow> string" where
  "compute_semantic_digest sha c = sha (contract_json (PDict (digest_payload c)))"

section \<open>The target of a goal\<close>

text \<open>No float occurs, so a target value is always exact JSON; only the keys are ordered.\<close>

definition canonical_target_value :: "pyval \<Rightarrow> pyval" where
  "canonical_target_value v = sort_keys v"

definition proven_target :: "(string \<Rightarrow> string) \<Rightarrow> string \<Rightarrow> string \<Rightarrow> pydict \<Rightarrow> pydict" where
  "proven_target sha src object_type material =
    [(''version'', PStr compatibility_version), (''status'', PStr ''PROVEN''), (''source'', PStr src),
     (''object_type'', PStr object_type),
     (''identity_digest'', PStr (sha (contract_json (PDict material))))]"

definition resolved_material :: "pydict \<Rightarrow> string \<Rightarrow> string + pydict option" where
  "resolved_material resolved object_type =
    and_then (list_of (dget resolved ''member_handles''))
      (\<lambda>hs. let result_ref = limited 500 (dget resolved ''result_ref'');
               members = filter (\<lambda>s. s \<noteq> []) (map py_str hs) in
        if result_ref = [] \<or> members = [] then Inr None
        else Inr (Some ([(''source'', PStr ''resolved_reference''), (''object_type'', PStr object_type),
            (''result_ref'', PStr result_ref), (''member_handles'', PList (map PStr members))]
          @ (case dget resolved ''position'' of PInt n \<Rightarrow> [(''position'', PInt n)] | _ \<Rightarrow> []))))"

definition derive_goal_target_identity :: "(string \<Rightarrow> string) \<Rightarrow> pydict \<Rightarrow> string + pydict" where
  "derive_goal_target_identity sha row =
    (let effect = dict_or (dget row ''requested_effect'');
         object_type = str_or (limited 160 (py_or (dget effect ''subject_type'') (dget effect ''object_type'')))
           ''unspecified'' in
     and_then (resolved_material (dict_or (dget row ''resolved_reference'')) object_type)
       (\<lambda>m. case m of
          Some material \<Rightarrow> Inr (proven_target sha ''resolved_reference'' object_type material)
        | None \<Rightarrow>
           (case dget row ''target_candidate'' of
              PDict (p # d) \<Rightarrow> Inr (proven_target sha ''target_candidate'' object_type
                [(''source'', PStr ''target_candidate''), (''object_type'', PStr object_type),
                 (''value'', canonical_target_value (PDict (p # d)))])
            | _ \<Rightarrow> Inr [(''version'', PStr compatibility_version), (''status'', PStr ''UNKNOWN''),
                (''source'', PStr ''none''), (''object_type'', PStr object_type),
                (''reason_code'', PStr ''frozen_goal_target_identity_absent''), (''identity_digest'', PNone)])))"

definition target_identity_row :: "(string \<Rightarrow> string) \<Rightarrow> pydict \<Rightarrow> string + pydict" where
  "target_identity_row sha row =
    and_then (derive_goal_target_identity sha row) (\<lambda>d. Inr ((''goal_id'', PStr (goal_key row)) # d))"

definition compatibility_verdict :: "pydict list \<Rightarrow> string \<times> string" where
  "compatibility_verdict ids =
    (if length ids < 2 then (''UNKNOWN'', ''insufficient_goal_targets'')
     else if \<exists>r \<in> set ids. text_of (dget r ''status'') \<noteq> ''PROVEN'' then (''UNKNOWN'', ''target_identity_unproven'')
     else if length (remdups (map (\<lambda>r. text_of (dget r ''identity_digest'')) ids)) = 1
     then (''SAME'', ''exact_frozen_target_identity'')
     else (''DIFFERENT'', ''frozen_target_identity_mismatch''))"

definition prove_goal_target_compatibility :: "(string \<Rightarrow> string) \<Rightarrow> pyval list \<Rightarrow> string + pydict" where
  "prove_goal_target_compatibility sha goals =
    and_then (each (target_identity_row sha) (only_dicts goals))
      (\<lambda>ids. let (status, reason) = compatibility_verdict ids in
        Inr [(''version'', PStr compatibility_version), (''status'', PStr status), (''reason_code'', PStr reason),
          (''goal_ids'', PList (map (\<lambda>r. PStr (text_of (dget r ''goal_id''))) ids)),
          (''identities'', PList (map PDict ids)),
          (''auto_substitution_used'', PBool False), (''similarity_used'', PBool False)])"

section \<open>Integrity of a contract\<close>

text \<open>\<open>int(v or d)\<close>.\<close>

definition int_or_raise :: "pyval \<Rightarrow> int \<Rightarrow> string + int" where
  "int_or_raise v d = (if truthy v then (case py_int v of None \<Rightarrow> Inl ''invalid literal for int()'' | Some n \<Rightarrow> Inr n)
     else Inr d)"

definition failed :: "string \<Rightarrow> pydict \<Rightarrow> pydict" where
  "failed code extra = (''ok'', PBool False) # (''code'', PStr code) # extra"

definition failed_goal :: "string \<Rightarrow> string \<Rightarrow> pydict" where
  "failed_goal code g = failed code [(''goal_id'', PStr g)]"

definition contract_id :: "int \<Rightarrow> string \<Rightarrow> string" where
  "contract_id turn d = ''semantic:'' @ str_of_int turn @ '':'' @ clip 20 d"

definition binding_digest :: "(string \<Rightarrow> string) \<Rightarrow> pydict \<Rightarrow> string" where
  "binding_digest sha b = sha (contract_json (PDict (ddel ''binding_digest'' b)))"

text \<open>The relations a kind of source admits; \<open>None\<close> for an unknown kind.\<close>

definition relations_of :: "string \<Rightarrow> string list option" where
  "relations_of kind = map_of [(''current_goal_output'', [''result_reference'', ''result_value_input'']),
     (''current_text'', [''shared_subject'']), (''visible_result_ref'', [''historical_result''])] kind"

text \<open>The failure of one binding of the goal \<open>g\<close>, if any.\<close>

definition binding_failure :: "(string \<Rightarrow> string) \<Rightarrow> string \<Rightarrow> pyval \<Rightarrow> pydict option" where
  "binding_failure sha g v =
    (case as_pydict v of
       None \<Rightarrow> Some (failed_goal ''SEMANTIC_CONTRACT_INPUT_BINDING_INVALID'' g)
     | Some b \<Rightarrow>
        let stored = limited 128 (dget b ''binding_digest'') in
        if dget b ''version'' \<noteq> PStr binding_version
        then Some (failed_goal ''SEMANTIC_CONTRACT_INPUT_BINDING_INVALID'' g)
        else if stored = [] \<or> stored \<noteq> binding_digest sha b
        then Some (failed_goal ''SEMANTIC_CONTRACT_INPUT_BINDING_DIGEST_INVALID'' g)
        else (case relations_of (limited 80 (dget (dict_or (dget b ''source'')) ''kind'')) of
            None \<Rightarrow> Some (failed_goal ''SEMANTIC_CONTRACT_INPUT_BINDING_SOURCE_INVALID'' g)
          | Some rels \<Rightarrow>
              if limited 80 (dget b ''relation_kind'') \<notin> set rels
              then Some (failed_goal ''SEMANTIC_CONTRACT_INPUT_BINDING_RELATION_INVALID'' g)
              else None))"

text \<open>The first failure of a list of checks.\<close>

fun first_fault :: "('a \<Rightarrow> 'e + 'b option) \<Rightarrow> 'a list \<Rightarrow> 'e + 'b option" where
  "first_fault f [] = Inr None"
| "first_fault f (x # xs) = and_then (f x) (\<lambda>r. case r of None \<Rightarrow> first_fault f xs | Some y \<Rightarrow> Inr (Some y))"

definition typed_failure :: "(string \<Rightarrow> string) \<Rightarrow> pydict \<Rightarrow> pydict option" where
  "typed_failure sha row = (let g = goal_key row in
     case dget row ''input_bindings'' of
       PList bs \<Rightarrow>
         if has_field ''depends_on'' row then Some (failed_goal ''SEMANTIC_CONTRACT_RAW_DEPENDENCY_FORBIDDEN'' g)
         else Option.bind (find (\<lambda>v. binding_failure sha g v \<noteq> None) bs) (binding_failure sha g)
     | _ \<Rightarrow> Some (failed_goal ''SEMANTIC_CONTRACT_INPUT_BINDINGS_REQUIRED'' g))"

definition unknown_failure :: "string list \<Rightarrow> pydict \<Rightarrow> string + pydict option" where
  "unknown_failure known row = and_then (goal_dependency_ids row)
     (\<lambda>ds. let unknown = filter (\<lambda>d. d \<noteq> [] \<and> d \<notin> set known) ds in
       Inr (if unknown = [] then None
         else Some (failed ''SEMANTIC_CONTRACT_UNKNOWN_GOAL_DEPENDENCY''
           [(''goal_id'', PStr (goal_key row)), (''unknown_goal_ids'', PList (map PStr unknown))])))"

definition goal_failure :: "(string \<Rightarrow> string) \<Rightarrow> bool \<Rightarrow> string list \<Rightarrow> pydict \<Rightarrow> string + pydict option" where
  "goal_failure sha typed known row =
    (case (if typed then typed_failure sha row else None) of
       Some r \<Rightarrow> Inr (Some r)
     | None \<Rightarrow> unknown_failure known row)"

definition goals_integrity :: "(string \<Rightarrow> string) \<Rightarrow> pydict \<Rightarrow> string \<Rightarrow> string + pydict" where
  "goals_integrity sha c computed =
    and_then (list_of (dget c ''goals''))
      (\<lambda>xs. let goals = only_dicts xs; ids = map goal_key goals;
               authority = limited 120 (dget c ''dependency_authority'') in
        if [] \<in> set ids \<or> \<not> distinct ids then Inr (failed ''SEMANTIC_CONTRACT_GOAL_IDS_INVALID'' [])
        else if authority \<notin> {binding_authority, [], legacy_authority}
        then Inr (failed ''SEMANTIC_CONTRACT_DEPENDENCY_AUTHORITY_INVALID'' [])
        else and_then (first_fault (goal_failure sha (authority = binding_authority) ids) goals)
          (\<lambda>r. case r of
             Some f \<Rightarrow> Inr f
           | None \<Rightarrow> and_then (find_goal_dependency_cycle goals)
               (\<lambda>cycle. if cycle \<noteq> [] then
                   Inr (failed ''SEMANTIC_CONTRACT_GOAL_DEPENDENCY_CYCLE'' [(''cycle'', PList (map PStr cycle))])
                 else Inr [(''ok'', PBool True), (''code'', PStr ''SEMANTIC_CONTRACT_INTEGRITY_OK''),
                   (''computed_digest'', PStr computed)])))"

definition semantic_contract_integrity :: "(string \<Rightarrow> string) \<Rightarrow> pyval \<Rightarrow> string + pydict" where
  "semantic_contract_integrity sha v =
    (case as_pydict v of
       None \<Rightarrow> Inr (failed ''SEMANTIC_CONTRACT_REQUIRED'' [])
     | Some c \<Rightarrow>
        let stored = limited 128 (dget c ''semantic_digest''); computed = compute_semantic_digest sha c in
        if stored = [] then Inr (failed ''SEMANTIC_CONTRACT_DIGEST_REQUIRED'' [])
        else if stored \<noteq> computed then Inr (failed ''SEMANTIC_CONTRACT_DIGEST_INVALID''
          [(''stored_digest'', PStr stored), (''computed_digest'', PStr computed)])
        else and_then (int_or_raise (dget c ''turn'') 0)
          (\<lambda>turn. if limited 300 (dget c ''semantic_contract_id'') \<noteq> contract_id turn computed
             then Inr (failed ''SEMANTIC_CONTRACT_ID_INVALID'' [(''expected_id'', PStr (contract_id turn computed))])
             else goals_integrity sha c computed))"

definition integrity_ok :: "pydict \<Rightarrow> bool" where
  "integrity_ok r = truthy (dget r ''ok'')"

definition assert_semantic_contract_integrity :: "(string \<Rightarrow> string) \<Rightarrow> pyval \<Rightarrow> string + unit" where
  "assert_semantic_contract_integrity sha v =
    and_then (semantic_contract_integrity sha v)
      (\<lambda>r. require (integrity_ok r) (str_or (text_of (dget r ''code'')) ''SEMANTIC_CONTRACT_INTEGRITY_INVALID''))"

definition semantic_goals :: "(string \<Rightarrow> string) \<Rightarrow> pydict \<Rightarrow> string + pydict list" where
  "semantic_goals sha state =
    (let contract = (if has_field ''frozen_semantic_contract'' state
         then py_or (dget state ''frozen_semantic_contract'') (PDict []) else PDict state) in
     case as_pydict contract of
       None \<Rightarrow> Inr []
     | Some c \<Rightarrow>
        if dget c ''version'' \<noteq> PStr contract_version then Inr []
        else and_then (semantic_contract_integrity sha contract)
          (\<lambda>r. if \<not> integrity_ok r then Inr []
             else and_then (list_of (dget c ''goals'')) (\<lambda>xs. Inr (only_dicts xs))))"

end
