(* ===== verification/Goal_Reference.thy ===== *)
theory Goal_Reference
  imports Goal_Integrity
begin

text \<open>
  \<open>context/reference_resolution.py\<close> with \<open>visible_result_scope_key\<close> of
  \<open>context/visible_result_refs.py\<close>: references of the user to results shown earlier. An expression
  proposed by the model is normalised, resolved over the visible results to a proof, and the
  proof is checked before it enters a frozen contract. \<open>reference_resolution_prompt_contract\<close>,
  a constant text for the prompt, is not modelled.
\<close>

section \<open>Vocabulary\<close>

definition reference_version :: string where "reference_version = ''reference-expression@1''"
definition proof_version :: string where "proof_version = ''referent-resolution-proof@1''"

definition reference_types :: "string list" where
  "reference_types = [''explicit_result_ref'', ''temporal_visible_result'', ''ordinal_visible_member'',
     ''explicit_visible_member'']"

definition temporal_relations :: "string list" where
  "temporal_relations = [''latest'', ''previous'', ''previous_previous'', ''visible_turn_offset'', ''first_visible'',
     ''last_same_type'', ''explicit_turn'']"

definition resolution_statuses :: "string list" where
  "resolution_statuses = [''UNIQUE'', ''AMBIGUOUS'', ''NOT_FOUND'', ''TYPE_CONFLICT'', ''CARDINALITY_CONFLICT'',
     ''INVALID_EXPRESSION'']"

section \<open>Integrity of a proof\<close>

definition proof_digest :: "(string \<Rightarrow> string) \<Rightarrow> pydict \<Rightarrow> string" where
  "proof_digest sha p = sha (contract_json (PDict (ddel ''proof_digest'' p)))"

text \<open>\<open>[str(v) for v in list(x or []) if str(v)]\<close>.\<close>

definition text_list :: "pyval \<Rightarrow> string + string list" where
  "text_list v = and_then (list_of v) (\<lambda>xs. Inr (filter (\<lambda>s. s \<noteq> []) (map py_str xs)))"

lemma text_list_PStr [simp]: "text_list (PList (map PStr ss)) = Inr (filter (\<lambda>s. s \<noteq> []) ss)"
  by (simp add: text_list_def comp_def)

definition referent_resolution_proof_integrity ::
  "(string \<Rightarrow> string) \<Rightarrow> pyval \<Rightarrow> pydict option \<Rightarrow> string + pydict" where
  "referent_resolution_proof_integrity sha v expression =
    (case as_pydict v of
       None \<Rightarrow> Inr (failed ''REFERENT_RESOLUTION_PROOF_REQUIRED'' [])
     | Some p \<Rightarrow>
        let status = text_of (dget p ''resolution_status''); stored = stripped (dget p ''proof_digest'');
            computed = proof_digest sha p; result_ref = stripped (dget p ''resolved_result_ref'') in
        if text_of (dget p ''version'') \<noteq> proof_version
        then Inr (failed ''REFERENT_RESOLUTION_PROOF_VERSION_INVALID'' [])
        else if status \<notin> set resolution_statuses then Inr (failed ''REFERENT_RESOLUTION_STATUS_INVALID'' [])
        else if dget p ''auto_substitution_used'' \<noteq> PBool False
        then Inr (failed ''REFERENT_RESOLUTION_SUBSTITUTION_FORBIDDEN'' [])
        else if stored = [] then Inr (failed ''REFERENT_RESOLUTION_PROOF_DIGEST_REQUIRED'' [])
        else if stored \<noteq> computed then Inr (failed ''REFERENT_RESOLUTION_PROOF_DIGEST_INVALID''
          [(''stored_digest'', PStr stored), (''computed_digest'', PStr computed)])
        else if (case expression of None \<Rightarrow> False | Some e \<Rightarrow> \<not> py_eq (dget p ''reference_expression'') (PDict e))
        then Inr (failed ''REFERENT_RESOLUTION_EXPRESSION_MISMATCH'' [])
        else and_then (text_list (dget p ''resolved_member_handles''))
          (\<lambda>members.
             if status = ''UNIQUE'' \<and> (result_ref = [] \<or> members = [])
             then Inr (failed ''REFERENT_RESOLUTION_UNIQUE_RESULT_INCOMPLETE'' [])
             else if status \<noteq> ''UNIQUE'' \<and> (result_ref \<noteq> [] \<or> members \<noteq> [])
             then Inr (failed ''REFERENT_RESOLUTION_NON_UNIQUE_RESULT_PRESENT'' [])
             else Inr [(''ok'', PBool True), (''code'', PStr ''REFERENT_RESOLUTION_PROOF_VALID''),
               (''proof_digest'', PStr stored)]))"

section \<open>Expressions\<close>

text \<open>A proper integer, no bool, within the bounds; \<open>None\<close> as the upper bound is none.\<close>

definition bounded_int :: "pyval \<Rightarrow> int \<Rightarrow> int option \<Rightarrow> string \<Rightarrow> string + int" where
  "bounded_int v lo hi e = (case v of
     PInt n \<Rightarrow> if n < lo \<or> (case hi of None \<Rightarrow> False | Some h \<Rightarrow> h < n) then Inl e else Inr n
   | _ \<Rightarrow> Inl e)"

definition temporal_fields :: "string \<Rightarrow> pydict \<Rightarrow> string + pydict" where
  "temporal_fields reference_type raw =
    (let relation = limited 80 (dget raw ''temporal_relation'') in
     if relation \<notin> set temporal_relations then Inl ''reference_expression_temporal_relation_invalid''
     else and_then (if relation = ''visible_turn_offset'' then
           and_then (bounded_int (dget raw ''visible_turn_offset'') 0 (Some 50)
               ''reference_expression_visible_turn_offset_invalid'')
             (\<lambda>n. Inr [(''visible_turn_offset'', PInt n)])
         else Inr [])
       (\<lambda>offset. and_then (if relation = ''explicit_turn'' then
             and_then (bounded_int (dget raw ''source_turn'') 0 None ''reference_expression_source_turn_invalid'')
               (\<lambda>n. Inr [(''source_turn'', PInt n)])
           else Inr [])
         (\<lambda>turn. and_then (if reference_type = ''ordinal_visible_member'' then
               and_then (bounded_int (dget raw ''position'') 1 (Some 100) ''reference_expression_position_invalid'')
                 (\<lambda>n. Inr [(''position'', PInt n)])
             else Inr [])
           (\<lambda>position. Inr ((''temporal_relation'', PStr relation) # offset @ turn @ position)))))"

definition reference_fields :: "string \<Rightarrow> pydict \<Rightarrow> string + pydict" where
  "reference_fields reference_type raw =
    (if reference_type = ''explicit_result_ref'' then
       (let r = limited 500 (dget raw ''result_ref'') in
        if r = [] then Inl ''reference_expression_result_ref_required'' else Inr [(''result_ref'', PStr r)])
     else if reference_type = ''explicit_visible_member'' then
       (let m = limited 500 (dget raw ''member_handle''); r = limited 500 (dget raw ''source_result_ref'') in
        if m = [] then Inl ''reference_expression_member_handle_required''
        else Inr ((''member_handle'', PStr m) # (if r = [] then [] else [(''source_result_ref'', PStr r)])))
     else temporal_fields reference_type raw)"

definition normalize_reference_expression ::
  "pyval \<Rightarrow> string \<Rightarrow> string \<Rightarrow> string \<Rightarrow> string + pydict" where
  "normalize_reference_expression v user_text object_type cardinality =
    (case as_pydict v of
       None \<Rightarrow> Inl ''reference_expression_object_required''
     | Some raw \<Rightarrow>
        let reference_type = limited 80 (dget raw ''reference_type'');
            ev = limited 240 (dget raw ''evidence_span'');
            expected = py_lower (limited 40 (py_or (py_or (dget raw ''expected_cardinality'') (PStr cardinality))
              (PStr ''unknown''))) in
        if reference_type \<notin> set reference_types then Inl ''reference_expression_type_invalid''
        else if ev = [] \<or> \<not> py_in ev user_text then Inl ''reference_expression_evidence_not_in_current_turn''
        else if expected \<notin> {''single'', ''collection'', ''unknown''}
        then Inl ''reference_expression_cardinality_invalid''
        else and_then (reference_fields reference_type raw)
          (\<lambda>rest. Inr ([(''version'', PStr reference_version), (''reference_type'', PStr reference_type),
              (''evidence_span'', PStr ev),
              (''object_type'', opt_val (none_if_empty
                 (limited 160 (py_or (dget raw ''object_type'') (PStr object_type))))),
              (''expected_cardinality'', PStr expected)] @ rest)))"

section \<open>Visible results\<close>

text \<open>The stable scope of a visible result: its members in order, or its handle.\<close>

definition visible_result_scope_key :: "pydict \<Rightarrow> string + string \<times> string list" where
  "visible_result_scope_key r =
    and_then (text_list (py_or (dget r ''canonical_order'') (dget r ''member_handles'')))
      (\<lambda>members. let result_ref = stripped (dget r ''result_ref'') in
        Inr (if members \<noteq> [] then (''members'', members)
          else if result_ref \<noteq> [] then (''result'', [result_ref]) else (''empty'', [])))"

definition resource_types :: "pydict \<Rightarrow> string + string list" where
  "resource_types r =
    and_then (list_of (dget r ''member_resource_types''))
      (\<lambda>ms. let vs = (case dget r ''resource_types'' of PList xs \<Rightarrow> xs | _ \<Rightarrow> []) in
        Inr (remdups (filter (\<lambda>s. s \<noteq> []) (map (\<lambda>v. py_strip (py_str v)) (vs @ ms)))))"

definition matches_object_type :: "pydict \<Rightarrow> pyval \<Rightarrow> string + bool" where
  "matches_object_type r object_type =
    (let expected = stripped object_type in
     if expected \<in> {[], ''unspecified'', ''unknown''} then Inr True
     else and_then (resource_types r) (\<lambda>known. Inr (expected \<in> set known)))"

definition source_turn :: "pydict \<Rightarrow> string + int" where
  "source_turn r = int_or_raise (dget r ''source_turn'') 0"

text \<open>The elements a fallible test accepts.\<close>

definition select :: "('a \<Rightarrow> 'e + bool) \<Rightarrow> 'a list \<Rightarrow> 'e + 'a list" where
  "select p xs = and_then (each p xs) (\<lambda>bs. Inr (map fst (filter snd (zip xs bs))))"

definition distinct_turns :: "pydict list \<Rightarrow> string + int list" where
  "distinct_turns rows = and_then (each source_turn rows) (\<lambda>ts. Inr (rev (sort (remdups ts))))"

text \<open>\<open>xs[i]\<close> where \<open>i < len(xs)\<close> is known; a negative index counts from the end.\<close>

definition py_index :: "'a list \<Rightarrow> int \<Rightarrow> string + 'a" where
  "py_index xs i = (if 0 \<le> i then Inr (xs ! nat i)
     else if - i \<le> int (length xs) then Inr (xs ! nat (int (length xs) + i)) else Inl ''list index out of range'')"

definition selected_turn :: "pydict \<Rightarrow> int list \<Rightarrow> int list \<Rightarrow> string + int option" where
  "selected_turn expression turns typed_turns =
    (let relation = text_of (dget expression ''temporal_relation'');
         first = (\<lambda>ts. case ts of [] \<Rightarrow> None | t # _ \<Rightarrow> Some t) in
     if relation \<in> {''latest'', ''previous''} then Inr (first turns)
     else if relation = ''previous_previous'' then Inr (first (drop 1 turns))
     else if relation = ''visible_turn_offset'' then
       and_then (int_or_raise (dget expression ''visible_turn_offset'') 0)
         (\<lambda>n. if n < int (length turns) then and_then (py_index turns n) (\<lambda>t. Inr (Some t)) else Inr None)
     else if relation = ''first_visible'' then Inr (first (rev turns))
     else if relation = ''last_same_type'' then Inr (first typed_turns)
     else if relation = ''explicit_turn'' then
       and_then (int_or_raise (dget expression ''source_turn'') 0) (\<lambda>t. Inr (Some t))
     else Inr None)"

definition temporal_candidates :: "pydict \<Rightarrow> pydict list \<Rightarrow> string + pydict list" where
  "temporal_candidates expression refs =
    and_then (select (\<lambda>r. matches_object_type r (dget expression ''object_type'')) refs)
      (\<lambda>typed. and_then (distinct_turns refs)
        (\<lambda>turns. and_then (distinct_turns typed)
          (\<lambda>typed_turns. and_then (selected_turn expression turns typed_turns)
            (\<lambda>selected. case selected of
               None \<Rightarrow> Inr []
             | Some t \<Rightarrow> select (\<lambda>r. and_then (source_turn r) (\<lambda>n. Inr (n = t)))
                 (if text_of (dget expression ''temporal_relation'') = ''last_same_type'' then typed else refs)))))"

section \<open>Resolution\<close>

definition ref_handle :: "pydict \<Rightarrow> string" where
  "ref_handle r = text_of (dget r ''result_ref'')"

definition handles_of :: "pydict \<Rightarrow> string + pyval list" where
  "handles_of r = list_of (dget r ''member_handles'')"

text \<open>Latest turn first; within a turn by the rank of the discourse.\<close>

definition recency_key :: "pydict \<Rightarrow> string + int \<times> int" where
  "recency_key r = and_then (source_turn r)
     (\<lambda>t. and_then (int_or_raise (dget r ''discourse_recency_rank'') 0) (\<lambda>n. Inr (t, - n)))"

definition by_recency :: "pydict list \<Rightarrow> string + pydict list" where
  "by_recency rows = and_then (each recency_key rows) (\<lambda>ks. Inr (map snd (sorted_desc fst (zip ks rows))))"

definition candidates_of :: "string \<Rightarrow> pydict \<Rightarrow> pydict list \<Rightarrow> string + pydict list" where
  "candidates_of reference_type expression refs =
    (if reference_type = ''explicit_result_ref'' then
       Inr (filter (\<lambda>r. ref_handle r = text_of (dget expression ''result_ref'')) refs)
     else if reference_type = ''explicit_visible_member'' then
       (let member = text_of (dget expression ''member_handle''); src = text_of (dget expression ''source_result_ref'') in
        select (\<lambda>r. and_then (handles_of r)
          (\<lambda>hs. Inr (member \<in> set (map py_str hs) \<and> (src = [] \<or> ref_handle r = src)))) refs)
     else temporal_candidates expression refs)"

definition cardinality_matches :: "pydict \<Rightarrow> string \<Rightarrow> string + bool" where
  "cardinality_matches r expected =
    (if expected = ''unknown'' then Inr True
     else and_then (handles_of r)
       (\<lambda>hs. Inr (if expected = ''single'' then length hs = 1
          else if expected = ''collection'' then text_of (dget r ''shape'') = ''collection'' else False)))"

definition about_members :: "string \<Rightarrow> bool" where
  "about_members reference_type = (reference_type \<in> {''ordinal_visible_member'', ''explicit_visible_member''})"

definition fitting :: "string \<Rightarrow> string \<Rightarrow> pydict list \<Rightarrow> string + pydict list" where
  "fitting reference_type expected rows =
    (if about_members reference_type then select (\<lambda>r. and_then (handles_of r) (\<lambda>hs. Inr (hs \<noteq> []))) rows
     else select (\<lambda>r. cardinality_matches r expected) rows)"

text \<open>Rows with one scope form a group; for an explicit member all parents do.\<close>

definition scope_groups :: "string \<Rightarrow> pydict list \<Rightarrow> string + pydict list list" where
  "scope_groups reference_type rows =
    (if reference_type = ''explicit_visible_member'' \<and> rows \<noteq> [] then Inr [rows]
     else and_then (each visible_result_scope_key rows)
       (\<lambda>ks. Inr (map (\<lambda>k. map snd (filter (\<lambda>(j, r). j = k) (zip ks rows))) (first_of_each ks))))"

definition preferred :: "string \<Rightarrow> pydict list \<Rightarrow> pydict" where
  "preferred expected aliases =
    (let shape = (if expected = ''single'' then ''one'' else if expected = ''collection'' then ''collection'' else []) in
     case find (\<lambda>r. text_of (dget r ''shape'') = shape) aliases of Some r \<Rightarrow> r | None \<Rightarrow> hd aliases)"

record resolution =
  oc_status :: string
  oc_ref :: "string option"
  oc_members :: "string list"
  oc_position :: "int option"

definition no_result :: "string \<Rightarrow> resolution" where
  "no_result status = \<lparr>oc_status = status, oc_ref = None, oc_members = [], oc_position = None\<rparr>"

definition resolve_group :: "string \<Rightarrow> pydict \<Rightarrow> string \<Rightarrow> pydict list \<Rightarrow> string + resolution" where
  "resolve_group reference_type expression expected aliases =
    (let r = preferred expected aliases in
     and_then (text_list (py_or (dget r ''canonical_order'') (dget r ''member_handles'')))
       (\<lambda>members.
          if reference_type = ''ordinal_visible_member'' then
            and_then (int_or_raise (dget expression ''position'') 0)
              (\<lambda>n. if n < 1 \<or> int (length members) < n then Inr (no_result ''CARDINALITY_CONFLICT'')
                 else Inr \<lparr>oc_status = ''UNIQUE'', oc_ref = Some (ref_handle r),
                   oc_members = [members ! nat (n - 1)], oc_position = Some n\<rparr>)
          else if reference_type = ''explicit_visible_member'' then
            Inr \<lparr>oc_status = ''UNIQUE'', oc_ref = Some (ref_handle r),
              oc_members = [text_of (dget expression ''member_handle'')], oc_position = None\<rparr>
          else Inr \<lparr>oc_status = ''UNIQUE'', oc_ref = Some (ref_handle r), oc_members = members,
            oc_position = None\<rparr>))"

definition decide ::
  "string \<Rightarrow> pydict \<Rightarrow> string \<Rightarrow> pydict list \<Rightarrow> pydict list \<Rightarrow> pydict list \<Rightarrow> pydict list list \<Rightarrow> string + resolution" where
  "decide reference_type expression expected candidates typed fit groups =
    (if candidates \<noteq> [] \<and> typed = [] then Inr (no_result ''TYPE_CONFLICT'')
     else if typed \<noteq> [] \<and> fit = [] then Inr (no_result ''CARDINALITY_CONFLICT'')
     else (case groups of
         [] \<Rightarrow> Inr (no_result ''NOT_FOUND'')
       | [aliases] \<Rightarrow> resolve_group reference_type expression expected aliases
       | _ \<Rightarrow> Inr (no_result ''AMBIGUOUS'')))"

definition candidate_row :: "pydict \<Rightarrow> pydict \<Rightarrow> string + pyval" where
  "candidate_row expression r =
    and_then (resource_types r)
      (\<lambda>known. and_then (source_turn r)
        (\<lambda>turn. and_then (handles_of r)
          (\<lambda>hs. and_then (matches_object_type r (dget expression ''object_type''))
            (\<lambda>match. Inr (PDict [(''result_ref'', PStr (ref_handle r)), (''source_turn'', PInt turn),
                (''shape'', PStr (text_of (dget r ''shape''))), (''member_count'', PInt (int (length hs))),
                (''resource_types'', PList (map PStr (sort known))),
                (''checks'', PDict [(''visible_to_user'', PBool True), (''scope_valid'', PBool True),
                   (''not_expired'', PBool True), (''object_type_match'', PBool match),
                   (''object_type_proven'', PBool (known \<noteq> []))])])))))"

definition with_digest :: "(string \<Rightarrow> string) \<Rightarrow> pydict \<Rightarrow> pydict" where
  "with_digest sha payload = payload @ [(''proof_digest'', PStr (sha (contract_json (PDict payload))))]"

definition proof_payload :: "string \<Rightarrow> pydict \<Rightarrow> pyval list \<Rightarrow> resolution \<Rightarrow> pydict list list \<Rightarrow> pydict" where
  "proof_payload reference_type expression rows oc groups =
    [(''version'', PStr proof_version), (''reference_expression'', PDict expression), (''candidate_refs'', PList rows),
     (''resolution_status'', PStr (oc_status oc)), (''resolved_result_ref'', opt_val (oc_ref oc)),
     (''resolved_member_handles'', PList (map PStr (oc_members oc))),
     (''resolved_position'', case oc_position oc of None \<Rightarrow> PNone | Some n \<Rightarrow> PInt n),
     (''auto_substitution_used'', PBool False),
     (''equivalent_candidate_scope_count'', PInt (int (length groups))),
     (''equivalent_aliases_collapsed'', PInt (int (sum_list (map (\<lambda>g. length g - 1) groups)))),
     (''selection_policy'', PStr (if reference_type = ''explicit_visible_member''
        then ''explicit_member_identity_then_visible_parent_provenance_no_fallback''
        else ''typed_relation_then_semantic_scope_equivalence_then_runtime_validation_no_fallback''))]"

definition invalid_expression_proof :: "(string \<Rightarrow> string) \<Rightarrow> pydict \<Rightarrow> pydict" where
  "invalid_expression_proof sha expression = with_digest sha
    [(''version'', PStr proof_version), (''reference_expression'', PDict expression), (''candidate_refs'', PList []),
     (''resolution_status'', PStr ''INVALID_EXPRESSION''), (''resolved_result_ref'', PNone),
     (''resolved_member_handles'', PList []), (''auto_substitution_used'', PBool False),
     (''reason'', PStr ''invalid_reference_type'')]"

definition visible_rows :: "pyval list \<Rightarrow> pydict list" where
  "visible_rows refs = filter (\<lambda>r. ref_handle r \<noteq> []) (only_dicts refs)"

definition resolve_reference_expression ::
  "(string \<Rightarrow> string) \<Rightarrow> pydict \<Rightarrow> pyval list \<Rightarrow> string + pydict" where
  "resolve_reference_expression sha expression visible =
    and_then (by_recency (visible_rows visible))
      (\<lambda>refs. let reference_type = text_of (dget expression ''reference_type'');
           expected = text_of (py_or (dget expression ''expected_cardinality'') (PStr ''unknown'')) in
        if reference_type \<notin> set reference_types then Inr (invalid_expression_proof sha expression)
        else and_then (candidates_of reference_type expression refs)
          (\<lambda>candidates. and_then
            (select (\<lambda>r. matches_object_type r (dget expression ''object_type'')) candidates)
            (\<lambda>typed. and_then (fitting reference_type expected typed)
              (\<lambda>fit. and_then (scope_groups reference_type fit)
                (\<lambda>groups. and_then (decide reference_type expression expected candidates typed fit groups)
                  (\<lambda>oc. and_then (each (candidate_row expression) candidates)
                    (\<lambda>rows. Inr (with_digest sha (proof_payload reference_type expression rows oc groups)))))))))"

end
