(* ===== verification/Goal_Contract.thy ===== *)
theory Goal_Contract
  imports Goal_Condition Goal_Reference
begin

text \<open>
  \<open>lifecycle/semantic_contract.py\<close>: the normalisation of the goals of a turn and their freezing
  into the semantic contract. A dict the code builds key by key is written here as the list of
  its items in the same order.
\<close>

section \<open>Requested effects\<close>

definition text_field :: "pydict \<Rightarrow> string \<Rightarrow> nat \<Rightarrow> string" where
  "text_field d k n = limited n (dget d k)"

text \<open>One requested output; the loop threads the ids seen and the rows.\<close>

definition requested_output ::
  "nat \<times> pyval \<Rightarrow> string list \<times> pydict list \<Rightarrow> string + string list \<times> pydict list" where
  "requested_output iv s =
    (let (i, v) = iv; (seen, rows) = s in
     case as_pydict v of
       None \<Rightarrow> Inl (''requested_effect.output_invalid:'' @ digits_of i)
     | Some raw \<Rightarrow>
        let oid = py_lower (text_field raw ''output_id'' 240); ev = text_field raw ''evidence_span'' 240;
            descr = text_field raw ''open_description'' 500 in
        if oid = [] \<or> ev = [] then Inl (''requested_effect.output_incomplete:'' @ digits_of i)
        else if oid \<in> set seen then Inl (''requested_effect.output_duplicate:'' @ oid)
        else if oid = ''open'' \<and> descr = [] then Inl ''requested_effect.open_description_required''
        else if oid \<noteq> ''open'' \<and> descr \<noteq> [] then Inl ''requested_effect.open_description_only_for_open''
        else Inr (oid # seen, rows @ [[(''output_id'', PStr oid), (''evidence_span'', PStr ev)]
          @ (if descr = [] then [] else [(''open_description'', PStr descr)])]))"

text \<open>\<open>s.split(".", 1)\<close> when a dot occurs, two empty texts otherwise.\<close>

definition split_first_dot :: "string \<Rightarrow> string \<times> string" where
  "split_first_dot s = (if CHR ''.'' \<in> set s
     then (takeWhile (\<lambda>c. c \<noteq> CHR ''.'') s, drop 1 (dropWhile (\<lambda>c. c \<noteq> CHR ''.'') s)) else ([], []))"

definition optional_field :: "string \<Rightarrow> string \<Rightarrow> pydict" where
  "optional_field k s = (if s = [] then [] else [(k, PStr s)])"

definition effect_of_outputs :: "pydict \<Rightarrow> string \<Rightarrow> pydict list \<Rightarrow> pydict" where
  "effect_of_outputs src raw_description outputs =
    (let ids = map (\<lambda>r. text_of (dget r ''output_id'')) outputs;
         first_semantic = (case find (\<lambda>s. s \<noteq> ''open'') ids of Some s \<Rightarrow> s | None \<Rightarrow> []);
         (semantic_domain, semantic_operation) = split_first_dot first_semantic in
     [(''domain'', PStr (str_or (str_or (text_field src ''domain'' 120) semantic_domain) ''open'')),
      (''operation'', PStr (str_or (text_field src ''operation'' 160)
         (if length outputs = 1 \<and> semantic_operation \<noteq> [] then semantic_operation else ''semantic_output_set''))),
      (''object_type'', PStr (str_or (limited 160 (py_or (dget src ''object_type'') (dget src ''subject_type'')))
         ''unspecified'')),
      (''requested_outputs'', PList (map PDict outputs)), (''raw_description'', PStr raw_description)]
     @ optional_field ''effect_kind'' (py_lower (text_field src ''effect_kind'' 80))
     @ optional_field ''subject_type'' (py_lower (text_field src ''subject_type'' 160)))"

definition normalize_requested_effect :: "pyval \<Rightarrow> string \<Rightarrow> string + pydict" where
  "normalize_requested_effect v description =
    (let src = dict_or v; raw_description = limited 2000 (py_or (dget src ''raw_description'') (PStr description)) in
     case dget src ''requested_outputs'' of
       PList xs \<Rightarrow>
         if xs = [] \<or> 8 < length xs then Inl ''requested_effect.requested_outputs_required''
         else and_then (thread requested_output (zip [0..<length xs] xs) ([], []))
           (\<lambda>(seen, outputs). Inr (effect_of_outputs src raw_description outputs))
     | _ \<Rightarrow>
         let operation = text_field src ''operation'' 160 in
         if operation = [] then Inl ''requested_effect.operation_required''
         else Inr [(''domain'', PStr (str_or (text_field src ''domain'' 120) ''open'')),
           (''operation'', PStr operation),
           (''object_type'', PStr (str_or (text_field src ''object_type'' 160) ''unspecified'')),
           (''raw_description'', PStr raw_description)])"

section \<open>Input bindings\<close>

definition binding_error :: "string \<Rightarrow> string \<Rightarrow> nat \<Rightarrow> string" where
  "binding_error code g i = code @ '':'' @ g @ '':'' @ digits_of i"

definition binding_source :: "string \<Rightarrow> nat \<Rightarrow> string \<Rightarrow> pydict \<Rightarrow> string + pydict" where
  "binding_source g i relation src =
    (let kind = text_field src ''kind'' 80 in
     if kind = ''current_goal_output'' then
       (let producer = text_field src ''producer_goal_id'' 200; oid = py_lower (text_field src ''output_id'' 240) in
        if producer = [] \<or> oid = [] then Inl (binding_error ''goal_input_binding_producer_incomplete'' g i)
        else if relation \<notin> {''result_reference'', ''result_value_input''}
        then Inl (binding_error ''goal_input_binding_relation_invalid'' g i)
        else Inr [(''kind'', PStr kind), (''producer_goal_id'', PStr producer), (''output_id'', PStr oid)])
     else if kind = ''current_text'' then
       (let subject = text_field src ''subject_ref'' 500 in
        if subject = [] \<or> relation \<noteq> ''shared_subject''
        then Inl (binding_error ''goal_input_binding_current_text_invalid'' g i)
        else Inr [(''kind'', PStr kind), (''subject_ref'', PStr subject)])
     else if kind = ''visible_result_ref'' then
       (let ref = text_field src ''result_ref'' 500 in
        if ref = [] \<or> relation \<noteq> ''historical_result''
        then Inl (binding_error ''goal_input_binding_visible_result_invalid'' g i)
        else Inr [(''kind'', PStr kind), (''result_ref'', PStr ref)])
     else Inl (binding_error ''goal_input_binding_source_invalid'' g i))"

definition normalize_input_binding ::
  "(string \<Rightarrow> string) \<Rightarrow> string \<Rightarrow> string \<Rightarrow> nat \<times> pyval \<Rightarrow> string + pydict" where
  "normalize_input_binding sha user_text g iv =
    (let (i, v) = iv in
     case as_pydict v of
       None \<Rightarrow> Inl (binding_error ''goal_input_binding_invalid'' g i)
     | Some raw \<Rightarrow>
        let port = text_field raw ''port'' 240; relation = text_field raw ''relation_kind'' 80;
            expected = py_lower (text_field raw ''expected_cardinality'' 40);
            ev = text_field raw ''evidence_span'' 500 in
        if port = [] \<or> ev = [] \<or> \<not> py_in ev user_text
        then Inl (binding_error ''goal_input_binding_evidence_invalid'' g i)
        else if expected \<notin> {''single'', ''collection'', ''unknown''}
        then Inl (binding_error ''goal_input_binding_cardinality_invalid'' g i)
        else and_then (binding_source g i relation (dict_or (dget raw ''source'')))
          (\<lambda>src. let binding = [(''version'', PStr binding_version), (''port'', PStr port), (''source'', PDict src),
               (''relation_kind'', PStr relation), (''expected_cardinality'', PStr expected),
               (''evidence_span'', PStr ev)] in
             Inr (binding @ [(''binding_digest'', PStr (sha (contract_json (PDict binding))))])))"

section \<open>Goals\<close>

definition blank_value :: "pyval \<Rightarrow> bool" where
  "blank_value v = (v \<in> {PNone, PStr [], PList [], PDict []})"

definition kept_keys :: "string list" where
  "kept_keys = [''target_candidate'', ''input_candidates'', ''condition'', ''execution_commitment'',
     ''reference_expression'', ''referent_resolution_proof'', ''resolved_reference'']"

text \<open>The dependencies a raw goal declares: typed bindings, or plain ids in earlier checkpoints.\<close>

definition normalized_dependencies ::
  "(string \<Rightarrow> string) \<Rightarrow> string \<Rightarrow> string \<Rightarrow> pydict \<Rightarrow> string + pydict" where
  "normalized_dependencies sha user_text g goal =
    (if has_field ''input_bindings'' goal then
       if has_field ''depends_on'' goal then Inl (''raw_goal_dependency_forbidden:'' @ g)
       else (case dget goal ''input_bindings'' of
           PList xs \<Rightarrow>
             if 8 < length xs then Inl (''goal_input_bindings_invalid:'' @ g)
             else and_then (each (normalize_input_binding sha user_text g) (zip [0..<length xs] xs))
               (\<lambda>bs. Inr [(''input_bindings'', PList (map PDict bs))])
         | _ \<Rightarrow> Inl (''goal_input_bindings_invalid:'' @ g))
     else and_then (list_of (dget goal ''depends_on''))
       (\<lambda>xs. Inr [(''depends_on'', PList (map PStr (filter (\<lambda>s. s \<noteq> []) (map (limited 200) xs))))]))"

definition normalized_goal_base :: "(string \<Rightarrow> string) \<Rightarrow> string \<Rightarrow> pydict \<Rightarrow> string + pydict" where
  "normalized_goal_base sha user_text goal =
    (let g = text_field goal ''goal_id'' 200; description = text_field goal ''description'' 2000;
         ev = text_field goal ''evidence_span'' 2000 in
     if g = [] then Inl ''goal_id_required''
     else if description = [] then Inl (''goal_description_required:'' @ g)
     else if ev = [] then Inl (''goal_evidence_required:'' @ g)
     else and_then (normalize_requested_effect (dget goal ''requested_effect'') description)
       (\<lambda>effect. and_then (normalized_dependencies sha user_text g goal)
         (\<lambda>deps. Inr ([(''goal_id'', PStr g), (''description'', PStr description), (''evidence_span'', PStr ev),
             (''requested_effect'', PDict effect),
             (''expected_result_cardinality'', PStr (limited 40
               (py_or (dget goal ''expected_result_cardinality'') (PStr ''none'')))),
             (''required'', PBool (case map_of goal ''required'' of None \<Rightarrow> True | Some v \<Rightarrow> truthy v))]
           @ deps
           @ optional_field ''continuation_of'' (text_field goal ''continuation_of'' 200)
           @ map (\<lambda>k. (k, dget goal k)) (filter (\<lambda>k. \<not> blank_value (dget goal k)) kept_keys)
           @ (let legacy = text_field goal ''goal_type'' 80 in if legacy = [] then []
              else [(''compatibility'', PDict [(''legacy_goal_type'', PStr legacy)])])))))"

text \<open>The condition of a goal, normalised over the goals of the turn.\<close>

definition normalize_goal_condition :: "string list \<Rightarrow> pydict \<Rightarrow> string + pydict" where
  "normalize_goal_condition known goal =
    (if \<not> has_field ''condition'' goal then Inr goal
     else and_then (normalize_condition known 0 (dget goal ''condition''))
       (\<lambda>condition. if has_field ''input_bindings'' goal then Inr (dset ''condition'' (PDict condition) goal)
         else and_then (condition_goal_dependencies (PDict condition))
           (\<lambda>required. and_then (list_of (dget goal ''depends_on''))
             (\<lambda>declared. let missing = sort (filter (\<lambda>d. PStr d \<notin> set declared) required) in
               if missing \<noteq> [] then Inl (''condition_dependency_not_declared:''
                 @ text_of (dget goal ''goal_id'') @ '':'' @ join_with '','' missing)
               else Inr (dset ''condition'' (PDict condition) goal)))))"

section \<open>References\<close>

definition reference_expected :: "pydict \<Rightarrow> string \<times> string" where
  "reference_expected goal =
    (let effect = dict_or (dget goal ''requested_effect'') in
     (text_of (py_or (dget effect ''subject_type'') (dget effect ''object_type'')),
      text_of (py_or (dget goal ''expected_result_cardinality'') (PStr ''unknown''))))"

text \<open>The reference fields once the proof is known to be integral.\<close>

definition resolved_fields :: "string \<Rightarrow> pydict \<Rightarrow> pyval \<Rightarrow> pydict \<Rightarrow> string + pydict" where
  "resolved_fields g proof resolved_value goal =
    (let status = text_of (dget proof ''resolution_status'') in
     if status \<noteq> ''UNIQUE'' then Inl (''referent_resolution_not_unique:'' @ g @ '':'' @ status)
     else case as_pydict resolved_value of
       None \<Rightarrow> Inl (''resolved_reference_required:'' @ g)
     | Some resolved \<Rightarrow>
        let result_ref = text_field resolved ''result_ref'' 500;
            digest = limited 128 (py_or (dget resolved ''proof_digest'') (dget proof ''proof_digest'')) in
        and_then (text_list (dget resolved ''member_handles''))
          (\<lambda>members. and_then (text_list (dget proof ''resolved_member_handles''))
            (\<lambda>proof_members.
               if result_ref = [] \<or> members = [] \<or> digest = [] then Inl (''resolved_reference_incomplete:'' @ g)
               else if result_ref \<noteq> text_field proof ''resolved_result_ref'' 500 \<or> members \<noteq> proof_members
                 \<or> PStr digest \<noteq> dget proof ''proof_digest''
               then Inl (''resolved_reference_proof_mismatch:'' @ g)
               else Inr (dset ''resolved_reference'' (PDict ([(''result_ref'', PStr result_ref),
                     (''member_handles'', PList (map PStr members)), (''proof_digest'', PStr digest)]
                   @ (case dget resolved ''position'' of PInt n \<Rightarrow> [(''position'', PInt n)] | _ \<Rightarrow> [])))
                 (dset ''referent_resolution_proof'' (PDict proof) goal)))))"

definition normalize_reference_fields ::
  "(string \<Rightarrow> string) \<Rightarrow> string \<Rightarrow> pydict \<Rightarrow> string + pydict" where
  "normalize_reference_fields sha user_text goal =
    (let e = dget goal ''reference_expression''; proof = dget goal ''referent_resolution_proof'';
         resolved = dget goal ''resolved_reference''; g = text_of (dget goal ''goal_id'');
         (object_type, cardinality) = reference_expected goal in
     if e = PNone \<and> proof = PNone \<and> resolved = PNone then Inr goal
     else and_then (if e = PNone then Inr goal
         else and_then (normalize_reference_expression e user_text object_type cardinality)
           (\<lambda>x. Inr (dset ''reference_expression'' (PDict x) goal)))
       (\<lambda>goal'. and_then (referent_resolution_proof_integrity sha proof
             (as_pydict (dget goal' ''reference_expression'')))
         (\<lambda>r. if \<not> integrity_ok r then
             Inl (''referent_resolution_proof_invalid:'' @ g @ '':'' @ str_or (text_of (dget r ''code'')) ''UNKNOWN'')
           else resolved_fields g (dict_or proof) resolved goal')))"

section \<open>Freezing\<close>

text \<open>The position of a goal in the turn; the number of goals for an id that is none of them.\<close>

definition goal_position :: "string list \<Rightarrow> string \<Rightarrow> nat" where
  "goal_position ids g = length (takeWhile (\<lambda>x. x \<noteq> g) ids)"

definition output_ids :: "pydict \<Rightarrow> string + string list" where
  "output_ids goal =
    and_then (list_of (dget (dict_or (dget goal ''requested_effect'')) ''requested_outputs''))
      (\<lambda>xs. Inr (filter (\<lambda>s. s \<noteq> []) (map (\<lambda>r. py_lower (text_field r ''output_id'' 240)) (only_dicts xs))))"

definition check_binding ::
  "string list \<Rightarrow> (string \<times> string list) list \<Rightarrow> string \<Rightarrow> pydict \<Rightarrow> string list \<Rightarrow> string + string list" where
  "check_binding ids outputs g b ports =
    (let port = text_of (dget b ''port''); src = dict_or (dget b ''source'');
         producer = text_of (dget src ''producer_goal_id''); oid = text_of (dget src ''output_id'') in
     if port \<in> set ports then Inl (''goal_input_binding_port_duplicate:'' @ g @ '':'' @ port)
     else if dget src ''kind'' \<noteq> PStr ''current_goal_output'' then Inr (port # ports)
     else if producer = g then Inl (''goal_input_binding_self_reference:'' @ g)
     else if goal_position ids g \<le> goal_position ids producer
     then Inl (''goal_input_binding_producer_must_precede_consumer:'' @ g @ '':'' @ producer)
     else if oid \<notin> set (case map_of outputs producer of None \<Rightarrow> [] | Some os \<Rightarrow> os)
     then Inl (''goal_input_binding_output_unknown:'' @ g @ '':'' @ producer @ '':'' @ oid)
     else Inr (port # ports))"

definition check_dependencies ::
  "bool \<Rightarrow> string list \<Rightarrow> (string \<times> string list) list \<Rightarrow> pydict \<Rightarrow> string + unit" where
  "check_dependencies typed ids outputs goal =
    (let g = text_of (dget goal ''goal_id'') in
     and_then (goal_dependency_ids goal)
       (\<lambda>ds. let unknown = filter (\<lambda>d. d \<notin> set ids) ds in
         if unknown \<noteq> [] then Inl (''unknown_goal_dependency:'' @ g @ '':'' @ join_with '','' unknown)
         else if typed then
           and_then (list_of (dget goal ''input_bindings''))
             (\<lambda>bs. and_then (thread (check_binding ids outputs g) (only_dicts bs) []) (\<lambda>ports. Inr ()))
         else Inr ()))"

definition normalize_goal ::
  "(string \<Rightarrow> string) \<Rightarrow> string \<Rightarrow> bool \<Rightarrow> string list \<Rightarrow> (string \<times> string list) list \<Rightarrow> pydict \<Rightarrow> string + pydict" where
  "normalize_goal sha user_text typed ids outputs goal =
    and_then (check_dependencies typed ids outputs goal)
      (\<lambda>_. and_then (normalize_goal_condition ids goal) (normalize_reference_fields sha user_text))"

definition normalize_goals ::
  "(string \<Rightarrow> string) \<Rightarrow> string \<Rightarrow> pydict list \<Rightarrow> string + bool \<times> pydict list" where
  "normalize_goals sha user_text goals =
    (let modes = remdups (map (has_field ''input_bindings'') goals); typed = (modes = [True]) in
     if 1 < length modes then Inl ''mixed_goal_dependency_authorities_forbidden''
     else and_then (each (normalized_goal_base sha user_text) goals)
       (\<lambda>base. let ids = map (\<lambda>r. text_of (dget r ''goal_id'')) base in
         if \<not> distinct ids then Inl ''duplicate_goal_id''
         else and_then (each output_ids base)
           (\<lambda>os. and_then (each (normalize_goal sha user_text typed ids (zip ids os)) base)
             (\<lambda>rows. and_then (find_goal_dependency_cycle rows)
               (\<lambda>cycle. if cycle \<noteq> [] then Inl (''goal_dependency_cycle:'' @ join_with ''->'' cycle)
                  else Inr (typed, rows))))))"

record freeze_input =
  fz_turn :: int
  fz_user_text :: string
  fz_summary :: string
  fz_goals :: "pydict list"
  fz_alignment :: pyval
  fz_granularity :: pyval
  fz_changes :: "pyval list"
  fz_blockers :: "pyval list"
  fz_focus :: pyval

definition contract_payload :: "freeze_input \<Rightarrow> bool \<Rightarrow> pydict list \<Rightarrow> pydict" where
  "contract_payload i typed rows =
    [(''version'', PStr contract_version), (''authority'', PStr ''sole_formal_turn_semantics''),
     (''immutable'', PBool True), (''turn'', PInt (fz_turn i)),
     (''user_text'', PStr (limited 20000 (PStr (fz_user_text i)))),
     (''summary'', PStr (limited 2000 (PStr (fz_summary i)))),
     (''goals'', PList (map PDict rows)),
     (''dependency_authority'', PStr (if typed then binding_authority else legacy_authority)),
     (''goal_changes'', PList (map PDict (only_dicts (fz_changes i)))),
     (''blocker_resolutions'', PList (map PDict (only_dicts (fz_blockers i)))),
     (''focus_change'', case as_pydict (fz_focus i) of None \<Rightarrow> PNone | Some d \<Rightarrow> PDict d),
     (''alignment_proof'', fz_alignment i),
     (''granularity_proof'', py_or (fz_granularity i)
        (PDict [(''verdict'', PStr ''exact''), (''source'', PStr ''compatibility_default'')])),
     (''semantic_rewrite_allowed_after_freeze'', PBool False)]"

definition freeze_semantic_contract :: "(string \<Rightarrow> string) \<Rightarrow> freeze_input \<Rightarrow> string + pydict" where
  "freeze_semantic_contract sha i =
    and_then (normalize_goals sha (fz_user_text i) (fz_goals i))
      (\<lambda>(typed, rows). let payload = contract_payload i typed rows; digest = compute_semantic_digest sha payload in
        Inr (payload @ [(''semantic_digest'', PStr digest),
          (''semantic_contract_id'', PStr (contract_id (fz_turn i) digest))]))"

definition semantic_contract_ready :: "(string \<Rightarrow> string) \<Rightarrow> pydict \<Rightarrow> string + bool" where
  "semantic_contract_ready sha state =
    (case as_pydict (dget state ''frozen_semantic_contract'') of
       None \<Rightarrow> Inr False
     | Some c \<Rightarrow>
        if dget c ''version'' \<noteq> PStr contract_version \<or> dget c ''authority'' \<noteq> PStr ''sole_formal_turn_semantics''
        then Inr False
        else and_then (semantic_contract_integrity sha (PDict c)) (\<lambda>r. Inr (integrity_ok r)))"

text \<open>\<open>goal_declaration_projection_from_contract\<close>: the same-turn projection planning reads.\<close>

definition projected_goal :: "pydict \<Rightarrow> string + pydict" where
  "projected_goal goal =
    (let compatibility = dict_or (dget goal ''compatibility'');
         start = map (\<lambda>k. (k, dget goal k)) [''goal_id'', ''description'', ''evidence_span'']
           @ [(''goal_type'', PStr (text_of (py_or (dget compatibility ''legacy_goal_type'') (PStr ''open'')))),
              (''requested_effect'', dget goal ''requested_effect''),
              (''expected_result_cardinality'', py_or (dget goal ''expected_result_cardinality'') (PStr ''none'')),
              (''required'', PBool (case map_of goal ''required'' of None \<Rightarrow> True | Some v \<Rightarrow> truthy v))];
         rest = map (\<lambda>k. (k, dget goal k)) (filter (\<lambda>k. has_field k goal)
           [''condition'', ''reference_expression'', ''referent_resolution_proof'', ''resolved_reference'']) in
     if \<not> list_all (\<lambda>k. has_field k goal) [''goal_id'', ''description'', ''evidence_span'', ''requested_effect'']
     then Inl ''KeyError''
     else case dget goal ''input_bindings'' of
       PList bs \<Rightarrow> and_then (goal_dependency_ids goal)
         (\<lambda>ds. Inr (start @ [(''input_bindings'', PList bs),
            (''derived_dependency_goal_ids'', PList (map PStr ds))] @ rest))
     | _ \<Rightarrow> and_then (list_of (dget goal ''depends_on''))
         (\<lambda>xs. Inr (start @ [(''depends_on'', PList xs)] @ rest)))"

definition goal_declaration_projection :: "(string \<Rightarrow> string) \<Rightarrow> pydict \<Rightarrow> string + pydict" where
  "goal_declaration_projection sha contract =
    and_then (semantic_goals sha contract)
      (\<lambda>goals. and_then (each projected_goal goals)
        (\<lambda>rows. and_then (int_or_raise (dget contract ''turn'') 0)
          (\<lambda>turn. Inr [(''version'', PStr ''goal-declaration-projection@1''),
            (''authority'', PStr ''derived_from_frozen_semantic_contract''),
            (''formal_semantic_contract_id'', dget contract ''semantic_contract_id''),
            (''formal_semantic_digest'', dget contract ''semantic_digest''), (''turn'', PInt turn),
            (''summary'', PStr (text_field contract ''summary'' 2000)), (''goals'', PList (map PDict rows)),
            (''alignment_proof'', py_or (dget contract ''alignment_proof'') (PDict [])),
            (''granularity_proof'', py_or (dget contract ''granularity_proof'') (PDict []))])))"

end
