(* ===== verification/Goal_Frozen.thy ===== *)
theory Goal_Frozen
  imports Goal_Contract
begin

text \<open>
  What freezing establishes. A frozen contract passes the integrity check that its readers run:
  its digests fit, its goals are named apart, every dependency is on a goal of the turn, also
  those read out of a normalised condition, and the dependencies are acyclic.
\<close>

section \<open>The goals a normalised condition reads\<close>

lemma reads_named: "[] \<notin> set (condition_reads v)"
  by (induction v rule: condition_reads.induct) auto

lemma reads_member: "(k, v) \<in> set d \<Longrightarrow> set (condition_reads v) \<subseteq> set (condition_reads (PDict d))"
  using reads_named [of v] by force

declare condition_reads.simps(1) [simp del]

lemma reads_dget: "set (condition_reads (dget d k)) \<subseteq> set (condition_reads (PDict d))"
proof (cases "map_of d k")
  case (Some v)
  then show ?thesis using reads_member [OF map_of_SomeD [OF Some]] by (simp add: dget_def)
qed (simp add: dget_def)

lemma reads_item: "v \<in> set vs \<Longrightarrow> set (condition_reads v) \<subseteq> set (condition_reads (PList vs))"
  by auto

lemma operand_reads:
  assumes "operand v = Inr r" and "\<not> names_unknown_goal known r" and "\<And>k. k \<in> set known \<Longrightarrow> settled 200 k"
  shows "set (condition_reads (PDict r)) \<subseteq> set known \<union> set (condition_reads (dget r ''value''))"
proof -
  have "canonical_operand known r" using assms(1,2) by (rule canonical_operand_intro)
  then show ?thesis using assms(3) by (auto simp: canonical_operand_def condition_reads.simps(1))
qed

lemma operand_value:
  assumes "operand v = Inr r"
  shows "dget r ''value'' = PNone \<or> dget r ''value'' = v \<and> as_pydict v = None
    \<or> (\<exists>d. v = PDict d \<and> dget r ''value'' = dget d ''value'')"
  using assms by (auto simp: operand_def Let_def err_simps split: pyval.splits if_splits)

lemma condition_cases:
  assumes "normalize_condition known depth raw = Inr row"
  obtains (logical) d op args rows where "raw = PDict d" "op \<in> set logical_ops"
      "set args \<subseteq> (case dget d ''args'' of PList xs \<Rightarrow> set xs | _ \<Rightarrow> {})"
      "each (normalize_condition known (Suc depth)) args = Inr rows"
      "row = expression_row op [(''args'', PList (map PDict rows))]"
  | (comparison) d source op where "raw = PDict d"
      "source = (case legacy_to_canonical d of Some e \<Rightarrow> e | None \<Rightarrow> d)"
      "op \<in> set comparisons" "comparison_row op source = Inr row" "checked known row = Inr row"
proof -
  obtain d where raw: "raw = PDict d" using normalize_object [OF assms] by blast
  define source where "source = (case legacy_to_canonical d of Some e \<Rightarrow> e | None \<Rightarrow> d)"
  define op where "op = py_lower (limited 40 (dget source ''op''))"
  have depth: "\<not> max_condition_depth < depth" using normalize_depth [OF assms] by simp
  note unfolded = assms [unfolded raw normalize_steps, folded source_def, unfolded Let_def, folded op_def]
  show thesis
  proof (cases "op \<in> set logical_ops")
    case True
    define args where "args = (case dget source ''args'' of PList xs \<Rightarrow> xs | _ \<Rightarrow> [])"
    obtain rows where rows: "each (normalize_condition known (Suc depth)) args = Inr rows"
        "row = expression_row op [(''args'', PList (map PDict rows))]"
      using unfolded True depth unfolding args_def by (simp only: if_False if_True) (auto simp: err_simps split: if_splits)
    have "op \<in> set comparisons" if "legacy_to_canonical d = Some e" for e
      using that by (auto simp: op_def source_def legacy_to_canonical_def Let_def split: if_splits)
    then have "legacy_to_canonical d = None"
      using True comparison_not_logical by (cases "legacy_to_canonical d") auto
    then have "source = d" by (simp add: source_def)
    then have "set args \<subseteq> (case dget d ''args'' of PList xs \<Rightarrow> set xs | _ \<Rightarrow> {})"
      by (auto simp: args_def split: pyval.splits)
    then show ?thesis using logical [OF raw True _ rows] by blast
  next
    case False
    then obtain row' where r: "op \<in> set comparisons" "comparison_row op source = Inr row'" "checked known row' = Inr row"
      using unfolded depth by (auto simp: err_simps split: if_splits)
    have "row = row'" using comparison_canonical [OF r] by simp
    then show ?thesis using comparison [OF raw source_def r(1)] r by simp
  qed
qed

lemma operand_literal: "operand (literal w) = Inr [(''source'', PStr ''literal''), (''value'', w)]"
proof -
  have "''literal'' \<in> set operand_sources" by (simp add: operand_sources_def)
  then show ?thesis by (simp add: literal_def operand_def Let_def)
qed

lemma legacy_parts:
  assumes "legacy_to_canonical d = Some e" and k: "k \<in> {''left'', ''right'', ''lower'', ''upper''}"
  shows "(\<exists>g p. dget e k = PDict [(''source'', PStr ''goal_output''), (''goal_id'', g), (''path'', p)])
    \<or> (\<exists>j. dget e k = literal (dget d j)) \<or> dget e k = PNone"
proof -
  define operator where "operator = py_lower (limited 40 (dget d ''operator''))"
  define head where "head = [(''op'', PStr operator), (''left'', PDict [(''source'', PStr ''goal_output''),
      (''goal_id'', PStr (limited 200 (dget d ''source_goal_id''))),
      (''path'', PStr (limited 300 (py_or (dget d ''output_path'') (dget d ''path''))))])]"
  define tail where "tail = (if operator = ''between'' then
      [(''lower'', literal (dget d ''lower'')), (''upper'', literal (dget d ''upper''))]
    else if operator \<noteq> ''exists'' then [(''right'', literal (dget d ''value''))] else [])"
  have eq: "legacy_to_canonical d = (if limited 200 (dget d ''source_goal_id'') \<noteq> []
      \<and> limited 300 (py_or (dget d ''output_path'') (dget d ''path'')) \<noteq> [] \<and> operator \<in> set comparisons
      then Some (head @ tail) else None)"
    unfolding legacy_to_canonical_def Let_def head_def tail_def operator_def by (rule refl)
  have e: "e = head @ tail" using assms(1) unfolding eq by (simp split: if_split_asm)
  have "tail = [(''lower'', literal (dget d ''lower'')), (''upper'', literal (dget d ''upper''))]
      \<or> tail = [(''right'', literal (dget d ''value''))] \<or> tail = []"
    by (simp add: tail_def)
  then show ?thesis using k by (elim insertE emptyE disjE) (simp_all add: e head_def, blast+)
qed

text \<open>The literals of a comparison come out of the raw condition.\<close>

lemma source_literals:
  assumes "operand (dget (case legacy_to_canonical d of Some e \<Rightarrow> e | None \<Rightarrow> d) k) = Inr r"
    and k: "k \<in> {''left'', ''right'', ''lower'', ''upper''}"
  shows "set (condition_reads (dget r ''value'')) \<subseteq> set (condition_reads (PDict d))"
proof (cases "legacy_to_canonical d")
  case None
  then have "operand (dget d k) = Inr r" using assms(1) by simp
  from operand_value [OF this] show ?thesis
  proof (elim disjE exE conjE)
    fix e assume e: "dget d k = PDict e" "dget r ''value'' = dget e ''value''"
    have "set (condition_reads (PDict e)) \<subseteq> set (condition_reads (PDict d))"
      using reads_dget [of d k] unfolding e(1) .
    then show ?thesis unfolding e(2) by (rule order_trans [OF reads_dget])
  qed (use reads_dget [of d k] in simp_all)
next
  case (Some e)
  then have r: "operand (dget e k) = Inr r" using assms(1) by simp
  from legacy_parts [OF Some k] show ?thesis
  proof (elim disjE exE)
    fix g p
    assume e: "dget e k = PDict [(''source'', PStr ''goal_output''), (''goal_id'', g), (''path'', p)]"
    have "dget r ''value'' = PNone" using operand_value [OF r] e by auto
    then show ?thesis by simp
  next
    fix j assume e: "dget e k = literal (dget d j)"
    have "dget r ''value'' = dget d j" using r unfolding e operand_literal by auto
    then show ?thesis using reads_dget [of d j] by simp
  next
    assume e: "dget e k = PNone"
    have "dget r ''value'' = PNone" using operand_value [OF r] e by auto
    then show ?thesis by simp
  qed
qed

lemma comparison_operands:
  assumes "comparison_row op source = Inr row" and "op \<in> set comparisons"
  obtains parts where "row = expression_row op parts"
    "\<And>k v. (k, v) \<in> set parts \<Longrightarrow> \<exists>r. v = PDict r \<and> operand (dget source k) = Inr r
       \<and> k \<in> {''left'', ''right'', ''lower'', ''upper''} \<and> r \<in> set (operand_rows parts)"
    "dget parts ''source'' = PNone"
proof -
  obtain l where l: "operand (dget source ''left'') = Inr l"
    using assms by (auto simp: comparison_row_def err_simps)
  consider (between) a b where "op = ''between''" "operand (dget source ''lower'') = Inr a"
      "operand (dget source ''upper'') = Inr b"
      "row = expression_row op [(''left'', PDict l), (''lower'', PDict a), (''upper'', PDict b)]"
    | (exists) "row = expression_row op [(''left'', PDict l)]"
    | (relation) r where "operand (dget source ''right'') = Inr r"
      "row = expression_row op [(''left'', PDict l), (''right'', PDict r)]"
    using assms l by (auto simp: comparison_row_def expression_row_def err_simps Let_def split: if_splits)
  then show thesis
  proof cases
    case between
    then show ?thesis using l by (intro that [of "[(''left'', PDict l), (''lower'', PDict a), (''upper'', PDict b)]"]) auto
  next
    case exists
    then show ?thesis using l by (intro that [of "[(''left'', PDict l)]"]) auto
  next
    case relation
    then show ?thesis using l by (intro that [of "[(''left'', PDict l), (''right'', PDict r)]"]) auto
  qed
qed

lemma reads_expression_row:
  "set (condition_reads (PDict (expression_row op parts)))
     \<subseteq> (if dget parts ''source'' = PStr ''goal_output'' then {limited 200 (dget parts ''goal_id'')} else {})
       \<union> (\<Union>(k, v) \<in> set parts. set (condition_reads v))"
  by (auto simp: expression_row_def condition_reads.simps(1))

lemma normalize_reads:
  assumes "normalize_condition known depth raw = Inr row" and settled: "\<And>k. k \<in> set known \<Longrightarrow> settled 200 k"
  shows "set (condition_reads (PDict row)) \<subseteq> set known \<union> set (condition_reads raw)"
  using assms(1)
proof (induction "max_condition_depth - depth" arbitrary: depth raw row rule: less_induct)
  case less
  from less.prems show ?case
  proof (cases rule: condition_cases)
    case (logical d op args rows)
    have sub: "set (condition_reads (PDict r)) \<subseteq> set known \<union> set (condition_reads raw)" if r: "r \<in> set rows" for r
    proof -
      obtain v where v: "v \<in> set args" "normalize_condition known (Suc depth) v = Inr r"
        using each_source [OF logical(4) r] by blast
      have "max_condition_depth - Suc depth < max_condition_depth - depth"
        using normalize_depth [OF v(2)] by simp
      then have "set (condition_reads (PDict r)) \<subseteq> set known \<union> set (condition_reads v)"
        using less.hyps v(2) by blast
      moreover have "set (condition_reads v) \<subseteq> set (condition_reads raw)"
      proof -
        obtain xs where xs: "dget d ''args'' = PList xs" "v \<in> set xs"
          using v(1) logical(3) by (cases "dget d ''args''") auto
        then show ?thesis using reads_item [OF xs(2)] reads_dget [of d "''args''"] logical(1) by auto
      qed
      ultimately show ?thesis by blast
    qed
    have "set (condition_reads (PDict row)) \<subseteq> (\<Union>r \<in> set rows. set (condition_reads (PDict r)))"
      using reads_expression_row [of op "[(''args'', PList (map PDict rows))]"]
      unfolding logical(5) by auto
    then show ?thesis using sub by blast
  next
    case (comparison d source op)
    obtain parts where parts: "row = expression_row op parts"
      "\<And>k v. (k, v) \<in> set parts \<Longrightarrow> \<exists>r. v = PDict r \<and> operand (dget source k) = Inr r
         \<and> k \<in> {''left'', ''right'', ''lower'', ''upper''} \<and> r \<in> set (operand_rows parts)"
      "dget parts ''source'' = PNone"
      by (rule comparison_operands [OF comparison(4,3)]) (rule that)
    have "find (names_unknown_goal known) (operand_rows parts) = None"
      using comparison(5) unfolding checked_def parts(1) condition_operands_comparison [OF comparison(3)]
      by (simp split: option.splits)
    then have known: "\<not> names_unknown_goal known r" if "r \<in> set (operand_rows parts)" for r
      using that by (simp add: find_None_iff)
    have "set (condition_reads v) \<subseteq> set known \<union> set (condition_reads raw)" if kv: "(k, v) \<in> set parts" for k v
    proof -
      obtain r where r: "v = PDict r" "operand (dget source k) = Inr r"
          "k \<in> {''left'', ''right'', ''lower'', ''upper''}" "r \<in> set (operand_rows parts)"
        using parts(2) [OF kv] by (elim exE conjE)
      have "set (condition_reads v) \<subseteq> set known \<union> set (condition_reads (dget r ''value''))"
        unfolding r(1) by (rule operand_reads [OF r(2) known [OF r(4)] settled])
      moreover have "set (condition_reads (dget r ''value'')) \<subseteq> set (condition_reads raw)"
        unfolding comparison(1) by (rule source_literals [OF r(2) [unfolded comparison(2)] r(3)])
      ultimately show ?thesis by blast
    qed
    then have "(\<Union>(k, v) \<in> set parts. set (condition_reads v)) \<subseteq> set known \<union> set (condition_reads raw)"
      by blast
    then show ?thesis using reads_expression_row [of op parts] unfolding parts(1,3) by simp
  qed
qed

section \<open>Digests\<close>

text \<open>What the code relies on in \<open>sha256(...).hexdigest()\<close>: 64 lower case hexadecimal digits.\<close>

definition hex_digests :: "(string \<Rightarrow> string) \<Rightarrow> bool" where
  "hex_digests sha = (\<forall>x. length (sha x) = 64 \<and> set (sha x) \<subseteq> set ''0123456789abcdef'')"

lemma hex_printable: "c \<in> set ''0123456789abcdef'' \<Longrightarrow> printable c"
proof -
  have "list_all printable ''0123456789abcdef''" by code_simp
  then show "c \<in> set ''0123456789abcdef'' \<Longrightarrow> printable c" by (simp only: list_all_iff)
qed

lemma digest_settled:
  assumes "hex_digests sha" and "64 \<le> n"
  shows "settled n (sha x)" "sha x \<noteq> []"
proof -
  have len: "length (sha x) = 64" and hex: "set (sha x) \<subseteq> set ''0123456789abcdef''"
    using assms(1) by (simp_all add: hex_digests_def)
  show ne: "sha x \<noteq> []" using len by auto
  have "printable (hd (sha x))" "printable (last (sha x))"
    using hex ne hd_in_set last_in_set hex_printable by blast+
  then show "settled n (sha x)" using len assms(2) ne by (intro settled_text) auto
qed

lemma clip_nonempty: "0 < n \<Longrightarrow> s \<noteq> [] \<Longrightarrow> clip n s \<noteq> []"
  by (cases s) (auto simp: clip.simps)

lemma contract_id_settled:
  assumes "hex_digests sha" and "length (str_of_int turn) \<le> 200"
  shows "settled 300 (contract_id turn (sha x))"
proof (rule settled_text)
  let ?s = "contract_id turn (sha x)"
  have ne: "clip 20 (sha x) \<noteq> []" using digest_settled(2) [OF assms(1), of 64] by (simp add: clip_nonempty)
  then have "last ?s \<in> set (clip 20 (sha x))" by (simp add: contract_id_def)
  then show "printable (last ?s)"
    using clip_subset assms(1) hex_printable unfolding hex_digests_def by blast
  show "printable (hd ?s)" by (simp add: contract_id_def printable_def)
  have "length (clip 20 (sha x)) \<le> 64"
    using prefix_length_le [OF clip_prefix, of 20 "sha x"] assms(1) by (simp add: hex_digests_def)
  then show "length ?s \<le> 300" using assms(2) by (simp add: contract_id_def)
  show "?s \<noteq> []" by (simp add: contract_id_def)
qed

section \<open>Normalised goals\<close>

lemma known_texts:
  "settled 80 ''current_goal_output''" "settled 80 ''current_text''" "settled 80 ''visible_result_ref''"
  "settled 80 ''result_reference''" "settled 80 ''result_value_input''" "settled 80 ''shared_subject''"
  "settled 80 ''historical_result''" "settled 120 binding_authority" "settled 120 legacy_authority"
  by (simp_all add: settled_def py_len_def printable_def binding_authority_def legacy_authority_def)

lemma normalized_binding_ok:
  assumes "normalize_input_binding sha user_text g iv = Inr b" and "hex_digests sha"
  shows "binding_failure sha g' (PDict b) = None"
proof -
  obtain i v where iv: "iv = (i, v)" by fastforce
  obtain raw where raw: "as_pydict v = Some raw"
    using assms(1) by (auto simp: normalize_input_binding_def iv split: option.splits)
  define relation where "relation = text_field raw ''relation_kind'' 80"
  obtain src port expected ev where src: "binding_source g i relation (dict_or (dget raw ''source'')) = Inr src"
    and b: "b = [(''version'', PStr binding_version), (''port'', PStr port), (''source'', PDict src),
        (''relation_kind'', PStr relation), (''expected_cardinality'', PStr expected), (''evidence_span'', PStr ev)]
      @ [(''binding_digest'', PStr (sha (contract_json (PDict [(''version'', PStr binding_version),
        (''port'', PStr port), (''source'', PDict src), (''relation_kind'', PStr relation),
        (''expected_cardinality'', PStr expected), (''evidence_span'', PStr ev)]))))]"
    using assms(1) unfolding relation_def
    by (auto simp: normalize_input_binding_def iv raw Let_def err_simps split: if_splits)
  have digest: "binding_digest sha b = sha (contract_json (PDict [(''version'', PStr binding_version),
        (''port'', PStr port), (''source'', PDict src), (''relation_kind'', PStr relation),
        (''expected_cardinality'', PStr expected), (''evidence_span'', PStr ev)]))"
    by (simp add: b binding_digest_def)
  have "\<exists>rels. relations_of (limited 80 (dget src ''kind'')) = Some rels \<and> limited 80 (PStr relation) \<in> set rels"
    using src known_texts by (auto simp: binding_source_def Let_def relations_of_def split: if_splits)
  then show ?thesis
    using digest_settled [OF assms(2), of 128] digest
    by (auto simp: binding_failure_def Let_def b)
qed

text \<open>What the integrity check asks of one goal.\<close>

definition sound_goal :: "(string \<Rightarrow> string) \<Rightarrow> bool \<Rightarrow> string list \<Rightarrow> pydict \<Rightarrow> bool" where
  "sound_goal sha typed ids row =
    (goal_failure sha typed ids row = Inr None \<and> (\<exists>g. dget row ''goal_id'' = PStr g \<and> g \<noteq> []))"

text \<open>The shape of a normalised goal before its condition and its reference are.\<close>

definition base_goal :: "(string \<Rightarrow> string) \<Rightarrow> bool \<Rightarrow> pydict \<Rightarrow> bool" where
  "base_goal sha typed row =
    ((\<exists>g. dget row ''goal_id'' = PStr g \<and> g \<noteq> [])
     \<and> has_field ''input_bindings'' row = typed
     \<and> (typed \<longrightarrow> \<not> has_field ''depends_on'' row \<and> (\<exists>bs. dget row ''input_bindings'' = PList (map PDict bs)
          \<and> (\<forall>b \<in> set bs. \<forall>g. binding_failure sha g (PDict b) = None))))"

lemma base_keys:
  "\<not> has_field ''input_bindings'' (map (\<lambda>k. (k, dget goal k)) (filter P kept_keys))"
  "\<not> has_field ''depends_on'' (map (\<lambda>k. (k, dget goal k)) (filter P kept_keys))"
  by (auto simp: has_field_def kept_keys_def)

lemma optional_field_keys [simp]: "has_field k (optional_field j s) \<longleftrightarrow> j = k \<and> s \<noteq> []"
  by (simp add: optional_field_def)

lemma normalized_base:
  assumes row: "normalized_goal_base sha user_text goal = Inr row" and hex: "hex_digests sha"
  shows "base_goal sha (has_field ''input_bindings'' goal) row"
    "dget row ''goal_id'' = PStr (text_field goal ''goal_id'' 200)"
proof -
  define g where "g = text_field goal ''goal_id'' 200"
  obtain effect deps start rest where g: "g \<noteq> []"
    and deps: "normalized_dependencies sha user_text g goal = Inr deps"
    and start: "start = [(''goal_id'', PStr g), (''description'', PStr (text_field goal ''description'' 2000)),
        (''evidence_span'', PStr (text_field goal ''evidence_span'' 2000)), (''requested_effect'', PDict effect),
        (''expected_result_cardinality'', PStr (limited 40
               (py_or (dget goal ''expected_result_cardinality'') (PStr ''none'')))),
        (''required'', PBool (case map_of goal ''required'' of None \<Rightarrow> True | Some v \<Rightarrow> truthy v))]"
    and rest: "rest = optional_field ''continuation_of'' (text_field goal ''continuation_of'' 200)
           @ map (\<lambda>k. (k, dget goal k)) (filter (\<lambda>k. \<not> blank_value (dget goal k)) kept_keys)
           @ (let legacy = text_field goal ''goal_type'' 80 in if legacy = [] then []
              else [(''compatibility'', PDict [(''legacy_goal_type'', PStr legacy)])])"
    and r: "row = start @ deps @ rest"
    using row unfolding g_def by (auto simp: normalized_goal_base_def Let_def err_simps split: if_splits)
  show "dget row ''goal_id'' = PStr (text_field goal ''goal_id'' 200)"
    by (simp add: r start g_def dget_append)
  have no: "\<not> has_field ''input_bindings'' rest" "\<not> has_field ''depends_on'' rest"
    by (simp_all add: rest Let_def base_keys)
  have no': "\<not> has_field ''input_bindings'' start" "\<not> has_field ''depends_on'' start" by (simp_all add: start)
  show "base_goal sha (has_field ''input_bindings'' goal) row"
  proof (cases "has_field ''input_bindings'' goal")
    case True
    then obtain bs xs where bs: "each (normalize_input_binding sha user_text g) (zip [0..<length xs] xs) = Inr bs"
        "deps = [(''input_bindings'', PList (map PDict bs))]"
      using deps by (auto simp: normalized_dependencies_def err_simps split: if_splits pyval.splits)
    have "binding_failure sha g' (PDict b) = None" if "b \<in> set bs" for b g'
      using each_source [OF bs(1) that] normalized_binding_ok [OF _ hex] by blast
    then show ?thesis
      using True no no' g bs(2) by (auto simp: base_goal_def r dget_append start)
  next
    case False
    then obtain xs where "deps = [(''depends_on'', PList xs)]"
      using deps by (auto simp: normalized_dependencies_def err_simps)
    then show ?thesis using False no no' g by (auto simp: base_goal_def r dget_append start)
  qed
qed

section \<open>Conditions and references leave the rest alone\<close>

lemma condition_keeps:
  assumes "normalize_goal_condition known goal = Inr goal'"
  shows "k \<noteq> ''condition'' \<Longrightarrow> dget goal' k = dget goal k \<and> has_field k goal' = has_field k goal"
    "goal' = goal \<and> \<not> has_field ''condition'' goal
      \<or> (\<exists>c. normalize_condition known 0 (dget goal ''condition'') = Inr c \<and> dget goal' ''condition'' = PDict c)"
  using assms by (auto simp: normalize_goal_condition_def err_simps Let_def split: if_splits)

lemma references_keep:
  assumes "normalize_reference_fields sha user_text goal = Inr goal'"
    and k: "k \<notin> {''reference_expression'', ''referent_resolution_proof'', ''resolved_reference''}"
  shows "dget goal' k = dget goal k" "has_field k goal' = has_field k goal"
proof -
  have resolved: "dget m' k = dget m k \<and> has_field k m' = has_field k m"
    if "resolved_fields g p v m = Inr m'" for g p v m m'
    using that k by (auto simp: resolved_fields_def Let_def err_simps split: if_splits option.splits)
  obtain object_type cardinality where ex: "reference_expected goal = (object_type, cardinality)" by fastforce
  consider "goal' = goal"
    | m where "m = goal \<or> (\<exists>x. m = dset ''reference_expression'' (PDict x) goal)"
        "\<exists>g p v. resolved_fields g p v m = Inr goal'"
    using assms(1) by (auto simp: normalize_reference_fields_def ex Let_def err_simps split: if_splits)
  then have "dget goal' k = dget goal k \<and> has_field k goal' = has_field k goal"
    using resolved k by cases auto
  then show "dget goal' k = dget goal k" "has_field k goal' = has_field k goal" by simp_all
qed

lemma normalized_goal_keeps:
  assumes "normalize_goal sha user_text typed ids outputs goal = Inr row"
  shows "k \<notin> {''condition'', ''reference_expression'', ''referent_resolution_proof'', ''resolved_reference''}
      \<Longrightarrow> dget row k = dget goal k \<and> has_field k row = has_field k goal"
    "dget row ''condition'' = dget goal ''condition'' \<and> \<not> has_field ''condition'' goal
      \<or> (\<exists>c. normalize_condition ids 0 (dget goal ''condition'') = Inr c \<and> dget row ''condition'' = PDict c)"
    "\<exists>ds. goal_dependency_ids goal = Inr ds \<and> set ds \<subseteq> set ids"
proof -
  obtain mid where mid: "normalize_goal_condition ids goal = Inr mid"
      "normalize_reference_fields sha user_text mid = Inr row" "check_dependencies typed ids outputs goal = Inr ()"
    using assms by (auto simp: normalize_goal_def err_simps)
  show "k \<notin> {''condition'', ''reference_expression'', ''referent_resolution_proof'', ''resolved_reference''}
      \<Longrightarrow> dget row k = dget goal k \<and> has_field k row = has_field k goal"
    using condition_keeps(1) [OF mid(1)] references_keep [OF mid(2)] by simp
  show "dget row ''condition'' = dget goal ''condition'' \<and> \<not> has_field ''condition'' goal
      \<or> (\<exists>c. normalize_condition ids 0 (dget goal ''condition'') = Inr c \<and> dget row ''condition'' = PDict c)"
    using condition_keeps(2) [OF mid(1)] references_keep(1) [OF mid(2), of "''condition''"] by auto
  obtain ds where ds: "goal_dependency_ids goal = Inr ds"
    using mid(3) by (auto simp: check_dependencies_def Let_def err_simps)
  have "filter (\<lambda>d. d \<notin> set ids) ds = []"
    using mid(3) by (auto simp: check_dependencies_def Let_def ds split: if_splits)
  then show "\<exists>ds. goal_dependency_ids goal = Inr ds \<and> set ds \<subseteq> set ids"
    using ds by (auto simp: filter_empty_conv)
qed

lemma dependencies_typed:
  "dget row ''input_bindings'' = PList bs \<Longrightarrow> goal_dependency_ids row = Inr ds \<Longrightarrow>
    set ds = {g \<in> set (List.map_filter producer_of bs) \<union> set (condition_reads (dget row ''condition'')). g \<noteq> []}"
  by (auto simp: goal_dependency_ids_def)

lemma normalized_dependencies_known:
  assumes row: "normalize_goal sha user_text typed ids outputs goal = Inr row"
    and settled: "\<And>k. k \<in> set ids \<Longrightarrow> settled 200 k"
  shows "\<exists>ds. goal_dependency_ids row = Inr ds \<and> set ds \<subseteq> set ids"
proof -
  note same = normalized_goal_keeps(1) [OF row]
  obtain ds where ds: "goal_dependency_ids goal = Inr ds" "set ds \<subseteq> set ids"
    using normalized_goal_keeps(3) [OF row] by blast
  show ?thesis
  proof (cases "\<exists>bs. dget goal ''input_bindings'' = PList bs")
    case True
    then obtain bs where bs: "dget goal ''input_bindings'' = PList bs" by blast
    then have bs': "dget row ''input_bindings'' = PList bs" using same [of "''input_bindings''"] by simp
    then obtain ds' where ds': "goal_dependency_ids row = Inr ds'" by (auto simp: goal_dependency_ids_def)
    have "set (condition_reads (dget row ''condition''))
        \<subseteq> set ids \<union> set (condition_reads (dget goal ''condition''))"
      using normalized_goal_keeps(2) [OF row]
    proof (elim disjE exE conjE)
      fix c assume c: "normalize_condition ids 0 (dget goal ''condition'') = Inr c" "dget row ''condition'' = PDict c"
      show ?thesis unfolding c(2) by (rule normalize_reads [OF c(1) settled])
    qed simp
    then show ?thesis
      using dependencies_typed [OF bs ds(1)] dependencies_typed [OF bs' ds'] ds(2) ds' by auto
  next
    case False
    then have "goal_dependency_ids row = goal_dependency_ids goal"
      using same [of "''input_bindings''"] same [of "''depends_on''"]
      by (auto simp: goal_dependency_ids_def split: pyval.splits)
    then show ?thesis using ds by auto
  qed
qed

lemma find_none_bind: "(\<And>v. v \<in> set vs \<Longrightarrow> f v = None) \<Longrightarrow> Option.bind (find (\<lambda>v. f v \<noteq> None) vs) f = None"
  by (simp add: find_none)

lemma normalized_goal_sound:
  assumes row: "normalize_goal sha user_text typed ids outputs goal = Inr row"
    and base: "base_goal sha typed goal" and settled: "\<And>k. k \<in> set ids \<Longrightarrow> settled 200 k"
  shows "goal_failure sha typed ids row = Inr None"
proof -
  note same = normalized_goal_keeps(1) [OF row]
  obtain ds where "goal_dependency_ids row = Inr ds" "set ds \<subseteq> set ids"
    using normalized_dependencies_known [OF row settled] by blast
  then have unknown: "unknown_failure ids row = Inr None"
    by (auto simp: unknown_failure_def Let_def filter_empty_conv)
  have "typed_failure sha row = None" if typed
  proof -
    obtain bs where bs: "dget goal ''input_bindings'' = PList (map PDict bs)" "\<not> has_field ''depends_on'' goal"
        "\<And>b g. b \<in> set bs \<Longrightarrow> binding_failure sha g (PDict b) = None"
      using base \<open>typed\<close> unfolding base_goal_def by blast
    have "Option.bind (find (\<lambda>v. binding_failure sha (goal_key row) v \<noteq> None) (map PDict bs))
        (binding_failure sha (goal_key row)) = None"
      by (rule find_none_bind) (use bs(3) in auto)
    then show ?thesis
      using bs(1,2) same [of "''input_bindings''"] same [of "''depends_on''"]
      by (simp add: typed_failure_def Let_def)
  qed
  then show ?thesis using unknown by (simp add: goal_failure_def)
qed

lemma first_fault_None: "(\<And>x. x \<in> set xs \<Longrightarrow> f x = Inr None) \<Longrightarrow> first_fault f xs = Inr None"
  by (induction xs) auto

lemma each_map_eq: "each f xs = Inr ys \<Longrightarrow> (\<And>x y. x \<in> set xs \<Longrightarrow> f x = Inr y \<Longrightarrow> h y = g x) \<Longrightarrow> map h ys = map g xs"
  by (induction xs arbitrary: ys) (auto simp: err_simps)

text \<open>The goals of a turn after normalisation.\<close>

lemma normalize_goals_sound:
  assumes goals: "normalize_goals sha user_text goals = Inr (typed, rows)" and hex: "hex_digests sha"
    and settled: "\<And>goal. goal \<in> set goals \<Longrightarrow> settled 200 (text_field goal ''goal_id'' 200)"
  shows "distinct (map goal_key rows)" "[] \<notin> set (map goal_key rows)"
    "\<And>row. row \<in> set rows \<Longrightarrow> goal_failure sha typed (map goal_key rows) row = Inr None"
    "find_goal_dependency_cycle rows = Inr []"
proof -
  define modes where "modes = remdups (map (has_field ''input_bindings'') goals)"
  obtain base os where one: "length modes \<le> 1" and typed: "typed = (modes = [True])"
    and base: "each (normalized_goal_base sha user_text) goals = Inr base"
    and distinct: "distinct (map (\<lambda>r. text_of (dget r ''goal_id'')) base)"
    and rows: "each (normalize_goal sha user_text typed (map (\<lambda>r. text_of (dget r ''goal_id'')) base)
        (zip (map (\<lambda>r. text_of (dget r ''goal_id'')) base) os)) base = Inr rows"
    and acyclic: "find_goal_dependency_cycle rows = Inr []"
    using goals unfolding normalize_goals_def modes_def [symmetric] Let_def
    by (auto simp: err_simps not_less split: if_splits)
  define ids where "ids = map (\<lambda>r. text_of (dget r ''goal_id'')) base"
  have mode: "has_field ''input_bindings'' goal = typed" if "goal \<in> set goals" for goal
  proof -
    have "has_field ''input_bindings'' goal \<in> set modes" using that by (simp add: modes_def)
    then show ?thesis using one typed by (cases modes) auto
  qed
  have b: "base_goal sha typed r \<and> (\<exists>g. dget r ''goal_id'' = PStr g \<and> settled 200 g \<and> g \<noteq> [])"
    if r: "r \<in> set base" for r
  proof -
    obtain goal where goal: "goal \<in> set goals" "normalized_goal_base sha user_text goal = Inr r"
      using each_source [OF base r] by blast
    then show ?thesis
      using normalized_base [OF goal(2) hex] mode [OF goal(1)] settled [OF goal(1)] by (auto simp: base_goal_def)
  qed
  then have ids_settled: "settled 200 k" if "k \<in> set ids" for k
    using that b by (force simp: ids_def)
  have key: "goal_key row = text_of (dget r ''goal_id'')"
    if "r \<in> set base" "normalize_goal sha user_text typed ids (zip ids os) r = Inr row" for r row
  proof -
    have "dget row ''goal_id'' = dget r ''goal_id''" using normalized_goal_keeps(1) [OF that(2)] by simp
    then show ?thesis using b [OF that(1)] by (auto simp: goal_key_def)
  qed
  have keys: "map goal_key rows = ids"
    unfolding ids_def by (rule each_map_eq [OF rows]) (use key in \<open>auto simp: ids_def\<close>)
  show "distinct (map goal_key rows)" using distinct by (simp add: keys ids_def)
  show "[] \<notin> set (map goal_key rows)" unfolding keys using b by (force simp: ids_def)
  show "goal_failure sha typed (map goal_key rows) row = Inr None" if row: "row \<in> set rows" for row
  proof -
    obtain r where "r \<in> set base" "normalize_goal sha user_text typed ids (zip ids os) r = Inr row"
      using each_source [OF rows row] by (auto simp: ids_def)
    then show ?thesis unfolding keys using normalized_goal_sound b ids_settled by blast
  qed
  show "find_goal_dependency_cycle rows = Inr []" by (rule acyclic)
qed

text \<open>A frozen contract passes the integrity check.\<close>

lemma frozen_integral:
  assumes frozen: "freeze_semantic_contract sha i = Inr c" and hex: "hex_digests sha"
    and settled: "\<And>goal. goal \<in> set (fz_goals i) \<Longrightarrow> settled 200 (text_field goal ''goal_id'' 200)"
    and turn: "length (str_of_int (fz_turn i)) \<le> 200"
  shows "\<exists>r. semantic_contract_integrity sha (PDict c) = Inr r \<and> integrity_ok r"
proof -
  obtain typed rows where goals: "normalize_goals sha (fz_user_text i) (fz_goals i) = Inr (typed, rows)"
    using frozen by (auto simp: freeze_semantic_contract_def err_simps)
  define payload where "payload = contract_payload i typed rows"
  define digest where "digest = compute_semantic_digest sha payload"
  have c: "c = payload @ [(''semantic_digest'', PStr digest),
      (''semantic_contract_id'', PStr (contract_id (fz_turn i) digest))]"
    using frozen goals by (simp add: freeze_semantic_contract_def payload_def digest_def Let_def)
  have keys: "\<not> has_field ''semantic_digest'' payload" "\<not> has_field ''semantic_contract_id'' payload"
    by (simp_all add: payload_def contract_payload_def)
  have payload: "digest_payload c = payload" "digest_payload payload = payload"
    using keys by (simp_all add: c digest_payload_def ddel_no_field)
  obtain x where x: "digest = sha x" by (simp add: digest_def compute_semantic_digest_def)
  have reads: "dget c ''semantic_digest'' = PStr digest"
      "dget c ''semantic_contract_id'' = PStr (contract_id (fz_turn i) digest)"
    using keys by (simp_all add: c dget_append)
  have reads': "dget c ''turn'' = PInt (fz_turn i)" "dget c ''goals'' = PList (map PDict rows)"
      "dget c ''dependency_authority'' = PStr (if typed then binding_authority else legacy_authority)"
    by (simp_all add: c dget_append payload_def contract_payload_def)
  have computed: "compute_semantic_digest sha c = digest"
    by (simp add: compute_semantic_digest_def payload digest_def)
  have id: "limited 300 (PStr (contract_id (fz_turn i) digest)) = contract_id (fz_turn i) digest"
    using contract_id_settled [OF hex turn, of x] by (simp add: x)
  have dig: "limited 128 (PStr digest) = digest" "digest \<noteq> []"
    using digest_settled [OF hex, of 128 x] by (simp_all add: x)
  have authority: "limited 120 (PStr (if typed then binding_authority else legacy_authority))
      = (if typed then binding_authority else legacy_authority)"
    using known_texts by simp
  have differ: "binding_authority \<noteq> legacy_authority"
    by (simp add: binding_authority_def legacy_authority_def)
  have "first_fault (goal_failure sha typed (map goal_key rows)) rows = Inr None"
    by (rule first_fault_None) (rule normalize_goals_sound(3) [OF goals hex settled])
  then have "goals_integrity sha c digest = Inr [(''ok'', PBool True),
      (''code'', PStr ''SEMANTIC_CONTRACT_INTEGRITY_OK''), (''computed_digest'', PStr digest)]"
    using normalize_goals_sound(1,2,4) [OF goals hex settled] authority differ
    by (auto simp: goals_integrity_def reads' Let_def)
  moreover have "int_or_raise (PInt (fz_turn i)) 0 = Inr (fz_turn i)"
    by (simp add: int_or_raise_def)
  ultimately show ?thesis
    using dig by (simp add: semantic_contract_integrity_def Let_def reads reads'(1) computed id integrity_ok_def)
qed

section \<open>What the integrity check establishes\<close>

lemma first_fault_Inr_None:
  "first_fault f xs = Inr None \<Longrightarrow> x \<in> set xs \<Longrightarrow> f x = Inr None"
  by (induction xs) (auto simp: err_simps split: option.splits)

lemma goal_failure_None:
  assumes "goal_failure sha typed known row = Inr None"
  shows "\<exists>ds. goal_dependency_ids row = Inr ds \<and> set ds - {[]} \<subseteq> set known"
proof -
  have "unknown_failure known row = Inr None"
    using assms by (auto simp: goal_failure_def split: option.splits)
  then obtain ds where "goal_dependency_ids row = Inr ds" "filter (\<lambda>d. d \<noteq> [] \<and> d \<notin> set known) ds = []"
    by (auto simp: unknown_failure_def err_simps Let_def split: if_splits)
  then show ?thesis by (auto simp: filter_empty_conv)
qed

lemma dependencies_named: "goal_dependency_ids row = Inr ds \<Longrightarrow> [] \<notin> set ds"
  by (auto simp: goal_dependency_ids_def err_simps split: pyval.splits)

lemma failed_not_ok [simp]: "\<not> integrity_ok (failed code extra)"
  by (simp add: integrity_ok_def failed_def)

lemma fault_not_ok:
  assumes "goal_failure sha typed known row = Inr (Some f)"
  shows "\<not> integrity_ok f"
proof -
  have binding: "\<not> integrity_ok f'" if "binding_failure sha g v = Some f'" for g v f'
    using that by (auto simp: binding_failure_def failed_goal_def Let_def split: option.splits if_splits)
  have "\<not> integrity_ok f'" if "typed_failure sha row = Some f'" for f'
    using that binding
    by (auto simp: typed_failure_def failed_goal_def Let_def split: pyval.splits if_splits
        simp: bind_eq_Some_conv)
  moreover have "\<not> integrity_ok f'" if "unknown_failure known row = Inr (Some f')" for f'
    using that by (auto simp: unknown_failure_def err_simps Let_def split: if_splits)
  ultimately show ?thesis
    using assms by (auto simp: goal_failure_def split: option.splits if_splits)
qed

lemma first_fault_Some: "first_fault f xs = Inr (Some y) \<Longrightarrow> \<exists>x \<in> set xs. f x = Inr (Some y)"
  by (induction xs) (auto simp: err_simps split: option.splits)

lemma accepted_goals:
  assumes ok: "assert_semantic_contract_integrity sha (PDict c) = Inr ()"
    and xs: "list_of (dget c ''goals'') = Inr xs"
  shows "distinct (map goal_key (only_dicts xs)) \<and> [] \<notin> set (map goal_key (only_dicts xs))
    \<and> (\<forall>row \<in> set (only_dicts xs). \<exists>ds. goal_dependency_ids row = Inr ds
         \<and> set ds \<subseteq> set (map goal_key (only_dicts xs)))
    \<and> (\<exists>G. dependency_graph (only_dicts xs) = Inr G \<and> acyclic (depends_on G))"
proof -
  let ?rows = "only_dicts xs" and ?ids = "map goal_key (only_dicts xs)"
  obtain r computed where r: "goals_integrity sha c computed = Inr r" "integrity_ok r"
    using ok by (auto simp: assert_semantic_contract_integrity_def semantic_contract_integrity_def Let_def err_simps
        split: if_splits)
  define typed where "typed = (limited 120 (dget c ''dependency_authority'') = binding_authority)"
  have names: "distinct ?ids" "[] \<notin> set ?ids"
    using r by (auto simp: goals_integrity_def xs Let_def split: if_splits)
  obtain fault where fault: "first_fault (goal_failure sha typed ?ids) ?rows = Inr fault"
    using r unfolding typed_def by (auto simp: goals_integrity_def xs Let_def err_simps split: if_splits)
  have none: "fault = None"
  proof (cases fault)
    case (Some f)
    then have "\<not> integrity_ok f" using first_fault_Some [OF fault [unfolded Some]] fault_not_ok by blast
    then show ?thesis using r fault unfolding typed_def
      by (auto simp: goals_integrity_def xs Let_def Some split: if_splits)
  qed simp
  have known: "\<exists>ds. goal_dependency_ids row = Inr ds \<and> set ds \<subseteq> set ?ids" if "row \<in> set ?rows" for row
    using goal_failure_None [OF first_fault_Inr_None [OF fault [unfolded none] that]] dependencies_named by blast
  obtain cycle where "find_goal_dependency_cycle ?rows = Inr cycle" "cycle = []"
    using r fault unfolding typed_def
    by (auto simp: goals_integrity_def xs Let_def none [unfolded typed_def] err_simps split: if_splits)
  then obtain G where "dependency_graph ?rows = Inr G" "acyclic (depends_on G)"
    using find_cycle_correct(1) by (auto simp: find_goal_dependency_cycle_def err_simps)
  then show ?thesis using names known by blast
qed

end
