(* ===== verification/Goal_Resolved.thy ===== *)
theory Goal_Resolved
  imports Goal_Frozen
begin

text \<open>
  What the resolution of a reference guarantees: a unique answer is a visible result that fits
  the expression, and every other result that fits has the same scope, so nothing is chosen
  between different results. The proof it writes passes the integrity check exactly when a
  unique answer names a result and a member.
\<close>

section \<open>Selections and groups\<close>

lemma select_Inr: "select p xs = Inr ys \<Longrightarrow> ys = filter (\<lambda>x. p x = Inr True) xs"
proof (induction xs arbitrary: ys)
  case (Cons x xs)
  then obtain b bs where b: "p x = Inr b" "each p xs = Inr bs"
    by (auto simp: select_def err_simps)
  have "select p xs = Inr (map fst (filter snd (zip xs bs)))" using b(2) by (simp add: select_def)
  then have "map fst (filter snd (zip xs bs)) = filter (\<lambda>x. p x = Inr True) xs" by (rule Cons.IH)
  then show ?case using Cons.prems b by (auto simp: select_def)
qed (simp add: select_def)

lemma select_singleton: "select p [x] = Inr [x] \<longleftrightarrow> p x = Inr True"
  by (cases "p x") (auto simp: select_def)

lemma set_sorted_desc [simp]: "set (sorted_desc f xs) = set xs"
  by (simp add: sorted_desc_def)

lemma by_recency_set: "by_recency rows = Inr refs \<Longrightarrow> set refs = set rows"
proof -
  assume "by_recency rows = Inr refs"
  then obtain ks where ks: "each recency_key rows = Inr ks" "refs = map snd (sorted_desc fst (zip ks rows))"
    by (auto simp: by_recency_def err_simps)
  have "set (map snd (zip ks rows)) = set rows" using each_length [OF ks(1)] by simp
  then show ?thesis by (simp add: ks(2))
qed

lemma first_of_each_singleton: "first_of_each ks = [k] \<Longrightarrow> j \<in> set ks \<Longrightarrow> j = k"
  by (metis empty_set list.simps(15) set_first_of_each singletonD)

lemma each_zip: "each f xs = Inr ys \<Longrightarrow> (y, x) \<in> set (zip ys xs) \<Longrightarrow> f x = Inr y"
  by (induction xs arbitrary: ys) (auto simp: err_simps)

lemma scope_groups_single:
  assumes "scope_groups t rows = Inr [aliases]"
  shows "aliases = rows" "rows \<noteq> []"
    "t \<noteq> ''explicit_visible_member'' \<Longrightarrow> \<exists>k. \<forall>r \<in> set rows. visible_result_scope_key r = Inr k"
proof -
  show ne: "rows \<noteq> []" using assms by (auto simp: scope_groups_def err_simps)
  show same: "\<exists>k. \<forall>r \<in> set rows. visible_result_scope_key r = Inr k"
    if t: "t \<noteq> ''explicit_visible_member''"
  proof -
    obtain ks where ks: "each visible_result_scope_key rows = Inr ks"
        "map (\<lambda>k. map snd (filter (\<lambda>(j, r). j = k) (zip ks rows))) (first_of_each ks) = [aliases]"
      using assms t by (auto simp: scope_groups_def err_simps)
    obtain k where k: "first_of_each ks = [k]" using ks(2) by auto
    have "visible_result_scope_key r = Inr k" if "r \<in> set rows" for r
    proof -
      obtain i where i: "i < length rows" "rows ! i = r" using \<open>r \<in> set rows\<close> by (meson in_set_conv_nth)
      have len: "length ks = length rows" using each_length [OF ks(1)] .
      then have "(ks ! i, r) \<in> set (zip ks rows)" using i by (auto simp: set_zip)
      then have "visible_result_scope_key r = Inr (ks ! i)" using each_zip [OF ks(1)] by blast
      moreover have "ks ! i = k" using first_of_each_singleton [OF k] i len by simp
      ultimately show ?thesis by simp
    qed
    then show ?thesis by blast
  qed
  show "aliases = rows"
  proof (cases "t = ''explicit_visible_member''")
    case False
    obtain ks where ks: "each visible_result_scope_key rows = Inr ks"
        "map (\<lambda>k. map snd (filter (\<lambda>(j, r). j = k) (zip ks rows))) (first_of_each ks) = [aliases]"
      using assms False by (auto simp: scope_groups_def err_simps)
    obtain k where k: "first_of_each ks = [k]" using ks(2) by auto
    have len: "length ks = length rows" using each_length [OF ks(1)] .
    have "filter (\<lambda>(j, r). j = k) (zip ks rows) = zip ks rows"
      using first_of_each_singleton [OF k] by (auto simp: filter_id_conv dest: set_zip_leftD)
    then show ?thesis using ks(2) k len by simp
  qed (use assms ne in \<open>auto simp: scope_groups_def\<close>)
qed

lemma preferred_member: "rows \<noteq> [] \<Longrightarrow> preferred expected rows \<in> set rows"
  by (auto simp: preferred_def Let_def find_Some_iff split: option.splits)

section \<open>A unique answer\<close>

definition reference_type_of :: "pydict \<Rightarrow> string" where
  "reference_type_of e = text_of (dget e ''reference_type'')"

definition expected_of :: "pydict \<Rightarrow> string" where
  "expected_of e = text_of (py_or (dget e ''expected_cardinality'') (PStr ''unknown''))"

text \<open>A visible result fits an expression: it is a candidate of the right type and cardinality.\<close>

definition fits :: "pydict \<Rightarrow> pydict list \<Rightarrow> pydict \<Rightarrow> bool" where
  "fits e refs r = (\<exists>cs. candidates_of (reference_type_of e) e refs = Inr cs \<and> r \<in> set cs
     \<and> matches_object_type r (dget e ''object_type'') = Inr True
     \<and> fitting (reference_type_of e) (expected_of e) [r] = Inr [r])"

lemma fitting_set:
  "fitting t expected rows = Inr fit \<Longrightarrow> r \<in> set fit \<longleftrightarrow> r \<in> set rows \<and> fitting t expected [r] = Inr [r]"
  unfolding fitting_def by (auto split: if_splits dest!: select_Inr simp: select_singleton)

lemma select_mem: "select p xs = Inr ys \<Longrightarrow> x \<in> set ys \<longleftrightarrow> x \<in> set xs \<and> p x = Inr True"
  using select_Inr [of p xs ys] by auto

lemma candidates_visible: "candidates_of t e refs = Inr cs \<Longrightarrow> set cs \<subseteq> set refs"
  by (auto simp: candidates_of_def temporal_candidates_def err_simps Let_def
      split: if_splits option.splits dest!: select_Inr)

lemma resolve_group_unique:
  assumes "resolve_group t e expected rows = Inr oc" and "oc_status oc = ''UNIQUE''"
  shows "oc_ref oc = Some (ref_handle (preferred expected rows))"
  using assms by (auto simp: resolve_group_def Let_def err_simps no_result_def split: if_splits)

lemma decide_unique:
  assumes "decide t e expected cs typed fit groups = Inr oc" and "oc_status oc = ''UNIQUE''"
  obtains aliases where "groups = [aliases]" "resolve_group t e expected aliases = Inr oc"
  using assms by (auto simp: decide_def no_result_def split: if_splits list.splits)

lemma proof_reads [simp]:
  "dget (with_digest sha (proof_payload t e rows oc groups)) ''resolution_status'' = PStr (oc_status oc)"
  "dget (with_digest sha (proof_payload t e rows oc groups)) ''resolved_result_ref'' = opt_val (oc_ref oc)"
  "dget (with_digest sha (proof_payload t e rows oc groups)) ''resolved_member_handles'' = PList (map PStr (oc_members oc))"
  "dget (with_digest sha (proof_payload t e rows oc groups)) ''version'' = PStr proof_version"
  "dget (with_digest sha (proof_payload t e rows oc groups)) ''reference_expression'' = PDict e"
  "dget (with_digest sha (proof_payload t e rows oc groups)) ''auto_substitution_used'' = PBool False"
  by (simp_all add: with_digest_def proof_payload_def)

lemma resolve_cases:
  assumes "resolve_reference_expression sha e visible = Inr p"
  obtains (invalid) "reference_type_of e \<notin> set reference_types" "p = invalid_expression_proof sha e"
  | (resolved) refs cs typed fit groups oc rows where
      "by_recency (visible_rows visible) = Inr refs" "candidates_of (reference_type_of e) e refs = Inr cs"
      "select (\<lambda>r. matches_object_type r (dget e ''object_type'')) cs = Inr typed"
      "fitting (reference_type_of e) (expected_of e) typed = Inr fit"
      "scope_groups (reference_type_of e) fit = Inr groups"
      "decide (reference_type_of e) e (expected_of e) cs typed fit groups = Inr oc"
      "p = with_digest sha (proof_payload (reference_type_of e) e rows oc groups)"
proof -
  obtain refs where refs: "by_recency (visible_rows visible) = Inr refs"
    using assms by (auto simp: resolve_reference_expression_def err_simps)
  show thesis
  proof (cases "reference_type_of e \<in> set reference_types")
    case False
    then show ?thesis using assms refs invalid
      by (simp add: resolve_reference_expression_def Let_def reference_type_of_def)
  next
    case True
    then show ?thesis using assms refs resolved
      by (simp add: resolve_reference_expression_def Let_def err_simps reference_type_of_def [symmetric]
          expected_of_def [symmetric]) blast
  qed
qed

lemma unique_resolution:
  assumes p: "resolve_reference_expression sha e visible = Inr p"
    and unique: "dget p ''resolution_status'' = PStr ''UNIQUE''"
  shows "\<exists>refs r. by_recency (visible_rows visible) = Inr refs \<and> r \<in> set (visible_rows visible)
    \<and> dget p ''resolved_result_ref'' = PStr (ref_handle r) \<and> fits e refs r
    \<and> (reference_type_of e \<noteq> ''explicit_visible_member'' \<longrightarrow>
        (\<forall>r'. fits e refs r' \<longrightarrow> visible_result_scope_key r' = visible_result_scope_key r))"
  using p
proof (cases rule: resolve_cases)
  case invalid
  then show ?thesis using unique by (simp add: invalid_expression_proof_def with_digest_def)
next
  case (resolved refs cs typed fit groups oc rows)
  let ?t = "reference_type_of e"
  have "oc_status oc = ''UNIQUE''" using unique by (simp add: resolved(7))
  then obtain aliases where g: "groups = [aliases]" "resolve_group ?t e (expected_of e) aliases = Inr oc"
    using decide_unique [OF resolved(6)] by blast
  note single = scope_groups_single [OF resolved(5) [unfolded g(1)]]
  define r where "r = preferred (expected_of e) fit"
  have r: "r \<in> set fit" using preferred_member single(2) by (simp add: r_def)
  have fit: "x \<in> set fit \<longleftrightarrow> fits e refs x" for x
    using resolved(2) fitting_set [OF resolved(4)] select_mem [OF resolved(3)] by (auto simp: fits_def)
  have "r \<in> set cs" using r fitting_set [OF resolved(4)] select_mem [OF resolved(3)] by blast
  then have "r \<in> set (visible_rows visible)"
    using candidates_visible [OF resolved(2)] by_recency_set [OF resolved(1)] by blast
  moreover have "dget p ''resolved_result_ref'' = PStr (ref_handle r)"
    using resolve_group_unique [OF g(2)] \<open>oc_status oc = ''UNIQUE''\<close> single(1)
    by (simp add: resolved(7) opt_val_def r_def)
  moreover have "\<forall>r'. fits e refs r' \<longrightarrow> visible_result_scope_key r' = visible_result_scope_key r"
    if "?t \<noteq> ''explicit_visible_member''"
    using single(3) [OF that] fit r by metis
  ultimately show ?thesis using resolved(1) fit r by blast
qed

section \<open>The proof a resolution writes\<close>

lemma py_eq_refl: "well_formed v \<Longrightarrow> py_eq v v"
proof (induction v rule: well_formed.induct)
  case (1 xs)
  then show ?case by (auto simp: list_all_iff zip_same_conv_map)
next
  case (2 d)
  have "case map_of d k of None \<Rightarrow> False | Some v' \<Rightarrow> py_eq v v'" if "(k, v) \<in> set d" for k v
  proof -
    have "map_of d k = Some v" using 2 that by simp
    moreover have "py_eq v v" using 2 that by (auto simp: list_all_iff)
    ultimately show ?thesis by simp
  qed
  then show ?case by (auto simp: list_all_iff)
qed auto

lemma resolve_group_outcome:
  "resolve_group t e expected rows = Inr oc \<Longrightarrow> oc_status oc = ''UNIQUE'' \<or> oc = no_result ''CARDINALITY_CONFLICT''"
  unfolding resolve_group_def Let_def by (auto simp: err_simps split: if_splits)

lemma decide_outcome:
  assumes "decide t e expected cs typed fit groups = Inr oc"
  shows "oc_status oc = ''UNIQUE'' \<or> (\<exists>s \<in> set resolution_statuses. oc = no_result s \<and> s \<noteq> ''UNIQUE'')"
proof -
  have "oc_status oc = ''UNIQUE'' \<or> oc = no_result ''CARDINALITY_CONFLICT'' \<or> oc = no_result ''TYPE_CONFLICT''
      \<or> oc = no_result ''NOT_FOUND'' \<or> oc = no_result ''AMBIGUOUS''"
    using assms unfolding decide_def by (auto split: if_splits list.splits dest: resolve_group_outcome)
  then show ?thesis by (auto simp: resolution_statuses_def)
qed

lemma decide_status: "decide t e expected cs typed fit groups = Inr oc \<Longrightarrow> oc_status oc \<in> set resolution_statuses"
  using decide_outcome [of t e expected cs typed fit groups oc] by (auto simp: no_result_def resolution_statuses_def)

lemma decide_no_result:
  "decide t e expected cs typed fit groups = Inr oc \<Longrightarrow> oc_status oc \<noteq> ''UNIQUE'' \<Longrightarrow>
    oc_ref oc = None \<and> oc_members oc = []"
  using decide_outcome [of t e expected cs typed fit groups oc] by (auto simp: no_result_def)

definition answers :: "pydict \<Rightarrow> bool" where
  "answers p = (stripped (dget p ''resolved_result_ref'') \<noteq> []
     \<and> (\<exists>ms. text_list (dget p ''resolved_member_handles'') = Inr ms \<and> ms \<noteq> []))"

lemma resolution_integrity:
  assumes p: "resolve_reference_expression sha e visible = Inr p" and hex: "hex_digests sha"
    and wf: "well_formed (PDict e)"
  shows "\<exists>r. referent_resolution_proof_integrity sha (PDict p) (Some e) = Inr r
    \<and> (integrity_ok r \<longleftrightarrow> (dget p ''resolution_status'' = PStr ''UNIQUE'' \<longrightarrow> answers p))"
proof -
  have digest: "stripped (dget (with_digest sha payload) ''proof_digest'') = proof_digest sha (with_digest sha payload)"
      "proof_digest sha (with_digest sha payload) \<noteq> []" if "\<not> has_field ''proof_digest'' payload" for payload
    using digest_settled [OF hex, of 64] that
    by (simp_all add: proof_digest_def with_digest_def ddel_no_field dget_append settled_def)
  have eq: "py_eq (PDict e) (PDict e)" using py_eq_refl [OF wf] .
  show ?thesis
    using p
  proof (cases rule: resolve_cases)
    case invalid
    define payload where "payload = [(''version'', PStr proof_version), (''reference_expression'', PDict e),
     (''candidate_refs'', PList []), (''resolution_status'', PStr ''INVALID_EXPRESSION''),
     (''resolved_result_ref'', PNone), (''resolved_member_handles'', PList []),
     (''auto_substitution_used'', PBool False), (''reason'', PStr ''invalid_reference_type'')]"
    have p: "p = with_digest sha payload" by (simp add: invalid invalid_expression_proof_def payload_def)
    have k: "\<not> has_field ''proof_digest'' payload" by (simp add: payload_def)
    have reads: "dget p ''version'' = PStr proof_version" "dget p ''reference_expression'' = PDict e"
        "dget p ''resolution_status'' = PStr ''INVALID_EXPRESSION''" "dget p ''resolved_result_ref'' = PNone"
        "dget p ''resolved_member_handles'' = PList []" "dget p ''auto_substitution_used'' = PBool False"
      by (simp_all add: p payload_def with_digest_def)
    have member: "''INVALID_EXPRESSION'' \<in> set resolution_statuses" by (simp add: resolution_statuses_def)
    show ?thesis
      using digest [OF k, folded p] member eq
      by (simp add: referent_resolution_proof_integrity_def Let_def reads text_list_def integrity_ok_def
          del: py_eq.simps)
  next
    case (resolved refs cs typed fit groups oc rows)
    define payload where "payload = proof_payload (reference_type_of e) e rows oc groups"
    have p: "p = with_digest sha payload" by (simp add: resolved payload_def)
    have k: "\<not> has_field ''proof_digest'' payload" by (simp add: payload_def proof_payload_def)
    note reads = proof_reads [of sha "reference_type_of e" e rows oc groups, folded payload_def, folded p]
    show ?thesis
    proof (cases "oc_status oc = ''UNIQUE''")
      case True
      have unique: "''UNIQUE'' \<in> set resolution_statuses" by (simp add: resolution_statuses_def)
      show ?thesis
        using digest [OF k, folded p] unique eq True
        by (auto simp: referent_resolution_proof_integrity_def Let_def reads integrity_ok_def answers_def failed_def
            simp del: py_eq.simps)
    next
      case False
      then show ?thesis
        using digest [OF k, folded p] decide_status [OF resolved(6)] decide_no_result [OF resolved(6) False] eq
        by (auto simp: referent_resolution_proof_integrity_def Let_def reads integrity_ok_def opt_val_def text_list_def
            simp del: py_eq.simps)
    qed
  qed
qed

end
