(* ===== verification/Goal_Changes.thy ===== *)
theory Goal_Changes
  imports Goal_Text
begin

text \<open>
  \<open>lifecycle/semantic_state_changes.py\<close>: the deterministic check of the state changes a model
  proposes, on goals and on the focus, and the application of a checked focus change. The checks
  collect error codes; a change is normalised even when it has errors.
\<close>

section \<open>Revisions\<close>

text \<open>\<open>_revision(v, default=d)\<close>: a bool, a value \<open>int\<close> refuses and a negative number give the default.\<close>

definition revision_value :: "pyval \<Rightarrow> int \<Rightarrow> int" where
  "revision_value v d = (case v of PBool b \<Rightarrow> d
     | _ \<Rightarrow> (case py_int v of None \<Rightarrow> d | Some n \<Rightarrow> if 0 \<le> n then n else d))"

definition record_revision :: "pyval \<Rightarrow> int" where
  "record_revision v = (case as_pydict v of None \<Rightarrow> 0
     | Some r \<Rightarrow> max 1 (revision_value (dget r ''revision'') 1))"

definition focus_revision :: "pyval \<Rightarrow> int" where
  "focus_revision v = (case as_pydict v of None \<Rightarrow> 0 | Some r \<Rightarrow> revision_value (dget r ''revision'') 0)"

lemma revision_value_PInt [simp]: "revision_value (PInt n) d = (if 0 \<le> n then n else d)"
  by (simp add: revision_value_def)

lemma record_revision_pos [simp]: "1 \<le> record_revision (PDict r)"
  by (simp add: record_revision_def)

lemma focus_revision_nonneg [simp]: "0 \<le> focus_revision v"
  by (auto simp: focus_revision_def revision_value_def split: option.splits pyval.splits)

section \<open>Goal changes\<close>

definition settable_lifecycles :: "string list" where
  "settable_lifecycles = [''ACTIVE'', ''PAUSED'', ''CANCELLED'']"

definition focusable_lifecycles :: "string list" where
  "focusable_lifecycles = [''OPEN'', ''ACTIVE'', ''BLOCKED'', ''PAUSED'']"

definition patchable_fields :: "string list" where
  "patchable_fields = [''target_candidate'', ''input_candidates'', ''condition'']"

definition goal_change_operations :: "string list" where
  "goal_change_operations = [''SET_GOAL_LIFECYCLE'', ''PATCH_GOAL'', ''SUPERSEDE_GOAL'']"

definition focus_change_operations :: "string list" where
  "focus_change_operations = [''SET_GOAL_FOCUS'', ''SET_INTERACTION_FOCUS'', ''CLEAR_FOCUS'']"

text \<open>The quoted evidence, and the error when the user's message does not contain it.\<close>

definition literal_evidence :: "pydict \<Rightarrow> string \<Rightarrow> string \<Rightarrow> string \<times> string list" where
  "literal_evidence raw user_text code =
    (let ev = limited 500 (dget raw ''evidence_span'') in
     (ev, if ev = [] \<or> \<not> py_in ev user_text then [code] else []))"

text \<open>The records by their goal id; of two with one id the later counts.\<close>

definition records_by_id :: "pydict list \<Rightarrow> (string \<times> pydict) list" where
  "records_by_id rows = rev [(limited 200 (dget r ''goal_id''), r). r \<leftarrow> rows,
     limited 200 (dget r ''goal_id'') \<noteq> []]"

definition missing_or :: "string \<Rightarrow> string" where
  "missing_or s = str_or s ''missing''"

definition listed_lifecycle :: "pydict \<Rightarrow> string" where
  "listed_lifecycle r = py_upper (limited 40 (py_or (dget r ''lifecycle'') (PStr ''OPEN'')))"

definition revision_errors :: "string \<Rightarrow> int \<Rightarrow> int \<Rightarrow> string list" where
  "revision_errors g expected actual =
    (if expected < 1 then [''goal_expected_revision_required:'' @ g]
     else if expected \<noteq> actual then
       [''goal_revision_conflict:'' @ g @ '':expected='' @ str_of_int expected @ '':actual='' @ str_of_int actual]
     else [])"

definition lifecycle_errors :: "string \<Rightarrow> string \<Rightarrow> string \<Rightarrow> string \<Rightarrow> string list" where
  "lifecycle_errors g before after actual =
    (if before = [] then [''goal_lifecycle_from_required:'' @ g]
     else if before \<noteq> actual then
       [''goal_lifecycle_from_mismatch:'' @ g @ '':expected='' @ before @ '':actual='' @ actual]
     else [])
    @ (if after \<notin> set settable_lifecycles
       then [''goal_lifecycle_target_not_user_settable:'' @ g @ '':'' @ missing_or after] else [])"

definition patch_errors :: "string \<Rightarrow> pydict \<Rightarrow> string list" where
  "patch_errors g patch =
    (if patch = [] then [''goal_patch_required:'' @ g] else [])
    @ [''goal_patch_forbidden_field:'' @ g @ '':'' @ k. k \<leftarrow> sort (map fst patch), k \<notin> set patchable_fields]"

definition supersede_errors :: "string \<Rightarrow> string \<Rightarrow> string list \<Rightarrow> string list" where
  "supersede_errors g by proposed =
    (if by = [] then [''goal_superseded_by_required:'' @ g]
     else if by = g then [''goal_cannot_supersede_itself:'' @ g]
     else if by \<notin> set proposed then [''goal_superseded_by_not_in_current_proposal:'' @ g @ '':'' @ by]
     else [])"

text \<open>The change of a known goal, with the errors its checks add.\<close>

definition check_known_change ::
  "string \<Rightarrow> string list \<Rightarrow> int \<Rightarrow> string \<Rightarrow> string \<Rightarrow> pydict \<Rightarrow> pydict \<Rightarrow> pydict \<times> string list" where
  "check_known_change user_text proposed turn operation g raw r =
    (let (ev, ev_errors) = literal_evidence raw user_text (''goal_change_evidence_not_in_current_turn:'' @ g);
         actual = record_revision (PDict r);
         expected = revision_value (dget raw ''expected_revision'') (-1);
         base = [(''operation'', PStr operation), (''goal_id'', PStr g), (''expected_revision'', PInt expected),
           (''validated_against_revision'', PInt actual), (''next_revision'', PInt (actual + 1)),
           (''evidence_span'', PStr ev), (''evidence_turn'', PInt turn)];
         errors = ev_errors @ revision_errors g expected actual in
     if operation = ''SET_GOAL_LIFECYCLE'' then
       (let before = py_upper (limited 40 (dget raw ''from'')); after = py_upper (limited 40 (dget raw ''to'')) in
        (base @ [(''from'', PStr before), (''to'', PStr after)],
         errors @ lifecycle_errors g before after (listed_lifecycle r)))
     else if operation = ''PATCH_GOAL'' then
       (let patch = dict_or (dget raw ''patch'') in
        (base @ [(''patch'', PDict (filter (\<lambda>(k, v). k \<in> set patchable_fields) patch))],
         errors @ patch_errors g patch))
     else
       (let by = limited 200 (dget raw ''superseded_by'') in
        (base @ [(''superseded_by'', PStr by)], errors @ supersede_errors g by proposed)))"

record change_check =
  cc_seen :: "string list"
  cc_changes :: "pydict list"
  cc_errors :: "string list"

definition check_error :: "string \<Rightarrow> change_check \<Rightarrow> change_check" where
  "check_error e c = c\<lparr>cc_errors := cc_errors c @ [e]\<rparr>"

definition check_goal_change ::
  "string \<Rightarrow> pydict list \<Rightarrow> string list \<Rightarrow> int \<Rightarrow> nat \<Rightarrow> pyval \<Rightarrow> change_check \<Rightarrow> change_check" where
  "check_goal_change user_text rows proposed turn i v c =
    (case as_pydict v of
       None \<Rightarrow> check_error (''invalid_goal_change:'' @ digits_of i) c
     | Some raw \<Rightarrow>
        let operation = py_upper (limited 80 (dget raw ''operation'')); g = limited 200 (dget raw ''goal_id'') in
        if operation \<notin> set goal_change_operations
        then check_error (''unsupported_goal_change_operation:'' @ missing_or operation) c
        else if g = [] then check_error (''goal_change_goal_id_required:'' @ digits_of i) c
        else if g \<in> set (cc_seen c) then check_error (''duplicate_goal_change:'' @ g) c
        else
          let seen = c\<lparr>cc_seen := cc_seen c @ [g]\<rparr> in
          (case map_of (records_by_id rows) g of
             None \<Rightarrow> check_error (''unknown_goal_for_change:'' @ g) seen
           | Some r \<Rightarrow>
              let (change, errors) = check_known_change user_text proposed turn operation g raw r in
              seen\<lparr>cc_changes := cc_changes c @ [change], cc_errors := cc_errors c @ errors\<rparr>))"

fun check_goal_changes ::
  "string \<Rightarrow> pydict list \<Rightarrow> string list \<Rightarrow> int \<Rightarrow> nat \<Rightarrow> pyval list \<Rightarrow> change_check \<Rightarrow> change_check" where
  "check_goal_changes user_text rows proposed turn i [] c = c"
| "check_goal_changes user_text rows proposed turn i (v # vs) c =
     check_goal_changes user_text rows proposed turn (Suc i) vs
       (check_goal_change user_text rows proposed turn i v c)"

definition validate_goal_changes ::
  "pyval list \<Rightarrow> string \<Rightarrow> pyval list \<Rightarrow> pyval list \<Rightarrow> int \<Rightarrow> pydict list \<times> string list" where
  "validate_goal_changes raws user_text records ids turn =
    (let proposed = filter (\<lambda>s. s \<noteq> []) (map (limited 200) ids);
         c = check_goal_changes user_text (only_dicts records) proposed turn 1 raws
           \<lparr>cc_seen = [], cc_changes = [], cc_errors = []\<rparr> in
     (cc_changes c, cc_errors c))"

section \<open>Focus changes\<close>

definition focus_target ::
  "pydict \<Rightarrow> string \<Rightarrow> pydict list \<Rightarrow> string option \<Rightarrow> pydict \<times> string list" where
  "focus_target raw operation rows active =
    (if operation = ''SET_GOAL_FOCUS'' then
       (let g = limited 200 (dget raw ''goal_id'') in
        ([(''goal_id'', PStr g)],
         case map_of (records_by_id rows) g of
           None \<Rightarrow> [''unknown_goal_for_focus:'' @ missing_or g]
         | Some r \<Rightarrow> if listed_lifecycle r \<notin> set focusable_lifecycles then [''goal_not_active_for_focus:'' @ g] else []))
     else if operation = ''SET_INTERACTION_FOCUS'' then
       (let iid = limited 300 (dget raw ''interaction_id''); current = limited 300 (opt_val active) in
        ([(''interaction_id'', PStr iid)],
         if iid = [] then [''interaction_id_required_for_focus'']
         else if current = [] \<or> iid \<noteq> current then [''interaction_not_active_for_focus:'' @ iid]
         else []))
     else ([], []))"

definition validate_focus_change ::
  "pyval \<Rightarrow> string \<Rightarrow> pyval \<Rightarrow> pyval list \<Rightarrow> string option \<Rightarrow> int \<Rightarrow> pydict option \<times> string list" where
  "validate_focus_change v user_text focus records active turn =
    (if v = PNone then (None, [])
     else case as_pydict v of
       None \<Rightarrow> (None, [''invalid_focus_change''])
     | Some raw \<Rightarrow>
        let operation = py_upper (limited 80 (dget raw ''operation''));
            (ev, ev_errors) = literal_evidence raw user_text ''focus_change_evidence_not_in_current_turn'';
            actual = focus_revision focus;
            expected = revision_value (dget raw ''expected_revision'') (-1);
            (target, target_errors) = focus_target raw operation (only_dicts records) active in
        (Some ([(''operation'', PStr operation), (''expected_revision'', PInt expected),
            (''validated_against_focus_revision'', PInt actual), (''next_focus_revision'', PInt (actual + 1)),
            (''evidence_span'', PStr ev), (''evidence_turn'', PInt turn)] @ target),
         (if operation \<notin> set focus_change_operations
          then [''unsupported_focus_change_operation:'' @ missing_or operation] else [])
         @ ev_errors
         @ (if expected < 0 then [''focus_expected_revision_required'']
            else if expected \<noteq> actual then
              [''focus_revision_conflict:expected='' @ str_of_int expected @ '':actual='' @ str_of_int actual]
            else [])
         @ target_errors))"

definition apply_focus_change :: "pyval \<Rightarrow> pyval \<Rightarrow> int \<Rightarrow> string + pyval" where
  "apply_focus_change focus v turn =
    (case as_pydict v of
       None \<Rightarrow> Inr (case as_pydict focus of None \<Rightarrow> PNone | Some f \<Rightarrow> PDict f)
     | Some change \<Rightarrow>
        let actual = focus_revision focus;
            expected = revision_value (dget change ''validated_against_focus_revision'') (-1);
            operation = py_upper (limited 80 (dget change ''operation''));
            common = [(''revision'', PInt (actual + 1)), (''updated_turn'', PInt turn),
              (''last_change_operation'', PStr operation),
              (''last_change_evidence_span'', PStr (limited 500 (dget change ''evidence_span'')))] in
        if expected \<noteq> actual then
          Inl (''focus_revision_conflict:expected='' @ str_of_int expected @ '':actual='' @ str_of_int actual)
        else if operation \<notin> set focus_change_operations then
          Inl (''unsupported_focus_change_operation:'' @ missing_or operation)
        else if operation = ''SET_GOAL_FOCUS'' then
          Inr (PDict (common @ [(''focused_goal_id'', PStr (limited 200 (dget change ''goal_id'')))]))
        else if operation = ''SET_INTERACTION_FOCUS'' then
          Inr (PDict (common @ [(''focused_interaction_id'', PStr (limited 300 (dget change ''interaction_id'')))]))
        else Inr (PDict (common @ [(''focused_goal_id'', PNone), (''focused_interaction_id'', PNone)])))"

end
