(* ===== verification/Goal_Records.thy ===== *)
theory Goal_Records
  imports Goal_Integrity Goal_Changes
begin

text \<open>
  \<open>lifecycle/goal_lifecycle.py\<close> and \<open>lifecycle/goal_blockers.py\<close>: the durable goal records, the
  table of their lifecycle, the application of a frozen contract and of an execution plan to
  them, and the blockers of goals. The last section is the part of
  \<open>lifecycle/tool_execution_runtime.py\<close> that publishes the state a contract leads to.

  The dict \<open>by_id\<close> of the code points into the list of records; here a goal id stands for the
  position of the last record that carries it. Rows are copied before they are changed.
\<close>

section \<open>The lifecycle table\<close>

definition active_lifecycles :: "string list" where
  "active_lifecycles = [''OPEN'', ''ACTIVE'', ''BLOCKED'', ''PAUSED'']"

definition terminal_lifecycles :: "string list" where
  "terminal_lifecycles = [''COMPLETED'', ''CANCELLED'', ''SUPERSEDED'']"

definition all_lifecycles :: "string list" where
  "all_lifecycles = active_lifecycles @ terminal_lifecycles"

definition allowed_transitions :: "(string \<times> string list) list" where
  "allowed_transitions =
    [(''OPEN'', all_lifecycles),
     (''ACTIVE'', [''ACTIVE'', ''BLOCKED'', ''PAUSED'', ''COMPLETED'', ''CANCELLED'', ''SUPERSEDED'']),
     (''BLOCKED'', [''BLOCKED'', ''ACTIVE'', ''PAUSED'', ''COMPLETED'', ''CANCELLED'', ''SUPERSEDED'']),
     (''PAUSED'', [''PAUSED'', ''ACTIVE'', ''CANCELLED'', ''SUPERSEDED'']),
     (''COMPLETED'', [''COMPLETED'', ''SUPERSEDED'']),
     (''CANCELLED'', [''CANCELLED'', ''SUPERSEDED'']),
     (''SUPERSEDED'', [''SUPERSEDED''])]"

definition transitions_from :: "string \<Rightarrow> string list" where
  "transitions_from s = (case map_of allowed_transitions s of None \<Rightarrow> [] | Some ss \<Rightarrow> ss)"

text \<open>\<open>str(record.get("lifecycle") or "OPEN").upper()\<close>.\<close>

definition lifecycle_of :: "pydict \<Rightarrow> string" where
  "lifecycle_of r = py_upper (text_of (py_or (dget r ''lifecycle'') (PStr ''OPEN'')))"

definition active_goal_records :: "pyval list \<Rightarrow> pydict list" where
  "active_goal_records rows = filter (\<lambda>r. lifecycle_of r \<in> set active_lifecycles) (only_dicts rows)"

definition goal_id_of :: "pydict \<Rightarrow> string" where
  "goal_id_of r = text_of (dget r ''goal_id'')"

definition transition_goal :: "pydict \<Rightarrow> string \<Rightarrow> int \<Rightarrow> string \<Rightarrow> string option \<Rightarrow> string + pydict" where
  "transition_goal r lifecycle turn operation evidence =
    (let before = lifecycle_of r; after = py_upper lifecycle in
     if after \<notin> set all_lifecycles then Inl (''invalid_goal_lifecycle:'' @ after)
     else if after \<notin> set (transitions_from before) then
       Inl (''invalid_goal_transition:'' @ py_str (dget r ''goal_id'') @ '':'' @ before @ ''->'' @ after)
     else
       let r1 = dset ''lifecycle'' (PStr after) r;
           r2 = dset ''revision'' (PInt (record_revision (PDict r1) + 1)) r1;
           r3 = dset ''last_lifecycle_operation'' (PStr operation) (dset ''updated_turn'' (PInt turn) r2) in
       Inr (if truthy_str evidence then dset ''last_change_evidence_span'' (PStr (opt_str evidence)) r3 else r3))"

definition assert_validated_change :: "pydict \<Rightarrow> pydict \<Rightarrow> string + unit" where
  "assert_validated_change r change =
    (let g = goal_id_of r; actual = record_revision (PDict r) in
     and_then (int_or_raise (dget change ''validated_against_revision'') (-1))
       (\<lambda>validated. and_then (int_or_raise (dget change ''expected_revision'') (-1))
         (\<lambda>expected.
            if validated \<noteq> actual \<or> expected \<noteq> actual then
              Inl (''goal_revision_conflict:'' @ g @ '':expected='' @ str_of_int expected
                @ '':actual='' @ str_of_int actual)
            else and_then (int_or_raise (dget change ''next_revision'') (-1))
              (\<lambda>next. if next \<noteq> actual + 1 then Inl (''goal_next_revision_invalid:'' @ g)
                 else require (stripped (dget change ''evidence_span'') \<noteq> [])
                   (''goal_change_evidence_required:'' @ g)))))"

definition fresh_goal_record :: "string \<Rightarrow> int \<Rightarrow> pydict" where
  "fresh_goal_record g turn =
    [(''goal_id'', PStr g), (''created_turn'', PInt turn), (''lifecycle'', PStr ''ACTIVE''), (''revision'', PInt 1)]"

section \<open>The records\<close>

fun last_row :: "(pydict \<Rightarrow> string) \<Rightarrow> string \<Rightarrow> pydict list \<Rightarrow> nat option" where
  "last_row key g [] = None"
| "last_row key g (r # rs) = (case last_row key g rs of
     Some i \<Rightarrow> Some (Suc i)
   | None \<Rightarrow> if key r = g then Some 0 else None)"

definition row_of :: "string \<Rightarrow> pydict list \<Rightarrow> nat option" where
  "row_of g rows = (if g = [] then None else last_row goal_id_of g rows)"

definition with_revision :: "pydict \<Rightarrow> pydict" where
  "with_revision r = (if has_field ''revision'' r then r else dset ''revision'' (PInt (record_revision (PDict r))) r)"

definition patch_keys :: "string list" where
  "patch_keys = [''target_candidate'', ''input_candidates'', ''condition'', ''depends_on'']"

definition patch_goal :: "pydict \<Rightarrow> pydict \<Rightarrow> int \<Rightarrow> string \<Rightarrow> pydict" where
  "patch_goal r patch turn evidence =
    (let r1 = foldl (\<lambda>r k. if has_field k patch then dset k (dget patch k) r else r) r patch_keys in
     dset ''last_change_evidence_span'' (PStr evidence)
       (dset ''last_lifecycle_operation'' (PStr ''PATCH_GOAL'')
         (dset ''updated_turn'' (PInt turn)
           (dset ''revision'' (PInt (record_revision (PDict r1) + 1)) r1))))"

text \<open>One concrete operation on the record it names.\<close>

definition changed_record :: "int \<Rightarrow> pydict \<Rightarrow> pydict \<Rightarrow> string + pydict" where
  "changed_record turn change r =
    (let operation = py_upper (text_of (dget change ''operation'')); g = text_of (dget change ''goal_id'');
         evidence = stripped (dget change ''evidence_span'') in
     if operation = ''SET_GOAL_LIFECYCLE'' then
       (let declared = py_upper (text_of (dget change ''from'')) in
        if declared \<noteq> lifecycle_of r then
          Inl (''goal_lifecycle_from_mismatch:'' @ g @ '':expected='' @ declared @ '':actual='' @ lifecycle_of r)
        else transition_goal r (text_of (dget change ''to'')) turn operation (Some evidence))
     else if operation = ''SUPERSEDE_GOAL'' then
       and_then (transition_goal r ''SUPERSEDED'' turn operation (Some evidence))
         (\<lambda>r'. Inr (dset ''superseded_by'' (opt_val (none_if_empty (text_of (dget change ''superseded_by'')))) r'))
     else if operation = ''PATCH_GOAL'' then
       Inr (patch_goal r (dict_or (dget change ''patch'')) turn evidence)
     else Inl (''unsupported_goal_change_operation:'' @ operation))"

definition apply_goal_change :: "int \<Rightarrow> pydict \<Rightarrow> pydict list \<Rightarrow> string + pydict list" where
  "apply_goal_change turn change rows =
    (let g = text_of (dget change ''goal_id'') in
     case row_of g rows of
       None \<Rightarrow> Inl (''unknown_goal_for_change:'' @ g)
     | Some i \<Rightarrow>
        and_then (assert_validated_change (rows ! i) change)
          (\<lambda>_. and_then (changed_record turn change (rows ! i)) (\<lambda>r. Inr (rows[i := r]))))"

text \<open>The fields of a goal of the contract; a field the goal leaves out keeps its old value.\<close>

definition carried :: "pydict \<Rightarrow> pydict \<Rightarrow> string \<Rightarrow> string \<times> pyval" where
  "carried goal existing k = (k, if dget goal k \<noteq> PNone then dget goal k else dget existing k)"

definition goal_update :: "string \<Rightarrow> int \<Rightarrow> pydict \<Rightarrow> pydict \<Rightarrow> string + pydict" where
  "goal_update cid turn goal existing =
    and_then (list_of (dget goal ''depends_on''))
      (\<lambda>deps. Inr (dupdate existing
        ([(''description'', PStr (text_of (dget goal ''description''))),
          (''requested_effect'', case as_pydict (dget goal ''requested_effect'') of None \<Rightarrow> PNone | Some d \<Rightarrow> PDict d)]
         @ map (carried goal existing) [''target_candidate'', ''reference_expression'',
             ''referent_resolution_proof'', ''resolved_reference'', ''input_candidates'', ''condition'']
         @ [(''depends_on'', PList deps),
            (''required'', PBool (case map_of goal ''required'' of None \<Rightarrow> True | Some v \<Rightarrow> truthy v)),
            (''source_semantic_contract_id'', PStr cid), (''updated_turn'', PInt turn),
            (''continuation_of'', opt_val (none_if_empty (text_of (dget goal ''continuation_of''))))])))"

text \<open>A paused, blocked or open goal that the contract names again becomes active.\<close>

definition activate :: "int \<Rightarrow> pydict \<Rightarrow> string + pydict" where
  "activate turn r =
    (if text_of (dget r ''lifecycle'') \<in> {''OPEN'', ''BLOCKED'', ''PAUSED''}
     then transition_goal r ''ACTIVE'' turn ''SEMANTIC_CONTRACT_ACTIVATED'' None else Inr r)"

definition closed_elsewhere :: "string \<Rightarrow> pydict \<Rightarrow> bool" where
  "closed_elsewhere cid r =
    (py_upper (text_of (dget r ''lifecycle'')) \<in> set terminal_lifecycles
     \<and> text_of (dget r ''source_semantic_contract_id'') \<noteq> cid)"

definition declare_goal :: "string \<Rightarrow> int \<Rightarrow> pydict \<Rightarrow> pydict list \<Rightarrow> string + pydict list" where
  "declare_goal cid turn goal rows =
    (let g = goal_id_of goal in
     if g = [] then Inr rows
     else
       let (i, rows') = (case row_of g rows of
             None \<Rightarrow> (length rows, rows @ [fresh_goal_record g turn])
           | Some i \<Rightarrow> (i, if closed_elsewhere cid (rows ! i) then rows[i := fresh_goal_record g turn] else rows)) in
       and_then (goal_update cid turn goal (with_revision (rows' ! i)))
         (\<lambda>r. and_then (activate turn r) (\<lambda>r'. Inr (rows'[i := r']))))"

definition apply_changes :: "int \<Rightarrow> pydict \<Rightarrow> pydict list \<Rightarrow> string + pydict list" where
  "apply_changes turn contract rows =
    and_then (list_of (dget contract ''goal_changes''))
      (\<lambda>changes. thread (apply_goal_change turn) (only_dicts changes) rows)"

definition apply_goals :: "int \<Rightarrow> pydict \<Rightarrow> pydict list \<Rightarrow> string + pydict list" where
  "apply_goals turn contract rows =
    and_then (list_of (dget contract ''goals''))
      (\<lambda>goals. thread (declare_goal (text_of (dget contract ''semantic_contract_id'')) turn) (only_dicts goals) rows)"

definition apply_semantic_contract_to_goal_records ::
  "(string \<Rightarrow> string) \<Rightarrow> pyval list \<Rightarrow> pydict \<Rightarrow> int \<Rightarrow> string + pydict list" where
  "apply_semantic_contract_to_goal_records sha records contract turn =
    and_then (assert_semantic_contract_integrity sha (PDict contract))
      (\<lambda>_. and_then (apply_changes turn contract (map with_revision (only_dicts records)))
        (apply_goals turn contract))"

section \<open>Progress of the execution plan\<close>

definition plan_progress :: "int \<Rightarrow> pydict \<Rightarrow> pydict \<Rightarrow> string + pydict" where
  "plan_progress turn goal r =
    and_then (list_of (dget goal ''completion_tool_names''))
      (\<lambda>names. let tools = filter (\<lambda>s. s \<noteq> []) (map py_str names);
           r1 = (if tools = [] then r
             else dset ''completion_tool_names'' (PList (map PStr (first_of_each tools))) r);
           coverage = text_of (dget goal ''coverage_status'') in
        if coverage = ''COVERED'' then transition_goal r1 ''COMPLETED'' turn ''EXECUTION_PLAN_COVERED'' None
        else if coverage = ''BLOCKED'' then transition_goal r1 ''BLOCKED'' turn ''EXECUTION_PLAN_BLOCKED'' None
        else if coverage = ''FAILED'' then
          Inr (dset ''updated_turn'' (PInt turn) (dset ''last_execution_failure_turn'' (PInt turn) r1))
        else transition_goal r1 ''ACTIVE'' turn ''EXECUTION_PLAN_PENDING'' None)"

definition progress_goal :: "int \<Rightarrow> pydict \<Rightarrow> pydict list \<Rightarrow> string + pydict list" where
  "progress_goal turn goal rows =
    (case row_of (goal_id_of goal) rows of
       None \<Rightarrow> Inr rows
     | Some i \<Rightarrow>
        if text_of (dget (rows ! i) ''lifecycle'') \<in> set terminal_lifecycles then Inr rows
        else and_then (plan_progress turn goal (rows ! i)) (\<lambda>r. Inr (rows[i := r])))"

definition update_goal_records_from_execution_plan ::
  "pyval list \<Rightarrow> pyval \<Rightarrow> int \<Rightarrow> string + pydict list" where
  "update_goal_records_from_execution_plan records plan turn =
    (let rows = only_dicts records in
     case as_pydict plan of
       None \<Rightarrow> Inr rows
     | Some p \<Rightarrow> and_then (list_of (dget p ''goals'')) (\<lambda>goals. thread (progress_goal turn) (only_dicts goals) rows))"

section \<open>Blockers\<close>

definition blocker_id_of :: "pydict \<Rightarrow> string" where
  "blocker_id_of r = text_of (dget r ''blocker_id'')"

definition blocker_outcomes :: "(string \<times> string) list" where
  "blocker_outcomes = [(''RESOLVE_BLOCKER'', ''RESOLVED''), (''CANCEL_BLOCKER'', ''CANCELLED''),
     (''SUPERSEDE_BLOCKER'', ''SUPERSEDED'')]"

definition resolved_blocker :: "int \<Rightarrow> string \<Rightarrow> string \<Rightarrow> pydict \<Rightarrow> pydict \<Rightarrow> pydict" where
  "resolved_blocker turn operation status resolution b =
    (let b1 = dset ''resolution_evidence_span'' (PStr (stripped (dget resolution ''evidence_span'')))
           (dset ''resolution_operation'' (PStr operation)
             (dset ''resolved_turn'' (PInt turn) (dset ''status'' (PStr status) b))) in
     if dget resolution ''value'' \<noteq> PNone then dset ''resolution_value'' (dget resolution ''value'') b1 else b1)"

text \<open>The loop threads the ids already resolved and the blockers.\<close>

definition resolve_blocker ::
  "int \<Rightarrow> pydict \<Rightarrow> string list \<times> pydict list \<Rightarrow> string + string list \<times> pydict list" where
  "resolve_blocker turn resolution s =
    (let (seen, rows) = s; bid = stripped (dget resolution ''blocker_id'');
         operation = py_upper (stripped (dget resolution ''operation'')) in
     if bid = [] \<or> bid \<in> set seen then Inl (''invalid_or_duplicate_blocker_resolution:'' @ missing_or bid)
     else (case last_row blocker_id_of bid rows of
         None \<Rightarrow> Inl (''unknown_blocker:'' @ bid)
       | Some i \<Rightarrow>
           if py_upper (text_of (py_or (dget (rows ! i) ''status'') (PStr ''OPEN''))) \<noteq> ''OPEN''
           then Inl (''blocker_not_open:'' @ bid)
           else (case map_of blocker_outcomes operation of
               None \<Rightarrow> Inl (''invalid_blocker_operation:'' @ bid @ '':'' @ operation)
             | Some status \<Rightarrow>
                 Inr (bid # seen, rows[i := resolved_blocker turn operation status resolution (rows ! i)]))))"

definition apply_blocker_resolutions :: "pyval list \<Rightarrow> pyval list \<Rightarrow> int \<Rightarrow> string + pydict list" where
  "apply_blocker_resolutions blockers resolutions turn =
    and_then (thread (resolve_blocker turn) (only_dicts resolutions) ([], only_dicts blockers))
      (\<lambda>(seen, rows). Inr rows)"

text \<open>The loop threads the positions of the ids and the blockers.\<close>

definition merge_blocker ::
  "pydict \<Rightarrow> (string \<Rightarrow> nat option) \<times> pydict list \<Rightarrow> string + (string \<Rightarrow> nat option) \<times> pydict list" where
  "merge_blocker addition s =
    (let (positions, rows) = s; bid = stripped (dget addition ''blocker_id'');
         normalized = (if has_field ''status'' addition then addition else dset ''status'' (PStr ''OPEN'') addition) in
     if bid = [] \<or> stripped (dget addition ''goal_id'') = [] then Inl ''blocker_id_and_goal_id_required''
     else (case positions bid of
         Some i \<Rightarrow> Inr (positions, rows[i := normalized])
       | None \<Rightarrow> Inr (positions(bid \<mapsto> length rows), rows @ [normalized])))"

definition merge_goal_blockers :: "pyval list \<Rightarrow> pyval list \<Rightarrow> string + pydict list" where
  "merge_goal_blockers existing additions =
    (let rows = only_dicts existing in
     and_then (thread merge_blocker (only_dicts additions) (\<lambda>bid. last_row blocker_id_of bid rows, rows))
       (\<lambda>(positions, rows'). Inr rows'))"

section \<open>Publishing the state of a frozen contract\<close>

record goal_state =
  gs_records :: "pyval list"
  gs_blockers :: "pyval list"
  gs_focus :: pyval

definition candidate_state :: "(string \<Rightarrow> string) \<Rightarrow> int \<Rightarrow> pydict \<Rightarrow> goal_state \<Rightarrow> string + goal_state" where
  "candidate_state sha turn contract s =
    and_then (apply_semantic_contract_to_goal_records sha (gs_records s) contract turn)
      (\<lambda>records. and_then (list_of (dget contract ''blocker_resolutions''))
        (\<lambda>resolutions. and_then (apply_blocker_resolutions (gs_blockers s) resolutions turn)
          (\<lambda>blockers. and_then
            (case as_pydict (dget contract ''focus_change'') of
               None \<Rightarrow> Inr (gs_focus s)
             | Some change \<Rightarrow> apply_focus_change (gs_focus s) (PDict change) turn)
            (\<lambda>focus. Inr \<lparr>gs_records = map PDict records, gs_blockers = map PDict blockers, gs_focus = focus\<rparr>))))"

text \<open>
  A refusal answers its reason and keeps the state; otherwise the three parts change together.
  \<open>None\<close> as the contract stands for a candidate that is no dict. The code catches \<open>ValueError\<close>
  only: a \<open>TypeError\<close> over a field of the wrong type, which is an \<open>Inl\<close> here too, ends the turn
  instead of answering, and keeps the state as well.
\<close>

definition publish_semantics ::
  "(string \<Rightarrow> string) \<Rightarrow> int \<Rightarrow> pydict option \<Rightarrow> goal_state \<Rightarrow> string option \<times> goal_state" where
  "publish_semantics sha turn candidate s =
    (case candidate of
       None \<Rightarrow> (Some ''frozen_semantic_contract_required'', s)
     | Some contract \<Rightarrow> (case candidate_state sha turn contract s of
         Inl reason \<Rightarrow> (Some reason, s)
       | Inr s' \<Rightarrow> (None, s')))"

section \<open>What a step does to one record\<close>

definition source_of :: "pydict \<Rightarrow> string" where
  "source_of r = text_of (dget r ''source_semantic_contract_id'')"

definition revision_of :: "pydict \<Rightarrow> int" where
  "revision_of r = record_revision (PDict r)"

abbreviation closed_goal :: "pydict \<Rightarrow> bool" where
  "closed_goal r \<equiv> lifecycle_of r \<in> set terminal_lifecycles"

lemmas record_reads = lifecycle_of_def goal_id_of_def source_of_def revision_of_def

lemma py_upper_idem [simp]: "py_upper (py_upper s) = py_upper s"
proof -
  have "upper_char (upper_char c) = upper_char c" for c
  proof (cases "97 \<le> (of_char c :: nat) \<and> (of_char c :: nat) \<le> 122")
    case True
    then have "(of_char c - 32) mod 256 = (of_char c - 32 :: nat)" by (intro mod_less) linarith
    then show ?thesis using True by (simp add: upper_char_def Let_def) linarith
  next
    case False
    then have "upper_char c = c" unfolding upper_char_def Let_def by (rule if_not_P)
    then show ?thesis by simp
  qed
  then show ?thesis by (simp add: py_upper_def)
qed

lemma upper_lifecycles: "s \<in> set all_lifecycles \<Longrightarrow> py_upper s = s"
proof -
  have "list_all (\<lambda>s. py_upper s = s) all_lifecycles" by code_simp
  then show "s \<in> set all_lifecycles \<Longrightarrow> py_upper s = s" by (simp add: list_all_iff)
qed

lemma closed_transitions:
  "s \<in> set terminal_lifecycles \<Longrightarrow> t \<in> set (transitions_from s) \<Longrightarrow> t \<in> {s, ''SUPERSEDED''}"
  by (auto simp: terminal_lifecycles_def transitions_from_def allowed_transitions_def)

lemma supersede_allowed: "s \<in> set all_lifecycles \<Longrightarrow> ''SUPERSEDED'' \<in> set (transitions_from s)"
  by (auto simp: all_lifecycles_def active_lifecycles_def terminal_lifecycles_def transitions_from_def
      allowed_transitions_def)

lemma transition_goal_effect:
  assumes "transition_goal r lifecycle turn operation evidence = Inr r'"
  shows "lifecycle_of r' = py_upper lifecycle" "py_upper lifecycle \<in> set (transitions_from (lifecycle_of r))"
    "revision_of r' = revision_of r + 1" "goal_id_of r' = goal_id_of r" "source_of r' = source_of r"
proof -
  let ?t = "py_upper lifecycle"
  show "?t \<in> set (transitions_from (lifecycle_of r))"
    using assms by (auto simp: transition_goal_def Let_def split: if_splits)
  have "?t \<noteq> []" using assms
    by (auto simp: transition_goal_def Let_def all_lifecycles_def active_lifecycles_def terminal_lifecycles_def
        split: if_splits)
  then show "lifecycle_of r' = ?t"
    using assms by (auto simp: transition_goal_def Let_def lifecycle_of_def py_or_def split: if_splits)
  have "1 \<le> record_revision (PDict r)" by simp
  then show "revision_of r' = revision_of r + 1"
    using assms by (auto simp: transition_goal_def Let_def revision_of_def record_revision_def split: if_splits)
  show "goal_id_of r' = goal_id_of r" "source_of r' = source_of r"
    using assms by (auto simp: transition_goal_def Let_def goal_id_of_def source_of_def split: if_splits)
qed

text \<open>
  \<open>record_step\<close>: a record keeps its id and source, a closed one is at most superseded, and a change
  of the lifecycle raises the revision, which never falls.
\<close>

definition record_step :: "pydict \<Rightarrow> pydict \<Rightarrow> bool" where
  "record_step r r' =
    (goal_id_of r' = goal_id_of r \<and> source_of r' = source_of r
     \<and> (closed_goal r \<longrightarrow> lifecycle_of r' \<in> {lifecycle_of r, ''SUPERSEDED''})
     \<and> revision_of r \<le> revision_of r' \<and> (lifecycle_of r' \<noteq> lifecycle_of r \<longrightarrow> revision_of r < revision_of r'))"

lemma record_step_refl [simp]: "record_step r r"
  by (simp add: record_step_def)

lemma superseded_closed: "''SUPERSEDED'' \<in> set terminal_lifecycles"
  by (simp add: terminal_lifecycles_def)

lemma record_step_trans: "record_step a b \<Longrightarrow> record_step b c \<Longrightarrow> record_step a c"
  unfolding record_step_def using superseded_closed by (auto 4 3)

lemma transition_step: "transition_goal r lifecycle turn operation evidence = Inr r' \<Longrightarrow> record_step r r'"
  using transition_goal_effect [of r lifecycle turn operation evidence r'] closed_transitions
  by (auto simp: record_step_def)

lemma same_reads_step:
  "(\<And>k. k \<in> {''goal_id'', ''source_semantic_contract_id'', ''lifecycle'', ''revision''} \<Longrightarrow> dget r' k = dget r k)
    \<Longrightarrow> record_step r r'"
  by (simp add: record_step_def record_reads record_revision_def)

lemma with_revision_step: "record_step r (with_revision r)"
proof (cases "has_field ''revision'' r")
  case False
  then have "dget r ''revision'' = PNone"
    by (simp add: dget_def has_field_def map_of_eq_None_iff [THEN iffD2])
  then show ?thesis
    by (simp add: record_step_def with_revision_def record_reads record_revision_def revision_value_def py_int_def)
qed (simp add: with_revision_def)

lemma patch_goal_reads:
  "k \<notin> set patch_keys \<Longrightarrow> dget (foldl (\<lambda>r k. if has_field k patch then dset k (dget patch k) r else r) r patch_keys) k
    = dget r k"
  by (auto simp: patch_keys_def)

lemma patch_goal_step: "record_step r (patch_goal r patch turn evidence)"
proof -
  let ?r1 = "foldl (\<lambda>r k. if has_field k patch then dset k (dget patch k) r else r) r patch_keys"
  have same: "dget ?r1 k = dget r k"
    if "k \<in> {''goal_id'', ''source_semantic_contract_id'', ''lifecycle'', ''revision''}" for k
    using that by (intro patch_goal_reads) (auto simp: patch_keys_def)
  have "1 \<le> record_revision (PDict r)" by simp
  then show ?thesis
    by (auto simp: record_step_def patch_goal_def Let_def record_reads record_revision_def same)
qed

lemma changed_record_step: "changed_record turn change r = Inr r' \<Longrightarrow> record_step r r'"
proof -
  assume ok: "changed_record turn change r = Inr r'"
  have sup: "record_step m (dset ''superseded_by'' v m)" for m v by (rule same_reads_step) auto
  show ?thesis
    using ok transition_step patch_goal_step record_step_trans [OF transition_step sup]
    by (auto simp: changed_record_def Let_def err_simps split: if_splits)
qed

section \<open>What the loops do to the records\<close>

definition records_step :: "(pydict \<Rightarrow> pydict \<Rightarrow> bool) \<Rightarrow> pydict list \<Rightarrow> pydict list \<Rightarrow> bool" where
  "records_step R rows rows' = (length rows \<le> length rows' \<and> (\<forall>i < length rows. R (rows ! i) (rows' ! i)))"

lemma records_step_refl: "(\<And>r. R r r) \<Longrightarrow> records_step R rows rows"
  by (simp add: records_step_def)

lemma records_step_trans:
  "(\<And>a b c. R a b \<Longrightarrow> R b c \<Longrightarrow> R a c) \<Longrightarrow> records_step R a b \<Longrightarrow> records_step R b c \<Longrightarrow> records_step R a c"
  unfolding records_step_def by (meson le_trans less_le_trans)

lemma records_step_update:
  "(\<And>r. R r r) \<Longrightarrow> R (rows ! i) r \<Longrightarrow> records_step R rows (rows[i := r])"
  by (cases "i < length rows") (auto simp: records_step_def nth_list_update list_update_beyond)

lemma last_row_Some: "last_row key g rows = Some i \<Longrightarrow> i < length rows \<and> key (rows ! i) = g"
  by (induction rows arbitrary: i) (auto split: option.splits if_splits)

lemma row_of_Some: "row_of g rows = Some i \<Longrightarrow> i < length rows \<and> goal_id_of (rows ! i) = g \<and> g \<noteq> []"
  by (auto simp: row_of_def dest: last_row_Some split: if_splits)

lemma apply_goal_change_step:
  "apply_goal_change turn change rows = Inr rows' \<Longrightarrow> records_step record_step rows rows' \<and> length rows' = length rows"
  by (auto simp: apply_goal_change_def Let_def err_simps split: option.splits
      intro!: records_step_update dest: changed_record_step)

lemma apply_changes_step:
  assumes "apply_changes turn contract rows = Inr rows'"
  shows "records_step record_step rows rows' \<and> length rows' = length rows"
proof -
  obtain changes where "thread (apply_goal_change turn) (only_dicts changes) rows = Inr rows'"
    using assms by (auto simp: apply_changes_def err_simps)
  then show ?thesis
    by (rule thread_relation)
      (auto intro: records_step_refl records_step_trans [OF record_step_trans] dest!: apply_goal_change_step)
qed

text \<open>Declaring goals either keeps the lifecycle of a record, or makes it active under the contract.\<close>

definition declared_step :: "string \<Rightarrow> pydict \<Rightarrow> pydict \<Rightarrow> bool" where
  "declared_step cid r r' =
    (goal_id_of r' = goal_id_of r
     \<and> (lifecycle_of r' = lifecycle_of r \<and> source_of r' \<in> {source_of r, cid}
        \<or> lifecycle_of r' = ''ACTIVE'' \<and> source_of r' = cid \<and> (closed_goal r \<longrightarrow> source_of r \<noteq> cid)))"

lemma declared_step_refl [simp]: "declared_step cid r r"
  by (simp add: declared_step_def)

lemma active_not_closed: "''ACTIVE'' \<notin> set terminal_lifecycles"
  by (simp add: terminal_lifecycles_def)

lemma declared_step_trans: "declared_step cid a b \<Longrightarrow> declared_step cid b c \<Longrightarrow> declared_step cid a c"
  unfolding declared_step_def using active_not_closed by auto

lemma goal_update_reads:
  assumes "goal_update cid turn goal r = Inr r'"
  shows "lifecycle_of r' = lifecycle_of r" "goal_id_of r' = goal_id_of r" "source_of r' = cid"
    "dget r' ''lifecycle'' = dget r ''lifecycle''"
  using assms by (auto simp: goal_update_def err_simps carried_def record_reads)

lemma activate_effect:
  assumes "activate turn r = Inr r'"
  shows "goal_id_of r' = goal_id_of r \<and> source_of r' = source_of r
    \<and> (r' = r \<or> lifecycle_of r' = ''ACTIVE'' \<and> \<not> closed_goal r)"
proof (cases "text_of (dget r ''lifecycle'') \<in> {''OPEN'', ''BLOCKED'', ''PAUSED''}")
  case True
  then have "lifecycle_of r = text_of (dget r ''lifecycle'')"
    using upper_lifecycles
    by (auto simp: lifecycle_of_def py_or_def text_of_def all_lifecycles_def active_lifecycles_def split: if_splits)
  then have "\<not> closed_goal r" using True by (auto simp: terminal_lifecycles_def)
  moreover have "py_upper ''ACTIVE'' = ''ACTIVE''"
    by (rule upper_lifecycles) (simp add: all_lifecycles_def active_lifecycles_def)
  ultimately show ?thesis
    using assms True transition_goal_effect [of r "''ACTIVE''"] by (auto simp: activate_def)
qed (use assms in \<open>auto simp: activate_def\<close>)

text \<open>Declaring a goal.\<close>

lemma declare_goal_step:
  assumes "declare_goal cid turn goal rows = Inr out"
  shows "records_step (declared_step cid) rows out"
proof (cases "goal_id_of goal = []")
  case False
  define g where "g = goal_id_of goal"
  define start where "start = (case row_of g rows of
       None \<Rightarrow> (length rows, rows @ [fresh_goal_record g turn])
     | Some i \<Rightarrow> (i, if closed_elsewhere cid (rows ! i) then rows[i := fresh_goal_record g turn] else rows))"
  obtain i mid where start': "start = (i, mid)" by fastforce
  obtain r r' where upd: "goal_update cid turn goal (with_revision (mid ! i)) = Inr r"
    and act: "activate turn r = Inr r'" and out: "out = mid[i := r']"
    using assms False start' unfolding declare_goal_def g_def [symmetric] start_def [symmetric] Let_def
    by (auto simp: err_simps)
  have same: "lifecycle_of (with_revision m) = lifecycle_of m" "goal_id_of (with_revision m) = goal_id_of m" for m
    by (auto simp: with_revision_def record_reads)
  have active: "py_upper ''ACTIVE'' = ''ACTIVE''"
    by (rule upper_lifecycles) (simp add: all_lifecycles_def active_lifecycles_def)
  have r': "goal_id_of r' = goal_id_of (mid ! i)" "source_of r' = cid"
    "lifecycle_of r' = lifecycle_of (mid ! i) \<or> lifecycle_of r' = ''ACTIVE'' \<and> \<not> closed_goal (mid ! i)"
    using goal_update_reads [OF upd] activate_effect [OF act] same by auto
  show ?thesis
  proof (cases "row_of g rows")
    case None
    then have "i = length rows" "mid = rows @ [fresh_goal_record g turn]"
      using start' by (auto simp: start_def)
    then show ?thesis by (auto simp: records_step_def out nth_append)
  next
    case (Some j)
    then have i: "i = j" "i < length rows" "goal_id_of (rows ! i) = g"
      using start' row_of_Some [OF Some] by (auto simp: start_def)
    have "declared_step cid (rows ! i) r' \<and> mid[i := r'] = rows[i := r']"
    proof (cases "closed_elsewhere cid (rows ! i)")
      case True
      then have mid: "mid = rows[i := fresh_goal_record g turn]" using start' Some i(1) by (auto simp: start_def)
      have "source_of (rows ! i) \<noteq> cid" using True by (simp add: closed_elsewhere_def source_of_def)
      then show ?thesis
        using r' i active by (auto simp: mid declared_step_def fresh_goal_record_def record_reads py_or_def)
    next
      case False
      then have mid: "mid = rows" using start' Some i(1) by (auto simp: start_def)
      show ?thesis using r' by (auto simp: mid declared_step_def)
    qed
    then show ?thesis unfolding out by (auto intro: records_step_update)
  qed
qed (use assms in \<open>auto simp: declare_goal_def intro: records_step_refl\<close>)

lemma apply_goals_step:
  assumes "apply_goals turn contract rows = Inr out"
  shows "records_step (declared_step (text_of (dget contract ''semantic_contract_id''))) rows out"
proof -
  obtain goals where
    "thread (declare_goal (text_of (dget contract ''semantic_contract_id'')) turn) (only_dicts goals) rows = Inr out"
    using assms by (auto simp: apply_goals_def err_simps)
  then show ?thesis
    by (rule thread_relation)
      (auto intro: records_step_refl records_step_trans [OF declared_step_trans] declare_goal_step)
qed

text \<open>The records with their revision made explicit are the ones a contract starts from.\<close>

lemma start_step: "records_step record_step rows (map with_revision rows)"
  by (simp add: records_step_def with_revision_step)

lemma apply_contract_phases:
  assumes "apply_semantic_contract_to_goal_records sha records contract turn = Inr out"
  obtains mid where "records_step record_step (only_dicts records) mid" "length mid = length (only_dicts records)"
    "records_step (declared_step (text_of (dget contract ''semantic_contract_id''))) mid out"
proof -
  obtain mid where m: "apply_changes turn contract (map with_revision (only_dicts records)) = Inr mid"
    and out: "apply_goals turn contract mid = Inr out"
    using assms by (auto simp: apply_semantic_contract_to_goal_records_def err_simps)
  show thesis
    using apply_changes_step [OF m] start_step apply_goals_step [OF out]
      records_step_trans [OF record_step_trans start_step]
    by (intro that) auto
qed

end
