(* ===== verification/Goal_Accept.thy ===== *)
theory Goal_Accept
  imports Goal_Records
begin

text \<open>
  The two sides of a goal change fit together: what \<open>validate_goal_changes\<close> lets pass without an
  error, the later application to the same records performs, unless the lifecycle table refuses
  the move, which the validation does not consult.
\<close>

section \<open>A bounded text is not blank\<close>

lemma py_rstrip_nonempty:
  "find (\<lambda>w. prefix w s) py_whitespace = None \<Longrightarrow> s \<noteq> [] \<Longrightarrow> py_rstrip s \<noteq> []"
proof (induction s rule: py_rstrip.induct)
  case (1 s)
  show ?case
  proof (cases "find (\<lambda>w. suffix w s) py_whitespace")
    case None
    then show ?thesis using 1(3) by (simp add: py_rstrip_fix)
  next
    case (Some w)
    let ?t = "take (length s - length w) s"
    have w: "suffix w s" "w \<in> set py_whitespace" using Some by (auto simp: find_Some_iff)
    have "w \<noteq> s" using 1(2) w(2) by (auto simp: find_None_iff)
    then have "?t \<noteq> []" using w(1) by (auto simp: suffix_def)
    moreover have "find (\<lambda>w. prefix w ?t) py_whitespace = None"
      using 1(2) by (auto simp: find_None_iff intro: prefix_order.trans [OF _ take_is_prefix])
    ultimately have "py_rstrip ?t \<noteq> []" using 1(1) [OF Some] by simp
    then show ?thesis using Some by (subst py_rstrip.simps) simp
  qed
qed

lemma limited_not_blank: "limited n v \<noteq> [] \<Longrightarrow> py_strip (limited n v) \<noteq> []"
proof -
  let ?s = "py_strip (text_of v)"
  assume ne: "limited n v \<noteq> []"
  have p: "prefix (limited n v) ?s" by (simp add: limited_def stripped_def clip_prefix)
  have "find (\<lambda>w. prefix w ?s) py_whitespace = None"
    using py_lstrip_stops [of "text_of v"] py_rstrip_prefix [of "py_lstrip (text_of v)"]
    by (auto simp: find_None_iff py_strip_def intro: prefix_order.trans)
  then have start: "find (\<lambda>w. prefix w (limited n v)) py_whitespace = None"
    using p by (auto simp: find_None_iff intro: prefix_order.trans)
  then show ?thesis using ne py_rstrip_nonempty by (simp add: py_strip_def py_lstrip_fix)
qed

section \<open>Stored records\<close>

text \<open>What the module itself stores: a settled id and, once it has one, a lifecycle of the table.\<close>

definition recorded :: "pydict \<Rightarrow> bool" where
  "recorded r = (\<exists>g. dget r ''goal_id'' = PStr g \<and> settled 200 g \<and> g \<noteq> []
     \<and> (dget r ''lifecycle'' = PNone \<or> (\<exists>l \<in> set all_lifecycles. dget r ''lifecycle'' = PStr l)))"

lemma all_lifecycles_settled: "l \<in> set all_lifecycles \<Longrightarrow> settled 40 l \<and> l \<noteq> []"
proof -
  have "list_all (\<lambda>l. settled 40 l \<and> l \<noteq> []) all_lifecycles"
    by (simp add: all_lifecycles_def active_lifecycles_def terminal_lifecycles_def settled_def py_len_def
        printable_def)
  then show "l \<in> set all_lifecycles \<Longrightarrow> settled 40 l \<and> l \<noteq> []" by (simp add: list_all_iff)
qed

lemma open_listed: "''OPEN'' \<in> set all_lifecycles"
  by (simp add: all_lifecycles_def active_lifecycles_def)

lemma recorded_reads:
  assumes "recorded r"
  shows "limited 200 (dget r ''goal_id'') = goal_id_of r" "goal_id_of r \<noteq> []"
    "listed_lifecycle r = lifecycle_of r" "lifecycle_of r \<in> set all_lifecycles"
proof -
  obtain g where g: "dget r ''goal_id'' = PStr g" "settled 200 g" "g \<noteq> []"
    and l: "dget r ''lifecycle'' = PNone \<or> (\<exists>l \<in> set all_lifecycles. dget r ''lifecycle'' = PStr l)"
    using assms by (auto simp: recorded_def)
  show "limited 200 (dget r ''goal_id'') = goal_id_of r" "goal_id_of r \<noteq> []"
    using g by (simp_all add: goal_id_of_def)
  from l obtain k where k: "k \<in> set all_lifecycles" "py_or (dget r ''lifecycle'') (PStr ''OPEN'') = PStr k"
  proof
    assume "dget r ''lifecycle'' = PNone"
    then show thesis using open_listed by (intro that) (auto simp: py_or_def)
  next
    assume "\<exists>l \<in> set all_lifecycles. dget r ''lifecycle'' = PStr l"
    then show thesis using all_lifecycles_settled by (auto simp: py_or_def intro: that)
  qed
  then show "listed_lifecycle r = lifecycle_of r" "lifecycle_of r \<in> set all_lifecycles"
    using all_lifecycles_settled [of k] upper_lifecycles [of k]
    by (simp_all add: listed_lifecycle_def lifecycle_of_def)
qed

lemma with_revision_reads [simp]:
  "goal_id_of (with_revision r) = goal_id_of r" "lifecycle_of (with_revision r) = lifecycle_of r"
  "record_revision (PDict (with_revision r)) = record_revision (PDict r)"
proof -
  show "goal_id_of (with_revision r) = goal_id_of r" "lifecycle_of (with_revision r) = lifecycle_of r"
    by (auto simp: with_revision_def goal_id_of_def lifecycle_of_def)
  show "record_revision (PDict (with_revision r)) = record_revision (PDict r)"
    using record_revision_pos [of r] by (auto simp: with_revision_def record_revision_def)
qed

lemma listed_by_id:
  assumes "r \<in> set rows" and "recorded r"
  shows "(goal_id_of r, r) \<in> set (records_by_id rows)"
  using assms(1) recorded_reads(1,2) [OF assms(2)] by (auto simp: records_by_id_def)

lemma find_record:
  assumes "\<And>r. r \<in> set rows \<Longrightarrow> recorded r" and "map_of (records_by_id rows) g = Some r" and "g \<noteq> []"
  shows "\<exists>i. row_of g rows = Some i \<and> rows ! i = r \<and> r \<in> set rows"
proof -
  have "\<exists>i. last_row goal_id_of g rows = Some i \<and> rows ! i = r \<and> r \<in> set rows"
    using assms(1,2)
  proof (induction rows)
    case (Cons x rows)
    have x: "limited 200 (dget x ''goal_id'') = goal_id_of x" "goal_id_of x \<noteq> []"
      using recorded_reads Cons.prems(1) by simp_all
    show ?case
    proof (cases "map_of (records_by_id rows) g")
      case None
      then have none: "last_row goal_id_of g rows = None"
      proof (rule contrapos_pp)
        assume "last_row goal_id_of g rows \<noteq> None"
        then obtain i where "i < length rows" "goal_id_of (rows ! i) = g" using last_row_Some by blast
        then have "g \<in> fst ` set (records_by_id rows)"
          using listed_by_id [of "rows ! i" rows] Cons.prems(1) by (metis fst_conv imageI list.set_intros(2) nth_mem)
        then show "map_of (records_by_id rows) g \<noteq> None" by (simp add: map_of_eq_None_iff)
      qed
      have "g = goal_id_of x \<and> r = x"
        using Cons.prems(2) None x by (auto simp: records_by_id_def map_add_def split: if_splits)
      then show ?thesis using none by simp
    next
      case (Some r')
      then have "r' = r" using Cons.prems(2) by (auto simp: records_by_id_def map_add_def split: if_splits)
      then show ?thesis using Cons.IH Cons.prems(1) Some by fastforce
    qed
  qed (simp add: records_by_id_def)
  then show ?thesis using assms(3) by (simp add: row_of_def)
qed

section \<open>A change without errors\<close>

text \<open>The change a check answers for the record \<open>r\<close> under the goal id \<open>g\<close>, without adding an error.\<close>

definition passed :: "string \<Rightarrow> string list \<Rightarrow> int \<Rightarrow> pydict list \<Rightarrow> pydict \<Rightarrow> bool" where
  "passed user_text proposed turn rows change =
    (\<exists>operation g raw r. operation \<in> set goal_change_operations \<and> g \<noteq> []
       \<and> map_of (records_by_id rows) g = Some r
       \<and> check_known_change user_text proposed turn operation g raw r = (change, []))"

definition change_goal :: "pydict \<Rightarrow> string" where
  "change_goal change = text_of (dget change ''goal_id'')"

lemma check_known_goal:
  "check_known_change user_text proposed turn operation g raw r = (change, errors) \<Longrightarrow> change_goal change = g"
  by (auto simp: check_known_change_def change_goal_def Let_def split: prod.splits if_splits)

definition clean_check :: "string \<Rightarrow> string list \<Rightarrow> int \<Rightarrow> pydict list \<Rightarrow> change_check \<Rightarrow> bool" where
  "clean_check user_text proposed turn rows c =
    (cc_errors c = [] \<longrightarrow> distinct (cc_seen c) \<and> map change_goal (cc_changes c) = cc_seen c
       \<and> (\<forall>change \<in> set (cc_changes c). passed user_text proposed turn rows change))"

lemma check_goal_change_clean:
  assumes "clean_check user_text proposed turn rows c"
  shows "clean_check user_text proposed turn rows (check_goal_change user_text rows proposed turn i v c)"
proof (cases v)
  case (PDict raw)
  define operation where "operation = py_upper (limited 80 (dget raw ''operation''))"
  define g where "g = limited 200 (dget raw ''goal_id'')"
  note unfolded = check_goal_change_def PDict operation_def [symmetric] g_def [symmetric] Let_def
  show ?thesis
  proof (cases "operation \<in> set goal_change_operations \<and> g \<noteq> [] \<and> g \<notin> set (cc_seen c)")
    case True
    show ?thesis
    proof (cases "map_of (records_by_id rows) g")
      case None
      then show ?thesis using True by (simp add: unfolded clean_check_def check_error_def)
    next
      case (Some r)
      obtain change errors where
        ch: "check_known_change user_text proposed turn operation g raw r = (change, errors)" by fastforce
      have "passed user_text proposed turn rows change" if "errors = []"
        unfolding passed_def using True Some ch that by blast
      then show ?thesis
        using True Some ch assms check_known_goal [OF ch] by (auto simp: unfolded clean_check_def)
    qed
  qed (auto simp: unfolded clean_check_def check_error_def)
qed (simp_all add: check_goal_change_def clean_check_def check_error_def)

lemma check_goal_changes_clean:
  "clean_check user_text proposed turn rows c
    \<Longrightarrow> clean_check user_text proposed turn rows (check_goal_changes user_text rows proposed turn i vs c)"
  by (induction vs arbitrary: i c) (auto intro: check_goal_change_clean)

lemma validated_changes_clean:
  assumes "validate_goal_changes raws user_text records ids turn = (changes, [])"
  shows "distinct (map change_goal changes)"
    "\<forall>change \<in> set changes. \<exists>proposed. passed user_text proposed turn (only_dicts records) change"
proof -
  let ?proposed = "filter (\<lambda>s. s \<noteq> []) (map (limited 200) ids)"
  let ?c = "check_goal_changes user_text (only_dicts records) ?proposed turn 1 raws
    \<lparr>cc_seen = [], cc_changes = [], cc_errors = []\<rparr>"
  have "clean_check user_text ?proposed turn (only_dicts records) ?c"
    by (rule check_goal_changes_clean) (simp add: clean_check_def)
  moreover have "cc_changes ?c = changes" "cc_errors ?c = []"
    using assms by (auto simp: validate_goal_changes_def Let_def)
  ultimately show "distinct (map change_goal changes)"
    "\<forall>change \<in> set changes. \<exists>proposed. passed user_text proposed turn (only_dicts records) change"
    by (auto simp: clean_check_def)
qed

section \<open>Its application\<close>

text \<open>A step that fails only with a given kind of error; a refusal of the lifecycle table.\<close>

definition fails_only :: "'a + 'b \<Rightarrow> ('a \<Rightarrow> bool) \<Rightarrow> bool" where
  "fails_only r P = (case r of Inl e \<Rightarrow> P e | Inr x \<Rightarrow> True)"

definition move_error :: "string \<Rightarrow> bool" where
  "move_error e = prefix ''invalid_goal_transition:'' e"

lemma settable_listed: "l \<in> set settable_lifecycles \<Longrightarrow> l \<in> set all_lifecycles"
  by (auto simp: settable_lifecycles_def all_lifecycles_def active_lifecycles_def terminal_lifecycles_def)

lemma transition_refusal:
  "transition_goal r l turn operation ev = Inl e \<Longrightarrow> py_upper l \<in> set all_lifecycles \<Longrightarrow> move_error e"
  by (auto simp: transition_goal_def Let_def move_error_def split: if_splits)

lemma int_or_raise_PInt [simp]: "n \<noteq> 0 \<Longrightarrow> int_or_raise (PInt n) d = Inr n"
  by (simp add: int_or_raise_def)

lemma change_operation_texts: "op \<in> set goal_change_operations \<Longrightarrow> py_upper op = op"
proof -
  have "list_all (\<lambda>op. py_upper op = op) goal_change_operations" by code_simp
  then show "op \<in> set goal_change_operations \<Longrightarrow> py_upper op = op" by (simp add: list_all_iff)
qed

lemma base_fields:
  assumes "check_known_change user_text proposed turn operation g raw r = (change, [])"
  shows "dget change ''validated_against_revision'' = PInt (record_revision (PDict r))"
    "dget change ''expected_revision'' = PInt (record_revision (PDict r))"
    "dget change ''next_revision'' = PInt (record_revision (PDict r) + 1)"
    "stripped (dget change ''evidence_span'') \<noteq> []"
    "dget change ''operation'' = PStr operation"
proof -
  obtain ev ev_errors where ev: "literal_evidence raw user_text
      (''goal_change_evidence_not_in_current_turn:'' @ g) = (ev, ev_errors)" by fastforce
  have e: "ev_errors = []" "revision_errors g (revision_value (dget raw ''expected_revision'') (-1))
      (record_revision (PDict r)) = []"
    using assms ev by (auto simp: check_known_change_def Let_def split: if_splits)
  have "ev = limited 500 (dget raw ''evidence_span'')" "ev \<noteq> []"
    using ev e(1) by (auto simp: literal_evidence_def Let_def split: if_splits)
  then have "py_strip ev \<noteq> []" using limited_not_blank by simp
  then show "stripped (dget change ''evidence_span'') \<noteq> []"
    using assms ev by (auto simp: check_known_change_def Let_def split: if_splits)
  show "dget change ''expected_revision'' = PInt (record_revision (PDict r))"
    using assms ev e(2) by (auto simp: check_known_change_def revision_errors_def Let_def split: if_splits)
  show "dget change ''validated_against_revision'' = PInt (record_revision (PDict r))"
    "dget change ''next_revision'' = PInt (record_revision (PDict r) + 1)"
    "dget change ''operation'' = PStr operation"
    using assms ev by (auto simp: check_known_change_def Let_def split: if_splits)
qed

lemma passed_revision_check:
  assumes "check_known_change user_text proposed turn operation g raw r = (change, [])"
  shows "assert_validated_change (with_revision r) change = Inr ()"
proof -
  have pos: "record_revision (PDict r) \<noteq> 0" "record_revision (PDict r) + 1 \<noteq> 0"
    using record_revision_pos [of r] by linarith+
  show ?thesis
    using base_fields [OF assms] pos by (simp add: assert_validated_change_def Let_def)
qed

lemma passed_change_record:
  assumes ch: "check_known_change user_text proposed turn operation g raw r = (change, [])"
    and op: "operation \<in> set goal_change_operations" and r: "recorded r"
  shows "fails_only (changed_record turn' change (with_revision r)) move_error"
proof -
  have operation: "py_upper (text_of (dget change ''operation'')) = operation"
    using base_fields(5) [OF ch] change_operation_texts [OF op] by simp
  consider "operation = ''SET_GOAL_LIFECYCLE''" | "operation = ''PATCH_GOAL''" | "operation = ''SUPERSEDE_GOAL''"
    using op by (auto simp: goal_change_operations_def)
  then show ?thesis
  proof cases
    case 1
    define before after where "before = py_upper (limited 40 (dget raw ''from''))"
      and "after = py_upper (limited 40 (dget raw ''to''))"
    have "lifecycle_errors g before after (listed_lifecycle r) = []"
      using ch 1 unfolding before_def after_def by (auto simp: check_known_change_def Let_def split: prod.splits)
    then have ok: "before = lifecycle_of r" "after \<in> set all_lifecycles"
      using recorded_reads(3) [OF r] settable_listed by (auto simp: lifecycle_errors_def split: if_splits)
    have reads: "dget change ''from'' = PStr before" "dget change ''to'' = PStr after"
      using ch 1 unfolding before_def after_def by (auto simp: check_known_change_def Let_def split: prod.splits)
    have up: "py_upper before = before" "py_upper after = after"
      by (simp_all add: before_def after_def)
    show ?thesis
      using transition_refusal [of "with_revision r" after turn' operation
          "Some (stripped (dget change ''evidence_span''))"] ok up
      by (auto simp: changed_record_def Let_def operation 1 reads fails_only_def split: sum.splits)
  next
    case 2
    then show ?thesis by (simp add: changed_record_def Let_def operation fails_only_def)
  next
    case 3
    have "py_upper ''SUPERSEDED'' \<in> set all_lifecycles" by code_simp
    then show ?thesis
      using transition_refusal [of "with_revision r" "''SUPERSEDED''" turn' operation
          "Some (stripped (dget change ''evidence_span''))"]
      by (auto simp: changed_record_def Let_def operation 3 fails_only_def err_simps split: sum.splits)
  qed
qed

text \<open>Changes of distinct goals do not disturb each other.\<close>

lemma last_row_update:
  "goal_id_of r = goal_id_of (rows ! i) \<Longrightarrow> i < length rows \<Longrightarrow>
    last_row goal_id_of g (rows[i := r]) = last_row goal_id_of g rows"
proof (induction rows arbitrary: i)
  case (Cons x rows)
  then show ?case by (cases i) (auto split: option.splits)
qed simp

lemma last_row_map: "last_row goal_id_of g (map with_revision rows) = last_row goal_id_of g rows"
  by (induction rows) (auto split: option.splits)

definition ready :: "int \<Rightarrow> pydict list \<Rightarrow> pydict \<Rightarrow> bool" where
  "ready turn rows change = (\<exists>i. row_of (change_goal change) rows = Some i
     \<and> assert_validated_change (rows ! i) change = Inr ()
     \<and> fails_only (changed_record turn change (rows ! i)) move_error)"

lemma ready_thread:
  assumes "\<And>change. change \<in> set changes \<Longrightarrow> ready turn rows change" and "distinct (map change_goal changes)"
  shows "fails_only (thread (apply_goal_change turn) changes rows) move_error"
  using assms
proof (induction changes arbitrary: rows)
  case (Cons change changes)
  obtain i where i: "row_of (change_goal change) rows = Some i"
      "assert_validated_change (rows ! i) change = Inr ()"
      "fails_only (changed_record turn change (rows ! i)) move_error"
    using Cons.prems(1) [of change] by (auto simp: ready_def)
  show ?case
  proof (cases "changed_record turn change (rows ! i)")
    case (Inl e)
    then have "apply_goal_change turn change rows = Inl e"
      using i by (simp add: apply_goal_change_def change_goal_def)
    then show ?thesis using i(3) Inl by (simp add: fails_only_def)
  next
    case (Inr r)
    then have step: "apply_goal_change turn change rows = Inr (rows[i := r])"
      using i by (simp add: apply_goal_change_def change_goal_def)
    have r: "goal_id_of r = goal_id_of (rows ! i)" "i < length rows" "goal_id_of (rows ! i) = change_goal change"
      using changed_record_step [OF Inr] row_of_Some [OF i(1)] by (auto simp: record_step_def)
    have "ready turn (rows[i := r]) other" if "other \<in> set changes" for other
    proof -
      have ne: "change_goal other \<noteq> change_goal change" using Cons.prems(2) that by (auto simp: image_iff)
      have "ready turn rows other" using Cons.prems(1) that by simp
      then obtain j where j: "row_of (change_goal other) rows = Some j" "assert_validated_change (rows ! j) other = Inr ()"
          "fails_only (changed_record turn other (rows ! j)) move_error"
        unfolding ready_def by (elim exE conjE)
      then have "j \<noteq> i" using row_of_Some [OF j(1)] r(3) ne by auto
      then show ?thesis
        using j last_row_update [OF r(1,2)] by (auto simp: ready_def row_of_def)
    qed
    then show ?thesis using Cons.IH [of "rows[i := r]"] Cons.prems(2) step by simp
  qed
qed (simp add: fails_only_def)

lemma passed_ready:
  assumes "passed user_text proposed turn rows change" and "\<And>r. r \<in> set rows \<Longrightarrow> recorded r"
  shows "ready turn' (map with_revision rows) change"
proof -
  obtain operation g raw r where p: "operation \<in> set goal_change_operations" "g \<noteq> []"
      "map_of (records_by_id rows) g = Some r"
      "check_known_change user_text proposed turn operation g raw r = (change, [])"
    using assms(1) by (auto simp: passed_def)
  obtain i where i: "row_of g rows = Some i" "rows ! i = r" "r \<in> set rows"
    using find_record [OF assms(2) p(3,2)] by blast
  have "i < length rows" using row_of_Some [OF i(1)] by simp
  then have "map with_revision rows ! i = with_revision r" using i(2) by simp
  moreover have "row_of (change_goal change) (map with_revision rows) = Some i"
    using i(1) check_known_goal [OF p(4)] p(2) by (simp add: row_of_def last_row_map)
  ultimately show ?thesis
    using passed_revision_check [OF p(4)] passed_change_record [OF p(4,1)] assms(2) [OF i(3)]
    by (auto simp: ready_def)
qed

end
