(* ===== verification/Goal_Properties.thy ===== *)
theory Goal_Properties
  imports Goal_Resolved Goal_Accept
begin

text \<open>
  The properties of the goals of a conversation: conditions, dependencies, frozen contracts,
  goal records, changes and references.
\<close>

section \<open>Samples\<close>

definition flat_sha :: "string \<Rightarrow> string" where
  "flat_sha x = replicate 64 CHR ''a''"

lemma flat_hex: "hex_digests flat_sha"
  by (simp add: hex_digests_def flat_sha_def)

definition sample_condition :: pydict where
  "sample_condition = expression_row ''gt''
     [(''left'', PDict [(''source'', PStr ''goal_output''), (''goal_id'', PStr ''g1''), (''path'', PStr ''total'')]),
      (''right'', PDict [(''source'', PStr ''literal''), (''value'', PInt 100)])]"

lemma settled_g1: "settled 200 ''g1''" "settled 200 ''g2''"
  by (simp_all add: settled_def py_len_def printable_def)

section \<open>Conditions\<close>

text \<open>C22. Normalising a condition answers exactly the canonical expressions over the goals of the
  turn, with at most four nested connectives, and leaves a canonical expression as it is.\<close>

theorem condition_normal_form:
  assumes "\<forall>k \<in> set known. settled 200 k"
  shows "((\<exists>raw. normalize_condition known 0 raw = Inr e) \<longleftrightarrow> canonical known 4 e)
    \<and> (canonical known 4 e \<longrightarrow> normalize_condition known 0 (PDict e) = Inr e)"
proof -
  have kept: "normalize_condition known 0 (PDict e) = Inr e" if "canonical known 4 e"
    using that assms by (intro canonical_normal) (auto simp: max_condition_depth_def)
  have "canonical known 4 e" if "normalize_condition known 0 raw = Inr e" for raw
    using normalize_canonical [OF that] by (simp add: max_condition_depth_def)
  then show ?thesis using kept by blast
qed

lemma sample_condition_canonical: "canonical [''g1''] 4 sample_condition"
proof -
  have "safe_path (PStr ''total'') = Inr ''total''"
    by (simp add: safe_path_def limited_def py_len_def printable_def safe_path_text_def continues_def path_char_def
        ascii_word_def Let_def py_in_def sublist_Cons_right)
  then show ?thesis
    unfolding sample_condition_def by (intro canonical.relation) (simp_all add: canonical_operand_def)
qed

theorem condition_normal_form_witness:
  "normalize_condition [''g1''] 0 (PDict sample_condition) = Inr sample_condition"
  using condition_normal_form [of "[''g1'']" sample_condition] sample_condition_canonical settled_g1 by simp

section \<open>Dependencies\<close>

text \<open>C13. The search for a dependency cycle answers no cycle exactly when the dependencies are
  acyclic, and what it answers otherwise is a cycle of the dependencies.\<close>

theorem dependency_cycle_search_exact:
  assumes "dependency_graph goals = Inr G"
  shows "\<exists>c. find_goal_dependency_cycle goals = Inr c \<and> (c = [] \<longleftrightarrow> acyclic (depends_on G))
    \<and> (c \<noteq> [] \<longrightarrow> 2 \<le> length c \<and> hd c = last c \<and> walk G c)"
  using find_cycle_correct [of G] assms by (auto simp: find_goal_dependency_cycle_def is_cycle_def)

definition sample_goal_pair :: "pydict list" where
  "sample_goal_pair =
    [[(''goal_id'', PStr ''g1''), (''depends_on'', PList [PStr ''g2''])],
     [(''goal_id'', PStr ''g2''), (''depends_on'', PList [PStr ''g1''])]]"

lemma limited_g1 [simp]: "limited 200 (PStr ''g1'') = ''g1''" "limited 200 (PStr ''g2'') = ''g2''"
  using settled_g1 by simp_all

theorem dependency_cycle_search_witness:
  "\<exists>c. find_goal_dependency_cycle sample_goal_pair = Inr c
    \<and> (c = [] \<longleftrightarrow> acyclic (depends_on [(''g2'', [''g1'']), (''g1'', [''g2''])]))"
proof -
  have "dependency_graph sample_goal_pair = Inr [(''g2'', [''g1'']), (''g1'', [''g2''])]"
    by (simp add: sample_goal_pair_def dependency_graph_def dependency_entry_def goal_key_def goal_dependency_ids_def)
  from dependency_cycle_search_exact [OF this] show ?thesis by blast
qed

section \<open>Frozen contracts\<close>

text \<open>C4. A contract that could be frozen passes the integrity check of every later reader.\<close>

theorem frozen_contract_integral:
  assumes "freeze_semantic_contract sha i = Inr c" and "hex_digests sha"
    and "\<forall>goal \<in> set (fz_goals i). settled 200 (text_field goal ''goal_id'' 200)"
    and "length (str_of_int (fz_turn i)) \<le> 200"
  shows "assert_semantic_contract_integrity sha (PDict c) = Inr ()"
  using frozen_integral [OF assms(1,2) _ assms(4)] assms(3)
  by (auto simp: assert_semantic_contract_integrity_def require_def)

section \<open>A frozen sample\<close>

definition sample_goal :: pydict where
  "sample_goal = [(''goal_id'', PStr ''g1''), (''description'', PStr ''check''), (''evidence_span'', PStr ''check''),
     (''requested_effect'', PDict [(''operation'', PStr ''read'')])]"

definition sample_input :: freeze_input where
  "sample_input = \<lparr>fz_turn = 7, fz_user_text = ''check it'', fz_summary = ''check'', fz_goals = [sample_goal],
     fz_alignment = PNone, fz_granularity = PNone, fz_changes = [], fz_blockers = [], fz_focus = PNone\<rparr>"

definition sample_row :: pydict where
  "sample_row = [(''goal_id'', PStr ''g1''), (''description'', PStr ''check''), (''evidence_span'', PStr ''check''),
     (''requested_effect'', PDict [(''domain'', PStr ''open''), (''operation'', PStr ''read''),
        (''object_type'', PStr ''unspecified''), (''raw_description'', PStr ''check'')]),
     (''expected_result_cardinality'', PStr ''none''), (''required'', PBool True), (''depends_on'', PList [])]"

definition sample_contract :: pydict where
  "sample_contract = contract_payload sample_input False [sample_row]
     @ [(''semantic_digest'', PStr (replicate 64 CHR ''a'')),
        (''semantic_contract_id'', PStr (contract_id 7 (replicate 64 CHR ''a'')))]"

lemma short_texts [simp]:
  "py_strip ''check'' = ''check''" "py_strip ''read'' = ''read''" "py_strip ''none'' = ''none''"
  "py_len ''check'' = 5" "py_len ''read'' = 4" "py_len ''none'' = 4"
  "py_strip ''g1'' = ''g1''" "py_len ''g1'' = 2" "py_strip ''g2'' = ''g2''" "py_len ''g2'' = 2"
  by (simp_all add: printable_def py_len_def)

lemma sample_base: "normalized_goal_base flat_sha ''check it'' sample_goal = Inr sample_row"
proof -
  have effect: "normalize_requested_effect (PDict [(''operation'', PStr ''read'')]) ''check'' = Inr
      [(''domain'', PStr ''open''), (''operation'', PStr ''read''), (''object_type'', PStr ''unspecified''),
       (''raw_description'', PStr ''check'')]"
    by (simp add: normalize_requested_effect_def Let_def text_field_def limited_def py_or_def)
  have fields: "text_field sample_goal ''goal_id'' 200 = ''g1''" "text_field sample_goal ''description'' 2000 = ''check''"
      "text_field sample_goal ''evidence_span'' 2000 = ''check''" "text_field sample_goal ''continuation_of'' 200 = []"
      "text_field sample_goal ''goal_type'' 80 = []"
    by (simp_all add: text_field_def sample_goal_def) (simp_all add: limited_def)
  have deps: "normalized_dependencies flat_sha ''check it'' ''g1'' sample_goal = Inr [(''depends_on'', PList [])]"
    by (simp add: normalized_dependencies_def sample_goal_def)
  have other: "filter (\<lambda>k. \<not> blank_value (dget sample_goal k)) kept_keys = []"
      "dget sample_goal ''requested_effect'' = PDict [(''operation'', PStr ''read'')]"
      "limited 40 (py_or (dget sample_goal ''expected_result_cardinality'') (PStr ''none'')) = ''none''"
      "map_of sample_goal ''required'' = None"
    by (simp_all add: sample_goal_def kept_keys_def blank_value_def py_or_def limited_def)
  show ?thesis
    by (simp add: normalized_goal_base_def fields effect deps other Let_def optional_field_def sample_row_def)
qed

lemma sample_frozen: "freeze_semantic_contract flat_sha sample_input = Inr sample_contract"
proof -
  have keys: "dget sample_row ''goal_id'' = PStr ''g1''" "goal_key sample_row = ''g1''"
      "goal_dependency_ids sample_row = Inr []" "\<not> has_field ''condition'' sample_row"
      "\<not> has_field ''input_bindings'' sample_goal"
    by (simp_all add: sample_row_def sample_goal_def goal_key_def goal_dependency_ids_def)
  have refs: "normalize_reference_fields flat_sha ''check it'' sample_row = Inr sample_row"
    by (simp add: normalize_reference_fields_def sample_row_def split: prod.splits)
  have row: "normalize_goal flat_sha ''check it'' False [''g1''] outputs sample_row = Inr sample_row" for outputs
    by (simp add: normalize_goal_def check_dependencies_def normalize_goal_condition_def keys refs)
  have outputs: "output_ids sample_row = Inr []"
    by (simp add: output_ids_def sample_row_def)
  have "dependency_graph [sample_row] = Inr [(''g1'', [])]"
    by (simp add: dependency_graph_def dependency_entry_def keys)
  then have acyclic: "find_goal_dependency_cycle [sample_row] = Inr []"
    by (simp add: find_goal_dependency_cycle_def find_cycle_def visit.simps successors_def)
  have "normalize_goals flat_sha ''check it'' [sample_goal] = Inr (False, [sample_row])"
    by (simp add: normalize_goals_def keys sample_base outputs row acyclic)
  then show ?thesis
    by (simp add: freeze_semantic_contract_def sample_contract_def sample_input_def compute_semantic_digest_def
        flat_sha_def Let_def)
qed

lemma sample_ranges:
  "\<forall>goal \<in> set (fz_goals sample_input). settled 200 (text_field goal ''goal_id'' 200)"
  "length (str_of_int (fz_turn sample_input)) \<le> 200"
  using settled_g1 by (simp_all add: sample_input_def text_field_def sample_goal_def str_of_int_def digits_of.simps)

theorem frozen_contract_integral_witness:
  "assert_semantic_contract_integrity flat_sha (PDict sample_contract) = Inr ()"
  by (rule frozen_contract_integral [OF sample_frozen flat_hex sample_ranges])

lemma sample_accepted: "assert_semantic_contract_integrity flat_sha (PDict sample_contract) = Inr ()"
  using frozen_integral [OF sample_frozen flat_hex _ sample_ranges(2)] sample_ranges(1)
  by (auto simp: assert_semantic_contract_integrity_def require_def)

text \<open>C14. A contract that passes the integrity check names its goals apart, each of its dependencies
  is a goal of the contract, and the dependencies are acyclic.\<close>

theorem accepted_contract_well_founded:
  assumes "assert_semantic_contract_integrity sha (PDict c) = Inr ()"
    and "list_of (dget c ''goals'') = Inr xs"
  shows "distinct (map goal_key (only_dicts xs)) \<and> [] \<notin> set (map goal_key (only_dicts xs))
    \<and> (\<forall>row \<in> set (only_dicts xs). \<exists>ds. goal_dependency_ids row = Inr ds
         \<and> set ds \<subseteq> set (map goal_key (only_dicts xs)))
    \<and> (\<exists>G. dependency_graph (only_dicts xs) = Inr G \<and> acyclic (depends_on G))"
  by (rule accepted_goals [OF assms])

lemma sample_goals: "list_of (dget sample_contract ''goals'') = Inr [PDict sample_row]"
  by (simp add: sample_contract_def contract_payload_def)

theorem accepted_contract_well_founded_witness:
  "\<exists>G. dependency_graph [sample_row] = Inr G \<and> acyclic (depends_on G)"
  using accepted_contract_well_founded [OF sample_accepted sample_goals] by simp

section \<open>Goal records\<close>

text \<open>C5. Applying a contract never reopens a closed goal: a completed or cancelled record stays as it
  is or is superseded, and otherwise the contract declares a new goal under the id of a record that
  another contract closed.\<close>

theorem closed_goals_stay_closed:
  assumes "apply_semantic_contract_to_goal_records sha records contract turn = Inr out"
    and "i < length (only_dicts records)" and "r = only_dicts records ! i"
    and "closed_goal r"
  shows "i < length out \<and> goal_id_of (out ! i) = goal_id_of r
    \<and> (lifecycle_of (out ! i) \<in> {lifecycle_of r, ''SUPERSEDED''}
       \<or> lifecycle_of (out ! i) = ''ACTIVE''
         \<and> source_of r \<noteq> text_of (dget contract ''semantic_contract_id'')
         \<and> source_of (out ! i) = text_of (dget contract ''semantic_contract_id''))"
proof -
  obtain mid where mid: "records_step record_step (only_dicts records) mid" "length mid = length (only_dicts records)"
      "records_step (declared_step (text_of (dget contract ''semantic_contract_id''))) mid out"
    using apply_contract_phases [OF assms(1)] by blast
  have a: "record_step r (mid ! i)" using mid(1) assms(2,3) by (simp add: records_step_def)
  have b: "declared_step (text_of (dget contract ''semantic_contract_id'')) (mid ! i) (out ! i)" "i < length out"
    using mid(2,3) assms(2) by (auto simp: records_step_def)
  have "closed_goal (mid ! i)"
    using a assms(4) superseded_closed by (auto simp: record_step_def)
  then show ?thesis using a b assms(4) by (auto simp: record_step_def declared_step_def)
qed

definition closed_record :: pydict where
  "closed_record = [(''goal_id'', PStr ''g2''), (''lifecycle'', PStr ''COMPLETED''), (''revision'', PInt 3),
     (''source_semantic_contract_id'', PStr ''semantic:6:b'')]"

lemma sample_applied:
  "\<exists>out. apply_semantic_contract_to_goal_records flat_sha [PDict closed_record] sample_contract 7 = Inr out"
proof -
  have start: "with_revision closed_record = closed_record"
    by (simp add: with_revision_def closed_record_def)
  have changes: "apply_changes 7 sample_contract [closed_record] = Inr [closed_record]"
    by (simp add: apply_changes_def sample_contract_def contract_payload_def sample_input_def)
  have ids: "goal_id_of sample_row = ''g1''" "row_of ''g1'' [closed_record] = None"
      "list_of (dget sample_row ''depends_on'') = Inr []"
    by (simp_all add: goal_id_of_def sample_row_def row_of_def closed_record_def)
  have active: "activate 7 r = Inr r" if "dget r ''lifecycle'' = PStr ''ACTIVE''" for r
    using that by (simp add: activate_def)
  have fresh: "\<exists>r. goal_update cid 7 sample_row (with_revision (fresh_goal_record ''g1'' 7)) = Inr r" for cid
    by (simp add: goal_update_def ids(3))
  obtain r where r: "goal_update (text_of (dget sample_contract ''semantic_contract_id'')) 7 sample_row
      (with_revision (fresh_goal_record ''g1'' 7)) = Inr r"
    using fresh by blast
  have "dget r ''lifecycle'' = PStr ''ACTIVE''"
    using goal_update_reads(4) [OF r] by (simp add: with_revision_def fresh_goal_record_def)
  then have "\<exists>out. apply_goals 7 sample_contract [closed_record] = Inr out"
    using r by (simp add: apply_goals_def sample_goals declare_goal_def ids active nth_append)
  then show ?thesis
    using sample_accepted by (simp add: apply_semantic_contract_to_goal_records_def start changes)
qed

theorem closed_goals_stay_closed_witness:
  "\<exists>out. apply_semantic_contract_to_goal_records flat_sha [PDict closed_record] sample_contract 7 = Inr out
    \<and> goal_id_of (out ! 0) = ''g2''"
proof -
  obtain out where out: "apply_semantic_contract_to_goal_records flat_sha [PDict closed_record] sample_contract 7 = Inr out"
    using sample_applied by blast
  have "closed_goal closed_record"
    by (simp add: closed_record_def lifecycle_of_def terminal_lifecycles_def py_or_def py_upper_def upper_char_def)
  then show ?thesis
    using closed_goals_stay_closed [OF out, of 0 closed_record] out
    by (simp add: goal_id_of_def closed_record_def)
qed

section \<open>Goal changes\<close>


definition open_record :: pydict where
  "open_record = [(''goal_id'', PStr ''g1''), (''lifecycle'', PStr ''ACTIVE''), (''revision'', PInt 2)]"

definition pause_request :: pydict where
  "pause_request = [(''operation'', PStr ''SET_GOAL_LIFECYCLE''), (''goal_id'', PStr ''g1''),
     (''expected_revision'', PInt 2), (''evidence_span'', PStr ''check''), (''from'', PStr ''ACTIVE''),
     (''to'', PStr ''PAUSED'')]"

definition pause_change :: pydict where
  "pause_change = [(''operation'', PStr ''SET_GOAL_LIFECYCLE''), (''goal_id'', PStr ''g1''),
     (''expected_revision'', PInt 2), (''validated_against_revision'', PInt 2), (''next_revision'', PInt 3),
     (''evidence_span'', PStr ''check''), (''evidence_turn'', PInt 7), (''from'', PStr ''ACTIVE''),
     (''to'', PStr ''PAUSED'')]"

lemma record_texts [simp]:
  "py_strip ''SET_GOAL_LIFECYCLE'' = ''SET_GOAL_LIFECYCLE''" "py_len ''SET_GOAL_LIFECYCLE'' = 18"
  "py_strip ''ACTIVE'' = ''ACTIVE''" "py_len ''ACTIVE'' = 6" "py_strip ''PAUSED'' = ''PAUSED''" "py_len ''PAUSED'' = 6"
  "py_strip ''COMPLETED'' = ''COMPLETED''" "py_len ''COMPLETED'' = 9"
  by (simp_all add: printable_def py_len_def)

lemma record_uppers [simp]:
  "py_upper ''SET_GOAL_LIFECYCLE'' = ''SET_GOAL_LIFECYCLE''" "py_upper ''ACTIVE'' = ''ACTIVE''"
  "py_upper ''PAUSED'' = ''PAUSED''" "py_upper ''COMPLETED'' = ''COMPLETED''"
  by (simp_all add: py_upper_def upper_char_def)

lemma pause_validated:
  "validate_goal_changes [PDict pause_request] ''check it'' [PDict open_record] [] 7 = ([pause_change], [])"
proof -
  have by_id: "records_by_id [open_record] = [(''g1'', open_record)]"
    by (simp add: records_by_id_def open_record_def)
  have reads: "limited 80 (dget pause_request ''operation'') = ''SET_GOAL_LIFECYCLE''"
      "limited 200 (dget pause_request ''goal_id'') = ''g1''" "limited 40 (dget pause_request ''from'') = ''ACTIVE''"
      "limited 40 (dget pause_request ''to'') = ''PAUSED''" "limited 500 (dget pause_request ''evidence_span'') = ''check''"
      "revision_value (dget pause_request ''expected_revision'') (-1) = 2" "listed_lifecycle open_record = ''ACTIVE''"
      "record_revision (PDict open_record) = 2"
    by (simp_all add: pause_request_def limited_def listed_lifecycle_def open_record_def py_or_def record_revision_def)
  have "py_in ''check'' ''check it''" by (simp add: py_in_def sublist_Cons_right)
  then have "check_known_change ''check it'' [] 7 ''SET_GOAL_LIFECYCLE'' ''g1'' pause_request open_record
      = (pause_change, [])"
    by (simp add: check_known_change_def literal_evidence_def Let_def reads revision_errors_def lifecycle_errors_def
        settable_lifecycles_def pause_change_def)
  then show ?thesis
    by (simp add: validate_goal_changes_def check_goal_change_def Let_def reads by_id goal_change_operations_def)
qed


text \<open>
  The validation does not consult the lifecycle table: reopening a completed goal passes it,
  and is then refused when the contract is applied.
\<close>

lemma reopening_passes_validation:
  assumes "raw = [(''operation'', PStr ''SET_GOAL_LIFECYCLE''), (''goal_id'', PStr ''g2''),
      (''expected_revision'', PInt 3), (''evidence_span'', PStr ''check''), (''from'', PStr ''COMPLETED''),
      (''to'', PStr ''ACTIVE'')]"
  shows "\<exists>change. validate_goal_changes [PDict raw] ''check it'' [PDict closed_record] [] 7 = ([change], [])
    \<and> apply_goal_change 7 change [closed_record] = Inl ''invalid_goal_transition:g2:COMPLETED->ACTIVE''"
proof -
  define change where "change = [(''operation'', PStr ''SET_GOAL_LIFECYCLE''), (''goal_id'', PStr ''g2''),
     (''expected_revision'', PInt 3), (''validated_against_revision'', PInt 3), (''next_revision'', PInt 4),
     (''evidence_span'', PStr ''check''), (''evidence_turn'', PInt 7), (''from'', PStr ''COMPLETED''),
     (''to'', PStr ''ACTIVE'')]"
  have by_id: "records_by_id [closed_record] = [(''g2'', closed_record)]"
    by (simp add: records_by_id_def closed_record_def)
  have reads: "limited 80 (dget raw ''operation'') = ''SET_GOAL_LIFECYCLE''"
      "limited 200 (dget raw ''goal_id'') = ''g2''" "limited 40 (dget raw ''from'') = ''COMPLETED''"
      "limited 40 (dget raw ''to'') = ''ACTIVE''" "limited 500 (dget raw ''evidence_span'') = ''check''"
      "revision_value (dget raw ''expected_revision'') (-1) = 3" "listed_lifecycle closed_record = ''COMPLETED''"
      "record_revision (PDict closed_record) = 3" "lifecycle_of closed_record = ''COMPLETED''"
      "goal_id_of closed_record = ''g2''" "dget closed_record ''goal_id'' = PStr ''g2''"
    by (simp_all add: assms limited_def listed_lifecycle_def closed_record_def py_or_def record_revision_def
        lifecycle_of_def goal_id_of_def)
  have "py_in ''check'' ''check it''" by (simp add: py_in_def sublist_Cons_right)
  then have "check_known_change ''check it'' [] 7 ''SET_GOAL_LIFECYCLE'' ''g2'' raw closed_record = (change, [])"
    by (simp add: check_known_change_def literal_evidence_def Let_def reads revision_errors_def lifecycle_errors_def
        settable_lifecycles_def change_def)
  then have "validate_goal_changes [PDict raw] ''check it'' [PDict closed_record] [] 7 = ([change], [])"
    by (simp add: validate_goal_changes_def check_goal_change_def Let_def reads by_id goal_change_operations_def)
  moreover have "apply_goal_change 7 change [closed_record] = Inl ''invalid_goal_transition:g2:COMPLETED->ACTIVE''"
    by (simp add: apply_goal_change_def row_of_def change_def assert_validated_change_def reads Let_def
        require_def changed_record_def transition_goal_def all_lifecycles_def active_lifecycles_def terminal_lifecycles_def
        transitions_from_def allowed_transitions_def)
  ultimately show ?thesis by blast
qed

section \<open>References\<close>


definition sample_reference :: pydict where
  "sample_reference = [(''reference_type'', PStr ''explicit_result_ref''), (''expected_cardinality'', PStr ''unknown''),
     (''result_ref'', PStr ''r1'')]"

text \<open>A visible result with the given members.\<close>

definition sample_result :: "pyval list \<Rightarrow> pydict" where
  "sample_result hs = [(''result_ref'', PStr ''r1''), (''source_turn'', PInt 3), (''member_handles'', PList hs)]"

definition sample_proof :: "(string \<Rightarrow> string) \<Rightarrow> pyval list \<Rightarrow> pydict" where
  "sample_proof sha hs = with_digest sha (proof_payload ''explicit_result_ref'' sample_reference
     [PDict [(''result_ref'', PStr ''r1''), (''source_turn'', PInt 3), (''shape'', PStr []),
       (''member_count'', PInt (int (length hs))), (''resource_types'', PList []),
       (''checks'', PDict [(''visible_to_user'', PBool True), (''scope_valid'', PBool True),
          (''not_expired'', PBool True), (''object_type_match'', PBool True), (''object_type_proven'', PBool False)])]]
     \<lparr>oc_status = ''UNIQUE'', oc_ref = Some ''r1'', oc_members = filter (\<lambda>s. s \<noteq> []) (map py_str hs), oc_position = None\<rparr>
     [[sample_result hs]])"

lemma r1_texts [simp]: "py_strip ''r1'' = ''r1''" "py_len ''r1'' = 2"
  by (simp_all add: printable_def py_len_def)

lemma list_of_either: "list_of (py_or PNone (PList hs)) = Inr hs"
  by (simp add: py_or_def)

lemma sample_resolved:
  "resolve_reference_expression sha sample_reference [PDict (sample_result hs)] = Inr (sample_proof sha hs)"
proof -
  let ?r = "sample_result hs"
  have handle: "ref_handle ?r = ''r1''" by (simp add: ref_handle_def sample_result_def)
  have visible: "visible_rows [PDict ?r] = [?r]" by (simp add: visible_rows_def handle)
  have turn: "source_turn ?r = Inr 3" "recency_key ?r = Inr (3, 0)"
    by (simp_all add: source_turn_def recency_key_def sample_result_def int_or_raise_def)
  have recent: "by_recency [?r] = Inr [?r]"
    by (simp add: by_recency_def turn sorted_desc_def)
  have reads: "text_of (dget sample_reference ''reference_type'') = ''explicit_result_ref''"
      "text_of (py_or (dget sample_reference ''expected_cardinality'') (PStr ''unknown'')) = ''unknown''"
      "text_of (dget sample_reference ''result_ref'') = ''r1''" "dget sample_reference ''object_type'' = PNone"
    by (simp_all add: sample_reference_def py_or_def)
  have cands: "candidates_of ''explicit_result_ref'' sample_reference [?r] = Inr [?r]"
    by (simp add: candidates_of_def handle reads)
  have match: "matches_object_type ?r PNone = Inr True" by (simp add: matches_object_type_def)
  have fit: "fitting ''explicit_result_ref'' ''unknown'' [?r] = Inr [?r]"
    by (simp add: fitting_def about_members_def select_def cardinality_matches_def)
  have key: "\<exists>k. visible_result_scope_key ?r = Inr k"
    by (simp add: visible_result_scope_key_def text_list_def sample_result_def list_of_either Let_def)
  then have groups: "scope_groups ''explicit_result_ref'' [?r] = Inr [[?r]]"
    by (auto simp: scope_groups_def)
  have pref: "preferred ''unknown'' [?r] = ?r" by (simp add: preferred_def Let_def)
  have "resolve_group ''explicit_result_ref'' sample_reference ''unknown'' [?r]
      = Inr \<lparr>oc_status = ''UNIQUE'', oc_ref = Some ''r1'', oc_members = filter (\<lambda>s. s \<noteq> []) (map py_str hs),
        oc_position = None\<rparr>"
    by (simp add: resolve_group_def pref handle Let_def) (simp add: sample_result_def text_list_def list_of_either)
  then have dec: "decide ''explicit_result_ref'' sample_reference ''unknown'' [?r] [?r] [?r] [[?r]]
      = Inr \<lparr>oc_status = ''UNIQUE'', oc_ref = Some ''r1'', oc_members = filter (\<lambda>s. s \<noteq> []) (map py_str hs),
        oc_position = None\<rparr>"
    by (simp add: decide_def)
  have row: "candidate_row sample_reference ?r = Inr (PDict [(''result_ref'', PStr ''r1''), (''source_turn'', PInt 3),
       (''shape'', PStr []), (''member_count'', PInt (int (length hs))), (''resource_types'', PList []),
       (''checks'', PDict [(''visible_to_user'', PBool True), (''scope_valid'', PBool True),
          (''not_expired'', PBool True), (''object_type_match'', PBool True), (''object_type_proven'', PBool False)])])"
    by (simp add: candidate_row_def turn handle match reads(4))
      (simp add: resource_types_def handles_of_def sample_result_def)
  have type: "''explicit_result_ref'' \<in> set reference_types" by (simp add: reference_types_def)
  show ?thesis
    by (simp add: resolve_reference_expression_def visible recent reads cands match fit groups dec row type
        select_def Let_def sample_proof_def)
qed


text \<open>C23. The proof a resolution writes is accepted by the integrity check for the same expression,
  except that a unique answer must name a result and a member, which resolution does not ensure.\<close>

theorem resolution_proof_accepted:
  assumes "resolve_reference_expression sha e visible = Inr p" and "hex_digests sha"
    and "well_formed (PDict e)"
  shows "\<exists>r. referent_resolution_proof_integrity sha (PDict p) (Some e) = Inr r
    \<and> (integrity_ok r \<longleftrightarrow> (dget p ''resolution_status'' = PStr ''UNIQUE'' \<longrightarrow> answers p))"
  by (rule resolution_integrity [OF assms])

lemma sample_reference_formed: "well_formed (PDict sample_reference)"
  by (simp add: sample_reference_def)

theorem resolution_proof_accepted_witness:
  "\<exists>r. referent_resolution_proof_integrity flat_sha (PDict (sample_proof flat_sha [PStr ''h1''])) (Some sample_reference)
     = Inr r \<and> integrity_ok r"
  using resolution_proof_accepted [OF sample_resolved [of flat_sha "[PStr ''h1'']"] flat_hex sample_reference_formed]
  by (auto simp: sample_proof_def answers_def opt_val_def text_list_def)

text \<open>
  A reference to a visible result without members resolves uniquely, and its proof is then refused
  as incomplete.
\<close>

lemma empty_result_refused:
  assumes "hex_digests sha"
  shows "\<exists>p r. resolve_reference_expression sha sample_reference [PDict (sample_result [])] = Inr p
    \<and> dget p ''resolution_status'' = PStr ''UNIQUE''
    \<and> referent_resolution_proof_integrity sha (PDict p) (Some sample_reference) = Inr r \<and> \<not> integrity_ok r"
proof -
  have status: "dget (sample_proof sha []) ''resolution_status'' = PStr ''UNIQUE''"
    and members: "\<not> answers (sample_proof sha [])"
    by (simp_all add: sample_proof_def answers_def text_list_def)
  show ?thesis
    using resolution_integrity [OF sample_resolved [of sha "[]"] assms sample_reference_formed] sample_resolved
      status members by blast
qed

end
