(* ===== verification/Spec2Isabelle.thy ===== *)
theory Spec2Isabelle
  imports Biz_Http Action_Stores Commit_Once Commit_Effects Goal_Properties
begin

text \<open>
  The repository is a monorepo around a conversational agent for an e-commerce shop. Two
  Python services carry its own logic: the business service
  (\<open>src/services/business-service\<close>), which owns orders, refunds, after-sales cases, invoices,
  complaints and handoffs, and the agent service (\<open>src/services/agent-service\<close>), which turns
  a conversation into operation drafts, asks the user to confirm them and commits each one
  through the business service's API. This development models the whole business service
  behind its HTTP boundary, and the durable transaction lifecycle of the agent service: the
  rows, the policies and the repository operations that keep a confirmed command from being
  committed twice or without authority, the operation plugins and the client through which the
  agent calls the business service, the node that submits a confirmed draft, and the goals of a
  conversation: the contract one turn freezes and the records that outlive it.

  \<^bold>\<open>How the parts interact.\<close> A request reaches the business service through
  \<open>respond\<close> (\<open>api.py\<close>): the security boundary makes it an actor
  (\<open>security.py\<close>), a read is answered from the state, and a write runs its handler inside one
  transaction. Every handler checks permission, visibility and tenant, runs its change under
  the idempotency envelope (\<open>core_service.py\<close>) and appends to the audit trail. The agent
  persists a draft, issues a grant for a confirmation, reserves the grant together with the
  first attempt, calls the business service, and records the receipt before the attempt, the
  grant and the draft are closed; each of these writes is one operation of the transaction
  store (\<open>action_lifecycle_store.py\<close>) guarded by a pure policy
  (\<open>transaction_policy.py\<close>, \<open>operations/draft.py\<close>).

  \<^bold>\<open>Shared theories.\<close>
  \<^item> Prelude: list, option and result lemmas, the hint collections, the guard
    combinator of handlers that raise.
  \<^item> Py_Values: Python values as a datatype (\<open>PNone\<close>, \<open>PBool\<close>,
    \<open>PInt\<close>, \<open>PStr\<close>, \<open>PList\<close>, \<open>PDict\<close>) with truthiness, \<open>str\<close>, \<open>int\<close>, \<open>upper\<close>, \<open>strip\<close> and
    equality. A string is the list of its UTF-8 bytes; \<open>upper\<close>, \<open>lower\<close> and \<open>strip\<close> act on its
    ASCII part. There are no floats: amounts and clocks are whole numbers.
  \<^item> Tables: a SQL table is the list of its rows; \<open>INSERT\<close>, \<open>UPDATE\<close>, \<open>DELETE\<close>, \<open>SELECT\<close> and the
    unique constraints. The locale \<open>keyed_table\<close> states what a client of a keyed table relies on;
    it is interpreted on these lists.
  \<^item> Lifecycles: the locales of a finite lifecycle (a transition relation with a rank or with
    sealed states); they are interpreted on the transition tables of the code.
  \<^item> Json: \<open>json.dumps\<close> and \<open>json.loads\<close> of the standard library (escaped ASCII text,
    separators, sorted keys) with the proof that the text determines the value.

  \<^bold>\<open>Business service.\<close>
  \<^item> Biz_Model: the rows of \<open>database.py\<close> and the state record \<open>bizdb\<close>; \<open>env\<close> holds the
    clock, the fresh identifiers and the hash of one request.
  \<^item> Biz_Domain, Biz_Policy: \<open>domain.py\<close>. Resource specifications, tenant and role rules, the
    reviewed transition; the refund and after-sales policies.
  \<^item> Biz_Core: \<open>core_service.py\<close>, \<open>common.py\<close>. Audit, idempotent execution, visible orders.
  \<^item> Biz_Orders, Biz_Applications, Biz_Resources, Biz_Commands: the command handlers, and the
    command envelope of \<open>operation_commands.py\<close>.
  \<^item> Biz_Preview, Biz_Queries: previews and reads.
  \<^item> Biz_Steps, Biz_System: the abstract service \<open>biz_step\<close> (one admissible insert or one
    lifecycle transition per table) with its invariant, and the proof that every write the
    API accepts refines it; reachable states are \<open>biz_run\<close>.
  \<^item> Biz_Properties, Biz_Reads: the properties of writes and of reads and previews.
  \<^item> Biz_Security, Biz_Http: token, signature, nonce, actor; the composition of all routes.

  \<^bold>\<open>Agent transactions.\<close>
  \<^item> Txn_Draft, Txn_Policy: the states, rows and pure decisions. Untyped dictionaries that
    mirror a row are the row's record; free-form columns (projection, envelope, result) stay
    Python values, and the decisions read them as the code does.
  \<^item> Txn_Store: one function per operation of \<open>TransactionLifecycleStore\<close>. \<open>Inl\<close> is a raised
    \<open>ValueError\<close> or a violated constraint. Time stamps are integers.
  \<^item> Txn_System: every call as a step of an abstract store, its invariant, reachable stores
    (\<open>txn_run\<close>).
  \<^item> Txn_Properties: agreement of receipts, attempts and grants; single use; finality; drafts;
    reservations; columns and pages.
  \<^item> Txn_Offer: the dictionary side of \<open>operations/draft.py\<close>: the canonical command of an offer, its
    digest, and how an offer is normalised and moved.
  \<^item> Ledger: \<open>ledger/ledger.py\<close>, the conversation's list of artifacts, views, results, offers,
    authorities and receipts: validity, expiry, order, appending, and the cards shown of it.
  \<^item> Txn_Flow: \<open>authority.py\<close>, \<open>failure.py\<close>, \<open>focus.py\<close> and \<open>coordinator.py\<close>, which fill the rows of
    the store from an offer. A conversion that raises is \<open>None\<close>.
  \<^item> Txn_Reconcile: the pass of \<open>reconciliation.py\<close> over open attempts. The business call is an
    argument over an arbitrary world; a pass that raises keeps what it had written, because
    every call of the store commits on its own.
  \<^item> Txn_Recovery: what passes achieve. \<open>waiting\<close> describes an attempt whose answer was lost,
    \<open>closed_together\<close> attempt, draft, grant and receipt after a definite answer.
  \<^item> Action_Stores: idempotency records, leases with fencing tokens, outbox, action runs.

  \<^bold>\<open>The submission.\<close>
  \<^item> Op_Plugins: \<open>operations/base.py\<close>, \<open>capability.py\<close>, \<open>registry.py\<close>, the frozen capability of a
    draft, and the declared order operations. A \<open>ValueError\<close> and any other exception of a plugin
    are the two constructors of \<open>plugin_fault\<close>, because the callers catch only the first.
  \<^item> Agent_Client: \<open>business_client.py\<close> and \<open>business_port.py\<close>: the actor of a call, its signed
    headers, and the request loop; the wire is an argument that answers or stays silent. The
    loop is a total function: retries are bounded by its limit argument.
  \<^item> Op_Contract: the two services against each other: signatures, and the command envelope.
  \<^item> Commit_Once: the reconciliation pass over this client and the modelled business service, with
    a schedule of lost requests, lost replies and requests of others.
  \<^item> Txn_Commit: \<open>commit_runtime.py\<close> with the preflight and the way back to the authority card
    (\<open>gateway_runtime.py\<close>). A node maps store and world to store, world and the patch of the graph
    state; \<open>None\<close> is an exception, after which what was written stays written.
  \<^item> Ledger_Facts: a normalised ledger reads back as it is, and an appended draft comes back with
    every field the ledger does not maintain itself.
  \<^item> Commit_Safety, Commit_Effects: what the node executes, what it writes, what it reports.

  \<^bold>\<open>Goals.\<close> The model proposes what the user wants; these modules decide what of it becomes
  formal. A proposal is normalised and frozen into the semantic contract of the turn, every reader
  checks the contract's integrity, and applying it moves the durable goal records, blockers and
  focus. All data are Python dicts here, as in the code; \<open>Inl\<close> is an exception with its text.
  \<^item> Goal_Text: the \<open>_text\<close> helper of these modules (strip, then cut at a limit of code points),
    and the combinators of fallible steps (\<open>and_then\<close>, \<open>each\<close>, \<open>thread\<close>) with their lemmas.
  \<^item> Goal_Condition: \<open>condition_expression.py\<close>, and the inductive \<open>canonical\<close>: what a normalised
    condition looks like.
  \<^item> Goal_Graph: the dependency graph of \<open>kernel/semantic_contract.py\<close> and its depth-first search,
    with the proof that it is exact. \<open>visit\<close> terminates because its path grows within the keys.
  \<^item> Goal_Integrity: the rest of \<open>kernel/semantic_contract.py\<close>: targets, digests, the integrity check.
  \<^item> Goal_Changes: \<open>semantic_state_changes.py\<close>, changes of goals and of the focus.
  \<^item> Goal_Records: \<open>goal_lifecycle.py\<close>, \<open>goal_blockers.py\<close>, and the publishing of a contract in
    \<open>tool_execution_runtime.py\<close>; the relations \<open>record_step\<close> and \<open>declared_step\<close> abstract a record's life.
  \<^item> Goal_Reference: \<open>reference_resolution.py\<close>, references to results shown earlier.
  \<^item> Goal_Contract: \<open>lifecycle/semantic_contract.py\<close>, freezing.
  \<^item> Goal_Accept, Goal_Frozen, Goal_Resolved: what validation promises to application, what
    freezing promises to the integrity check, what a resolution means and that its proof is accepted.
  \<^item> Goal_Properties: the properties, at sample goals, contracts and references.

  \<^bold>\<open>What the lemmas show.\<close> The refinement lemmas (\<open>serve_step\<close>, \<open>txn_apply_step\<close>) reduce a
  property of all operations to one case analysis over a small step relation; the invariants
  (\<open>biz_step_inv\<close>, \<open>txn_step_inv\<close>) then hold in every reachable state, and the properties are
  read off them. The characterisations give both directions: exactly when an operation
  succeeds and exactly what it then changes. Several theorems show what the code does not
  guarantee; they are the ones of kind error, and the findings of the manifest name them.

  \<^bold>\<open>Bounds.\<close> States, runs and data are arbitrary and no fuel is used; Python integers are \<open>int\<close>.
  One property assumes that the ledger has three entries to spare below its limit of 200, since
  a full ledger may drop the draft it is about.
  Those about frozen contracts assume that goal ids read back as they were cut (\<open>settled\<close>: at most
  200 code points, no blank at either end), that the digest function answers 64 hexadecimal digits
  (\<open>hex_digests\<close>) and that the number of the turn has at most 200 digits, because the code cuts the
  contract's id at 300. A condition nests at most four connectives of at most eight arguments.

  \<^bold>\<open>Not modelled.\<close> Message texts for people; connection handling, the PostgreSQL
  adapter and migrations (pure I/O); the pydantic and FastAPI machinery beyond the order of its
  checks and the limits of the request bodies; HMAC and SHA-256, which are parameters. A model
  operation is atomic: each one runs inside one transaction or under one lock. Of the agent
  service the planning of tool calls, retrieval, model calls and presentation, the schemas and
  prompt texts shown to the model (\<open>condition_schema\<close>, the prompt contract of references), the gateway
  node and the interaction runtimes before a confirmation, the read endpoints of the client and the
  SQLAlchemy twin of the store, which shares the modelled policies, are not modelled, and
  neither is the skill system, a build-time tool chain of the repository.
\<close>

end
